(* ===== verification/Prelude.thy ===== *)
theory Prelude
  imports Main "HOL-Library.Sublist"
begin

text \<open>
  Shared vocabulary of the development: Go's \<open>(value, error)\<close> results as sums, programs that
  thread a state and may stop with an error, and the list operations that Go's slice idioms
  (remove one element by index, update the first match) stand for.
\<close>

section \<open>Errors and results\<close>

text \<open>
  A Go error is known by its message: \<open>err.Error()\<close> is what the code inspects. A pair
  \<open>(v, err)\<close> where exactly one component is meaningful is a sum.
\<close>

type_synonym go_error = string
type_synonym 'a go_result = "go_error + 'a"

named_theorems prog_simps "unfolding of the program combinators"
named_theorems row_simps "facts on meta-database rows and columns"
named_theorems frame_simps "fields an operation does not write"

section \<open>Programs: state passing with early return on error\<close>

text \<open>
  \<open>x, err := m(); if err != nil { return err }\<close> is \<open>bindP m (\<lambda>x. ...)\<close>: the state changes
  made before the error stay, the rest of the function is skipped.
\<close>

type_synonym ('s, 'a) prog = "'s \<Rightarrow> 'a go_result \<times> 's"

definition ret :: "'a \<Rightarrow> ('s, 'a) prog" where
  "ret x = (\<lambda>s. (Inr x, s))"

definition throw :: "go_error \<Rightarrow> ('s, 'a) prog" where
  "throw e = (\<lambda>s. (Inl e, s))"

definition bindP :: "('s, 'a) prog \<Rightarrow> ('a \<Rightarrow> ('s, 'b) prog) \<Rightarrow> ('s, 'b) prog" where
  "bindP m f = (\<lambda>s. case m s of (Inl e, s') \<Rightarrow> (Inl e, s') | (Inr x, s') \<Rightarrow> f x s')"

definition lift_result :: "'a go_result \<Rightarrow> ('s, 'a) prog" where
  "lift_result r = (\<lambda>s. (r, s))"

text \<open>
  \<open>catchP m h k\<close>: the caller looks at the error itself, as in \<open>if err != nil { ... }\<close> blocks
  that do more than return.
\<close>

definition catchP :: "('s, 'a) prog \<Rightarrow> (go_error \<Rightarrow> ('s, 'b) prog) \<Rightarrow> ('a \<Rightarrow> ('s, 'b) prog) \<Rightarrow> ('s, 'b) prog" where
  "catchP m h k = (\<lambda>s. case m s of (Inl e, s') \<Rightarrow> h e s' | (Inr x, s') \<Rightarrow> k x s')"

lemma ret_run [prog_simps]: "ret x s = (Inr x, s)"
  by (simp add: ret_def)

lemma throw_run [prog_simps]: "throw e s = (Inl e, s)"
  by (simp add: throw_def)

lemma lift_result_run [prog_simps]: "lift_result r s = (r, s)"
  by (simp add: lift_result_def)

lemma bindP_run [prog_simps]:
  "bindP m f s = (case m s of (Inl e, s') \<Rightarrow> (Inl e, s') | (Inr x, s') \<Rightarrow> f x s')"
  by (simp add: bindP_def)

lemma catchP_run [prog_simps]:
  "catchP m h k s = (case m s of (Inl e, s') \<Rightarrow> h e s' | (Inr x, s') \<Rightarrow> k x s')"
  by (simp add: catchP_def)

lemma bindP_Inr:
  "bindP m f s = (Inr y, s'') \<longleftrightarrow> (\<exists>x s'. m s = (Inr x, s') \<and> f x s' = (Inr y, s''))"
  by (auto simp: bindP_def split: prod.splits sum.splits)

lemma bindP_Inl:
  "bindP m f s = (Inl e, s'') \<longleftrightarrow>
     m s = (Inl e, s'') \<or> (\<exists>x s'. m s = (Inr x, s') \<and> f x s' = (Inl e, s''))"
  by (auto simp: bindP_def split: prod.splits sum.splits)

lemma bindP_ok: "m s = (Inr x, s') \<Longrightarrow> bindP m f s = f x s'"
  by (simp add: bindP_def)

lemma bindP_err: "m s = (Inl e, s') \<Longrightarrow> bindP m f s = (Inl e, s')"
  by (simp add: bindP_def)

subsection \<open>Properties every step of a program keeps\<close>

text \<open>
  \<open>preserves R m\<close>: running \<open>m\<close>, with or without an error, moves the state only along \<open>R\<close>.
\<close>

definition preserves :: "('s \<Rightarrow> 's \<Rightarrow> bool) \<Rightarrow> ('s, 'a) prog \<Rightarrow> bool" where
  "preserves R m \<longleftrightarrow> (\<forall>s. R s (snd (m s)))"

lemma preservesI [intro?]: "(\<And>s. R s (snd (m s))) \<Longrightarrow> preserves R m"
  by (simp add: preserves_def)

lemma preservesD: "preserves R m \<Longrightarrow> R s (snd (m s))"
  by (simp add: preserves_def)

lemma preserves_pure [simp]:
  assumes "reflp R"
  shows "preserves R (ret x)" and "preserves R (throw e)" and "preserves R (lift_result r)"
  using assms by (simp_all add: preserves_def reflp_def prog_simps)

lemma preserves_bindP:
  assumes "transp R" and "preserves R m" and "\<And>x. preserves R (f x)"
  shows "preserves R (bindP m f)"
proof (rule preservesI)
  fix s
  from assms(2) have m: "R s (snd (m s))" by (rule preservesD)
  have "R (snd (m s)) (snd (f x (snd (m s))))" for x
    using assms(3) by (rule preservesD)
  with m assms(1) show "R s (snd (bindP m f s))"
    unfolding transp_def by (fastforce simp: bindP_def split: prod.splits sum.splits)
qed

lemma preserves_catchP:
  assumes "transp R" and "preserves R m" and "\<And>e. preserves R (h e)" and "\<And>x. preserves R (k x)"
  shows "preserves R (catchP m h k)"
proof (rule preservesI)
  fix s
  from assms(2) have m: "R s (snd (m s))" by (rule preservesD)
  have "R (snd (m s)) (snd (h e (snd (m s))))" and "R (snd (m s)) (snd (k x (snd (m s))))" for e x
    using assms(3,4) by (auto intro: preservesD)
  with m assms(1) show "R s (snd (catchP m h k s))"
    unfolding transp_def by (fastforce simp: catchP_def split: prod.splits sum.splits)
qed

subsection \<open>Weakest preconditions\<close>

text \<open>
  \<open>wp m Q E s\<close>: \<open>m\<close> run from \<open>s\<close> ends in \<open>Q\<close> when it returns a value and in \<open>E\<close> when it returns an error.
  The equations \<open>wp_simps\<close> walk through a program; each operation of a component contributes a rule to
  \<open>wp_rules\<close> that says what its caller may rely on.
\<close>

named_theorems wp_simps "weakest preconditions of the program combinators"
named_theorems wp_rules "what the operations of the components establish"

definition wp :: "('s, 'a) prog \<Rightarrow> ('a \<Rightarrow> 's \<Rightarrow> bool) \<Rightarrow> (go_error \<Rightarrow> 's \<Rightarrow> bool) \<Rightarrow> 's \<Rightarrow> bool" where
  "wp m Q E s = (case m s of (Inr x, s') \<Rightarrow> Q x s' | (Inl e, s') \<Rightarrow> E e s')"

lemma wp_ret [wp_simps]: "wp (ret x) Q E s = Q x s"
  by (simp add: wp_def prog_simps)

lemma wp_throw [wp_simps]: "wp (throw e) Q E s = E e s"
  by (simp add: wp_def prog_simps)

lemma wp_lift_result [wp_simps]:
  "wp (lift_result r) Q E s = (case r of Inr x \<Rightarrow> Q x s | Inl e \<Rightarrow> E e s)"
  by (simp add: wp_def prog_simps)

lemma wp_bindP [wp_simps]: "wp (bindP m f) Q E s = wp m (\<lambda>x. wp (f x) Q E) E s"
  by (simp add: wp_def bindP_def split: prod.split sum.split)

lemma wp_catchP [wp_simps]: "wp (catchP m h k) Q E s = wp m (\<lambda>x. wp (k x) Q E) (\<lambda>e. wp (h e) Q E) s"
  by (simp add: wp_def catchP_def split: prod.split sum.split)

lemma wp_if [wp_simps]: "wp (if b then m else m') Q E s = (if b then wp m Q E s else wp m' Q E s)"
  by simp

text \<open>The same as introduction rules, for walking through a whole function.\<close>

lemma wp_retI [wp_rules]: "Q x s \<Longrightarrow> wp (ret x) Q E s"
  by (simp add: wp_ret)

lemma wp_throwI [wp_rules]: "E e s \<Longrightarrow> wp (throw e) Q E s"
  by (simp add: wp_throw)

lemma wp_lift_resultI [wp_rules]:
  "(\<And>x. r = Inr x \<Longrightarrow> Q x s) \<Longrightarrow> (\<And>e. r = Inl e \<Longrightarrow> E e s) \<Longrightarrow> wp (lift_result r) Q E s"
  by (simp add: wp_lift_result split: sum.split)

lemma wp_bindPI [wp_rules]: "wp m (\<lambda>x. wp (f x) Q E) E s \<Longrightarrow> wp (bindP m f) Q E s"
  by (simp add: wp_bindP)

lemma wp_catchPI [wp_rules]:
  "wp m (\<lambda>x. wp (k x) Q E) (\<lambda>e. wp (h e) Q E) s \<Longrightarrow> wp (catchP m h k) Q E s"
  by (simp add: wp_catchP)

lemma wp_ifI [wp_rules]:
  "(b \<Longrightarrow> wp m Q E s) \<Longrightarrow> (\<not> b \<Longrightarrow> wp m' Q E s) \<Longrightarrow> wp (if b then m else m') Q E s"
  by simp

lemma wp_case_prodI [wp_rules]: "(\<And>a b. p = (a, b) \<Longrightarrow> wp (f a b) Q E s) \<Longrightarrow> wp (case p of (a, b) \<Rightarrow> f a b) Q E s"
  by (cases p) simp

lemma wp_case_optionI [wp_rules]:
  "(v = None \<Longrightarrow> wp m Q E s) \<Longrightarrow> (\<And>x. v = Some x \<Longrightarrow> wp (f x) Q E s) \<Longrightarrow>
   wp (case v of None \<Rightarrow> m | Some x \<Rightarrow> f x) Q E s"
  by (cases v) simp_all

lemma wp_case_sumI [wp_rules]:
  "(\<And>e. v = Inl e \<Longrightarrow> wp (f e) Q E s) \<Longrightarrow> (\<And>x. v = Inr x \<Longrightarrow> wp (g x) Q E s) \<Longrightarrow>
   wp (case v of Inl e \<Rightarrow> f e | Inr x \<Rightarrow> g x) Q E s"
  by (cases v) simp_all

lemma wp_mono:
  assumes "wp m Q E s" and "\<And>x s'. Q x s' \<Longrightarrow> Q' x s'" and "\<And>e s'. E e s' \<Longrightarrow> E' e s'"
  shows "wp m Q' E' s"
  using assms by (auto simp: wp_def split: prod.splits sum.splits)

lemma wp_conj:
  assumes "wp m Q E s" and "wp m Q' E' s"
  shows "wp m (\<lambda>x s'. Q x s' \<and> Q' x s') (\<lambda>e s'. E e s' \<and> E' e s') s"
  using assms by (auto simp: wp_def split: prod.splits sum.splits)

lemma wpI:
  assumes "\<And>x s'. m s = (Inr x, s') \<Longrightarrow> Q x s'" and "\<And>e s'. m s = (Inl e, s') \<Longrightarrow> E e s'"
  shows "wp m Q E s"
  using assms by (auto simp: wp_def split: prod.splits sum.splits)

lemma wp_okD: "wp m Q E s \<Longrightarrow> m s = (Inr x, s') \<Longrightarrow> Q x s'"
  by (simp add: wp_def)

lemma wp_errD: "wp m Q E s \<Longrightarrow> m s = (Inl e, s') \<Longrightarrow> E e s'"
  by (simp add: wp_def)

lemma wp_ok_run: "wp m Q E s \<Longrightarrow> fst (m s) = Inr x \<Longrightarrow> Q x (snd (m s))"
  by (simp add: wp_def split: prod.splits)

lemma wp_err_run: "wp m Q E s \<Longrightarrow> fst (m s) = Inl e \<Longrightarrow> E e (snd (m s))"
  by (simp add: wp_def split: prod.splits)

lemma wp_from_preserves:
  assumes "preserves R m" and "\<And>x s'. R s s' \<Longrightarrow> Q x s'" and "\<And>e s'. R s s' \<Longrightarrow> E e s'"
  shows "wp m Q E s"
  using assms(2,3) preservesD[OF assms(1), of s] by (auto simp: wp_def split: prod.splits sum.splits)

section \<open>Sets of indices described by a function\<close>

lemma Collect_fun_upd:
  "{t. P ((f(u := x)) t)} = (if P x then insert u {t. P (f t)} else {t. P (f t)} - {u})"
  by auto

section \<open>Slices\<close>

text \<open>
  \<open>for idx, x := range l { if p(x) { l = append(l[:idx], l[idx+1:]...); return } }\<close> removes the
  first element that satisfies \<open>p\<close>.
\<close>

fun remove_first :: "('a \<Rightarrow> bool) \<Rightarrow> 'a list \<Rightarrow> 'a list" where
  "remove_first p [] = []"
| "remove_first p (x # xs) = (if p x then xs else x # remove_first p xs)"

text \<open>\<open>for _, x := range l { if p(x) { *x = f(*x); return } }\<close> on a slice of pointers.\<close>

fun update_first :: "('a \<Rightarrow> bool) \<Rightarrow> ('a \<Rightarrow> 'a) \<Rightarrow> 'a list \<Rightarrow> 'a list" where
  "update_first p f [] = []"
| "update_first p f (x # xs) = (if p x then f x # xs else x # update_first p f xs)"

lemma remove_first_id: "(\<And>x. x \<in> set xs \<Longrightarrow> \<not> p x) \<Longrightarrow> remove_first p xs = xs"
  by (induction xs) auto

lemma set_remove_first_subset: "set (remove_first p xs) \<subseteq> set xs"
  by (induction xs) auto

lemma length_remove_first:
  "length (remove_first p xs) = (if \<exists>x \<in> set xs. p x then length xs - 1 else length xs)"
  by (induction xs) (auto dest: length_pos_if_in_set)

lemma map_remove_first:
  "(\<And>x. x \<in> set xs \<Longrightarrow> p x = q (f x)) \<Longrightarrow> map f (remove_first p xs) = remove_first q (map f xs)"
  by (induction xs) auto

lemma remove_first_distinct:
  "distinct (map f xs) \<Longrightarrow> remove_first (\<lambda>x. f x = k) xs = filter (\<lambda>x. f x \<noteq> k) xs"
proof (induction xs)
  case (Cons x xs)
  show ?case
  proof (cases "f x = k")
    case True
    with Cons.prems have "\<And>y. y \<in> set xs \<Longrightarrow> f y \<noteq> k" by (metis distinct.simps(2) imageI list.set_map list.simps(9))
    then have "filter (\<lambda>y. f y \<noteq> k) xs = xs" by (simp add: filter_id_conv)
    with True show ?thesis by simp
  next
    case False
    with Cons show ?thesis by simp
  qed
qed simp

lemma map_update_first:
  "(\<And>x. x \<in> set xs \<Longrightarrow> g (f x) = g x) \<Longrightarrow> map g (update_first p f xs) = map g xs"
  by (induction xs) auto

lemma length_update_first [simp]: "length (update_first p f xs) = length xs"
  by (induction xs) auto

lemma find_None_iff_all: "List.find p xs = None \<longleftrightarrow> (\<forall>x \<in> set xs. \<not> p x)"
  by (auto simp: find_None_iff)

lemma find_SomeD: "List.find p xs = Some x \<Longrightarrow> x \<in> set xs \<and> p x"
  by (induction xs) (auto split: if_splits)

lemma find_append:
  "List.find p (xs @ ys) = (case List.find p xs of None \<Rightarrow> List.find p ys | Some x \<Rightarrow> Some x)"
  by (induction xs) auto

lemma find_distinct:
  assumes "distinct (map f xs)" and "x \<in> set xs"
  shows "List.find (\<lambda>y. f y = f x) xs = Some x"
  using assms
proof (induction xs)
  case (Cons y ys)
  show ?case
  proof (cases "x = y")
    case False
    with Cons.prems have "f y \<noteq> f x" and "x \<in> set ys" by (auto simp: image_iff)
    with Cons show ?thesis by simp
  qed simp
qed simp

lemma find_update_first:
  assumes "\<And>x. p x \<Longrightarrow> p (f x)"
  shows "List.find p (update_first p f xs) = map_option f (List.find p xs)"
  using assms by (induction xs) auto

end
