(* ===== verification/GoStrings.thy ===== *)
theory GoStrings
  imports Prelude
begin

text \<open>
  The functions of Go's standard package \<open>strings\<close> that the program uses, on strings as lists
  of bytes. Case mapping and trimming are those of ASCII: a byte from 128 up is left alone (Go maps
  Unicode letters and spaces there too, which no identifier of the program uses).
\<close>

section \<open>Searching\<close>

text \<open>\<open>'%s'\<close> of a format string.\<close>

definition quoted :: "string \<Rightarrow> string" where
  "quoted s = [CHR 0x27] @ s @ [CHR 0x27]"

definition HasPrefix :: "string \<Rightarrow> string \<Rightarrow> bool" where
  "HasPrefix s p = prefix p s"

definition HasSuffix :: "string \<Rightarrow> string \<Rightarrow> bool" where
  "HasSuffix s p = suffix p s"

fun Contains :: "string \<Rightarrow> string \<Rightarrow> bool" where
  "Contains [] sub = (sub = [])"
| "Contains (c # cs) sub = (prefix sub (c # cs) \<or> Contains cs sub)"

lemma Contains_iff: "Contains s sub \<longleftrightarrow> (\<exists>p q. s = p @ sub @ q)"
proof (induction s)
  case (Cons c cs)
  show ?case
  proof
    assume "Contains (c # cs) sub"
    then consider "prefix sub (c # cs)" | "Contains cs sub" by auto
    then show "\<exists>p q. c # cs = p @ sub @ q"
    proof cases
      case 1
      then obtain q where "c # cs = [] @ sub @ q" by (auto simp: prefix_def)
      then show ?thesis by blast
    next
      case 2
      with Cons.IH obtain p q where "cs = p @ sub @ q" by blast
      then have "c # cs = (c # p) @ sub @ q" by simp
      then show ?thesis by blast
    qed
  next
    assume "\<exists>p q. c # cs = p @ sub @ q"
    then obtain p q where e: "c # cs = p @ sub @ q" by blast
    show "Contains (c # cs) sub"
    proof (cases p)
      case Nil
      with e have "prefix sub (c # cs)" by (auto simp: prefix_def)
      then show ?thesis by simp
    next
      case (Cons d p')
      with e have "cs = p' @ sub @ q" by simp
      with Cons.IH show ?thesis by auto
    qed
  qed
qed auto

lemma Contains_Nil [simp]: "Contains s []"
  by (cases s) auto

lemma Contains_self [simp]: "Contains s s"
  by (cases s) auto

lemma Contains_append1: "Contains s sub \<Longrightarrow> Contains (s @ t) sub"
  unfolding Contains_iff by (metis append.assoc)

lemma Contains_append2: "Contains t sub \<Longrightarrow> Contains (s @ t) sub"
  unfolding Contains_iff by (metis append.assoc)

lemma Contains_trans:
  assumes "Contains s t" and "Contains t u"
  shows "Contains s u"
proof -
  from assms obtain p q p' q' where "s = p @ t @ q" and "t = p' @ u @ q'"
    by (auto simp: Contains_iff)
  then have "s = (p @ p') @ u @ (q' @ q)" by simp
  then show ?thesis unfolding Contains_iff by blast
qed

lemma Contains_length: "Contains s sub \<Longrightarrow> length sub \<le> length s"
  unfolding Contains_iff by auto

lemma Contains_chars: "Contains s sub \<Longrightarrow> c \<in> set sub \<Longrightarrow> c \<in> set s"
  unfolding Contains_iff by auto

section \<open>Splitting and replacing\<close>

text \<open>
  \<open>strings.Split(s, sep)\<close> for a non-empty separator: the pieces between consecutive
  non-overlapping occurrences, searched from the left. An empty separator splits into single bytes.
\<close>

function Split_from :: "string \<Rightarrow> string \<Rightarrow> string \<Rightarrow> string list" where
  "Split_from sep acc [] = [acc]"
| "Split_from sep acc (c # cs) =
     (if sep \<noteq> [] \<and> prefix sep (c # cs)
      then acc # Split_from sep [] (drop (length sep) (c # cs))
      else Split_from sep (acc @ [c]) cs)"
  by pat_completeness auto
termination
  by (relation "measure (\<lambda>(sep, acc, s). length s)") auto

definition Split :: "string \<Rightarrow> string \<Rightarrow> string list" where
  "Split s sep = (if sep = [] then map (\<lambda>c. [c]) s else Split_from sep [] s)"

text \<open>
  \<open>strings.ReplaceAll(s, old, new)\<close> for a non-empty \<open>old\<close>; the program never passes an empty one
  (Go would then insert \<open>new\<close> around every character), and the model leaves the string unchanged.
\<close>

function ReplaceAll :: "string \<Rightarrow> string \<Rightarrow> string \<Rightarrow> string" where
  "ReplaceAll [] old new = []"
| "ReplaceAll (c # cs) old new =
     (if old \<noteq> [] \<and> prefix old (c # cs)
      then new @ ReplaceAll (drop (length old) (c # cs)) old new
      else c # ReplaceAll cs old new)"
  by pat_completeness auto
termination
  by (relation "measure (\<lambda>(s, old, new). length s)") auto

fun Join :: "string list \<Rightarrow> string \<Rightarrow> string" where
  "Join [] sep = []"
| "Join [x] sep = x"
| "Join (x # y # ys) sep = x @ sep @ Join (y # ys) sep"

lemma Split_from_nonempty [simp]: "Split_from sep acc s \<noteq> []"
  by (induction sep acc s rule: Split_from.induct) auto

lemma Split_nonempty [simp]: "sep \<noteq> [] \<Longrightarrow> Split s sep \<noteq> []"
  by (simp add: Split_def)

text \<open>The first piece, for a one-character separator, is what precedes its first occurrence.\<close>

lemma hd_Split_from: "hd (Split_from [d] acc s) = acc @ takeWhile (\<lambda>c. c \<noteq> d) s"
  by (induction s arbitrary: acc) auto

lemma hd_Split: "hd (Split s [d]) = takeWhile (\<lambda>c. c \<noteq> d) s"
  by (simp add: Split_def hd_Split_from)

lemma Split_from_no_sep: "d \<notin> set s \<Longrightarrow> Split_from [d] acc s = [acc @ s]"
  by (induction s arbitrary: acc) auto

lemma Split_from_sep:
  "d \<notin> set x \<Longrightarrow> Split_from [d] acc (x @ d # s) = (acc @ x) # Split_from [d] [] s"
  by (induction x arbitrary: acc) auto

lemma Split_no_sep: "d \<notin> set s \<Longrightarrow> Split s [d] = [s]"
  by (simp add: Split_def Split_from_no_sep)

lemma Split_sep: "d \<notin> set x \<Longrightarrow> Split (x @ d # s) [d] = x # Split s [d]"
  by (simp add: Split_def Split_from_sep)

lemma Join_Split_from: "Join (Split_from [d] acc s) [d] = acc @ s"
proof (induction s arbitrary: acc)
  case (Cons c cs)
  show ?case
  proof (cases "c = d")
    case True
    obtain y ys where "Split_from [d] [] cs = y # ys"
      by (cases "Split_from [d] [] cs") auto
    with Cons.IH[of "[]"] True show ?thesis by simp
  next
    case False
    with Cons.IH[of "acc @ [c]"] show ?thesis by simp
  qed
qed simp

lemma Join_Split: "Join (Split s [d]) [d] = s"
  by (simp add: Split_def Join_Split_from)

lemma ReplaceAll_absent: "\<not> Contains s old \<Longrightarrow> ReplaceAll s old new = s"
proof (induction s old new rule: ReplaceAll.induct)
  case (2 c cs old new)
  then show ?case by auto
qed simp

lemma ReplaceAll_prefix:
  "old \<noteq> [] \<Longrightarrow> ReplaceAll (old @ s) old new = new @ ReplaceAll s old new"
proof -
  assume ne: "old \<noteq> []"
  then obtain c cs where e: "old @ s = c # cs" by (cases "old @ s") auto
  have "prefix old (c # cs)" by (simp flip: e)
  moreover have "drop (length old) (c # cs) = s" by (simp flip: e)
  ultimately show ?thesis using ne by (simp add: e)
qed

lemma ReplaceAll_set: "set (ReplaceAll s old new) \<subseteq> set s \<union> set new"
proof (induction s old new rule: ReplaceAll.induct)
  case (2 c cs old new)
  show ?case
  proof (cases "old \<noteq> [] \<and> prefix old (c # cs)")
    case True
    have "set (drop (length old) (c # cs)) \<subseteq> set (c # cs)" by (rule set_drop_subset)
    with True 2 show ?thesis by auto
  next
    case False
    with 2 show ?thesis by auto
  qed
qed simp

lemma ReplaceAll_length_le:
  "length new \<le> length old \<Longrightarrow> length (ReplaceAll s old new) \<le> length s"
proof (induction s old new rule: ReplaceAll.induct)
  case (2 c cs old new)
  show ?case
  proof (cases "old \<noteq> [] \<and> prefix old (c # cs)")
    case True
    then have "length old \<le> length (c # cs)" by (auto dest: prefix_length_le)
    with True 2 show ?thesis by auto
  next
    case False
    with 2 show ?thesis by auto
  qed
qed simp

text \<open>Replacing a single character by another is a map over the string.\<close>

lemma ReplaceAll_char: "ReplaceAll s [a] [b] = map (\<lambda>c. if c = a then b else c) s"
  by (induction s) auto

lemma ReplaceAll_delete_char: "ReplaceAll s [a] [] = filter (\<lambda>c. c \<noteq> a) s"
  by (induction s) auto

section \<open>Case and blanks\<close>

definition lower_char :: "char \<Rightarrow> char" where
  "lower_char c = (let n = of_char c :: nat in if 65 \<le> n \<and> n \<le> 90 then char_of (n + 32) else c)"

definition upper_char :: "char \<Rightarrow> char" where
  "upper_char c = (let n = of_char c :: nat in if 97 \<le> n \<and> n \<le> 122 then char_of (n - 32) else c)"

definition ToLower :: "string \<Rightarrow> string" where
  "ToLower s = map lower_char s"

definition ToUpper :: "string \<Rightarrow> string" where
  "ToUpper s = map upper_char s"

definition is_space :: "char \<Rightarrow> bool" where
  "is_space c = (let n = of_char c :: nat in n = 32 \<or> (9 \<le> n \<and> n \<le> 13))"

definition TrimSpace :: "string \<Rightarrow> string" where
  "TrimSpace s = rev (dropWhile is_space (rev (dropWhile is_space s)))"

lemma of_char_lower_char:
  "of_char (lower_char c) = (let n = of_char c :: nat in if 65 \<le> n \<and> n \<le> 90 then n + 32 else n)"
  by (simp add: lower_char_def Let_def)

lemma of_char_upper_char:
  "of_char (upper_char c) = (let n = of_char c :: nat in if 97 \<le> n \<and> n \<le> 122 then n - 32 else n)"
proof -
  have "(of_char c :: nat) < 256" by (rule nat_of_char_less_256)
  then have "of_char c - 32 < (256 :: nat)" by linarith
  then show ?thesis by (simp add: upper_char_def Let_def)
qed

lemma lower_char_idem [simp]: "lower_char (lower_char c) = lower_char c"
  by (auto simp: lower_char_def Let_def)

lemma upper_char_idem [simp]: "upper_char (upper_char c) = upper_char c"
  by (auto simp: upper_char_def Let_def)

lemma ToLower_idem [simp]: "ToLower (ToLower s) = ToLower s"
  by (simp add: ToLower_def)

lemma ToUpper_idem [simp]: "ToUpper (ToUpper s) = ToUpper s"
  by (simp add: ToUpper_def)

lemma ToLower_append [simp]: "ToLower (s @ t) = ToLower s @ ToLower t"
  by (simp add: ToLower_def)

lemma length_ToLower [simp]: "length (ToLower s) = length s"
  by (simp add: ToLower_def)

lemma ToLower_Nil [simp]: "ToLower [] = []"
  by (simp add: ToLower_def)

lemma TrimSpace_no_space: "(\<And>c. c \<in> set s \<Longrightarrow> \<not> is_space c) \<Longrightarrow> TrimSpace s = s"
proof -
  assume ns: "\<And>c. c \<in> set s \<Longrightarrow> \<not> is_space c"
  then have "dropWhile is_space s = s" by (cases s) auto
  moreover have "dropWhile is_space (rev s) = rev s"
  proof (cases s rule: rev_cases)
    case (snoc ys y)
    with ns[of y] show ?thesis by simp
  qed simp
  ultimately show ?thesis by (simp add: TrimSpace_def)
qed

lemma dropWhile_idem: "dropWhile p (dropWhile p xs) = dropWhile p xs"
  by (induction xs) auto

lemma TrimSpace_subset: "set (TrimSpace s) \<subseteq> set s"
  unfolding TrimSpace_def by (metis set_dropWhileD set_rev subsetI)

lemma TrimSpace_ends:
  assumes "TrimSpace s \<noteq> []"
  shows "\<not> is_space (hd (TrimSpace s))" and "\<not> is_space (last (TrimSpace s))"
proof -
  let ?d = "dropWhile is_space s"
  have d: "\<not> is_space (hd (dropWhile is_space xs))" if "dropWhile is_space xs \<noteq> []" for xs
    using that by (rule hd_dropWhile)
  from assms have ne: "dropWhile is_space (rev ?d) \<noteq> []" by (simp add: TrimSpace_def)
  show "\<not> is_space (last (TrimSpace s))"
    using d[OF ne] ne by (simp add: TrimSpace_def last_rev)
  have "suffix (dropWhile is_space (rev ?d)) (rev ?d)" by (rule suffix_dropWhile)
  then have "prefix (TrimSpace s) ?d"
    by (simp add: TrimSpace_def suffix_to_prefix)
  with assms obtain r where "?d = TrimSpace s @ r" by (auto simp: prefix_def)
  with assms have "hd (TrimSpace s) = hd ?d" and "?d \<noteq> []" by auto
  with d[of s] show "\<not> is_space (hd (TrimSpace s))" by simp
qed

lemma TrimSpace_id: "s = [] \<or> \<not> is_space (hd s) \<and> \<not> is_space (last s) \<Longrightarrow> TrimSpace s = s"
proof -
  have d: "dropWhile is_space xs = xs" if "xs = [] \<or> \<not> is_space (hd xs)" for xs
    using that by (cases xs) auto
  assume "s = [] \<or> \<not> is_space (hd s) \<and> \<not> is_space (last s)"
  then have "s = [] \<or> \<not> is_space (hd s)" and "rev s = [] \<or> \<not> is_space (hd (rev s))" by (auto simp: hd_rev)
  then show ?thesis using d[of s] d[of "rev s"] by (simp add: TrimSpace_def)
qed

lemma TrimSpace_idem [simp]: "TrimSpace (TrimSpace s) = TrimSpace s"
  using TrimSpace_ends[of s] by (intro TrimSpace_id) blast

section \<open>Numbers in text\<close>

definition digit_val :: "char \<Rightarrow> nat option" where
  "digit_val c = (let n = of_char c :: nat in if 48 \<le> n \<and> n \<le> 57 then Some (n - 48) else None)"

fun parse_digits :: "nat \<Rightarrow> string \<Rightarrow> nat option" where
  "parse_digits acc [] = Some acc"
| "parse_digits acc (c # cs) =
     (case digit_val c of None \<Rightarrow> None | Some d \<Rightarrow> parse_digits (10 * acc + d) cs)"

text \<open>
  \<open>strconv.Atoi\<close>: an optional sign and decimal digits, as a 64-bit \<open>int\<close>. The second component says
  whether the error is nil; on a syntax error the value is 0, out of range it is the nearest bound.
\<close>

definition Atoi :: "string \<Rightarrow> int \<times> bool" where
  "Atoi s =
     (let (neg, ds) = (case s of [] \<Rightarrow> (False, [])
            | c # cs \<Rightarrow> if c = CHR ''-'' then (True, cs) else if c = CHR ''+'' then (False, cs) else (False, s))
      in if ds = [] then (0, False)
         else case parse_digits 0 ds of
             None \<Rightarrow> (0, False)
           | Some n \<Rightarrow>
               (let v = (if neg then - int n else int n)
                in if v > 2 ^ 63 - 1 then (2 ^ 63 - 1, False)
                   else if v < - (2 ^ 63) then (- (2 ^ 63), False)
                   else (v, True)))"

text \<open>\<open>strconv.Itoa\<close> of a natural number.\<close>

fun Itoa :: "nat \<Rightarrow> string" where
  "Itoa n = (if n < 10 then [char_of (48 + n)] else Itoa (n div 10) @ [char_of (48 + n mod 10)])"

declare Itoa.simps [simp del]

text \<open>
  The error of \<open>strconv.Atoi\<close>. The argument is shown by \<open>strconv.Quote\<close>, whose escapes are given for the ASCII
  characters; bytes from 128 on are kept.
\<close>

definition hex_digit :: "nat \<Rightarrow> char" where
  "hex_digit n = char_of (if n < 10 then 48 + n else 87 + n)"

definition quote_char :: "char \<Rightarrow> string" where
  "quote_char c =
     (let n = of_char c :: nat
      in if n = 34 \<or> n = 92 then [CHR 0x5C, c]
         else if 7 \<le> n \<and> n \<le> 13 then [CHR 0x5C, ''abtnvfr'' ! (n - 7)]
         else if n < 32 \<or> n = 127 then [CHR 0x5C, CHR ''x'', hex_digit (n div 16), hex_digit (n mod 16)]
         else [c])"

definition Atoi_error :: "string \<Rightarrow> string" where
  "Atoi_error s =
     ''strconv.Atoi: parsing '' @ [CHR 0x22] @ concat (map quote_char s) @ [CHR 0x22] @ '': '' @
     (if fst (Atoi s) = 0 then ''invalid syntax'' else ''value out of range'')"

section \<open>Numbers read back\<close>

definition is_digit :: "char \<Rightarrow> bool" where
  "is_digit c = (let n = of_char c :: nat in 48 \<le> n \<and> n \<le> 57)"

lemma of_char_digit [simp]: "d < (10 :: nat) \<Longrightarrow> of_char (char_of (48 + d) :: char) = 48 + d"
  by simp

lemma digit_val_digit [simp]: "d < 10 \<Longrightarrow> digit_val (char_of (48 + d)) = Some d"
  by (simp add: digit_val_def)

lemma is_digit_digit [simp]: "d < (10 :: nat) \<Longrightarrow> is_digit (char_of (48 + d))"
  by (simp add: is_digit_def)

lemma upper_char_digit [simp]: "is_digit c \<Longrightarrow> upper_char c = c"
  by (auto simp: is_digit_def upper_char_def Let_def)

lemma parse_digits_snoc:
  "parse_digits acc (s @ [c]) =
    (case parse_digits acc s of None \<Rightarrow> None | Some m \<Rightarrow> map_option ((+) (10 * m)) (digit_val c))"
  by (induction s arbitrary: acc) (auto split: option.splits)

lemma Itoa_digits: "\<forall>c \<in> set (Itoa n). is_digit c"
proof (induction n rule: Itoa.induct)
  case (1 n)
  then show ?case by (subst Itoa.simps) simp
qed

lemma Itoa_not_Nil [simp]: "Itoa n \<noteq> []"
  by (subst Itoa.simps) simp

lemma parse_Itoa: "parse_digits 0 (Itoa n) = Some n"
proof (induction n rule: Itoa.induct)
  case (1 n)
  then show ?case by (subst Itoa.simps) (simp add: parse_digits_snoc)
qed

lemma Atoi_Itoa: "n < 2 ^ 63 \<Longrightarrow> Atoi (Itoa n) = (int n, True)"
proof -
  assume n: "n < 2 ^ 63"
  obtain c cs where e: "Itoa n = c # cs" using Itoa_not_Nil neq_Nil_conv by metis
  then have "is_digit c" using Itoa_digits[of n] by simp
  then have "c \<noteq> CHR ''-''" and "c \<noteq> CHR ''+''" by (auto simp: is_digit_def)
  moreover have "int n \<le> 2 ^ 63 - 1" using n by simp
  ultimately show ?thesis using parse_Itoa[of n] by (simp add: Atoi_def e)
qed

lemma Contains_hd: "Contains s t \<Longrightarrow> t = [] \<or> hd t \<in> set s"
  by (cases t) (auto simp: Contains_iff)

end
