(* ===== verification/IID.thy ===== *)
theory IID
  imports GoStrings
begin

text \<open>
  Integrated identifiers. The runtime stores every resource as a Spider IID
  \<open>{user name, "driver name:CSP id"}\<close> and derives from it the driver's IID
  \<open>{driver name, CSP id}\<close> and the user's IID \<open>{user name, CSP id}\<close>. Sources:
  \<open>interfaces/resources/IId.go\<close>, \<open>interfaces/resources/ResourceType.go\<close> and the helpers at the top
  of \<open>common-runtime/CommonManager.go\<close>.
\<close>

section \<open>Data\<close>

record IID =
  NameId :: string
  SystemId :: string

text \<open>The zero value \<open>cres.IID{}\<close>.\<close>

definition IID_zero :: IID where
  "IID_zero = \<lparr>NameId = [], SystemId = []\<rparr>"

abbreviation (input) RT_ALL :: string where "RT_ALL \<equiv> ''all''"
abbreviation (input) RT_IMAGE :: string where "RT_IMAGE \<equiv> ''image''"
abbreviation (input) RT_VPC :: string where "RT_VPC \<equiv> ''vpc''"
abbreviation (input) RT_SUBNET :: string where "RT_SUBNET \<equiv> ''subnet''"
abbreviation (input) RT_SG :: string where "RT_SG \<equiv> ''sg''"
abbreviation (input) RT_KEY :: string where "RT_KEY \<equiv> ''keypair''"
abbreviation (input) RT_VM :: string where "RT_VM \<equiv> ''vm''"
abbreviation (input) RT_NLB :: string where "RT_NLB \<equiv> ''nlb''"
abbreviation (input) RT_DISK :: string where "RT_DISK \<equiv> ''disk''"
abbreviation (input) RT_MYIMAGE :: string where "RT_MYIMAGE \<equiv> ''myimage''"
abbreviation (input) RT_CLUSTER :: string where "RT_CLUSTER \<equiv> ''cluster''"
abbreviation (input) RT_NODEGROUP :: string where "RT_NODEGROUP \<equiv> ''nodegroup''"
abbreviation (input) RT_FILESYSTEM :: string where "RT_FILESYSTEM \<equiv> ''filesystem''"
abbreviation (input) RT_RDBMS :: string where "RT_RDBMS \<equiv> ''rdbms''"
abbreviation (input) RT_PUBLICIP :: string where "RT_PUBLICIP \<equiv> ''publicip''"
abbreviation (input) RT_NIC :: string where "RT_NIC \<equiv> ''nic''"
abbreviation (input) RT_DNS :: string where "RT_DNS \<equiv> ''dns''"
abbreviation (input) RT_DNSRECORD :: string where "RT_DNSRECORD \<equiv> ''dnsrecord''"

definition RSTypeString :: "string \<Rightarrow> string" where
  "RSTypeString rsType =
     (if rsType = RT_ALL then ''All Resources''
      else if rsType = RT_IMAGE then ''VM Image''
      else if rsType = RT_VPC then ''VPC''
      else if rsType = RT_SUBNET then ''Subnet''
      else if rsType = RT_SG then ''Security Group''
      else if rsType = RT_KEY then ''VM KeyPair''
      else if rsType = RT_VM then ''VM''
      else if rsType = RT_NLB then ''Network Load Balancer''
      else if rsType = RT_DISK then ''Disk''
      else if rsType = RT_MYIMAGE then ''MyImage''
      else if rsType = RT_CLUSTER then ''Kubernetes Cluster''
      else if rsType = RT_NODEGROUP then ''Kubernetes NodeGroup''
      else if rsType = RT_FILESYSTEM then ''FileSystem''
      else if rsType = RT_RDBMS then ''Relational Database''
      else if rsType = RT_PUBLICIP then ''Public IP''
      else if rsType = RT_NIC then ''Network Interface Card''
      else if rsType = RT_DNS then ''DNS Zone''
      else if rsType = RT_DNSRECORD then ''DNS Record''
      else rsType @ '' is not supported Resource!!'')"

text \<open>The names \<open>StringToRSType\<close> accepts, each mapped to the constant of the same text.\<close>

definition rs_names :: "string list" where
  "rs_names = [RT_ALL, RT_IMAGE, RT_VPC, RT_SUBNET, RT_SG, RT_KEY, RT_VM, RT_NLB, RT_DISK, RT_MYIMAGE,
     RT_CLUSTER, RT_NODEGROUP, RT_FILESYSTEM, RT_RDBMS, RT_PUBLICIP, RT_NIC, RT_DNS, RT_DNSRECORD]"

definition StringToRSType :: "string \<Rightarrow> string go_result" where
  "StringToRSType s =
     (let str = ToLower s
      in if List.member rs_names str then Inr str
         else Inl (str @ '' is not a valid resource type''))"

section \<open>Operations\<close>

definition getMSShortID :: "string \<Rightarrow> string" where
  "getMSShortID inID =
     (if Contains inID ''/Microsoft.'' then last (Split inID ''/'') else inID)"

definition getAWSNLBShortID :: "string \<Rightarrow> string" where
  "getAWSNLBShortID inID =
     (if Contains inID ''loadbalancer/net/'' then
        (let parts = Split inID ''loadbalancer/net/''
         in if 1 < length parts then hd (Split (parts ! 1) ''/'') else inID)
      else inID)"

definition checkNotFoundError :: "go_error \<Rightarrow> bool" where
  "checkNotFoundError err =
     (let msg = ToLower (ReplaceAll err '' '' '''')
      in Contains msg ''notexist'' \<or> Contains msg ''notfound'' \<or>
         Contains msg ''failedtofind'' \<or> Contains msg ''failedtogetthevm'' \<or>
         Contains msg ''noresult'' \<or> Contains msg ''isundefined'')"

definition getDriverSystemId :: "IID \<Rightarrow> string" where
  "getDriverSystemId spiderIId =
     (let strArray = Split (SystemId spiderIId) '':''
      in ReplaceAll (SystemId spiderIId) (hd strArray @ '':'') '''')"

definition getDriverIID :: "IID \<Rightarrow> IID" where
  "getDriverIID spiderIId =
     (let strArray = Split (SystemId spiderIId) '':'';
          systemId = ReplaceAll (SystemId spiderIId) (hd strArray @ '':'') ''''
      in \<lparr>NameId = hd strArray, SystemId = systemId\<rparr>)"

definition makeDriverIID :: "string \<Rightarrow> string \<Rightarrow> IID" where
  "makeDriverIID nameId sysId =
     (let strArray = Split sysId '':'';
          systemId = ReplaceAll sysId (hd strArray @ '':'') ''''
      in \<lparr>NameId = hd strArray, SystemId = systemId\<rparr>)"

definition getUserIID :: "IID \<Rightarrow> IID" where
  "getUserIID spiderIId =
     (let strArray = Split (SystemId spiderIId) '':''
      in \<lparr>NameId = NameId spiderIId,
          SystemId = ReplaceAll (SystemId spiderIId) (hd strArray @ '':'') ''''\<rparr>)"

definition makeUserIID :: "string \<Rightarrow> string \<Rightarrow> IID" where
  "makeUserIID nameId sysId =
     (let strArray = Split sysId '':''
      in \<lparr>NameId = nameId, SystemId = ReplaceAll sysId (hd strArray @ '':'') ''''\<rparr>)"

text \<open>\<open>GetID_MGMT\<close>: the request's mode, else the environment's \<open>ID_TRANSFORM_MODE\<close>.\<close>

definition GetID_MGMT :: "string \<Rightarrow> string \<Rightarrow> string" where
  "GetID_MGMT env_mode thisMode =
     (if ToUpper thisMode = ''ON'' then ''ON''
      else if ToUpper thisMode = ''OFF'' then ''OFF''
      else if env_mode \<noteq> ''OFF'' then ''ON''
      else ''OFF'')"

section \<open>The encoding \<open>driver name:CSP id\<close>\<close>

text \<open>The system id the create paths store: \<open>spUUID + ":" + info.IId.SystemId\<close>.\<close>

definition spiderSystemId :: "string \<Rightarrow> string \<Rightarrow> string" where
  "spiderSystemId drvName cspId = drvName @ '':'' @ cspId"

lemma hd_Split_spider:
  "CHR '':'' \<notin> set drv \<Longrightarrow> hd (Split (spiderSystemId drv csp) '':'') = drv"
  by (simp add: spiderSystemId_def Split_sep)

lemma ReplaceAll_shorter:
  assumes "Contains s old" and "old \<noteq> []"
  shows "length (ReplaceAll s old []) < length s"
  using assms
proof (induction s old "[] :: string" rule: ReplaceAll.induct)
  case (2 c cs old)
  show ?case
  proof (cases "prefix old (c # cs)")
    case True
    then have "length old \<le> length (c # cs)" by (rule prefix_length_le)
    moreover have "length (ReplaceAll (drop (length old) (c # cs)) old []) \<le> length (drop (length old) (c # cs))"
      by (rule ReplaceAll_length_le) simp
    ultimately have "length (ReplaceAll (drop (length old) (c # cs)) old []) \<le> length (c # cs) - length old"
      and "0 < length old" and "length old \<le> length (c # cs)"
      using 2 by simp_all
    then have "length (ReplaceAll (drop (length old) (c # cs)) old []) < length (c # cs)" by linarith
    with True 2 show ?thesis by simp
  next
    case False
    with 2 show ?thesis by simp
  qed
qed simp

lemma getDriverSystemId_spider:
  assumes "CHR '':'' \<notin> set drv"
  shows "getDriverSystemId \<lparr>NameId = n, SystemId = spiderSystemId drv csp\<rparr> = ReplaceAll csp (drv @ '':'') []"
proof -
  have "ReplaceAll ((drv @ '':'') @ csp) (drv @ '':'') [] = [] @ ReplaceAll csp (drv @ '':'') []"
    by (rule ReplaceAll_prefix) simp
  with assms show ?thesis
    by (simp add: getDriverSystemId_def hd_Split_spider) (simp add: spiderSystemId_def)
qed

lemma getDriverIID_alt:
  "getDriverIID i = \<lparr>NameId = hd (Split (SystemId i) '':''), SystemId = getDriverSystemId i\<rparr>"
  by (simp add: getDriverIID_def getDriverSystemId_def Let_def)

lemma getUserIID_alt: "getUserIID i = \<lparr>NameId = NameId i, SystemId = getDriverSystemId i\<rparr>"
  by (simp add: getUserIID_def getDriverSystemId_def Let_def)

lemma makeUserIID_alt: "makeUserIID n s = getUserIID \<lparr>NameId = n, SystemId = s\<rparr>"
  by (simp add: makeUserIID_def getUserIID_def Let_def)

lemma makeDriverIID_alt: "makeDriverIID n s = getDriverIID \<lparr>NameId = n, SystemId = s\<rparr>"
  by (simp add: makeDriverIID_def getDriverIID_def Let_def)

lemma getUserIID_NameId [simp]: "NameId (getUserIID i) = NameId i"
  by (simp add: getUserIID_alt)

lemma getUserIID_SystemId: "SystemId (getUserIID i) = SystemId (getDriverIID i)"
  by (simp add: getUserIID_alt getDriverIID_alt)

text \<open>Decoding recovers the CSP id exactly when it does not itself contain \<open>drv:\<close>.\<close>

lemma getDriverSystemId_roundtrip_iff:
  assumes "CHR '':'' \<notin> set drv"
  shows "getDriverSystemId \<lparr>NameId = n, SystemId = spiderSystemId drv csp\<rparr> = csp \<longleftrightarrow>
    \<not> Contains csp (drv @ '':'')"
  using ReplaceAll_absent[of csp "drv @ '':''" "[]"] ReplaceAll_shorter[of csp "drv @ '':''"]
  by (auto simp: getDriverSystemId_spider[OF assms])

text \<open>A CSP id shorter than the driver name, or without a colon, is always recovered.\<close>

lemma getDriverSystemId_no_colon:
  assumes "CHR '':'' \<notin> set drv" and "CHR '':'' \<notin> set csp"
  shows "getDriverSystemId \<lparr>NameId = n, SystemId = spiderSystemId drv csp\<rparr> = csp"
proof -
  have "\<not> Contains csp (drv @ '':'')"
    using Contains_chars[of csp "drv @ '':''" "CHR '':''"] assms(2) by auto
  then show ?thesis by (simp add: getDriverSystemId_roundtrip_iff[OF assms(1)])
qed

lemma getDriverIID_spider:
  assumes "CHR '':'' \<notin> set drv" and "\<not> Contains csp (drv @ '':'')"
  shows "getDriverIID \<lparr>NameId = n, SystemId = spiderSystemId drv csp\<rparr> = \<lparr>NameId = drv, SystemId = csp\<rparr>"
  using assms by (simp add: getDriverIID_alt hd_Split_spider getDriverSystemId_roundtrip_iff)

lemma getUserIID_spider:
  assumes "CHR '':'' \<notin> set drv" and "\<not> Contains csp (drv @ '':'')"
  shows "getUserIID \<lparr>NameId = n, SystemId = spiderSystemId drv csp\<rparr> = \<lparr>NameId = n, SystemId = csp\<rparr>"
  using assms by (simp add: getUserIID_alt getDriverSystemId_roundtrip_iff)

section \<open>Recognising "not found" messages\<close>

lemma ToLower_ReplaceAll_space:
  "ToLower (ReplaceAll (s @ t) '' '' []) = ToLower (ReplaceAll s '' '' []) @ ToLower (ReplaceAll t '' '' [])"
  by (simp add: ReplaceAll_delete_char)

text \<open>
  The check looks anywhere in the message, so a match in any part of a message, for example in a
  resource name quoted by it, makes the whole message match.
\<close>

lemma checkNotFoundError_context:
  assumes "checkNotFoundError m"
  shows "checkNotFoundError (p @ m @ q)"
  using assms unfolding checkNotFoundError_def Let_def ToLower_ReplaceAll_space
  by (auto intro: Contains_append1 Contains_append2)

lemma checkNotFoundError_notexist:
  "checkNotFoundError (p @ ''not exist'' @ q)"
  by (rule checkNotFoundError_context) code_simp

end
