(* ===== verification/SPLock.thy ===== *)
theory SPLock
  imports IID
begin

text \<open>
  The per-resource lock of \<open>common-runtime/sp-lock/splock.go\<close>: a map from (connection, resource
  name) to a reference-counted \<open>sync.RWMutex\<close>, created by the first user and removed by the last.
  \<open>LockValue\<close> objects live in a heap, because \<open>Unlock\<close> drops the map entry before it unlocks the
  object, so an old and a new object of the same key can exist at once. The sections under
  \<open>rwMutex\<close> are atomic steps; blocking on the object's own lock is a separate step.
\<close>

section \<open>Data\<close>

record LockKey =
  lk_connectionName :: string
  lk_resourceId :: string

text \<open>\<open>sync.RWMutex\<close>, as far as it is used: whether a writer holds it, and how many readers do.\<close>

record RWMutex =
  rw_writer :: bool
  rw_readers :: nat

record LockValue =
  lv_lock :: RWMutex
  lv_count :: int

record SPLOCK =
  lockMap :: "LockKey \<rightharpoonup> nat"
  lv_heap :: "nat \<rightharpoonup> LockValue"
  next_addr :: nat

definition LockValue_zero :: LockValue where
  "LockValue_zero = \<lparr>lv_lock = \<lparr>rw_writer = False, rw_readers = 0\<rparr>, lv_count = 0\<rparr>"

definition New_SPLOCK :: SPLOCK where
  "New_SPLOCK = \<lparr>lockMap = Map.empty, lv_heap = Map.empty, next_addr = 0\<rparr>"

section \<open>The standard library's lock: \<open>None\<close> is "blocks" or "fatal error"\<close>

definition mutex_Lock :: "RWMutex \<Rightarrow> RWMutex option" where
  "mutex_Lock m = (if rw_writer m \<or> 0 < rw_readers m then None else Some (m\<lparr>rw_writer := True\<rparr>))"

definition mutex_RLock :: "RWMutex \<Rightarrow> RWMutex option" where
  "mutex_RLock m = (if rw_writer m then None else Some (m\<lparr>rw_readers := Suc (rw_readers m)\<rparr>))"

definition mutex_Unlock :: "RWMutex \<Rightarrow> RWMutex option" where
  "mutex_Unlock m = (if rw_writer m then Some (m\<lparr>rw_writer := False\<rparr>) else None)"

definition mutex_RUnlock :: "RWMutex \<Rightarrow> RWMutex option" where
  "mutex_RUnlock m = (if 0 < rw_readers m then Some (m\<lparr>rw_readers := rw_readers m - 1\<rparr>) else None)"

section \<open>Operations\<close>

definition overrideConnection :: "string \<Rightarrow> string \<Rightarrow> string" where
  "overrideConnection mode conn = (if mode \<noteq> [] then mode else conn)"

definition lock_key :: "string \<Rightarrow> string \<Rightarrow> string \<Rightarrow> LockKey" where
  "lock_key mode conn rid = \<lparr>lk_connectionName = overrideConnection mode conn, lk_resourceId = rid\<rparr>"

definition bump_count :: "int \<Rightarrow> LockValue option \<Rightarrow> LockValue option" where
  "bump_count d = map_option (\<lambda>v. v\<lparr>lv_count := lv_count v + d\<rparr>)"

text \<open>The part of \<open>Lock\<close> under \<open>rwMutex\<close>: the address it then blocks on, and the new map.\<close>

definition Lock_section :: "string \<Rightarrow> string \<Rightarrow> string \<Rightarrow> SPLOCK \<Rightarrow> nat \<times> SPLOCK" where
  "Lock_section mode conn rid s =
     (let k = lock_key mode conn rid in
      case lockMap s k of
        None \<Rightarrow>
          (let a = next_addr s
           in (a, s\<lparr>lockMap := (lockMap s)(k \<mapsto> a),
                   lv_heap := (lv_heap s)(a := bump_count 1 (Some LockValue_zero)),
                   next_addr := Suc a\<rparr>))
      | Some a \<Rightarrow> (a, s\<lparr>lv_heap := (lv_heap s)(a := bump_count 1 (lv_heap s a))\<rparr>))"

definition RLock_section :: "string \<Rightarrow> string \<Rightarrow> string \<Rightarrow> SPLOCK \<Rightarrow> nat \<times> SPLOCK" where
  "RLock_section mode conn rid s =
     (let k = lock_key mode conn rid in
      case lockMap s k of
        None \<Rightarrow>
          (let a = next_addr s
           in (a, s\<lparr>lockMap := (lockMap s)(k \<mapsto> a),
                   lv_heap := (lv_heap s)(a := bump_count 1 (Some LockValue_zero)),
                   next_addr := Suc a\<rparr>))
      | Some a \<Rightarrow> (a, s\<lparr>lv_heap := (lv_heap s)(a := bump_count 1 (lv_heap s a))\<rparr>))"

text \<open>
  The part of \<open>Unlock\<close> under \<open>rwMutex\<close>. \<open>None\<close> is the nil dereference of a missing entry.
\<close>

definition Unlock_section :: "string \<Rightarrow> string \<Rightarrow> string \<Rightarrow> SPLOCK \<Rightarrow> (nat \<times> SPLOCK) option" where
  "Unlock_section mode conn rid s =
     (let k = lock_key mode conn rid in
      case lockMap s k of
        None \<Rightarrow> None
      | Some a \<Rightarrow>
          (let s' = s\<lparr>lv_heap := (lv_heap s)(a := bump_count (- 1) (lv_heap s a))\<rparr>
           in if map_option lv_count (lv_heap s' a) = Some 0
              then Some (a, s'\<lparr>lockMap := (lockMap s')(k := None)\<rparr>)
              else Some (a, s')))"

definition RUnlock_section :: "string \<Rightarrow> string \<Rightarrow> string \<Rightarrow> SPLOCK \<Rightarrow> (nat \<times> SPLOCK) option" where
  "RUnlock_section mode conn rid s =
     (let k = lock_key mode conn rid in
      case lockMap s k of
        None \<Rightarrow> None
      | Some a \<Rightarrow>
          (let s' = s\<lparr>lv_heap := (lv_heap s)(a := bump_count (- 1) (lv_heap s a))\<rparr>
           in if map_option lv_count (lv_heap s' a) = Some 0
              then Some (a, s'\<lparr>lockMap := (lockMap s')(k := None)\<rparr>)
              else Some (a, s')))"

lemma RLock_section_eq: "RLock_section = Lock_section"
  by (intro ext) (simp add: RLock_section_def Lock_section_def)

lemma RUnlock_section_eq: "RUnlock_section = Unlock_section"
  by (intro ext) (simp add: RUnlock_section_def Unlock_section_def)

section \<open>Goroutines that use the lock\<close>

text \<open>
  One goroutine's use of one lock: it enters \<open>Lock\<close> or \<open>RLock\<close>, blocks on the object, holds it, enters
  \<open>Unlock\<close> or \<open>RUnlock\<close> with the same arguments (the program always defers it), and releases the
  object it found there. The address in \<open>Holding\<close> is a ghost: \<open>Unlock\<close> looks the entry up again.
\<close>

datatype lmode = Wr | Rd

datatype phase =
    Idle
  | Blocked lmode string string nat
  | Holding lmode string string nat
  | Releasing lmode nat
  | Panicked

record system =
  spl :: SPLOCK
  phases :: "nat \<Rightarrow> phase"

definition init_system :: system where
  "init_system = \<lparr>spl = New_SPLOCK, phases = (\<lambda>_. Idle)\<rparr>"

definition enter :: "string \<Rightarrow> lmode \<Rightarrow> string \<Rightarrow> string \<Rightarrow> SPLOCK \<Rightarrow> nat \<times> SPLOCK" where
  "enter mode m = (case m of Wr \<Rightarrow> Lock_section mode | Rd \<Rightarrow> RLock_section mode)"

definition leave :: "string \<Rightarrow> lmode \<Rightarrow> string \<Rightarrow> string \<Rightarrow> SPLOCK \<Rightarrow> (nat \<times> SPLOCK) option" where
  "leave mode m = (case m of Wr \<Rightarrow> Unlock_section mode | Rd \<Rightarrow> RUnlock_section mode)"

definition acquire_lock :: "lmode \<Rightarrow> RWMutex \<Rightarrow> RWMutex option" where
  "acquire_lock m = (case m of Wr \<Rightarrow> mutex_Lock | Rd \<Rightarrow> mutex_RLock)"

definition release_lock :: "lmode \<Rightarrow> RWMutex \<Rightarrow> RWMutex option" where
  "release_lock m = (case m of Wr \<Rightarrow> mutex_Unlock | Rd \<Rightarrow> mutex_RUnlock)"

definition set_lock :: "nat \<Rightarrow> RWMutex \<Rightarrow> SPLOCK \<Rightarrow> SPLOCK" where
  "set_lock a l s = s\<lparr>lv_heap := (lv_heap s)(a := map_option (\<lambda>v. v\<lparr>lv_lock := l\<rparr>) (lv_heap s a))\<rparr>"

inductive spl_step :: "string \<Rightarrow> system \<Rightarrow> system \<Rightarrow> bool" for mode :: string where
  step_enter:
    "phases s t = Idle \<Longrightarrow> enter mode m conn rid (spl s) = (a, l') \<Longrightarrow>
     spl_step mode s (s\<lparr>spl := l', phases := (phases s)(t := Blocked m conn rid a)\<rparr>)"
| step_acquire:
    "phases s t = Blocked m conn rid a \<Longrightarrow> lv_heap (spl s) a = Some v \<Longrightarrow>
     acquire_lock m (lv_lock v) = Some x \<Longrightarrow>
     spl_step mode s (s\<lparr>spl := set_lock a x (spl s), phases := (phases s)(t := Holding m conn rid a)\<rparr>)"
| step_leave:
    "phases s t = Holding m conn rid a \<Longrightarrow> leave mode m conn rid (spl s) = Some (b, l') \<Longrightarrow>
     spl_step mode s (s\<lparr>spl := l', phases := (phases s)(t := Releasing m b)\<rparr>)"
| step_leave_nil:
    "phases s t = Holding m conn rid a \<Longrightarrow> leave mode m conn rid (spl s) = None \<Longrightarrow>
     spl_step mode s (s\<lparr>phases := (phases s)(t := Panicked)\<rparr>)"
| step_release:
    "phases s t = Releasing m a \<Longrightarrow> lv_heap (spl s) a = Some v \<Longrightarrow>
     release_lock m (lv_lock v) = Some x \<Longrightarrow>
     spl_step mode s (s\<lparr>spl := set_lock a x (spl s), phases := (phases s)(t := Idle)\<rparr>)"
| step_release_fatal:
    "phases s t = Releasing m a \<Longrightarrow>
     (case lv_heap (spl s) a of None \<Rightarrow> True | Some v \<Rightarrow> release_lock m (lv_lock v) = None) \<Longrightarrow>
     spl_step mode s (s\<lparr>phases := (phases s)(t := Panicked)\<rparr>)"

inductive reachable :: "string \<Rightarrow> system \<Rightarrow> bool" for mode :: string where
  reachable_init: "reachable mode init_system"
| reachable_step: "reachable mode s \<Longrightarrow> spl_step mode s s' \<Longrightarrow> reachable mode s'"

section \<open>The invariant\<close>

text \<open>Users of an object count in its reference counter; owners hold its \<open>RWMutex\<close>.\<close>

fun uses :: "nat \<Rightarrow> phase \<Rightarrow> bool" where
  "uses a (Blocked m c i b) = (b = a)"
| "uses a (Holding m c i b) = (b = a)"
| "uses a _ = False"

fun owns :: "lmode \<Rightarrow> nat \<Rightarrow> phase \<Rightarrow> bool" where
  "owns m a (Holding n c i b) = (n = m \<and> b = a)"
| "owns m a (Releasing n b) = (n = m \<and> b = a)"
| "owns m a _ = False"

fun key_ok :: "string \<Rightarrow> (LockKey \<rightharpoonup> nat) \<Rightarrow> phase \<Rightarrow> bool" where
  "key_ok mode mp (Blocked m c i a) = (mp (lock_key mode c i) = Some a)"
| "key_ok mode mp (Holding m c i a) = (mp (lock_key mode c i) = Some a)"
| "key_ok mode mp Panicked = False"
| "key_ok mode mp _ = True"

definition users :: "(nat \<Rightarrow> phase) \<Rightarrow> nat \<Rightarrow> nat set" where
  "users ph a = {t. uses a (ph t)}"

definition owners :: "(nat \<Rightarrow> phase) \<Rightarrow> lmode \<Rightarrow> nat \<Rightarrow> nat set" where
  "owners ph m a = {t. owns m a (ph t)}"

definition map_inv :: "SPLOCK \<Rightarrow> bool" where
  "map_inv s \<longleftrightarrow>
     (\<forall>k k' a. lockMap s k = Some a \<longrightarrow> lockMap s k' = Some a \<longrightarrow> k = k') \<and>
     (\<forall>a. lv_heap s a \<noteq> None \<longrightarrow> a < next_addr s) \<and>
     (\<forall>k a. lockMap s k = Some a \<longrightarrow> lv_heap s a \<noteq> None)"

definition count_inv :: "system \<Rightarrow> bool" where
  "count_inv s \<longleftrightarrow>
     (\<forall>k a v. lockMap (spl s) k = Some a \<longrightarrow> lv_heap (spl s) a = Some v \<longrightarrow>
        lv_count v = int (card (users (phases s) a)) \<and> users (phases s) a \<noteq> {})"

definition mutex_inv :: "system \<Rightarrow> bool" where
  "mutex_inv s \<longleftrightarrow>
     (\<forall>a v. lv_heap (spl s) a = Some v \<longrightarrow>
        card (owners (phases s) Wr a) = (if rw_writer (lv_lock v) then 1 else 0) \<and>
        card (owners (phases s) Rd a) = rw_readers (lv_lock v) \<and>
        (rw_writer (lv_lock v) \<longrightarrow> rw_readers (lv_lock v) = 0)) \<and>
     (\<forall>a m. owners (phases s) m a \<noteq> {} \<longrightarrow> lv_heap (spl s) a \<noteq> None)"

definition spl_inv :: "string \<Rightarrow> system \<Rightarrow> bool" where
  "spl_inv mode s \<longleftrightarrow>
     finite {t. phases s t \<noteq> Idle} \<and> (\<forall>t. key_ok mode (lockMap (spl s)) (phases s t)) \<and>
     map_inv (spl s) \<and> count_inv s \<and> mutex_inv s"


lemma users_upd: "users (ph(t := x)) a = (if uses a x then insert t (users ph a) else users ph a - {t})"
  by (auto simp: users_def)

lemma owners_upd: "owners (ph(t := x)) m a = (if owns m a x then insert t (owners ph m a) else owners ph m a - {t})"
  by (auto simp: owners_def)

lemma users_not: "\<not> uses a (ph t) \<Longrightarrow> t \<notin> users ph a"
  by (simp add: users_def)

lemma owners_not: "\<not> owns m a (ph t) \<Longrightarrow> t \<notin> owners ph m a"
  by (simp add: owners_def)

lemma users_in: "uses a (ph t) \<Longrightarrow> t \<in> users ph a"
  by (simp add: users_def)

lemma owners_in: "owns m a (ph t) \<Longrightarrow> t \<in> owners ph m a"
  by (simp add: owners_def)

lemma finite_users: "finite {t. ph t \<noteq> Idle} \<Longrightarrow> finite (users ph a)"
  by (rule finite_subset [of _ "{t. ph t \<noteq> Idle}"]) (auto simp: users_def)

lemma finite_owners: "finite {t. ph t \<noteq> Idle} \<Longrightarrow> finite (owners ph m a)"
  by (rule finite_subset [of _ "{t. ph t \<noteq> Idle}"]) (auto simp: owners_def)

lemma finite_busy_upd: "finite {t. ph t \<noteq> Idle} \<Longrightarrow> finite {t. (ph(u := x)) t \<noteq> Idle}"
  by (rule finite_subset [of _ "insert u {t. ph t \<noteq> Idle}"]) auto

lemma users_mapped:
  assumes "\<forall>t. key_ok mode mp (ph t)" and "t \<in> users ph a"
  shows "\<exists>k. mp k = Some a"
proof -
  from assms have "key_ok mode mp (ph t)" and "uses a (ph t)" by (auto simp: users_def)
  then show ?thesis by (cases "ph t") auto
qed

lemma mutex_inv_free: "mutex_inv s \<Longrightarrow> lv_heap (spl s) a = None \<Longrightarrow> owners (phases s) m a = {}"
  unfolding mutex_inv_def by blast

lemma map_inv_Some: "map_inv s \<Longrightarrow> lockMap s k = Some a \<Longrightarrow> \<exists>v. lv_heap s a = Some v"
  unfolding map_inv_def by blast

lemma map_inv_inj: "map_inv s \<Longrightarrow> lockMap s k = Some a \<Longrightarrow> lockMap s k' = Some a \<Longrightarrow> k = k'"
  unfolding map_inv_def by blast

lemma spl_inv_init: "spl_inv mode init_system"
  by (simp add: spl_inv_def init_system_def New_SPLOCK_def map_inv_def count_inv_def mutex_inv_def owners_def)

text \<open>Entering: a new object for a new key, one more count for an existing one.\<close>

lemma enter_cases:
  assumes "enter mode m conn rid s = (a, s')"
  obtains (fresh) "lockMap s (lock_key mode conn rid) = None" and "a = next_addr s"
    and "s' = \<lparr>lockMap = (lockMap s)(lock_key mode conn rid \<mapsto> a),
      lv_heap = (lv_heap s)(a \<mapsto> LockValue_zero\<lparr>lv_count := 1\<rparr>), next_addr = Suc a\<rparr>"
  | (found) "lockMap s (lock_key mode conn rid) = Some a"
    and "s' = s\<lparr>lv_heap := (lv_heap s)(a := bump_count 1 (lv_heap s a))\<rparr>"
  using assms
  by (cases m; cases "lockMap s (lock_key mode conn rid)")
     (auto simp: enter_def RLock_section_eq Lock_section_def Let_def bump_count_def LockValue_zero_def)

lemma leave_eq:
  "leave mode m conn rid s =
     (case lockMap s (lock_key mode conn rid) of None \<Rightarrow> None
      | Some a \<Rightarrow>
         Some (a, s\<lparr>lv_heap := (lv_heap s)(a := bump_count (- 1) (lv_heap s a)),
           lockMap := (if map_option lv_count (lv_heap s a) = Some 1
             then (lockMap s)(lock_key mode conn rid := None) else lockMap s)\<rparr>))"
  by (cases m; cases "lockMap s (lock_key mode conn rid)"; cases "lv_heap s (the (lockMap s (lock_key mode conn rid)))")
     (auto simp: leave_def RUnlock_section_eq Unlock_section_def Let_def bump_count_def)

lemma release_lock_owned:
  "release_lock m l = None \<longleftrightarrow> (case m of Wr \<Rightarrow> \<not> rw_writer l | Rd \<Rightarrow> rw_readers l = 0)"
  by (cases m) (auto simp: release_lock_def mutex_Unlock_def mutex_RUnlock_def)


section \<open>Every step keeps the invariant\<close>

text \<open>Steps that move one goroutine between phases that use the same object.\<close>

lemma count_inv_upd:
  assumes "count_inv s" and "\<And>a. uses a x = uses a (phases s t)"
    and "lockMap l' = lockMap (spl s)" and "\<And>a. map_option lv_count (lv_heap l' a) = map_option lv_count (lv_heap (spl s) a)"
  shows "count_inv (s\<lparr>spl := l', phases := (phases s)(t := x)\<rparr>)"
proof -
  have u: "users ((phases s)(t := x)) a = users (phases s) a" for a
    using assms(2)[of a] by (auto simp: users_def)
  have "\<exists>w. lv_heap (spl s) a = Some w \<and> lv_count w = lv_count v" if "lv_heap l' a = Some v" for a v
    using assms(4)[of a] that by (cases "lv_heap (spl s) a") auto
  with assms(1) show ?thesis
    by (fastforce simp: count_inv_def u assms(3))
qed

lemma mutex_inv_upd:
  assumes "mutex_inv s" and "\<And>m a. owns m a x = owns m a (phases s t)"
    and "\<And>a. map_option lv_lock (lv_heap l' a) = map_option lv_lock (lv_heap (spl s) a)"
  shows "mutex_inv (s\<lparr>spl := l', phases := (phases s)(t := x)\<rparr>)"
proof -
  have o: "owners ((phases s)(t := x)) m a = owners (phases s) m a" for m a
    using assms(2)[of m a] by (auto simp: owners_def)
  have h: "\<exists>w. lv_heap (spl s) a = Some w \<and> lv_lock w = lv_lock v" if "lv_heap l' a = Some v" for a v
    using assms(3)[of a] that by (cases "lv_heap (spl s) a") auto
  have n: "lv_heap l' a \<noteq> None" if "lv_heap (spl s) a \<noteq> None" for a
    using assms(3)[of a] that by auto
  show ?thesis
    unfolding mutex_inv_def
  proof (intro conjI allI impI)
    fix a v
    assume "lv_heap (spl (s\<lparr>spl := l', phases := (phases s)(t := x)\<rparr>)) a = Some v"
    then obtain w where "lv_heap (spl s) a = Some w" and "lv_lock w = lv_lock v" using h by auto
    with assms(1) show "card (owners (phases (s\<lparr>spl := l', phases := (phases s)(t := x)\<rparr>)) Wr a) = (if rw_writer (lv_lock v) then 1 else 0)"
      and "card (owners (phases (s\<lparr>spl := l', phases := (phases s)(t := x)\<rparr>)) Rd a) = rw_readers (lv_lock v)"
      and "rw_writer (lv_lock v) \<Longrightarrow> rw_readers (lv_lock v) = 0"
      by (fastforce simp: mutex_inv_def o)+
  next
    fix a m
    assume "owners (phases (s\<lparr>spl := l', phases := (phases s)(t := x)\<rparr>)) m a \<noteq> {}"
    then have "lv_heap (spl s) a \<noteq> None" using mutex_inv_free[OF assms(1)] by (auto simp: o)
    with n show "lv_heap (spl (s\<lparr>spl := l', phases := (phases s)(t := x)\<rparr>)) a \<noteq> None" by simp
  qed
qed

lemma mutex_inv_fresh:
  assumes "mutex_inv s" and "phases s t = Idle" and "lv_heap (spl s) a = None"
    and "lv_heap l' = (lv_heap (spl s))(a \<mapsto> LockValue_zero\<lparr>lv_count := 1\<rparr>)"
  shows "mutex_inv (s\<lparr>spl := l', phases := (phases s)(t := Blocked m c r a)\<rparr>)"
proof -
  have o: "owners ((phases s)(t := Blocked m c r a)) n b = owners (phases s) n b" for n b
    using assms(2) by (auto simp: owners_def)
  have e: "owners (phases s) n a = {}" for n
    using assms(1,3) by (rule mutex_inv_free)
  show ?thesis
    using assms(1) by (auto simp: mutex_inv_def o assms(4) e LockValue_zero_def)
qed

lemma key_ok_step:
  assumes "\<forall>u. key_ok mode mp (ph u)" and "key_ok mode mp' x"
    and "\<And>u k a. u \<noteq> t \<Longrightarrow> uses a (ph u) \<Longrightarrow> mp k = Some a \<Longrightarrow> mp' k = Some a"
  shows "\<forall>u. key_ok mode mp' ((ph(t := x)) u)"
proof
  fix u
  show "key_ok mode mp' ((ph(t := x)) u)"
  proof (cases "u = t")
    case False
    with assms(1) have "key_ok mode mp (ph u)" by blast
    with False assms(3)[of u] show ?thesis by (cases "ph u") auto
  qed (simp add: assms(2))
qed

lemma enter_inv:
  assumes inv: "spl_inv mode s" and idle: "phases s t = Idle"
    and e: "enter mode m c r (spl s) = (a, l')"
  shows "spl_inv mode (s\<lparr>spl := l', phases := (phases s)(t := Blocked m c r a)\<rparr>)"
proof -
  let ?s' = "s\<lparr>spl := l', phases := (phases s)(t := Blocked m c r a)\<rparr>"
  from inv have fin: "finite {t. phases s t \<noteq> Idle}" and key: "\<forall>t. key_ok mode (lockMap (spl s)) (phases s t)"
    and mp: "map_inv (spl s)" and cnt: "count_inv s" and mtx: "mutex_inv s"
    by (simp_all add: spl_inv_def)
  have fin': "finite {u. phases ?s' u \<noteq> Idle}" using finite_busy_upd[OF fin] by simp
  have tn: "t \<notin> users (phases s) b" for b using idle by (simp add: users_def)
  have key_upd: "phases ?s' = (phases s)(t := Blocked m c r a)" by simp
  from e show ?thesis
  proof (cases rule: enter_cases)
    case fresh
    have none: "lv_heap (spl s) a = None"
      using mp fresh(2) by (metis map_inv_def less_irrefl)
    have nou: "users (phases s) a = {}"
      using users_mapped[OF key] mp none unfolding map_inv_def by blast
    have newk: "lockMap (spl s) k \<noteq> Some a" for k
      using map_inv_Some[OF mp] none by force
    have "map_inv l'"
      using mp newk fresh(2) by (auto simp: map_inv_def fresh(3) less_Suc_eq)
    moreover have "\<forall>u. key_ok mode (lockMap l') (phases ?s' u)"
      unfolding key_upd by (rule key_ok_step[OF key]) (use fresh(1) in \<open>auto simp: fresh(3)\<close>)
    moreover have "count_inv ?s'"
      using cnt newk by (auto simp: count_inv_def fresh(3) users_upd nou LockValue_zero_def tn)
    moreover have "mutex_inv ?s'"
      using mtx idle none by (rule mutex_inv_fresh) (simp add: fresh(3))
    ultimately show ?thesis using fin' by (simp add: spl_inv_def)
  next
    case found
    obtain v where v: "lv_heap (spl s) a = Some v" using map_inv_Some[OF mp found(1)] by blast
    have "map_inv l'"
      using mp v by (auto simp: map_inv_def found(2) bump_count_def)
    moreover have "\<forall>u. key_ok mode (lockMap l') (phases ?s' u)"
      unfolding key_upd by (rule key_ok_step[OF key]) (use found(1) in \<open>auto simp: found(2)\<close>)
    moreover have "count_inv ?s'"
      using cnt v finite_users[OF fin] by (fastforce simp: count_inv_def found(2) users_upd tn bump_count_def)
    moreover have "mutex_inv ?s'"
      using mtx by (rule mutex_inv_upd) (auto simp: idle found(2) bump_count_def option.map_comp o_def)
    ultimately show ?thesis using fin' by (simp add: spl_inv_def)
  qed
qed


text \<open>Taking and giving back the object's own lock.\<close>

lemma mutex_inv_set_lock:
  assumes "mutex_inv s" and v: "lv_heap (spl s) a = Some v"
    and oth: "\<And>n b. b \<noteq> a \<Longrightarrow> owners ph n b = owners (phases s) n b"
    and new: "card (owners ph Wr a) = (if rw_writer x then 1 else 0)" "card (owners ph Rd a) = rw_readers x"
      "rw_writer x \<Longrightarrow> rw_readers x = 0"
  shows "mutex_inv (s\<lparr>spl := set_lock a x (spl s), phases := ph\<rparr>)"
  unfolding mutex_inv_def
proof (intro conjI allI impI)
  fix b w
  assume w: "lv_heap (spl (s\<lparr>spl := set_lock a x (spl s), phases := ph\<rparr>)) b = Some w"
  show "card (owners (phases (s\<lparr>spl := set_lock a x (spl s), phases := ph\<rparr>)) Wr b) = (if rw_writer (lv_lock w) then 1 else 0)"
    and "card (owners (phases (s\<lparr>spl := set_lock a x (spl s), phases := ph\<rparr>)) Rd b) = rw_readers (lv_lock w)"
    and "rw_writer (lv_lock w) \<Longrightarrow> rw_readers (lv_lock w) = 0"
    using w v new oth[of b] assms(1)
    by (cases "b = a"; fastforce simp: set_lock_def mutex_inv_def)+
next
  fix b n
  assume "owners (phases (s\<lparr>spl := set_lock a x (spl s), phases := ph\<rparr>)) n b \<noteq> {}"
  with v oth[of b n] mutex_inv_free[OF assms(1), of b n]
  show "lv_heap (spl (s\<lparr>spl := set_lock a x (spl s), phases := ph\<rparr>)) b \<noteq> None"
    by (cases "b = a") (auto simp: set_lock_def)
qed

lemma mutex_invD:
  assumes "mutex_inv s" and "lv_heap (spl s) a = Some v"
  shows "card (owners (phases s) Wr a) = (if rw_writer (lv_lock v) then 1 else 0)"
    and "card (owners (phases s) Rd a) = rw_readers (lv_lock v)"
    and "rw_writer (lv_lock v) \<Longrightarrow> rw_readers (lv_lock v) = 0"
  using assms unfolding mutex_inv_def by blast+

lemma map_inv_set_lock: "map_inv s \<Longrightarrow> map_inv (set_lock a x s)"
  by (auto simp: map_inv_def set_lock_def)

lemma lockMap_set_lock [simp]: "lockMap (set_lock a x s) = lockMap s"
  by (simp add: set_lock_def)

lemma count_set_lock: "map_option lv_count (lv_heap (set_lock a x s) b) = map_option lv_count (lv_heap s b)"
  by (simp add: set_lock_def option.map_comp o_def)

lemma acquire_inv:
  assumes inv: "spl_inv mode s" and t: "phases s t = Blocked m c r a"
    and v: "lv_heap (spl s) a = Some v" and x: "acquire_lock m (lv_lock v) = Some x"
  shows "spl_inv mode (s\<lparr>spl := set_lock a x (spl s), phases := (phases s)(t := Holding m c r a)\<rparr>)"
proof -
  let ?ph = "(phases s)(t := Holding m c r a)"
  from inv have fin: "finite {t. phases s t \<noteq> Idle}" and key: "\<forall>t. key_ok mode (lockMap (spl s)) (phases s t)"
    and mp: "map_inv (spl s)" and cnt: "count_inv s" and mtx: "mutex_inv s"
    by (simp_all add: spl_inv_def)
  note d = mutex_invD[OF mtx v]
  have fo: "finite (owners (phases s) n a)" for n using fin by (rule finite_owners)
  have tno: "t \<notin> owners (phases s) n a" for n by (simp add: owners_def t)
  from key t have k: "lockMap (spl s) (lock_key mode c r) = Some a" by (metis key_ok.simps(1))
  have "mutex_inv (s\<lparr>spl := set_lock a x (spl s), phases := ?ph\<rparr>)"
  proof (rule mutex_inv_set_lock[OF mtx v])
    show "owners ?ph n b = owners (phases s) n b" if "b \<noteq> a" for n b
      using that t by (auto simp: owners_def)
    show "card (owners ?ph Wr a) = (if rw_writer x then 1 else 0)"
      and "card (owners ?ph Rd a) = rw_readers x" and "rw_writer x \<Longrightarrow> rw_readers x = 0"
      using x d fo tno
      by (cases m; auto simp: owners_upd acquire_lock_def mutex_Lock_def mutex_RLock_def split: if_splits)+
  qed
  moreover have "count_inv (s\<lparr>spl := set_lock a x (spl s), phases := ?ph\<rparr>)"
    using cnt by (rule count_inv_upd) (simp_all add: t count_set_lock)
  moreover have "\<forall>u. key_ok mode (lockMap (spl s)) (?ph u)"
    by (rule key_ok_step[OF key]) (simp_all add: k)
  ultimately show ?thesis
    using finite_busy_upd[OF fin] map_inv_set_lock[OF mp] by (simp add: spl_inv_def)
qed

text \<open>An owner's release can neither find the object missing nor its lock free.\<close>

lemma owner_locked:
  assumes "finite {t. phases s t \<noteq> Idle}" and "mutex_inv s" and "t \<in> owners (phases s) m a"
  obtains v x where "lv_heap (spl s) a = Some v" and "release_lock m (lv_lock v) = Some x"
proof -
  from assms(3) obtain v where v: "lv_heap (spl s) a = Some v"
    using mutex_inv_free[OF assms(2), of a m] by fastforce
  have "card (owners (phases s) m a) \<noteq> 0"
    using assms(3) finite_owners[OF assms(1)] by auto
  then have "release_lock m (lv_lock v) \<noteq> None"
    using mutex_invD[OF assms(2) v] by (cases m) (auto simp: release_lock_owned split: if_splits)
  with v that show ?thesis by blast
qed

lemma release_inv:
  assumes inv: "spl_inv mode s" and t: "phases s t = Releasing m a"
    and v: "lv_heap (spl s) a = Some v" and x: "release_lock m (lv_lock v) = Some x"
  shows "spl_inv mode (s\<lparr>spl := set_lock a x (spl s), phases := (phases s)(t := Idle)\<rparr>)"
proof -
  let ?ph = "(phases s)(t := Idle)"
  from inv have fin: "finite {t. phases s t \<noteq> Idle}" and key: "\<forall>t. key_ok mode (lockMap (spl s)) (phases s t)"
    and mp: "map_inv (spl s)" and cnt: "count_inv s" and mtx: "mutex_inv s"
    by (simp_all add: spl_inv_def)
  note d = mutex_invD[OF mtx v]
  have fo: "finite (owners (phases s) n a)" for n using fin by (rule finite_owners)
  have tin: "t \<in> owners (phases s) n a \<longleftrightarrow> n = m" for n by (auto simp: owners_def t)
  have "mutex_inv (s\<lparr>spl := set_lock a x (spl s), phases := ?ph\<rparr>)"
  proof (rule mutex_inv_set_lock[OF mtx v])
    show "owners ?ph n b = owners (phases s) n b" if "b \<noteq> a" for n b
      using that t by (auto simp: owners_def)
    show "card (owners ?ph Wr a) = (if rw_writer x then 1 else 0)"
      and "card (owners ?ph Rd a) = rw_readers x" and "rw_writer x \<Longrightarrow> rw_readers x = 0"
      using x d fo tin
      by (cases m; auto simp: owners_upd release_lock_def mutex_Unlock_def mutex_RUnlock_def card_Diff_singleton_if split: if_splits)+
  qed
  moreover have "count_inv (s\<lparr>spl := set_lock a x (spl s), phases := ?ph\<rparr>)"
    using cnt by (rule count_inv_upd) (simp_all add: t count_set_lock)
  moreover have "\<forall>u. key_ok mode (lockMap (spl s)) (?ph u)"
    by (rule key_ok_step[OF key]) simp_all
  ultimately show ?thesis
    using finite_busy_upd[OF fin] map_inv_set_lock[OF mp] by (simp add: spl_inv_def)
qed


lemma leave_inv:
  assumes inv: "spl_inv mode s" and t: "phases s t = Holding m c r a"
    and lv: "leave mode m c r (spl s) = Some (b, l')"
  shows "spl_inv mode (s\<lparr>spl := l', phases := (phases s)(t := Releasing m b)\<rparr>)"
proof -
  let ?ph = "(phases s)(t := Releasing m b)"
  let ?k = "lock_key mode c r"
  from inv have fin: "finite {t. phases s t \<noteq> Idle}" and key: "\<forall>t. key_ok mode (lockMap (spl s)) (phases s t)"
    and mp: "map_inv (spl s)" and cnt: "count_inv s" and mtx: "mutex_inv s"
    by (simp_all add: spl_inv_def)
  from key t have k: "lockMap (spl s) ?k = Some a" by (metis key_ok.simps(2))
  obtain v where v: "lv_heap (spl s) a = Some v" using map_inv_Some[OF mp k] by blast
  from lv k v have b: "b = a"
    and l': "l' = (spl s)\<lparr>lv_heap := (lv_heap (spl s))(a \<mapsto> v\<lparr>lv_count := lv_count v - 1\<rparr>),
      lockMap := (if lv_count v = 1 then (lockMap (spl s))(?k := None) else lockMap (spl s))\<rparr>"
    by (auto simp: leave_eq bump_count_def)
  have tin: "t \<in> users (phases s) a" by (simp add: users_def t)
  have fu: "finite (users (phases s) a)" using fin by (rule finite_users)
  have c: "lv_count v = int (card (users (phases s) a))" using cnt k v by (auto simp: count_inv_def)
  have us: "users ?ph d = users (phases s) d - {t}" for d by (simp add: users_upd)
  have ua: "users (phases s) d - {t} = users (phases s) d" if "d \<noteq> a" for d
    using that by (auto simp: users_def t)
  have "map_inv l'" using mp v by (auto simp: map_inv_def l')
  moreover have "\<forall>u. key_ok mode (lockMap l') (?ph u)"
  proof (rule key_ok_step[OF key])
    fix u q d
    assume u: "u \<noteq> t" "uses d (phases s u)" and q: "lockMap (spl s) q = Some d"
    show "lockMap l' q = Some d"
    proof (cases "lv_count v = 1")
      case True
      with c have "card (users (phases s) a) = 1" by simp
      with tin have "users (phases s) a = {t}" by (auto simp: card_1_singleton_iff)
      with u have "d \<noteq> a" by (auto simp: users_def)
      with q k have "q \<noteq> ?k" by auto
      with q show ?thesis by (simp add: l')
    qed (simp add: l' q)
  qed simp
  moreover have "count_inv (s\<lparr>spl := l', phases := ?ph\<rparr>)"
    unfolding count_inv_def
  proof (intro allI impI)
    fix q d w
    assume q: "lockMap (spl (s\<lparr>spl := l', phases := ?ph\<rparr>)) q = Some d"
      and w: "lv_heap (spl (s\<lparr>spl := l', phases := ?ph\<rparr>)) d = Some w"
    have q0: "lockMap (spl s) q = Some d" using q by (auto simp: l' split: if_splits)
    show "lv_count w = int (card (users (phases (s\<lparr>spl := l', phases := ?ph\<rparr>)) d)) \<and>
      users (phases (s\<lparr>spl := l', phases := ?ph\<rparr>)) d \<noteq> {}"
    proof (cases "d = a")
      case True
      with q0 k mp have "q = ?k" by (metis map_inv_inj)
      with q True have "lv_count v \<noteq> 1" by (auto simp: l')
      with c have n1: "card (users (phases s) a) \<noteq> 1" by simp
      have "1 \<le> card (users (phases s) a)" using tin fu by (metis One_nat_def Suc_leI card_gt_0_iff empty_iff)
      moreover have "card (users (phases s) a - {t}) = card (users (phases s) a) - 1"
        using tin fu by (simp add: card_Diff_singleton)
      ultimately have "card (users (phases s) a - {t}) \<noteq> 0"
        and i: "int (card (users (phases s) a - {t})) = int (card (users (phases s) a)) - 1"
        using n1 by linarith+
      then have "users (phases s) a - {t} \<noteq> {}" by (metis card.empty)
      moreover have "lv_count w = lv_count v - 1" using w True by (auto simp: l')
      ultimately show ?thesis using c i True by (simp add: us del: Diff_eq_empty_iff)
    next
      case False
      with w cnt q0 show ?thesis by (auto simp: l' us ua count_inv_def)
    qed
  qed
  moreover have "mutex_inv (s\<lparr>spl := l', phases := ?ph\<rparr>)"
    using mtx by (rule mutex_inv_upd) (auto simp: t b l' v)
  ultimately show ?thesis
    using finite_busy_upd[OF fin] by (simp add: spl_inv_def)
qed

lemma leave_found:
  assumes "spl_inv mode s" and "phases s t = Holding m c r a"
  obtains l' where "leave mode m c r (spl s) = Some (a, l')"
proof -
  from assms have "key_ok mode (lockMap (spl s)) (Holding m c r a)" by (metis spl_inv_def)
  with that show ?thesis by (simp add: leave_eq)
qed

lemma releasing_locked:
  assumes "spl_inv mode s" and "phases s t = Releasing m a"
  obtains v x where "lv_heap (spl s) a = Some v" and "release_lock m (lv_lock v) = Some x"
  using owner_locked[of s t m a] assms by (auto simp: spl_inv_def owners_def)

lemma spl_step_inv:
  assumes "spl_step mode s s'" and "spl_inv mode s"
  shows "spl_inv mode s'"
  using assms
proof (cases rule: spl_step.cases)
  case (step_enter t m conn rid a l')
  with assms(2) show ?thesis by (simp add: enter_inv)
next
  case (step_acquire t m conn rid a v x)
  with assms(2) show ?thesis by (simp add: acquire_inv)
next
  case (step_leave t m conn rid a b l')
  with assms(2) show ?thesis by (simp add: leave_inv)
next
  case (step_leave_nil t m conn rid a)
  with leave_found[OF assms(2), of t m conn rid a] show ?thesis by force
next
  case (step_release t m a v x)
  with assms(2) show ?thesis by (simp add: release_inv)
next
  case (step_release_fatal t m a)
  with releasing_locked[OF assms(2), of t m a] show ?thesis by force
qed

lemma reachable_inv: "reachable mode s \<Longrightarrow> spl_inv mode s"
  by (induction rule: reachable.induct) (auto intro: spl_inv_init spl_step_inv)

section \<open>What the lock guarantees\<close>

text \<open>
  C6: Mutual exclusion per resource. While a goroutine is between \<open>Lock\<close> and \<open>Unlock\<close> of a key, no other
  goroutine is between \<open>Lock\<close>/\<open>RLock\<close> and \<open>Unlock\<close>/\<open>RUnlock\<close> of the same key, although the entry and its
  \<open>RWMutex\<close> are removed and recreated while others wait. The key is the resource name together with the
  connection, or with the permission mode for all connections when that mode is set.
\<close>

theorem spl_mutual_exclusion:
  assumes "reachable mode s"
    and "phases s t = Holding Wr c r a" and "phases s t' = Holding m c' r' a'"
    and "lock_key mode c r = lock_key mode c' r'"
  shows "t = t'"
proof -
  from assms(1) have inv: "spl_inv mode s" by (rule reachable_inv)
  then have fin: "finite {t. phases s t \<noteq> Idle}" and mtx: "mutex_inv s"
    and k: "key_ok mode (lockMap (spl s)) (phases s u)" for u by (simp_all add: spl_inv_def)
  from k[of t] k[of t'] assms(2-4) have aa: "a' = a" by simp
  have w: "t \<in> owners (phases s) Wr a" and o: "t' \<in> owners (phases s) m a"
    using assms(2,3) aa by (auto simp: owners_def)
  from owner_locked[OF fin mtx w] obtain v x where v: "lv_heap (spl s) a = Some v"
    and r: "release_lock Wr (lv_lock v) = Some x" by blast
  note d = mutex_invD[OF mtx v]
  from r have "rw_writer (lv_lock v)" by (simp add: release_lock_def mutex_Unlock_def split: if_splits)
  with d have c1: "card (owners (phases s) Wr a) = 1" and c0: "card (owners (phases s) Rd a) = 0" by simp_all
  have "owners (phases s) Rd a = {}" using c0 finite_owners[OF fin, of Rd a] by simp
  with o have "m = Wr" by (cases m) auto
  with o w c1 show ?thesis by (auto simp: card_1_singleton_iff)
qed

text \<open>
  C28: No goroutine ever dereferences a missing lock entry in \<open>Unlock\<close>/\<open>RUnlock\<close>, nor unlocks an \<open>RWMutex\<close>
  that is not locked: the panics of the code are unreachable.
\<close>

theorem spl_never_panics: "reachable mode s \<Longrightarrow> phases s t \<noteq> Panicked"
  using reachable_inv[of mode s] by (auto simp: spl_inv_def dest: spec[of _ t])

text \<open>The goroutines that wait for or hold a key are the users of the key's entry.\<close>

definition key_users :: "string \<Rightarrow> (nat \<Rightarrow> phase) \<Rightarrow> LockKey \<Rightarrow> nat set" where
  "key_users mode ph k = {t. \<exists>m c r a. lock_key mode c r = k \<and> (ph t = Blocked m c r a \<or> ph t = Holding m c r a)}"

lemma key_users_eq:
  assumes "map_inv s" and "\<forall>t. key_ok mode (lockMap s) (ph t)" and "lockMap s k = Some a"
  shows "key_users mode ph k = users ph a"
proof (rule set_eqI)
  fix t
  from assms(2) have "key_ok mode (lockMap s) (ph t)" ..
  moreover have "lock_key mode c r = k \<longleftrightarrow> b = a" if "lockMap s (lock_key mode c r) = Some b" for c r b
    using that assms(3) map_inv_inj[OF assms(1) _ assms(3), of "lock_key mode c r"] by force
  ultimately show "t \<in> key_users mode ph k \<longleftrightarrow> t \<in> users ph a"
    by (cases "ph t") (simp_all add: key_users_def users_def)
qed

text \<open>
  C29: The lock map is exact. A goroutine that waits for or holds the lock of a connection and a name finds,
  under that key, the very entry it works with. A key is in the map exactly when some goroutine waits for or
  holds it, and the entry's reference counter is the number of these goroutines.
\<close>

theorem spl_refcount:
  assumes "reachable mode s"
  shows "(\<forall>t m c r a. phases s t = Blocked m c r a \<or> phases s t = Holding m c r a \<longrightarrow>
      lockMap (spl s) (lock_key mode c r) = Some a) \<and>
    (\<forall>k. (lockMap (spl s) k \<noteq> None) = (key_users mode (phases s) k \<noteq> {})) \<and>
    (\<forall>k a. lockMap (spl s) k = Some a \<longrightarrow>
      (\<exists>v. lv_heap (spl s) a = Some v \<and> lv_count v = int (card (key_users mode (phases s) k)) \<and> 0 < lv_count v))"
proof -
  from assms have inv: "spl_inv mode s" by (rule reachable_inv)
  then have fin: "finite {t. phases s t \<noteq> Idle}" and key: "\<forall>t. key_ok mode (lockMap (spl s)) (phases s t)"
    and mp: "map_inv (spl s)" and cnt: "count_inv s" by (simp_all add: spl_inv_def)
  note eq = key_users_eq[OF mp key]
  have found: "lockMap (spl s) (lock_key mode c r) = Some a"
    if "phases s t = Blocked m c r a \<or> phases s t = Holding m c r a" for t m c r a
    using key[rule_format, of t] that by auto
  have entry: "\<exists>v. lv_heap (spl s) a = Some v \<and> lv_count v = int (card (key_users mode (phases s) k)) \<and> 0 < lv_count v
      \<and> key_users mode (phases s) k \<noteq> {}" if k: "lockMap (spl s) k = Some a" for k a
  proof -
    obtain v where v: "lv_heap (spl s) a = Some v" using map_inv_Some[OF mp k] by blast
    with cnt k have "lv_count v = int (card (users (phases s) a))" and "users (phases s) a \<noteq> {}"
      by (auto simp: count_inv_def)
    moreover from this finite_users[OF fin, of a] have "0 < lv_count v" by (simp add: card_gt_0_iff)
    ultimately show ?thesis using v eq[OF k] by auto
  qed
  have "lockMap (spl s) k \<noteq> None" if "key_users mode (phases s) k \<noteq> {}" for k
    using that found by (auto simp: key_users_def) blast+
  with found entry show ?thesis by blast
qed

text \<open>
  C30: Nothing is left behind. When no goroutine waits for or holds a lock, the lock map is empty.
\<close>

theorem spl_no_leak:
  assumes "reachable mode s" and "\<And>t. phases s t = Idle"
  shows "lockMap (spl s) = Map.empty"
proof
  fix k
  have inv: "map_inv (spl s)" "count_inv s" using reachable_inv[OF assms(1)] by (simp_all add: spl_inv_def)
  have "users (phases s) a = {}" for a using assms(2) by (auto simp: users_def)
  with inv map_inv_Some[OF inv(1), of k] show "lockMap (spl s) k = None"
    by (cases "lockMap (spl s) k") (auto simp: count_inv_def)
qed

text \<open>
  C31: The lock itself never deadlocks. In every reachable state in which some goroutine is not idle, some
  goroutine that is not idle can take its next step (acquire, leave or release), and none of them panics.
\<close>

theorem spl_progress:
  assumes "reachable mode s" and "phases s t \<noteq> Idle"
  shows "\<exists>u s'. phases s u \<noteq> Idle \<and> spl_step mode s s' \<and> phases s' u \<noteq> phases s u \<and> phases s' u \<noteq> Panicked"
proof -
  from assms(1) have inv: "spl_inv mode s" by (rule reachable_inv)
  then have fin: "finite {t. phases s t \<noteq> Idle}" and key: "\<And>u. key_ok mode (lockMap (spl s)) (phases s u)"
    and mp: "map_inv (spl s)" and mtx: "mutex_inv s" by (simp_all add: spl_inv_def)
  consider (hold) u m c r a where "phases s u = Holding m c r a"
    | (rel) u m a where "phases s u = Releasing m a"
    | (blocked) "\<And>u. owners (phases s) Wr u = {} \<and> owners (phases s) Rd u = {}"
    by (metis Collect_empty_eq owners_def owns.elims(2))
  then show ?thesis
  proof cases
    case hold
    with leave_found[OF inv hold] obtain l' where "leave mode m c r (spl s) = Some (a, l')" by blast
    from step_leave[OF hold this] hold show ?thesis
      by (intro exI[of _ u] exI) (auto intro!: exI)
  next
    case rel
    from releasing_locked[OF inv rel] obtain v x where "lv_heap (spl s) a = Some v"
      and "release_lock m (lv_lock v) = Some x" by blast
    from step_release[OF rel this] rel show ?thesis
      by (intro exI[of _ u] exI) (auto intro!: exI)
  next
    case blocked
    have "\<nexists>m c r a. phases s t = Holding m c r a" and "\<nexists>m a. phases s t = Releasing m a"
      using blocked owners_in[of _ _ "phases s" t] by (metis empty_iff lmode.exhaust owns.simps(1,2))+
    with assms(2) key[of t] obtain m c r a where b: "phases s t = Blocked m c r a"
      by (cases "phases s t") auto
    with key[of t] have "lockMap (spl s) (lock_key mode c r) = Some a" by simp
    then obtain v where v: "lv_heap (spl s) a = Some v" using map_inv_Some[OF mp] by blast
    from blocked[of a] mutex_invD[OF mtx v] have "acquire_lock m (lv_lock v) \<noteq> None"
      by (cases m) (auto simp: acquire_lock_def mutex_Lock_def mutex_RLock_def split: if_splits)
    then obtain x where "acquire_lock m (lv_lock v) = Some x" by blast
    from step_acquire[OF b v this] b show ?thesis
      by (intro exI[of _ t] exI) (auto intro!: exI)
  qed
qed


section \<open>A concrete run\<close>

text \<open>
  Goroutine 7 locks \<open>vm-01\<close> of \<open>aws\<close>, goroutine 8 waits for it; then 7 unlocks, which leaves the entry to
  8, and at the end 8 takes the lock and unlocks as well.
\<close>

definition run_map :: "LockKey \<rightharpoonup> nat" where
  "run_map = [lock_key [] ''aws'' ''vm-01'' \<mapsto> 0]"

definition run_val :: "bool \<Rightarrow> int \<Rightarrow> LockValue" where
  "run_val w n = \<lparr>lv_lock = \<lparr>rw_writer = w, rw_readers = 0\<rparr>, lv_count = n\<rparr>"

definition run_spl :: "bool \<Rightarrow> int \<Rightarrow> SPLOCK" where
  "run_spl w n = \<lparr>lockMap = run_map, lv_heap = [0 \<mapsto> run_val w n], next_addr = 1\<rparr>"

definition run_held :: system where
  "run_held = \<lparr>spl = run_spl True 2, phases = (\<lambda>_. Idle)(7 := Holding Wr ''aws'' ''vm-01'' 0, 8 := Blocked Wr ''aws'' ''vm-01'' 0)\<rparr>"

definition run_done :: system where
  "run_done = \<lparr>spl = (run_spl False 0)\<lparr>lockMap := Map.empty\<rparr>, phases = (\<lambda>_. Idle)\<rparr>"

lemmas run_defs = run_val_def run_spl_def run_map_def leave_eq bump_count_def LockValue_zero_def New_SPLOCK_def init_system_def
  acquire_lock_def release_lock_def mutex_Lock_def mutex_Unlock_def set_lock_def enter_def Lock_section_def

lemma reachable_run_held: "reachable [] run_held"
proof -
  let ?ph = "(\<lambda>_. Idle)(7 := Blocked Wr ''aws'' ''vm-01'' 0)"
  have "reachable [] \<lparr>spl = run_spl False 1, phases = ?ph\<rparr>"
    using reachable_step[OF reachable_init step_enter[of init_system 7 "[]" Wr "''aws''" "''vm-01''" 0 "run_spl False 1"]]
    by (simp add: run_defs)
  from reachable_step[OF this step_acquire[of _ 7 Wr "''aws''" "''vm-01''" 0 "run_val False 1" "\<lparr>rw_writer = True, rw_readers = 0\<rparr>"]]
  have "reachable [] \<lparr>spl = run_spl True 1, phases = ?ph(7 := Holding Wr ''aws'' ''vm-01'' 0)\<rparr>"
    by (simp add: run_defs)
  from reachable_step[OF this step_enter[of _ 8 "[]" Wr "''aws''" "''vm-01''" 0 "run_spl True 2"]]
  show ?thesis by (simp add: run_held_def run_defs fun_upd_twist)
qed

lemma reachable_run_done: "reachable [] run_done"
proof -
  let ?b = "Blocked Wr ''aws'' ''vm-01'' 0" and ?h = "Holding Wr ''aws'' ''vm-01'' 0"
  from reachable_step[OF reachable_run_held step_leave[of _ 7 Wr "''aws''" "''vm-01''" 0 "[]" 0 "run_spl True 1"]]
  have "reachable [] \<lparr>spl = run_spl True 1, phases = (\<lambda>_. Idle)(7 := Releasing Wr 0, 8 := ?b)\<rparr>"
    by (simp add: run_held_def run_defs fun_upd_twist)
  from reachable_step[OF this step_release[of _ 7 Wr 0 "run_val True 1" "\<lparr>rw_writer = False, rw_readers = 0\<rparr>"]]
  have "reachable [] \<lparr>spl = run_spl False 1, phases = (\<lambda>_. Idle)(8 := ?b)\<rparr>"
    by (simp add: run_defs fun_upd_idem fun_upd_twist)
  from reachable_step[OF this step_acquire[of _ 8 Wr "''aws''" "''vm-01''" 0 "run_val False 1" "\<lparr>rw_writer = True, rw_readers = 0\<rparr>"]]
  have "reachable [] \<lparr>spl = run_spl True 1, phases = (\<lambda>_. Idle)(8 := ?h)\<rparr>"
    by (simp add: run_defs)
  from reachable_step[OF this step_leave[of _ 8 Wr "''aws''" "''vm-01''" 0 "[]" 0 "(run_spl True 0)\<lparr>lockMap := Map.empty\<rparr>"]]
  have "reachable [] \<lparr>spl = (run_spl True 0)\<lparr>lockMap := Map.empty\<rparr>, phases = (\<lambda>_. Idle)(8 := Releasing Wr 0)\<rparr>"
    by (simp add: run_defs)
  from reachable_step[OF this step_release[of _ 8 Wr 0 "run_val True 0" "\<lparr>rw_writer = False, rw_readers = 0\<rparr>"]]
  show ?thesis by (simp add: run_done_def run_defs fun_upd_idem)
qed

theorem spl_mutual_exclusion_witness: "{t. \<exists>m a. phases run_held t = Holding m ''aws'' ''vm-01'' a} = {7}"
proof -
  have h: "phases run_held 7 = Holding Wr ''aws'' ''vm-01'' 0" by (simp add: run_held_def)
  have "t = 7" if "phases run_held t = Holding m ''aws'' ''vm-01'' a" for t m a
    using spl_mutual_exclusion[OF reachable_run_held h that] by simp
  with h show ?thesis by blast
qed

theorem spl_never_panics_witness: "reachable [] run_held \<and> phases run_held 8 \<noteq> Panicked"
  using reachable_run_held spl_never_panics[OF reachable_run_held] by blast

theorem spl_refcount_witness:
  "lockMap (spl run_held) (lock_key [] ''aws'' ''vm-01'') = Some 0 \<and>
   map_option lv_count (lv_heap (spl run_held) 0) = Some 2 \<and>
   card (key_users [] (phases run_held) (lock_key [] ''aws'' ''vm-01'')) = 2"
proof -
  have k: "lockMap (spl run_held) (lock_key [] ''aws'' ''vm-01'') = Some 0"
    and h: "lv_heap (spl run_held) 0 = Some \<lparr>lv_lock = \<lparr>rw_writer = True, rw_readers = 0\<rparr>, lv_count = 2\<rparr>"
    by (simp_all add: run_held_def run_defs)
  have "int (card (key_users [] (phases run_held) (lock_key [] ''aws'' ''vm-01''))) = 2"
    using spl_refcount[OF reachable_run_held] k h by force
  with k h show ?thesis by simp
qed

theorem spl_no_leak_witness: "lockMap (spl run_done) = Map.empty"
  by (rule spl_no_leak[OF reachable_run_done]) (simp add: run_done_def)

theorem spl_progress_witness:
  "\<exists>u s'. phases run_held u \<noteq> Idle \<and> spl_step [] run_held s' \<and> phases s' u \<noteq> phases run_held u \<and> phases s' u \<noteq> Panicked"
  by (rule spl_progress[OF reachable_run_held, of 7]) (simp add: run_held_def)

end
