(* ===== verification/IIDManager.thy ===== *)
theory IIDManager
  imports IID
begin

text \<open>
  Generation of the driver-side name (SP-XID) of a resource, \<open>iid-manager/IIDManager.go\<close>. The
  connection configuration and the provider's meta information (\<open>ccim.GetConnectionConfig\<close>,
  \<open>cim.GetCloudOSMetaInfo\<close>) and the next identifier of the library \<open>rs/xid\<close> are arguments. What the
  code relies on for \<open>xid.New().String()\<close> is that it has 20 characters out of \<open>0-9a-v\<close>.
\<close>

section \<open>Characters\<close>

definition is_letter :: "char \<Rightarrow> bool" where
  "is_letter c = (let n = of_char c :: nat in (65 \<le> n \<and> n \<le> 90) \<or> (97 \<le> n \<and> n \<le> 122))"

definition is_uid_char :: "char \<Rightarrow> bool" where
  "is_uid_char c =
     (let n = of_char c :: nat
      in (65 \<le> n \<and> n \<le> 90) \<or> (97 \<le> n \<and> n \<le> 122) \<or> (48 \<le> n \<and> n \<le> 57) \<or> n = 45 \<or> n = 95)"

text \<open>What \<open>rs/xid\<close> documents of its identifiers: base32hex, lower case, 20 characters.\<close>

definition is_xid :: "string \<Rightarrow> bool" where
  "is_xid x \<longleftrightarrow> length x = 20 \<and>
     (\<forall>c \<in> set x. let n = of_char c :: nat in (48 \<le> n \<and> n \<le> 57) \<or> (97 \<le> n \<and> n \<le> 118))"

section \<open>Operations\<close>

definition getIDXNumber :: "string \<Rightarrow> int" where
  "getIDXNumber rsType =
     (if rsType = ''vpc'' then 0
      else if rsType = ''subnet'' then 1
      else if rsType = ''sg'' then 2
      else if rsType = ''keypair'' then 3
      else if rsType = ''vm'' then 4
      else if rsType = ''disk'' then 5
      else if rsType = ''nlb'' then 6
      else if rsType = ''myimage'' then 7
      else if rsType = ''cluster'' then 8
      else if rsType = ''nodegroup'' then 9
      else if rsType = ''rdbms'' then 10
      else - 1)"

text \<open>\<open>meta\<close> is \<open>cim.GetCloudOSMetaInfo\<close>, giving the list \<open>IdMaxLength\<close> or an error.\<close>

definition getIdMaxLength :: "(string \<Rightarrow> string list go_result) \<Rightarrow> string \<Rightarrow> string \<Rightarrow> int" where
  "getIdMaxLength meta providerName rsType =
     (case meta providerName of
        Inl _ \<Rightarrow> 0
      | Inr idMaxLength \<Rightarrow>
          if length idMaxLength \<le> 1 then 0
          else (let idx = getIDXNumber rsType
                in if idx = - 1 then 0
                   else if int (length idMaxLength) \<le> idx then 0
                   else fst (Atoi (idMaxLength ! nat idx))))"

definition convertDashOrUnderScore :: "string \<Rightarrow> string \<Rightarrow> string" where
  "convertDashOrUnderScore providerName spXID =
     (let converted = (if providerName = ''TENCENT'' then ReplaceAll spXID ''-'' ''_''
                       else ReplaceAll spXID ''_'' ''-'')
      in ReplaceAll converted ''sg-'' ''sg'')"

fun cook_loop :: "nat \<Rightarrow> string \<Rightarrow> string \<Rightarrow> string" where
  "cook_loop maxLength filtered [] = filtered"
| "cook_loop maxLength filtered (c # cs) =
     (if length filtered = maxLength then filtered
      else if (if filtered = [] then is_letter c else is_uid_char c)
      then cook_loop maxLength (filtered @ [c]) cs
      else cook_loop maxLength filtered cs)"

definition cookUID :: "string \<Rightarrow> nat \<Rightarrow> string" where
  "cookUID orgUID maxLength = ToLower (cook_loop maxLength [] orgUID)"

text \<open>The name limits that are written out for some providers, in the code's order.\<close>

definition New_special :: "string \<Rightarrow> string \<Rightarrow> string \<Rightarrow> string \<Rightarrow> string option" where
  "New_special provider rsType xid uid =
     (if provider = ''AZURE'' \<and> rsType = ''nodegroup'' then
        (let retUID = ToLower (ReplaceAll uid ''-'' '''')
         in Some (if 12 < length retUID then take 7 uid @ take 5 xid else retUID))
      else if provider = ''IBM'' \<and> rsType = ''nodegroup'' then
        (let retUID = ToLower uid
         in Some (if 32 < length retUID then take 27 uid @ take 5 xid else retUID))
      else if provider = ''NHN'' \<and> (rsType = ''cluster'' \<or> rsType = ''nodegroup'') then
        (let retUID = ToLower uid
         in Some (if 20 < length retUID then take 15 uid @ take 5 xid else retUID))
      else if provider = ''NCP'' \<and> rsType = ''windowsvm'' then
        (let retUID = ToLower uid
         in Some (if 15 < length retUID then take 10 uid @ take 5 xid else retUID))
      else if provider = ''NCP'' \<and> (rsType = ''cluster'' \<or> rsType = ''nodegroup'') then
        (let retUID = ToLower (ReplaceAll uid ''_'' ''-'')
         in Some (if 20 < length retUID then take 15 uid @ take 5 xid else retUID))
      else if provider = ''NCP'' \<and> rsType = ''rdbms'' then
        (let pre = ToLower (ReplaceAll uid ''_'' ''-'');
             pre = (if 24 < length pre then take 24 pre else pre)
         in Some (pre @ ''-'' @ take 5 xid))
      else if provider = ''SCP'' \<and> (rsType = ''vpc'' \<or> rsType = ''subnet'') then
        (let retUID = ToLower (ReplaceAll uid ''_'' ''-'')
         in Some (if 20 < length retUID then take 15 uid @ take 5 xid else retUID))
      else None)"

definition New_default :: "(string \<Rightarrow> string list go_result) \<Rightarrow> string \<Rightarrow> string \<Rightarrow> string \<Rightarrow> string \<Rightarrow> string go_result" where
  "New_default meta provider rsType xid uid =
     (let rsMaxLength = getIdMaxLength meta provider rsType
      in if 0 < rsMaxLength \<and> rsMaxLength \<le> 21 then Inl ''The Minimum ID Length must be greater than 21!''
         else (let maxLength = (if 21 < rsMaxLength then nat (rsMaxLength - 21) else 9);
                   spXID = cookUID uid maxLength @ ''-'' @ xid
               in Inr (convertDashOrUnderScore provider spXID)))"

text \<open>\<open>conf\<close> is \<open>ccim.GetConnectionConfig\<close>, giving the connection's provider name or an error.\<close>

definition New :: "(string \<Rightarrow> string go_result) \<Rightarrow> (string \<Rightarrow> string list go_result) \<Rightarrow>
    string \<Rightarrow> string \<Rightarrow> string \<Rightarrow> string \<Rightarrow> string go_result" where
  "New conf meta xid cloudConnectName rsType uid =
     (case conf cloudConnectName of
        Inl e \<Rightarrow> Inl e
      | Inr provider \<Rightarrow>
          (case New_special provider rsType xid uid of
             Some r \<Rightarrow> Inr r
           | None \<Rightarrow> New_default meta provider rsType xid uid))"

section \<open>Lengths\<close>

text \<open>The longest name the provider accepts for the resource type, as the code has it.\<close>

definition id_limit :: "(string \<Rightarrow> string list go_result) \<Rightarrow> string \<Rightarrow> string \<Rightarrow> nat" where
  "id_limit meta provider rsType =
     (if provider = ''AZURE'' \<and> rsType = ''nodegroup'' then 12
      else if provider = ''IBM'' \<and> rsType = ''nodegroup'' then 32
      else if provider = ''NHN'' \<and> (rsType = ''cluster'' \<or> rsType = ''nodegroup'') then 20
      else if provider = ''NCP'' \<and> rsType = ''windowsvm'' then 15
      else if provider = ''NCP'' \<and> (rsType = ''cluster'' \<or> rsType = ''nodegroup'') then 20
      else if provider = ''NCP'' \<and> rsType = ''rdbms'' then 30
      else if provider = ''SCP'' \<and> (rsType = ''vpc'' \<or> rsType = ''subnet'') then 20
      else if 21 < getIdMaxLength meta provider rsType then nat (getIdMaxLength meta provider rsType)
      else 30)"

lemma length_cook_loop: "length filtered \<le> n \<Longrightarrow> length (cook_loop n filtered s) \<le> n"
  by (induction s arbitrary: filtered) auto

lemma length_cookUID: "length (cookUID s n) \<le> n"
  by (simp add: cookUID_def length_cook_loop)

lemma length_convert: "length (convertDashOrUnderScore p s) \<le> length s"
proof -
  have "length (ReplaceAll t ''sg-'' ''sg'') \<le> length t" for t
    by (rule ReplaceAll_length_le) simp
  moreover have "length (ReplaceAll s ''-'' ''_'') \<le> length s" and "length (ReplaceAll s ''_'' ''-'') \<le> length s"
    by (rule ReplaceAll_length_le, simp)+
  ultimately show ?thesis by (auto simp: convertDashOrUnderScore_def Let_def intro: order_trans)
qed

lemma length_New_default:
  assumes "New_default meta p rs xid uid = Inr r" and "length xid = 20"
  shows "length r \<le> (if 21 < getIdMaxLength meta p rs then nat (getIdMaxLength meta p rs) else 30)"
proof -
  define n where "n = (if 21 < getIdMaxLength meta p rs then nat (getIdMaxLength meta p rs - 21) else 9)"
  have "r = convertDashOrUnderScore p (cookUID uid n @ ''-'' @ xid)"
    using assms(1) by (auto simp: New_default_def Let_def n_def split: if_splits)
  then have "length r \<le> length (cookUID uid n @ ''-'' @ xid)" by (simp only: length_convert)
  also have "\<dots> \<le> n + 21" using length_cookUID[of uid n] assms(2) by simp
  finally show ?thesis by (auto simp: n_def split: if_splits)
qed

lemma choice_length:
  assumes "(if a then Some x1 else if b then Some x2 else if c then Some x3 else if d then Some x4
      else if e then Some x5 else if f then Some x6 else if g then Some x7 else None) = Some r"
    and "length x1 \<le> n1" and "length x2 \<le> n2" and "length x3 \<le> n3" and "length x4 \<le> n4"
    and "length x5 \<le> n5" and "length x6 \<le> n6" and "length x7 \<le> n7"
  shows "length r \<le> (if a then n1 else if b then n2 else if c then n3 else if d then n4
      else if e then n5 else if f then n6 else if g then n7 else n8)"
  using assms by (simp split: if_split_asm)

lemma length_New_special:
  assumes "New_special p rs xid uid = Some r"
  shows "length r \<le> id_limit meta p rs"
  using assms unfolding New_special_def id_limit_def Let_def
  by (rule choice_length) (auto simp: min_def)

text \<open>
  C16: Every generated name fits the length limit of its provider and resource type, given that an xid has 20
  characters: the limits written out in the code, the provider's \<open>idmaxlength\<close>, or 30 by default.
\<close>

theorem New_length:
  assumes "New conf meta xid conn rs uid = Inr r" and "conf conn = Inr p" and "is_xid xid"
  shows "length r \<le> id_limit meta p rs"
proof (cases "New_special p rs xid uid")
  case None
  with assms have d: "New_default meta p rs xid uid = Inr r" by (simp add: New_def)
  from None have "id_limit meta p rs = (if 21 < getIdMaxLength meta p rs then nat (getIdMaxLength meta p rs) else 30)"
    by (auto simp: New_special_def id_limit_def Let_def split: if_splits)
  with length_New_default[OF d] assms(3) show ?thesis by (simp add: is_xid_def)
next
  case (Some q)
  with assms show ?thesis by (simp add: New_def length_New_special)
qed

section \<open>Characters of the generated name\<close>

lemma letter_uid_char: "is_letter c \<Longrightarrow> is_uid_char c"
  by (auto simp: is_letter_def is_uid_char_def Let_def)

lemma set_cook_loop: "x \<in> set (cook_loop n f s) \<Longrightarrow> x \<in> set f \<or> is_uid_char x"
proof (induction s arbitrary: f)
  case (Cons c cs)
  then show ?case using letter_uid_char[of c] Cons.IH[of "f @ [c]"] Cons.IH[of f] by (auto split: if_splits)
qed simp

lemma lower_uid_char: "is_uid_char c \<Longrightarrow> is_uid_char (lower_char c)"
  by (auto simp: is_uid_char_def of_char_lower_char Let_def)

lemma cookUID_chars: "c \<in> set (cookUID s n) \<Longrightarrow> is_uid_char c \<and> lower_char c = c"
  using set_cook_loop[of _ n "[]" s] by (auto simp: cookUID_def ToLower_def lower_uid_char)

lemma xid_chars: "is_xid x \<Longrightarrow> c \<in> set x \<Longrightarrow> is_uid_char c \<and> lower_char c = c \<and> c \<noteq> CHR ''-'' \<and> c \<noteq> CHR ''_''"
  by (auto simp: is_xid_def is_uid_char_def lower_char_def Let_def)

lemma convert_chars: "set (convertDashOrUnderScore p s) \<subseteq> set s \<union> {CHR ''-'', CHR ''_'', CHR ''s'', CHR ''g''}"
proof -
  let ?m = "\<lambda>t. ReplaceAll t ''sg-'' ''sg''"
  have "set (?m t) \<subseteq> set t \<union> {CHR ''s'', CHR ''g''}" for t
    using ReplaceAll_set[of t "''sg-''" "''sg''"] by simp
  moreover have "set (ReplaceAll s ''-'' ''_'') \<subseteq> set s \<union> {CHR ''_''}"
    and "set (ReplaceAll s ''_'' ''-'') \<subseteq> set s \<union> {CHR ''-''}"
    using ReplaceAll_set[of s "''-''" "''_''"] ReplaceAll_set[of s "''_''" "''-''"] by simp_all
  ultimately have "set (?m (ReplaceAll s ''-'' ''_'')) \<subseteq> set s \<union> {CHR ''-'', CHR ''_'', CHR ''s'', CHR ''g''}"
    and "set (?m (ReplaceAll s ''_'' ''-'')) \<subseteq> set s \<union> {CHR ''-'', CHR ''_'', CHR ''s'', CHR ''g''}"
    by blast+
  then show ?thesis by (simp add: convertDashOrUnderScore_def)
qed

lemma sep_uid_chars: "\<forall>c \<in> {CHR ''-'', CHR ''_'', CHR ''s'', CHR ''g''}. is_uid_char c \<and> lower_char c = c"
  by code_simp

lemma New_default_chars:
  assumes "New_default meta p rs xid uid = Inr r" and "is_xid xid" and "c \<in> set r"
  shows "is_uid_char c \<and> lower_char c = c"
proof -
  obtain n where "r = convertDashOrUnderScore p (cookUID uid n @ ''-'' @ xid)"
    using assms(1) by (auto simp: New_default_def Let_def split: if_splits)
  with assms(3) convert_chars[of p "cookUID uid n @ ''-'' @ xid"]
  have "c \<in> set (cookUID uid n) \<or> c \<in> set xid \<or> c \<in> {CHR ''-'', CHR ''_'', CHR ''s'', CHR ''g''}" by auto
  then show ?thesis using cookUID_chars[of c uid n] xid_chars[OF assms(2), of c] sep_uid_chars by blast
qed

lemma colon_not_uid_char: "\<not> is_uid_char (CHR '':'')"
  by code_simp

lemma prefix_append_no_last:
  assumes "old \<noteq> []" and "last old \<notin> set x"
  shows "prefix old (s @ x) \<longleftrightarrow> prefix old s"
proof -
  have "prefix old s" if "old = s @ us" and "prefix us x" for us
  proof (cases "us = []")
    case False
    with that have "last old \<in> set us" by simp
    moreover have "set us \<subseteq> set x" using that(2) by (rule set_mono_prefix)
    ultimately show ?thesis using assms(2) by blast
  qed (use that in simp)
  then show ?thesis by (auto simp: prefix_append)
qed

lemma ReplaceAll_append_right:
  assumes "old \<noteq> []" and "last old \<notin> set x"
  shows "ReplaceAll (s @ x) old new = ReplaceAll s old new @ x"
  using assms
proof (induction s old new rule: ReplaceAll.induct)
  case (1 old new)
  have "last old \<in> set old" using 1 by simp
  with 1(2) have "\<not> Contains x old" using Contains_chars by blast
  then show ?case by (simp add: ReplaceAll_absent)
next
  case (2 c cs old new)
  note pre = prefix_append_no_last[OF 2(3,4), of "c # cs"]
  show ?case
  proof (cases "prefix old (c # cs)")
    case True
    then have "length old \<le> length (c # cs)" by (rule prefix_length_le)
    from pre True have True': "prefix old (c # cs @ x)" by simp
    have "ReplaceAll (c # cs @ x) old new = new @ ReplaceAll (drop (length old) (c # cs @ x)) old new"
      using True' 2(3) by simp
    also have "drop (length old) (c # cs @ x) = drop (length old) (c # cs) @ x"
      using drop_append[of "length old" "c # cs" x] \<open>length old \<le> length (c # cs)\<close> by simp
    also have "ReplaceAll (drop (length old) (c # cs) @ x) old new = ReplaceAll (drop (length old) (c # cs)) old new @ x"
      using 2 True by blast
    finally show ?thesis using True 2(3) by simp
  next
    case False
    with pre 2 show ?thesis by simp
  qed
qed

lemma xid_no_sep: "is_xid x \<Longrightarrow> CHR ''-'' \<notin> set x \<and> CHR ''_'' \<notin> set x"
  using xid_chars by blast

lemma ReplaceAll_xid:
  assumes "is_xid x" and "a = CHR ''-'' \<or> a = CHR ''_''"
  shows "ReplaceAll (s @ x) [a] new = ReplaceAll s [a] new @ x"
  using assms xid_no_sep[OF assms(1)] by (intro ReplaceAll_append_right) auto

lemma ReplaceAll_sg_xid: "is_xid x \<Longrightarrow> ReplaceAll (s @ x) ''sg-'' new = ReplaceAll s ''sg-'' new @ x"
  using xid_no_sep[of x] by (intro ReplaceAll_append_right) auto

text \<open>The conversions leave the identifier at the end of the name alone.\<close>

lemma convert_xid:
  assumes "is_xid x"
  shows "convertDashOrUnderScore p (s @ x) = convertDashOrUnderScore p s @ x"
  using assms
  by (simp add: convertDashOrUnderScore_def Let_def ReplaceAll_xid ReplaceAll_sg_xid)

lemma New_default_form:
  assumes "New_default meta p rs xid uid = Inr r" and "is_xid xid"
  shows "\<exists>n. r = convertDashOrUnderScore p (cookUID uid n @ ''-'') @ xid"
proof -
  obtain n where "r = convertDashOrUnderScore p (cookUID uid n @ ''-'' @ xid)"
    using assms(1) by (auto simp: New_default_def Let_def split: if_splits)
  then have "r = convertDashOrUnderScore p ((cookUID uid n @ ''-'') @ xid)" by simp
  with assms(2) show ?thesis by (metis convert_xid)
qed

text \<open>
  Names of the general scheme are unique: calls that draw different xids give different names, whatever
  the user names, connections and resource types of the two calls.
\<close>

theorem New_unique:
  assumes "New conf meta x1 c1 rs1 uid1 = Inr r1" and "New conf meta x2 c2 rs2 uid2 = Inr r2"
    and "conf c1 = Inr p1" and "New_special p1 rs1 x1 uid1 = None"
    and "conf c2 = Inr p2" and "New_special p2 rs2 x2 uid2 = None"
    and "is_xid x1" and "is_xid x2" and "x1 \<noteq> x2"
  shows "r1 \<noteq> r2"
proof -
  from assms(1,3,4) have "New_default meta p1 rs1 x1 uid1 = Inr r1" by (simp add: New_def)
  with assms(7) obtain s1 where r1: "r1 = s1 @ x1" using New_default_form by blast
  from assms(2,5,6) have "New_default meta p2 rs2 x2 uid2 = Inr r2" by (simp add: New_def)
  with assms(8) obtain s2 where r2: "r2 = s2 @ x2" using New_default_form by blast
  from assms(7,8) have "length x1 = length x2" by (simp add: is_xid_def)
  with assms(9) show ?thesis by (auto simp: r1 r2)
qed

section \<open>Names as driver identifiers\<close>

lemma New_special_chars:
  assumes "New_special p rs xid uid = Some r" and "is_xid xid" and "CHR '':'' \<notin> set uid"
  shows "CHR '':'' \<notin> set r"
proof -
  have x: "CHR '':'' \<notin> set (take n xid)" for n
    using xid_chars[OF assms(2), of "CHR '':''"] colon_not_uid_char by (auto dest: in_set_takeD)
  have u: "CHR '':'' \<notin> set (take n uid)" for n
    using assms(3) by (auto dest: in_set_takeD)
  have l: "CHR '':'' \<notin> set (ToLower s)" if "CHR '':'' \<notin> set s" for s
  proof
    assume "CHR '':'' \<in> set (ToLower s)"
    then obtain c where c: "c \<in> set s" "lower_char c = CHR '':''" by (auto simp: ToLower_def)
    then have "of_char (lower_char c) = (58 :: nat)" by simp
    then have "of_char c = (of_char CHR '':'' :: nat)" by (auto simp: of_char_lower_char Let_def split: if_splits)
    then have "c = CHR '':''" by (simp only: of_char_eq_iff)
    with c that show False by simp
  qed
  have d: "CHR '':'' \<notin> set (ReplaceAll uid ''-'' '''')" and b: "CHR '':'' \<notin> set (ReplaceAll uid ''_'' ''-'')"
    using assms(3) ReplaceAll_set[of uid "''-''" "''''"] ReplaceAll_set[of uid "''_''" "''-''"] by auto
  have t: "CHR '':'' \<notin> set (take n s)" if "CHR '':'' \<notin> set s" for n s
    using that by (auto dest: in_set_takeD)
  show ?thesis
    using assms(1) x u l[OF assms(3)] l[OF d] l[OF b] t[OF l[OF b]]
    unfolding New_special_def Let_def by (simp split: if_split_asm) auto
qed

lemma New_chars:
  assumes "New conf meta xid conn rs uid = Inr r" and "is_xid xid" and "CHR '':'' \<notin> set uid"
  shows "CHR '':'' \<notin> set r"
proof -
  obtain p where p: "conf conn = Inr p" using assms(1) by (auto simp: New_def split: sum.splits)
  show ?thesis
  proof (cases "New_special p rs xid uid")
    case None
    with assms(1) p have d: "New_default meta p rs xid uid = Inr r" by (simp add: New_def)
    show ?thesis using New_default_chars[OF d assms(2), of "CHR '':''"] colon_not_uid_char by blast
  next
    case (Some q)
    with assms p New_special_chars[OF Some assms(2,3)] show ?thesis by (simp add: New_def)
  qed
qed

text \<open>
  C15: A generated name works as the driver half of a stored IID. For a user name without a colon, whatever
  the connection, provider limit and resource type, storing the generated name with the CSP's id
  and decoding it again gives back both, exactly when the CSP's id does not contain the generated name
  followed by a colon.
\<close>

theorem New_roundtrip:
  assumes "New conf meta xid conn rs uid = Inr drv" and "is_xid xid" and "CHR '':'' \<notin> set uid"
  shows "getDriverIID \<lparr>NameId = uid, SystemId = spiderSystemId drv csp\<rparr> = \<lparr>NameId = drv, SystemId = csp\<rparr>
    \<longleftrightarrow> \<not> Contains csp (drv @ '':'')"
  using New_chars[OF assms] by (simp add: getDriverIID_alt hd_Split_spider getDriverSystemId_roundtrip_iff)

section \<open>Two places where the name does not have the form the comments promise\<close>

text \<open>
  Azure node group names are to be lower case without dashes. The shortening of a long name works on
  the unconverted user name, so a dash within its first seven characters reaches the generated name, and
  the name is dash-free exactly when these seven characters are.
\<close>

theorem New_azure_nodegroup_dash:
  assumes "conf conn = Inr ''AZURE''" and "12 < length (ReplaceAll uid ''-'' '''')" and "is_xid xid"
  shows "\<exists>r. New conf meta xid conn ''nodegroup'' uid = Inr r \<and>
    (CHR ''-'' \<in> set r \<longleftrightarrow> CHR ''-'' \<in> set (take 7 uid))"
proof -
  have "CHR ''-'' \<notin> set (take 5 xid)" using xid_no_sep[OF assms(3)] by (auto dest: in_set_takeD)
  with assms show ?thesis by (auto simp: New_def New_special_def)
qed

text \<open>
  The conversion that is to avoid names of the form \<open>sg-*\<close>, which AWS refuses for security groups, replaces
  \<open>sg-\<close> by \<open>sg\<close> once: for the user name \<open>sg-\<close> the generated name still starts with \<open>sg-\<close>, whatever the xid.
\<close>

theorem New_sg_dash:
  assumes "conf conn = Inr ''AWS''" and "meta ''AWS'' = Inr []" and "is_xid xid"
  shows "New conf meta xid conn ''sg'' ''sg-'' = Inr (''sg-'' @ xid)"
proof -
  have "convertDashOrUnderScore ''AWS'' (''sg--'' @ xid) = convertDashOrUnderScore ''AWS'' ''sg--'' @ xid"
    using assms(3) by (rule convert_xid)
  moreover have "convertDashOrUnderScore ''AWS'' ''sg--'' = ''sg-''" by code_simp
  moreover have "cookUID ''sg-'' 9 = ''sg-''" by code_simp
  moreover have "getIdMaxLength meta ''AWS'' ''sg'' = 0" using assms(2) by (simp add: getIdMaxLength_def)
  ultimately show ?thesis using assms(1) by (simp add: New_def New_special_def New_default_def)
qed

section \<open>Concrete calls\<close>

definition ex_conf :: "string \<Rightarrow> string go_result" where
  "ex_conf c = (if c = ''aws-conn'' then Inr ''AWS'' else if c = ''azure-conn'' then Inr ''AZURE''
     else Inl ''no such connection'')"

definition ex_meta :: "string \<Rightarrow> string list go_result" where
  "ex_meta p = (if p = ''AWS'' then Inr [] else Inr [''64'', ''32''])"

definition ex_xid1 :: string where "ex_xid1 = ''9m4e2mr0ui3e8a215n4g''"
definition ex_xid2 :: string where "ex_xid2 = ''9m4e2mr0ui3e8a215n50''"

lemma ex_xids: "is_xid ex_xid1" "is_xid ex_xid2" "ex_xid1 \<noteq> ex_xid2"
  by code_simp+

lemma ex_New:
  "New ex_conf ex_meta ex_xid1 ''aws-conn'' ''vpc'' ''MyVPC_01'' = Inr ''myvpc-01-9m4e2mr0ui3e8a215n4g''"
  "New ex_conf ex_meta ex_xid2 ''aws-conn'' ''vpc'' ''MyVPC_01'' = Inr ''myvpc-01-9m4e2mr0ui3e8a215n50''"
  "ex_conf ''aws-conn'' = Inr ''AWS''" "ex_conf ''azure-conn'' = Inr ''AZURE''" "ex_meta ''AWS'' = Inr []"
  "New_special ''AWS'' ''vpc'' ex_xid1 ''MyVPC_01'' = None" "New_special ''AWS'' ''vpc'' ex_xid2 ''MyVPC_01'' = None"
  by code_simp+

theorem New_length_witness: "length ''myvpc-01-9m4e2mr0ui3e8a215n4g'' \<le> id_limit ex_meta ''AWS'' ''vpc''"
  using New_length[OF ex_New(1,3) ex_xids(1)] .

theorem New_unique_witness: "''myvpc-01-9m4e2mr0ui3e8a215n4g'' \<noteq> ''myvpc-01-9m4e2mr0ui3e8a215n50''"
  using New_unique[OF ex_New(1,2,3,6,3,7) ex_xids] .

theorem New_roundtrip_witness:
  "getDriverIID \<lparr>NameId = ''MyVPC_01'', SystemId = ''myvpc-01-9m4e2mr0ui3e8a215n4g:vpc-0a1b''\<rparr> =
     \<lparr>NameId = ''myvpc-01-9m4e2mr0ui3e8a215n4g'', SystemId = ''vpc-0a1b''\<rparr>"
proof -
  have "CHR '':'' \<notin> set ''MyVPC_01''" by code_simp
  note r = New_roundtrip[OF ex_New(1) ex_xids(1) this, of "''vpc-0a1b''"]
  moreover have "\<not> Contains ''vpc-0a1b'' (''myvpc-01-9m4e2mr0ui3e8a215n4g'' @ '':'')" by code_simp
  ultimately show ?thesis by (simp add: spiderSystemId_def)
qed

theorem New_azure_nodegroup_dash_witness:
  "\<exists>r. New ex_conf ex_meta ex_xid1 ''azure-conn'' ''nodegroup'' ''My-Node-Group-01'' = Inr r \<and> CHR ''-'' \<in> set r"
proof -
  have "12 < length (ReplaceAll ''My-Node-Group-01'' ''-'' '''')" by code_simp
  from New_azure_nodegroup_dash[of ex_conf "''azure-conn''" "''My-Node-Group-01''" ex_xid1 ex_meta] ex_New(4) this ex_xids(1)
  show ?thesis by (auto simp: numeral_eq_Suc)
qed

theorem New_sg_dash_witness: "New ex_conf ex_meta ex_xid1 ''aws-conn'' ''sg'' ''sg-'' = Inr (''sg-'' @ ex_xid1)"
  using New_sg_dash[of ex_conf "''aws-conn''" ex_meta ex_xid1] ex_New(3,5) ex_xids(1) by simp

end
