(* ===== verification/Validator.thy ===== *)
theory Validator
  imports GoStrings
begin

text \<open>
  Input validation of the runtime, \<open>common-runtime/validator.go\<close>. \<open>ValidateStruct\<close> walks a request by
  reflection; a request is given here as the value the package \<open>reflect\<close> shows: structs with their type
  name and named fields, strings, pointers, slices, and every other kind. Calling \<open>NumField\<close> on a value that
  is not a struct panics, as documented by \<open>reflect\<close>, and so does \<open>Interface\<close> on a value reached through a
  field that is not exported.
\<close>

section \<open>Trimming\<close>

definition EmptyCheckAndTrim :: "string \<Rightarrow> string \<Rightarrow> string go_result" where
  "EmptyCheckAndTrim inputName inputValue =
     (if inputValue = [] then
        (let inputName = (if inputName = ''connectionName'' then ''ConnectionName'' else inputName)
         in Inl (inputName @ '' is empty!''))
      else Inr (TrimSpace inputValue))"

section \<open>Reflection\<close>

datatype rval =
    RStruct string "(string \<times> rval) list"
  | RString string
  | RPtr "rval option"
  | RSlice "rval list"
  | ROther

text \<open>Go exports a field whose name starts with a capital letter (field names are ASCII here).\<close>

definition exported :: "string \<Rightarrow> bool" where
  "exported f = (case f of [] \<Rightarrow> False | c # _ \<Rightarrow> 65 \<le> (of_char c :: nat) \<and> (of_char c :: nat) \<le> 90)"

datatype 'a panicking = Panic | Val 'a

text \<open>\<open>Value.Interface\<close> on a value that comes from the field \<open>f\<close>.\<close>

definition Interface :: "string \<Rightarrow> 'a panicking \<Rightarrow> 'a panicking" where
  "Interface f k = (if exported f then k else Panic)"

definition checkNilPermission :: "string \<Rightarrow> string list \<Rightarrow> go_error option" where
  "checkNilPermission argTypeName emptyPermissionList =
     (if List.member emptyPermissionList argTypeName then None
      else Some (argTypeName @ [CHR 0x27] @ ''s input value is empty!''))"

text \<open>\<open>fmt.Errorf("%v\n%v", retErr, err)\<close>, where a nil error prints as \<open><nil>\<close>.\<close>

definition show_err :: "go_error option \<Rightarrow> string" where
  "show_err e = (case e of None \<Rightarrow> ''<nil>'' | Some m \<Rightarrow> m)"

definition join_err :: "go_error option \<Rightarrow> go_error option \<Rightarrow> go_error option" where
  "join_err retErr err = (case retErr of None \<Rightarrow> err | Some r \<Rightarrow> Some (r @ [CHR 0x0A] @ show_err err))"

fun validate :: "string list \<Rightarrow> rval \<Rightarrow> go_error option panicking"
  and validate_elems :: "string list \<Rightarrow> go_error option \<Rightarrow> rval list \<Rightarrow> go_error option panicking"
  and validate_fields :: "string list \<Rightarrow> string \<Rightarrow> go_error option \<Rightarrow> (string \<times> rval) list \<Rightarrow> go_error option panicking"
where
  "validate p (RStruct ty fs) = validate_fields p ty None fs"
| "validate p (RPtr (Some (RStruct ty fs))) = validate_fields p ty None fs"
| "validate p (RPtr (Some (RSlice vs))) =
     (case validate_elems p None vs of Panic \<Rightarrow> Panic | Val _ \<Rightarrow> Panic)"
| "validate p (RPtr (Some (RString s))) = Panic"
| "validate p (RPtr (Some (RPtr v))) = Panic"
| "validate p (RPtr (Some ROther)) = Panic"
| "validate p (RPtr None) = Panic"
| "validate p (RString s) = Panic"
| "validate p (RSlice vs) = Panic"
| "validate p ROther = Panic"
| "validate_elems p retErr [] = Val retErr"
| "validate_elems p retErr (v # vs) =
     (case validate p v of Panic \<Rightarrow> Panic | Val err \<Rightarrow> validate_elems p (join_err retErr err) vs)"
| "validate_fields p ty retErr [] = Val retErr"
| "validate_fields p ty retErr ((f, RStruct ty' fs') # fs) =
     (case Interface f (validate p (RStruct ty' fs')) of Panic \<Rightarrow> Panic
      | Val err \<Rightarrow> validate_fields p ty (if err \<noteq> None then join_err retErr err else retErr) fs)"
| "validate_fields p ty retErr ((f, RPtr None) # fs) = validate_fields p ty retErr fs"
| "validate_fields p ty retErr ((f, RPtr (Some v)) # fs) =
     (case v of
        RStruct ty' fs' \<Rightarrow>
          (case Interface f (validate p (RPtr (Some (RStruct ty' fs')))) of Panic \<Rightarrow> Panic
           | Val err \<Rightarrow> validate_fields p ty (if err \<noteq> None then join_err retErr err else retErr) fs)
      | RSlice vs \<Rightarrow>
          (case Interface f (validate p (RPtr (Some (RSlice vs)))) of Panic \<Rightarrow> Panic
           | Val err \<Rightarrow> validate_fields p ty (if err \<noteq> None then join_err retErr err else retErr) fs)
      | RString s \<Rightarrow> validate_fields p ty retErr fs
      | RPtr v' \<Rightarrow> validate_fields p ty retErr fs
      | ROther \<Rightarrow> validate_fields p ty retErr fs)"
| "validate_fields p ty retErr ((f, RSlice vs) # fs) =
     (case (if vs = [] then Val retErr else Interface f (validate_elems p retErr vs)) of
        Panic \<Rightarrow> Panic | Val retErr' \<Rightarrow> validate_fields p ty retErr' fs)"
| "validate_fields p ty retErr ((f, RString s) # fs) =
     (if \<not> exported f then Panic
      else if s = [] then
        (case checkNilPermission (ty @ '':'' @ f) p of
           None \<Rightarrow> validate_fields p ty retErr fs
         | Some err \<Rightarrow> validate_fields p ty (join_err retErr (Some err)) fs)
      else validate_fields p ty retErr fs)"
| "validate_fields p ty retErr ((f, ROther) # fs) = validate_fields p ty retErr fs"

definition ValidateStruct :: "rval \<Rightarrow> string list \<Rightarrow> go_error option panicking" where
  "ValidateStruct is emptyPermissionList = validate emptyPermissionList is"

section \<open>Specification\<close>

text \<open>
  \<open>well_shaped\<close> values are those the walk gets through: structs all the way down, no pointer to a slice, no slice
  of anything but structs or pointers to structs, and every field it reads as an interface exported. \<open>empties\<close> lists the \<open>Type:Field\<close> names of its empty strings.
\<close>

fun well_shaped :: "rval \<Rightarrow> bool" and well_shaped_field :: "string \<Rightarrow> rval \<Rightarrow> bool" where
  "well_shaped (RStruct ty fs) = (\<forall>(f, v) \<in> set fs. well_shaped_field f v)"
| "well_shaped (RPtr (Some (RStruct ty fs))) = (\<forall>(f, v) \<in> set fs. well_shaped_field f v)"
| "well_shaped _ = False"
| "well_shaped_field f (RStruct ty fs) = (exported f \<and> well_shaped (RStruct ty fs))"
| "well_shaped_field f (RPtr (Some (RStruct ty fs))) = (exported f \<and> well_shaped (RStruct ty fs))"
| "well_shaped_field f (RPtr (Some (RSlice vs))) = False"
| "well_shaped_field f (RSlice vs) = (vs = [] \<or> exported f \<and> (\<forall>v \<in> set vs. well_shaped v))"
| "well_shaped_field f (RString s) = exported f"
| "well_shaped_field f _ = True"

fun empties :: "rval \<Rightarrow> string list" and empties_field :: "string \<Rightarrow> rval \<Rightarrow> string list" where
  "empties (RStruct ty fs) = concat (map (\<lambda>(f, v). empties_field (ty @ '':'' @ f) v) fs)"
| "empties (RPtr (Some (RStruct ty fs))) = concat (map (\<lambda>(f, v). empties_field (ty @ '':'' @ f) v) fs)"
| "empties _ = []"
| "empties_field name (RStruct ty fs) = empties (RStruct ty fs)"
| "empties_field name (RPtr (Some (RStruct ty fs))) = empties (RStruct ty fs)"
| "empties_field name (RSlice vs) = concat (map empties vs)"
| "empties_field name (RString s) = (if s = [] then [name] else [])"
| "empties_field name _ = []"

lemma join_err_None [simp]: "join_err r e = None \<longleftrightarrow> r = None \<and> e = None"
  by (simp add: join_err_def split: option.split)

lemma checkNilPermission_None: "checkNilPermission a p = None \<longleftrightarrow> a \<in> set p"
  by (simp add: checkNilPermission_def)

lemma exported_simps [simp]:
  "exported [] = False"
  "exported (c # cs) = (65 \<le> (of_char c :: nat) \<and> (of_char c :: nat) \<le> 90)"
  by (simp_all add: exported_def)

lemma Interface_Val: "Interface f k = Val x \<longleftrightarrow> exported f \<and> k = Val x"
  by (simp add: Interface_def)

lemma Interface_Panic: "Interface f k = Panic \<longleftrightarrow> exported f \<longrightarrow> k = Panic"
  by (simp add: Interface_def)

lemma Interface_exported [simp]: "exported f \<Longrightarrow> Interface f k = k" "\<not> exported f \<Longrightarrow> Interface f k = Panic"
  by (simp_all add: Interface_def)

lemma validate_panic:
  "validate p v = Panic \<longleftrightarrow> \<not> well_shaped v"
  "validate_elems p r vs = Panic \<longleftrightarrow> (\<exists>v \<in> set vs. \<not> well_shaped v)"
  "validate_fields p ty r fs = Panic \<longleftrightarrow> (\<exists>(f, v) \<in> set fs. \<not> well_shaped_field f v)"
proof (induction p v and p r vs and p ty r fs rule: validate_validate_elems_validate_fields.induct)
  case (12 p retErr v vs)
  then show ?case by (cases "validate p v") auto
next
  case (14 p ty retErr f ty' fs' fs)
  then show ?case by (cases "exported f"; cases "validate p (RStruct ty' fs')") auto
next
  case (16 p ty retErr f v fs)
  show ?case
  proof (cases v)
    case (RStruct ty' fs')
    with 16 show ?thesis by (cases "exported f"; cases "validate p (RPtr (Some (RStruct ty' fs')))") simp_all
  next
    case (RSlice vs)
    with 16 show ?thesis by (cases "exported f"; cases "validate_elems p None vs") simp_all
  qed (use 16 in simp_all)
next
  case (17 p ty retErr f vs fs)
  then show ?case by (cases "exported f"; cases "validate_elems p retErr vs"; cases "vs = []") auto
next
  case (18 p ty retErr f s fs)
  then show ?case by (cases "exported f") (auto split: option.splits)
qed (auto split: panicking.splits)

lemma validate_verdict:
  "validate p v = Val x \<Longrightarrow> x = None \<longleftrightarrow> set (empties v) \<subseteq> set p"
  "validate_elems p r vs = Val x \<Longrightarrow> x = None \<longleftrightarrow> r = None \<and> (\<Union>v \<in> set vs. set (empties v)) \<subseteq> set p"
  "validate_fields p ty r fs = Val x \<Longrightarrow>
     x = None \<longleftrightarrow> r = None \<and> (\<Union>(f, v) \<in> set fs. set (empties_field (ty @ '':'' @ f) v)) \<subseteq> set p"
proof (induction p v and p r vs and p ty r fs arbitrary: x and x and x
    rule: validate_validate_elems_validate_fields.induct)
  case (12 p retErr v vs)
  then show ?case by (cases "validate p v") auto
next
  case (14 p ty retErr f ty' fs' fs)
  from 14(3) obtain err where x: "exported f" and e: "validate p (RStruct ty' fs') = Val err"
    and r: "validate_fields p ty (if err \<noteq> None then join_err retErr err else retErr) fs = Val x"
    by (cases "exported f"; cases "validate p (RStruct ty' fs')") simp_all
  have "empties_field (ty @ '':'' @ f) (RStruct ty' fs') = empties (RStruct ty' fs')" by (rule empties_field.simps)
  with 14(1)[OF e] 14(2)[OF Interface_Val[THEN iffD2, OF conjI[OF x e]] r] show ?case by (cases err) (simp_all only: list.set UN_insert prod.case, simp_all)
next
  case (16 p ty retErr f v fs)
  show ?case
  proof (cases v)
    case (RStruct ty' fs')
    obtain err where x: "exported f" and e: "validate p (RPtr (Some (RStruct ty' fs'))) = Val err"
      and r: "validate_fields p ty (if err \<noteq> None then join_err retErr err else retErr) fs = Val x"
      using 16(8) RStruct by (cases "exported f"; cases "validate p (RPtr (Some (RStruct ty' fs')))") simp_all
    have "empties_field (ty @ '':'' @ f) (RPtr (Some v)) = empties (RPtr (Some (RStruct ty' fs')))"
      using RStruct by simp
    with 16(1)[OF RStruct e] 16(2)[OF RStruct Interface_Val[THEN iffD2, OF conjI[OF x e]] r] show ?thesis
      by (cases err) (simp_all only: list.set UN_insert prod.case, simp_all)
  next
    case (RSlice vs)
    with 16(8) show ?thesis by (cases "exported f"; cases "validate_elems p None vs") simp_all
  next
    case (RString s)
    with 16(8) have "validate_fields p ty retErr fs = Val x" by simp
    from 16(3)[OF RString this] RString show ?thesis by simp
  next
    case (RPtr w)
    with 16(8) have "validate_fields p ty retErr fs = Val x" by simp
    from 16(4)[OF RPtr this] RPtr show ?thesis by simp
  next
    case ROther
    with 16(8) have "validate_fields p ty retErr fs = Val x" by simp
    from 16(7)[OF ROther this] ROther show ?thesis by simp
  qed
next
  case (17 p ty retErr f vs fs)
  obtain r where r: "(if vs = [] then Val retErr else Interface f (validate_elems p retErr vs)) = Val r"
    and x: "validate_fields p ty r fs = Val x"
    using 17(3) by (auto split: panicking.splits)
  have "r = None \<longleftrightarrow> retErr = None \<and> (\<Union>v \<in> set vs. set (empties v)) \<subseteq> set p"
  proof (cases "vs = []")
    case False
    with r have "validate_elems p retErr vs = Val r" by (simp add: Interface_Val)
    from 17(1)[OF False this] show ?thesis .
  qed (use r in simp)
  with 17(2)[OF r x] show ?case by auto
next
  case (18 p ty retErr f s fs)
  from 18(4) have ex: "exported f" by (cases "exported f") simp_all
  show ?case
  proof (cases "s = []")
    case False
    with 18(3)[OF _ False] 18(4) ex show ?thesis by simp
  next
    case True
    with ex 18(1)[OF _ True] 18(2)[OF _ True] 18(4) show ?thesis
      by (cases "checkNilPermission (ty @ '':'' @ f) p") (simp_all add: checkNilPermission_None[symmetric])
  qed
qed (auto split: panicking.splits)

text \<open>
  C32: \<open>ValidateStruct\<close> answers exactly for the requests without a pointer to a slice, without a slice of
  non-structs and without an unexported field that it reads, and panics on every other; when it answers, it accepts exactly the requests whose empty
  strings, at any depth, are all on the list of those that may be empty.
\<close>

theorem ValidateStruct_correct:
  "if well_shaped v
   then \<exists>r. ValidateStruct v permitted = Val r \<and> (r = None \<longleftrightarrow> set (empties v) \<subseteq> set permitted)
   else ValidateStruct v permitted = Panic"
proof (cases "validate permitted v")
  case Panic
  then show ?thesis using validate_panic(1)[of permitted v] by (simp add: ValidateStruct_def)
next
  case (Val r)
  then show ?thesis using validate_panic(1)[of permitted v] validate_verdict(1)[OF Val]
    by (simp add: ValidateStruct_def)
qed

text \<open>
  A request with a pointer to a slice, such as the rule list of a security group that the code names as its
  example of what it handles, always panics.
\<close>

theorem ValidateStruct_slice_pointer_panics:
  "ValidateStruct (RStruct ty (fs @ (f, RPtr (Some (RSlice vs))) # fs')) permitted = Panic"
  using validate_panic(1)[of permitted "RStruct ty (fs @ (f, RPtr (Some (RSlice vs))) # fs')"]
  by (simp add: ValidateStruct_def)

section \<open>Trimming\<close>

lemma TrimSpace_Nil_iff: "TrimSpace s = [] \<longleftrightarrow> (\<forall>c \<in> set s. is_space c)"
proof
  assume "TrimSpace s = []"
  then have *: "\<forall>x \<in> set (dropWhile is_space s). is_space x" by (simp add: TrimSpace_def)
  show "\<forall>c \<in> set s. is_space c"
  proof (rule ccontr)
    assume "\<not> (\<forall>c \<in> set s. is_space c)"
    then have "dropWhile is_space s \<noteq> []" by simp
    with * show False using hd_dropWhile[of is_space s] hd_in_set by blast
  qed
next
  assume "\<forall>c \<in> set s. is_space c"
  then show "TrimSpace s = []" by (auto simp: TrimSpace_def dest: set_dropWhileD)
qed

text \<open>
  The check for emptiness precedes the trimming: an input of blanks only is accepted and becomes the empty
  name, and no other input does.
\<close>

theorem EmptyCheckAndTrim_blank:
  "EmptyCheckAndTrim name v = Inr [] \<longleftrightarrow> v \<noteq> [] \<and> list_all is_space v"
  by (auto simp: EmptyCheckAndTrim_def TrimSpace_Nil_iff list_all_iff)

lemma EmptyCheckAndTrim_clean:
  "v \<noteq> [] \<Longrightarrow> (\<And>c. c \<in> set v \<Longrightarrow> \<not> is_space c) \<Longrightarrow> EmptyCheckAndTrim name v = Inr v"
  by (simp add: EmptyCheckAndTrim_def TrimSpace_no_space)

lemma EmptyCheckAndTrim_Inr: "EmptyCheckAndTrim name v = Inr w \<longleftrightarrow> v \<noteq> [] \<and> w = TrimSpace v"
  by (auto simp: EmptyCheckAndTrim_def)

end
