(* ===== verification/InfoStore.thy ===== *)
theory InfoStore
  imports GoStrings
begin

text \<open>
  The meta-database access layer \<open>info-store/InfoStore.go\<close>. The object-relational mapper \<open>gorm\<close> and the
  database behind it are a parameter, the record \<open>gorm\<close> of the calls the code makes; what the code relies on
  is stated by \<open>gorm_ok\<close>. The rows of the IID tables are one record with the columns of all of them; a table
  that does not have a column leaves it empty, as its Go struct does not have the field.

  Where the code builds an error text from values with \<open>fmt.Errorf(v1 + ", " + v2 + ": %v", err)\<close>, the text is
  given as the concatenation; a \<open>%\<close> inside such a value is not interpreted.
\<close>

section \<open>Tables, rows and conditions\<close>

datatype table =
    KeyIIDInfo | VPCIIDInfo | SubnetIIDInfo | SGIIDInfo | VMIIDInfo | NLBIIDInfo | DiskIIDInfo | MyImageIIDInfo
  | ClusterIIDInfo | NodeGroupIIDInfo | FileSystemIIDInfo | RDBMSIIDInfo | PublicIPIIDInfo | NICIIDInfo

record iid_row =
  row_ConnectionName :: string
  row_ZoneId :: string
  row_NameId :: string
  row_SystemId :: string
  row_OwnerVPCName :: string
  row_OwnerClusterName :: string

datatype column =
  CONNECTION_NAME_COLUMN | NAME_ID_COLUMN | SYSTEM_ID_COLUMN | OWNER_VPC_NAME_COLUMN | OWNER_CLUSTER_NAME_COLUMN

fun col :: "column \<Rightarrow> iid_row \<Rightarrow> string" where
  "col CONNECTION_NAME_COLUMN = row_ConnectionName"
| "col NAME_ID_COLUMN = row_NameId"
| "col SYSTEM_ID_COLUMN = row_SystemId"
| "col OWNER_VPC_NAME_COLUMN = row_OwnerVPCName"
| "col OWNER_CLUSTER_NAME_COLUMN = row_OwnerClusterName"

datatype 'k cond = CEq 'k string | CLike 'k string

text \<open>The struct types of the tables (\<open>type KeyIIDInfo FirstIIDInfo\<close>, ...) as composite literals of their fields.\<close>

definition FirstIIDInfo :: "string \<Rightarrow> string \<Rightarrow> string \<Rightarrow> iid_row" where
  "FirstIIDInfo conn name sys =
     \<lparr>row_ConnectionName = conn, row_ZoneId = [], row_NameId = name, row_SystemId = sys,
      row_OwnerVPCName = [], row_OwnerClusterName = []\<rparr>"

definition ZoneLevelIIDInfo :: "string \<Rightarrow> string \<Rightarrow> string \<Rightarrow> string \<Rightarrow> iid_row" where
  "ZoneLevelIIDInfo conn zone name sys =
     \<lparr>row_ConnectionName = conn, row_ZoneId = zone, row_NameId = name, row_SystemId = sys,
      row_OwnerVPCName = [], row_OwnerClusterName = []\<rparr>"

definition VPCDependentIIDInfo :: "string \<Rightarrow> string \<Rightarrow> string \<Rightarrow> string \<Rightarrow> iid_row" where
  "VPCDependentIIDInfo conn name sys owner =
     \<lparr>row_ConnectionName = conn, row_ZoneId = [], row_NameId = name, row_SystemId = sys,
      row_OwnerVPCName = owner, row_OwnerClusterName = []\<rparr>"

definition ZoneLevelVPCDependentIIDInfo :: "string \<Rightarrow> string \<Rightarrow> string \<Rightarrow> string \<Rightarrow> string \<Rightarrow> iid_row" where
  "ZoneLevelVPCDependentIIDInfo conn zone name sys owner =
     \<lparr>row_ConnectionName = conn, row_ZoneId = zone, row_NameId = name, row_SystemId = sys,
      row_OwnerVPCName = owner, row_OwnerClusterName = []\<rparr>"

definition ClusterDependentIIDInfo :: "string \<Rightarrow> string \<Rightarrow> string \<Rightarrow> string \<Rightarrow> iid_row" where
  "ClusterDependentIIDInfo conn name sys owner =
     \<lparr>row_ConnectionName = conn, row_ZoneId = [], row_NameId = name, row_SystemId = sys,
      row_OwnerVPCName = [], row_OwnerClusterName = owner\<rparr>"

text \<open>Go's name of the pointer type of a table, what \<open>%T\<close> prints.\<close>

fun table_type :: "table \<Rightarrow> string" where
  "table_type KeyIIDInfo = ''*commonruntime.KeyIIDInfo''"
| "table_type VPCIIDInfo = ''*commonruntime.VPCIIDInfo''"
| "table_type SubnetIIDInfo = ''*commonruntime.SubnetIIDInfo''"
| "table_type SGIIDInfo = ''*commonruntime.SGIIDInfo''"
| "table_type VMIIDInfo = ''*commonruntime.VMIIDInfo''"
| "table_type NLBIIDInfo = ''*commonruntime.NLBIIDInfo''"
| "table_type DiskIIDInfo = ''*commonruntime.DiskIIDInfo''"
| "table_type MyImageIIDInfo = ''*commonruntime.MyImageIIDInfo''"
| "table_type ClusterIIDInfo = ''*commonruntime.ClusterIIDInfo''"
| "table_type NodeGroupIIDInfo = ''*commonruntime.NodeGroupIIDInfo''"
| "table_type FileSystemIIDInfo = ''*commonruntime.FileSystemIIDInfo''"
| "table_type RDBMSIIDInfo = ''*commonruntime.RDBMSIIDInfo''"
| "table_type PublicIPIIDInfo = ''*commonruntime.PublicIPIIDInfo''"
| "table_type NICIIDInfo = ''*commonruntime.NICIIDInfo''"

definition after_last_dot :: "string \<Rightarrow> string" where
  "after_last_dot s = rev (takeWhile (\<lambda>c. c \<noteq> CHR ''.'') (rev s))"

definition getResourceTypeName :: "table \<Rightarrow> string" where
  "getResourceTypeName info =
     (let typeName = table_type info;
          typeName = (if 0 < length typeName \<and> hd typeName = CHR ''*'' then drop 1 typeName else typeName);
          typeName = after_last_dot typeName;
          typeName = (if 7 < length typeName \<and> drop (length typeName - 7) typeName = ''IIDInfo''
                      then take (length typeName - 7) typeName else typeName)
      in if typeName = ''VPC'' then ''VPC''
         else if typeName = ''SG'' then ''Security Group''
         else if typeName = ''Key'' then ''VM KeyPair''
         else if typeName = ''VM'' then ''VM''
         else if typeName = ''NLB'' then ''NLB''
         else if typeName = ''Disk'' then ''Disk''
         else if typeName = ''MyImage'' then ''MyImage''
         else if typeName = ''Cluster'' then ''Cluster''
         else if typeName = ''Subnet'' then ''Subnet''
         else if typeName = ''NodeGroup'' then ''NodeGroup''
         else ''Resource'')"

section \<open>The mapper\<close>

datatype gorm_error = ErrRecordNotFound | DBError string

fun gorm_msg :: "gorm_error \<Rightarrow> string" where
  "gorm_msg ErrRecordNotFound = ''record not found''"
| "gorm_msg (DBError e) = e"

text \<open>
  A table type \<open>'t\<close> with rows \<open>'r\<close> and columns \<open>'k\<close>; the tables of resources are one such family. A call names its
  table by a value of the table's struct type; \<open>g_delete\<close> also gets that value when its fields are set, and
  \<open>None\<close> for the zero value.
\<close>

record ('d, 't, 'r, 'k) mapper =
  g_open :: "'d \<Rightarrow> go_error option \<times> 'd"
  g_save :: "'t \<Rightarrow> 'r \<Rightarrow> 'd \<Rightarrow> gorm_error option \<times> 'd"
  g_find :: "'t \<Rightarrow> 'k cond list \<Rightarrow> 'd \<Rightarrow> (gorm_error + 'r list) \<times> 'd"
  g_first :: "'t \<Rightarrow> 'k cond list \<Rightarrow> 'd \<Rightarrow> (gorm_error + 'r) \<times> 'd"
  g_delete :: "'t \<Rightarrow> 'r option \<Rightarrow> 'k cond list \<Rightarrow> 'd \<Rightarrow> gorm_error option \<times> 'd"
  g_count :: "'t \<Rightarrow> 'k cond list \<Rightarrow> 'd \<Rightarrow> (gorm_error + nat) \<times> 'd"
  g_pluck :: "'t \<Rightarrow> 'k \<Rightarrow> 'k cond list \<Rightarrow> 'd \<Rightarrow> (gorm_error + string list) \<times> 'd"
  g_like :: "string \<Rightarrow> string \<Rightarrow> bool"

type_synonym 'd gorm = "('d, table, iid_row, column) mapper"

text \<open>
  The package's variables: \<open>dbConfigErr\<close>, whether \<open>openOnce\<close> has run and \<open>openErr\<close> (\<open>None\<close> before it has), and
  the database.
\<close>

record 'd store =
  dbConfigErr :: "go_error option"
  st_open :: "go_error option option"
  st_db :: 'd

definition Open :: "('d, 't, 'r, 'k) mapper \<Rightarrow> ('d store, unit) prog" where
  "Open G s =
     (case dbConfigErr s of
        Some e \<Rightarrow> (Inl e, s)
      | None \<Rightarrow>
          (let s' = (case st_open s of
                       Some _ \<Rightarrow> s
                     | None \<Rightarrow> (let (r, d) = g_open G (st_db s) in s\<lparr>st_open := Some r, st_db := d\<rparr>))
           in case st_open s' of
                Some (Some e) \<Rightarrow> (Inl e, s')
              | _ \<Rightarrow> (Inr (), s')))"

text \<open>One call of the mapper.\<close>

definition onDB :: "('d \<Rightarrow> 'r \<times> 'd) \<Rightarrow> ('d store, 'r) prog" where
  "onDB f s = (let (r, d) = f (st_db s) in (Inr r, s\<lparr>st_db := d\<rparr>))"

section \<open>Operations\<close>

definition Insert :: "('d, 't, 'r, 'k) mapper \<Rightarrow> 't \<Rightarrow> 'r \<Rightarrow> ('d store, unit) prog" where
  "Insert G t info =
     bindP (Open G) (\<lambda>_.
     bindP (onDB (g_save G t info)) (\<lambda>err.
     case err of Some e \<Rightarrow> throw (gorm_msg e) | None \<Rightarrow> ret ()))"

definition List :: "('d, 't, 'r, 'k) mapper \<Rightarrow> 't \<Rightarrow> ('d store, 'r list) prog" where
  "List G t =
     bindP (Open G) (\<lambda>_.
     bindP (onDB (g_find G t [])) (\<lambda>r.
     case r of Inl e \<Rightarrow> throw (gorm_msg e) | Inr rows \<Rightarrow> ret rows))"

text \<open>Reads of one row: the message for a missing row, and the prefix of the message for any other error.\<close>

definition first_or :: "('d, 't, 'r, 'k) mapper \<Rightarrow> 't \<Rightarrow> 'k cond list \<Rightarrow> string \<Rightarrow> string \<Rightarrow> ('d store, 'r) prog" where
  "first_or G t cs missing pre =
     bindP (onDB (g_first G t cs)) (\<lambda>r.
     case r of
       Inl ErrRecordNotFound \<Rightarrow> throw missing
     | Inl (DBError e) \<Rightarrow> throw (pre @ '': '' @ e)
     | Inr row \<Rightarrow> ret row)"

definition Get :: "('d, 't, 'r, 'k) mapper \<Rightarrow> 't \<Rightarrow> 'k \<Rightarrow> string \<Rightarrow> ('d store, 'r) prog" where
  "Get G t c v =
     bindP (Open G) (\<lambda>_. first_or G t [CEq c v] (v @ '': does not exist!'') v)"

definition GetByConditions :: "'d gorm \<Rightarrow> table \<Rightarrow> column \<Rightarrow> string \<Rightarrow> column \<Rightarrow> string \<Rightarrow> ('d store, iid_row) prog" where
  "GetByConditions G t c1 v1 c2 v2 =
     bindP (Open G) (\<lambda>_. first_or G t [CEq c1 v1, CEq c2 v2]
       (getResourceTypeName t @ '' '' @ quoted v2 @ '' does not exist in connection '' @ quoted v1) (v1 @ '', '' @ v2))"

definition GetBy3Conditions :: "'d gorm \<Rightarrow> table \<Rightarrow> column \<Rightarrow> string \<Rightarrow> column \<Rightarrow> string \<Rightarrow> column \<Rightarrow> string \<Rightarrow>
    ('d store, iid_row) prog" where
  "GetBy3Conditions G t c1 v1 c2 v2 c3 v3 =
     bindP (Open G) (\<lambda>_. first_or G t [CEq c1 v1, CEq c2 v2, CEq c3 v3]
       (getResourceTypeName t @ '' '' @ quoted v2 @ '' does not exist in connection '' @ quoted v1) (v1 @ '', '' @ v2))"

text \<open>The pattern \<open>%v%\<close>.\<close>

definition like_pattern :: "string \<Rightarrow> string" where
  "like_pattern v = ''%'' @ v @ ''%''"

definition GetByContain :: "'d gorm \<Rightarrow> table \<Rightarrow> column \<Rightarrow> string \<Rightarrow> column \<Rightarrow> string \<Rightarrow> ('d store, iid_row) prog" where
  "GetByContain G t c1 v1 c2 v2 =
     bindP (Open G) (\<lambda>_. first_or G t [CEq c1 v1, CLike c2 (like_pattern v2)]
       (getResourceTypeName t @ '' with SystemID containing '' @ quoted v2 @ '' does not exist in connection '' @ quoted v1)
       (v1 @ '', '' @ v2))"

definition GetByConditionAndContain :: "'d gorm \<Rightarrow> table \<Rightarrow> column \<Rightarrow> string \<Rightarrow> column \<Rightarrow> string \<Rightarrow> ('d store, iid_row) prog" where
  "GetByConditionAndContain G t c1 v1 c2 v2 =
     bindP (Open G) (\<lambda>_.
     if v2 = [] then throw (getResourceTypeName t @ '' with empty SystemID does not exist in connection '' @ quoted v1)
     else first_or G t [CEq c1 v1, CLike c2 (like_pattern v2)]
       (getResourceTypeName t @ '' with SystemID containing '' @ quoted v2 @ '' does not exist in connection '' @ quoted v1)
       (v1 @ '', '' @ v2))"

definition GetByConditionsAndContain :: "'d gorm \<Rightarrow> table \<Rightarrow> column \<Rightarrow> string \<Rightarrow> column \<Rightarrow> string \<Rightarrow> column \<Rightarrow> string \<Rightarrow>
    ('d store, iid_row) prog" where
  "GetByConditionsAndContain G t c1 v1 c2 v2 c3 v3 =
     bindP (Open G) (\<lambda>_.
     if v3 = [] then throw (getResourceTypeName t @ '' with empty SystemID does not exist (connection: '' @ quoted v1 @
       '', owner: '' @ quoted v2 @ '')'')
     else first_or G t [CEq c1 v1, CEq c2 v2, CLike c3 (like_pattern v3)]
       (getResourceTypeName t @ '' with SystemID containing '' @ quoted v3 @ '' does not exist (connection: '' @ quoted v1 @
         '', owner: '' @ quoted v2 @ '')'')
       (v1 @ '', '' @ v2))"

definition has_or :: "('d, 't, 'r, 'k) mapper \<Rightarrow> 't \<Rightarrow> 'k cond list \<Rightarrow> string \<Rightarrow> ('d store, bool) prog" where
  "has_or G t cs pre =
     bindP (onDB (g_first G t cs)) (\<lambda>r.
     case r of
       Inl ErrRecordNotFound \<Rightarrow> ret False
     | Inl (DBError e) \<Rightarrow> throw (pre @ '': '' @ e)
     | Inr row \<Rightarrow> ret True)"

definition Has :: "('d, 't, 'r, 'k) mapper \<Rightarrow> 't \<Rightarrow> 'k \<Rightarrow> string \<Rightarrow> ('d store, bool) prog" where
  "Has G t c v = bindP (Open G) (\<lambda>_. has_or G t [CEq c v] v)"

definition HasByCondition :: "'d gorm \<Rightarrow> table \<Rightarrow> column \<Rightarrow> string \<Rightarrow> ('d store, bool) prog" where
  "HasByCondition G t c1 v1 = bindP (Open G) (\<lambda>_. has_or G t [CEq c1 v1] v1)"

definition HasByConditions :: "'d gorm \<Rightarrow> table \<Rightarrow> column \<Rightarrow> string \<Rightarrow> column \<Rightarrow> string \<Rightarrow> ('d store, bool) prog" where
  "HasByConditions G t c1 v1 c2 v2 =
     bindP (Open G) (\<lambda>_. has_or G t [CEq c1 v1, CEq c2 v2] (v1 @ '', '' @ v2))"

definition HasBy3Conditions :: "'d gorm \<Rightarrow> table \<Rightarrow> column \<Rightarrow> string \<Rightarrow> column \<Rightarrow> string \<Rightarrow> column \<Rightarrow> string \<Rightarrow>
    ('d store, bool) prog" where
  "HasBy3Conditions G t c1 v1 c2 v2 c3 v3 =
     bindP (Open G) (\<lambda>_. has_or G t [CEq c1 v1, CEq c2 v2, CEq c3 v3] (v1 @ '', '' @ v2))"

definition ListByCondition :: "('d, 't, 'r, 'k) mapper \<Rightarrow> 't \<Rightarrow> 'k \<Rightarrow> string \<Rightarrow> ('d store, 'r list) prog" where
  "ListByCondition G t c v =
     bindP (Open G) (\<lambda>_.
     bindP (onDB (g_find G t [CEq c v])) (\<lambda>r.
     case r of Inl e \<Rightarrow> throw (gorm_msg e) | Inr rows \<Rightarrow> ret rows))"

definition ListByConditions :: "'d gorm \<Rightarrow> table \<Rightarrow> column \<Rightarrow> string \<Rightarrow> column \<Rightarrow> string \<Rightarrow> ('d store, iid_row list) prog" where
  "ListByConditions G t c1 v1 c2 v2 =
     bindP (Open G) (\<lambda>_.
     bindP (onDB (g_find G t [CEq c1 v1, CEq c2 v2])) (\<lambda>r.
     case r of Inl e \<Rightarrow> throw (gorm_msg e) | Inr rows \<Rightarrow> ret rows))"

definition delete_or :: "('d, 't, 'r, 'k) mapper \<Rightarrow> 't \<Rightarrow> 'r option \<Rightarrow> 'k cond list \<Rightarrow> string \<Rightarrow> ('d store, bool) prog" where
  "delete_or G t info cs pre =
     bindP (onDB (g_delete G t info cs)) (\<lambda>err.
     case err of
       Some ErrRecordNotFound \<Rightarrow> throw (pre @ '': does not exist!'')
     | Some (DBError e) \<Rightarrow> throw (pre @ '': '' @ e)
     | None \<Rightarrow> ret True)"

text \<open>
  The deletions. The code passes the zero struct \<open>&X{}\<close> everywhere but in \<open>UnregisterResource\<close>, which passes a
  row it has read; the two operations it calls so have a variant with that argument.
\<close>

definition Delete :: "('d, 't, 'r, 'k) mapper \<Rightarrow> 't \<Rightarrow> 'k \<Rightarrow> string \<Rightarrow> ('d store, bool) prog" where
  "Delete G t c v = bindP (Open G) (\<lambda>_. delete_or G t None [CEq c v] v)"

definition DeleteByCondition :: "'d gorm \<Rightarrow> table \<Rightarrow> column \<Rightarrow> string \<Rightarrow> ('d store, bool) prog" where
  "DeleteByCondition G t c v = bindP (Open G) (\<lambda>_. delete_or G t None [CEq c v] v)"

definition DeleteByConditions_of :: "'d gorm \<Rightarrow> table \<Rightarrow> iid_row option \<Rightarrow> column \<Rightarrow> string \<Rightarrow> column \<Rightarrow> string \<Rightarrow>
    ('d store, bool) prog" where
  "DeleteByConditions_of G t info c1 v1 c2 v2 =
     bindP (Open G) (\<lambda>_. delete_or G t info [CEq c1 v1, CEq c2 v2] (v1 @ '', '' @ v2))"

definition DeleteByConditions :: "'d gorm \<Rightarrow> table \<Rightarrow> column \<Rightarrow> string \<Rightarrow> column \<Rightarrow> string \<Rightarrow> ('d store, bool) prog" where
  "DeleteByConditions G t c1 v1 c2 v2 = DeleteByConditions_of G t None c1 v1 c2 v2"

definition DeleteBy3Conditions_of :: "'d gorm \<Rightarrow> table \<Rightarrow> iid_row option \<Rightarrow> column \<Rightarrow> string \<Rightarrow> column \<Rightarrow> string \<Rightarrow>
    column \<Rightarrow> string \<Rightarrow> ('d store, bool) prog" where
  "DeleteBy3Conditions_of G t info c1 v1 c2 v2 c3 v3 =
     bindP (Open G) (\<lambda>_. delete_or G t info [CEq c1 v1, CEq c2 v2, CEq c3 v3] (v1 @ '', '' @ v2))"

definition DeleteBy3Conditions :: "'d gorm \<Rightarrow> table \<Rightarrow> column \<Rightarrow> string \<Rightarrow> column \<Rightarrow> string \<Rightarrow> column \<Rightarrow> string \<Rightarrow>
    ('d store, bool) prog" where
  "DeleteBy3Conditions G t c1 v1 c2 v2 c3 v3 = DeleteBy3Conditions_of G t None c1 v1 c2 v2 c3 v3"

definition CountAllConnections :: "('d, 't, 'r, 'k) mapper \<Rightarrow> 't \<Rightarrow> ('d store, nat) prog" where
  "CountAllConnections G t =
     bindP (Open G) (\<lambda>_.
     bindP (onDB (g_count G t [])) (\<lambda>r.
     case r of Inl e \<Rightarrow> throw (gorm_msg e) | Inr n \<Rightarrow> ret n))"

text \<open>The column is \<open>provider_name\<close>.\<close>

definition CountConnectionsByProvider :: "('d, 't, 'r, 'k) mapper \<Rightarrow> 't \<Rightarrow> 'k \<Rightarrow> string \<Rightarrow> ('d store, nat) prog" where
  "CountConnectionsByProvider G t PROVIDER_NAME_COLUMN providerName =
     bindP (Open G) (\<lambda>_.
     bindP (onDB (g_count G t [CEq PROVIDER_NAME_COLUMN providerName])) (\<lambda>r.
     case r of Inl e \<Rightarrow> throw (gorm_msg e) | Inr n \<Rightarrow> ret n))"

definition CountAllNameIDs :: "'d gorm \<Rightarrow> table \<Rightarrow> ('d store, nat) prog" where
  "CountAllNameIDs G t =
     bindP (Open G) (\<lambda>_.
     bindP (onDB (g_count G t [])) (\<lambda>r.
     case r of Inl e \<Rightarrow> throw (gorm_msg e) | Inr n \<Rightarrow> ret n))"

definition CountNameIDsByConnection :: "'d gorm \<Rightarrow> table \<Rightarrow> string \<Rightarrow> ('d store, nat) prog" where
  "CountNameIDsByConnection G t connectionName =
     bindP (Open G) (\<lambda>_.
     bindP (onDB (g_count G t [CEq CONNECTION_NAME_COLUMN connectionName])) (\<lambda>r.
     case r of Inl e \<Rightarrow> throw (gorm_msg e) | Inr n \<Rightarrow> ret n))"

definition ListNameIDByConnection :: "'d gorm \<Rightarrow> table \<Rightarrow> string \<Rightarrow> ('d store, string list) prog" where
  "ListNameIDByConnection G t connectionName =
     bindP (Open G) (\<lambda>_.
     bindP (onDB (g_pluck G t NAME_ID_COLUMN [CEq CONNECTION_NAME_COLUMN connectionName])) (\<lambda>r.
     case r of Inl e \<Rightarrow> throw (gorm_msg e) | Inr ns \<Rightarrow> ret ns))"

section \<open>What the code relies on\<close>

text \<open>The primary key of a table, from the \<open>gorm:"primaryKey"\<close> tags of its struct.\<close>

definition primary_key :: "iid_row \<Rightarrow> string \<times> string \<times> string \<times> string" where
  "primary_key r = (row_ConnectionName r, row_NameId r, row_OwnerVPCName r, row_OwnerClusterName r)"

text \<open>The columns of the primary key of each table: they tell the rows of one table apart.\<close>

fun key_columns :: "table \<Rightarrow> column list" where
  "key_columns SubnetIIDInfo = [CONNECTION_NAME_COLUMN, NAME_ID_COLUMN, OWNER_VPC_NAME_COLUMN]"
| "key_columns SGIIDInfo = [CONNECTION_NAME_COLUMN, NAME_ID_COLUMN, OWNER_VPC_NAME_COLUMN]"
| "key_columns NLBIIDInfo = [CONNECTION_NAME_COLUMN, NAME_ID_COLUMN, OWNER_VPC_NAME_COLUMN]"
| "key_columns ClusterIIDInfo = [CONNECTION_NAME_COLUMN, NAME_ID_COLUMN, OWNER_VPC_NAME_COLUMN]"
| "key_columns RDBMSIIDInfo = [CONNECTION_NAME_COLUMN, NAME_ID_COLUMN, OWNER_VPC_NAME_COLUMN]"
| "key_columns NodeGroupIIDInfo = [CONNECTION_NAME_COLUMN, NAME_ID_COLUMN, OWNER_CLUSTER_NAME_COLUMN]"
| "key_columns _ = [CONNECTION_NAME_COLUMN, NAME_ID_COLUMN]"

definition same_key :: "table \<Rightarrow> iid_row \<Rightarrow> iid_row \<Rightarrow> bool" where
  "same_key t r x = list_all (\<lambda>c. col c x = col c r) (key_columns t)"

fun cond_holds :: "(string \<Rightarrow> string \<Rightarrow> bool) \<Rightarrow> iid_row \<Rightarrow> column cond \<Rightarrow> bool" where
  "cond_holds like r (CEq c v) = (col c r = v)"
| "cond_holds like r (CLike c pat) = like (col c r) pat"

definition selected :: "'d gorm \<Rightarrow> column cond list \<Rightarrow> iid_row set \<Rightarrow> iid_row set" where
  "selected G cs R = {r \<in> R. \<forall>c \<in> set cs. cond_holds (g_like G) r c}"

definition upsert :: "iid_row \<Rightarrow> iid_row set \<Rightarrow> iid_row set" where
  "upsert r R = insert r {x \<in> R. primary_key x \<noteq> primary_key r}"

text \<open>
  \<open>R d t\<close> are the rows of table \<open>t\<close> in database \<open>d\<close>. A call that fails changes no row; \<open>Save\<close> inserts or replaces
  by primary key; \<open>Find\<close>, \<open>First\<close>, \<open>Count\<close> and \<open>Pluck\<close> read the selected rows, \<open>First\<close> failing with
  \<open>ErrRecordNotFound\<close> only when there is none; \<open>Delete\<close> removes the selected rows. With a
  struct whose fields are set, \<open>Delete\<close> is documented to add the struct's primary key to its conditions; the code
  passes it behind a pointer to an interface, for which that is not documented, so either may happen here.
\<close>

definition gorm_ok :: "'d gorm \<Rightarrow> ('d \<Rightarrow> table \<Rightarrow> iid_row set) \<Rightarrow> bool" where
  "gorm_ok G R \<longleftrightarrow>
     (\<forall>d. R (snd (g_open G d)) = R d) \<and>
     (\<forall>t r d. R (snd (g_save G t r d)) =
        (if fst (g_save G t r d) = None then (R d)(t := upsert r (R d t)) else R d)) \<and>
     (\<forall>t cs d. R (snd (g_find G t cs d)) = R d \<and>
        (\<forall>rs. fst (g_find G t cs d) = Inr rs \<longrightarrow> set rs = selected G cs (R d t) \<and> distinct rs)) \<and>
     (\<forall>t cs d. R (snd (g_first G t cs d)) = R d \<and>
        (\<forall>r. fst (g_first G t cs d) = Inr r \<longrightarrow> r \<in> selected G cs (R d t)) \<and>
        (fst (g_first G t cs d) = Inl ErrRecordNotFound \<longrightarrow> selected G cs (R d t) = {})) \<and>
     (\<forall>t cs d. R (snd (g_delete G t None cs d)) =
        (if fst (g_delete G t None cs d) = None then (R d)(t := R d t - selected G cs (R d t)) else R d)) \<and>
     (\<forall>t r cs d. \<exists>D \<in> {selected G cs (R d t), {x \<in> selected G cs (R d t). same_key t r x}}.
        R (snd (g_delete G t (Some r) cs d)) =
        (if fst (g_delete G t (Some r) cs d) = None then (R d)(t := R d t - D) else R d)) \<and>
     (\<forall>t cs d. R (snd (g_count G t cs d)) = R d \<and>
        (\<forall>n. fst (g_count G t cs d) = Inr n \<longrightarrow> n = card (selected G cs (R d t)))) \<and>
     (\<forall>t c cs d. R (snd (g_pluck G t c cs d)) = R d \<and>
        (\<forall>vs. fst (g_pluck G t c cs d) = Inr vs \<longrightarrow> set vs = col c ` selected G cs (R d t)))"

section \<open>The interface the managers use\<close>

text \<open>
  \<open>rows s\<close> are the tables of a store in state \<open>s\<close>, \<open>ok\<close> says that the mapper behind it behaves as documented.
  Each law is about one operation: what a value it returned says about the tables, and what it did to them;
  an operation that failed did nothing to them.
\<close>

locale iid_store =
  fixes ok :: bool
    and rows :: "'s \<Rightarrow> table \<Rightarrow> iid_row set"
    and insert_row :: "table \<Rightarrow> iid_row \<Rightarrow> ('s, unit) prog"
    and list_all :: "table \<Rightarrow> ('s, iid_row list) prog"
    and list_by :: "table \<Rightarrow> column \<Rightarrow> string \<Rightarrow> ('s, iid_row list) prog"
    and get_by :: "table \<Rightarrow> column \<Rightarrow> string \<Rightarrow> column \<Rightarrow> string \<Rightarrow> ('s, iid_row) prog"
    and has_by :: "table \<Rightarrow> column \<Rightarrow> string \<Rightarrow> column \<Rightarrow> string \<Rightarrow> ('s, bool) prog"
    and has_one :: "table \<Rightarrow> column \<Rightarrow> string \<Rightarrow> ('s, bool) prog"
    and del_by :: "table \<Rightarrow> column \<Rightarrow> string \<Rightarrow> column \<Rightarrow> string \<Rightarrow> ('s, bool) prog"
  assumes insert_law: "ok \<Longrightarrow> wp (insert_row t r)
      (\<lambda>_ s'. rows s' = (rows s)(t := upsert r (rows s t))) (\<lambda>_ s'. rows s' = rows s) s"
    and list_all_law: "ok \<Longrightarrow> wp (list_all t)
      (\<lambda>rs s'. rows s' = rows s \<and> set rs = rows s t \<and> distinct rs) (\<lambda>_ s'. rows s' = rows s) s"
    and list_by_law: "ok \<Longrightarrow> wp (list_by t c v)
      (\<lambda>rs s'. rows s' = rows s \<and> set rs = {r \<in> rows s t. col c r = v} \<and> distinct rs) (\<lambda>_ s'. rows s' = rows s) s"
    and get_by_law: "ok \<Longrightarrow> wp (get_by t c1 v1 c2 v2)
      (\<lambda>r s'. rows s' = rows s \<and> r \<in> rows s t \<and> col c1 r = v1 \<and> col c2 r = v2) (\<lambda>_ s'. rows s' = rows s) s"
    and has_by_law: "ok \<Longrightarrow> wp (has_by t c1 v1 c2 v2)
      (\<lambda>b s'. rows s' = rows s \<and> (b \<longleftrightarrow> (\<exists>r \<in> rows s t. col c1 r = v1 \<and> col c2 r = v2))) (\<lambda>_ s'. rows s' = rows s) s"
    and has_one_law: "ok \<Longrightarrow> wp (has_one t c v)
      (\<lambda>b s'. rows s' = rows s \<and> (b \<longleftrightarrow> (\<exists>r \<in> rows s t. col c r = v))) (\<lambda>_ s'. rows s' = rows s) s"
    and del_by_law: "ok \<Longrightarrow> wp (del_by t c1 v1 c2 v2)
      (\<lambda>b s'. b \<and> rows s' = (rows s)(t := {r \<in> rows s t. \<not> (col c1 r = v1 \<and> col c2 r = v2)}))
      (\<lambda>_ s'. rows s' = rows s) s"
begin

lemma insert_wp:
  assumes "ok" and "\<And>s'. rows s' = (rows s)(t := upsert r (rows s t)) \<Longrightarrow> Q () s'"
    and "\<And>e s'. rows s' = rows s \<Longrightarrow> E e s'"
  shows "wp (insert_row t r) Q E s"
  using insert_law[OF assms(1), of t r s] by (rule wp_mono) (use assms in auto)

lemma get_by_wp:
  assumes "ok" and "\<And>r s'. rows s' = rows s \<Longrightarrow> r \<in> rows s t \<Longrightarrow> col c1 r = v1 \<Longrightarrow> col c2 r = v2 \<Longrightarrow> Q r s'"
    and "\<And>e s'. rows s' = rows s \<Longrightarrow> E e s'"
  shows "wp (get_by t c1 v1 c2 v2) Q E s"
  using get_by_law[OF assms(1), of t c1 v1 c2 v2 s] by (rule wp_mono) (use assms in auto)

lemma has_by_wp:
  assumes "ok" and "\<And>b s'. rows s' = rows s \<Longrightarrow> (b \<longleftrightarrow> (\<exists>r \<in> rows s t. col c1 r = v1 \<and> col c2 r = v2)) \<Longrightarrow> Q b s'"
    and "\<And>e s'. rows s' = rows s \<Longrightarrow> E e s'"
  shows "wp (has_by t c1 v1 c2 v2) Q E s"
  using has_by_law[OF assms(1), of t c1 v1 c2 v2 s] by (rule wp_mono) (use assms in auto)

lemma has_one_wp:
  assumes "ok" and "\<And>b s'. rows s' = rows s \<Longrightarrow> (b \<longleftrightarrow> (\<exists>r \<in> rows s t. col c r = v)) \<Longrightarrow> Q b s'"
    and "\<And>e s'. rows s' = rows s \<Longrightarrow> E e s'"
  shows "wp (has_one t c v) Q E s"
  using has_one_law[OF assms(1), of t c v s] by (rule wp_mono) (use assms in auto)

lemma list_all_wp:
  assumes "ok" and "\<And>rs s'. rows s' = rows s \<Longrightarrow> set rs = rows s t \<Longrightarrow> distinct rs \<Longrightarrow> Q rs s'"
    and "\<And>e s'. rows s' = rows s \<Longrightarrow> E e s'"
  shows "wp (list_all t) Q E s"
  using list_all_law[OF assms(1), of t s] by (rule wp_mono) (use assms in auto)

lemma list_by_wp:
  assumes "ok" and "\<And>rs s'. rows s' = rows s \<Longrightarrow> set rs = {r \<in> rows s t. col c r = v} \<Longrightarrow> distinct rs \<Longrightarrow> Q rs s'"
    and "\<And>e s'. rows s' = rows s \<Longrightarrow> E e s'"
  shows "wp (list_by t c v) Q E s"
  using list_by_law[OF assms(1), of t c v s] by (rule wp_mono) (use assms in auto)

lemma del_by_wp:
  assumes "ok"
    and "\<And>s'. rows s' = (rows s)(t := {r \<in> rows s t. \<not> (col c1 r = v1 \<and> col c2 r = v2)}) \<Longrightarrow> Q True s'"
    and "\<And>e s'. rows s' = rows s \<Longrightarrow> E e s'"
  shows "wp (del_by t c1 v1 c2 v2) Q E s"
  using del_by_law[OF assms(1), of t c1 v1 c2 v2 s] by (rule wp_mono) (use assms in auto)

end

section \<open>The mapper's contract, call by call\<close>

lemma gorm_okD:
  assumes "gorm_ok G R"
  shows "R (snd (g_open G d)) = R d"
    and "R (snd (g_save G t r d)) = (if fst (g_save G t r d) = None then (R d)(t := upsert r (R d t)) else R d)"
    and "R (snd (g_find G t cs d)) = R d"
    and "fst (g_find G t cs d) = Inr rs \<Longrightarrow> set rs = selected G cs (R d t) \<and> distinct rs"
    and "R (snd (g_first G t cs d)) = R d"
    and "fst (g_first G t cs d) = Inr r \<Longrightarrow> r \<in> selected G cs (R d t)"
    and "fst (g_first G t cs d) = Inl ErrRecordNotFound \<Longrightarrow> selected G cs (R d t) = {}"
    and "R (snd (g_delete G t None cs d)) =
      (if fst (g_delete G t None cs d) = None then (R d)(t := R d t - selected G cs (R d t)) else R d)"
    and "R (snd (g_count G t cs d)) = R d"
    and "fst (g_count G t cs d) = Inr n \<Longrightarrow> n = card (selected G cs (R d t))"
    and "R (snd (g_pluck G t c cs d)) = R d"
    and "fst (g_pluck G t c cs d) = Inr vs \<Longrightarrow> set vs = col c ` selected G cs (R d t)"
    and "\<exists>D \<in> {selected G cs (R d t), {x \<in> selected G cs (R d t). same_key t x' x}}.
      R (snd (g_delete G t (Some x') cs d)) = (if fst (g_delete G t (Some x') cs d) = None then (R d)(t := R d t - D) else R d)"
  using assms unfolding gorm_ok_def by simp_all

lemma wp_onDB [wp_simps]: "wp (onDB f) Q E s = Q (fst (f (st_db s))) (s\<lparr>st_db := snd (f (st_db s))\<rparr>)"
  by (simp add: wp_def onDB_def split: prod.split)

lemma Open_wp:
  assumes "gorm_ok G R" and "\<And>s'. R (st_db s') = R (st_db s) \<Longrightarrow> Q () s'"
    and "\<And>e s'. R (st_db s') = R (st_db s) \<Longrightarrow> E e s'"
  shows "wp (Open G) Q E s"
  using assms(2,3) gorm_okD(1)[OF assms(1), of "st_db s"]
  by (auto simp: wp_def Open_def Let_def split: option.splits prod.splits)

lemma first_or_wp:
  assumes "gorm_ok G R" and "\<And>r s'. R (st_db s') = R (st_db s) \<Longrightarrow> r \<in> selected G cs (R (st_db s) t) \<Longrightarrow> Q r s'"
    and "\<And>s'. R (st_db s') = R (st_db s) \<Longrightarrow> selected G cs (R (st_db s) t) = {} \<Longrightarrow> E missing s'"
    and "\<And>e s'. R (st_db s') = R (st_db s) \<Longrightarrow> E (pre @ '': '' @ e) s'"
  shows "wp (first_or G t cs missing pre) Q E s"
  unfolding first_or_def wp_simps
  using assms(2-4) gorm_okD(5,6,7)[OF assms(1), where t = t and cs = cs and d = "st_db s"]
  by (auto simp: wp_simps split: sum.splits gorm_error.splits)

lemma has_or_wp:
  assumes "gorm_ok G R"
    and "\<And>s'. R (st_db s') = R (st_db s) \<Longrightarrow> Q (selected G cs (R (st_db s) t) \<noteq> {}) s'"
    and "\<And>e s'. R (st_db s') = R (st_db s) \<Longrightarrow> E e s'"
  shows "wp (has_or G t cs pre) Q E s"
proof -
  note g = gorm_okD(5,6,7)[OF assms(1), where t = t and cs = cs and d = "st_db s"]
  have q: "Q (selected G cs (R (st_db s) t) \<noteq> {}) (s\<lparr>st_db := snd (g_first G t cs (st_db s))\<rparr>)"
    using assms(2) g(1) by simp
  consider "fst (g_first G t cs (st_db s)) = Inl ErrRecordNotFound" "(selected G cs (R (st_db s) t) \<noteq> {}) = False"
    | e where "fst (g_first G t cs (st_db s)) = Inl (DBError e)"
    | r where "fst (g_first G t cs (st_db s)) = Inr r" "(selected G cs (R (st_db s) t) \<noteq> {}) = True"
    using g(2,3) by (metis empty_iff gorm_error.exhaust sum.exhaust)
  then show ?thesis
    unfolding has_or_def wp_simps by cases (use assms(3) g(1) q in \<open>simp_all add: wp_simps\<close>)
qed

lemma delete_or_wp:
  assumes "gorm_ok G R"
    and "\<And>s'. R (st_db s') = (R (st_db s))(t := R (st_db s) t - selected G cs (R (st_db s) t)) \<Longrightarrow> Q True s'"
    and "\<And>e s'. R (st_db s') = R (st_db s) \<Longrightarrow> E e s'"
  shows "wp (delete_or G t None cs pre) Q E s"
  unfolding delete_or_def wp_simps
  using assms(2-3) gorm_okD(8)[OF assms(1), of t cs "st_db s"]
  by (auto simp: wp_simps split: option.splits gorm_error.splits)

lemma delete_or_of_wp:
  assumes "gorm_ok G R" and key: "\<And>x. x \<in> selected G cs (R (st_db s) t) \<Longrightarrow> same_key t r x"
    and Q: "\<And>s'. R (st_db s') = (R (st_db s))(t := R (st_db s) t - selected G cs (R (st_db s) t)) \<Longrightarrow> Q True s'"
    and E: "\<And>e s'. R (st_db s') = R (st_db s) \<Longrightarrow> E e s'"
  shows "wp (delete_or G t (Some r) cs pre) Q E s"
proof -
  obtain D where "D = selected G cs (R (st_db s) t) \<or> D = {x \<in> selected G cs (R (st_db s) t). same_key t r x}"
    and D: "R (snd (g_delete G t (Some r) cs (st_db s))) =
      (if fst (g_delete G t (Some r) cs (st_db s)) = None then (R (st_db s))(t := R (st_db s) t - D) else R (st_db s))"
    using gorm_okD(13)[OF assms(1), of cs "st_db s" t r] by blast
  then have "D = selected G cs (R (st_db s) t)" using key by blast
  note D[unfolded this]
  then show ?thesis
    unfolding delete_or_def wp_simps using Q E by (auto simp: wp_simps split: option.splits gorm_error.splits)
qed

lemma find_wp:
  assumes "gorm_ok G R"
    and "\<And>rs s'. R (st_db s') = R (st_db s) \<Longrightarrow> set rs = selected G cs (R (st_db s) t) \<Longrightarrow> distinct rs \<Longrightarrow> Q rs s'"
    and "\<And>e s'. R (st_db s') = R (st_db s) \<Longrightarrow> E e s'"
  shows "wp (bindP (onDB (g_find G t cs)) (\<lambda>r. case r of Inl e \<Rightarrow> throw (gorm_msg e) | Inr rows \<Rightarrow> ret rows)) Q E s"
  unfolding wp_simps
  using assms(2-3) gorm_okD(3,4)[OF assms(1), of t cs "st_db s"]
  by (auto simp: wp_simps split: sum.splits)

lemma diff_selected: "A - {r \<in> A. P r} = {r \<in> A. \<not> P r}"
  by auto

lemma selected_Eq:
  "selected G [] S = S"
  "selected G [CEq c v] S = {r \<in> S. col c r = v}"
  "selected G [CEq c v, CEq c' v'] S = {r \<in> S. col c r = v \<and> col c' r = v'}"
  "selected G [CEq c v, CEq c' v', CEq c'' v''] S = {r \<in> S. col c r = v \<and> col c' r = v' \<and> col c'' r = v''}"
  by (auto simp: selected_def)

text \<open>The operations that are not part of the common interface.\<close>

lemma Get_wp:
  assumes "gorm_ok G R" and "\<And>r s'. R (st_db s') = R (st_db s) \<Longrightarrow> r \<in> R (st_db s) t \<Longrightarrow> col c r = v \<Longrightarrow> Q r s'"
    and "\<And>e s'. R (st_db s') = R (st_db s) \<Longrightarrow> E e s'"
  shows "wp (Get G t c v) Q E s"
  unfolding Get_def wp_simps
  by (intro Open_wp[OF assms(1)] first_or_wp[OF assms(1)] assms(2,3)) (simp_all add: selected_Eq)

lemma DeleteBy3Conditions_wp:
  assumes "gorm_ok G R"
    and "\<And>s'. R (st_db s') = (R (st_db s))(t := {r \<in> R (st_db s) t.
      \<not> (col c1 r = v1 \<and> col c2 r = v2 \<and> col c3 r = v3)}) \<Longrightarrow> Q True s'"
    and "\<And>e s'. R (st_db s') = R (st_db s) \<Longrightarrow> E e s'"
  shows "wp (DeleteBy3Conditions G t c1 v1 c2 v2 c3 v3) Q E s"
  unfolding DeleteBy3Conditions_def DeleteBy3Conditions_of_def wp_simps
  by (intro Open_wp[OF assms(1)] delete_or_wp[OF assms(1)] assms(2,3)) (simp_all add: selected_Eq diff_selected)

text \<open>With a row of the name and of the owner given, the row's key is what the three conditions say already.\<close>

lemma DeleteBy3Conditions_of_wp:
  assumes "gorm_ok G R" and key: "key_columns t = [CONNECTION_NAME_COLUMN, NAME_ID_COLUMN, OWNER_VPC_NAME_COLUMN]"
    and r: "row_ConnectionName r = v1" "row_NameId r = v2" "row_OwnerVPCName r = v3"
    and "\<And>s'. R (st_db s') = (R (st_db s))(t := {x \<in> R (st_db s) t.
      \<not> (row_ConnectionName x = v1 \<and> row_NameId x = v2 \<and> row_OwnerVPCName x = v3)}) \<Longrightarrow> Q True s'"
    and "\<And>e s'. R (st_db s') = R (st_db s) \<Longrightarrow> E e s'"
  shows "wp (DeleteBy3Conditions_of G t (Some r) CONNECTION_NAME_COLUMN v1 NAME_ID_COLUMN v2 OWNER_VPC_NAME_COLUMN v3) Q E s"
  unfolding DeleteBy3Conditions_of_def wp_simps
  by (intro Open_wp[OF assms(1)] delete_or_of_wp[OF assms(1)] assms(6,7))
    (simp_all add: selected_Eq diff_selected same_key_def key r)

lemma ListByConditions_wp:
  assumes "gorm_ok G R"
    and "\<And>rs s'. R (st_db s') = R (st_db s) \<Longrightarrow> set rs = {r \<in> R (st_db s) t. col c1 r = v1 \<and> col c2 r = v2} \<Longrightarrow>
      distinct rs \<Longrightarrow> Q rs s'"
    and "\<And>e s'. R (st_db s') = R (st_db s) \<Longrightarrow> E e s'"
  shows "wp (ListByConditions G t c1 v1 c2 v2) Q E s"
  unfolding ListByConditions_def wp_bindP[of "Open G"]
  by (intro Open_wp[OF assms(1)] find_wp[OF assms(1)] assms(2,3)) (simp_all add: selected_Eq)

section \<open>The package implements the interface\<close>

interpretation infostore: iid_store "gorm_ok G R" "\<lambda>s. R (st_db s)" "Insert G" "List G" "ListByCondition G"
    "GetByConditions G" "HasByConditions G" "HasByCondition G" "DeleteByConditions G"
  for G :: "'d gorm" and R :: "'d \<Rightarrow> table \<Rightarrow> iid_row set"
proof (unfold_locales)
  fix t r and s :: "'d store"
  assume ok: "gorm_ok G R"
  show "wp (Insert G t r) (\<lambda>_ s'. R (st_db s') = (R (st_db s))(t := upsert r (R (st_db s) t)))
      (\<lambda>_ s'. R (st_db s') = R (st_db s)) s"
    unfolding Insert_def wp_bindP[of "Open G"]
    by (rule Open_wp[OF ok]) (simp_all add: wp_simps gorm_okD(2)[OF ok] split: option.split)
next
  fix t and s :: "'d store"
  assume ok: "gorm_ok G R"
  show "wp (List G t) (\<lambda>rs s'. R (st_db s') = R (st_db s) \<and> set rs = R (st_db s) t \<and> distinct rs)
      (\<lambda>_ s'. R (st_db s') = R (st_db s)) s"
    unfolding List_def wp_bindP[of "Open G"]
    by (intro Open_wp[OF ok] find_wp[OF ok]) (simp_all add: selected_Eq)
next
  fix t c v and s :: "'d store"
  assume ok: "gorm_ok G R"
  show "wp (ListByCondition G t c v)
      (\<lambda>rs s'. R (st_db s') = R (st_db s) \<and> set rs = {r \<in> R (st_db s) t. col c r = v} \<and> distinct rs)
      (\<lambda>_ s'. R (st_db s') = R (st_db s)) s"
    unfolding ListByCondition_def wp_bindP[of "Open G"]
    by (intro Open_wp[OF ok] find_wp[OF ok]) (simp_all add: selected_Eq)
next
  fix t c1 v1 c2 v2 and s :: "'d store"
  assume ok: "gorm_ok G R"
  show "wp (GetByConditions G t c1 v1 c2 v2)
      (\<lambda>r s'. R (st_db s') = R (st_db s) \<and> r \<in> R (st_db s) t \<and> col c1 r = v1 \<and> col c2 r = v2)
      (\<lambda>_ s'. R (st_db s') = R (st_db s)) s"
    unfolding GetByConditions_def wp_bindP[of "Open G"]
    by (intro Open_wp[OF ok] first_or_wp[OF ok]) (simp_all add: selected_Eq)
next
  fix t c1 v1 c2 v2 and s :: "'d store"
  assume ok: "gorm_ok G R"
  show "wp (HasByConditions G t c1 v1 c2 v2)
      (\<lambda>b s'. R (st_db s') = R (st_db s) \<and> b = (\<exists>r\<in>R (st_db s) t. col c1 r = v1 \<and> col c2 r = v2))
      (\<lambda>_ s'. R (st_db s') = R (st_db s)) s"
    unfolding HasByConditions_def wp_bindP[of "Open G"]
    by (intro Open_wp[OF ok] has_or_wp[OF ok]) (auto simp: selected_Eq)
next
  fix t c v and s :: "'d store"
  assume ok: "gorm_ok G R"
  show "wp (HasByCondition G t c v)
      (\<lambda>b s'. R (st_db s') = R (st_db s) \<and> b = (\<exists>r\<in>R (st_db s) t. col c r = v))
      (\<lambda>_ s'. R (st_db s') = R (st_db s)) s"
    unfolding HasByCondition_def wp_bindP[of "Open G"]
    by (intro Open_wp[OF ok] has_or_wp[OF ok]) (auto simp: selected_Eq)
next
  fix t c1 v1 c2 v2 and s :: "'d store"
  assume ok: "gorm_ok G R"
  show "wp (DeleteByConditions G t c1 v1 c2 v2)
      (\<lambda>b s'. b \<and> R (st_db s') = (R (st_db s))(t := {r \<in> R (st_db s) t. \<not> (col c1 r = v1 \<and> col c2 r = v2)}))
      (\<lambda>_ s'. R (st_db s') = R (st_db s)) s"
    unfolding DeleteByConditions_def DeleteByConditions_of_def wp_bindP[of "Open G"]
    by (intro Open_wp[OF ok] delete_or_wp[OF ok]) (simp_all add: selected_Eq diff_selected)
qed

end
