(* ===== verification/DriverInterfaces.thy ===== *)
theory DriverInterfaces
  imports IID
begin

text \<open>
  The cloud driver interfaces of \<open>cloud-driver/interfaces\<close>: the request and information structs of the resources,
  and each Go interface as a record of programs over the state \<open>'c\<close> of the cloud behind the driver. A method with
  the result \<open>(T, error)\<close> is a program that returns or fails; a deletion and the check of an
  image for Windows return the pair \<open>(bool, error)\<close>, because the callers look at both components. A pointer that may be nil is an option.
\<close>

section \<open>Panics\<close>

text \<open>
  Dereferencing a nil pointer and slicing out of range end the function like an error that nobody handles; the
  program never compares an error with these texts.
\<close>

definition nil_panic :: go_error where
  "nil_panic = ''runtime error: invalid memory address or nil pointer dereference''"

definition slice_panic :: go_error where
  "slice_panic = ''runtime error: slice bounds out of range''"

section \<open>Structs\<close>

record KeyValue =
  kv_Key :: string
  kv_Value :: string

record KeyPairReqInfo =
  keyReq_IId :: IID
  keyReq_TagList :: "KeyValue list"

record KeyPairInfo =
  key_IId :: IID
  key_Fingerprint :: string
  key_PublicKey :: string
  key_PrivateKey :: string
  key_VMUserID :: string
  key_TagList :: "KeyValue list"
  key_KeyValueList :: "KeyValue list"

record SecurityRuleInfo =
  rule_Direction :: string
  rule_IPProtocol :: string
  rule_FromPort :: string
  rule_ToPort :: string
  rule_CIDR :: string

record SecurityReqInfo =
  sgReq_IId :: IID
  sgReq_VpcIID :: IID
  sgReq_SecurityRules :: "SecurityRuleInfo list option"
  sgReq_TagList :: "KeyValue list"

record SecurityInfo =
  sg_IId :: IID
  sg_VpcIID :: IID
  sg_SecurityRules :: "SecurityRuleInfo list option"
  sg_TagList :: "KeyValue list"
  sg_KeyValueList :: "KeyValue list"

record SubnetInfo =
  subnet_IId :: IID
  subnet_Zone :: string
  subnet_IPv4_CIDR :: string
  subnet_TagList :: "KeyValue list"
  subnet_KeyValueList :: "KeyValue list"

record VPCReqInfo =
  vpcReq_IId :: IID
  vpcReq_IPv4_CIDR :: string
  vpcReq_SubnetInfoList :: "SubnetInfo list"
  vpcReq_TagList :: "KeyValue list"

record VPCInfo =
  vpc_IId :: IID
  vpc_IPv4_CIDR :: string
  vpc_SubnetInfoList :: "SubnetInfo list"
  vpc_TagList :: "KeyValue list"
  vpc_KeyValueList :: "KeyValue list"

text \<open>
  Disks, images and virtual machines. The named string types of Go (\<open>DiskStatus\<close>, \<open>VMStatus\<close>, \<open>ImageType\<close>, ..) are
  strings here too, their constants abbreviations. A \<open>time.Time\<close> is a number of ticks.
\<close>

type_synonym go_time = nat

abbreviation DiskCreating :: string where "DiskCreating \<equiv> ''Creating''"
abbreviation DiskAvailable :: string where "DiskAvailable \<equiv> ''Available''"
abbreviation DiskAttached :: string where "DiskAttached \<equiv> ''Attached''"
abbreviation DiskDeleting :: string where "DiskDeleting \<equiv> ''Deleting''"
abbreviation DiskError :: string where "DiskError \<equiv> ''Error''"

record DiskInfo =
  disk_IId :: IID
  disk_Zone :: string
  disk_DiskType :: string
  disk_DiskSize :: string
  disk_Status :: string
  disk_OwnerVM :: IID
  disk_CreatedTime :: go_time
  disk_TagList :: "KeyValue list"
  disk_KeyValueList :: "KeyValue list"

abbreviation MyImageAvailable :: string where "MyImageAvailable \<equiv> ''Available''"
abbreviation MyImageUnavailable :: string where "MyImageUnavailable \<equiv> ''Unavailable''"

record MyImageInfo =
  mi_IId :: IID
  mi_SourceVM :: IID
  mi_Status :: string
  mi_CreatedTime :: go_time
  mi_TagList :: "KeyValue list"
  mi_KeyValueList :: "KeyValue list"

record ImageInfo =
  img_IId :: IID
  img_Name :: string
  img_OSArchitecture :: string
  img_OSPlatform :: string
  img_OSDistribution :: string
  img_OSDiskType :: string
  img_OSDiskSizeGB :: string
  img_ImageStatus :: string
  img_KeyValueList :: "KeyValue list"

record VCpuInfo =
  vcpu_Count :: string
  vcpu_ClockGHz :: string

record GpuInfo =
  gpu_Count :: string
  gpu_Mfr :: string
  gpu_Model :: string
  gpu_MemSizeGB :: string
  gpu_TotalMemSizeGB :: string

record AcceleratorInfo =
  acc_Type :: string
  acc_Mfr :: string
  acc_Model :: string
  acc_Count :: string
  acc_Fraction :: string
  acc_MemSizeGB :: string
  acc_TotalMemSizeGB :: string

record VMSpecInfo =
  spec_Region :: string
  spec_Name :: string
  spec_VCpu :: VCpuInfo
  spec_MemSizeMiB :: string
  spec_DiskSizeGB :: string
  spec_Gpu :: "GpuInfo list"
  spec_Accelerator :: "AcceleratorInfo list"
  spec_KeyValueList :: "KeyValue list"

abbreviation Creating :: string where "Creating \<equiv> ''Creating''"
abbreviation Running :: string where "Running \<equiv> ''Running''"
abbreviation Suspending :: string where "Suspending \<equiv> ''Suspending''"
abbreviation Suspended :: string where "Suspended \<equiv> ''Suspended''"
abbreviation Resuming :: string where "Resuming \<equiv> ''Resuming''"
abbreviation Rebooting :: string where "Rebooting \<equiv> ''Rebooting''"
abbreviation Terminating :: string where "Terminating \<equiv> ''Terminating''"
abbreviation Terminated :: string where "Terminated \<equiv> ''Terminated''"
abbreviation NotExist :: string where "NotExist \<equiv> ''NotExist''"
abbreviation Failed :: string where "Failed \<equiv> ''Failed''"

abbreviation WINDOWS :: string where "WINDOWS \<equiv> ''WINDOWS''"

abbreviation PublicImage :: string where "PublicImage \<equiv> ''PublicImage''"
abbreviation MyImage :: string where "MyImage \<equiv> ''MyImage''"

record VMNICInfo =
  nic_IId :: IID
  nic_DeviceIndex :: int
  nic_PrivateIPs :: "string list"
  nic_PublicIPs :: "string list"
  nic_MACAddress :: string
  nic_SubnetIID :: IID

record RegionInfo =
  region_Region :: string
  region_Zone :: string

record VMReqInfo =
  vmReq_IId :: IID
  vmReq_ImageType :: string
  vmReq_ImageIID :: IID
  vmReq_VpcIID :: IID
  vmReq_SubnetIID :: IID
  vmReq_SecurityGroupIIDs :: "IID list"
  vmReq_VMSpecName :: string
  vmReq_KeyPairIID :: IID
  vmReq_RootDiskType :: string
  vmReq_RootDiskSize :: string
  vmReq_DataDiskIIDs :: "IID list"
  vmReq_VMUserId :: string
  vmReq_VMUserPasswd :: string
  vmReq_WindowsType :: bool
  vmReq_AssignPublicIP :: "bool option"
  vmReq_TagList :: "KeyValue list"

record VMStatusInfo =
  vmst_IId :: IID
  vmst_VmStatus :: string

record VMInfo =
  vm_IId :: IID
  vm_StartTime :: go_time
  vm_Region :: RegionInfo
  vm_ImageType :: string
  vm_ImageIId :: IID
  vm_VMSpecName :: string
  vm_VpcIID :: IID
  vm_SubnetIID :: IID
  vm_SecurityGroupIIds :: "IID list"
  vm_KeyPairIId :: IID
  vm_RootDiskType :: string
  vm_RootDiskSize :: string
  vm_RootDeviceName :: string
  vm_DataDiskIIDs :: "IID list"
  vm_VMBootDisk :: string
  vm_VMBlockDisk :: string
  vm_VMUserId :: string
  vm_VMUserPasswd :: string
  vm_NICs :: "VMNICInfo list"
  vm_NetworkInterface :: string
  vm_PublicIP :: string
  vm_PublicIPs :: "string list"
  vm_PublicDNS :: string
  vm_PrivateIP :: string
  vm_PrivateIPs :: "string list"
  vm_PrivateDNS :: string
  vm_Platform :: string
  vm_SSHAccessPoint :: string
  vm_AccessPoint :: string
  vm_TagList :: "KeyValue list"
  vm_KeyValueList :: "KeyValue list"

text \<open>The zero values of the structs the runtime builds from an IID alone.\<close>

definition KeyPairInfo_of :: "IID \<Rightarrow> KeyPairInfo" where
  "KeyPairInfo_of iid =
     \<lparr>key_IId = iid, key_Fingerprint = [], key_PublicKey = [], key_PrivateKey = [], key_VMUserID = [],
      key_TagList = [], key_KeyValueList = []\<rparr>"

definition SecurityInfo_of :: "IID \<Rightarrow> SecurityInfo" where
  "SecurityInfo_of iid =
     \<lparr>sg_IId = iid, sg_VpcIID = IID_zero, sg_SecurityRules = None, sg_TagList = [], sg_KeyValueList = []\<rparr>"

definition VPCInfo_of :: "IID \<Rightarrow> VPCInfo" where
  "VPCInfo_of iid =
     \<lparr>vpc_IId = iid, vpc_IPv4_CIDR = [], vpc_SubnetInfoList = [], vpc_TagList = [], vpc_KeyValueList = []\<rparr>"

definition DiskInfo_of :: "IID \<Rightarrow> DiskInfo" where
  "DiskInfo_of iid =
     \<lparr>disk_IId = iid, disk_Zone = [], disk_DiskType = [], disk_DiskSize = [], disk_Status = [], disk_OwnerVM = IID_zero,
      disk_CreatedTime = 0, disk_TagList = [], disk_KeyValueList = []\<rparr>"

definition MyImageInfo_of :: "IID \<Rightarrow> MyImageInfo" where
  "MyImageInfo_of iid =
     \<lparr>mi_IId = iid, mi_SourceVM = IID_zero, mi_Status = [], mi_CreatedTime = 0, mi_TagList = [], mi_KeyValueList = []\<rparr>"

section \<open>Handlers\<close>

type_synonym 'c deletion = "'c \<Rightarrow> (bool \<times> go_error option) \<times> 'c"

text \<open>A status, which the runtime looks at beside the error; and a result \<open>(status, nil)\<close> or \<open>("", err)\<close> as one.\<close>

type_synonym 'c status_call = "'c \<Rightarrow> (string \<times> go_error option) \<times> 'c"

definition status_call_of :: "('c, string) prog \<Rightarrow> 'c status_call" where
  "status_call_of m c = (case m c of (Inr s, c') \<Rightarrow> ((s, None), c') | (Inl e, c') \<Rightarrow> (([], Some e), c'))"

record 'c KeyPairHandler =
  kh_CreateKey :: "KeyPairReqInfo \<Rightarrow> ('c, KeyPairInfo) prog"
  kh_ListKey :: "('c, KeyPairInfo list) prog"
  kh_GetKey :: "IID \<Rightarrow> ('c, KeyPairInfo) prog"
  kh_DeleteKey :: "IID \<Rightarrow> 'c deletion"
  kh_ListIID :: "('c, IID list) prog"

record 'c SecurityHandler =
  sh_ListIID :: "('c, IID list) prog"
  sh_CreateSecurity :: "SecurityReqInfo \<Rightarrow> ('c, SecurityInfo) prog"
  sh_ListSecurity :: "('c, SecurityInfo list) prog"
  sh_GetSecurity :: "IID \<Rightarrow> ('c, SecurityInfo) prog"
  sh_DeleteSecurity :: "IID \<Rightarrow> 'c deletion"
  sh_AddRules :: "IID \<Rightarrow> SecurityRuleInfo list \<Rightarrow> ('c, SecurityInfo) prog"
  sh_RemoveRules :: "IID \<Rightarrow> SecurityRuleInfo list \<Rightarrow> ('c, bool) prog"

record 'c VPCHandler =
  vh_ListIID :: "('c, IID list) prog"
  vh_CreateVPC :: "VPCReqInfo \<Rightarrow> ('c, VPCInfo) prog"
  vh_ListVPC :: "('c, VPCInfo list) prog"
  vh_GetVPC :: "IID \<Rightarrow> ('c, VPCInfo) prog"
  vh_DeleteVPC :: "IID \<Rightarrow> 'c deletion"
  vh_AddSubnet :: "IID \<Rightarrow> SubnetInfo \<Rightarrow> ('c, VPCInfo) prog"
  vh_RemoveSubnet :: "IID \<Rightarrow> IID \<Rightarrow> 'c deletion"

record 'c DiskHandler =
  dh_ListIID :: "('c, IID list) prog"
  dh_CreateDisk :: "DiskInfo \<Rightarrow> ('c, DiskInfo) prog"
  dh_ListDisk :: "('c, DiskInfo list) prog"
  dh_GetDisk :: "IID \<Rightarrow> ('c, DiskInfo) prog"
  dh_ChangeDiskSize :: "IID \<Rightarrow> string \<Rightarrow> ('c, bool) prog"
  dh_DeleteDisk :: "IID \<Rightarrow> 'c deletion"
  dh_AttachDisk :: "IID \<Rightarrow> IID \<Rightarrow> ('c, DiskInfo) prog"
  dh_DetachDisk :: "IID \<Rightarrow> IID \<Rightarrow> ('c, bool) prog"

record 'c MyImageHandler =
  mih_SnapshotVM :: "MyImageInfo \<Rightarrow> ('c, MyImageInfo) prog"
  mih_ListIID :: "('c, IID list) prog"
  mih_ListMyImage :: "('c, MyImageInfo list) prog"
  mih_GetMyImage :: "IID \<Rightarrow> ('c, MyImageInfo) prog"
  mih_CheckWindowsImage :: "IID \<Rightarrow> 'c deletion"
  mih_DeleteMyImage :: "IID \<Rightarrow> 'c deletion"

record 'c VMHandler =
  vmh_ListIID :: "('c, IID list) prog"
  vmh_StartVM :: "VMReqInfo \<Rightarrow> ('c, VMInfo) prog"
  vmh_SuspendVM :: "IID \<Rightarrow> ('c, string) prog"
  vmh_ResumeVM :: "IID \<Rightarrow> ('c, string) prog"
  vmh_RebootVM :: "IID \<Rightarrow> ('c, string) prog"
  vmh_TerminateVM :: "IID \<Rightarrow> 'c status_call"
  vmh_ListVMStatus :: "('c, VMStatusInfo list) prog"
  vmh_GetVMStatus :: "IID \<Rightarrow> 'c status_call"
  vmh_ListVM :: "('c, VMInfo list) prog"
  vmh_GetVM :: "IID \<Rightarrow> ('c, VMInfo) prog"

text \<open>Of the handler of public images, the method that the start of a VM asks.\<close>

record 'c ImageHandler =
  imh_CheckWindowsImage :: "IID \<Rightarrow> 'c deletion"

text \<open>
  The info of a network load balancer (NLB) has a pointer to its VMs, \<open>VMs *[]IID\<close>, and the runtime writes through it: into
  a slice that the driver may hold too. So the slices behind such pointers live in a heap of their own; a nil pointer is
  \<open>None\<close>. The pointers in \<open>HealthInfo\<close> are only ever made for the caller, and are lists here.
\<close>

record heap =
  h_next :: nat
  h_iids :: "nat \<Rightarrow> IID list"

definition heap_new :: "IID list \<Rightarrow> heap \<Rightarrow> nat \<times> heap" where
  "heap_new iids h = (h_next h, h\<lparr>h_next := Suc (h_next h), h_iids := (h_iids h)(h_next h := iids)\<rparr>)"

definition heap_set :: "nat \<Rightarrow> IID list \<Rightarrow> heap \<Rightarrow> heap" where
  "heap_set a iids h = h\<lparr>h_iids := (h_iids h)(a := iids)\<rparr>"

record ListenerInfo =
  lis_Protocol :: string
  lis_IP :: string
  lis_Port :: string
  lis_DNSName :: string
  lis_CspID :: string
  lis_KeyValueList :: "KeyValue list"

record VMGroupInfo =
  vmg_Protocol :: string
  vmg_Port :: string
  vmg_VMs :: "nat option"
  vmg_CspID :: string
  vmg_KeyValueList :: "KeyValue list"

record HealthCheckerInfo =
  hc_Protocol :: string
  hc_Port :: string
  hc_Interval :: int
  hc_Timeout :: int
  hc_Threshold :: int
  hc_CspID :: string
  hc_KeyValueList :: "KeyValue list"

record NLBInfo =
  nlb_IId :: IID
  nlb_VpcIID :: IID
  nlb_Type :: string
  nlb_Scope :: string
  nlb_Listener :: ListenerInfo
  nlb_VMGroup :: VMGroupInfo
  nlb_HealthChecker :: HealthCheckerInfo
  nlb_CreatedTime :: go_time
  nlb_TagList :: "KeyValue list"
  nlb_KeyValueList :: "KeyValue list"

record HealthInfo =
  health_AllVMs :: "IID list option"
  health_HealthyVMs :: "IID list option"
  health_UnHealthyVMs :: "IID list option"

text \<open>Of the infos that \<open>ListNLB\<close> gives, the identifiers alone.\<close>

record 'c NLBHandler =
  nlbh_ListIID :: "('c, IID list) prog"
  nlbh_ListNLB :: "('c, IID list) prog"
  nlbh_CreateNLB :: "NLBInfo \<Rightarrow> ('c \<times> heap, NLBInfo) prog"
  nlbh_GetNLB :: "IID \<Rightarrow> ('c \<times> heap, NLBInfo) prog"
  nlbh_DeleteNLB :: "IID \<Rightarrow> 'c deletion"
  nlbh_GetVMGroupHealthInfo :: "IID \<Rightarrow> ('c \<times> heap, HealthInfo) prog"
  nlbh_AddVMs :: "IID \<Rightarrow> IID list \<Rightarrow> ('c \<times> heap, VMGroupInfo) prog"
  nlbh_RemoveVMs :: "IID \<Rightarrow> IID list \<Rightarrow> ('c \<times> heap, bool) prog"
  nlbh_ChangeListener :: "IID \<Rightarrow> ListenerInfo \<Rightarrow> ('c \<times> heap, ListenerInfo) prog"
  nlbh_ChangeVMGroupInfo :: "IID \<Rightarrow> VMGroupInfo \<Rightarrow> ('c \<times> heap, VMGroupInfo) prog"
  nlbh_ChangeHealthCheckerInfo :: "IID \<Rightarrow> HealthCheckerInfo \<Rightarrow> ('c \<times> heap, HealthCheckerInfo) prog"

text \<open>Of the other handlers, the listing of identifiers, and of the listed resources the identifiers alone.\<close>

record 'c ClusterHandler =
  ch_ListIID :: "('c, IID list) prog"
  ch_ListCluster :: "('c, IID list) prog"

record 'c RDBMSHandler =
  rh_ListIID :: "('c, IID list) prog"
  rh_ListRDBMS :: "('c, IID list) prog"

text \<open>The interface \<open>CloudConnection\<close>.\<close>

record 'c CloudConnection =
  CreateImageHandler :: "'c ImageHandler go_result"
  CreateVPCHandler :: "'c VPCHandler go_result"
  CreateSecurityHandler :: "'c SecurityHandler go_result"
  CreateKeyPairHandler :: "'c KeyPairHandler go_result"
  CreateVMHandler :: "'c VMHandler go_result"
  CreateNLBHandler :: "'c NLBHandler go_result"
  CreateDiskHandler :: "'c DiskHandler go_result"
  CreateMyImageHandler :: "'c MyImageHandler go_result"
  CreateClusterHandler :: "'c ClusterHandler go_result"
  CreateRDBMSHandler :: "'c RDBMSHandler go_result"

text \<open>The parts of \<open>DriverCapabilityInfo\<close> the runtime looks at.\<close>

record DriverCapabilityInfo =
  cap_ZoneBasedControl :: bool
  cap_PriceInfoHandler :: bool
  cap_ClusterHandler :: bool
  cap_TagHandler :: bool
  cap_QuotaInfoHandler :: bool
  cap_SINGLE_VPC :: bool

end
