(* ===== verification/Runtime.thy ===== *)
theory Runtime
  imports DriverInterfaces InfoStore IIDManager Validator SPLock
begin

text \<open>
  What every manager of \<open>api-runtime/common-runtime\<close> works with: the environment variables and the packages
  \<open>ccm\<close>, \<open>ccim\<close>, \<open>cim\<close> it calls (record \<open>env\<close>), and the state a request runs in (record \<open>world\<close>): the meta
  database, the clouds behind the drivers, the slices they share with the runtime, the generator of xids, and the resource locks the request holds.
  A request runs to its end before the next one starts; that concurrent requests for one resource behave like
  that is what the lock of theory \<open>SPLock\<close> is for.

  A panic is the error \<open>nil_panic\<close>: like an error it ends the function and runs the deferred unlocks.
\<close>

section \<open>State and environment\<close>

datatype splock_id = vpcSPLock | sgSPLock | keySPLock | vmSPLock | nlbSPLock | diskSPLock | myImageSPLock
  | clusterSPLock | fsSPLock | rdbmsSPLock | publicipSPLock | nicSPLock

type_synonym held_lock = "splock_id \<times> lmode \<times> string \<times> string"

record ('d, 'c) world =
  w_store :: "'d store"
  w_cloud :: 'c
  w_heap :: heap
  w_xids :: nat
  w_locks :: "held_lock list"
  w_windowsImageCache :: "string \<Rightarrow> bool option"

record ('d, 'c) env =
  PERMISSION_BASED_CONTROL_MODE :: string
  ID_TRANSFORM_MODE :: string
  ccm_GetCloudConnection :: "string \<Rightarrow> 'c CloudConnection go_result"
  ccm_GetZoneLevelCloudConnection :: "string \<Rightarrow> string \<Rightarrow> 'c CloudConnection go_result"
  ccm_GetRegionNameByConnectionName :: "string \<Rightarrow> (string \<times> string) go_result"
  ccm_GetProviderNameByConnectionName :: "string \<Rightarrow> string go_result"
  ccm_GetDriverCapability :: "string \<Rightarrow> DriverCapabilityInfo go_result"
  ccim_GetConnectionConfig :: "string \<Rightarrow> string go_result"
  cim_GetCloudOSMetaInfo :: "string \<Rightarrow> string list go_result"
  xid_New :: "nat \<Rightarrow> string"
  env_gorm :: "'d gorm"

definition permission_mode :: "('d, 'c) env \<Rightarrow> bool" where
  "permission_mode env \<longleftrightarrow> PERMISSION_BASED_CONTROL_MODE env \<noteq> []"

section \<open>Calls\<close>

definition onStore :: "('d store, 'a) prog \<Rightarrow> (('d, 'c) world, 'a) prog" where
  "onStore m w = (let (r, st) = m (w_store w) in (r, w\<lparr>w_store := st\<rparr>))"

definition onCloud :: "('c, 'a) prog \<Rightarrow> (('d, 'c) world, 'a) prog" where
  "onCloud m w = (let (r, c) = m (w_cloud w) in (r, w\<lparr>w_cloud := c\<rparr>))"

text \<open>A call of a driver that may share slices with the runtime, and the accesses of the runtime to such a slice.\<close>

definition onShared :: "('c \<times> heap, 'a) prog \<Rightarrow> (('d, 'c) world, 'a) prog" where
  "onShared m w = (let (r, (c, h)) = m (w_cloud w, w_heap w) in (r, w\<lparr>w_cloud := c, w_heap := h\<rparr>))"

definition deref :: "nat option \<Rightarrow> (('d, 'c) world, nat \<times> IID list) prog" where
  "deref p w = (case p of None \<Rightarrow> (Inl nil_panic, w) | Some a \<Rightarrow> (Inr (a, h_iids (w_heap w) a), w))"

definition assign_at :: "nat \<Rightarrow> nat \<Rightarrow> (IID \<Rightarrow> IID) \<Rightarrow> (('d, 'c) world, unit) prog" where
  "assign_at a idx f w = (let xs = h_iids (w_heap w) a in (Inr (), w\<lparr>w_heap := heap_set a (xs[idx := f (xs ! idx)]) (w_heap w)\<rparr>))"

text \<open>A deletion: both results go to the caller.\<close>

definition onCloudDel :: "'c deletion \<Rightarrow> (('d, 'c) world, bool \<times> go_error option) prog" where
  "onCloudDel f w = (let (r, c) = f (w_cloud w) in (Inr r, w\<lparr>w_cloud := c\<rparr>))"

text \<open>\<open>lock.Lock(conn, name)\<close> (or \<open>RLock\<close>) with the deferred unlock.\<close>

definition withLock :: "splock_id \<Rightarrow> lmode \<Rightarrow> string \<Rightarrow> string \<Rightarrow> (('d, 'c) world, 'a) prog \<Rightarrow> (('d, 'c) world, 'a) prog" where
  "withLock l md conn name m w =
     (let (r, w') = m (w\<lparr>w_locks := (l, md, conn, name) # w_locks w\<rparr>)
      in (r, w'\<lparr>w_locks := remove1 (l, md, conn, name) (w_locks w')\<rparr>))"

text \<open>\<open>iidm.New(conn, rsType, uid)\<close>, drawing the next xid.\<close>

definition iidm_New :: "('d, 'c) env \<Rightarrow> string \<Rightarrow> string \<Rightarrow> string \<Rightarrow> (('d, 'c) world, string) prog" where
  "iidm_New env conn rsType uid w =
     (IIDManager.New (ccim_GetConnectionConfig env) (cim_GetCloudOSMetaInfo env) (xid_New env (w_xids w)) conn rsType uid,
      w\<lparr>w_xids := Suc (w_xids w)\<rparr>)"

text \<open>The name the driver is to use: generated when the IID management is on, else the user's.\<close>

definition make_spUUID :: "('d, 'c) env \<Rightarrow> string \<Rightarrow> string \<Rightarrow> string \<Rightarrow> string \<Rightarrow> (('d, 'c) world, string) prog" where
  "make_spUUID env IDTransformMode conn rsType uid =
     (if GetID_MGMT (ID_TRANSFORM_MODE env) IDTransformMode = ''ON'' then iidm_New env conn rsType uid
      else ret uid)"

definition validated :: "go_error option panicking \<Rightarrow> (('d, 'c) world, unit) prog" where
  "validated v = (case v of Panic \<Rightarrow> throw nil_panic | Val (Some e) \<Rightarrow> throw e | Val None \<Rightarrow> ret ())"

section \<open>Rows seen in a world\<close>

definition wrows :: "('d \<Rightarrow> table \<Rightarrow> iid_row set) \<Rightarrow> ('d, 'c) world \<Rightarrow> table \<Rightarrow> iid_row set" where
  "wrows R w = R (st_db (w_store w))"

lemma wrows_simps [simp]:
  "wrows R (w\<lparr>w_cloud := c\<rparr>) = wrows R w" "wrows R (w\<lparr>w_heap := h\<rparr>) = wrows R w" "wrows R (w\<lparr>w_xids := n\<rparr>) = wrows R w"
  "wrows R (w\<lparr>w_locks := ls\<rparr>) = wrows R w" "wrows R (w\<lparr>w_store := st\<rparr>) = R (st_db st)"
  by (simp_all add: wrows_def)

section \<open>Weakest preconditions of the calls\<close>

lemma wp_onStore:
  "wp (onStore m) Q E w = wp m (\<lambda>x st. Q x (w\<lparr>w_store := st\<rparr>)) (\<lambda>e st. E e (w\<lparr>w_store := st\<rparr>)) (w_store w)"
  by (simp add: wp_def onStore_def split: prod.split sum.split)

lemma wp_onCloud [wp_simps]:
  "wp (onCloud m) Q E w = wp m (\<lambda>x c. Q x (w\<lparr>w_cloud := c\<rparr>)) (\<lambda>e c. E e (w\<lparr>w_cloud := c\<rparr>)) (w_cloud w)"
  by (simp add: wp_def onCloud_def split: prod.split sum.split)

lemma wp_onShared [wp_simps]:
  "wp (onShared m) Q E w = wp m (\<lambda>x (c, h). Q x (w\<lparr>w_cloud := c, w_heap := h\<rparr>)) (\<lambda>e (c, h). E e (w\<lparr>w_cloud := c, w_heap := h\<rparr>)) (w_cloud w, w_heap w)"
  by (simp add: wp_def onShared_def split: prod.split sum.split)

lemma wp_deref [wp_simps]:
  "wp (deref p) Q E w = (case p of None \<Rightarrow> E nil_panic w | Some a \<Rightarrow> Q (a, h_iids (w_heap w) a) w)"
  by (simp add: wp_def deref_def split: option.split)

lemma wp_assign_at [wp_simps]:
  "wp (assign_at a idx f) Q E w = Q () (w\<lparr>w_heap := heap_set a ((h_iids (w_heap w) a)[idx := f (h_iids (w_heap w) a ! idx)]) (w_heap w)\<rparr>)"
  by (simp add: wp_def assign_at_def Let_def)

lemma wp_onCloudDel [wp_simps]:
  "wp (onCloudDel f) Q E w = Q (fst (f (w_cloud w))) (w\<lparr>w_cloud := snd (f (w_cloud w))\<rparr>)"
  by (simp add: wp_def onCloudDel_def split: prod.split)

lemma wp_withLock [wp_simps]:
  "wp (withLock l md conn name m) Q E w =
     wp m (\<lambda>x w'. Q x (w'\<lparr>w_locks := remove1 (l, md, conn, name) (w_locks w')\<rparr>))
       (\<lambda>e w'. E e (w'\<lparr>w_locks := remove1 (l, md, conn, name) (w_locks w')\<rparr>))
       (w\<lparr>w_locks := (l, md, conn, name) # w_locks w\<rparr>)"
  by (simp add: wp_def withLock_def split: prod.split sum.split)

lemma wp_iidm_New [wp_simps]:
  "wp (iidm_New env conn rs uid) Q E w =
     (case IIDManager.New (ccim_GetConnectionConfig env) (cim_GetCloudOSMetaInfo env) (xid_New env (w_xids w)) conn rs uid of
        Inr x \<Rightarrow> Q x (w\<lparr>w_xids := Suc (w_xids w)\<rparr>) | Inl e \<Rightarrow> E e (w\<lparr>w_xids := Suc (w_xids w)\<rparr>))"
  by (simp add: wp_def iidm_New_def)

lemma wp_validated [wp_simps]:
  "wp (validated v) Q E w = (case v of Panic \<Rightarrow> E nil_panic w | Val (Some e) \<Rightarrow> E e w | Val None \<Rightarrow> Q () w)"
  by (simp add: validated_def wp_simps split: panicking.split option.split)

text \<open>The same as introduction rules.\<close>

lemma wp_withLockI [wp_rules]:
  "wp m (\<lambda>x w'. Q x (w'\<lparr>w_locks := remove1 (l, md, conn, name) (w_locks w')\<rparr>))
     (\<lambda>e w'. E e (w'\<lparr>w_locks := remove1 (l, md, conn, name) (w_locks w')\<rparr>))
     (w\<lparr>w_locks := (l, md, conn, name) # w_locks w\<rparr>) \<Longrightarrow>
   wp (withLock l md conn name m) Q E w"
  by (simp add: wp_withLock)

lemma wp_onCloudDelI [wp_rules]:
  "(\<And>r c. f (w_cloud w) = (r, c) \<Longrightarrow> Q r (w\<lparr>w_cloud := c\<rparr>)) \<Longrightarrow> wp (onCloudDel f) Q E w"
  by (simp add: wp_onCloudDel)

lemma wp_onCloudI:
  assumes "\<And>x c. m (w_cloud w) = (Inr x, c) \<Longrightarrow> Q x (w\<lparr>w_cloud := c\<rparr>)" and "\<And>e c. m (w_cloud w) = (Inl e, c) \<Longrightarrow> E e (w\<lparr>w_cloud := c\<rparr>)"
  shows "wp (onCloud m) Q E w"
  unfolding wp_onCloud by (rule wpI) (rule assms, assumption)+

lemma wp_onSharedI:
  "(\<And>x c h. m (w_cloud w, w_heap w) = (Inr x, c, h) \<Longrightarrow> Q x (w\<lparr>w_cloud := c, w_heap := h\<rparr>)) \<Longrightarrow>
   (\<And>e c h. E e (w\<lparr>w_cloud := c, w_heap := h\<rparr>)) \<Longrightarrow> wp (onShared m) Q E w"
  by (auto simp: wp_onShared intro!: wpI)

lemma wp_validatedI [wp_rules]:
  "(v = Val None \<Longrightarrow> Q () w) \<Longrightarrow> (\<And>e. E e w) \<Longrightarrow> wp (validated v) Q E w"
  by (simp add: wp_validated split: panicking.split option.split)

lemmas wp_walk = wp_retI wp_throwI wp_lift_resultI wp_bindPI wp_catchPI wp_ifI wp_case_prodI wp_case_optionI
  wp_case_sumI wp_withLockI wp_validatedI

end
