(* ===== verification/CommonManager.thy ===== *)
theory CommonManager
  imports Runtime
begin

text \<open>
  The parts of \<open>common-runtime/CommonManager.go\<close> that every resource manager shares: which IIDs a connection may
  use in the permission-based mode, and how a name is looked up in either mode.
\<close>

section \<open>Authorized IIDs\<close>

text \<open>The identifiers of a row, \<open>cres.IID{NameId: row.NameId, SystemId: row.SystemId}\<close>.\<close>

definition row_IID :: "iid_row \<Rightarrow> IID" where
  "row_IID r = \<lparr>NameId = row_NameId r, SystemId = row_SystemId r\<rparr>"

text \<open>The short CSP id of a row, \<open>getMSShortID(getDriverSystemId(cres.IID{..}))\<close>.\<close>

definition short_id :: "iid_row \<Rightarrow> string" where
  "short_id r = getMSShortID (getDriverSystemId (row_IID r))"

text \<open>
  The cases of the type switch: the listing method of the handler for the table; \<open>None\<close> is the default case. The
  error of creating the handler is overwritten by the call that follows, on a nil handler.
\<close>

fun handler_ListIID :: "'c CloudConnection \<Rightarrow> table \<Rightarrow> ('c, IID list) prog go_result option" where
  "handler_ListIID cld VPCIIDInfo = Some (map_sum id vh_ListIID (CreateVPCHandler cld))"
| "handler_ListIID cld SGIIDInfo = Some (map_sum id sh_ListIID (CreateSecurityHandler cld))"
| "handler_ListIID cld KeyIIDInfo = Some (map_sum id kh_ListIID (CreateKeyPairHandler cld))"
| "handler_ListIID cld VMIIDInfo = Some (map_sum id vmh_ListIID (CreateVMHandler cld))"
| "handler_ListIID cld NLBIIDInfo = Some (map_sum id nlbh_ListIID (CreateNLBHandler cld))"
| "handler_ListIID cld DiskIIDInfo = Some (map_sum id dh_ListIID (CreateDiskHandler cld))"
| "handler_ListIID cld MyImageIIDInfo = Some (map_sum id mih_ListIID (CreateMyImageHandler cld))"
| "handler_ListIID cld ClusterIIDInfo = Some (map_sum id ch_ListIID (CreateClusterHandler cld))"
| "handler_ListIID cld RDBMSIIDInfo = Some (map_sum id rh_ListIID (CreateRDBMSHandler cld))"
| "handler_ListIID cld _ = None"

text \<open>A row once for every identifier of the CSP's list that is its CSP id.\<close>

definition granted :: "iid_row list \<Rightarrow> IID list \<Rightarrow> iid_row list" where
  "granted tmpIIDInfoList iidList =
     concat (map (\<lambda>tmp. map (\<lambda>_. tmp) (filter (\<lambda>iid. SystemId iid = getDriverSystemId (row_IID tmp)) iidList)) tmpIIDInfoList)"

definition getAuthIIDInfoList :: "('d, 'c) env \<Rightarrow> string \<Rightarrow> table \<Rightarrow> (('d, 'c) world, iid_row list) prog" where
  "getAuthIIDInfoList env connectionName t =
     (case ccm_GetCloudConnection env connectionName of
        Inl err \<Rightarrow> throw (''failed to get cloud connection: '' @ err)
      | Inr cldConn \<Rightarrow>
          (case handler_ListIID cldConn t of
             None \<Rightarrow> throw ''unsupported type for iidInfoList''
           | Some (Inl _) \<Rightarrow> throw nil_panic
           | Some (Inr listIID) \<Rightarrow>
               catchP (onCloud listIID)
                 (\<lambda>err. throw (''failed to list IIDs from CSP: '' @ err))
                 (\<lambda>iidList.
               catchP (onStore (List (env_gorm env) t))
                 (\<lambda>err. throw (''failed to list from MetaDB: '' @ err))
                 (\<lambda>tmpIIDInfoList.
               ret (granted tmpIIDInfoList iidList)))))"

text \<open>The name of the resource in the messages of the following two, \<open>None\<close> for the default case.\<close>

fun auth_type :: "table \<Rightarrow> string option" where
  "auth_type VPCIIDInfo = Some ''VPC''"
| "auth_type SGIIDInfo = Some ''SecurityGroup''"
| "auth_type KeyIIDInfo = Some ''KeyPair''"
| "auth_type VMIIDInfo = Some ''VM''"
| "auth_type NLBIIDInfo = Some ''NLB''"
| "auth_type DiskIIDInfo = Some ''Disk''"
| "auth_type MyImageIIDInfo = Some ''MyImage''"
| "auth_type ClusterIIDInfo = Some ''Cluster''"
| "auth_type RDBMSIIDInfo = Some ''RDBMS''"
| "auth_type _ = None"

definition isNameIdExists :: "table \<Rightarrow> iid_row list \<Rightarrow> string \<Rightarrow> bool go_result" where
  "isNameIdExists t iidInfoList nameId =
     (case auth_type t of
        None \<Rightarrow> Inl ''unsupported type for iidInfoList''
      | Some _ \<Rightarrow> Inr (list_ex (\<lambda>iidInfo. row_NameId iidInfo = nameId) iidInfoList))"

definition getAuthIIDInfo :: "table \<Rightarrow> iid_row list \<Rightarrow> string \<Rightarrow> iid_row go_result" where
  "getAuthIIDInfo t iidInfoList nameId =
     (case auth_type t of
        None \<Rightarrow> Inl ''unsupported type for iidInfoList''
      | Some ty \<Rightarrow>
          (case List.find (\<lambda>iidInfo. row_NameId iidInfo = nameId) iidInfoList of
             Some iidInfo \<Rightarrow> Inr iidInfo
           | None \<Rightarrow> Inl (ty @ '' '' @ quoted nameId @ '' does not exist'')))"

definition getAuthIIDInfoBySystemIdContain :: "table \<Rightarrow> iid_row list \<Rightarrow> string \<Rightarrow> iid_row go_result" where
  "getAuthIIDInfoBySystemIdContain t iidInfoList systemId =
     (case auth_type t of
        None \<Rightarrow> Inl ''unsupported type for iidInfoList''
      | Some ty \<Rightarrow>
          (case List.find (\<lambda>iidInfo. Contains (row_SystemId iidInfo) systemId) iidInfoList of
             Some iidInfo \<Rightarrow> Inr iidInfo
           | None \<Rightarrow> Inl (ty @ '' with SystemId containing '' @ quoted systemId @ '' not found'')))"

section \<open>Looking names up\<close>

text \<open>"Get IID(NameId)" of the managers: among the authorized IIDs, or by connection and name.\<close>

definition get_iid_info :: "('d, 'c) env \<Rightarrow> table \<Rightarrow> string \<Rightarrow> string \<Rightarrow> (('d, 'c) world, iid_row) prog" where
  "get_iid_info env t connectionName nameId =
     (if permission_mode env then
        bindP (getAuthIIDInfoList env connectionName t) (\<lambda>iidInfoList.
        lift_result (getAuthIIDInfo t iidInfoList nameId))
      else onStore (GetByConditions (env_gorm env) t CONNECTION_NAME_COLUMN connectionName NAME_ID_COLUMN nameId))"

text \<open>"Check existence(UserID)" before a registration or creation: by name alone, or by connection and name.\<close>

definition has_name :: "('d, 'c) env \<Rightarrow> table \<Rightarrow> string \<Rightarrow> string \<Rightarrow> (('d, 'c) world, bool) prog" where
  "has_name env t connectionName nameId =
     (if permission_mode env then onStore (HasByCondition (env_gorm env) t NAME_ID_COLUMN nameId)
      else onStore (HasByConditions (env_gorm env) t CONNECTION_NAME_COLUMN connectionName NAME_ID_COLUMN nameId))"

text \<open>"Check exist(NameID)" of a resource that is to be used: authorized, or present.\<close>

definition has_authorized_name :: "('d, 'c) env \<Rightarrow> table \<Rightarrow> string \<Rightarrow> string \<Rightarrow> (('d, 'c) world, bool) prog" where
  "has_authorized_name env t connectionName nameId =
     (if permission_mode env then
        bindP (getAuthIIDInfoList env connectionName t) (\<lambda>iidInfoList.
        lift_result (isNameIdExists t iidInfoList nameId))
      else onStore (HasByConditions (env_gorm env) t CONNECTION_NAME_COLUMN connectionName NAME_ID_COLUMN nameId))"

text \<open>"Get IID:list": the authorized IIDs, or those of the connection.\<close>

definition list_iid_infos :: "('d, 'c) env \<Rightarrow> table \<Rightarrow> string \<Rightarrow> (('d, 'c) world, iid_row list) prog" where
  "list_iid_infos env t connectionName =
     (if permission_mode env then getAuthIIDInfoList env connectionName t
      else onStore (ListByCondition (env_gorm env) t CONNECTION_NAME_COLUMN connectionName))"

text \<open>"<Type> '<name>' already exists in connection '<connection>'"\<close>

definition already_exists :: "string \<Rightarrow> string \<Rightarrow> string \<Rightarrow> go_error" where
  "already_exists rsType nameId connectionName =
     RSTypeString rsType @ '' '' @ quoted nameId @ '' already exists in connection '' @ quoted connectionName"

text \<open>"The <Type> '<name>' does not exist!"\<close>

definition does_not_exist :: "string \<Rightarrow> string \<Rightarrow> go_error" where
  "does_not_exist rsType nameId = ''The '' @ RSTypeString rsType @ '' '' @ quoted nameId @ '' does not exist!''"

definition GetDriverCapabilityInfo :: "('d, 'c) env \<Rightarrow> string \<Rightarrow> DriverCapabilityInfo go_result" where
  "GetDriverCapabilityInfo env connectionName =
     (case EmptyCheckAndTrim ''connectionName'' connectionName of
        Inl err \<Rightarrow> Inl err
      | Inr connectionName \<Rightarrow> ccm_GetDriverCapability env connectionName)"

datatype CapabilityType = PRICE_INFO | CLUSTER_HANDLER | TAG_HANDLER | QUOTA_INFO_HANDLER | ZONE_BASED_CONTROL

fun capability_name :: "CapabilityType \<Rightarrow> string" where
  "capability_name PRICE_INFO = ''PriceInfo''"
| "capability_name CLUSTER_HANDLER = ''ClusterHandler''"
| "capability_name TAG_HANDLER = ''TagHandler''"
| "capability_name QUOTA_INFO_HANDLER = ''QuotaInfoHandler''"
| "capability_name ZONE_BASED_CONTROL = ''Zone-based Control''"

definition checkCapability :: "('d, 'c) env \<Rightarrow> string \<Rightarrow> CapabilityType \<Rightarrow> unit go_result" where
  "checkCapability env connectionName capability =
     (case GetDriverCapabilityInfo env connectionName of
        Inl err \<Rightarrow> Inl err
      | Inr info \<Rightarrow>
          (let supported = (case capability of
                 PRICE_INFO \<Rightarrow> cap_PriceInfoHandler info
               | CLUSTER_HANDLER \<Rightarrow> cap_ClusterHandler info
               | TAG_HANDLER \<Rightarrow> cap_TagHandler info
               | QUOTA_INFO_HANDLER \<Rightarrow> cap_QuotaInfoHandler info
               | ZONE_BASED_CONTROL \<Rightarrow> cap_ZoneBasedControl info)
           in if supported then Inr ()
              else Inl (connectionName @ '' does not support '' @ capability_name capability)))"

text \<open>
  The end of every deletion, after the driver's answer \<open>(result, err)\<close>: an error that says "not found" or the
  request's \<open>force\<close> lets it go on to the row, any other error ends it, and so does a false result.
\<close>

definition delete_tail :: "string \<Rightarrow> bool \<Rightarrow> go_error option \<Rightarrow> (('d, 'c) world, bool) prog \<Rightarrow> (('d, 'c) world, bool) prog" where
  "delete_tail force result err deleteIID =
     (let force' = (case err of Some e \<Rightarrow> if checkNotFoundError e then ''true'' else force | None \<Rightarrow> force)
      in if err \<noteq> None \<and> force' \<noteq> ''true'' then throw (the err)
         else if force' \<noteq> ''true'' \<and> \<not> result then ret result
         else catchP deleteIID
                (\<lambda>e. if force' \<noteq> ''true'' then throw e else ret result)
                (\<lambda>_. ret result))"

section \<open>Requests as reflection shows them\<close>

definition reflect_IID :: "IID \<Rightarrow> rval" where
  "reflect_IID i = RStruct ''resources.IID'' [(''NameId'', RString (NameId i)), (''SystemId'', RString (SystemId i))]"

definition reflect_KeyValue :: "KeyValue \<Rightarrow> rval" where
  "reflect_KeyValue kv = RStruct ''resources.KeyValue'' [(''Key'', RString (kv_Key kv)), (''Value'', RString (kv_Value kv))]"

definition reflect_KeyPairReqInfo :: "KeyPairReqInfo \<Rightarrow> rval" where
  "reflect_KeyPairReqInfo req =
     RStruct ''resources.KeyPairReqInfo''
       [(''IId'', reflect_IID (keyReq_IId req)), (''TagList'', RSlice (map reflect_KeyValue (keyReq_TagList req)))]"

definition reflect_SubnetInfo :: "SubnetInfo \<Rightarrow> rval" where
  "reflect_SubnetInfo s =
     RStruct ''resources.SubnetInfo''
       [(''IId'', reflect_IID (subnet_IId s)), (''Zone'', RString (subnet_Zone s)),
        (''IPv4_CIDR'', RString (subnet_IPv4_CIDR s)),
        (''TagList'', RSlice (map reflect_KeyValue (subnet_TagList s))),
        (''KeyValueList'', RSlice (map reflect_KeyValue (subnet_KeyValueList s)))]"

definition reflect_VPCReqInfo :: "VPCReqInfo \<Rightarrow> rval" where
  "reflect_VPCReqInfo req =
     RStruct ''resources.VPCReqInfo''
       [(''IId'', reflect_IID (vpcReq_IId req)), (''IPv4_CIDR'', RString (vpcReq_IPv4_CIDR req)),
        (''SubnetInfoList'', RSlice (map reflect_SubnetInfo (vpcReq_SubnetInfoList req))),
        (''TagList'', RSlice (map reflect_KeyValue (vpcReq_TagList req)))]"

lemma ValidateStruct_IID:
  "ValidateStruct (reflect_IID i) [] = Val None \<longleftrightarrow> NameId i \<noteq> [] \<and> SystemId i \<noteq> []"
  by (simp add: ValidateStruct_def reflect_IID_def checkNilPermission_def)

section \<open>What the look-ups do\<close>

text \<open>
  \<open>reads R env w w'\<close>: between \<open>w\<close> and \<open>w'\<close> the rows, the held locks and the shared slices stayed, and the cloud too unless the
  permission-based mode asked it for its identifiers.
\<close>

definition reads :: "('d \<Rightarrow> table \<Rightarrow> iid_row set) \<Rightarrow> ('d, 'c) env \<Rightarrow> ('d, 'c) world \<Rightarrow> ('d, 'c) world \<Rightarrow> bool" where
  "reads R env w w' \<longleftrightarrow>
     wrows R w' = wrows R w \<and> w_locks w' = w_locks w \<and> w_xids w' = w_xids w \<and> w_heap w' = w_heap w \<and>
     (\<not> permission_mode env \<longrightarrow> w_cloud w' = w_cloud w)"

lemma readsD:
  assumes "reads R env w w'"
  shows "wrows R w' = wrows R w" and "w_locks w' = w_locks w" and "w_xids w' = w_xids w"
    and "w_heap w' = w_heap w" and "\<not> permission_mode env \<Longrightarrow> w_cloud w' = w_cloud w"
  using assms by (auto simp: reads_def)

lemma reads_refl [simp]: "reads R env w w"
  by (simp add: reads_def)

lemma reads_trans: "reads R env w w' \<Longrightarrow> reads R env w' w'' \<Longrightarrow> reads R env w w''"
  by (auto simp: reads_def)

lemma reads_store [simp]: "reads R env w (w\<lparr>w_store := st\<rparr>) \<longleftrightarrow> R (st_db st) = wrows R w"
  by (auto simp: reads_def)

lemma reads_cloud [simp]: "permission_mode env \<Longrightarrow> reads R env w (w\<lparr>w_cloud := c\<rparr>)"
  by (simp add: reads_def)

text \<open>\<open>kept\<close>: rows and held locks stayed, whatever became of the rest.\<close>

definition kept :: "('d \<Rightarrow> table \<Rightarrow> iid_row set) \<Rightarrow> ('d, 'c) world \<Rightarrow> ('d, 'c) world \<Rightarrow> bool" where
  "kept R w w' \<longleftrightarrow> wrows R w' = wrows R w \<and> w_locks w' = w_locks w"

lemma kept_refl [simp]: "kept R w w"
  by (simp add: kept_def)

lemma kept_trans: "kept R w w' \<Longrightarrow> kept R w' w'' \<Longrightarrow> kept R w w''"
  by (simp add: kept_def)

lemma kept_reads: "reads R env w w' \<Longrightarrow> kept R w w'"
  by (simp add: kept_def reads_def)

lemma kept_cloud [simp]: "kept R w (w'\<lparr>w_cloud := c\<rparr>) \<longleftrightarrow> kept R w w'"
  by (simp add: kept_def)

lemma granted_subset: "set (granted rs is) \<subseteq> set rs"
  by (auto simp: granted_def)

lemma granted_CSP_id: "r \<in> set (granted rs is) \<Longrightarrow> getDriverSystemId (row_IID r) \<in> SystemId ` set is"
  by (auto simp: granted_def) (metis imageI)

lemma getAuthIIDInfo_Inr: "getAuthIIDInfo t rs n = Inr r \<Longrightarrow> r \<in> set rs \<and> row_NameId r = n"
  by (auto simp: getAuthIIDInfo_def split: option.splits dest: find_SomeD)

lemma isNameIdExists_Inr: "isNameIdExists t rs n = Inr b \<Longrightarrow> b \<longleftrightarrow> (\<exists>r \<in> set rs. row_NameId r = n)"
  by (auto simp: isNameIdExists_def list_ex_iff split: option.splits)

lemma getAuthIIDInfoList_wp:
  fixes env :: "('d, 'c) env" and w :: "('d, 'c) world"
  assumes ok: "gorm_ok (env_gorm env) R" and pm: "permission_mode env"
    and Q: "\<And>rs w'. reads R env w w' \<Longrightarrow> set rs \<subseteq> wrows R w t \<Longrightarrow> Q rs w'"
    and E: "\<And>e w'. reads R env w w' \<Longrightarrow> E e w'"
  shows "wp (getAuthIIDInfoList env conn t) Q E w"
proof (cases "ccm_GetCloudConnection env conn")
  case (Inl err)
  then show ?thesis by (simp add: getAuthIIDInfoList_def wp_simps E)
next
  case (Inr cld)
  consider "handler_ListIID cld t = None" | e where "handler_ListIID cld t = Some (Inl e)"
    | l where "handler_ListIID cld t = Some (Inr l)"
    by (metis option.exhaust sum.exhaust)
  then show ?thesis
  proof cases
    case 3
    have "wp (catchP (onStore (List (env_gorm env) t)) (\<lambda>err. throw (''failed to list from MetaDB: '' @ err))
        (\<lambda>tmp. ret (granted tmp iids))) Q E (w\<lparr>w_cloud := c\<rparr>)" for iids c
      unfolding wp_catchP wp_onStore wp_ret wp_throw
    proof (rule infostore.list_all_wp[OF ok])
      fix rs and st :: "'d store"
      assume "R (st_db st) = R (st_db (w_store (w\<lparr>w_cloud := c\<rparr>)))"
        and "set rs = R (st_db (w_store (w\<lparr>w_cloud := c\<rparr>))) t"
      then have "reads R env w (w\<lparr>w_cloud := c, w_store := st\<rparr>)" and "set (granted rs iids) \<subseteq> wrows R w t"
        using granted_subset[of rs iids] by (simp_all add: reads_def wrows_def pm)
      then show "Q (granted rs iids) (w\<lparr>w_cloud := c, w_store := st\<rparr>)" by (rule Q)
    next
      fix e and st :: "'d store"
      assume "R (st_db st) = R (st_db (w_store (w\<lparr>w_cloud := c\<rparr>)))"
      then show "E (''failed to list from MetaDB: '' @ e) (w\<lparr>w_cloud := c, w_store := st\<rparr>)"
        by (intro E) (simp add: reads_def wrows_def pm)
    qed
    then have "wp l (\<lambda>iids c. wp (catchP (onStore (List (env_gorm env) t))
          (\<lambda>err. throw (''failed to list from MetaDB: '' @ err)) (\<lambda>tmp. ret (granted tmp iids))) Q E (w\<lparr>w_cloud := c\<rparr>))
        (\<lambda>e c. E (''failed to list IIDs from CSP: '' @ e) (w\<lparr>w_cloud := c\<rparr>)) (w_cloud w)"
    proof (rule wpI)
      fix e c
      show "E (''failed to list IIDs from CSP: '' @ e) (w\<lparr>w_cloud := c\<rparr>)" by (rule E) (simp add: pm)
    qed
    with Inr 3 show ?thesis by (simp add: getAuthIIDInfoList_def wp_catchP[of "onCloud l"] wp_onCloud wp_throw)
  qed (use Inr in \<open>simp_all add: getAuthIIDInfoList_def wp_simps E\<close>)
qed

lemma get_iid_info_wp:
  fixes env :: "('d, 'c) env" and w :: "('d, 'c) world"
  assumes ok: "gorm_ok (env_gorm env) R"
    and Q: "\<And>r w'. reads R env w w' \<Longrightarrow> r \<in> wrows R w t \<Longrightarrow> row_NameId r = n \<Longrightarrow>
      permission_mode env \<or> row_ConnectionName r = conn \<Longrightarrow> Q r w'"
    and E: "\<And>e w'. reads R env w w' \<Longrightarrow> E e w'"
  shows "wp (get_iid_info env t conn n) Q E w"
proof (cases "permission_mode env")
  case True
  have "wp (getAuthIIDInfoList env conn t) (\<lambda>rs. wp (lift_result (getAuthIIDInfo t rs n)) Q E) E w"
    by (rule getAuthIIDInfoList_wp[OF ok True])
      (auto simp: wp_simps True split: sum.split dest!: getAuthIIDInfo_Inr intro!: Q E)
  with True show ?thesis by (simp add: get_iid_info_def wp_bindP)
next
  case False
  then show ?thesis
    unfolding get_iid_info_def by (simp add: wp_onStore) (rule infostore.get_by_wp[OF ok], auto simp: wrows_def intro!: Q E)
qed

lemma has_name_wp:
  fixes env :: "('d, 'c) env" and w :: "('d, 'c) world"
  assumes ok: "gorm_ok (env_gorm env) R"
    and Q: "\<And>b w'. reads R env w w' \<Longrightarrow>
      b \<longleftrightarrow> (\<exists>r \<in> wrows R w t. row_NameId r = n \<and> (permission_mode env \<or> row_ConnectionName r = conn)) \<Longrightarrow> Q b w'"
    and E: "\<And>e w'. reads R env w w' \<Longrightarrow> E e w'"
  shows "wp (has_name env t conn n) Q E w"
proof (cases "permission_mode env")
  case True
  then show ?thesis
    unfolding has_name_def by (simp add: wp_onStore) (rule infostore.has_one_wp[OF ok], auto simp: wrows_def intro!: Q E)
next
  case False
  then show ?thesis
    unfolding has_name_def by (simp add: wp_onStore) (rule infostore.has_by_wp[OF ok], auto simp: wrows_def intro!: Q E)
qed

lemma has_authorized_name_wp:
  fixes env :: "('d, 'c) env" and w :: "('d, 'c) world"
  assumes ok: "gorm_ok (env_gorm env) R"
    and Q: "\<And>b w'. reads R env w w' \<Longrightarrow>
      (b \<Longrightarrow> \<exists>r \<in> wrows R w t. row_NameId r = n \<and> (permission_mode env \<or> row_ConnectionName r = conn)) \<Longrightarrow>
      (\<not> permission_mode env \<Longrightarrow> \<not> b \<Longrightarrow> \<not> (\<exists>r \<in> wrows R w t. row_NameId r = n \<and> row_ConnectionName r = conn)) \<Longrightarrow> Q b w'"
    and E: "\<And>e w'. reads R env w w' \<Longrightarrow> E e w'"
  shows "wp (has_authorized_name env t conn n) Q E w"
proof (cases "permission_mode env")
  case True
  have "wp (getAuthIIDInfoList env conn t) (\<lambda>rs. wp (lift_result (isNameIdExists t rs n)) Q E) E w"
    by (rule getAuthIIDInfoList_wp[OF ok True])
      (auto simp: wp_simps True split: sum.split dest!: isNameIdExists_Inr intro!: Q E)
  with True show ?thesis by (simp add: has_authorized_name_def wp_bindP)
next
  case False
  have "wp (HasByConditions (env_gorm env) t CONNECTION_NAME_COLUMN conn NAME_ID_COLUMN n)
      (\<lambda>b st. Q b (w\<lparr>w_store := st\<rparr>)) (\<lambda>e st. E e (w\<lparr>w_store := st\<rparr>)) (w_store w)"
  proof (rule infostore.has_by_wp[OF ok])
    fix b and st :: "'d store"
    assume "R (st_db st) = R (st_db (w_store w))"
      and b: "b = (\<exists>r\<in>R (st_db (w_store w)) t. col CONNECTION_NAME_COLUMN r = conn \<and> col NAME_ID_COLUMN r = n)"
    then have "reads R env w (w\<lparr>w_store := st\<rparr>)" by (simp add: wrows_def)
    then show "Q b (w\<lparr>w_store := st\<rparr>)" by (rule Q) (use b False in \<open>auto simp: wrows_def\<close>)
  next
    fix e and st :: "'d store"
    assume "R (st_db st) = R (st_db (w_store w))"
    then show "E e (w\<lparr>w_store := st\<rparr>)" by (intro E) (simp add: wrows_def)
  qed
  with False show ?thesis by (simp add: has_authorized_name_def wp_onStore)
qed

lemma list_iid_infos_wp:
  fixes env :: "('d, 'c) env" and w :: "('d, 'c) world"
  assumes ok: "gorm_ok (env_gorm env) R"
    and Q: "\<And>rs w'. reads R env w w' \<Longrightarrow> set rs \<subseteq> wrows R w t \<Longrightarrow>
      (\<not> permission_mode env \<Longrightarrow> set rs = {r \<in> wrows R w t. row_ConnectionName r = conn} \<and> distinct rs) \<Longrightarrow> Q rs w'"
    and E: "\<And>e w'. reads R env w w' \<Longrightarrow> E e w'"
  shows "wp (list_iid_infos env t conn) Q E w"
proof (cases "permission_mode env")
  case True
  then show ?thesis
    unfolding list_iid_infos_def by simp (rule getAuthIIDInfoList_wp[OF ok True], auto intro!: Q E)
next
  case False
  have "wp (ListByCondition (env_gorm env) t CONNECTION_NAME_COLUMN conn)
      (\<lambda>rs st. Q rs (w\<lparr>w_store := st\<rparr>)) (\<lambda>e st. E e (w\<lparr>w_store := st\<rparr>)) (w_store w)"
  proof (rule infostore.list_by_wp[OF ok])
    fix rs and st :: "'d store"
    assume "R (st_db st) = R (st_db (w_store w))" and d: "distinct rs"
      and rs: "set rs = {r \<in> R (st_db (w_store w)) t. col CONNECTION_NAME_COLUMN r = conn}"
    then have "reads R env w (w\<lparr>w_store := st\<rparr>)" by (simp add: wrows_def)
    then show "Q rs (w\<lparr>w_store := st\<rparr>)" by (rule Q) (use rs d in \<open>simp_all add: wrows_def\<close>)
  next
    fix e and st :: "'d store"
    assume "R (st_db st) = R (st_db (w_store w))"
    then show "E e (w\<lparr>w_store := st\<rparr>)" by (intro E) (simp add: wrows_def)
  qed
  with False show ?thesis by (simp add: list_iid_infos_def wp_onStore)
qed

text \<open>When the end of a deletion goes on to the row, and when it then ignores a failure of the meta database.\<close>

definition forced :: "string \<Rightarrow> go_error option \<Rightarrow> bool" where
  "forced force err \<longleftrightarrow> force = ''true'' \<or> (\<exists>e. err = Some e \<and> checkNotFoundError e)"

definition deletes :: "string \<Rightarrow> bool \<Rightarrow> go_error option \<Rightarrow> bool" where
  "deletes force result err \<longleftrightarrow> forced force err \<or> (err = None \<and> result)"

lemma delete_tail_wp:
  assumes "deletes force result err \<Longrightarrow>
      wp m (\<lambda>_. Q result) (\<lambda>e w'. if forced force err then Q result w' else E e w') w"
    and "\<not> deletes force result err \<Longrightarrow> err = None \<Longrightarrow> \<not> result \<Longrightarrow> Q False w"
    and "\<And>e. \<not> deletes force result err \<Longrightarrow> err = Some e \<Longrightarrow> E e w"
  shows "wp (delete_tail force result err m) Q E w"
proof (cases err)
  case None
  show ?thesis
  proof (cases "force = ''true'' \<or> result")
    case True
    with None assms(1) show ?thesis
      by (auto simp: delete_tail_def Let_def wp_simps deletes_def forced_def elim!: wp_mono)
  next
    case False
    with None assms(2) show ?thesis by (simp add: delete_tail_def wp_simps deletes_def forced_def)
  qed
next
  case (Some e)
  show ?thesis
  proof (cases "checkNotFoundError e \<or> force = ''true''")
    case True
    with Some assms(1) show ?thesis
      by (auto simp: delete_tail_def Let_def wp_simps deletes_def forced_def elim!: wp_mono)
  next
    case False
    with Some assms(3) show ?thesis by (auto simp: delete_tail_def wp_simps deletes_def forced_def)
  qed
qed

text \<open>Inserting and deleting a row, seen from the world.\<close>

lemma row_insert_wp:
  fixes env :: "('d, 'c) env" and w :: "('d, 'c) world"
  assumes ok: "gorm_ok (env_gorm env) R"
    and Q: "\<And>w'. wrows R w' = (wrows R w)(t := upsert r (wrows R w t)) \<Longrightarrow> w_cloud w' = w_cloud w \<Longrightarrow>
      w_locks w' = w_locks w \<Longrightarrow> w_xids w' = w_xids w \<Longrightarrow> Q () w'"
    and E: "\<And>e w'. wrows R w' = wrows R w \<Longrightarrow> w_cloud w' = w_cloud w \<Longrightarrow> w_locks w' = w_locks w \<Longrightarrow>
      w_xids w' = w_xids w \<Longrightarrow> E e w'"
  shows "wp (onStore (Insert (env_gorm env) t r)) Q E w"
  unfolding wp_onStore
  by (rule infostore.insert_wp[OF ok]) (auto simp: wrows_def fun_upd_def intro!: Q E)

lemma delete_by_wp:
  fixes env :: "('d, 'c) env" and w :: "('d, 'c) world"
  assumes ok: "gorm_ok (env_gorm env) R"
    and Q: "\<And>w'. wrows R w' = (wrows R w)(t := {r \<in> wrows R w t. \<not> (col c1 r = v1 \<and> col c2 r = v2)}) \<Longrightarrow>
      w_cloud w' = w_cloud w \<Longrightarrow> w_locks w' = w_locks w \<Longrightarrow> w_xids w' = w_xids w \<Longrightarrow> Q True w'"
    and E: "\<And>e w'. wrows R w' = wrows R w \<Longrightarrow> w_cloud w' = w_cloud w \<Longrightarrow> w_locks w' = w_locks w \<Longrightarrow>
      w_xids w' = w_xids w \<Longrightarrow> E e w'"
  shows "wp (onStore (DeleteByConditions (env_gorm env) t c1 v1 c2 v2)) Q E w"
  unfolding wp_onStore
  by (rule infostore.del_by_wp[OF ok]) (auto simp: wrows_def fun_upd_def intro!: Q E)

lemma delete_by3_wp:
  fixes env :: "('d, 'c) env" and w :: "('d, 'c) world"
  assumes ok: "gorm_ok (env_gorm env) R"
    and Q: "\<And>w'. wrows R w' = (wrows R w)(t := {r \<in> wrows R w t. \<not> (col c1 r = v1 \<and> col c2 r = v2 \<and> col c3 r = v3)}) \<Longrightarrow>
      w_cloud w' = w_cloud w \<Longrightarrow> w_locks w' = w_locks w \<Longrightarrow> w_xids w' = w_xids w \<Longrightarrow> Q True w'"
    and E: "\<And>e w'. wrows R w' = wrows R w \<Longrightarrow> w_cloud w' = w_cloud w \<Longrightarrow> w_locks w' = w_locks w \<Longrightarrow>
      w_xids w' = w_xids w \<Longrightarrow> E e w'"
  shows "wp (onStore (DeleteBy3Conditions (env_gorm env) t c1 v1 c2 v2 c3 v3)) Q E w"
  unfolding wp_onStore
  by (rule DeleteBy3Conditions_wp[OF ok]) (auto simp: wrows_def fun_upd_def intro!: Q E)

lemma delete_by3_of_wp:
  fixes env :: "('d, 'c) env" and w :: "('d, 'c) world"
  assumes ok: "gorm_ok (env_gorm env) R" and key: "key_columns t = [CONNECTION_NAME_COLUMN, NAME_ID_COLUMN, OWNER_VPC_NAME_COLUMN]"
    and r: "row_ConnectionName r = v1" "row_NameId r = v2" "row_OwnerVPCName r = v3"
    and Q: "\<And>w'. wrows R w' = (wrows R w)(t := {x \<in> wrows R w t.
        \<not> (row_ConnectionName x = v1 \<and> row_NameId x = v2 \<and> row_OwnerVPCName x = v3)}) \<Longrightarrow>
      w_cloud w' = w_cloud w \<Longrightarrow> w_locks w' = w_locks w \<Longrightarrow> w_xids w' = w_xids w \<Longrightarrow> Q True w'"
    and E: "\<And>e w'. wrows R w' = wrows R w \<Longrightarrow> w_cloud w' = w_cloud w \<Longrightarrow> w_locks w' = w_locks w \<Longrightarrow>
      w_xids w' = w_xids w \<Longrightarrow> E e w'"
  shows "wp (onStore (DeleteBy3Conditions_of (env_gorm env) t (Some r)
      CONNECTION_NAME_COLUMN v1 NAME_ID_COLUMN v2 OWNER_VPC_NAME_COLUMN v3)) Q E w"
  unfolding wp_onStore
  by (rule DeleteBy3Conditions_of_wp[OF ok key r]) (auto simp: wrows_def fun_upd_def intro!: Q E)

text \<open>A call of the driver, of which nothing is known, leaves everything else alone.\<close>

lemma cloud_wp:
  assumes "\<And>x c. Q x (w\<lparr>w_cloud := c\<rparr>)" and "\<And>e c. E e (w\<lparr>w_cloud := c\<rparr>)"
  shows "wp (onCloud m) Q E w"
  unfolding wp_onCloud by (rule wpI) (rule assms)+

text \<open>The driver's name that a creation would use when \<open>n\<close> xids have been drawn.\<close>

definition next_name :: "('d, 'c) env \<Rightarrow> string \<Rightarrow> string \<Rightarrow> string \<Rightarrow> string \<Rightarrow> nat \<Rightarrow> string go_result" where
  "next_name env mode conn rs uid n =
     (if GetID_MGMT (ID_TRANSFORM_MODE env) mode = ''ON''
      then IIDManager.New (ccim_GetConnectionConfig env) (cim_GetCloudOSMetaInfo env) (xid_New env n) conn rs uid
      else Inr uid)"

lemma make_spUUID_wp:
  assumes "\<And>x w'. next_name env mode conn rs uid (w_xids w) = Inr x \<Longrightarrow> wrows R w' = wrows R w \<Longrightarrow> w_cloud w' = w_cloud w \<Longrightarrow>
      w_locks w' = w_locks w \<Longrightarrow> Q x w'"
    and "\<And>e w'. wrows R w' = wrows R w \<Longrightarrow> w_cloud w' = w_cloud w \<Longrightarrow> w_locks w' = w_locks w \<Longrightarrow> E e w'"
  shows "wp (make_spUUID env mode conn rs uid) Q E w"
proof (cases "GetID_MGMT (ID_TRANSFORM_MODE env) mode = ''ON''")
  case True
  with assms show ?thesis
    by (simp add: make_spUUID_def next_name_def wp_iidm_New iidm_New_def split: sum.split)
next
  case False
  then have "Q uid w" by (intro assms(1)) (simp_all add: next_name_def)
  with False show ?thesis by (simp add: make_spUUID_def wp_ret)
qed

lemma upsert_fresh: "(\<And>x. x \<in> S \<Longrightarrow> primary_key x \<noteq> primary_key r) \<Longrightarrow> upsert r S = insert r S"
  by (auto simp: upsert_def)

text \<open>The rows that clash with a name: in the permission-based mode those of every connection.\<close>

definition name_taken :: "('d, 'c) env \<Rightarrow> iid_row set \<Rightarrow> string \<Rightarrow> string \<Rightarrow> bool" where
  "name_taken env S conn n \<longleftrightarrow> (\<exists>r \<in> S. row_NameId r = n \<and> (permission_mode env \<or> row_ConnectionName r = conn))"

lemma has_name_wp':
  fixes env :: "('d, 'c) env" and w :: "('d, 'c) world"
  assumes "gorm_ok (env_gorm env) R"
    and "\<And>w'. reads R env w w' \<Longrightarrow> Q (name_taken env (wrows R w t) conn n) w'"
    and "\<And>e w'. reads R env w w' \<Longrightarrow> E e w'"
  shows "wp (has_name env t conn n) Q E w"
  by (rule has_name_wp[OF assms(1)]) (use assms(2,3) in \<open>simp_all add: name_taken_def\<close>)

lemma upsert_new_name:
  assumes "\<not> name_taken env S conn n"
  shows "upsert (FirstIIDInfo conn n sys) S = insert (FirstIIDInfo conn n sys) S"
  using assms by (intro upsert_fresh) (auto simp: primary_key_def FirstIIDInfo_def name_taken_def)

lemma upsert_new:
  assumes "\<not> name_taken env S (row_ConnectionName r) (row_NameId r)"
  shows "upsert r S = insert r S"
  using assms by (intro upsert_fresh) (auto simp: primary_key_def name_taken_def)

text \<open>
  The reads of the meta database alone that the managers share: all rows, or those of the connection; a row by its
  name, or by connection and name.
\<close>

definition all_or_connection :: "('d, 'c) env \<Rightarrow> table \<Rightarrow> string \<Rightarrow> (('d, 'c) world, iid_row list) prog" where
  "all_or_connection env t connectionName =
     (if permission_mode env then onStore (List (env_gorm env) t)
      else onStore (ListByCondition (env_gorm env) t CONNECTION_NAME_COLUMN connectionName))"

definition get_or_connection :: "('d, 'c) env \<Rightarrow> table \<Rightarrow> string \<Rightarrow> string \<Rightarrow> (('d, 'c) world, iid_row) prog" where
  "get_or_connection env t connectionName nameId =
     (if permission_mode env then onStore (Get (env_gorm env) t NAME_ID_COLUMN nameId)
      else onStore (GetByConditions (env_gorm env) t CONNECTION_NAME_COLUMN connectionName NAME_ID_COLUMN nameId))"

lemma all_or_connection_wp:
  fixes env :: "('d, 'c) env" and w :: "('d, 'c) world"
  assumes ok: "gorm_ok (env_gorm env) R"
    and Q: "\<And>rs w'. reads R env w w' \<Longrightarrow> w_cloud w' = w_cloud w \<Longrightarrow>
      set rs = {r \<in> wrows R w t. permission_mode env \<or> row_ConnectionName r = conn} \<Longrightarrow> distinct rs \<Longrightarrow> Q rs w'"
    and E: "\<And>e w'. reads R env w w' \<Longrightarrow> w_cloud w' = w_cloud w \<Longrightarrow> E e w'"
  shows "wp (all_or_connection env t conn) Q E w"
proof (cases "permission_mode env")
  case True
  show ?thesis
    unfolding all_or_connection_def if_P[OF True] wp_onStore
    by (rule infostore.list_all_wp[OF ok]; (rule Q | rule E)) (simp_all add: wrows_def True)
next
  case False
  show ?thesis
    unfolding all_or_connection_def if_not_P[OF False] wp_onStore
    by (rule infostore.list_by_wp[OF ok]; (rule Q | rule E)) (simp_all add: wrows_def False)
qed

lemma get_or_connection_wp:
  fixes env :: "('d, 'c) env" and w :: "('d, 'c) world"
  assumes ok: "gorm_ok (env_gorm env) R"
    and Q: "\<And>r w'. reads R env w w' \<Longrightarrow> w_cloud w' = w_cloud w \<Longrightarrow> r \<in> wrows R w t \<Longrightarrow> row_NameId r = n \<Longrightarrow>
      permission_mode env \<or> row_ConnectionName r = conn \<Longrightarrow> Q r w'"
    and E: "\<And>e w'. reads R env w w' \<Longrightarrow> w_cloud w' = w_cloud w \<Longrightarrow> E e w'"
  shows "wp (get_or_connection env t conn n) Q E w"
proof (cases "permission_mode env")
  case True
  show ?thesis
    unfolding get_or_connection_def if_P[OF True] wp_onStore
    by (rule Get_wp[OF ok]; (rule Q | rule E)) (simp_all add: wrows_def True)
next
  case False
  show ?thesis
    unfolding get_or_connection_def if_not_P[OF False] wp_onStore
    by (rule infostore.get_by_wp[OF ok]; (rule Q | rule E)) (simp_all add: wrows_def False)
qed

lemma list_by2_wp:
  fixes env :: "('d, 'c) env" and w :: "('d, 'c) world"
  assumes ok: "gorm_ok (env_gorm env) R"
    and Q: "\<And>rs w'. reads R env w w' \<Longrightarrow> w_cloud w' = w_cloud w \<Longrightarrow>
      set rs = {r \<in> wrows R w t. col c1 r = v1 \<and> col c2 r = v2} \<Longrightarrow> distinct rs \<Longrightarrow> Q rs w'"
    and E: "\<And>e w'. reads R env w w' \<Longrightarrow> w_cloud w' = w_cloud w \<Longrightarrow> E e w'"
  shows "wp (onStore (ListByConditions (env_gorm env) t c1 v1 c2 v2)) Q E w"
  unfolding wp_onStore by (rule ListByConditions_wp[OF ok]; (rule Q | rule E)) (simp_all add: wrows_def)

text \<open>The same, as far as names go.\<close>

lemma all_names_wp:
  fixes env :: "('d, 'c) env" and w :: "('d, 'c) world"
  assumes ok: "gorm_ok (env_gorm env) R"
    and Q: "\<And>rs w'. reads R env w w' \<Longrightarrow>
      (\<And>n. list_ex (\<lambda>one. row_NameId one = n) rs \<longleftrightarrow> name_taken env (wrows R w t) conn n) \<Longrightarrow> Q rs w'"
    and E: "\<And>e w'. reads R env w w' \<Longrightarrow> E e w'"
  shows "wp (all_or_connection env t conn) Q E w"
  by (rule all_or_connection_wp[OF ok]; (rule Q | rule E)) (auto simp: list_ex_iff name_taken_def)

lemma get_name_wp:
  fixes env :: "('d, 'c) env" and w :: "('d, 'c) world"
  assumes ok: "gorm_ok (env_gorm env) R"
    and Q: "\<And>r w'. reads R env w w' \<Longrightarrow> r \<in> wrows R w t \<Longrightarrow> row_NameId r = n \<Longrightarrow>
      name_taken env (wrows R w t) conn n \<Longrightarrow> Q r w'"
    and E: "\<And>e w'. reads R env w w' \<Longrightarrow> E e w'"
  shows "wp (get_iid_info env t conn n) Q E w"
  by (rule get_iid_info_wp[OF ok]; (rule Q | rule E)) (auto simp: name_taken_def)

lemma has_authorized_taken_wp:
  fixes env :: "('d, 'c) env" and w :: "('d, 'c) world"
  assumes ok: "gorm_ok (env_gorm env) R"
    and Q: "\<And>b w'. reads R env w w' \<Longrightarrow> (b \<Longrightarrow> name_taken env (wrows R w t) conn n) \<Longrightarrow> Q b w'"
    and E: "\<And>e w'. reads R env w w' \<Longrightarrow> E e w'"
  shows "wp (has_authorized_name env t conn n) Q E w"
  by (rule has_authorized_name_wp[OF ok]; (rule Q | rule E)) (auto simp: name_taken_def)

text \<open>The remaining reads of one row, seen from the world.\<close>

lemma get_contain_wp:
  fixes env :: "('d, 'c) env" and w :: "('d, 'c) world"
  assumes ok: "gorm_ok (env_gorm env) R"
    and Q: "\<And>r w'. reads R env w w' \<Longrightarrow> w_cloud w' = w_cloud w \<Longrightarrow> r \<in> wrows R w t \<Longrightarrow> col c1 r = v1 \<Longrightarrow> col c2 r = v2 \<Longrightarrow> Q r w'"
    and E: "\<And>e w'. reads R env w w' \<Longrightarrow> w_cloud w' = w_cloud w \<Longrightarrow> E e w'"
  shows "wp (onStore (GetByConditionsAndContain (env_gorm env) t c1 v1 c2 v2 c3 v3)) Q E w"
  unfolding wp_onStore GetByConditionsAndContain_def
  by (intro wp_bindPI Open_wp[OF ok] wp_ifI wp_throwI first_or_wp[OF ok]; (rule Q | rule E)) (auto simp: wrows_def selected_def)

lemma get_by3_wp:
  fixes env :: "('d, 'c) env" and w :: "('d, 'c) world"
  assumes ok: "gorm_ok (env_gorm env) R"
    and Q: "\<And>r w'. reads R env w w' \<Longrightarrow> w_cloud w' = w_cloud w \<Longrightarrow> r \<in> wrows R w t \<Longrightarrow> col c1 r = v1 \<Longrightarrow> col c2 r = v2 \<Longrightarrow>
      col c3 r = v3 \<Longrightarrow> Q r w'"
    and E: "\<And>e w'. reads R env w w' \<Longrightarrow> w_cloud w' = w_cloud w \<Longrightarrow> E e w'"
  shows "wp (onStore (GetBy3Conditions (env_gorm env) t c1 v1 c2 v2 c3 v3)) Q E w"
  unfolding wp_onStore GetBy3Conditions_def
  by (intro wp_bindPI Open_wp[OF ok] first_or_wp[OF ok]; (rule Q | rule E)) (auto simp: wrows_def selected_def)

lemma has_by3_wp:
  fixes env :: "('d, 'c) env" and w :: "('d, 'c) world"
  assumes ok: "gorm_ok (env_gorm env) R"
    and Q: "\<And>w'. reads R env w w' \<Longrightarrow> w_cloud w' = w_cloud w \<Longrightarrow>
      Q (\<exists>r \<in> wrows R w t. col c1 r = v1 \<and> col c2 r = v2 \<and> col c3 r = v3) w'"
    and E: "\<And>e w'. reads R env w w' \<Longrightarrow> w_cloud w' = w_cloud w \<Longrightarrow> E e w'"
  shows "wp (onStore (HasBy3Conditions (env_gorm env) t c1 v1 c2 v2 c3 v3)) Q E w"
proof -
  have s: "(selected (env_gorm env) [CEq c1 v1, CEq c2 v2, CEq c3 v3] (R (st_db s) t) \<noteq> {}) =
      (\<exists>r \<in> wrows R w t. col c1 r = v1 \<and> col c2 r = v2 \<and> col c3 r = v3)" if "R (st_db s) = wrows R w" for s :: "'d store"
    using that by (auto simp: selected_Eq)
  show ?thesis
    unfolding wp_onStore HasBy3Conditions_def
    by (intro wp_bindPI Open_wp[OF ok] has_or_wp[OF ok]; (subst s)?; (rule Q | rule E)?) (auto simp: wrows_def)
qed

lemma get_by2_wp:
  fixes env :: "('d, 'c) env" and w :: "('d, 'c) world"
  assumes ok: "gorm_ok (env_gorm env) R"
    and Q: "\<And>r w'. reads R env w w' \<Longrightarrow> w_cloud w' = w_cloud w \<Longrightarrow> r \<in> wrows R w t \<Longrightarrow> col c1 r = v1 \<Longrightarrow> col c2 r = v2 \<Longrightarrow> Q r w'"
    and E: "\<And>e w'. reads R env w w' \<Longrightarrow> w_cloud w' = w_cloud w \<Longrightarrow> E e w'"
  shows "wp (onStore (GetByConditions (env_gorm env) t c1 v1 c2 v2)) Q E w"
  unfolding wp_onStore by (rule infostore.get_by_wp[OF ok]; (rule Q | rule E)) (auto simp: wrows_def)

lemma list_connection_wp:
  fixes env :: "('d, 'c) env" and w :: "('d, 'c) world"
  assumes ok: "gorm_ok (env_gorm env) R"
    and Q: "\<And>rs w'. reads R env w w' \<Longrightarrow> w_cloud w' = w_cloud w \<Longrightarrow> set rs = {r \<in> wrows R w t. col c r = v} \<Longrightarrow> distinct rs \<Longrightarrow> Q rs w'"
    and E: "\<And>e w'. reads R env w w' \<Longrightarrow> w_cloud w' = w_cloud w \<Longrightarrow> E e w'"
  shows "wp (onStore (ListByCondition (env_gorm env) t c v)) Q E w"
  unfolding wp_onStore by (rule infostore.list_by_wp[OF ok]; (rule Q | rule E)) (auto simp: wrows_def)


lemma has_by2_wp:
  fixes env :: "('d, 'c) env" and w :: "('d, 'c) world"
  assumes ok: "gorm_ok (env_gorm env) R"
    and Q: "\<And>b w'. reads R env w w' \<Longrightarrow> w_cloud w' = w_cloud w \<Longrightarrow>
      b \<longleftrightarrow> (\<exists>r \<in> wrows R w t. col c1 r = v1 \<and> col c2 r = v2) \<Longrightarrow> Q b w'"
    and E: "\<And>e w'. reads R env w w' \<Longrightarrow> w_cloud w' = w_cloud w \<Longrightarrow> E e w'"
  shows "wp (onStore (HasByConditions (env_gorm env) t c1 v1 c2 v2)) Q E w"
  unfolding wp_onStore by (rule infostore.has_by_wp[OF ok]; (rule Q | rule E)) (auto simp: wrows_def)

text \<open>A zone other than the connection's own asks for the capability of zone-based control.\<close>

definition check_zone :: "('d, 'c) env \<Rightarrow> string \<Rightarrow> string \<Rightarrow> string \<Rightarrow> (('d, 'c) world, unit) prog" where
  "check_zone env connectionName defaultZoneId zone =
     (if zone \<noteq> [] \<and> zone \<noteq> defaultZoneId then lift_result (checkCapability env connectionName ZONE_BASED_CONTROL) else ret ())"

lemma check_zone_wpI [wp_rules]: "Q () w \<Longrightarrow> (\<And>e. E e w) \<Longrightarrow> wp (check_zone env conn z s) Q E w"
  by (auto simp: check_zone_def intro!: wp_walk)

text \<open>
  A row whose system id contains that of the CSP: the first authorized one, or the first of the connection. An error
  that \<open>soft\<close> tells to be harmless gives no row.
\<close>

definition find_by_contain :: "('d, 'c) env \<Rightarrow> table \<Rightarrow> string \<Rightarrow> string \<Rightarrow> (go_error \<Rightarrow> bool) \<Rightarrow> (('d, 'c) world, iid_row option) prog" where
  "find_by_contain env t connectionName systemId soft =
     (let unless_soft = (\<lambda>err. if soft err then ret None else throw err)
      in if permission_mode env then
           bindP (getAuthIIDInfoList env connectionName t) (\<lambda>iidInfoList.
           case getAuthIIDInfoBySystemIdContain t iidInfoList systemId of
             Inl err \<Rightarrow> unless_soft err
           | Inr iidInfo \<Rightarrow> ret (Some iidInfo))
         else catchP (onStore (GetByContain (env_gorm env) t CONNECTION_NAME_COLUMN connectionName SYSTEM_ID_COLUMN systemId))
           unless_soft (\<lambda>iidInfo. ret (Some iidInfo)))"

lemma find_by_contain_wp:
  fixes env :: "('d, 'c) env" and w :: "('d, 'c) world"
  assumes ok: "gorm_ok (env_gorm env) R"
    and Q: "\<And>r w'. reads R env w w' \<Longrightarrow> r \<in> wrows R w t \<Longrightarrow>
      permission_mode env \<or> row_ConnectionName r = conn \<Longrightarrow> Q (Some r) w'"
    and N: "\<And>e w'. soft e \<Longrightarrow> reads R env w w' \<Longrightarrow> Q None w'"
    and E: "\<And>e w'. reads R env w w' \<Longrightarrow> E e w'"
  shows "wp (find_by_contain env t conn sys soft) Q E w"
proof (cases "permission_mode env")
  case True
  have "wp (getAuthIIDInfoList env conn t) (\<lambda>rs. wp (case getAuthIIDInfoBySystemIdContain t rs sys of
      Inl err \<Rightarrow> if soft err then ret None else throw err | Inr r \<Rightarrow> ret (Some r)) Q E) E w"
    by (rule getAuthIIDInfoList_wp[OF ok True])
      (auto simp: wp_simps True getAuthIIDInfoBySystemIdContain_def split: sum.split option.split dest!: find_SomeD intro!: Q E N)
  with True show ?thesis by (simp add: find_by_contain_def wp_bindP)
next
  case False
  show ?thesis
    unfolding find_by_contain_def if_not_P[OF False] wp_onStore GetByContain_def wp_catchP Let_def
    by (intro wp_bindPI Open_wp[OF ok] first_or_wp[OF ok]; (auto simp: wrows_def selected_def False wp_simps intro!: Q E N))
qed

text \<open>"get Source VM's IID with VM's SystemId": the row of a VM whose system id contains that of the owner.\<close>

definition owner_vm_row :: "('d, 'c) env \<Rightarrow> string \<Rightarrow> string \<Rightarrow> (('d, 'c) world, iid_row) prog" where
  "owner_vm_row env connectionName systemId =
     (if permission_mode env then
        bindP (getAuthIIDInfoList env connectionName VMIIDInfo) (\<lambda>iidInfoList.
        lift_result (getAuthIIDInfoBySystemIdContain VMIIDInfo iidInfoList systemId))
      else onStore (GetByContain (env_gorm env) VMIIDInfo CONNECTION_NAME_COLUMN connectionName SYSTEM_ID_COLUMN systemId))"

lemma owner_vm_row_wp:
  fixes env :: "('d, 'c) env" and w :: "('d, 'c) world"
  assumes ok: "gorm_ok (env_gorm env) R"
    and Q: "\<And>r w'. reads R env w w' \<Longrightarrow> r \<in> wrows R w VMIIDInfo \<Longrightarrow>
      permission_mode env \<or> row_ConnectionName r = conn \<Longrightarrow> Q r w'"
    and E: "\<And>e w'. reads R env w w' \<Longrightarrow> E e w'"
  shows "wp (owner_vm_row env conn sys) Q E w"
proof (cases "permission_mode env")
  case True
  have "wp (getAuthIIDInfoList env conn VMIIDInfo) (\<lambda>rs. wp (lift_result (getAuthIIDInfoBySystemIdContain VMIIDInfo rs sys)) Q E) E w"
    by (rule getAuthIIDInfoList_wp[OF ok True])
      (auto simp: wp_simps True getAuthIIDInfoBySystemIdContain_def split: sum.split option.split dest!: find_SomeD intro!: Q E)
  with True show ?thesis by (simp add: owner_vm_row_def wp_bindP)
next
  case False
  show ?thesis
    unfolding owner_vm_row_def if_not_P[OF False] wp_onStore GetByContain_def
    by (intro wp_bindPI Open_wp[OF ok] first_or_wp[OF ok]; (rule Q | rule E)) (auto simp: wrows_def selected_def False)
qed

end
