(* ===== verification/DriverContract.thy ===== *)
theory DriverContract
  imports DriverInterfaces
begin

text \<open>
  What the runtime relies on of a driver's handler for one kind of resource: its methods behave like those of a
  finite map from identifiers (driver name, CSP id) to resources. Drivers are plug-ins; the mock driver of the
  repository is shown to keep this contract in theory \<open>MockDriver\<close>.
\<close>

locale csp_resource =
  fixes inv :: "'c \<Rightarrow> bool"
    and res :: "'c \<Rightarrow> IID \<rightharpoonup> 'i"
    and iid_of :: "'i \<Rightarrow> IID"
    and req_name :: "'r \<Rightarrow> string"
    and create :: "'r \<Rightarrow> ('c, 'i) prog"
    and get :: "IID \<Rightarrow> ('c, 'i) prog"
    and delete :: "IID \<Rightarrow> 'c deletion"
    and list_iid :: "('c, IID list) prog"
  assumes create_law: "inv c \<Longrightarrow> \<forall>i \<in> dom (res c). NameId i \<noteq> req_name r \<Longrightarrow>
      wp (create r)
        (\<lambda>info c'. inv c' \<and> NameId (iid_of info) = req_name r \<and> iid_of info \<notin> dom (res c) \<and>
           res c' = (res c)(iid_of info \<mapsto> info))
        (\<lambda>_ c'. inv c' \<and> res c' = res c) c"
    and get_law: "inv c \<Longrightarrow> res c i = Some info \<Longrightarrow> get i c = (Inr info, c)"
    and delete_law: "inv c \<Longrightarrow> res c i = Some info \<Longrightarrow>
      \<exists>c'. delete i c = ((True, None), c') \<and> inv c' \<and> res c' = (res c)(i := None)"
    and list_law: "inv c \<Longrightarrow> \<exists>l. list_iid c = (Inr l, c) \<and> set l = dom (res c)"
    and iid_law: "inv c \<Longrightarrow> res c i = Some info \<Longrightarrow> iid_of info = i"
begin

text \<open>Is a name free for a new resource?\<close>

definition free_name :: "'c \<Rightarrow> string \<Rightarrow> bool" where
  "free_name c n \<longleftrightarrow> (\<forall>i \<in> dom (res c). NameId i \<noteq> n)"

lemma create_wp:
  assumes "inv c" and "free_name c (req_name r)"
    and "\<And>info c'. inv c' \<Longrightarrow> NameId (iid_of info) = req_name r \<Longrightarrow> res c (iid_of info) = None \<Longrightarrow>
      res c' = (res c)(iid_of info \<mapsto> info) \<Longrightarrow> Q info c'"
    and "\<And>e c'. inv c' \<Longrightarrow> res c' = res c \<Longrightarrow> E e c'"
  shows "wp (create r) Q E c"
  using create_law[OF assms(1), of r] assms(2) by (auto simp: free_name_def intro!: assms(3,4) elim!: wp_mono)

text \<open>What was created can be read, and deleting it again leaves the resources as they were.\<close>

lemma create_get:
  assumes "inv c" and "free_name c (req_name r)" and "create r c = (Inr info, c')"
  shows "get (iid_of info) c' = (Inr info, c')"
proof -
  have "wp (create r) (\<lambda>info c'. inv c' \<and> res c' (iid_of info) = Some info) (\<lambda>_ _. True) c"
    by (rule create_wp[OF assms(1,2)]) auto
  with assms(3) have "inv c'" and "res c' (iid_of info) = Some info" by (auto dest: wp_okD)
  then show ?thesis by (rule get_law)
qed

lemma create_delete:
  assumes "inv c" and "free_name c (req_name r)" and "create r c = (Inr info, c')"
  shows "\<exists>c''. delete (iid_of info) c' = ((True, None), c'') \<and> inv c'' \<and> res c'' = res c"
proof -
  have "wp (create r) (\<lambda>info c'. inv c' \<and> res c (iid_of info) = None \<and> res c' = (res c)(iid_of info \<mapsto> info))
      (\<lambda>_ _. True) c"
    by (rule create_wp[OF assms(1,2)]) auto
  with assms(3) have "inv c'" and n: "res c (iid_of info) = None" and r: "res c' = (res c)(iid_of info \<mapsto> info)"
    by (auto dest: wp_okD)
  with delete_law[of c' "iid_of info" info] obtain c'' where "delete (iid_of info) c' = ((True, None), c'')"
    and "inv c''" and "res c'' = (res c')(iid_of info := None)" by auto
  with n r show ?thesis by (auto simp: fun_upd_idem)
qed

end

section \<open>Lists of resources as maps\<close>

text \<open>A list in which every name occurs once, and every CSP id is the name.\<close>

definition ids_ok :: "('i \<Rightarrow> IID) \<Rightarrow> 'i list \<Rightarrow> bool" where
  "ids_ok iid l \<longleftrightarrow> distinct (map (NameId \<circ> iid) l) \<and> (\<forall>x \<in> set l. SystemId (iid x) = NameId (iid x))"

definition res_in :: "('i \<Rightarrow> IID) \<Rightarrow> 'i list \<Rightarrow> IID \<rightharpoonup> 'i" where
  "res_in iid l i = List.find (\<lambda>x. iid x = i) l"

lemma res_in_Some: "res_in iid l i = Some x \<Longrightarrow> x \<in> set l \<and> iid x = i"
  by (auto simp: res_in_def dest: find_SomeD)

lemma dom_res_in: "dom (res_in iid l) = iid ` set l"
  by (auto simp: res_in_def dom_def image_iff find_None_iff dest: find_SomeD)

lemma ids_ok_Nil [simp]: "ids_ok iid []"
  by (simp add: ids_ok_def)

lemma ids_ok_append:
  "ids_ok iid (l @ [x]) \<longleftrightarrow> ids_ok iid l \<and> NameId (iid x) \<notin> (NameId \<circ> iid) ` set l \<and> SystemId (iid x) = NameId (iid x)"
  by (auto simp: ids_ok_def)

lemma res_in_append:
  assumes "iid x \<notin> iid ` set l"
  shows "res_in iid (l @ [x]) = (res_in iid l)(iid x \<mapsto> x)"
proof
  fix i
  have "res_in iid l (iid x) = None" using assms dom_res_in[of iid l] by (auto simp: domIff)
  then show "res_in iid (l @ [x]) i = ((res_in iid l)(iid x \<mapsto> x)) i"
    by (auto simp: res_in_def find_append split: option.splits)
qed

lemma ids_ok_same_name:
  assumes "ids_ok iid l" and "x \<in> set l" and "y \<in> set l" and "NameId (iid x) = NameId (iid y)"
  shows "x = y"
  using assms by (auto simp: ids_ok_def distinct_map inj_on_def)

lemma find_name:
  assumes "ids_ok iid l" and "res_in iid l i = Some x"
  shows "List.find (\<lambda>y. NameId (iid y) = NameId i) l = Some x"
proof -
  from assms(2) have x: "x \<in> set l" "iid x = i" by (auto dest: res_in_Some)
  have "distinct (map (NameId \<circ> iid) l)" using assms(1) by (simp add: ids_ok_def)
  from find_distinct[OF this x(1)] x(2) show ?thesis by simp
qed

lemma ids_ok_SystemId:
  assumes "ids_ok iid l" and "x \<in> set l" and "y \<in> set l" and "SystemId (iid x) = SystemId (iid y)"
  shows "x = y"
  using assms(1) by (rule ids_ok_same_name) (use assms in \<open>auto simp: ids_ok_def\<close>)

lemma remove_SystemId:
  assumes "ids_ok iid l" and "res_in iid l i = Some x"
  shows "remove_first (\<lambda>y. SystemId (iid y) = SystemId i) l = filter (\<lambda>y. iid y \<noteq> i) l"
proof -
  from assms(2) have x: "x \<in> set l" "iid x = i" by (auto dest: res_in_Some)
  have "map (SystemId \<circ> iid) l = map (NameId \<circ> iid) l" using assms(1) by (simp add: ids_ok_def)
  with assms(1) have "distinct (map (SystemId \<circ> iid) l)" unfolding ids_ok_def by metis
  from remove_first_distinct[OF this, of "SystemId i"]
  have "remove_first (\<lambda>y. SystemId (iid y) = SystemId i) l = filter (\<lambda>y. SystemId (iid y) \<noteq> SystemId i) l" by simp
  also have "\<dots> = filter (\<lambda>y. iid y \<noteq> i) l"
    using ids_ok_SystemId[OF assms(1) _ x(1)] x(2) by (intro filter_cong) auto
  finally show ?thesis .
qed

lemma ids_ok_filter: "ids_ok iid l \<Longrightarrow> ids_ok iid (filter p l)"
  by (auto simp: ids_ok_def distinct_map_filter)

lemma res_in_filter: "res_in iid (filter (\<lambda>y. iid y \<noteq> i) l) = (res_in iid l)(i := None)"
proof
  fix j
  have "List.find (\<lambda>x. iid x = j) (filter (\<lambda>y. iid y \<noteq> i) l) = (if j = i then None else List.find (\<lambda>x. iid x = j) l)"
    by (induction l) auto
  then show "res_in iid (filter (\<lambda>y. iid y \<noteq> i) l) j = ((res_in iid l)(i := None)) j" by (simp add: res_in_def)
qed

end
