(* ===== verification/MockDriver.thy ===== *)
theory MockDriver
  imports DriverContract
begin

text \<open>
  The mock driver, \<open>drivers/mock/resources\<close>: the handlers of key pairs, security groups and VPCs over the
  package's global maps from a mock's name to its list of resources. Every method runs under the map's lock
  from its first to its last statement, so a method is one step. The clones that share a slice with the map
  (\<open>TagList\<close>, \<open>SecurityRules\<close>) are given as values.
\<close>

section \<open>State\<close>

record mock =
  keyPairInfoMap :: "string \<rightharpoonup> KeyPairInfo list"
  securityInfoMap :: "string \<rightharpoonup> SecurityInfo list"
  vpcInfoMap :: "string \<rightharpoonup> VPCInfo list"
  diskInfoMap :: "string \<rightharpoonup> DiskInfo list"
  myImageInfoMap :: "string \<rightharpoonup> MyImageInfo list"
  imgInfoMap :: "string \<rightharpoonup> ImageInfo list"
  vmSpecInfoMap :: "string \<rightharpoonup> VMSpecInfo list"
  vmInfoMap :: "string \<rightharpoonup> VMInfo list"
  vmStatusInfoMap :: "string \<rightharpoonup> VMStatusInfo list"
  nlbInfoMap :: "string \<rightharpoonup> NLBInfo list"
  mock_clock :: go_time
  mock_xids :: nat

text \<open>The maps as the \<open>init\<close> functions leave them; \<open>mock_clock\<close> is what \<open>time.Now()\<close> reads, and ticks when it is read;
  \<open>mock_xids\<close> counts the xids the package has drawn.\<close>

definition mock_init :: mock where
  "mock_init = \<lparr>keyPairInfoMap = Map.empty, securityInfoMap = Map.empty, vpcInfoMap = Map.empty,
     diskInfoMap = Map.empty, myImageInfoMap = Map.empty, imgInfoMap = Map.empty, vmSpecInfoMap = Map.empty,
     vmInfoMap = Map.empty, vmStatusInfoMap = Map.empty, nlbInfoMap = Map.empty, mock_clock = 0, mock_xids = 0\<rparr>"

text \<open>Reading a map gives the nil slice for a missing key.\<close>

definition slice_of :: "'a list option \<Rightarrow> 'a list" where
  "slice_of v = (case v of None \<Rightarrow> [] | Some l \<Rightarrow> l)"

section \<open>Key pairs\<close>

definition CloneKeyPairInfo :: "KeyPairInfo \<Rightarrow> KeyPairInfo" where
  "CloneKeyPairInfo srcInfo =
     \<lparr>key_IId = \<lparr>NameId = NameId (key_IId srcInfo), SystemId = SystemId (key_IId srcInfo)\<rparr>,
      key_Fingerprint = key_Fingerprint srcInfo, key_PublicKey = key_PublicKey srcInfo,
      key_PrivateKey = key_PrivateKey srcInfo, key_VMUserID = key_VMUserID srcInfo,
      key_TagList = key_TagList srcInfo, key_KeyValueList = key_KeyValueList srcInfo\<rparr>"

definition MockCreateKey :: "string \<Rightarrow> KeyPairReqInfo \<Rightarrow> (mock, KeyPairInfo) prog" where
  "MockCreateKey mockName req c =
     (let iid = (keyReq_IId req)\<lparr>SystemId := NameId (keyReq_IId req)\<rparr>;
          keyPairInfo = \<lparr>key_IId = iid, key_Fingerprint = ''XXXXFingerprint'', key_PublicKey = ''XXXXPublicKey'',
            key_PrivateKey = ''XXXXPrivateKey'', key_VMUserID = ''cb-user'', key_TagList = keyReq_TagList req,
            key_KeyValueList = []\<rparr>;
          infoList = slice_of (keyPairInfoMap c mockName) @ [keyPairInfo]
      in (Inr (CloneKeyPairInfo keyPairInfo), c\<lparr>keyPairInfoMap := (keyPairInfoMap c)(mockName \<mapsto> infoList)\<rparr>))"

definition MockListKey :: "string \<Rightarrow> (mock, KeyPairInfo list) prog" where
  "MockListKey mockName c =
     (case keyPairInfoMap c mockName of
        None \<Rightarrow> (Inr [], c)
      | Some infoList \<Rightarrow> (Inr (map CloneKeyPairInfo infoList), c))"

definition key_missing :: "IID \<Rightarrow> go_error" where
  "key_missing iid = NameId iid @ '' Keypair does not exist!!''"

definition MockGetKey :: "string \<Rightarrow> IID \<Rightarrow> (mock, KeyPairInfo) prog" where
  "MockGetKey mockName iid c =
     (case keyPairInfoMap c mockName of
        None \<Rightarrow> (Inl (key_missing iid), c)
      | Some infoList \<Rightarrow>
          (case List.find (\<lambda>info. NameId (key_IId info) = NameId iid) infoList of
             Some info \<Rightarrow> (Inr (CloneKeyPairInfo info), c)
           | None \<Rightarrow> (Inl (key_missing iid), c)))"

definition MockDeleteKey :: "string \<Rightarrow> IID \<Rightarrow> mock deletion" where
  "MockDeleteKey mockName iid c =
     (case keyPairInfoMap c mockName of
        None \<Rightarrow> ((False, Some (key_missing iid)), c)
      | Some infoList \<Rightarrow>
          if list_ex (\<lambda>info. SystemId (key_IId info) = SystemId iid) infoList
          then ((True, None), c\<lparr>keyPairInfoMap := (keyPairInfoMap c)(mockName \<mapsto>
                  remove_first (\<lambda>info. SystemId (key_IId info) = SystemId iid) infoList)\<rparr>)
          else ((False, None), c))"

definition MockListKeyIID :: "string \<Rightarrow> (mock, IID list) prog" where
  "MockListKeyIID mockName c =
     (case keyPairInfoMap c mockName of None \<Rightarrow> (Inr [], c) | Some infoList \<Rightarrow> (Inr (map key_IId infoList), c))"

definition MockKeyPairHandler :: "string \<Rightarrow> mock KeyPairHandler" where
  "MockKeyPairHandler mockName =
     \<lparr>kh_CreateKey = MockCreateKey mockName, kh_ListKey = MockListKey mockName, kh_GetKey = MockGetKey mockName,
      kh_DeleteKey = MockDeleteKey mockName, kh_ListIID = MockListKeyIID mockName\<rparr>"

section \<open>Security groups\<close>

definition CloneSecurityInfo :: "SecurityInfo \<Rightarrow> SecurityInfo" where
  "CloneSecurityInfo srcInfo =
     \<lparr>sg_IId = \<lparr>NameId = NameId (sg_IId srcInfo), SystemId = SystemId (sg_IId srcInfo)\<rparr>,
      sg_VpcIID = \<lparr>NameId = NameId (sg_VpcIID srcInfo), SystemId = SystemId (sg_VpcIID srcInfo)\<rparr>,
      sg_SecurityRules = sg_SecurityRules srcInfo, sg_TagList = sg_TagList srcInfo,
      sg_KeyValueList = sg_KeyValueList srcInfo\<rparr>"

definition MockCreateSecurity :: "string \<Rightarrow> SecurityReqInfo \<Rightarrow> (mock, SecurityInfo) prog" where
  "MockCreateSecurity mockName req c =
     (let securityInfo = \<lparr>sg_IId = (sgReq_IId req)\<lparr>SystemId := NameId (sgReq_IId req)\<rparr>,
            sg_VpcIID = (sgReq_VpcIID req)\<lparr>SystemId := NameId (sgReq_VpcIID req)\<rparr>,
            sg_SecurityRules = sgReq_SecurityRules req, sg_TagList = sgReq_TagList req, sg_KeyValueList = []\<rparr>;
          infoList = slice_of (securityInfoMap c mockName) @ [securityInfo]
      in (Inr (CloneSecurityInfo securityInfo), c\<lparr>securityInfoMap := (securityInfoMap c)(mockName \<mapsto> infoList)\<rparr>))"

definition MockListSecurity :: "string \<Rightarrow> (mock, SecurityInfo list) prog" where
  "MockListSecurity mockName c =
     (case securityInfoMap c mockName of
        None \<Rightarrow> (Inr [], c)
      | Some infoList \<Rightarrow> (Inr (map CloneSecurityInfo infoList), c))"

definition sg_missing :: "IID \<Rightarrow> go_error" where
  "sg_missing iid = NameId iid @ '' SecurityGroup does not exist!!''"

definition MockGetSecurity :: "string \<Rightarrow> IID \<Rightarrow> (mock, SecurityInfo) prog" where
  "MockGetSecurity mockName iid c =
     (case securityInfoMap c mockName of
        None \<Rightarrow> (Inl (sg_missing iid), c)
      | Some infoList \<Rightarrow>
          (case List.find (\<lambda>info. NameId (sg_IId info) = NameId iid) infoList of
             Some info \<Rightarrow> (Inr (CloneSecurityInfo info), c)
           | None \<Rightarrow> (Inl (sg_missing iid), c)))"

definition MockDeleteSecurity :: "string \<Rightarrow> IID \<Rightarrow> mock deletion" where
  "MockDeleteSecurity mockName iid c =
     (case securityInfoMap c mockName of
        None \<Rightarrow> ((False, Some (sg_missing iid)), c)
      | Some infoList \<Rightarrow>
          if list_ex (\<lambda>info. SystemId (sg_IId info) = SystemId iid) infoList
          then ((True, None), c\<lparr>securityInfoMap := (securityInfoMap c)(mockName \<mapsto>
                  remove_first (\<lambda>info. SystemId (sg_IId info) = SystemId iid) infoList)\<rparr>)
          else ((False, None), c))"

definition isEqualRule :: "SecurityRuleInfo \<Rightarrow> SecurityRuleInfo \<Rightarrow> bool" where
  "isEqualRule a b =
     (if rule_Direction a \<noteq> rule_Direction b then False
      else if rule_IPProtocol a \<noteq> rule_IPProtocol b then False
      else if rule_FromPort a \<noteq> rule_FromPort b then False
      else if rule_ToPort a \<noteq> rule_ToPort b then False
      else if rule_CIDR a \<noteq> rule_CIDR b then False
      else True)"

text \<open>\<open>%v\<close> of a rule and of a list of rules.\<close>

definition show_rule :: "SecurityRuleInfo \<Rightarrow> string" where
  "show_rule r = ''{'' @ rule_Direction r @ '' '' @ rule_IPProtocol r @ '' '' @ rule_FromPort r @ '' '' @
     rule_ToPort r @ '' '' @ rule_CIDR r @ ''}''"

definition show_rules :: "SecurityRuleInfo list \<Rightarrow> string" where
  "show_rules rs = ''['' @ Join (map show_rule rs) '' '' @ '']''"

definition rule_error :: "string \<Rightarrow> string \<Rightarrow> SecurityRuleInfo \<Rightarrow> SecurityRuleInfo list \<Rightarrow> go_error" where
  "rule_error name what req rules =
     name @ '' SecurityGroup '' @ what @ '' this rule: '' @ show_rule req @ ''!!'' @
     '' #### '' @ name @ '' SecurityGroup has '' @ show_rules rules @ ''!!''"

text \<open>The first error of the checking loops over the groups of that name.\<close>

fun first_some :: "('a \<Rightarrow> 'b option) \<Rightarrow> 'a list \<Rightarrow> 'b option" where
  "first_some f [] = None"
| "first_some f (x # xs) = (case f x of None \<Rightarrow> first_some f xs | Some y \<Rightarrow> Some y)"

definition add_conflict :: "string \<Rightarrow> SecurityRuleInfo list \<Rightarrow> SecurityInfo \<Rightarrow> go_error option" where
  "add_conflict name reqs info =
     (if NameId (sg_IId info) \<noteq> name then None
      else case sg_SecurityRules info of
        None \<Rightarrow> (if reqs = [] then None else Some nil_panic)
      | Some rules \<Rightarrow>
          map_option (\<lambda>req. rule_error name ''already has'' req rules)
            (List.find (\<lambda>req. list_ex (\<lambda>rule. isEqualRule rule req) rules) reqs))"

definition MockAddRules :: "string \<Rightarrow> IID \<Rightarrow> SecurityRuleInfo list \<Rightarrow> (mock, SecurityInfo) prog" where
  "MockAddRules mockName sgIID reqs c =
     (case securityInfoMap c mockName of
        None \<Rightarrow> (Inl (sg_missing sgIID), c)
      | Some infoList \<Rightarrow>
          (case first_some (add_conflict (NameId sgIID) reqs) infoList of
             Some e \<Rightarrow> (Inl e, c)
           | None \<Rightarrow>
               (case List.find (\<lambda>info. NameId (sg_IId info) = NameId sgIID) infoList of
                  None \<Rightarrow> (Inl (sg_missing sgIID), c)
                | Some info \<Rightarrow>
                    (case sg_SecurityRules info of
                       None \<Rightarrow> (Inl nil_panic, c)
                     | Some rules \<Rightarrow>
                         (let info' = info\<lparr>sg_SecurityRules := Some (rules @ reqs)\<rparr>
                          in (Inr (CloneSecurityInfo info'),
                              c\<lparr>securityInfoMap := (securityInfoMap c)(mockName \<mapsto>
                                update_first (\<lambda>i. NameId (sg_IId i) = NameId sgIID) (\<lambda>_. info') infoList)\<rparr>))))))"

definition remove_conflict :: "string \<Rightarrow> SecurityRuleInfo list \<Rightarrow> SecurityInfo \<Rightarrow> go_error option" where
  "remove_conflict name reqs info =
     (if NameId (sg_IId info) \<noteq> name then None
      else case sg_SecurityRules info of
        None \<Rightarrow> (if reqs = [] then None else Some nil_panic)
      | Some rules \<Rightarrow>
          map_option (\<lambda>req. rule_error name ''does not have'' req rules)
            (List.find (\<lambda>req. \<not> list_ex (\<lambda>rule. isEqualRule rule req) rules) reqs))"

text \<open>\<open>removeRule\<close>, \<open>None\<close> when the slice expression is out of range.\<close>

definition removeRule :: "SecurityRuleInfo list \<Rightarrow> nat \<Rightarrow> SecurityRuleInfo list option" where
  "removeRule list idx = (if idx < length list then Some (take idx list @ drop (Suc idx) list) else None)"

text \<open>
  The removal loops: for the rule at \<open>idx\<close>, over the requested rules; then from the last index down. The boolean
  says that it panicked; the removals made before stay.
\<close>

fun remove_requests :: "nat \<Rightarrow> SecurityRuleInfo \<Rightarrow> SecurityRuleInfo list \<Rightarrow> SecurityRuleInfo list \<Rightarrow> SecurityRuleInfo list \<times> bool" where
  "remove_requests idx ruleInfo [] rules = (rules, False)"
| "remove_requests idx ruleInfo (req # reqs) rules =
     (if isEqualRule ruleInfo req then
        (case removeRule rules idx of
           None \<Rightarrow> (rules, True)
         | Some rules' \<Rightarrow> remove_requests idx ruleInfo reqs rules')
      else remove_requests idx ruleInfo reqs rules)"

fun remove_down :: "nat \<Rightarrow> SecurityRuleInfo list \<Rightarrow> SecurityRuleInfo list \<Rightarrow> SecurityRuleInfo list \<times> bool" where
  "remove_down 0 reqs rules = (rules, False)"
| "remove_down (Suc idx) reqs rules =
     (if idx < length rules then
        (case remove_requests idx (rules ! idx) reqs rules of
           (rules', True) \<Rightarrow> (rules', True)
         | (rules', False) \<Rightarrow> remove_down idx reqs rules')
      else (rules, True))"

text \<open>Over the groups of that name; the boolean as before.\<close>

fun remove_groups :: "string \<Rightarrow> SecurityRuleInfo list \<Rightarrow> SecurityInfo list \<Rightarrow> SecurityInfo list \<times> go_error option" where
  "remove_groups name reqs [] = ([], None)"
| "remove_groups name reqs (info # infos) =
     (if NameId (sg_IId info) = name then
        (case sg_SecurityRules info of
           None \<Rightarrow> (info # infos, Some nil_panic)
         | Some rules \<Rightarrow>
             (case remove_down (length rules) reqs rules of
                (rules', True) \<Rightarrow> (info\<lparr>sg_SecurityRules := Some rules'\<rparr> # infos, Some slice_panic)
              | (rules', False) \<Rightarrow>
                  (let (infos', p) = remove_groups name reqs infos
                   in (info\<lparr>sg_SecurityRules := Some rules'\<rparr> # infos', p))))
      else (let (infos', p) = remove_groups name reqs infos in (info # infos', p)))"

definition MockRemoveRules :: "string \<Rightarrow> IID \<Rightarrow> SecurityRuleInfo list \<Rightarrow> (mock, bool) prog" where
  "MockRemoveRules mockName sgIID reqs c =
     (case securityInfoMap c mockName of
        None \<Rightarrow> (Inl (sg_missing sgIID), c)
      | Some infoList \<Rightarrow>
          (case first_some (remove_conflict (NameId sgIID) reqs) infoList of
             Some e \<Rightarrow> (Inl e, c)
           | None \<Rightarrow>
               (let (infoList', p) = remove_groups (NameId sgIID) reqs infoList;
                    c' = c\<lparr>securityInfoMap := (securityInfoMap c)(mockName \<mapsto> infoList')\<rparr>
                in case p of Some e \<Rightarrow> (Inl e, c') | None \<Rightarrow> (Inr True, c'))))"

definition MockListSecurityIID :: "string \<Rightarrow> (mock, IID list) prog" where
  "MockListSecurityIID mockName c =
     (case securityInfoMap c mockName of None \<Rightarrow> (Inr [], c) | Some infoList \<Rightarrow> (Inr (map sg_IId infoList), c))"

definition MockSecurityHandler :: "string \<Rightarrow> mock SecurityHandler" where
  "MockSecurityHandler mockName =
     \<lparr>sh_ListIID = MockListSecurityIID mockName, sh_CreateSecurity = MockCreateSecurity mockName,
      sh_ListSecurity = MockListSecurity mockName, sh_GetSecurity = MockGetSecurity mockName,
      sh_DeleteSecurity = MockDeleteSecurity mockName, sh_AddRules = MockAddRules mockName,
      sh_RemoveRules = MockRemoveRules mockName\<rparr>"

section \<open>VPCs\<close>

definition CloneSubnetInfo :: "SubnetInfo \<Rightarrow> SubnetInfo" where
  "CloneSubnetInfo srcInfo =
     \<lparr>subnet_IId = \<lparr>NameId = NameId (subnet_IId srcInfo), SystemId = SystemId (subnet_IId srcInfo)\<rparr>,
      subnet_Zone = subnet_Zone srcInfo, subnet_IPv4_CIDR = subnet_IPv4_CIDR srcInfo,
      subnet_TagList = subnet_TagList srcInfo, subnet_KeyValueList = subnet_KeyValueList srcInfo\<rparr>"

definition CloneVPCInfo :: "VPCInfo \<Rightarrow> VPCInfo" where
  "CloneVPCInfo srcInfo =
     \<lparr>vpc_IId = \<lparr>NameId = NameId (vpc_IId srcInfo), SystemId = SystemId (vpc_IId srcInfo)\<rparr>,
      vpc_IPv4_CIDR = vpc_IPv4_CIDR srcInfo, vpc_SubnetInfoList = map CloneSubnetInfo (vpc_SubnetInfoList srcInfo),
      vpc_TagList = vpc_TagList srcInfo, vpc_KeyValueList = vpc_KeyValueList srcInfo\<rparr>"

definition set_subnet_id :: "SubnetInfo \<Rightarrow> SubnetInfo" where
  "set_subnet_id s = s\<lparr>subnet_IId := (subnet_IId s)\<lparr>SystemId := NameId (subnet_IId s)\<rparr>\<rparr>"

definition MockCreateVPC :: "string \<Rightarrow> VPCReqInfo \<Rightarrow> (mock, VPCInfo) prog" where
  "MockCreateVPC mockName req c =
     (let vpcInfo = \<lparr>vpc_IId = (vpcReq_IId req)\<lparr>SystemId := NameId (vpcReq_IId req)\<rparr>,
            vpc_IPv4_CIDR = vpcReq_IPv4_CIDR req,
            vpc_SubnetInfoList = map set_subnet_id (vpcReq_SubnetInfoList req),
            vpc_TagList = vpcReq_TagList req, vpc_KeyValueList = []\<rparr>
      in (Inr (CloneVPCInfo vpcInfo),
          c\<lparr>vpcInfoMap := (vpcInfoMap c)(mockName \<mapsto> slice_of (vpcInfoMap c mockName) @ [vpcInfo])\<rparr>))"

definition MockListVPC :: "string \<Rightarrow> (mock, VPCInfo list) prog" where
  "MockListVPC mockName c =
     (case vpcInfoMap c mockName of None \<Rightarrow> (Inr [], c) | Some infoList \<Rightarrow> (Inr (map CloneVPCInfo infoList), c))"

definition vpc_missing :: "IID \<Rightarrow> go_error" where
  "vpc_missing iid = NameId iid @ '' VPC does not exist!!''"

definition MockGetVPC :: "string \<Rightarrow> IID \<Rightarrow> (mock, VPCInfo) prog" where
  "MockGetVPC mockName iid c =
     (case vpcInfoMap c mockName of
        None \<Rightarrow> (Inl (vpc_missing iid), c)
      | Some infoList \<Rightarrow>
          (case List.find (\<lambda>info. NameId (vpc_IId info) = NameId iid) infoList of
             Some info \<Rightarrow> (Inr (CloneVPCInfo info), c)
           | None \<Rightarrow> (Inl (vpc_missing iid), c)))"

definition MockDeleteVPC :: "string \<Rightarrow> IID \<Rightarrow> mock deletion" where
  "MockDeleteVPC mockName iid c =
     (case vpcInfoMap c mockName of
        None \<Rightarrow> ((False, Some (vpc_missing iid)), c)
      | Some infoList \<Rightarrow>
          if list_ex (\<lambda>info. SystemId (vpc_IId info) = SystemId iid) infoList
          then ((True, None), c\<lparr>vpcInfoMap := (vpcInfoMap c)(mockName \<mapsto>
                  remove_first (\<lambda>info. SystemId (vpc_IId info) = SystemId iid) infoList)\<rparr>)
          else ((False, None), c))"

definition MockAddSubnet :: "string \<Rightarrow> IID \<Rightarrow> SubnetInfo \<Rightarrow> (mock, VPCInfo) prog" where
  "MockAddSubnet mockName iid subnetInfo c =
     (case vpcInfoMap c mockName of
        None \<Rightarrow> (Inl (vpc_missing iid), c)
      | Some infoList \<Rightarrow>
          (case List.find (\<lambda>info. NameId (vpc_IId info) = NameId iid) infoList of
             None \<Rightarrow> (Inl (vpc_missing iid), c)
           | Some info \<Rightarrow>
               (let info' = info\<lparr>vpc_SubnetInfoList := vpc_SubnetInfoList info @ [set_subnet_id subnetInfo]\<rparr>
                in (Inr (CloneVPCInfo info'),
                    c\<lparr>vpcInfoMap := (vpcInfoMap c)(mockName \<mapsto>
                      update_first (\<lambda>i. NameId (vpc_IId i) = NameId iid) (\<lambda>_. info') infoList)\<rparr>))))"

text \<open>
  The first VPC of that name that has the subnet loses it; the loop goes on over later VPCs of the same name
  when the earlier ones do not have it.
\<close>

definition has_subnet :: "IID \<Rightarrow> IID \<Rightarrow> VPCInfo \<Rightarrow> bool" where
  "has_subnet iid subnetIID info \<longleftrightarrow>
     NameId (vpc_IId info) = NameId iid \<and>
     list_ex (\<lambda>s. SystemId (subnet_IId s) = SystemId subnetIID) (vpc_SubnetInfoList info)"

definition drop_subnet :: "IID \<Rightarrow> VPCInfo \<Rightarrow> VPCInfo" where
  "drop_subnet subnetIID info =
     info\<lparr>vpc_SubnetInfoList := remove_first (\<lambda>s. SystemId (subnet_IId s) = SystemId subnetIID) (vpc_SubnetInfoList info)\<rparr>"

definition MockRemoveSubnet :: "string \<Rightarrow> IID \<Rightarrow> IID \<Rightarrow> mock deletion" where
  "MockRemoveSubnet mockName iid subnetIID c =
     (case vpcInfoMap c mockName of
        None \<Rightarrow> ((False, Some (vpc_missing iid)), c)
      | Some infoList \<Rightarrow>
          if list_ex (has_subnet iid subnetIID) infoList
          then ((True, None), c\<lparr>vpcInfoMap := (vpcInfoMap c)(mockName \<mapsto>
                  update_first (has_subnet iid subnetIID) (drop_subnet subnetIID) infoList)\<rparr>)
          else ((False, None), c))"

definition MockListVPCIID :: "string \<Rightarrow> (mock, IID list) prog" where
  "MockListVPCIID mockName c =
     (case vpcInfoMap c mockName of None \<Rightarrow> (Inr [], c) | Some infoList \<Rightarrow> (Inr (map vpc_IId infoList), c))"

definition MockVPCHandler :: "string \<Rightarrow> mock VPCHandler" where
  "MockVPCHandler mockName =
     \<lparr>vh_ListIID = MockListVPCIID mockName, vh_CreateVPC = MockCreateVPC mockName, vh_ListVPC = MockListVPC mockName,
      vh_GetVPC = MockGetVPC mockName, vh_DeleteVPC = MockDeleteVPC mockName, vh_AddSubnet = MockAddSubnet mockName,
      vh_RemoveSubnet = MockRemoveSubnet mockName\<rparr>"

section \<open>Rules of a security group\<close>

lemma CloneSubnetInfo_id [simp]: "CloneSubnetInfo s = s"
  by (simp add: CloneSubnetInfo_def)

lemma Clone_id [simp]: "CloneKeyPairInfo k = k" "CloneSecurityInfo s = s" "CloneVPCInfo v = v"
  by (simp_all add: CloneKeyPairInfo_def CloneSecurityInfo_def CloneVPCInfo_def map_idI)

lemma isEqualRule_eq [simp]: "isEqualRule a b \<longleftrightarrow> a = b"
  by (cases a; cases b) (simp add: isEqualRule_def)

lemma first_some_None: "first_some f xs = None \<longleftrightarrow> (\<forall>x \<in> set xs. f x = None)"
  by (induction xs) (auto split: option.splits)

lemma remove_requests_once:
  assumes "distinct reqs" and "idx < length rules" and "rule = rules ! idx"
  shows "remove_requests idx rule reqs rules =
    (if rule \<in> set reqs then take idx rules @ drop (Suc idx) rules else rules, False)"
  using assms
proof (induction reqs arbitrary: rules)
  case (Cons q qs)
  show ?case
  proof (cases "rule = q")
    case True
    with Cons.prems have "rule \<notin> set qs" by simp
    have "remove_requests idx rule qs rs = (rs, False)" for rs
      using \<open>rule \<notin> set qs\<close> by (induction qs) auto
    with True Cons.prems show ?thesis by (simp add: removeRule_def)
  next
    case False
    with Cons show ?thesis by simp
  qed
qed simp

lemma remove_down_filter:
  assumes "distinct reqs"
  shows "remove_down (length xs) reqs (xs @ ys) = (filter (\<lambda>r. r \<notin> set reqs) xs @ ys, False)"
proof (induction xs arbitrary: ys rule: rev_induct)
  case (snoc x xs)
  have "remove_requests (length xs) x reqs (xs @ x # ys) = (if x \<in> set reqs then xs @ ys else xs @ x # ys, False)"
    using remove_requests_once[OF assms, of "length xs" "xs @ x # ys" x] by simp
  with snoc show ?case by simp
qed simp

text \<open>
  C36: The mock driver's removal of rules is set difference: when no rule is requested twice, exactly the
  requested rules leave the group and the others keep their order.
\<close>

theorem mock_remove_rules_difference:
  assumes "distinct reqs"
  shows "remove_down (length rules) reqs rules = (filter (\<lambda>r. r \<notin> set reqs) rules, False)"
  using remove_down_filter[OF assms, of rules "[]"] by simp

text \<open>
  A rule that is requested twice takes the rule behind it along, and panics when there is none: of a group
  with the rules \<open>a, b\<close>, asking to remove \<open>a\<close> twice removes both, and of a group with the only rule \<open>a\<close>
  it panics after removing it.
\<close>

theorem mock_remove_rules_twice:
  assumes "a \<noteq> b"
  shows "remove_down 2 [a, a] [a, b] = ([], False) \<and> remove_down 1 [a, a] [a] = ([], True)"
  using assms by (simp_all add: numeral_2_eq_2 removeRule_def)

section \<open>The handlers keep the contract\<close>

definition mock_keys :: "string \<Rightarrow> mock \<Rightarrow> KeyPairInfo list" where
  "mock_keys m c = slice_of (keyPairInfoMap c m)"

definition mock_sgs :: "string \<Rightarrow> mock \<Rightarrow> SecurityInfo list" where
  "mock_sgs m c = slice_of (securityInfoMap c m)"

definition mock_vpcs :: "string \<Rightarrow> mock \<Rightarrow> VPCInfo list" where
  "mock_vpcs m c = slice_of (vpcInfoMap c m)"

lemma slice_of_simps [simp]: "slice_of None = []" "slice_of (Some l) = l"
  by (simp_all add: slice_of_def)

lemma res_in_Nil [simp]: "res_in iid [] = Map.empty"
  by (auto simp: res_in_def)

lemma new_name: "\<forall>i \<in> D. NameId i \<noteq> NameId j \<Longrightarrow> j \<notin> D"
  by blast

text \<open>A new resource in a list of resources, and one removed from it.\<close>

lemma res_in_new:
  assumes "ids_ok iid l" and "\<forall>i \<in> dom (res_in iid l). NameId i \<noteq> NameId (iid x)"
    and "SystemId (iid x) = NameId (iid x)"
  shows "ids_ok iid (l @ [x])" and "iid x \<notin> dom (res_in iid l)" and "res_in iid (l @ [x]) = (res_in iid l)(iid x \<mapsto> x)"
  using assms by (auto simp: ids_ok_append dom_res_in intro!: res_in_append)

lemma res_in_removed:
  assumes "ids_ok iid l" and "res_in iid l i = Some x"
  shows "list_ex (\<lambda>y. SystemId (iid y) = SystemId i) l"
    and "ids_ok iid (remove_first (\<lambda>y. SystemId (iid y) = SystemId i) l)"
    and "res_in iid (remove_first (\<lambda>y. SystemId (iid y) = SystemId i) l) = (res_in iid l)(i := None)"
  using res_in_Some[OF assms(2)] assms
  by (auto simp: list_ex_iff remove_SystemId[OF assms] ids_ok_filter res_in_filter)

interpretation mock_key: csp_resource "\<lambda>c. ids_ok key_IId (mock_keys m c)" "\<lambda>c. res_in key_IId (mock_keys m c)"
    key_IId "\<lambda>r. NameId (keyReq_IId r)" "MockCreateKey m" "MockGetKey m" "MockDeleteKey m" "MockListKeyIID m"
  for m :: string
proof unfold_locales
  fix c and r :: KeyPairReqInfo
  assume "ids_ok key_IId (mock_keys m c)"
    and "\<forall>i\<in>dom (res_in key_IId (mock_keys m c)). NameId i \<noteq> NameId (keyReq_IId r)"
  then show "wp (MockCreateKey m r)
      (\<lambda>info c'. ids_ok key_IId (mock_keys m c') \<and> NameId (key_IId info) = NameId (keyReq_IId r) \<and>
         key_IId info \<notin> dom (res_in key_IId (mock_keys m c)) \<and>
         res_in key_IId (mock_keys m c') = (res_in key_IId (mock_keys m c))(key_IId info \<mapsto> info))
      (\<lambda>_ c'. ids_ok key_IId (mock_keys m c') \<and> res_in key_IId (mock_keys m c') = res_in key_IId (mock_keys m c)) c"
    by (simp add: wp_def MockCreateKey_def mock_keys_def Let_def res_in_new) (rule new_name, simp)
next
  fix c i info
  assume "ids_ok key_IId (mock_keys m c)" and "res_in key_IId (mock_keys m c) i = Some info"
  then show "MockGetKey m i c = (Inr info, c)"
    using find_name[of key_IId "mock_keys m c" i info]
    by (cases "keyPairInfoMap c m") (simp_all add: MockGetKey_def mock_keys_def)
next
  fix c i info
  assume "ids_ok key_IId (mock_keys m c)" and "res_in key_IId (mock_keys m c) i = Some info"
  then show "\<exists>c'. MockDeleteKey m i c = ((True, None), c') \<and> ids_ok key_IId (mock_keys m c') \<and>
      res_in key_IId (mock_keys m c') = (res_in key_IId (mock_keys m c))(i := None)"
    using res_in_removed[of key_IId "mock_keys m c" i info]
    by (cases "keyPairInfoMap c m") (simp_all add: MockDeleteKey_def mock_keys_def)
next
  fix c
  show "\<exists>l. MockListKeyIID m c = (Inr l, c) \<and> set l = dom (res_in key_IId (mock_keys m c))"
    by (cases "keyPairInfoMap c m") (simp_all add: MockListKeyIID_def mock_keys_def dom_res_in)
next
  fix c i info
  assume "res_in key_IId (mock_keys m c) i = Some info"
  then show "key_IId info = i" by (simp add: res_in_Some)
qed

interpretation mock_sg: csp_resource "\<lambda>c. ids_ok sg_IId (mock_sgs m c)" "\<lambda>c. res_in sg_IId (mock_sgs m c)"
    sg_IId "\<lambda>r. NameId (sgReq_IId r)" "MockCreateSecurity m" "MockGetSecurity m" "MockDeleteSecurity m"
    "MockListSecurityIID m"
  for m :: string
proof unfold_locales
  fix c and r :: SecurityReqInfo
  assume "ids_ok sg_IId (mock_sgs m c)"
    and "\<forall>i\<in>dom (res_in sg_IId (mock_sgs m c)). NameId i \<noteq> NameId (sgReq_IId r)"
  then show "wp (MockCreateSecurity m r)
      (\<lambda>info c'. ids_ok sg_IId (mock_sgs m c') \<and> NameId (sg_IId info) = NameId (sgReq_IId r) \<and>
         sg_IId info \<notin> dom (res_in sg_IId (mock_sgs m c)) \<and>
         res_in sg_IId (mock_sgs m c') = (res_in sg_IId (mock_sgs m c))(sg_IId info \<mapsto> info))
      (\<lambda>_ c'. ids_ok sg_IId (mock_sgs m c') \<and> res_in sg_IId (mock_sgs m c') = res_in sg_IId (mock_sgs m c)) c"
    by (simp add: wp_def MockCreateSecurity_def mock_sgs_def Let_def res_in_new) (rule new_name, simp)
next
  fix c i info
  assume "ids_ok sg_IId (mock_sgs m c)" and "res_in sg_IId (mock_sgs m c) i = Some info"
  then show "MockGetSecurity m i c = (Inr info, c)"
    using find_name[of sg_IId "mock_sgs m c" i info]
    by (cases "securityInfoMap c m") (simp_all add: MockGetSecurity_def mock_sgs_def)
next
  fix c i info
  assume "ids_ok sg_IId (mock_sgs m c)" and "res_in sg_IId (mock_sgs m c) i = Some info"
  then show "\<exists>c'. MockDeleteSecurity m i c = ((True, None), c') \<and> ids_ok sg_IId (mock_sgs m c') \<and>
      res_in sg_IId (mock_sgs m c') = (res_in sg_IId (mock_sgs m c))(i := None)"
    using res_in_removed[of sg_IId "mock_sgs m c" i info]
    by (cases "securityInfoMap c m") (simp_all add: MockDeleteSecurity_def mock_sgs_def)
next
  fix c
  show "\<exists>l. MockListSecurityIID m c = (Inr l, c) \<and> set l = dom (res_in sg_IId (mock_sgs m c))"
    by (cases "securityInfoMap c m") (simp_all add: MockListSecurityIID_def mock_sgs_def dom_res_in)
next
  fix c i info
  assume "res_in sg_IId (mock_sgs m c) i = Some info"
  then show "sg_IId info = i" by (simp add: res_in_Some)
qed

interpretation mock_vpc: csp_resource "\<lambda>c. ids_ok vpc_IId (mock_vpcs m c)" "\<lambda>c. res_in vpc_IId (mock_vpcs m c)"
    vpc_IId "\<lambda>r. NameId (vpcReq_IId r)" "MockCreateVPC m" "MockGetVPC m" "MockDeleteVPC m" "MockListVPCIID m"
  for m :: string
proof unfold_locales
  fix c and r :: VPCReqInfo
  assume "ids_ok vpc_IId (mock_vpcs m c)"
    and "\<forall>i\<in>dom (res_in vpc_IId (mock_vpcs m c)). NameId i \<noteq> NameId (vpcReq_IId r)"
  then show "wp (MockCreateVPC m r)
      (\<lambda>info c'. ids_ok vpc_IId (mock_vpcs m c') \<and> NameId (vpc_IId info) = NameId (vpcReq_IId r) \<and>
         vpc_IId info \<notin> dom (res_in vpc_IId (mock_vpcs m c)) \<and>
         res_in vpc_IId (mock_vpcs m c') = (res_in vpc_IId (mock_vpcs m c))(vpc_IId info \<mapsto> info))
      (\<lambda>_ c'. ids_ok vpc_IId (mock_vpcs m c') \<and> res_in vpc_IId (mock_vpcs m c') = res_in vpc_IId (mock_vpcs m c)) c"
    by (simp add: wp_def MockCreateVPC_def mock_vpcs_def Let_def res_in_new) (rule new_name, simp)
next
  fix c i info
  assume "ids_ok vpc_IId (mock_vpcs m c)" and "res_in vpc_IId (mock_vpcs m c) i = Some info"
  then show "MockGetVPC m i c = (Inr info, c)"
    using find_name[of vpc_IId "mock_vpcs m c" i info]
    by (cases "vpcInfoMap c m") (simp_all add: MockGetVPC_def mock_vpcs_def)
next
  fix c i info
  assume "ids_ok vpc_IId (mock_vpcs m c)" and "res_in vpc_IId (mock_vpcs m c) i = Some info"
  then show "\<exists>c'. MockDeleteVPC m i c = ((True, None), c') \<and> ids_ok vpc_IId (mock_vpcs m c') \<and>
      res_in vpc_IId (mock_vpcs m c') = (res_in vpc_IId (mock_vpcs m c))(i := None)"
    using res_in_removed[of vpc_IId "mock_vpcs m c" i info]
    by (cases "vpcInfoMap c m") (simp_all add: MockDeleteVPC_def mock_vpcs_def)
next
  fix c
  show "\<exists>l. MockListVPCIID m c = (Inr l, c) \<and> set l = dom (res_in vpc_IId (mock_vpcs m c))"
    by (cases "vpcInfoMap c m") (simp_all add: MockListVPCIID_def mock_vpcs_def dom_res_in)
next
  fix c i info
  assume "res_in vpc_IId (mock_vpcs m c) i = Some info"
  then show "vpc_IId info = i" by (simp add: res_in_Some)
qed

section \<open>Adding and removing rules\<close>

lemma ids_ok_split:
  assumes "ids_ok iid l" and "res_in iid l i = Some x"
  obtains xs ys where "l = xs @ x # ys" and "\<forall>y \<in> set xs \<union> set ys. NameId (iid y) \<noteq> NameId i"
proof -
  from assms(2) have x: "x \<in> set l" "iid x = i" by (auto dest: res_in_Some)
  then obtain xs ys where l: "l = xs @ x # ys" by (auto simp: in_set_conv_decomp)
  have "NameId (iid y) \<noteq> NameId i" if "y \<in> set xs \<union> set ys" for y
  proof -
    from assms(1) l have "distinct (map (NameId \<circ> iid) (xs @ x # ys))" by (simp add: ids_ok_def)
    then have "(NameId \<circ> iid) x \<notin> (NameId \<circ> iid) ` (set xs \<union> set ys)" by auto
    with that x(2) show ?thesis by (metis comp_apply image_eqI)
  qed
  with l that show thesis by blast
qed

lemma update_first_split: "\<forall>y \<in> set xs. \<not> p y \<Longrightarrow> p x \<Longrightarrow> update_first p f (xs @ x # ys) = xs @ f x # ys"
  by (induction xs) auto

lemma remove_groups_others: "\<forall>y \<in> set xs. NameId (sg_IId y) \<noteq> n \<Longrightarrow>
    remove_groups n reqs (xs @ zs) = (xs @ fst (remove_groups n reqs zs), snd (remove_groups n reqs zs))"
  by (induction xs) (auto split: prod.split)

lemma remove_groups_none: "\<forall>y \<in> set xs. NameId (sg_IId y) \<noteq> n \<Longrightarrow> remove_groups n reqs xs = (xs, None)"
  by (induction xs) auto

lemma find_split: "\<forall>y \<in> set xs. \<not> p y \<Longrightarrow> p x \<Longrightarrow> List.find p (xs @ x # ys) = Some x"
  by (induction xs) auto

lemma find_none: "(\<And>x. x \<in> set xs \<Longrightarrow> \<not> p x) \<Longrightarrow> List.find p xs = None"
  by (simp add: find_None_iff)

text \<open>
  C38: Adding rules to a group of the mock driver and removing them again gives back the driver's state as it was,
  when the groups of this mock have distinct names, which are their identifiers, the rules are new to the group and
  no rule is requested twice. (A rule requested twice makes the removal panic: \<open>mock_remove_rules_twice\<close>.)
\<close>

theorem mock_add_remove_rules:
  assumes "ids_ok sg_IId (mock_sgs m c)" and "res_in sg_IId (mock_sgs m c) i = Some sg"
    and "sg_SecurityRules sg = Some rules" and "distinct reqs" and "set rules \<inter> set reqs = {}"
  shows "\<exists>c'. MockAddRules m i reqs c = (Inr (sg\<lparr>sg_SecurityRules := Some (rules @ reqs)\<rparr>), c') \<and>
    MockRemoveRules m i reqs c' = (Inr True, c)"
proof -
  let ?n = "NameId i"
  define sg' where "sg' = sg\<lparr>sg_SecurityRules := Some (rules @ reqs)\<rparr>"
  obtain xs ys where l: "mock_sgs m c = xs @ sg # ys" and o: "\<forall>y \<in> set xs \<union> set ys. NameId (sg_IId y) \<noteq> ?n"
    using ids_ok_split[OF assms(1,2)] by blast
  have sg: "NameId (sg_IId sg) = ?n" using res_in_Some[OF assms(2)] by simp
  have m: "securityInfoMap c m = Some (xs @ sg # ys)"
    using l by (cases "securityInfoMap c m") (simp_all add: mock_sgs_def)
  have "first_some (add_conflict ?n reqs) (xs @ sg # ys) = None"
    using o assms(3,5) by (auto simp: first_some_None add_conflict_def list_ex_iff intro!: find_none)
  then have add: "MockAddRules m i reqs c = (Inr sg', c\<lparr>securityInfoMap := (securityInfoMap c)(m \<mapsto> xs @ sg' # ys)\<rparr>)"
    using o sg assms(3) by (simp add: MockAddRules_def m find_split update_first_split sg'_def Let_def)
  have "first_some (remove_conflict ?n reqs) (xs @ sg' # ys) = None"
    using o by (auto simp: first_some_None remove_conflict_def sg'_def list_ex_iff intro!: find_none)
  moreover have "remove_groups ?n reqs (xs @ sg' # ys) = (xs @ sg # ys, None)"
  proof -
    have "remove_down (length (rules @ reqs)) reqs (rules @ reqs) = (rules, False)"
      using remove_down_filter[OF assms(4), of "rules @ reqs" "[]"] assms(5) by (auto simp: filter_id_conv)
    then have "remove_groups ?n reqs (sg' # ys) = (sg # ys, None)"
      using o sg assms(3) by (simp add: sg'_def remove_groups_none)
    then show ?thesis using o by (simp add: remove_groups_others)
  qed
  ultimately have "MockRemoveRules m i reqs (c\<lparr>securityInfoMap := (securityInfoMap c)(m \<mapsto> xs @ sg' # ys)\<rparr>) = (Inr True, c)"
    by (simp add: MockRemoveRules_def m[symmetric])
  with add show ?thesis by (auto simp: sg'_def)
qed

section \<open>Concrete runs\<close>

definition mk_rule :: "string \<Rightarrow> SecurityRuleInfo" where
  "mk_rule p = \<lparr>rule_Direction = ''inbound'', rule_IPProtocol = ''TCP'', rule_FromPort = p, rule_ToPort = p, rule_CIDR = ''0.0.0.0/0''\<rparr>"

lemma mk_rules: "distinct [mk_rule ''22'', mk_rule ''80'']" "mk_rule ''22'' \<noteq> mk_rule ''80''"
  "set [mk_rule ''443''] \<inter> set [mk_rule ''22'', mk_rule ''80''] = {}"
  by (simp_all add: mk_rule_def)

lemma mock_remove_rules_difference_witness:
  "remove_down (length [mk_rule ''22'', mk_rule ''443'', mk_rule ''80'']) [mk_rule ''22'', mk_rule ''80'']
     [mk_rule ''22'', mk_rule ''443'', mk_rule ''80''] = ([mk_rule ''443''], False)"
  using mock_remove_rules_difference[OF mk_rules(1), of "[mk_rule ''22'', mk_rule ''443'', mk_rule ''80'']"]
  by (simp add: mk_rule_def)

lemma mock_remove_rules_twice_witness:
  "remove_down 2 [mk_rule ''22'', mk_rule ''22''] [mk_rule ''22'', mk_rule ''80''] = ([], False) \<and>
   remove_down 1 [mk_rule ''22'', mk_rule ''22''] [mk_rule ''22''] = ([], True)"
  by (rule mock_remove_rules_twice[OF mk_rules(2)])

definition mk_sg :: SecurityInfo where
  "mk_sg = \<lparr>sg_IId = \<lparr>NameId = ''sg'', SystemId = ''sg''\<rparr>, sg_VpcIID = \<lparr>NameId = ''v'', SystemId = ''v''\<rparr>,
     sg_SecurityRules = Some [mk_rule ''443''], sg_TagList = [], sg_KeyValueList = []\<rparr>"

lemma mock_add_remove_rules_witness:
  "\<exists>c'. MockAddRules ''m'' (sg_IId mk_sg) [mk_rule ''22'', mk_rule ''80''] (mock_init\<lparr>securityInfoMap := [''m'' \<mapsto> [mk_sg]]\<rparr>) =
      (Inr (mk_sg\<lparr>sg_SecurityRules := Some [mk_rule ''443'', mk_rule ''22'', mk_rule ''80'']\<rparr>), c') \<and>
    MockRemoveRules ''m'' (sg_IId mk_sg) [mk_rule ''22'', mk_rule ''80''] c' = (Inr True, mock_init\<lparr>securityInfoMap := [''m'' \<mapsto> [mk_sg]]\<rparr>)"
proof -
  let ?c = "mock_init\<lparr>securityInfoMap := [''m'' \<mapsto> [mk_sg]]\<rparr>"
  have "ids_ok sg_IId (mock_sgs ''m'' ?c)" and "res_in sg_IId (mock_sgs ''m'' ?c) (sg_IId mk_sg) = Some mk_sg"
    by (simp_all add: mock_sgs_def ids_ok_def res_in_def mk_sg_def)
  moreover have "sg_SecurityRules mk_sg = Some [mk_rule ''443'']" by (simp add: mk_sg_def)
  ultimately show ?thesis using mock_add_remove_rules[OF _ _ _ mk_rules(1,3)] by fastforce
qed

end
