(* ===== verification/MockCompute.thy ===== *)
theory MockCompute
  imports MockDriver
begin

text \<open>
  The mock driver's handlers of disks, images, VM specs, private images and virtual machines. A disk knows the VM
  that owns it and a VM the disks attached to it; the two handlers keep the two sides in step through the helper
  functions \<open>diskAttach\<close>, \<open>diskDetach\<close>, \<open>justAttachDisk\<close> and \<open>justDetachDisk\<close>.
\<close>

definition tick :: "mock \<Rightarrow> mock" where
  "tick c = c\<lparr>mock_clock := Suc (mock_clock c)\<rparr>"

section \<open>Disks inside virtual machines\<close>

definition vm_missing :: "IID \<Rightarrow> go_error" where
  "vm_missing iid = NameId iid @ '' vm iid does not exist!!''"

definition diskAttach :: "string \<Rightarrow> IID \<Rightarrow> IID \<Rightarrow> (mock, bool) prog" where
  "diskAttach mockName iid diskIID c =
     (case vmInfoMap c mockName of
        None \<Rightarrow> (Inl (vm_missing iid), c)
      | Some infoList \<Rightarrow>
          if list_ex (\<lambda>info. SystemId (vm_IId info) = SystemId iid) infoList
          then (Inr True, c\<lparr>vmInfoMap := (vmInfoMap c)(mockName \<mapsto>
                 update_first (\<lambda>info. SystemId (vm_IId info) = SystemId iid)
                   (\<lambda>info. info\<lparr>vm_DataDiskIIDs := vm_DataDiskIIDs info @ [diskIID]\<rparr>) infoList)\<rparr>)
          else (Inl (vm_missing iid), c))"

text \<open>The first VM of that name that has the disk loses it.\<close>

definition vm_has_disk :: "IID \<Rightarrow> IID \<Rightarrow> VMInfo \<Rightarrow> bool" where
  "vm_has_disk iid diskIID info \<longleftrightarrow>
     NameId (vm_IId info) = NameId iid \<and> list_ex (\<lambda>oneIID. SystemId oneIID = SystemId diskIID) (vm_DataDiskIIDs info)"

definition diskDetach :: "string \<Rightarrow> IID \<Rightarrow> IID \<Rightarrow> (mock, bool) prog" where
  "diskDetach mockName iid diskIID c =
     (case vmInfoMap c mockName of
        None \<Rightarrow> (Inl (vm_missing iid), c)
      | Some infoList \<Rightarrow>
          if list_ex (vm_has_disk iid diskIID) infoList
          then (Inr True, c\<lparr>vmInfoMap := (vmInfoMap c)(mockName \<mapsto>
                 update_first (vm_has_disk iid diskIID)
                   (\<lambda>info. info\<lparr>vm_DataDiskIIDs := remove_first (\<lambda>oneIID. SystemId oneIID = SystemId diskIID) (vm_DataDiskIIDs info)\<rparr>)
                   infoList)\<rparr>)
          else (Inl (vm_missing iid), c))"

section \<open>Disks\<close>

definition disk_missing :: "IID \<Rightarrow> go_error" where
  "disk_missing iid = NameId iid @ '' Disk does not exist!!''"

text \<open>The clone leaves the zone out.\<close>

definition CloneDiskInfo :: "DiskInfo \<Rightarrow> DiskInfo" where
  "CloneDiskInfo srcInfo =
     \<lparr>disk_IId = \<lparr>NameId = NameId (disk_IId srcInfo), SystemId = SystemId (disk_IId srcInfo)\<rparr>, disk_Zone = [],
      disk_DiskType = disk_DiskType srcInfo, disk_DiskSize = disk_DiskSize srcInfo, disk_Status = disk_Status srcInfo,
      disk_OwnerVM = \<lparr>NameId = NameId (disk_OwnerVM srcInfo), SystemId = SystemId (disk_OwnerVM srcInfo)\<rparr>,
      disk_CreatedTime = disk_CreatedTime srcInfo, disk_TagList = disk_TagList srcInfo,
      disk_KeyValueList = disk_KeyValueList srcInfo\<rparr>"

definition MockCreateDisk :: "string \<Rightarrow> DiskInfo \<Rightarrow> (mock, DiskInfo) prog" where
  "MockCreateDisk mockName req c =
     (let info = req\<lparr>disk_IId := (disk_IId req)\<lparr>SystemId := NameId (disk_IId req)\<rparr>, disk_Status := DiskAvailable,
            disk_CreatedTime := mock_clock c,
            disk_DiskType := (if disk_DiskType req = ''default'' \<or> disk_DiskType req = [] then ''SSD'' else disk_DiskType req),
            disk_DiskSize := (if disk_DiskSize req = ''default'' \<or> disk_DiskSize req = [] then ''512'' else disk_DiskSize req)\<rparr>
      in (Inr (CloneDiskInfo info),
          (tick c)\<lparr>diskInfoMap := (diskInfoMap c)(mockName \<mapsto> slice_of (diskInfoMap c mockName) @ [info])\<rparr>))"

definition MockListDisk :: "string \<Rightarrow> (mock, DiskInfo list) prog" where
  "MockListDisk mockName c =
     (case diskInfoMap c mockName of None \<Rightarrow> (Inr [], c) | Some infoList \<Rightarrow> (Inr (map CloneDiskInfo infoList), c))"

definition named_disk :: "IID \<Rightarrow> DiskInfo \<Rightarrow> bool" where
  "named_disk iid info \<longleftrightarrow> NameId (disk_IId info) = NameId iid"

text \<open>The loops that look a disk up by its name: an error when there is none, else what \<open>k\<close> does with it.\<close>

definition with_disk :: "string \<Rightarrow> IID \<Rightarrow> (DiskInfo \<Rightarrow> DiskInfo list \<Rightarrow> (mock, 'a) prog) \<Rightarrow> (mock, 'a) prog" where
  "with_disk mockName iid k c =
     (case diskInfoMap c mockName of
        None \<Rightarrow> (Inl (disk_missing iid), c)
      | Some infoList \<Rightarrow>
          (case List.find (named_disk iid) infoList of
             None \<Rightarrow> (Inl (disk_missing iid), c)
           | Some info \<Rightarrow> k info infoList c))"

definition MockGetDisk :: "string \<Rightarrow> IID \<Rightarrow> (mock, DiskInfo) prog" where
  "MockGetDisk mockName iid = with_disk mockName iid (\<lambda>info infoList. ret (CloneDiskInfo info))"

definition set_disk :: "string \<Rightarrow> IID \<Rightarrow> DiskInfo \<Rightarrow> DiskInfo list \<Rightarrow> mock \<Rightarrow> mock" where
  "set_disk mockName iid info infoList c =
     c\<lparr>diskInfoMap := (diskInfoMap c)(mockName \<mapsto> update_first (named_disk iid) (\<lambda>_. info) infoList)\<rparr>"

definition MockChangeDiskSize :: "string \<Rightarrow> IID \<Rightarrow> string \<Rightarrow> (mock, bool) prog" where
  "MockChangeDiskSize mockName iid size' =
     with_disk mockName iid (\<lambda>info infoList c.
       (Inr True, set_disk mockName iid (info\<lparr>disk_DiskSize := size'\<rparr>) infoList c))"

definition MockDeleteDisk :: "string \<Rightarrow> IID \<Rightarrow> mock deletion" where
  "MockDeleteDisk mockName iid c =
     (case diskInfoMap c mockName of
        None \<Rightarrow> ((False, Some (disk_missing iid)), c)
      | Some infoList \<Rightarrow>
          (case List.find (\<lambda>info. SystemId (disk_IId info) = SystemId iid) infoList of
             None \<Rightarrow> ((False, None), c)
           | Some info \<Rightarrow>
               (let c1 = (if NameId (disk_OwnerVM info) \<noteq> [] then snd (diskDetach mockName (disk_OwnerVM info) iid c) else c)
                in ((True, None), c1\<lparr>diskInfoMap := (diskInfoMap c1)(mockName \<mapsto>
                     remove_first (\<lambda>info. SystemId (disk_IId info) = SystemId iid) infoList)\<rparr>))))"

definition MockAttachDisk :: "string \<Rightarrow> IID \<Rightarrow> IID \<Rightarrow> (mock, DiskInfo) prog" where
  "MockAttachDisk mockName diskIID ownerVM =
     with_disk mockName diskIID (\<lambda>info infoList c.
       if disk_Status info = DiskAttached then (Inl (NameId diskIID @ '' Disk is already Attached status!!''), c)
       else if disk_Status info \<noteq> DiskAvailable
       then (Inl (NameId diskIID @ '' Disk is not Available status!! It is '' @ disk_Status info @ '' status''), c)
       else
         (let info' = info\<lparr>disk_OwnerVM := ownerVM, disk_Status := DiskAttached\<rparr>
          in (Inr (CloneDiskInfo info'), snd (diskAttach mockName ownerVM diskIID (set_disk mockName diskIID info' infoList c)))))"

definition not_attached :: "IID \<Rightarrow> string \<Rightarrow> go_error" where
  "not_attached diskIID status = NameId diskIID @ '' Disk is not Attached status!!. It is '' @ status @ '' status''"

definition MockDetachDisk :: "string \<Rightarrow> IID \<Rightarrow> IID \<Rightarrow> (mock, bool) prog" where
  "MockDetachDisk mockName diskIID ownerVM =
     with_disk mockName diskIID (\<lambda>info infoList c.
       if disk_Status info \<noteq> DiskAttached then (Inl (not_attached diskIID (disk_Status info)), c)
       else (Inr True, set_disk mockName diskIID (info\<lparr>disk_Status := DiskAvailable, disk_OwnerVM := IID_zero\<rparr>) infoList
         (snd (diskDetach mockName ownerVM diskIID c))))"

definition justAttachDisk :: "string \<Rightarrow> IID \<Rightarrow> IID \<Rightarrow> (mock, bool) prog" where
  "justAttachDisk mockName diskIID ownerVM =
     with_disk mockName diskIID (\<lambda>info infoList c.
       if disk_Status info \<noteq> DiskAvailable
       then (Inl (NameId diskIID @ '' Disk is not Available status!!. It is '' @ disk_Status info @ '' status''), c)
       else (Inr True, set_disk mockName diskIID (info\<lparr>disk_Status := DiskAttached, disk_OwnerVM := ownerVM\<rparr>) infoList c))"

definition justDetachDisk :: "string \<Rightarrow> IID \<Rightarrow> IID \<Rightarrow> (mock, bool) prog" where
  "justDetachDisk mockName diskIID ownerVM =
     with_disk mockName diskIID (\<lambda>info infoList c.
       if disk_Status info \<noteq> DiskAttached then (Inl (not_attached diskIID (disk_Status info)), c)
       else (Inr True, set_disk mockName diskIID (info\<lparr>disk_Status := DiskAvailable, disk_OwnerVM := IID_zero\<rparr>) infoList c))"

definition MockListDiskIID :: "string \<Rightarrow> (mock, IID list) prog" where
  "MockListDiskIID mockName c =
     (case diskInfoMap c mockName of None \<Rightarrow> (Inr [], c) | Some infoList \<Rightarrow> (Inr (map disk_IId infoList), c))"

definition MockDiskHandler :: "string \<Rightarrow> mock DiskHandler" where
  "MockDiskHandler mockName =
     \<lparr>dh_ListIID = MockListDiskIID mockName, dh_CreateDisk = MockCreateDisk mockName, dh_ListDisk = MockListDisk mockName,
      dh_GetDisk = MockGetDisk mockName, dh_ChangeDiskSize = MockChangeDiskSize mockName, dh_DeleteDisk = MockDeleteDisk mockName,
      dh_AttachDisk = MockAttachDisk mockName, dh_DetachDisk = MockDetachDisk mockName\<rparr>"

section \<open>Images and VM specs\<close>

definition prepared_image :: "string \<Rightarrow> string \<Rightarrow> string \<Rightarrow> string \<Rightarrow> string \<Rightarrow> string \<Rightarrow> ImageInfo" where
  "prepared_image n name arch platform dist size' =
     \<lparr>img_IId = \<lparr>NameId = n, SystemId = n\<rparr>, img_Name = name, img_OSArchitecture = arch, img_OSPlatform = platform,
      img_OSDistribution = dist, img_OSDiskType = ''gp3'', img_OSDiskSizeGB = size', img_ImageStatus = ''Available'',
      img_KeyValueList = []\<rparr>"

text \<open>The map's value is the nil slice or it is not; a list once emptied by \<open>DeleteImage\<close> is not nil.\<close>

definition PrepareVMImage :: "string \<Rightarrow> mock \<Rightarrow> mock" where
  "PrepareVMImage mockName c =
     (if imgInfoMap c mockName \<noteq> None then c
      else c\<lparr>imgInfoMap := (imgInfoMap c)(mockName \<mapsto>
        [prepared_image ''mock-vmimage-01'' ''mock-vmimage-name-01'' ''x86_64'' ''Linux/UNIX'' ''Ubuntu 18.04'' ''35'',
         prepared_image ''mock-vmimage-02'' ''mock-vmimage-name-02'' ''arm64'' ''Linux/UNIX'' ''CentOS 8'' ''40'',
         prepared_image ''mock-vmimage-03'' ''mock-vmimage-name-03'' ''x86_64'' ''Windows'' ''Windows Server 2019'' ''50'',
         prepared_image ''mock-vmimage-04'' ''mock-vmimage-name-04'' ''arm64'' ''Linux/UNIX'' ''Ubuntu 22.04'' ''35'',
         prepared_image ''mock-vmimage-05'' ''mock-vmimage-name-05'' ''x86_64'' ''Linux/UNIX'' ''Amazon Linux 2'' ''30''])\<rparr>)"

definition MockCreateImage :: "string \<Rightarrow> IID \<Rightarrow> (mock, ImageInfo) prog" where
  "MockCreateImage mockName reqIId c =
     (let imageInfo = prepared_image (NameId reqIId) ''test-image-name'' ''x86_64'' ''Linux/UNIX'' ''Ubuntu 18.04'' ''35''
      in (Inr imageInfo, c\<lparr>imgInfoMap := (imgInfoMap c)(mockName \<mapsto> slice_of (imgInfoMap c mockName) @ [imageInfo])\<rparr>))"

definition MockListImage :: "string \<Rightarrow> (mock, ImageInfo list) prog" where
  "MockListImage mockName c =
     (case imgInfoMap c mockName of None \<Rightarrow> (Inr [], c) | Some imgInfoList \<Rightarrow> (Inr imgInfoList, c))"

definition MockGetImage :: "string \<Rightarrow> IID \<Rightarrow> (mock, ImageInfo) prog" where
  "MockGetImage mockName imageIID =
     bindP (MockListImage mockName) (\<lambda>imgInfoList.
     case List.find (\<lambda>info. NameId (img_IId info) = NameId imageIID) imgInfoList of
       Some info \<Rightarrow> ret info
     | None \<Rightarrow> throw (NameId imageIID @ '' image does not exist!!''))"

definition MockDeleteImage :: "string \<Rightarrow> IID \<Rightarrow> mock deletion" where
  "MockDeleteImage mockName imageIID c =
     (let imgInfoList = slice_of (imgInfoMap c mockName)
      in if list_ex (\<lambda>info. SystemId (img_IId info) = SystemId imageIID) imgInfoList
         then ((True, None), c\<lparr>imgInfoMap := (imgInfoMap c)(mockName \<mapsto>
                remove_first (\<lambda>info. SystemId (img_IId info) = SystemId imageIID) imgInfoList)\<rparr>)
         else ((False, None), c))"

definition prepared_spec :: "string \<Rightarrow> string \<Rightarrow> string \<Rightarrow> string \<Rightarrow> GpuInfo list \<Rightarrow> AcceleratorInfo list \<Rightarrow> VMSpecInfo" where
  "prepared_spec name count clock mem gpu acc =
     \<lparr>spec_Region = ''common-region'', spec_Name = name, spec_VCpu = \<lparr>vcpu_Count = count, vcpu_ClockGHz = clock\<rparr>,
      spec_MemSizeMiB = mem, spec_DiskSizeGB = ''-1'', spec_Gpu = gpu, spec_Accelerator = acc, spec_KeyValueList = []\<rparr>"

definition v100 :: "string \<Rightarrow> string \<Rightarrow> GpuInfo" where
  "v100 count tot = \<lparr>gpu_Count = count, gpu_Mfr = ''NVIDIA'', gpu_Model = ''V100'', gpu_MemSizeGB = ''512'', gpu_TotalMemSizeGB = tot\<rparr>"

definition v100_acc :: "string \<Rightarrow> string \<Rightarrow> AcceleratorInfo" where
  "v100_acc count tot = \<lparr>acc_Type = ''GPU'', acc_Mfr = ''NVIDIA'', acc_Model = ''V100'', acc_Count = count, acc_Fraction = [],
     acc_MemSizeGB = ''512'', acc_TotalMemSizeGB = tot\<rparr>"

definition PrepareVMSpec :: "string \<Rightarrow> mock \<Rightarrow> mock" where
  "PrepareVMSpec mockName c =
     (if vmSpecInfoMap c mockName \<noteq> None then c
      else c\<lparr>vmSpecInfoMap := (vmSpecInfoMap c)(mockName \<mapsto>
        [prepared_spec ''mock-vmspec-01'' ''4'' ''2.7'' ''32768'' [v100 ''2'' ''1024''] [v100_acc ''2'' ''1024''],
         prepared_spec ''mock-vmspec-02'' ''4'' ''3.2'' ''32768'' [v100 ''1'' ''512''] [v100_acc ''1'' ''512''],
         prepared_spec ''mock-vmspec-03'' ''8'' ''2.7'' ''62464'' [] [],
         prepared_spec ''mock-vmspec-04'' ''8'' ''2.7'' ''1024'' [] []])\<rparr>)"

definition MockListVMSpec :: "string \<Rightarrow> (mock, VMSpecInfo list) prog" where
  "MockListVMSpec mockName c =
     (case vmSpecInfoMap c mockName of None \<Rightarrow> (Inr [], c) | Some infoList \<Rightarrow> (Inr infoList, c))"

definition MockGetVMSpec :: "string \<Rightarrow> string \<Rightarrow> (mock, VMSpecInfo) prog" where
  "MockGetVMSpec mockName name =
     bindP (MockListVMSpec mockName) (\<lambda>infoList.
     case List.find (\<lambda>info. spec_Name info = name) infoList of
       Some info \<Rightarrow> ret info
     | None \<Rightarrow> throw (name @ '' VMSpec does not exist!!''))"

definition MockImageHandler :: "mock ImageHandler" where
  "MockImageHandler = \<lparr>imh_CheckWindowsImage = (\<lambda>imageIID c. ((False, Some ''Does not support CheckWindowsImage() yet!!''), c))\<rparr>"

section \<open>Private images\<close>

definition CloneMyImageInfo :: "MyImageInfo \<Rightarrow> MyImageInfo" where
  "CloneMyImageInfo srcInfo =
     \<lparr>mi_IId = \<lparr>NameId = NameId (mi_IId srcInfo), SystemId = SystemId (mi_IId srcInfo)\<rparr>,
      mi_SourceVM = \<lparr>NameId = NameId (mi_SourceVM srcInfo), SystemId = SystemId (mi_SourceVM srcInfo)\<rparr>,
      mi_Status = mi_Status srcInfo, mi_CreatedTime = mi_CreatedTime srcInfo, mi_TagList = mi_TagList srcInfo,
      mi_KeyValueList = mi_KeyValueList srcInfo\<rparr>"

definition myimage_missing :: "IID \<Rightarrow> go_error" where
  "myimage_missing iid = NameId iid @ '' MyImage does not exist!!''"

definition MockSnapshotVM :: "string \<Rightarrow> MyImageInfo \<Rightarrow> (mock, MyImageInfo) prog" where
  "MockSnapshotVM mockName req c =
     (let info = req\<lparr>mi_IId := (mi_IId req)\<lparr>SystemId := NameId (mi_IId req)\<rparr>, mi_Status := MyImageAvailable, mi_CreatedTime := mock_clock c\<rparr>
      in (Inr (CloneMyImageInfo info),
          (tick c)\<lparr>myImageInfoMap := (myImageInfoMap c)(mockName \<mapsto> slice_of (myImageInfoMap c mockName) @ [info])\<rparr>))"

definition MockListMyImage :: "string \<Rightarrow> (mock, MyImageInfo list) prog" where
  "MockListMyImage mockName c =
     (case myImageInfoMap c mockName of None \<Rightarrow> (Inr [], c) | Some infoList \<Rightarrow> (Inr (map CloneMyImageInfo infoList), c))"

definition MockGetMyImage :: "string \<Rightarrow> IID \<Rightarrow> (mock, MyImageInfo) prog" where
  "MockGetMyImage mockName iid c =
     (case myImageInfoMap c mockName of
        None \<Rightarrow> (Inl (myimage_missing iid), c)
      | Some infoList \<Rightarrow>
          (case List.find (\<lambda>info. NameId (mi_IId info) = NameId iid) infoList of
             Some info \<Rightarrow> (Inr (CloneMyImageInfo info), c)
           | None \<Rightarrow> (Inl (myimage_missing iid), c)))"

definition MockDeleteMyImage :: "string \<Rightarrow> IID \<Rightarrow> mock deletion" where
  "MockDeleteMyImage mockName iid c =
     (case myImageInfoMap c mockName of
        None \<Rightarrow> ((False, Some (myimage_missing iid)), c)
      | Some infoList \<Rightarrow>
          if list_ex (\<lambda>info. SystemId (mi_IId info) = SystemId iid) infoList
          then ((True, None), c\<lparr>myImageInfoMap := (myImageInfoMap c)(mockName \<mapsto>
                  remove_first (\<lambda>info. SystemId (mi_IId info) = SystemId iid) infoList)\<rparr>)
          else ((False, None), c))"

definition MockListMyImageIID :: "string \<Rightarrow> (mock, IID list) prog" where
  "MockListMyImageIID mockName c =
     (case myImageInfoMap c mockName of None \<Rightarrow> (Inr [], c) | Some infoList \<Rightarrow> (Inr (map mi_IId infoList), c))"

definition MockMyImageHandler :: "string \<Rightarrow> mock MyImageHandler" where
  "MockMyImageHandler mockName =
     \<lparr>mih_SnapshotVM = MockSnapshotVM mockName, mih_ListIID = MockListMyImageIID mockName,
      mih_ListMyImage = MockListMyImage mockName, mih_GetMyImage = MockGetMyImage mockName,
      mih_CheckWindowsImage = (\<lambda>iid c. ((False, Some ''Does not support CheckWindowsImage() yet!!''), c)),
      mih_DeleteMyImage = MockDeleteMyImage mockName\<rparr>"

section \<open>Virtual machines\<close>

text \<open>The checks of a request for a VM, in the order of \<open>StartVM\<close>.\<close>

definition check_image :: "string \<Rightarrow> VMReqInfo \<Rightarrow> (mock, IID) prog" where
  "check_image mockName req =
     bindP (if vmReq_ImageType req = PublicImage
            then bindP (MockGetImage mockName (vmReq_ImageIID req)) (\<lambda>info. ret (img_IId info)) else ret IID_zero) (\<lambda>validatedImageIID.
     if vmReq_ImageType req = MyImage
     then bindP (MockGetMyImage mockName (vmReq_ImageIID req)) (\<lambda>info. ret (mi_IId info)) else ret validatedImageIID)"

fun check_sgs :: "SecurityInfo list \<Rightarrow> IID list \<Rightarrow> IID list \<Rightarrow> IID list go_result" where
  "check_sgs sgInfoList [] validatedSgIIDs = Inr validatedSgIIDs"
| "check_sgs sgInfoList (info1 # rest) validatedSgIIDs =
     (case List.find (\<lambda>info2. NameId (sg_IId info2) = NameId info1) sgInfoList of
        None \<Rightarrow> Inl (NameId info1 @ '' security group iid does not exist!!'')
      | Some info2 \<Rightarrow> check_sgs sgInfoList rest (validatedSgIIDs @ [sg_IId info2]))"

text \<open>This loop does not leave at the first match.\<close>

fun check_disks :: "DiskInfo list \<Rightarrow> IID list \<Rightarrow> IID list \<Rightarrow> IID list go_result" where
  "check_disks diskInfoList [] validatedDiskIIDs = Inr validatedDiskIIDs"
| "check_disks diskInfoList (info1 # rest) validatedDiskIIDs =
     (case filter (\<lambda>info2. NameId (disk_IId info2) = NameId info1) diskInfoList of
        [] \<Rightarrow> Inl (NameId info1 @ '' Data Disk iid does not exist!!'')
      | found \<Rightarrow> check_disks diskInfoList rest (validatedDiskIIDs @ map disk_IId found))"

text \<open>"attach disks"; what was attached before an error stays attached.\<close>

fun attach_disks :: "string \<Rightarrow> IID \<Rightarrow> IID list \<Rightarrow> (mock, unit) prog" where
  "attach_disks mockName vmIID [] = ret ()"
| "attach_disks mockName vmIID (diskIID # rest) =
     bindP (justAttachDisk mockName diskIID vmIID) (\<lambda>_. attach_disks mockName vmIID rest)"

definition now :: "(mock, go_time) prog" where
  "now c = (Inr (mock_clock c), tick c)"

definition mock_nic :: VMNICInfo where
  "mock_nic = \<lparr>nic_IId = \<lparr>NameId = ''mockni0'', SystemId = ''mockni0''\<rparr>, nic_DeviceIndex = 0, nic_PrivateIPs = [], nic_PublicIPs = [],
     nic_MACAddress = [], nic_SubnetIID = IID_zero\<rparr>"

definition add_vm :: "string \<Rightarrow> VMInfo \<Rightarrow> mock \<Rightarrow> mock" where
  "add_vm mockName vmInfo c =
     c\<lparr>vmInfoMap := (vmInfoMap c)(mockName \<mapsto> slice_of (vmInfoMap c mockName) @ [vmInfo]),
       vmStatusInfoMap := (vmStatusInfoMap c)(mockName \<mapsto> slice_of (vmStatusInfoMap c mockName) @
         [\<lparr>vmst_IId = vm_IId vmInfo, vmst_VmStatus = ''Running''\<rparr>])\<rparr>"

definition MockStartVM :: "RegionInfo \<Rightarrow> string \<Rightarrow> VMReqInfo \<Rightarrow> (mock, VMInfo) prog" where
  "MockStartVM region mockName req =
     (let iid = (vmReq_IId req)\<lparr>SystemId := NameId (vmReq_IId req)\<rparr> in
      bindP (check_image mockName req) (\<lambda>validatedImageIID.
      bindP (MockGetVMSpec mockName (vmReq_VMSpecName req)) (\<lambda>validatedSpecInfo.
      bindP (MockGetVPC mockName (vmReq_VpcIID req)) (\<lambda>validatedVPCInfo.
      case List.find (\<lambda>info. NameId (subnet_IId info) = NameId (vmReq_SubnetIID req)) (vpc_SubnetInfoList validatedVPCInfo) of
        None \<Rightarrow> throw (NameId (vmReq_SubnetIID req) @ '' subnet iid does not exist!!'')
      | Some validatedSubnetInfo \<Rightarrow>
      bindP (MockListSecurity mockName) (\<lambda>sgInfoList.
      bindP (lift_result (check_sgs sgInfoList (vmReq_SecurityGroupIIDs req) [])) (\<lambda>validatedSgIIDs.
      bindP (MockListDisk mockName) (\<lambda>diskInfoList.
      bindP (lift_result (check_disks diskInfoList (vmReq_DataDiskIIDs req) [])) (\<lambda>validatedDiskIIDs.
      bindP (MockGetKey mockName (vmReq_KeyPairIID req)) (\<lambda>validatedKeyPairInfo.
      bindP now (\<lambda>startTime.
      let vmInfo =
        \<lparr>vm_IId = iid, vm_StartTime = startTime,
         vm_Region = \<lparr>region_Region = region_Region region, region_Zone = region_Zone region\<rparr>, vm_ImageType = [],
         vm_ImageIId = validatedImageIID, vm_VMSpecName = spec_Name validatedSpecInfo, vm_VpcIID = vpc_IId validatedVPCInfo,
         vm_SubnetIID = subnet_IId validatedSubnetInfo, vm_SecurityGroupIIds = validatedSgIIDs,
         vm_KeyPairIId = key_IId validatedKeyPairInfo, vm_RootDiskType = ''SSD'', vm_RootDiskSize = ''32'',
         vm_RootDeviceName = ''/dev/sda1'', vm_DataDiskIIDs = validatedDiskIIDs, vm_VMBootDisk = ''/dev/sda1'',
         vm_VMBlockDisk = ''/dev/sda1'', vm_VMUserId = vmReq_VMUserId req, vm_VMUserPasswd = vmReq_VMUserPasswd req,
         vm_NICs = [mock_nic], vm_NetworkInterface = [],
         vm_PublicIP = (if vmReq_AssignPublicIP req = Some False then [] else ''4.3.2.1''), vm_PublicIPs = [],
         vm_PublicDNS = NameId iid @ ''.spider.barista.com'', vm_PrivateIP = ''1.2.3.4'', vm_PrivateIPs = [],
         vm_PrivateDNS = NameId iid @ ''.spider.barista.com'', vm_Platform = [], vm_SSHAccessPoint = [], vm_AccessPoint = [],
         vm_TagList = vmReq_TagList req, vm_KeyValueList = []\<rparr>
      in
      bindP (attach_disks mockName iid validatedDiskIIDs) (\<lambda>_.
      (\<lambda>c. (Inr vmInfo, add_vm mockName vmInfo c)))))))))))))"

text \<open>The status entry of a VM: the loops of the state changes keep the last match.\<close>

definition named_status :: "IID \<Rightarrow> VMStatusInfo \<Rightarrow> bool" where
  "named_status iid info \<longleftrightarrow> NameId (vmst_IId info) = NameId iid"

definition update_last :: "('a \<Rightarrow> bool) \<Rightarrow> ('a \<Rightarrow> 'a) \<Rightarrow> 'a list \<Rightarrow> 'a list" where
  "update_last p f l = rev (update_first p f (rev l))"

definition status_change :: "string \<Rightarrow> string \<Rightarrow> IID \<Rightarrow> (string \<Rightarrow> go_error option) \<Rightarrow> string \<Rightarrow> string \<Rightarrow> (mock, string) prog" where
  "status_change what mockName iid refuse status result c =
     (case vmStatusInfoMap c mockName of
        None \<Rightarrow> (Inl (mockName @ '' vm status does not exist!!''), c)
      | Some statusInfoList \<Rightarrow>
          (case List.find (named_status iid) (rev statusInfoList) of
             None \<Rightarrow> (Inl (NameId iid @ what), c)
           | Some info \<Rightarrow>
               (case refuse (vmst_VmStatus info) of
                  Some err \<Rightarrow> (Inl err, c)
                | None \<Rightarrow> (Inr result, c\<lparr>vmStatusInfoMap := (vmStatusInfoMap c)(mockName \<mapsto>
                    update_last (named_status iid) (\<lambda>info. info\<lparr>vmst_VmStatus := status\<rparr>) statusInfoList)\<rparr>))))"

definition MockSuspendVM :: "string \<Rightarrow> IID \<Rightarrow> (mock, string) prog" where
  "MockSuspendVM mockName iid = status_change '' status iid does not exist!!'' mockName iid (\<lambda>_. None) ''Suspended'' ''Suspending''"

definition MockResumeVM :: "string \<Rightarrow> IID \<Rightarrow> (mock, string) prog" where
  "MockResumeVM mockName iid = status_change '' vm status iid does not exist!!'' mockName iid (\<lambda>_. None) ''Running'' ''Resuming''"

definition MockRebootVM :: "string \<Rightarrow> IID \<Rightarrow> (mock, string) prog" where
  "MockRebootVM mockName iid = status_change '' vm status iid does not exist!!'' mockName iid
     (\<lambda>status. if status = ''Suspended'' then Some ''reboot not supported in SUSPENDED status'' else None) ''Running'' ''Rebooting''"

text \<open>
  \<open>for idx, info := range infoList\<close> with \<open>infoList = append(infoList[:idx], infoList[idx+1:]...)\<close> in its body, and no
  \<open>break\<close>: the range goes over the array as it was long, the append moves the elements of the same array to the left.
  \<open>a\<close> is that array, \<open>k\<close> the present length of \<open>infoList\<close>; the boolean says that the slice expression panicked.
\<close>

definition shift_out :: "nat \<Rightarrow> nat \<Rightarrow> 'a list \<Rightarrow> 'a list" where
  "shift_out idx k a = take idx a @ take (k - Suc idx) (drop (Suc idx) a) @ drop (k - 1) a"

fun range_remove :: "('a \<Rightarrow> bool) \<Rightarrow> ('a \<Rightarrow> 'c \<Rightarrow> 'c) \<Rightarrow> nat \<Rightarrow> nat \<Rightarrow> nat \<Rightarrow> 'a list \<Rightarrow> 'c \<Rightarrow> ('a list \<times> nat \<times> bool) \<times> 'c" where
  "range_remove p act 0 idx k a c = ((a, k, False), c)"
| "range_remove p act (Suc m) idx k a c =
     (if p (a ! idx) then
        (let c' = act (a ! idx) c
         in if idx < k then range_remove p act m (Suc idx) (k - 1) (shift_out idx k a) c' else ((a, k, True), c'))
      else range_remove p act m (Suc idx) k a c)"

fun detach_disks :: "string \<Rightarrow> IID \<Rightarrow> IID list \<Rightarrow> mock \<Rightarrow> mock" where
  "detach_disks mockName vmIID [] c = c"
| "detach_disks mockName vmIID (diskIID # rest) c = detach_disks mockName vmIID rest (snd (justDetachDisk mockName diskIID vmIID c))"

definition MockTerminateVM :: "string \<Rightarrow> IID \<Rightarrow> (mock, string) prog" where
  "MockTerminateVM mockName iid c =
     (case (vmInfoMap c mockName, vmStatusInfoMap c mockName) of
        (Some infoList, Some statusInfoList) \<Rightarrow>
          (let ((a, k, panicked), c1) = range_remove (\<lambda>info. SystemId (vm_IId info) = SystemId iid)
                 (\<lambda>info. detach_disks mockName (vm_IId info) (vm_DataDiskIIDs info)) (length infoList) 0 (length infoList) infoList c
           in if panicked then (Inl slice_panic, c1\<lparr>vmInfoMap := (vmInfoMap c1)(mockName \<mapsto> a)\<rparr>)
              else
              (let c2 = c1\<lparr>vmInfoMap := (vmInfoMap c1)(mockName \<mapsto> take k a)\<rparr>;
                   ((b, j, panicked'), _) = range_remove (\<lambda>info. SystemId (vmst_IId info) = SystemId iid) (\<lambda>_ u. u)
                     (length statusInfoList) 0 (length statusInfoList) statusInfoList ()
               in if panicked' then (Inl slice_panic, c2\<lparr>vmStatusInfoMap := (vmStatusInfoMap c2)(mockName \<mapsto> b)\<rparr>)
                  else (Inr ''Terminating'', c2\<lparr>vmStatusInfoMap := (vmStatusInfoMap c2)(mockName \<mapsto> take j b)\<rparr>)))
      | _ \<Rightarrow> (Inl (vm_missing iid), c))"

definition CloneVMStatusInfo :: "VMStatusInfo \<Rightarrow> VMStatusInfo" where
  "CloneVMStatusInfo srcInfo =
     \<lparr>vmst_IId = \<lparr>NameId = NameId (vmst_IId srcInfo), SystemId = SystemId (vmst_IId srcInfo)\<rparr>, vmst_VmStatus = vmst_VmStatus srcInfo\<rparr>"

definition MockListVMStatus :: "string \<Rightarrow> (mock, VMStatusInfo list) prog" where
  "MockListVMStatus mockName c =
     (case vmStatusInfoMap c mockName of None \<Rightarrow> (Inr [], c) | Some infoList \<Rightarrow> (Inr (map CloneVMStatusInfo infoList), c))"

definition MockGetVMStatus :: "string \<Rightarrow> IID \<Rightarrow> (mock, string) prog" where
  "MockGetVMStatus mockName iid c =
     (case vmStatusInfoMap c mockName of
        None \<Rightarrow> (Inl (vm_missing iid), c)
      | Some infoList \<Rightarrow>
          (case List.find (named_status iid) infoList of
             Some info \<Rightarrow> (Inr (vmst_VmStatus info), c)
           | None \<Rightarrow> (Inl (NameId iid @ '' status iid does not exist!!''), c)))"

definition cloneIIDArray :: "IID list \<Rightarrow> IID list" where
  "cloneIIDArray srcIIDArray = map (\<lambda>iid. \<lparr>NameId = NameId iid, SystemId = SystemId iid\<rparr>) srcIIDArray"

text \<open>The clone leaves out \<open>NetworkInterface\<close>, \<open>PublicIPs\<close>, \<open>PrivateIPs\<close>, \<open>Platform\<close> and \<open>AccessPoint\<close>.\<close>

definition CloneVMInfo :: "VMInfo \<Rightarrow> VMInfo" where
  "CloneVMInfo srcInfo =
     \<lparr>vm_IId = \<lparr>NameId = NameId (vm_IId srcInfo), SystemId = SystemId (vm_IId srcInfo)\<rparr>,
      vm_StartTime = vm_StartTime srcInfo, vm_Region = vm_Region srcInfo, vm_ImageType = vm_ImageType srcInfo,
      vm_ImageIId = vm_ImageIId srcInfo, vm_VMSpecName = vm_VMSpecName srcInfo,
      vm_VpcIID = \<lparr>NameId = NameId (vm_VpcIID srcInfo), SystemId = SystemId (vm_VpcIID srcInfo)\<rparr>,
      vm_SubnetIID = \<lparr>NameId = NameId (vm_SubnetIID srcInfo), SystemId = SystemId (vm_SubnetIID srcInfo)\<rparr>,
      vm_SecurityGroupIIds = cloneIIDArray (vm_SecurityGroupIIds srcInfo),
      vm_KeyPairIId = \<lparr>NameId = NameId (vm_KeyPairIId srcInfo), SystemId = SystemId (vm_KeyPairIId srcInfo)\<rparr>,
      vm_RootDiskType = vm_RootDiskType srcInfo, vm_RootDiskSize = vm_RootDiskSize srcInfo,
      vm_RootDeviceName = vm_RootDeviceName srcInfo, vm_DataDiskIIDs = cloneIIDArray (vm_DataDiskIIDs srcInfo),
      vm_VMBootDisk = vm_VMBootDisk srcInfo, vm_VMBlockDisk = vm_VMBlockDisk srcInfo, vm_VMUserId = vm_VMUserId srcInfo,
      vm_VMUserPasswd = vm_VMUserPasswd srcInfo, vm_NICs = vm_NICs srcInfo, vm_NetworkInterface = [],
      vm_PublicIP = vm_PublicIP srcInfo, vm_PublicIPs = [], vm_PublicDNS = vm_PublicDNS srcInfo,
      vm_PrivateIP = vm_PrivateIP srcInfo, vm_PrivateIPs = [], vm_PrivateDNS = vm_PrivateDNS srcInfo, vm_Platform = [],
      vm_SSHAccessPoint = vm_SSHAccessPoint srcInfo, vm_AccessPoint = [], vm_TagList = vm_TagList srcInfo,
      vm_KeyValueList = vm_KeyValueList srcInfo\<rparr>"

definition MockListVM :: "string \<Rightarrow> (mock, VMInfo list) prog" where
  "MockListVM mockName c =
     (case vmInfoMap c mockName of None \<Rightarrow> (Inr [], c) | Some infoList \<Rightarrow> (Inr (map CloneVMInfo infoList), c))"

definition MockGetVM :: "string \<Rightarrow> IID \<Rightarrow> (mock, VMInfo) prog" where
  "MockGetVM mockName iid c =
     (case vmInfoMap c mockName of
        None \<Rightarrow> (Inl (vm_missing iid), c)
      | Some infoList \<Rightarrow>
          (case List.find (\<lambda>info. NameId (vm_IId info) = NameId iid) infoList of
             Some info \<Rightarrow> (Inr (CloneVMInfo info), c)
           | None \<Rightarrow> (Inl (vm_missing iid), c)))"

definition MockListVMIID :: "string \<Rightarrow> (mock, IID list) prog" where
  "MockListVMIID mockName = bindP (MockListVM mockName) (\<lambda>vmList. ret (map vm_IId vmList))"

definition MockVMHandler :: "RegionInfo \<Rightarrow> string \<Rightarrow> mock VMHandler" where
  "MockVMHandler region mockName =
     \<lparr>vmh_ListIID = MockListVMIID mockName, vmh_StartVM = MockStartVM region mockName, vmh_SuspendVM = MockSuspendVM mockName,
      vmh_ResumeVM = MockResumeVM mockName, vmh_RebootVM = MockRebootVM mockName, vmh_TerminateVM = (\<lambda>iid. status_call_of (MockTerminateVM mockName iid)),
      vmh_ListVMStatus = MockListVMStatus mockName, vmh_GetVMStatus = (\<lambda>iid. status_call_of (MockGetVMStatus mockName iid)), vmh_ListVM = MockListVM mockName,
      vmh_GetVM = MockGetVM mockName\<rparr>"

end
