(* ===== verification/MockNLB.thy ===== *)
theory MockNLB
  imports MockDriver
begin

text \<open>
  The mock driver's handler of network load balancers, \<open>drivers/mock/resources/NLBHandler.go\<close>. The pointer to the VMs of
  a balancer is kept as it comes from the request of its creation, and is handed out as it is with every info.
\<close>

type_synonym mock_heap = "mock \<times> heap"

definition nlb_missing :: "IID \<Rightarrow> go_error" where
  "nlb_missing iid = NameId iid @ '' NLB does not exist!!''"

definition CloneNLBInfo :: "NLBInfo \<Rightarrow> NLBInfo" where
  "CloneNLBInfo srcInfo =
     \<lparr>nlb_IId = \<lparr>NameId = NameId (nlb_IId srcInfo), SystemId = SystemId (nlb_IId srcInfo)\<rparr>,
      nlb_VpcIID = \<lparr>NameId = NameId (nlb_VpcIID srcInfo), SystemId = SystemId (nlb_VpcIID srcInfo)\<rparr>,
      nlb_Type = nlb_Type srcInfo, nlb_Scope = nlb_Scope srcInfo, nlb_Listener = nlb_Listener srcInfo,
      nlb_VMGroup = nlb_VMGroup srcInfo, nlb_HealthChecker = nlb_HealthChecker srcInfo, nlb_CreatedTime = nlb_CreatedTime srcInfo,
      nlb_TagList = nlb_TagList srcInfo, nlb_KeyValueList = nlb_KeyValueList srcInfo\<rparr>"

lemma CloneNLBInfo_id [simp]: "CloneNLBInfo info = info"
  by (simp add: CloneNLBInfo_def)

text \<open>The creation draws three xids.\<close>

definition MockCreateNLB :: "(nat \<Rightarrow> string) \<Rightarrow> string \<Rightarrow> NLBInfo \<Rightarrow> (mock_heap, NLBInfo) prog" where
  "MockCreateNLB xid mockName nlbInfo s = (case s of (c, h) \<Rightarrow>
     let name = NameId (nlb_IId nlbInfo); n = mock_xids c;
         nlbInfo = nlbInfo
           \<lparr>nlb_IId := (nlb_IId nlbInfo)\<lparr>SystemId := name\<rparr>,
            nlb_VpcIID := (nlb_VpcIID nlbInfo)\<lparr>SystemId := NameId (nlb_VpcIID nlbInfo)\<rparr>, nlb_CreatedTime := mock_clock c,
            nlb_Listener := (nlb_Listener nlbInfo)\<lparr>lis_IP := ''1.2.3.4'', lis_DNSName := [], lis_CspID := name @ ''-Listener-'' @ xid n\<rparr>,
            nlb_VMGroup := (nlb_VMGroup nlbInfo)\<lparr>vmg_CspID := name @ ''-VMGroup-'' @ xid (n + 1)\<rparr>,
            nlb_HealthChecker := (nlb_HealthChecker nlbInfo)\<lparr>hc_CspID := name @ ''-HealthChecker-'' @ xid (n + 2)\<rparr>\<rparr>;
         infoList = slice_of (nlbInfoMap c mockName) @ [CloneNLBInfo nlbInfo]
     in (Inr (CloneNLBInfo nlbInfo),
         c\<lparr>nlbInfoMap := (nlbInfoMap c)(mockName \<mapsto> infoList), mock_clock := Suc (mock_clock c), mock_xids := n + 3\<rparr>, h))"

definition MockListNLB :: "string \<Rightarrow> (mock, NLBInfo list) prog" where
  "MockListNLB mockName c =
     (case nlbInfoMap c mockName of
        None \<Rightarrow> (Inr [], c)
      | Some infoList \<Rightarrow> (Inr (map CloneNLBInfo infoList), c))"

text \<open>The first balancer of the name, or the error.\<close>

definition named_nlb :: "IID \<Rightarrow> NLBInfo \<Rightarrow> bool" where
  "named_nlb iid info \<longleftrightarrow> NameId (nlb_IId info) = NameId iid"

definition with_nlb :: "string \<Rightarrow> IID \<Rightarrow> go_error \<Rightarrow> (NLBInfo list \<Rightarrow> NLBInfo \<Rightarrow> (mock_heap, 'a) prog) \<Rightarrow> (mock_heap, 'a) prog" where
  "with_nlb mockName iid missing f s = (case s of (c, h) \<Rightarrow>
     case nlbInfoMap c mockName of
       None \<Rightarrow> (Inl (nlb_missing iid), c, h)
     | Some infoList \<Rightarrow>
         (case List.find (named_nlb iid) infoList of
            None \<Rightarrow> (Inl missing, c, h)
          | Some info \<Rightarrow> f infoList info (c, h)))"

definition MockGetNLB :: "string \<Rightarrow> IID \<Rightarrow> (mock_heap, NLBInfo) prog" where
  "MockGetNLB mockName iid s = with_nlb mockName iid (nlb_missing iid) (\<lambda>_ info s. (Inr (CloneNLBInfo info), s)) s"

definition MockDeleteNLB :: "string \<Rightarrow> IID \<Rightarrow> mock deletion" where
  "MockDeleteNLB mockName iid c =
     (case nlbInfoMap c mockName of
        None \<Rightarrow> ((False, Some (nlb_missing iid)), c)
      | Some infoList \<Rightarrow>
          (if list_ex (\<lambda>info. SystemId (nlb_IId info) = SystemId iid) infoList
           then ((True, None), c\<lparr>nlbInfoMap := (nlbInfoMap c)(mockName \<mapsto> remove_first (\<lambda>info. SystemId (nlb_IId info) = SystemId iid) infoList)\<rparr>)
           else ((False, None), c)))"

text \<open>The verb \<open>%v\<close> of an identifier and of a slice of them.\<close>

definition show_iid :: "IID \<Rightarrow> string" where
  "show_iid iid = ''{'' @ NameId iid @ '' '' @ SystemId iid @ ''}''"

definition show_iids :: "IID list \<Rightarrow> string" where
  "show_iids iids = ''['' @ Join (map show_iid iids) '' '' @ '']''"

text \<open>
  The checks of \<open>AddVMs\<close> and \<open>RemoveVMs\<close>, over every balancer of the name; each compares names. \<open>None\<close> says that they pass.
\<close>

fun check_vms :: "(IID \<Rightarrow> IID list \<Rightarrow> go_error option) \<Rightarrow> heap \<Rightarrow> NLBInfo list \<Rightarrow> IID list \<Rightarrow> go_error option" where
  "check_vms bad h [] vmIIDs = None"
| "check_vms bad h (info # rest) vmIIDs =
     (case vmg_VMs (nlb_VMGroup info) of
        None \<Rightarrow> (if vmIIDs = [] then check_vms bad h rest vmIIDs else Some nil_panic)
      | Some a \<Rightarrow>
          (case first_some (\<lambda>vmIID. bad vmIID (h_iids h a)) vmIIDs of
             Some e \<Rightarrow> Some e
           | None \<Rightarrow> check_vms bad h rest vmIIDs))"

definition has_vm :: "IID \<Rightarrow> IID list \<Rightarrow> bool" where
  "has_vm vmIID vms = list_ex (\<lambda>vm. NameId vm = NameId vmIID) vms"

definition already_has :: "IID \<Rightarrow> IID \<Rightarrow> IID list \<Rightarrow> go_error option" where
  "already_has nlbIID vmIID vms =
     (if has_vm vmIID vms
      then Some (NameId nlbIID @ '' NLB already has this VM: '' @ show_iid vmIID @ ''!! #### '' @ NameId nlbIID @ '' NLB has '' @ show_iids vms @ ''!!'')
      else None)"

definition has_not :: "IID \<Rightarrow> IID \<Rightarrow> IID list \<Rightarrow> go_error option" where
  "has_not nlbIID vmIID vms =
     (if has_vm vmIID vms then None
      else Some (NameId nlbIID @ '' NLB does not have this VM: '' @ show_iid vmIID @ ''!! #### '' @ NameId nlbIID @ '' NLB has '' @ show_iids vms @ ''!!''))"

definition MockAddVMs :: "string \<Rightarrow> IID \<Rightarrow> IID list \<Rightarrow> (mock_heap, VMGroupInfo) prog" where
  "MockAddVMs mockName nlbIID vmIIDs s =
     with_nlb mockName nlbIID (nlb_missing nlbIID) (\<lambda>infoList info (c, h).
       case check_vms (already_has nlbIID) h (filter (named_nlb nlbIID) infoList) vmIIDs of
         Some e \<Rightarrow> (Inl e, c, h)
       | None \<Rightarrow>
           (case vmg_VMs (nlb_VMGroup info) of
              None \<Rightarrow> (Inl nil_panic, c, h)
            | Some a \<Rightarrow> (Inr (nlb_VMGroup (CloneNLBInfo info)), c, heap_set a (h_iids h a @ vmIIDs) h))) s"

text \<open>A balancer that is not there has nothing to remove, which is no error.\<close>

definition MockRemoveVMs :: "string \<Rightarrow> IID \<Rightarrow> IID list \<Rightarrow> (mock_heap, bool) prog" where
  "MockRemoveVMs mockName nlbIID vmIIDs s = (case s of (c, h) \<Rightarrow>
     case nlbInfoMap c mockName of
       None \<Rightarrow> (Inl (nlb_missing nlbIID), c, h)
     | Some infoList \<Rightarrow>
         (case check_vms (has_not nlbIID) h (filter (named_nlb nlbIID) infoList) vmIIDs of
            Some e \<Rightarrow> (Inl e, c, h)
          | None \<Rightarrow>
              (case Option.bind (List.find (named_nlb nlbIID) infoList) (\<lambda>info. vmg_VMs (nlb_VMGroup info)) of
                 None \<Rightarrow> (Inr True, c, h)
               | Some a \<Rightarrow> (Inr True, c, heap_set a (fold (\<lambda>vmIID. remove_first (\<lambda>vm. NameId vm = NameId vmIID)) vmIIDs (h_iids h a)) h))))"

text \<open>The changes, through the pointer to the first balancer of the name.\<close>

definition update_nlb :: "string \<Rightarrow> IID \<Rightarrow> NLBInfo \<Rightarrow> NLBInfo list \<Rightarrow> mock \<Rightarrow> mock" where
  "update_nlb mockName iid info infoList c =
     c\<lparr>nlbInfoMap := (nlbInfoMap c)(mockName \<mapsto> update_first (named_nlb iid) (\<lambda>_. info) infoList)\<rparr>"

definition MockChangeListener :: "string \<Rightarrow> IID \<Rightarrow> ListenerInfo \<Rightarrow> (mock_heap, ListenerInfo) prog" where
  "MockChangeListener mockName nlbIID listener s =
     with_nlb mockName nlbIID (nlb_missing nlbIID) (\<lambda>infoList info (c, h).
       let l = (nlb_Listener info)\<lparr>lis_Protocol := lis_Protocol listener, lis_Port := lis_Port listener\<rparr>
       in (Inr l, update_nlb mockName nlbIID (info\<lparr>nlb_Listener := l\<rparr>) infoList c, h)) s"

text \<open>\<open>CloneVMGroupInfo\<close> copies the VMs; a nil pointer panics there, after the change.\<close>

definition MockChangeVMGroupInfo :: "string \<Rightarrow> IID \<Rightarrow> VMGroupInfo \<Rightarrow> (mock_heap, VMGroupInfo) prog" where
  "MockChangeVMGroupInfo mockName nlbIID vmGroup s =
     with_nlb mockName nlbIID (nlb_missing nlbIID) (\<lambda>infoList info (c, h).
       let g = (nlb_VMGroup info)\<lparr>vmg_Protocol := vmg_Protocol vmGroup, vmg_Port := vmg_Port vmGroup\<rparr>;
           c = update_nlb mockName nlbIID (info\<lparr>nlb_VMGroup := g\<rparr>) infoList c
       in case vmg_VMs g of
            None \<Rightarrow> (Inl nil_panic, c, h)
          | Some a \<Rightarrow> (let (b, h) = heap_new (h_iids h a) h in (Inr (g\<lparr>vmg_VMs := Some b\<rparr>), c, h))) s"

definition MockChangeHealthCheckerInfo :: "string \<Rightarrow> IID \<Rightarrow> HealthCheckerInfo \<Rightarrow> (mock_heap, HealthCheckerInfo) prog" where
  "MockChangeHealthCheckerInfo mockName nlbIID hc s =
     with_nlb mockName nlbIID (nlb_missing nlbIID) (\<lambda>infoList info (c, h).
       let k = (nlb_HealthChecker info)\<lparr>hc_Protocol := hc_Protocol hc, hc_Port := hc_Port hc, hc_Interval := hc_Interval hc,
             hc_Timeout := hc_Timeout hc, hc_Threshold := hc_Threshold hc\<rparr>
       in (Inr k, update_nlb mockName nlbIID (info\<lparr>nlb_HealthChecker := k\<rparr>) infoList c, h)) s"

text \<open>The last VM is the unhealthy one.\<close>

definition MockGetVMGroupHealthInfo :: "string \<Rightarrow> IID \<Rightarrow> (mock_heap, HealthInfo) prog" where
  "MockGetVMGroupHealthInfo mockName nlbIID s =
     with_nlb mockName nlbIID (NameId nlbIID @ '' NLB VMGroup does not have VMs!!'') (\<lambda>_ info (c, h).
       case vmg_VMs (nlb_VMGroup info) of
         None \<Rightarrow> (Inl nil_panic, c, h)
       | Some a \<Rightarrow>
           (let vms = h_iids h a
            in (Inr \<lparr>health_AllVMs = Some vms, health_HealthyVMs = Some (butlast vms),
                     health_UnHealthyVMs = Some (if vms = [] then [] else [last vms])\<rparr>, c, h))) s"

definition MockListNLBIID :: "string \<Rightarrow> (mock, IID list) prog" where
  "MockListNLBIID mockName c =
     (case nlbInfoMap c mockName of None \<Rightarrow> (Inr [], c) | Some infoList \<Rightarrow> (Inr (map nlb_IId infoList), c))"

definition MockNLBHandler :: "(nat \<Rightarrow> string) \<Rightarrow> string \<Rightarrow> mock NLBHandler" where
  "MockNLBHandler xid mockName =
     \<lparr>nlbh_ListIID = MockListNLBIID mockName, nlbh_ListNLB = bindP (MockListNLB mockName) (\<lambda>infos. ret (map nlb_IId infos)),
      nlbh_CreateNLB = MockCreateNLB xid mockName, nlbh_GetNLB = MockGetNLB mockName, nlbh_DeleteNLB = MockDeleteNLB mockName,
      nlbh_GetVMGroupHealthInfo = MockGetVMGroupHealthInfo mockName, nlbh_AddVMs = MockAddVMs mockName,
      nlbh_RemoveVMs = MockRemoveVMs mockName, nlbh_ChangeListener = MockChangeListener mockName,
      nlbh_ChangeVMGroupInfo = MockChangeVMGroupInfo mockName, nlbh_ChangeHealthCheckerInfo = MockChangeHealthCheckerInfo mockName\<rparr>"

end
