(* ===== verification/GormList.thy ===== *)
theory GormList
  imports InfoStore
begin

text \<open>
  A mapper over lists of rows: an instance of the record \<open>gorm\<close> that satisfies \<open>gorm_ok\<close>, on which the witnesses
  of the manager theories run. A row that is saved replaces the row with its primary key or comes last;
  a deletion with a row given keeps to the row's primary key;
  pattern matching is that of a pattern \<open>%v%\<close> without wildcards inside. The list
  \<open>db_fails\<close> says which of the next writes fail.
\<close>

record list_db =
  db_rows :: "table \<Rightarrow> iid_row list"
  db_fails :: "bool list"

definition pattern_body :: "string \<Rightarrow> string" where
  "pattern_body pat = (if length pat < 2 then [] else butlast (tl pat))"

fun list_cond :: "iid_row \<Rightarrow> column cond \<Rightarrow> bool" where
  "list_cond r (CEq c v) = (col c r = v)"
| "list_cond r (CLike c pat) = Contains (col c r) (pattern_body pat)"

definition list_select :: "column cond list \<Rightarrow> iid_row list \<Rightarrow> iid_row list" where
  "list_select cs rs = filter (\<lambda>r. list_all (list_cond r) cs) rs"

definition list_save :: "iid_row \<Rightarrow> iid_row list \<Rightarrow> iid_row list" where
  "list_save r rs = filter (\<lambda>x. primary_key x \<noteq> primary_key r) rs @ [r]"

text \<open>A write: the head of \<open>db_fails\<close> says whether it fails.\<close>

definition db_write :: "(list_db \<Rightarrow> list_db) \<Rightarrow> list_db \<Rightarrow> gorm_error option \<times> list_db" where
  "db_write f d =
     (case db_fails d of
        [] \<Rightarrow> (None, f d)
      | fails # rest \<Rightarrow> if fails then (Some (DBError ''disk I/O error''), d\<lparr>db_fails := rest\<rparr>) else (None, (f d)\<lparr>db_fails := rest\<rparr>))"

definition list_gorm :: "list_db gorm" where
  "list_gorm =
     \<lparr>g_open = (\<lambda>d. (None, d)),
      g_save = (\<lambda>t r. db_write (\<lambda>d. d\<lparr>db_rows := (db_rows d)(t := list_save r (db_rows d t))\<rparr>)),
      g_find = (\<lambda>t cs d. (Inr (remdups (list_select cs (db_rows d t))), d)),
      g_first = (\<lambda>t cs d. (case list_select cs (db_rows d t) of [] \<Rightarrow> Inl ErrRecordNotFound | r # _ \<Rightarrow> Inr r, d)),
      g_delete = (\<lambda>t info cs. db_write (\<lambda>d. d\<lparr>db_rows := (db_rows d)(t := filter (\<lambda>r. \<not> (list_all (list_cond r) cs \<and>
          (case info of None \<Rightarrow> True | Some one \<Rightarrow> same_key t one r))) (db_rows d t))\<rparr>)),
      g_count = (\<lambda>t cs d. (Inr (length (remdups (list_select cs (db_rows d t)))), d)),
      g_pluck = (\<lambda>t c cs d. (Inr (map (col c) (list_select cs (db_rows d t))), d)),
      g_like = (\<lambda>s pat. Contains s (pattern_body pat))\<rparr>"

definition list_rows :: "list_db \<Rightarrow> table \<Rightarrow> iid_row set" where
  "list_rows d t = set (db_rows d t)"

lemma list_cond_holds: "cond_holds (g_like list_gorm) r c = list_cond r c"
  by (cases c) (simp_all add: list_gorm_def)

lemma list_selected: "selected list_gorm cs (set rs) = set (list_select cs rs)"
  by (auto simp: selected_def list_select_def list_cond_holds list_all_iff)

lemma list_rows_upd [simp]: "list_rows (d\<lparr>db_rows := f\<rparr>) = (\<lambda>t. set (f t))" "list_rows (d\<lparr>db_fails := n\<rparr>) = list_rows d"
  by (auto simp: list_rows_def)

lemma db_write_rows:
  "list_rows (snd (db_write f d)) = (if fst (db_write f d) = None then list_rows (f d) else list_rows d)"
  by (auto simp: db_write_def split: list.split)

lemma list_save_upsert: "set (list_save r rs) = upsert r (set rs)"
  by (auto simp: list_save_def upsert_def)

lemma list_gorm_ok: "gorm_ok list_gorm list_rows"
  unfolding gorm_ok_def
proof (intro conjI allI impI)
  fix t r d
  show "list_rows (snd (g_save list_gorm t r d)) =
      (if fst (g_save list_gorm t r d) = None then (list_rows d)(t := upsert r (list_rows d t)) else list_rows d)"
    by (simp add: list_gorm_def db_write_rows fun_upd_def) (auto simp: list_save_upsert list_rows_def fun_eq_iff)
next
  fix t cs d
  show "list_rows (snd (g_delete list_gorm t None cs d)) =
      (if fst (g_delete list_gorm t None cs d) = None
       then (list_rows d)(t := list_rows d t - selected list_gorm cs (list_rows d t)) else list_rows d)"
    unfolding list_rows_def list_selected
    by (simp add: list_gorm_def db_write_rows[unfolded list_rows_def] fun_upd_def) (auto simp: list_select_def fun_eq_iff)
next
  fix t r cs d
  have "list_rows (snd (g_delete list_gorm t (Some r) cs d)) =
      (if fst (g_delete list_gorm t (Some r) cs d) = None
       then (list_rows d)(t := list_rows d t - {x \<in> selected list_gorm cs (list_rows d t). same_key t r x}) else list_rows d)"
    unfolding list_rows_def list_selected
    by (simp add: list_gorm_def db_write_rows[unfolded list_rows_def] fun_upd_def) (auto simp: list_select_def fun_eq_iff)
  then show "\<exists>D \<in> {selected list_gorm cs (list_rows d t), {x \<in> selected list_gorm cs (list_rows d t). same_key t r x}}.
      list_rows (snd (g_delete list_gorm t (Some r) cs d)) =
      (if fst (g_delete list_gorm t (Some r) cs d) = None then (list_rows d)(t := list_rows d t - D) else list_rows d)"
    by blast
next
  fix t cs d rs
  assume "fst (g_find list_gorm t cs d) = Inr rs"
  then have "rs = remdups (list_select cs (db_rows d t))" by (simp add: list_gorm_def)
  then show "set rs = selected list_gorm cs (list_rows d t)" and "distinct rs"
    by (simp_all add: list_selected list_rows_def)
next
  fix t cs d r
  assume "fst (g_first list_gorm t cs d) = Inr r"
  then have "r \<in> set (list_select cs (db_rows d t))" by (simp add: list_gorm_def split: list.split_asm)
  then show "r \<in> selected list_gorm cs (list_rows d t)" by (simp add: list_selected list_rows_def)
next
  fix t cs d
  assume "fst (g_first list_gorm t cs d) = Inl ErrRecordNotFound"
  then have "list_select cs (db_rows d t) = []" by (simp add: list_gorm_def split: list.split_asm)
  then show "selected list_gorm cs (list_rows d t) = {}" by (simp add: list_selected list_rows_def)
next
  fix t cs d n
  assume "fst (g_count list_gorm t cs d) = Inr n"
  then have "n = length (remdups (list_select cs (db_rows d t)))" by (simp add: list_gorm_def)
  then show "n = card (selected list_gorm cs (list_rows d t))"
    by (simp add: list_selected list_rows_def length_remdups_card_conv)
next
  fix t c cs d vs
  assume "fst (g_pluck list_gorm t c cs d) = Inr vs"
  then have "vs = map (col c) (list_select cs (db_rows d t))" by (simp add: list_gorm_def)
  then show "set vs = col c ` selected list_gorm cs (list_rows d t)" by (simp add: list_selected list_rows_def)
qed (simp_all add: list_gorm_def)

end
