(* ===== verification/Example.thy ===== *)
theory Example
  imports CommonManager MockCompute MockNLB GormList
begin

text \<open>
  A concrete runtime on which the witnesses run: one connection \<open>''mock''\<close> to the mock driver, generated names on,
  and a meta database over lists of rows. \<open>perm\<close> is the value of \<open>PERMISSION_BASED_CONTROL_MODE\<close>.
\<close>

definition ex_xid :: "nat \<Rightarrow> string" where
  "ex_xid n = (if n = 0 then ''9m4e2mr0ui3e8a215n4g'' else ''9m4e2mr0ui3e8a215n50'')"

definition ex_connection :: "mock CloudConnection" where
  "ex_connection =
     \<lparr>CreateImageHandler = Inr MockImageHandler, CreateVPCHandler = Inr (MockVPCHandler ''m''), CreateSecurityHandler = Inr (MockSecurityHandler ''m''),
      CreateKeyPairHandler = Inr (MockKeyPairHandler ''m''),
      CreateVMHandler = Inr (MockVMHandler \<lparr>region_Region = ''region'', region_Zone = ''zone-a''\<rparr> ''m''),
      CreateNLBHandler = Inr (MockNLBHandler ex_xid ''m''),
      CreateDiskHandler = Inr (MockDiskHandler ''m''), CreateMyImageHandler = Inr (MockMyImageHandler ''m''),
      CreateClusterHandler = Inr \<lparr>ch_ListIID = ret [], ch_ListCluster = ret []\<rparr>,
      CreateRDBMSHandler = Inl ''Mock Driver: RDBMSHandler not supported''\<rparr>"

definition ex_get :: "string \<Rightarrow> mock CloudConnection go_result" where
  "ex_get conn = (if conn = ''mock'' then Inr ex_connection else Inl (''The connection '' @ conn @ '' does not exist!''))"

definition ex_env :: "string \<Rightarrow> (list_db, mock) env" where
  "ex_env perm =
     \<lparr>PERMISSION_BASED_CONTROL_MODE = perm, ID_TRANSFORM_MODE = ''ON'', ccm_GetCloudConnection = ex_get,
      ccm_GetZoneLevelCloudConnection = (\<lambda>conn zone. ex_get conn),
      ccm_GetRegionNameByConnectionName = (\<lambda>_. Inr (''region'', ''zone-a'')),
      ccm_GetProviderNameByConnectionName = (\<lambda>_. Inr ''MOCK''),
      ccm_GetDriverCapability = (\<lambda>_. Inr \<lparr>cap_ZoneBasedControl = True, cap_PriceInfoHandler = True, cap_ClusterHandler = True,
        cap_TagHandler = True, cap_QuotaInfoHandler = False, cap_SINGLE_VPC = False\<rparr>),
      ccim_GetConnectionConfig = (\<lambda>_. Inr ''MOCK''), cim_GetCloudOSMetaInfo = (\<lambda>_. Inr []),
      xid_New = ex_xid, env_gorm = list_gorm\<rparr>"

definition ex_heap :: heap where
  "ex_heap = \<lparr>h_next = 0, h_iids = (\<lambda>_. [])\<rparr>"

text \<open>An empty world, whose database fails at the writes that \<open>fs\<close> tells.\<close>

definition ex_world :: "bool list \<Rightarrow> (list_db, mock) world" where
  "ex_world fs =
     \<lparr>w_store = \<lparr>dbConfigErr = None, st_open = None, st_db = \<lparr>db_rows = (\<lambda>_. []), db_fails = fs\<rparr>\<rparr>,
      w_cloud = mock_init, w_heap = ex_heap, w_xids = 0, w_locks = [], w_windowsImageCache = (\<lambda>_. None)\<rparr>"

lemma ex_env_gorm [simp]: "env_gorm (ex_env p) = list_gorm"
  by (simp add: ex_env_def)

lemma ex_gorm_ok: "gorm_ok (env_gorm (ex_env p)) list_rows"
  by (simp add: list_gorm_ok)

lemma ex_permission [simp]: "permission_mode (ex_env p) \<longleftrightarrow> p \<noteq> []"
  by (simp add: permission_mode_def ex_env_def)

lemma ex_perm: "\<not> permission_mode (ex_env [])"
  by simp

end
