(* ===== verification/KeyPairManager.thy ===== *)
theory KeyPairManager
  imports Example
begin

text \<open>
  The key pair manager, \<open>common-runtime/KeyPairManager.go\<close>: registration, creation, listing, reading and deletion
  of key pairs over an arbitrary driver.
\<close>

section \<open>Operations\<close>

text \<open>\<open>ccm.GetCloudConnection\<close> and the handler it creates.\<close>

definition key_handler :: "('d, 'c) env \<Rightarrow> string \<Rightarrow> 'c KeyPairHandler go_result" where
  "key_handler env connectionName =
     (case ccm_GetCloudConnection env connectionName of
        Inl err \<Rightarrow> Inl err
      | Inr cldConn \<Rightarrow> CreateKeyPairHandler cldConn)"

definition hideSecretInfo :: "KeyPairInfo \<Rightarrow> KeyPairInfo" where
  "hideSecretInfo info =
     info\<lparr>key_PublicKey := ''Hidden for security.'', key_PrivateKey := ''Hidden for security.''\<rparr>"

definition RegisterKey :: "('d, 'c) env \<Rightarrow> string \<Rightarrow> IID \<Rightarrow> (('d, 'c) world, KeyPairInfo) prog" where
  "RegisterKey env connectionName userIID =
     bindP (lift_result (EmptyCheckAndTrim ''connectionName'' connectionName)) (\<lambda>connectionName.
     bindP (validated (ValidateStruct (reflect_IID userIID) [])) (\<lambda>_.
     bindP (lift_result (key_handler env connectionName)) (\<lambda>handler.
     withLock keySPLock Wr connectionName (NameId userIID)
       (bindP (has_name env KeyIIDInfo connectionName (NameId userIID)) (\<lambda>bool_ret.
        if bool_ret then throw (already_exists RT_KEY (NameId userIID) connectionName)
        else
        bindP (onCloud (kh_GetKey handler \<lparr>NameId = getMSShortID (SystemId userIID), SystemId = SystemId userIID\<rparr>)) (\<lambda>getInfo.
        let systemId = getMSShortID (SystemId (key_IId getInfo));
            spiderIId = \<lparr>NameId = NameId userIID, SystemId = systemId @ '':'' @ SystemId (key_IId getInfo)\<rparr>
        in
        bindP (onStore (Insert (env_gorm env) KeyIIDInfo (FirstIIDInfo connectionName (NameId spiderIId) (SystemId spiderIId)))) (\<lambda>_.
        ret (hideSecretInfo (getInfo\<lparr>key_IId := userIID\<rparr>)))))))))"

definition CreateKey :: "('d, 'c) env \<Rightarrow> string \<Rightarrow> string \<Rightarrow> KeyPairReqInfo \<Rightarrow> string \<Rightarrow> (('d, 'c) world, KeyPairInfo) prog" where
  "CreateKey env connectionName rsType reqInfo IDTransformMode =
     bindP (lift_result (EmptyCheckAndTrim ''connectionName'' connectionName)) (\<lambda>connectionName.
     bindP (validated (ValidateStruct (reflect_KeyPairReqInfo reqInfo) [''resources.IID:SystemId''])) (\<lambda>_.
     bindP (lift_result (key_handler env connectionName)) (\<lambda>handler.
     let reqNameId = NameId (keyReq_IId reqInfo) in
     withLock keySPLock Wr connectionName reqNameId
       (bindP (has_name env KeyIIDInfo connectionName reqNameId) (\<lambda>bool_ret.
        if bool_ret then throw (already_exists RT_KEY reqNameId connectionName)
        else
        bindP (make_spUUID env IDTransformMode connectionName rsType reqNameId) (\<lambda>spUUID.
        bindP (onCloud (kh_CreateKey handler (reqInfo\<lparr>keyReq_IId := \<lparr>NameId = spUUID, SystemId = []\<rparr>\<rparr>))) (\<lambda>info.
        let spiderIId = \<lparr>NameId = reqNameId, SystemId = spUUID @ '':'' @ SystemId (key_IId info)\<rparr>
        in
        catchP (onStore (Insert (env_gorm env) KeyIIDInfo (FirstIIDInfo connectionName (NameId spiderIId) (SystemId spiderIId))))
          (\<lambda>err.
             bindP (onCloudDel (kh_DeleteKey handler (key_IId info))) (\<lambda>(_, err2).
             case err2 of Some e2 \<Rightarrow> throw (err @ '', '' @ e2) | None \<Rightarrow> throw err))
          (\<lambda>_. ret (info\<lparr>key_IId := getUserIID spiderIId\<rparr>))))))))) "

text \<open>The loop of \<open>ListKey\<close>, from the rows on; \<open>infoList2\<close> is what it has appended so far.\<close>

fun ListKey_loop :: "('d, 'c) env \<Rightarrow> 'c KeyPairHandler \<Rightarrow> string \<Rightarrow> iid_row list \<Rightarrow> KeyPairInfo list \<Rightarrow>
    (('d, 'c) world, KeyPairInfo list) prog" where
  "ListKey_loop env handler connectionName [] infoList2 = ret infoList2"
| "ListKey_loop env handler connectionName (iidInfo # rest) infoList2 =
     catchP (withLock keySPLock Rd connectionName (row_NameId iidInfo) (onCloud (kh_GetKey handler (getDriverIID (row_IID iidInfo)))))
       (\<lambda>err.
          if checkNotFoundError err
          then ListKey_loop env handler connectionName rest (infoList2 @ [KeyPairInfo_of (row_IID iidInfo)])
          else throw err)
       (\<lambda>info.
          let info = info\<lparr>key_IId := (key_IId info)\<lparr>NameId := row_NameId iidInfo\<rparr>\<rparr>
          in ListKey_loop env handler connectionName rest (infoList2 @ [hideSecretInfo info]))"

definition ListKey :: "('d, 'c) env \<Rightarrow> string \<Rightarrow> (('d, 'c) world, KeyPairInfo list) prog" where
  "ListKey env connectionName =
     bindP (lift_result (EmptyCheckAndTrim ''connectionName'' connectionName)) (\<lambda>connectionName.
     bindP (lift_result (key_handler env connectionName)) (\<lambda>handler.
     bindP (list_iid_infos env KeyIIDInfo connectionName) (\<lambda>iidInfoList.
     if iidInfoList = [] then ret []
     else ListKey_loop env handler connectionName iidInfoList [])))"

definition GetKey :: "('d, 'c) env \<Rightarrow> string \<Rightarrow> string \<Rightarrow> (('d, 'c) world, KeyPairInfo) prog" where
  "GetKey env connectionName nameID =
     bindP (lift_result (EmptyCheckAndTrim ''connectionName'' connectionName)) (\<lambda>connectionName.
     bindP (lift_result (EmptyCheckAndTrim ''nameID'' nameID)) (\<lambda>nameID.
     bindP (lift_result (key_handler env connectionName)) (\<lambda>handler.
     withLock keySPLock Rd connectionName nameID
       (bindP (get_iid_info env KeyIIDInfo connectionName nameID) (\<lambda>iidInfo.
        bindP (onCloud (kh_GetKey handler (getDriverIID (row_IID iidInfo)))) (\<lambda>info.
        ret (hideSecretInfo (info\<lparr>key_IId := (key_IId info)\<lparr>NameId := row_NameId iidInfo\<rparr>\<rparr>))))))))"

definition DeleteKey :: "('d, 'c) env \<Rightarrow> string \<Rightarrow> string \<Rightarrow> string \<Rightarrow> (('d, 'c) world, bool) prog" where
  "DeleteKey env connectionName nameID force =
     bindP (lift_result (EmptyCheckAndTrim ''connectionName'' connectionName)) (\<lambda>connectionName.
     bindP (lift_result (EmptyCheckAndTrim ''nameID'' nameID)) (\<lambda>nameID.
     bindP (lift_result (key_handler env connectionName)) (\<lambda>handler.
     withLock keySPLock Wr connectionName nameID
       (bindP (get_iid_info env KeyIIDInfo connectionName nameID) (\<lambda>iidInfo.
        bindP (onCloudDel (kh_DeleteKey handler (getDriverIID (row_IID iidInfo)))) (\<lambda>(result, err).
        delete_tail force result err
          (onStore (DeleteByConditions (env_gorm env) KeyIIDInfo CONNECTION_NAME_COLUMN (row_ConnectionName iidInfo) NAME_ID_COLUMN nameID))))))))"

definition CountAllKeys :: "('d, 'c) env \<Rightarrow> (('d, 'c) world, nat) prog" where
  "CountAllKeys env = onStore (CountAllNameIDs (env_gorm env) KeyIIDInfo)"

definition CountKeysByConnection :: "('d, 'c) env \<Rightarrow> string \<Rightarrow> (('d, 'c) world, nat) prog" where
  "CountKeysByConnection env connectionName = onStore (CountNameIDsByConnection (env_gorm env) KeyIIDInfo connectionName)"

section \<open>Properties over any driver\<close>

text \<open>
  A successful \<open>CreateKey\<close> adds exactly one row to the meta database, for a name that was free in the
  connection (in every connection, in the permission-based mode), its identifiers being those it returns;
  a failed one leaves the meta database as it was; and every path gives back the locks it took.
\<close>

theorem CreateKey_rows:
  fixes env :: "('d, 'c) env" and w :: "('d, 'c) world"
  assumes "gorm_ok (env_gorm env) R"
  shows "wp (CreateKey env conn rsType req mode)
    (\<lambda>info w'. let n = NameId (keyReq_IId req); c = TrimSpace conn in
       \<not> name_taken env (wrows R w KeyIIDInfo) c n \<and> w_locks w' = w_locks w \<and>
       (\<exists>spUUID cspId. wrows R w' = (wrows R w)(KeyIIDInfo :=
            insert (FirstIIDInfo c n (spiderSystemId spUUID cspId)) (wrows R w KeyIIDInfo)) \<and>
          key_IId info = getUserIID \<lparr>NameId = n, SystemId = spiderSystemId spUUID cspId\<rparr>))
    (\<lambda>e w'. wrows R w' = wrows R w \<and> w_locks w' = w_locks w) w"
  unfolding CreateKey_def Let_def spiderSystemId_def[symmetric]
  by (intro wp_rules has_name_wp'[OF assms] make_spUUID_wp[where R = R] cloud_wp row_insert_wp[OF assms])
    (auto simp: EmptyCheckAndTrim_Inr reads_def upsert_new_name)

text \<open>
  A successful \<open>RegisterKey\<close> adds exactly one row, for a name that was free, with the CSP id the driver
  reported; a failed one leaves the meta database as it was. What it returns carries the user's identifiers
  and hides the key material.
\<close>

theorem RegisterKey_rows:
  fixes env :: "('d, 'c) env" and w :: "('d, 'c) world"
  assumes "gorm_ok (env_gorm env) R"
  shows "wp (RegisterKey env conn userIID)
    (\<lambda>info w'. let c = TrimSpace conn in
       \<not> name_taken env (wrows R w KeyIIDInfo) c (NameId userIID) \<and> w_locks w' = w_locks w \<and>
       (\<exists>cspId. wrows R w' = (wrows R w)(KeyIIDInfo :=
            insert (FirstIIDInfo c (NameId userIID) (spiderSystemId (getMSShortID cspId) cspId)) (wrows R w KeyIIDInfo))) \<and>
       key_IId info = userIID \<and> key_PrivateKey info = ''Hidden for security.'' \<and> NameId userIID \<noteq> [] \<and> SystemId userIID \<noteq> [])
    (\<lambda>e w'. wrows R w' = wrows R w \<and> w_locks w' = w_locks w) w"
  unfolding RegisterKey_def Let_def spiderSystemId_def[symmetric]
  by (intro wp_rules has_name_wp'[OF assms] cloud_wp row_insert_wp[OF assms])
    (auto simp: EmptyCheckAndTrim_Inr reads_def upsert_new_name hideSecretInfo_def ValidateStruct_IID)

text \<open>
  C39: What \<open>GetKey\<close> returns is the driver's answer for the identifier that is stored in a row of the name, of the
  connection (in the permission-based mode: of any connection), with the user's name put in and with both key
  fields masked. Reading changes no row, and outside that mode nothing but this one call of the driver changes the cloud.
  The other fields are the driver's, \<open>KeyValueList\<close> among them, where some drivers repeat the public key.
\<close>

theorem GetKey_hides:
  fixes env :: "('d, 'c) env" and w :: "('d, 'c) world"
  assumes "gorm_ok (env_gorm env) R"
  shows "wp (GetKey env conn name)
    (\<lambda>info w'. wrows R w' = wrows R w \<and> w_locks w' = w_locks w \<and>
       (\<exists>h r key c. key_handler env (TrimSpace conn) = Inr h \<and>
          r \<in> wrows R w KeyIIDInfo \<and> row_NameId r = TrimSpace name \<and>
          (permission_mode env \<or> row_ConnectionName r = TrimSpace conn \<and> c = w_cloud w) \<and>
          kh_GetKey h (getDriverIID (row_IID r)) c = (Inr key, w_cloud w') \<and>
          info = key\<lparr>key_IId := \<lparr>NameId = TrimSpace name, SystemId = SystemId (key_IId key)\<rparr>,
            key_PublicKey := ''Hidden for security.'', key_PrivateKey := ''Hidden for security.''\<rparr>))
    (\<lambda>e w'. wrows R w' = wrows R w \<and> w_locks w' = w_locks w) w"
proof -
  have named: "(key_IId k)\<lparr>NameId := n\<rparr> = \<lparr>NameId = n, SystemId = SystemId (key_IId k)\<rparr>" for k n by simp
  show ?thesis
    unfolding GetKey_def
    by (intro wp_walk get_iid_info_wp[OF assms] wp_onCloudI)
      (auto simp: EmptyCheckAndTrim_Inr reads_def hideSecretInfo_def named, blast?)
qed

lemma ListKey_loop_wp:
  fixes env :: "('d, 'c) env" and w :: "('d, 'c) world"
  assumes "\<And>infos w'. wrows R w' = wrows R w \<Longrightarrow> w_locks w' = w_locks w \<Longrightarrow>
      map (NameId \<circ> key_IId) infos = map (NameId \<circ> key_IId) acc @ map row_NameId rs \<Longrightarrow>
      (\<forall>i \<in> set infos - set acc. key_PrivateKey i \<in> {[], ''Hidden for security.''}) \<Longrightarrow> Q infos w'"
    and "\<And>e w'. wrows R w' = wrows R w \<Longrightarrow> w_locks w' = w_locks w \<Longrightarrow> E e w'"
  shows "wp (ListKey_loop env h conn rs acc) Q E w"
  using assms
proof (induction rs arbitrary: acc w)
  case Nil
  then show ?case by (auto intro!: wp_retI)
next
  case (Cons r rs)
  show ?case
    unfolding ListKey_loop.simps Let_def
    by (intro wp_rules cloud_wp Cons.IH)
      (auto intro!: Cons.prems simp: row_IID_def KeyPairInfo_of_def hideSecretInfo_def)
qed

text \<open>
  \<open>ListKey\<close> lists every row of the connection once, under its name, whether or not the CSP still has the
  key, shows no key material, and changes no row.
\<close>

theorem ListKey_complete:
  fixes env :: "('d, 'c) env" and w :: "('d, 'c) world"
  assumes "gorm_ok (env_gorm env) R" and "\<not> permission_mode env"
  shows "wp (ListKey env conn)
    (\<lambda>infos w'. wrows R w' = wrows R w \<and> w_locks w' = w_locks w \<and>
       (\<exists>rs. distinct rs \<and> set rs = {r \<in> wrows R w KeyIIDInfo. row_ConnectionName r = TrimSpace conn} \<and>
          map (NameId \<circ> key_IId) infos = map row_NameId rs) \<and>
       (\<forall>i \<in> set infos. key_PrivateKey i \<in> {[], ''Hidden for security.''}))
    (\<lambda>e w'. wrows R w' = wrows R w \<and> w_locks w' = w_locks w) w"
  unfolding ListKey_def
  apply (intro wp_rules list_iid_infos_wp[OF assms(1)] ListKey_loop_wp[where R = R])
  apply (auto simp: EmptyCheckAndTrim_Inr reads_def assms(2))
  done

text \<open>
  C40: Outside the permission-based mode, \<open>DeleteKey\<close> drops exactly the row of the connection and name it was asked for, and does so only after the
  driver confirmed the deletion, or said that it does not know the key, or when the caller forces it; the
  result is the driver's. In every other case no row changes. Only a forced deletion ignores a failure of
  the meta database.
\<close>

theorem DeleteKey_rows:
  fixes env :: "('d, 'c) env" and w :: "('d, 'c) world"
  assumes "gorm_ok (env_gorm env) R" and "\<not> permission_mode env"
  shows "wp (DeleteKey env conn name force)
    (\<lambda>res w'. let c = TrimSpace conn; n = TrimSpace name in
       w_locks w' = w_locks w \<and>
       (\<exists>r h err. key_handler env c = Inr h \<and> r \<in> wrows R w KeyIIDInfo \<and> row_ConnectionName r = c \<and> row_NameId r = n \<and>
          kh_DeleteKey h (getDriverIID (row_IID r)) (w_cloud w) = ((res, err), w_cloud w') \<and>
          (if deletes force res err
           then wrows R w' = (wrows R w)(KeyIIDInfo :=
                  {x \<in> wrows R w KeyIIDInfo. \<not> (row_ConnectionName x = c \<and> row_NameId x = n)}) \<or>
                (forced force err \<and> wrows R w' = wrows R w)
           else wrows R w' = wrows R w \<and> \<not> res \<and> err = None)))
    (\<lambda>e w'. wrows R w' = wrows R w \<and> w_locks w' = w_locks w) w"
  unfolding DeleteKey_def Let_def
  apply (intro wp_rules get_iid_info_wp[OF assms(1)] delete_tail_wp delete_by_wp[OF assms(1)])
  apply (auto simp: EmptyCheckAndTrim_Inr reads_def assms(2))
  done

section \<open>Over a driver that keeps its contract\<close>

locale key_driver =
  csp_resource inv res key_IId "\<lambda>r :: KeyPairReqInfo. NameId (keyReq_IId r)" "kh_CreateKey h" "kh_GetKey h" "kh_DeleteKey h" "kh_ListIID h"
  for inv :: "'c \<Rightarrow> bool" and res :: "'c \<Rightarrow> IID \<rightharpoonup> KeyPairInfo" and h :: "'c KeyPairHandler"
begin

lemma rollback_wp:
  assumes "h' = h" and "inv (w_cloud w)" and "res (w_cloud w) i = Some info"
    and "\<And>c'. inv c' \<Longrightarrow> res c' = (res (w_cloud w))(i := None) \<Longrightarrow> Q (True, None) (w\<lparr>w_cloud := c'\<rparr>)"
  shows "wp (onCloudDel (kh_DeleteKey h' i)) Q E w"
  using delete_law[OF assms(2,3)] assms(1,4) by (auto simp: wp_onCloudDel)

lemma create_cloud_wp:
  assumes "h' = h" and "inv (w_cloud w)" and "free_name (w_cloud w) (NameId (keyReq_IId r))"
    and "\<And>info c'. inv c' \<Longrightarrow> NameId (key_IId info) = NameId (keyReq_IId r) \<Longrightarrow> res (w_cloud w) (key_IId info) = None \<Longrightarrow>
      res c' = (res (w_cloud w))(key_IId info \<mapsto> info) \<Longrightarrow> Q info (w\<lparr>w_cloud := c'\<rparr>)"
    and "\<And>e c'. inv c' \<Longrightarrow> res c' = res (w_cloud w) \<Longrightarrow> E e (w\<lparr>w_cloud := c'\<rparr>)"
  shows "wp (onCloud (kh_CreateKey h' r)) Q E w"
  unfolding wp_onCloud assms(1) by (rule create_wp[OF assms(2,3)]) (auto intro: assms(4,5))

lemma get_cloud_wp:
  assumes "h' = h" and "inv (w_cloud w)" and "res (w_cloud w) i = Some info" and "Q info w"
  shows "wp (onCloud (kh_GetKey h' i)) Q E w"
  unfolding wp_onCloud using get_law[OF assms(2,3)] assms(1,4) by (simp add: wp_def)

text \<open>A creation changes the cloud and the meta database together, or neither.\<close>

lemma CreateKey_atomic:
  fixes env :: "('d, 'c) env" and w :: "('d, 'c) world"
  assumes ok: "gorm_ok (env_gorm env) R" and pm: "\<not> permission_mode env" and h: "key_handler env (TrimSpace conn) = Inr h"
    and inv: "inv (w_cloud w)"
    and free: "\<And>x. next_name env mode (TrimSpace conn) rsType (NameId (keyReq_IId req)) (w_xids w) = Inr x \<Longrightarrow> free_name (w_cloud w) x"
  shows "wp (CreateKey env conn rsType req mode)
    (\<lambda>info w'. inv (w_cloud w') \<and> \<not> name_taken env (wrows R w KeyIIDInfo) (TrimSpace conn) (NameId (keyReq_IId req)) \<and>
       (\<exists>key. res (w_cloud w) (key_IId key) = None \<and>
       res (w_cloud w') = (res (w_cloud w))(key_IId key \<mapsto> key) \<and>
       wrows R w' = (wrows R w)(KeyIIDInfo := insert
         (FirstIIDInfo (TrimSpace conn) (NameId (keyReq_IId req)) (spiderSystemId (NameId (key_IId key)) (SystemId (key_IId key))))
         (wrows R w KeyIIDInfo)) \<and>
       key_IId info = getUserIID \<lparr>NameId = NameId (keyReq_IId req),
         SystemId = spiderSystemId (NameId (key_IId key)) (SystemId (key_IId key))\<rparr> \<and>
       next_name env mode (TrimSpace conn) rsType (NameId (keyReq_IId req)) (w_xids w) = Inr (NameId (key_IId key))))
    (\<lambda>e w'. inv (w_cloud w') \<and> res (w_cloud w') = res (w_cloud w) \<and> wrows R w' = wrows R w) w"
  unfolding CreateKey_def Let_def spiderSystemId_def[symmetric]
  by (intro wp_walk has_name_wp'[OF ok] make_spUUID_wp[where R = R] create_cloud_wp row_insert_wp[OF ok] rollback_wp)
    (auto simp: EmptyCheckAndTrim_Inr reads_def upsert_new_name pm h inv fun_upd_idem intro!: free)

text \<open>Reading and deleting a name whose only row belongs to a resource of the cloud.\<close>

lemma GetKey_found:
  fixes env :: "('d, 'c) env" and w :: "('d, 'c) world"
  assumes ok: "gorm_ok (env_gorm env) R" and pm: "\<not> permission_mode env" and h: "key_handler env (TrimSpace conn) = Inr h"
    and inv: "inv (w_cloud w)"
    and only: "\<And>r. r \<in> wrows R w KeyIIDInfo \<Longrightarrow> row_ConnectionName r = TrimSpace conn \<Longrightarrow> row_NameId r = TrimSpace name \<Longrightarrow>
      getDriverIID (row_IID r) = i"
    and key: "res (w_cloud w) i = Some key"
  shows "wp (GetKey env conn name)
    (\<lambda>info w'. info = hideSecretInfo (key\<lparr>key_IId := (key_IId key)\<lparr>NameId := TrimSpace name\<rparr>\<rparr>) \<and> w_cloud w' = w_cloud w)
    (\<lambda>_ w'. wrows R w' = wrows R w) w"
  unfolding GetKey_def
  by (intro wp_walk get_iid_info_wp[OF ok] get_cloud_wp)
    (auto simp: EmptyCheckAndTrim_Inr reads_def pm h inv key only)

lemma DeleteKey_found:
  fixes env :: "('d, 'c) env" and w :: "('d, 'c) world"
  assumes ok: "gorm_ok (env_gorm env) R" and pm: "\<not> permission_mode env" and h: "key_handler env (TrimSpace conn) = Inr h"
    and inv: "inv (w_cloud w)"
    and only: "\<And>r. r \<in> wrows R w KeyIIDInfo \<Longrightarrow> row_ConnectionName r = TrimSpace conn \<Longrightarrow> row_NameId r = TrimSpace name \<Longrightarrow>
      getDriverIID (row_IID r) = i"
    and key: "res (w_cloud w) i = Some key" and unforced: "force \<noteq> ''true''"
  shows "wp (DeleteKey env conn name force)
    (\<lambda>result w'. result \<and> inv (w_cloud w') \<and> res (w_cloud w') = (res (w_cloud w))(i := None) \<and>
       wrows R w' = (wrows R w)(KeyIIDInfo := {x \<in> wrows R w KeyIIDInfo.
         \<not> (row_ConnectionName x = TrimSpace conn \<and> row_NameId x = TrimSpace name)}))
    (\<lambda>_ w'. inv (w_cloud w') \<and> wrows R w' = wrows R w) w"
  unfolding DeleteKey_def
  by (intro wp_walk get_iid_info_wp[OF ok] rollback_wp delete_tail_wp delete_by_wp[OF ok])
    (auto simp: EmptyCheckAndTrim_Inr reads_def pm h inv key only deletes_def forced_def unforced)

text \<open>A key that was created is what a reader of its name gets.\<close>

lemma create_then_get:
  fixes env :: "('d, 'c) env" and w :: "('d, 'c) world"
  assumes ok: "gorm_ok (env_gorm env) R" and pm: "\<not> permission_mode env" and h: "key_handler env (TrimSpace conn) = Inr h"
    and inv: "inv (w_cloud w)" and trim: "TrimSpace (NameId (keyReq_IId req)) = NameId (keyReq_IId req)"
    and name: "next_name env mode (TrimSpace conn) rsType (NameId (keyReq_IId req)) (w_xids w) = Inr x"
    and free: "free_name (w_cloud w) x" and colon: "CHR '':'' \<notin> set x"
    and ids: "\<And>c i key. inv c \<Longrightarrow> res c i = Some key \<Longrightarrow> CHR '':'' \<notin> set (NameId i) \<Longrightarrow> \<not> Contains (SystemId i) (NameId i @ '':'')"
  shows "wp (bindP (CreateKey env conn rsType req mode) (\<lambda>info. bindP (GetKey env conn (NameId (keyReq_IId req))) (\<lambda>info'. ret (info, info'))))
    (\<lambda>(info, info') w'. \<exists>csp. res (w_cloud w') \<lparr>NameId = x, SystemId = csp\<rparr> \<noteq> None \<and>
       key_IId info = \<lparr>NameId = NameId (keyReq_IId req), SystemId = csp\<rparr> \<and>
       key_IId info' = \<lparr>NameId = NameId (keyReq_IId req), SystemId = csp\<rparr>)
    (\<lambda>_ w'. True) w"
proof (rule wp_bindPI, rule wp_mono[OF CreateKey_atomic[OF ok pm h inv]])
  fix y
  assume "next_name env mode (TrimSpace conn) rsType (NameId (keyReq_IId req)) (w_xids w) = Inr y"
  with name free show "free_name (w_cloud w) y" by simp
next
  let ?n = "NameId (keyReq_IId req)"
  fix info w'
  assume a: "inv (w_cloud w') \<and> \<not> name_taken env (wrows R w KeyIIDInfo) (TrimSpace conn) ?n \<and>
       (\<exists>key. res (w_cloud w) (key_IId key) = None \<and> res (w_cloud w') = (res (w_cloud w))(key_IId key \<mapsto> key) \<and>
       wrows R w' = (wrows R w)(KeyIIDInfo := insert (FirstIIDInfo (TrimSpace conn) ?n
         (spiderSystemId (NameId (key_IId key)) (SystemId (key_IId key)))) (wrows R w KeyIIDInfo)) \<and>
       key_IId info = getUserIID \<lparr>NameId = ?n, SystemId = spiderSystemId (NameId (key_IId key)) (SystemId (key_IId key))\<rparr> \<and>
       next_name env mode (TrimSpace conn) rsType ?n (w_xids w) = Inr (NameId (key_IId key)))"
  then obtain key where r: "res (w_cloud w') = (res (w_cloud w))(key_IId key \<mapsto> key)"
    and rows: "wrows R w' = (wrows R w)(KeyIIDInfo := insert (FirstIIDInfo (TrimSpace conn) ?n
         (spiderSystemId (NameId (key_IId key)) (SystemId (key_IId key)))) (wrows R w KeyIIDInfo))"
    and info: "key_IId info = getUserIID \<lparr>NameId = ?n, SystemId = spiderSystemId (NameId (key_IId key)) (SystemId (key_IId key))\<rparr>"
    and x: "NameId (key_IId key) = x"
    using name by auto
  from a have inv': "inv (w_cloud w')" and fresh: "\<not> name_taken env (wrows R w KeyIIDInfo) (TrimSpace conn) ?n" by auto
  have "\<not> Contains (SystemId (key_IId key)) (x @ '':'')"
    using ids[OF inv', of "key_IId key" key] r colon x by simp
  with x colon have "getDriverIID \<lparr>NameId = ?n, SystemId = spiderSystemId x (SystemId (key_IId key))\<rparr> = key_IId key"
    and u: "key_IId info = \<lparr>NameId = ?n, SystemId = SystemId (key_IId key)\<rparr>"
    using info by (auto simp: getDriverIID_spider getUserIID_spider)
  then have only: "getDriverIID (row_IID q) = key_IId key"
    if "q \<in> wrows R w' KeyIIDInfo" "row_ConnectionName q = TrimSpace conn" "row_NameId q = TrimSpace ?n" for q
    using that fresh rows x trim by (auto simp: name_taken_def row_IID_def FirstIIDInfo_def)
  from r have k: "res (w_cloud w') (key_IId key) = Some key" by simp
  then have k': "res (w_cloud w') \<lparr>NameId = x, SystemId = SystemId (key_IId key)\<rparr> = Some key"
    using x by (cases "key_IId key") simp
  have "wp (GetKey env conn ?n)
      (\<lambda>info' w''. info' = hideSecretInfo (key\<lparr>key_IId := (key_IId key)\<lparr>NameId := ?n\<rparr>\<rparr>) \<and> w_cloud w'' = w_cloud w')
      (\<lambda>_ _. True) w'"
    using GetKey_found[OF ok pm h inv' only k] by (rule wp_mono) (simp_all add: trim)
  then show "wp (bindP (GetKey env conn ?n) (\<lambda>info'. ret (info, info')))
      (\<lambda>(info, info') w'. \<exists>csp. res (w_cloud w') \<lparr>NameId = x, SystemId = csp\<rparr> \<noteq> None \<and>
         key_IId info = \<lparr>NameId = ?n, SystemId = csp\<rparr> \<and> key_IId info' = \<lparr>NameId = ?n, SystemId = csp\<rparr>)
      (\<lambda>_ _. True) w'"
    by (intro wp_bindPI, elim wp_mono) (use u k' x in \<open>auto simp: wp_ret hideSecretInfo_def\<close>)
qed simp

end

interpretation mock_key_driver: key_driver "\<lambda>c. ids_ok key_IId (mock_keys m c)"
    "\<lambda>c. res_in key_IId (mock_keys m c)" "MockKeyPairHandler m"
  for m :: string
  unfolding key_driver_def MockKeyPairHandler_def KeyPairHandler.simps by (rule mock_key.csp_resource_axioms)

section \<open>Concrete runs\<close>

definition ex_key_req :: "string \<Rightarrow> KeyPairReqInfo" where
  "ex_key_req n = \<lparr>keyReq_IId = \<lparr>NameId = n, SystemId = []\<rparr>, keyReq_TagList = []\<rparr>"

definition ex_key :: KeyPairInfo where
  "ex_key = \<lparr>key_IId = \<lparr>NameId = ''my-key'', SystemId = ''my-key-9m4e2mr0ui3e8a215n4g''\<rparr>,
     key_Fingerprint = ''XXXXFingerprint'', key_PublicKey = ''XXXXPublicKey'', key_PrivateKey = ''XXXXPrivateKey'',
     key_VMUserID = ''cb-user'', key_TagList = [], key_KeyValueList = []\<rparr>"

definition ex_keys :: "(list_db, mock) world" where
  "ex_keys = snd (CreateKey (ex_env []) ''mock'' RT_KEY (ex_key_req ''my-key'') [] (ex_world []))"

definition ex_row :: iid_row where
  "ex_row = FirstIIDInfo ''mock'' ''my-key'' ''my-key-9m4e2mr0ui3e8a215n4g:my-key-9m4e2mr0ui3e8a215n4g''"

lemma ex_create: "fst (CreateKey (ex_env []) ''mock'' RT_KEY (ex_key_req ''my-key'') [] (ex_world [])) = Inr ex_key"
  by code_simp

lemma ex_create_fails:
  "fst (CreateKey (ex_env []) ''mock'' RT_KEY (ex_key_req ''my-key'') [] (ex_world [True])) = Inl ''disk I/O error''"
  by code_simp

lemma ex_keys_rows: "db_rows (st_db (w_store ex_keys)) KeyIIDInfo = [ex_row]"
  by code_simp

lemma ex_keys_locks: "w_locks ex_keys = []"
  by code_simp

lemma ex_get_key: "fst (GetKey (ex_env []) ''mock'' ''my-key'' ex_keys) = Inr (hideSecretInfo ex_key)"
  by code_simp

lemma ex_list: "fst (ListKey (ex_env []) ''mock'' ex_keys) = Inr [hideSecretInfo ex_key]"
  by code_simp

lemma ex_delete: "fst (DeleteKey (ex_env []) ''mock'' ''my-key'' '''' ex_keys) = Inr True"
  by code_simp

lemma ex_register:
  "fst (RegisterKey (ex_env []) ''mock'' \<lparr>NameId = ''k2'', SystemId = ''my-key-9m4e2mr0ui3e8a215n4g''\<rparr> ex_keys) =
     Inr (hideSecretInfo (ex_key\<lparr>key_IId := \<lparr>NameId = ''k2'', SystemId = ''my-key-9m4e2mr0ui3e8a215n4g''\<rparr>\<rparr>))"
  by code_simp

lemma ex_wrows: "wrows list_rows ex_keys KeyIIDInfo = {ex_row}" "wrows list_rows (ex_world n) t = {}"
  by (simp_all add: wrows_def list_rows_def ex_keys_rows ex_world_def)

lemma ex_trim [simp]: "TrimSpace ''mock'' = ''mock''" "TrimSpace ''my-key'' = ''my-key''"
  by code_simp+

lemma ex_key_req_name [simp]: "NameId (keyReq_IId (ex_key_req n)) = n"
  by (simp add: ex_key_req_def)

lemma CreateKey_rows_witness:
  "\<not> name_taken (ex_env []) {} ''mock'' ''my-key'' \<and>
   (\<exists>spUUID cspId. wrows list_rows ex_keys KeyIIDInfo = {FirstIIDInfo ''mock'' ''my-key'' (spiderSystemId spUUID cspId)}) \<and>
   wrows list_rows (snd (CreateKey (ex_env []) ''mock'' RT_KEY (ex_key_req ''my-key'') [] (ex_world [True]))) KeyIIDInfo = {}"
proof -
  note ok = wp_ok_run[OF CreateKey_rows[OF ex_gorm_ok] ex_create, folded ex_keys_def]
  note err = wp_err_run[OF CreateKey_rows[OF ex_gorm_ok] ex_create_fails]
  show ?thesis using ok err unfolding Let_def ex_key_req_name ex_trim by (auto simp del: ex_wrows(1) simp: ex_wrows(2)) blast
qed

lemma RegisterKey_rows_witness:
  "\<exists>w' cspId. w' = snd (RegisterKey (ex_env []) ''mock'' \<lparr>NameId = ''k2'', SystemId = ''my-key-9m4e2mr0ui3e8a215n4g''\<rparr> ex_keys) \<and>
     wrows list_rows w' KeyIIDInfo = {FirstIIDInfo ''mock'' ''k2'' (spiderSystemId (getMSShortID cspId) cspId), ex_row}"
proof -
  define w' where
    "w' = snd (RegisterKey (ex_env []) ''mock'' \<lparr>NameId = ''k2'', SystemId = ''my-key-9m4e2mr0ui3e8a215n4g''\<rparr> ex_keys)"
  note ok = wp_ok_run[OF RegisterKey_rows[OF ex_gorm_ok] ex_register, folded w'_def]
  show ?thesis using ok unfolding Let_def ex_trim w'_def[symmetric] by (auto simp: ex_wrows)
qed

lemma GetKey_hides_witness:
  "name_taken (ex_env []) {ex_row} ''mock'' ''my-key'' \<and> key_PrivateKey (hideSecretInfo ex_key) = ''Hidden for security.''"
  using wp_ok_run[OF GetKey_hides[OF ex_gorm_ok] ex_get_key] by (auto simp: ex_wrows name_taken_def hideSecretInfo_def)

lemma ListKey_complete_witness:
  "\<exists>rs. distinct rs \<and> set rs = {ex_row} \<and> map row_NameId rs = [''my-key'']"
proof -
  have p: "\<not> permission_mode (ex_env [])" by simp
  have r: "{r \<in> {ex_row}. row_ConnectionName r = ''mock''} = {ex_row}" by (auto simp: ex_row_def FirstIIDInfo_def)
  show ?thesis
    using wp_ok_run[OF ListKey_complete[OF ex_gorm_ok p] ex_list]
    unfolding ex_wrows ex_trim r by (auto simp: hideSecretInfo_def ex_key_def)
qed

lemma ex_key_handler: "key_handler (ex_env p) ''mock'' = Inr (MockKeyPairHandler ''m'')"
  by (simp add: key_handler_def ex_env_def ex_get_def ex_connection_def)

lemma mock_delete_no_error: "kh_DeleteKey (MockKeyPairHandler m) i c = ((True, err), c') \<Longrightarrow> err = None"
  by (auto simp: MockKeyPairHandler_def MockDeleteKey_def split: option.splits if_splits)

lemma DeleteKey_rows_witness:
  "wrows list_rows (snd (DeleteKey (ex_env []) ''mock'' ''my-key'' [] ex_keys)) KeyIIDInfo = {}"
proof -
  have p: "\<not> permission_mode (ex_env [])" by simp
  have r: "{r \<in> {ex_row}. \<not> (row_ConnectionName r = ''mock'' \<and> row_NameId r = ''my-key'')} = {}"
    by (auto simp: ex_row_def FirstIIDInfo_def)
  show ?thesis
    using wp_ok_run[OF DeleteKey_rows[OF ex_gorm_ok p] ex_delete]
    unfolding ex_wrows ex_trim Let_def r ex_key_handler
    by (auto simp: deletes_def forced_def split: if_splits dest!: mock_delete_no_error)
qed

section \<open>Over the mock driver\<close>

lemma mock_free_name: "x \<notin> (NameId \<circ> key_IId) ` set (mock_keys m c) \<Longrightarrow> mock_key_driver.free_name m c x"
  unfolding mock_key_driver.free_name_def by (auto simp: dom_res_in)

text \<open>
  C17: Over the mock driver and outside the permission-based mode, \<open>CreateKey\<close> changes the cloud and the meta database
  together or not at all, when the keys of this mock have distinct names, which are their identifiers (\<open>ids_ok\<close>), and none of them
  has the name the driver is about to get: a success adds one key to the cloud and the row that names it, and when
  the row cannot be stored, the key is removed from the cloud again. The name is free whenever it carries a fresh xid;
  with ID management off it is the user's, and a second connection to the same mock may have used it: there the driver
  makes a second key of that name, and the rollback removes the older one (\<open>rollback_removes_older_key\<close>).
\<close>

theorem CreateKey_mock_atomic:
  fixes env :: "('d, mock) env" and w :: "('d, mock) world"
  assumes "gorm_ok (env_gorm env) R" and "\<not> permission_mode env"
    and "key_handler env (TrimSpace conn) = Inr (MockKeyPairHandler m)"
    and "ids_ok key_IId (mock_keys m (w_cloud w))"
    and "\<And>x. next_name env mode (TrimSpace conn) rsType (NameId (keyReq_IId req)) (w_xids w) = Inr x \<Longrightarrow>
      x \<notin> (NameId \<circ> key_IId) ` set (mock_keys m (w_cloud w))"
  shows "wp (CreateKey env conn rsType req mode)
    (\<lambda>info w'. ids_ok key_IId (mock_keys m (w_cloud w')) \<and>
       \<not> name_taken env (wrows R w KeyIIDInfo) (TrimSpace conn) (NameId (keyReq_IId req)) \<and>
       (\<exists>key. res_in key_IId (mock_keys m (w_cloud w)) (key_IId key) = None \<and>
       res_in key_IId (mock_keys m (w_cloud w')) = (res_in key_IId (mock_keys m (w_cloud w)))(key_IId key \<mapsto> key) \<and>
       wrows R w' = (wrows R w)(KeyIIDInfo := insert
         (FirstIIDInfo (TrimSpace conn) (NameId (keyReq_IId req)) (spiderSystemId (NameId (key_IId key)) (SystemId (key_IId key))))
         (wrows R w KeyIIDInfo)) \<and>
       key_IId info = getUserIID \<lparr>NameId = NameId (keyReq_IId req),
         SystemId = spiderSystemId (NameId (key_IId key)) (SystemId (key_IId key))\<rparr> \<and>
       next_name env mode (TrimSpace conn) rsType (NameId (keyReq_IId req)) (w_xids w) = Inr (NameId (key_IId key))))
    (\<lambda>e w'. ids_ok key_IId (mock_keys m (w_cloud w')) \<and>
       res_in key_IId (mock_keys m (w_cloud w')) = res_in key_IId (mock_keys m (w_cloud w)) \<and> wrows R w' = wrows R w) w"
  by (rule mock_key_driver.CreateKey_atomic[OF assms(1-4)]) (rule mock_free_name, rule assms(5))

lemma ids_ok_no_prefix:
  assumes "ids_ok iid l" and "res_in iid l i = Some x"
  shows "\<not> Contains (SystemId i) (NameId i @ '':'')"
proof -
  from assms have "SystemId i = NameId i" by (auto simp: ids_ok_def dest: res_in_Some)
  then show ?thesis by (auto dest: Contains_length)
qed

text \<open>
  Over the mock driver, a key that \<open>CreateKey\<close> returned is what \<open>GetKey\<close> then finds under the user's name: both
  report the user's name with the CSP id of the key the driver created, for names without surrounding blanks.
\<close>

theorem CreateKey_GetKey_mock:
  fixes env :: "('d, mock) env" and w :: "('d, mock) world"
  assumes "gorm_ok (env_gorm env) R" and "\<not> permission_mode env"
    and "key_handler env (TrimSpace conn) = Inr (MockKeyPairHandler m)"
    and "ids_ok key_IId (mock_keys m (w_cloud w))" and "TrimSpace (NameId (keyReq_IId req)) = NameId (keyReq_IId req)"
    and "next_name env mode (TrimSpace conn) rsType (NameId (keyReq_IId req)) (w_xids w) = Inr x"
    and "x \<notin> (NameId \<circ> key_IId) ` set (mock_keys m (w_cloud w))" and "CHR '':'' \<notin> set x"
  shows "wp (bindP (CreateKey env conn rsType req mode) (\<lambda>info. bindP (GetKey env conn (NameId (keyReq_IId req))) (\<lambda>info'. ret (info, info'))))
    (\<lambda>(info, info') w'. \<exists>csp. res_in key_IId (mock_keys m (w_cloud w')) \<lparr>NameId = x, SystemId = csp\<rparr> \<noteq> None \<and>
       key_IId info = \<lparr>NameId = NameId (keyReq_IId req), SystemId = csp\<rparr> \<and>
       key_IId info' = \<lparr>NameId = NameId (keyReq_IId req), SystemId = csp\<rparr>)
    (\<lambda>_ w'. True) w"
  by (rule mock_key_driver.create_then_get[OF assms(1-6) mock_free_name[OF assms(7)] assms(8)]) (rule ids_ok_no_prefix)

text \<open>
  A row whose name has blanks around it cannot be reached: \<open>CreateKey\<close> stores the name as it came, but no name
  given to \<open>GetKey\<close> makes it return that name, and no name given to \<open>DeleteKey\<close> makes it drop that row.
\<close>

theorem blank_names_unreachable:
  fixes env :: "('d, 'c) env" and w :: "('d, 'c) world"
  assumes "gorm_ok (env_gorm env) R" and "\<not> permission_mode env"
    and "r \<in> wrows R w KeyIIDInfo" and "TrimSpace (row_NameId r) \<noteq> row_NameId r"
  shows "wp (bindP (GetKey env conn name) (\<lambda>info. bindP (DeleteKey env conn' name' force) (\<lambda>_. ret info)))
    (\<lambda>info w'. NameId (key_IId info) \<noteq> row_NameId r \<and> r \<in> wrows R w' KeyIIDInfo)
    (\<lambda>_ w'. r \<in> wrows R w' KeyIIDInfo) w"
proof -
  have n: "row_NameId r \<noteq> TrimSpace n" for n using assms(4) by (metis TrimSpace_idem)
  have g: "wp (GetKey env conn name) (\<lambda>info w'. wrows R w' = wrows R w \<and> NameId (key_IId info) = TrimSpace name)
      (\<lambda>_ w'. wrows R w' = wrows R w) w"
    unfolding GetKey_def
    by (intro wp_rules get_iid_info_wp[OF assms(1)] cloud_wp)
      (auto simp: EmptyCheckAndTrim_Inr reads_def hideSecretInfo_def)
  have d: "wp (DeleteKey env conn' name' force) (\<lambda>_ w''. r \<in> wrows R w'' KeyIIDInfo) (\<lambda>_ w''. r \<in> wrows R w'' KeyIIDInfo) w'"
    if "r \<in> wrows R w' KeyIIDInfo" for w'
    using that unfolding DeleteKey_def
    by (intro wp_rules get_iid_info_wp[OF assms(1)] delete_tail_wp delete_by_wp[OF assms(1)])
      (auto simp: EmptyCheckAndTrim_Inr reads_def assms(2) n)
  show ?thesis
    by (intro wp_bindPI wp_mono[OF g], rule wp_mono[OF d]) (auto simp: wp_ret n[symmetric] assms(3))
qed

lemma ex_next:
  "next_name (ex_env []) [] ''mock'' RT_KEY ''my-key'' 0 = Inr ''my-key-9m4e2mr0ui3e8a215n4g''"
  "next_name (ex_env []) [] ''mock'' RT_KEY '' my-key'' 0 = Inr ''my-key-9m4e2mr0ui3e8a215n4g''"
  by code_simp+

lemma ex_empty [simp]: "mock_keys m (w_cloud (ex_world n)) = []" "w_xids (ex_world n) = 0"
  by (simp_all add: mock_keys_def ex_world_def mock_init_def)

lemma ex_unpermitted: "\<not> permission_mode (ex_env [])"
  by simp

lemma CreateKey_mock_atomic_witness:
  "wrows list_rows ex_keys KeyIIDInfo \<noteq> {} \<and>
   (\<exists>key. res_in key_IId (mock_keys ''m'' (w_cloud ex_keys)) = [key_IId key \<mapsto> key]) \<and>
   res_in key_IId (mock_keys ''m'' (w_cloud (snd (CreateKey (ex_env []) ''mock'' RT_KEY (ex_key_req ''my-key'') []
     (ex_world [True]))))) = Map.empty"
proof -
  have h: "key_handler (ex_env []) (TrimSpace ''mock'') = Inr (MockKeyPairHandler ''m'')" by (simp add: ex_key_handler)
  have i: "ids_ok key_IId (mock_keys ''m'' (w_cloud (ex_world n)))" for n by simp
  have f: "x \<notin> (NameId \<circ> key_IId) ` set (mock_keys ''m'' (w_cloud (ex_world n)))" for x n by simp
  note a = CreateKey_mock_atomic[OF ex_gorm_ok ex_unpermitted h i f]
  show ?thesis
    using wp_ok_run[OF a ex_create, folded ex_keys_def] wp_err_run[OF a ex_create_fails] by auto
qed

text \<open>
  Without an absent name the rollback goes wrong: a second connection to the same mock has made a key \<open>k\<close>, a creation of
  \<open>k\<close> under the user's name cannot store its row, and the key that is left at the driver is the new one.
\<close>

lemma rollback_removes_older_key:
  "let old = \<lparr>key_IId = \<lparr>NameId = ''k'', SystemId = ''k''\<rparr>, key_Fingerprint = ''old'', key_PublicKey = [], key_PrivateKey = [],
         key_VMUserID = [], key_TagList = [], key_KeyValueList = []\<rparr>;
       w = (ex_world [True])\<lparr>w_cloud := mock_init\<lparr>keyPairInfoMap := [''m'' \<mapsto> [old]]\<rparr>\<rparr>;
       (res, w') = CreateKey (ex_env []) ''mock'' RT_KEY (ex_key_req ''k'') ''OFF'' w
   in res = Inl ''disk I/O error'' \<and> map key_Fingerprint (mock_keys ''m'' (w_cloud w')) = [''XXXXFingerprint'']"
  by code_simp

lemma CreateKey_GetKey_mock_witness:
  "\<exists>csp. getUserIID \<lparr>NameId = ''my-key'', SystemId = spiderSystemId ''my-key-9m4e2mr0ui3e8a215n4g'' csp\<rparr> =
     \<lparr>NameId = ''my-key'', SystemId = csp\<rparr> \<and> key_IId ex_key = \<lparr>NameId = ''my-key'', SystemId = csp\<rparr>"
proof -
  let ?req = "ex_key_req ''my-key''" and ?x = "''my-key-9m4e2mr0ui3e8a215n4g''"
  have h: "key_handler (ex_env []) (TrimSpace ''mock'') = Inr (MockKeyPairHandler ''m'')" by (simp add: ex_key_handler)
  have i: "ids_ok key_IId (mock_keys ''m'' (w_cloud (ex_world [])))" by simp
  have t: "TrimSpace (NameId (keyReq_IId ?req)) = NameId (keyReq_IId ?req)" by simp
  have n: "next_name (ex_env []) [] (TrimSpace ''mock'') RT_KEY (NameId (keyReq_IId ?req)) (w_xids (ex_world [])) = Inr ?x"
    using ex_next(1) by simp
  have f: "?x \<notin> (NameId \<circ> key_IId) ` set (mock_keys ''m'' (w_cloud (ex_world [])))" by simp
  have c: "CHR '':'' \<notin> set ?x" by code_simp
  have run: "fst (bindP (CreateKey (ex_env []) ''mock'' RT_KEY ?req []) (\<lambda>info. bindP (GetKey (ex_env []) ''mock'' (NameId (keyReq_IId ?req)))
      (\<lambda>info'. ret (info, info'))) (ex_world [])) = Inr (ex_key, hideSecretInfo ex_key)"
    by code_simp
  from wp_ok_run[OF CreateKey_GetKey_mock[OF ex_gorm_ok ex_unpermitted h i t n f c] run]
  have "\<exists>csp. key_IId ex_key = \<lparr>NameId = ''my-key'', SystemId = csp\<rparr>" by auto
  moreover have "getUserIID \<lparr>NameId = ''my-key'', SystemId = spiderSystemId ?x (SystemId (key_IId ex_key))\<rparr> =
      \<lparr>NameId = ''my-key'', SystemId = SystemId (key_IId ex_key)\<rparr>" by code_simp
  ultimately show ?thesis by auto
qed

lemma blank_names_unreachable_witness:
  "\<exists>r w. w = snd (CreateKey (ex_env []) ''mock'' RT_KEY (ex_key_req '' my-key'') [] (ex_world [])) \<and>
     db_rows (st_db (w_store w)) KeyIIDInfo = [r] \<and> row_NameId r = '' my-key'' \<and>
     r \<in> wrows list_rows (snd (bindP (GetKey (ex_env []) ''mock'' '' my-key'')
       (\<lambda>info. bindP (DeleteKey (ex_env []) ''mock'' '' my-key'' ''true'') (\<lambda>_. ret info)) w)) KeyIIDInfo"
proof -
  define w where "w = snd (CreateKey (ex_env []) ''mock'' RT_KEY (ex_key_req '' my-key'') [] (ex_world []))"
  define r where "r = FirstIIDInfo ''mock'' '' my-key'' ''my-key-9m4e2mr0ui3e8a215n4g:my-key-9m4e2mr0ui3e8a215n4g''"
  have rows: "db_rows (st_db (w_store w)) KeyIIDInfo = [r]" unfolding w_def r_def by code_simp
  have n: "row_NameId r = '' my-key''" by (simp add: r_def FirstIIDInfo_def)
  have t: "TrimSpace (row_NameId r) \<noteq> row_NameId r" unfolding r_def by code_simp
  have m: "r \<in> wrows list_rows w KeyIIDInfo" by (simp add: wrows_def list_rows_def rows)
  note wp = blank_names_unreachable[OF ex_gorm_ok ex_unpermitted m t, of "''mock''" "'' my-key''" "''mock''" "'' my-key''" "''true''"]
  have "r \<in> wrows list_rows (snd (bindP (GetKey (ex_env []) ''mock'' '' my-key'')
       (\<lambda>info. bindP (DeleteKey (ex_env []) ''mock'' '' my-key'' ''true'') (\<lambda>_. ret info)) w)) KeyIIDInfo"
    using wp by (simp add: wp_def split: prod.splits sum.splits)
  with rows n w_def show ?thesis by blast
qed

end
