(* ===== verification/SecurityGroupManager.thy ===== *)
theory SecurityGroupManager
  imports Example
begin

text \<open>
  The security group manager, \<open>common-runtime/SecurityGroupManager.go\<close>: a group belongs to a VPC of the meta
  database, and its rules are normalized on the way to the driver and back.
\<close>

section \<open>Operations\<close>

definition security_handler :: "('d, 'c) env \<Rightarrow> string \<Rightarrow> 'c SecurityHandler go_result" where
  "security_handler env connectionName =
     (case ccm_GetCloudConnection env connectionName of
        Inl err \<Rightarrow> Inl err
      | Inr cldConn \<Rightarrow> CreateSecurityHandler cldConn)"

definition transform_rule :: "SecurityRuleInfo \<Rightarrow> SecurityRuleInfo" where
  "transform_rule r =
     r\<lparr>rule_Direction := ToLower (rule_Direction r), rule_IPProtocol := ToUpper (rule_IPProtocol r),
       rule_CIDR := (if rule_CIDR r = [] then ''0.0.0.0/0'' else rule_CIDR r)\<rparr>"

text \<open>The list that the pointer leads to, changed in place; a nil pointer panics.\<close>

definition transformArgs :: "SecurityRuleInfo list option \<Rightarrow> (('d, 'c) world, SecurityRuleInfo list option) prog" where
  "transformArgs ruleList =
     (case ruleList of
        None \<Rightarrow> throw nil_panic
      | Some rules \<Rightarrow> ret (Some (map transform_rule rules)))"

definition transform_info :: "SecurityInfo \<Rightarrow> (('d, 'c) world, SecurityInfo) prog" where
  "transform_info info = bindP (transformArgs (sg_SecurityRules info)) (\<lambda>rules. ret (info\<lparr>sg_SecurityRules := rules\<rparr>))"

definition GetSGOwnerVPC :: "('d, 'c) env \<Rightarrow> string \<Rightarrow> string \<Rightarrow> (('d, 'c) world, IID) prog" where
  "GetSGOwnerVPC env connectionName cspID =
     bindP (lift_result (EmptyCheckAndTrim ''connectionName'' connectionName)) (\<lambda>connectionName.
     bindP (lift_result (EmptyCheckAndTrim ''cspID'' cspID)) (\<lambda>cspID.
     bindP (lift_result (security_handler env connectionName)) (\<lambda>handler.
     bindP (list_iid_infos env SGIIDInfo connectionName) (\<lambda>iidInfoList.
     case List.find (\<lambda>one. short_id one = cspID) iidInfoList of
       Some one \<Rightarrow> throw (RSTypeString RT_SG @ '' with SystemId '' @ quoted cspID @ '' already exists in connection '' @
         quoted connectionName @ '' (NameID: '' @ quoted (row_NameId one) @ '')'')
     | None \<Rightarrow>
         bindP (onCloud (sh_GetSecurity handler \<lparr>NameId = getMSShortID cspID, SystemId = cspID\<rparr>)) (\<lambda>getInfo.
         bindP (list_iid_infos env VPCIIDInfo connectionName) (\<lambda>vpcIIDInfoList.
         let vpcCSPID = getMSShortID (SystemId (sg_VpcIID getInfo)) in
         case List.find (\<lambda>one. short_id one = vpcCSPID) vpcIIDInfoList of
           Some one \<Rightarrow> ret \<lparr>NameId = row_NameId one, SystemId = vpcCSPID\<rparr>
         | None \<Rightarrow> ret \<lparr>NameId = [], SystemId = vpcCSPID\<rparr>))))))"

text \<open>A lock that is taken only when its condition holds.\<close>

definition withLockIf :: "bool \<Rightarrow> splock_id \<Rightarrow> lmode \<Rightarrow> string \<Rightarrow> string \<Rightarrow> (('d, 'c) world, 'a) prog \<Rightarrow> (('d, 'c) world, 'a) prog" where
  "withLockIf b l md conn name m = (if b then withLock l md conn name m else m)"

definition RegisterSecurity :: "('d, 'c) env \<Rightarrow> string \<Rightarrow> string \<Rightarrow> IID \<Rightarrow> (('d, 'c) world, SecurityInfo) prog" where
  "RegisterSecurity env connectionName vpcUserID userIID =
     bindP (lift_result (EmptyCheckAndTrim ''connectionName'' connectionName)) (\<lambda>connectionName.
     bindP (if vpcUserID \<noteq> [] then lift_result (EmptyCheckAndTrim ''vpcUserID'' vpcUserID) else ret vpcUserID) (\<lambda>vpcUserID.
     bindP (validated (ValidateStruct (reflect_IID userIID) [])) (\<lambda>_.
     bindP (lift_result (security_handler env connectionName)) (\<lambda>handler.
     withLockIf (vpcUserID \<noteq> []) vpcSPLock Wr connectionName vpcUserID
       (withLock sgSPLock Wr connectionName (NameId userIID)
         (bindP (if vpcUserID \<noteq> [] then has_authorized_name env VPCIIDInfo connectionName vpcUserID else ret True) (\<lambda>bool_ret.
          if \<not> bool_ret then throw (does_not_exist RT_VPC vpcUserID)
          else
          bindP (has_name env SGIIDInfo connectionName (NameId userIID)) (\<lambda>isExist.
          if isExist then throw (already_exists RT_SG (NameId userIID) connectionName)
          else
          bindP (onCloud (sh_GetSecurity handler \<lparr>NameId = getMSShortID (SystemId userIID), SystemId = SystemId userIID\<rparr>)) (\<lambda>getInfo.
          bindP (transform_info getInfo) (\<lambda>getInfo.
          let systemId = getMSShortID (SystemId (sg_IId getInfo));
              spiderIId = \<lparr>NameId = NameId userIID, SystemId = systemId @ '':'' @ SystemId (sg_IId getInfo)\<rparr>
          in
          bindP (onStore (Insert (env_gorm env) SGIIDInfo
            (VPCDependentIIDInfo connectionName (NameId spiderIId) (SystemId spiderIId) vpcUserID))) (\<lambda>_.
          let getInfo = getInfo\<lparr>sg_IId := userIID\<rparr> in
          if vpcUserID = [] then ret getInfo
          else
          bindP (get_or_connection env VPCIIDInfo connectionName vpcUserID)
            (\<lambda>iidInfo. ret (getInfo\<lparr>sg_VpcIID := getUserIID (row_IID iidInfo)\<rparr>)))))))))))))"

definition CreateSecurity :: "('d, 'c) env \<Rightarrow> string \<Rightarrow> string \<Rightarrow> SecurityReqInfo \<Rightarrow> string \<Rightarrow> (('d, 'c) world, SecurityInfo) prog" where
  "CreateSecurity env connectionName rsType reqInfo IDTransformMode =
     bindP (lift_result (EmptyCheckAndTrim ''connectionName'' connectionName)) (\<lambda>connectionName.
     let vpcName = NameId (sgReq_VpcIID reqInfo); reqNameId = NameId (sgReq_IId reqInfo) in
     withLock vpcSPLock Wr connectionName vpcName
       (bindP (get_iid_info env VPCIIDInfo connectionName vpcName) (\<lambda>vpcIIDInfo.
        let vpcSystemId = getDriverSystemId (row_IID vpcIIDInfo) in
        bindP (lift_result (security_handler env connectionName)) (\<lambda>handler.
        bindP (transformArgs (sgReq_SecurityRules reqInfo)) (\<lambda>rules.
        withLock sgSPLock Wr connectionName reqNameId
          (bindP (all_or_connection env SGIIDInfo connectionName) (\<lambda>iidInfoList.
           if list_ex (\<lambda>one. row_NameId one = reqNameId) iidInfoList then throw (already_exists rsType reqNameId connectionName)
           else
           bindP (make_spUUID env IDTransformMode connectionName rsType reqNameId) (\<lambda>spUUID.
           bindP (onCloud (sh_CreateSecurity handler
             (reqInfo\<lparr>sgReq_IId := \<lparr>NameId = spUUID, SystemId = []\<rparr>,
                      sgReq_VpcIID := \<lparr>NameId = vpcName, SystemId = vpcSystemId\<rparr>, sgReq_SecurityRules := rules\<rparr>))) (\<lambda>info.
           bindP (transform_info info) (\<lambda>info.
           let info = info\<lparr>sg_VpcIID := (sg_VpcIID info)\<lparr>NameId := vpcName\<rparr>\<rparr>;
               spiderIId = \<lparr>NameId = reqNameId, SystemId = spUUID @ '':'' @ SystemId (sg_IId info)\<rparr>
           in
           catchP (onStore (Insert (env_gorm env) SGIIDInfo
               (VPCDependentIIDInfo connectionName (NameId spiderIId) (SystemId spiderIId) vpcName)))
             (\<lambda>err.
                bindP (onCloudDel (sh_DeleteSecurity handler (sg_IId info))) (\<lambda>(_, err2).
                case err2 of Some e2 \<Rightarrow> throw (err @ '', '' @ e2) | None \<Rightarrow> throw err))
             (\<lambda>_. ret (info\<lparr>sg_IId := \<lparr>NameId = reqNameId, SystemId = SystemId (sg_IId info)\<rparr>,
                           sg_VpcIID := \<lparr>NameId = vpcName, SystemId = vpcSystemId\<rparr>\<rparr>))))))))))))"

text \<open>The look-up of a group's VPC in \<open>ListSecurity\<close>; its result \<open>vpcLookupErr\<close> is a value.\<close>

definition vpc_lookup :: "('d, 'c) env \<Rightarrow> string \<Rightarrow> string \<Rightarrow> (('d, 'c) world, iid_row go_result) prog" where
  "vpc_lookup env connectionName ownerVPCName =
     (if permission_mode env then
        bindP (getAuthIIDInfoList env connectionName VPCIIDInfo) (\<lambda>iidInfoList.
        ret (getAuthIIDInfo VPCIIDInfo iidInfoList ownerVPCName))
      else
        catchP (onStore (GetByConditions (env_gorm env) VPCIIDInfo CONNECTION_NAME_COLUMN connectionName NAME_ID_COLUMN ownerVPCName))
          (\<lambda>err. ret (Inl err)) (\<lambda>row. ret (Inr row)))"

fun ListSecurity_loop :: "('d, 'c) env \<Rightarrow> 'c SecurityHandler \<Rightarrow> string \<Rightarrow> iid_row list \<Rightarrow> SecurityInfo list \<Rightarrow>
    (('d, 'c) world, SecurityInfo list) prog" where
  "ListSecurity_loop env handler connectionName [] infoList2 = ret infoList2"
| "ListSecurity_loop env handler connectionName (iidInfo # rest) infoList2 =
     catchP (withLock sgSPLock Rd connectionName (row_NameId iidInfo) (onCloud (sh_GetSecurity handler (getDriverIID (row_IID iidInfo)))))
       (\<lambda>err.
          if checkNotFoundError err
          then ListSecurity_loop env handler connectionName rest (infoList2 @ [SecurityInfo_of (row_IID iidInfo)])
          else throw err)
       (\<lambda>info.
          bindP (transform_info info) (\<lambda>info.
          let info = info\<lparr>sg_IId := getUserIID (row_IID iidInfo)\<rparr> in
          bindP (vpc_lookup env connectionName (row_OwnerVPCName iidInfo)) (\<lambda>found.
          case found of
            Inl vpcLookupErr \<Rightarrow>
              if checkNotFoundError vpcLookupErr then ListSecurity_loop env handler connectionName rest (infoList2 @ [info])
              else throw vpcLookupErr
          | Inr vpcIIDInfo \<Rightarrow>
              ListSecurity_loop env handler connectionName rest (infoList2 @ [info\<lparr>sg_VpcIID := getUserIID (row_IID vpcIIDInfo)\<rparr>]))))"

definition ListSecurity :: "('d, 'c) env \<Rightarrow> string \<Rightarrow> string \<Rightarrow> (('d, 'c) world, SecurityInfo list) prog" where
  "ListSecurity env connectionName rsType =
     bindP (lift_result (EmptyCheckAndTrim ''connectionName'' connectionName)) (\<lambda>connectionName.
     bindP (lift_result (security_handler env connectionName)) (\<lambda>handler.
     bindP (list_iid_infos env SGIIDInfo connectionName) (\<lambda>iidInfoList.
     if iidInfoList = [] then ret []
     else ListSecurity_loop env handler connectionName iidInfoList [])))"

text \<open>The read locks of this loop are released at the end of the function, hence around the rest of the loop.\<close>

fun ListVpcSecurity_loop :: "('d, 'c) env \<Rightarrow> 'c SecurityHandler \<Rightarrow> string \<Rightarrow> iid_row list \<Rightarrow> SecurityInfo list \<Rightarrow>
    (('d, 'c) world, SecurityInfo list) prog" where
  "ListVpcSecurity_loop env handler connectionName [] infoList = ret infoList"
| "ListVpcSecurity_loop env handler connectionName (iidInfo # rest) infoList =
     withLock sgSPLock Rd connectionName (row_NameId iidInfo)
       (catchP (onCloud (sh_GetSecurity handler (getDriverIID (row_IID iidInfo))))
         (\<lambda>err. if checkNotFoundError err then ListVpcSecurity_loop env handler connectionName rest infoList else throw err)
         (\<lambda>info.
            bindP (transform_info info) (\<lambda>info.
            let info = info\<lparr>sg_IId := getUserIID (row_IID iidInfo)\<rparr> in
            bindP (get_or_connection env VPCIIDInfo connectionName (row_OwnerVPCName iidInfo)) (\<lambda>vpcIIDInfo.
            ListVpcSecurity_loop env handler connectionName rest
              (infoList @ [info\<lparr>sg_VpcIID := getUserIID (row_IID vpcIIDInfo)\<rparr>])))))"

text \<open>An error of \<open>HasByConditions\<close> is dropped here, and its result is then false.\<close>

definition ListVpcSecurity :: "('d, 'c) env \<Rightarrow> string \<Rightarrow> string \<Rightarrow> string \<Rightarrow> (('d, 'c) world, SecurityInfo list) prog" where
  "ListVpcSecurity env connectionName rsType vpcName =
     bindP (lift_result (EmptyCheckAndTrim ''connectionName'' connectionName)) (\<lambda>connectionName.
     bindP (lift_result (security_handler env connectionName)) (\<lambda>handler.
     bindP (if permission_mode env then has_authorized_name env VPCIIDInfo connectionName vpcName
            else catchP (onStore (HasByConditions (env_gorm env) VPCIIDInfo CONNECTION_NAME_COLUMN connectionName NAME_ID_COLUMN vpcName))
                   (\<lambda>_. ret False) ret) (\<lambda>isExist.
     if \<not> isExist then throw (does_not_exist RT_VPC vpcName)
     else
     bindP (if permission_mode env then
              bindP (getAuthIIDInfoList env connectionName SGIIDInfo) (\<lambda>iidInfoListAll.
              ret (filter (\<lambda>iidInfo. row_OwnerVPCName iidInfo = vpcName) iidInfoListAll))
            else onStore (ListByConditions (env_gorm env) SGIIDInfo CONNECTION_NAME_COLUMN connectionName OWNER_VPC_NAME_COLUMN vpcName))
       (\<lambda>iidInfoList. ListVpcSecurity_loop env handler connectionName iidInfoList []))))"

definition GetSecurity :: "('d, 'c) env \<Rightarrow> string \<Rightarrow> string \<Rightarrow> string \<Rightarrow> (('d, 'c) world, SecurityInfo) prog" where
  "GetSecurity env connectionName rsType nameID =
     bindP (lift_result (EmptyCheckAndTrim ''connectionName'' connectionName)) (\<lambda>connectionName.
     bindP (lift_result (EmptyCheckAndTrim ''nameID'' nameID)) (\<lambda>nameID.
     bindP (lift_result (security_handler env connectionName)) (\<lambda>handler.
     withLock sgSPLock Rd connectionName nameID
       (bindP (get_iid_info env SGIIDInfo connectionName nameID) (\<lambda>iidInfo.
        bindP (onCloud (sh_GetSecurity handler (getDriverIID (row_IID iidInfo)))) (\<lambda>info.
        bindP (transform_info info) (\<lambda>info.
        let info = info\<lparr>sg_IId := getUserIID (row_IID iidInfo)\<rparr> in
        bindP (get_iid_info env VPCIIDInfo connectionName (row_OwnerVPCName iidInfo)) (\<lambda>vpcIIDInfo.
        ret (info\<lparr>sg_VpcIID := getUserIID (row_IID vpcIIDInfo)\<rparr>)))))))))"

definition AddRules :: "('d, 'c) env \<Rightarrow> string \<Rightarrow> string \<Rightarrow> SecurityRuleInfo list \<Rightarrow> (('d, 'c) world, SecurityInfo) prog" where
  "AddRules env connectionName sgName reqInfoList =
     bindP (lift_result (EmptyCheckAndTrim ''connectionName'' connectionName)) (\<lambda>connectionName.
     bindP (lift_result (EmptyCheckAndTrim ''sgName'' sgName)) (\<lambda>sgName.
     bindP (lift_result (security_handler env connectionName)) (\<lambda>handler.
     let reqInfoList = map transform_rule reqInfoList in
     withLock sgSPLock Wr connectionName sgName
       (bindP (has_authorized_name env SGIIDInfo connectionName sgName) (\<lambda>bool_ret.
        if \<not> bool_ret then throw (does_not_exist RT_SG sgName)
        else
        bindP (get_iid_info env SGIIDInfo connectionName sgName) (\<lambda>iidInfo.
        bindP (onCloud (sh_AddRules handler (getDriverIID (row_IID iidInfo)) reqInfoList)) (\<lambda>info.
        bindP (transform_info info) (\<lambda>info.
        let info = info\<lparr>sg_IId := getUserIID (row_IID iidInfo)\<rparr> in
        bindP (get_iid_info env VPCIIDInfo connectionName (row_OwnerVPCName iidInfo)) (\<lambda>vpcIIDInfo.
        ret (info\<lparr>sg_VpcIID := getUserIID (row_IID vpcIIDInfo)\<rparr>))))))))))"

definition RemoveRules :: "('d, 'c) env \<Rightarrow> string \<Rightarrow> string \<Rightarrow> SecurityRuleInfo list \<Rightarrow> (('d, 'c) world, bool) prog" where
  "RemoveRules env connectionName sgName reqRuleInfoList =
     bindP (lift_result (EmptyCheckAndTrim ''connectionName'' connectionName)) (\<lambda>connectionName.
     bindP (lift_result (EmptyCheckAndTrim ''sgName'' sgName)) (\<lambda>sgName.
     bindP (lift_result (security_handler env connectionName)) (\<lambda>handler.
     let reqRuleInfoList = map transform_rule reqRuleInfoList in
     withLock sgSPLock Wr connectionName sgName
       (bindP (has_authorized_name env SGIIDInfo connectionName sgName) (\<lambda>bool_ret.
        if \<not> bool_ret then throw (does_not_exist RT_SG sgName)
        else
        bindP (get_iid_info env SGIIDInfo connectionName sgName) (\<lambda>iidInfo.
        onCloud (sh_RemoveRules handler (getDriverIID (row_IID iidInfo)) reqRuleInfoList)))))))"

definition DeleteSecurity :: "('d, 'c) env \<Rightarrow> string \<Rightarrow> string \<Rightarrow> string \<Rightarrow> string \<Rightarrow> (('d, 'c) world, bool) prog" where
  "DeleteSecurity env connectionName rsType nameID force =
     bindP (lift_result (EmptyCheckAndTrim ''connectionName'' connectionName)) (\<lambda>connectionName.
     bindP (lift_result (EmptyCheckAndTrim ''nameID'' nameID)) (\<lambda>nameID.
     bindP (lift_result (security_handler env connectionName)) (\<lambda>handler.
     withLock sgSPLock Wr connectionName nameID
       (bindP (get_iid_info env SGIIDInfo connectionName nameID) (\<lambda>iidInfo.
        bindP (onCloudDel (sh_DeleteSecurity handler (getDriverIID (row_IID iidInfo)))) (\<lambda>(result, err).
        delete_tail force result err
          (onStore (DeleteBy3Conditions (env_gorm env) SGIIDInfo CONNECTION_NAME_COLUMN (row_ConnectionName iidInfo)
            NAME_ID_COLUMN nameID OWNER_VPC_NAME_COLUMN (row_OwnerVPCName iidInfo)))))))))"

definition CountAllSecurityGroups :: "('d, 'c) env \<Rightarrow> (('d, 'c) world, nat) prog" where
  "CountAllSecurityGroups env = onStore (CountAllNameIDs (env_gorm env) SGIIDInfo)"

definition CountSecurityGroupsByConnection :: "('d, 'c) env \<Rightarrow> string \<Rightarrow> (('d, 'c) world, nat) prog" where
  "CountSecurityGroupsByConnection env connectionName = onStore (CountNameIDsByConnection (env_gorm env) SGIIDInfo connectionName)"

section \<open>Properties over any driver\<close>

lemma VPCDependent_sel [simp]:
  "row_ConnectionName (VPCDependentIIDInfo c n s v) = c" "row_NameId (VPCDependentIIDInfo c n s v) = n"
  "row_SystemId (VPCDependentIIDInfo c n s v) = s" "row_OwnerVPCName (VPCDependentIIDInfo c n s v) = v"
  by (simp_all add: VPCDependentIIDInfo_def)

lemma transformArgs_wpI [wp_rules]:
  "(\<And>l. rules = Some l \<Longrightarrow> Q (Some (map transform_rule l)) w) \<Longrightarrow> E nil_panic w \<Longrightarrow> wp (transformArgs rules) Q E w"
  by (simp add: transformArgs_def wp_simps split: option.split)

lemma transform_info_wpI [wp_rules]:
  "(\<And>l. sg_SecurityRules info = Some l \<Longrightarrow> Q (info\<lparr>sg_SecurityRules := Some (map transform_rule l)\<rparr>) w) \<Longrightarrow>
   E nil_panic w \<Longrightarrow> wp (transform_info info) Q E w"
  by (simp add: transform_info_def transformArgs_def wp_simps split: option.split)

lemma transform_rule_idem [simp]: "transform_rule (transform_rule r) = transform_rule r"
  by (simp add: transform_rule_def)

text \<open>
  C37: With any driver and in either mode, a successful \<open>CreateSecurity\<close> adds exactly one row, for a name that was free, below a VPC that has a row, and
  returns the group under the user's names with normalized rules; a failed one changes no row. Every path gives
  the locks back.
\<close>

theorem CreateSecurity_rows:
  fixes env :: "('d, 'c) env" and w :: "('d, 'c) world"
  assumes "gorm_ok (env_gorm env) R"
  shows "wp (CreateSecurity env conn rsType req mode)
    (\<lambda>info w'. let c = TrimSpace conn; n = NameId (sgReq_IId req); v = NameId (sgReq_VpcIID req) in
       w_locks w' = w_locks w \<and> \<not> name_taken env (wrows R w SGIIDInfo) c n \<and> name_taken env (wrows R w VPCIIDInfo) c v \<and>
       (\<exists>spUUID cspId. wrows R w' = (wrows R w)(SGIIDInfo :=
            insert (VPCDependentIIDInfo c n (spiderSystemId spUUID cspId) v) (wrows R w SGIIDInfo)) \<and>
          sg_IId info = \<lparr>NameId = n, SystemId = cspId\<rparr>) \<and>
       NameId (sg_VpcIID info) = v \<and>
       (\<exists>rules. sg_SecurityRules info = Some rules \<and> map transform_rule rules = rules))
    (\<lambda>e w'. wrows R w' = wrows R w \<and> w_locks w' = w_locks w) w"
  unfolding CreateSecurity_def Let_def spiderSystemId_def[symmetric]
  by (intro wp_rules all_names_wp[OF assms] get_name_wp[OF assms] make_spUUID_wp[where R = R] cloud_wp row_insert_wp[OF assms])
    (auto simp: EmptyCheckAndTrim_Inr reads_def upsert_new)

text \<open>
  \<open>DeleteSecurity\<close> drops exactly the row of the connection, name and owner VPC it found, and only after the
  driver confirmed the deletion, or said that it does not know the group, or when the caller forces it. In
  every other case no row changes. Only a forced deletion ignores a failure of the meta database.
\<close>

theorem DeleteSecurity_rows:
  fixes env :: "('d, 'c) env" and w :: "('d, 'c) world"
  assumes "gorm_ok (env_gorm env) R" and "\<not> permission_mode env"
  shows "wp (DeleteSecurity env conn rsType name force)
    (\<lambda>res w'. let c = TrimSpace conn; n = TrimSpace name in
       w_locks w' = w_locks w \<and>
       (\<exists>r h err. security_handler env c = Inr h \<and> r \<in> wrows R w SGIIDInfo \<and> row_ConnectionName r = c \<and> row_NameId r = n \<and>
          sh_DeleteSecurity h (getDriverIID (row_IID r)) (w_cloud w) = ((res, err), w_cloud w') \<and>
          (if deletes force res err
           then wrows R w' = (wrows R w)(SGIIDInfo := {x \<in> wrows R w SGIIDInfo.
                  \<not> (row_ConnectionName x = c \<and> row_NameId x = n \<and> row_OwnerVPCName x = row_OwnerVPCName r)}) \<or>
                (forced force err \<and> wrows R w' = wrows R w)
           else wrows R w' = wrows R w \<and> \<not> res \<and> err = None)))
    (\<lambda>e w'. wrows R w' = wrows R w \<and> w_locks w' = w_locks w) w"
  unfolding DeleteSecurity_def Let_def
  apply (intro wp_rules get_iid_info_wp[OF assms(1)] delete_tail_wp delete_by3_wp[OF assms(1)])
  apply (auto simp: EmptyCheckAndTrim_Inr reads_def assms(2))
  done

text \<open>
  A group whose owner VPC has no row in the connection can be registered (the VPC's name may be left empty),
  but \<open>GetSecurity\<close> never returns it, and \<open>AddRules\<close> always reports an error, also when the driver has added the
  rules.
\<close>

theorem security_without_vpc:
  fixes env :: "('d, 'c) env" and w :: "('d, 'c) world"
  assumes "gorm_ok (env_gorm env) R" and "\<not> permission_mode env"
    and "\<And>r. r \<in> wrows R w SGIIDInfo \<Longrightarrow> row_ConnectionName r = TrimSpace conn \<Longrightarrow> row_NameId r = TrimSpace name \<Longrightarrow>
      \<not> name_taken env (wrows R w VPCIIDInfo) (TrimSpace conn) (row_OwnerVPCName r)"
  shows "wp (GetSecurity env conn rsType name) (\<lambda>_ _. False) (\<lambda>_ w'. wrows R w' = wrows R w) w \<and>
    wp (AddRules env conn name rules) (\<lambda>_ _. False) (\<lambda>_ w'. wrows R w' = wrows R w) w"
proof
  show "wp (GetSecurity env conn rsType name) (\<lambda>_ _. False) (\<lambda>_ w'. wrows R w' = wrows R w) w"
    unfolding GetSecurity_def Let_def
    by (intro wp_rules get_iid_info_wp[OF assms(1)] cloud_wp)
      (use assms(2,3) in \<open>auto simp: EmptyCheckAndTrim_Inr reads_def name_taken_def\<close>)
  show "wp (AddRules env conn name rules) (\<lambda>_ _. False) (\<lambda>_ w'. wrows R w' = wrows R w) w"
    unfolding AddRules_def Let_def
    by (intro wp_rules get_iid_info_wp[OF assms(1)] has_authorized_taken_wp[OF assms(1)] cloud_wp)
      (use assms(2,3) in \<open>auto simp: EmptyCheckAndTrim_Inr reads_def name_taken_def\<close>)
qed

lemma vpc_lookup_wp:
  fixes env :: "('d, 'c) env" and w :: "('d, 'c) world"
  assumes ok: "gorm_ok (env_gorm env) R"
    and Q: "\<And>r w'. reads R env w w' \<Longrightarrow> Q r w'" and E: "\<And>e w'. reads R env w w' \<Longrightarrow> E e w'"
  shows "wp (vpc_lookup env conn v) Q E w"
proof (cases "permission_mode env")
  case True
  show ?thesis
    unfolding vpc_lookup_def if_P[OF True]
    by (intro wp_bindPI getAuthIIDInfoList_wp[OF ok True] wp_retI) (auto intro: Q E)
next
  case False
  have "wp (onStore (GetByConditions (env_gorm env) VPCIIDInfo CONNECTION_NAME_COLUMN conn NAME_ID_COLUMN v))
      (\<lambda>r w'. Q (Inr r) w') (\<lambda>e w'. Q (Inl e) w') w"
    unfolding wp_onStore by (rule infostore.get_by_wp[OF ok]; rule Q) (simp_all add: wrows_def)
  then show ?thesis
    unfolding vpc_lookup_def if_not_P[OF False] wp_catchP by (rule wp_mono) (simp_all add: wp_ret)
qed

lemma ListSecurity_loop_wp:
  fixes env :: "('d, 'c) env" and w :: "('d, 'c) world"
  assumes ok: "gorm_ok (env_gorm env) R"
    and "\<And>infos w'. wrows R w' = wrows R w \<Longrightarrow> w_locks w' = w_locks w \<Longrightarrow>
      map (NameId \<circ> sg_IId) infos = map (NameId \<circ> sg_IId) acc @ map row_NameId rs \<Longrightarrow> Q infos w'"
    and "\<And>e w'. wrows R w' = wrows R w \<Longrightarrow> w_locks w' = w_locks w \<Longrightarrow> E e w'"
  shows "wp (ListSecurity_loop env h conn rs acc) Q E w"
  using assms(2-)
proof (induction rs arbitrary: acc w)
  case Nil
  then show ?case by (auto intro!: wp_retI)
next
  case (Cons r rs)
  show ?case
    unfolding ListSecurity_loop.simps Let_def
    by (intro wp_rules cloud_wp vpc_lookup_wp[OF ok] Cons.IH)
      (auto intro!: Cons.prems simp: row_IID_def SecurityInfo_of_def getUserIID_def reads_def)
qed

text \<open>
  \<open>ListSecurity\<close> lists every row of the connection once, under its name, whether or not the CSP still has the
  group and whether or not its VPC still has a row, and changes no row.
\<close>

theorem ListSecurity_complete:
  fixes env :: "('d, 'c) env" and w :: "('d, 'c) world"
  assumes "gorm_ok (env_gorm env) R" and "\<not> permission_mode env"
  shows "wp (ListSecurity env conn rsType)
    (\<lambda>infos w'. wrows R w' = wrows R w \<and> w_locks w' = w_locks w \<and>
       (\<exists>rs. distinct rs \<and> set rs = {r \<in> wrows R w SGIIDInfo. row_ConnectionName r = TrimSpace conn} \<and>
          map (NameId \<circ> sg_IId) infos = map row_NameId rs))
    (\<lambda>e w'. wrows R w' = wrows R w \<and> w_locks w' = w_locks w) w"
  unfolding ListSecurity_def
  apply (intro wp_rules list_iid_infos_wp[OF assms(1)] ListSecurity_loop_wp[OF assms(1)])
  apply (auto simp: EmptyCheckAndTrim_Inr reads_def assms(2))
  done

section \<open>Concrete runs\<close>

definition ex_rule :: SecurityRuleInfo where
  "ex_rule = \<lparr>rule_Direction = ''Inbound'', rule_IPProtocol = ''tcp'', rule_FromPort = ''22'', rule_ToPort = ''22'', rule_CIDR = []\<rparr>"

definition ex_sg_req :: SecurityReqInfo where
  "ex_sg_req = \<lparr>sgReq_IId = \<lparr>NameId = ''my-sg'', SystemId = []\<rparr>, sgReq_VpcIID = \<lparr>NameId = ''vpc-1'', SystemId = []\<rparr>,
     sgReq_SecurityRules = Some [ex_rule], sgReq_TagList = []\<rparr>"

text \<open>A world with one VPC row and a database that fails at the writes that \<open>fs\<close> tells.\<close>

definition ex_vpc_world :: "bool list \<Rightarrow> (list_db, mock) world" where
  "ex_vpc_world fs =
     (ex_world fs)\<lparr>w_store := \<lparr>dbConfigErr = None, st_open = None,
        st_db = \<lparr>db_rows = (\<lambda>_. [])(VPCIIDInfo := [FirstIIDInfo ''mock'' ''vpc-1'' ''v:v'']), db_fails = fs\<rparr>\<rparr>\<rparr>"

definition ex_sgs :: "(list_db, mock) world" where
  "ex_sgs = snd (CreateSecurity (ex_env []) ''mock'' RT_SG ex_sg_req [] (ex_vpc_world []))"

definition ex_sg :: SecurityInfo where
  "ex_sg = \<lparr>sg_IId = \<lparr>NameId = ''my-sg'', SystemId = ''my-sg9m4e2mr0ui3e8a215n4g''\<rparr>,
     sg_VpcIID = \<lparr>NameId = ''vpc-1'', SystemId = ''v''\<rparr>, sg_SecurityRules = Some [transform_rule ex_rule],
     sg_TagList = [], sg_KeyValueList = []\<rparr>"

definition ex_sg_row :: iid_row where
  "ex_sg_row = VPCDependentIIDInfo ''mock'' ''my-sg'' ''my-sg9m4e2mr0ui3e8a215n4g:my-sg9m4e2mr0ui3e8a215n4g'' ''vpc-1''"

text \<open>The group again, registered under a second name with no VPC.\<close>

definition ex_sgs2 :: "(list_db, mock) world" where
  "ex_sgs2 = snd (RegisterSecurity (ex_env []) ''mock'' [] \<lparr>NameId = ''sg2'', SystemId = ''my-sg9m4e2mr0ui3e8a215n4g''\<rparr> ex_sgs)"

definition ex_sg2_row :: iid_row where
  "ex_sg2_row = VPCDependentIIDInfo ''mock'' ''sg2'' ''my-sg9m4e2mr0ui3e8a215n4g:my-sg9m4e2mr0ui3e8a215n4g'' []"

lemma ex_sg_runs:
  "fst (CreateSecurity (ex_env []) ''mock'' RT_SG ex_sg_req [] (ex_vpc_world [])) = Inr ex_sg"
  "fst (CreateSecurity (ex_env []) ''mock'' RT_SG ex_sg_req [] (ex_vpc_world [True])) = Inl ''disk I/O error''"
  "fst (ListSecurity (ex_env []) ''mock'' RT_SG ex_sgs) = Inr [ex_sg]"
  "fst (DeleteSecurity (ex_env []) ''mock'' RT_SG ''my-sg'' [] ex_sgs) = Inr True"
  by code_simp+

lemma ex_sg_rows:
  "db_rows (st_db (w_store ex_sgs)) SGIIDInfo = [ex_sg_row]" "db_rows (st_db (w_store ex_sgs)) VPCIIDInfo = [FirstIIDInfo ''mock'' ''vpc-1'' ''v:v'']"
  "db_rows (st_db (w_store ex_sgs2)) SGIIDInfo = [ex_sg_row, ex_sg2_row]"
  "db_rows (st_db (w_store ex_sgs2)) VPCIIDInfo = [FirstIIDInfo ''mock'' ''vpc-1'' ''v:v'']"
  "db_rows (st_db (w_store (ex_vpc_world n))) SGIIDInfo = []"
  by (code_simp, code_simp, code_simp, code_simp, simp add: ex_vpc_world_def)

lemma ex_sg_wrows:
  "wrows list_rows ex_sgs SGIIDInfo = {ex_sg_row}" "wrows list_rows (ex_vpc_world n) SGIIDInfo = {}"
  "wrows list_rows ex_sgs2 SGIIDInfo = {ex_sg_row, ex_sg2_row}" "wrows list_rows ex_sgs2 VPCIIDInfo = {FirstIIDInfo ''mock'' ''vpc-1'' ''v:v''}"
  by (simp_all add: wrows_def list_rows_def ex_sg_rows)

lemma ex_sg_trim [simp]: "TrimSpace ''mock'' = ''mock''" "TrimSpace ''my-sg'' = ''my-sg''" "TrimSpace ''sg2'' = ''sg2''"
  by code_simp+

lemma ex_sg_req_names [simp]: "NameId (sgReq_IId ex_sg_req) = ''my-sg''" "NameId (sgReq_VpcIID ex_sg_req) = ''vpc-1''"
  by (simp_all add: ex_sg_req_def)

lemma CreateSecurity_rows_witness:
  "(\<exists>spUUID cspId. wrows list_rows ex_sgs SGIIDInfo = {VPCDependentIIDInfo ''mock'' ''my-sg'' (spiderSystemId spUUID cspId) ''vpc-1''}) \<and>
   wrows list_rows (snd (CreateSecurity (ex_env []) ''mock'' RT_SG ex_sg_req [] (ex_vpc_world [True]))) SGIIDInfo = {}"
proof -
  note ok = wp_ok_run[OF CreateSecurity_rows[OF ex_gorm_ok] ex_sg_runs(1), folded ex_sgs_def]
  note err = wp_err_run[OF CreateSecurity_rows[OF ex_gorm_ok] ex_sg_runs(2)]
  show ?thesis using ok err unfolding Let_def ex_sg_req_names ex_sg_trim by (auto simp del: ex_sg_wrows(1) simp: ex_sg_wrows(2)) blast
qed

lemma ex_sg_handler: "security_handler (ex_env p) ''mock'' = Inr (MockSecurityHandler ''m'')"
  by (simp add: security_handler_def ex_env_def ex_get_def ex_connection_def)

lemma mock_sg_delete_no_error: "sh_DeleteSecurity (MockSecurityHandler m) i c = ((True, err), c') \<Longrightarrow> err = None"
  by (auto simp: MockSecurityHandler_def MockDeleteSecurity_def split: option.splits if_splits)

lemma DeleteSecurity_rows_witness:
  "wrows list_rows (snd (DeleteSecurity (ex_env []) ''mock'' RT_SG ''my-sg'' [] ex_sgs)) SGIIDInfo = {}"
proof -
  have r: "{r \<in> {ex_sg_row}. \<not> (row_ConnectionName r = ''mock'' \<and> row_NameId r = ''my-sg'' \<and> row_OwnerVPCName r = ''vpc-1'')} = {}"
    by (auto simp: ex_sg_row_def)
  have v: "row_OwnerVPCName ex_sg_row = ''vpc-1''" by (simp add: ex_sg_row_def)
  show ?thesis
    using wp_ok_run[OF DeleteSecurity_rows[OF ex_gorm_ok ex_perm] ex_sg_runs(4)]
    unfolding ex_sg_wrows ex_sg_trim Let_def ex_sg_handler
    by (auto simp: deletes_def forced_def r v split: if_splits dest!: mock_sg_delete_no_error)
qed

lemma ListSecurity_complete_witness:
  "\<exists>rs. distinct rs \<and> set rs = {ex_sg_row} \<and> map row_NameId rs = [''my-sg'']"
proof -
  have r: "{r \<in> {ex_sg_row}. row_ConnectionName r = ''mock''} = {ex_sg_row}" by (auto simp: ex_sg_row_def)
  show ?thesis
    using wp_ok_run[OF ListSecurity_complete[OF ex_gorm_ok ex_perm] ex_sg_runs(3)]
    unfolding ex_sg_wrows ex_sg_trim r by (auto simp: ex_sg_def)
qed

lemma security_without_vpc_witness:
  "ex_sg2_row \<in> wrows list_rows ex_sgs2 SGIIDInfo \<and>
   (\<exists>e. fst (GetSecurity (ex_env []) ''mock'' RT_SG ''sg2'' ex_sgs2) = Inl e) \<and>
   (\<exists>e. fst (AddRules (ex_env []) ''mock'' ''sg2'' [ex_rule\<lparr>rule_ToPort := ''80''\<rparr>] ex_sgs2) = Inl e) \<and>
   securityInfoMap (w_cloud (snd (AddRules (ex_env []) ''mock'' ''sg2'' [ex_rule\<lparr>rule_ToPort := ''80''\<rparr>] ex_sgs2))) ''m'' \<noteq>
     securityInfoMap (w_cloud ex_sgs2) ''m''"
proof -
  have "\<not> name_taken (ex_env []) (wrows list_rows ex_sgs2 VPCIIDInfo) (TrimSpace ''mock'') (row_OwnerVPCName r)"
    if "r \<in> wrows list_rows ex_sgs2 SGIIDInfo" "row_NameId r = TrimSpace ''sg2''" for r
    using that by (auto simp: ex_sg_wrows name_taken_def ex_sg_row_def ex_sg2_row_def FirstIIDInfo_def)
  then have "wp (GetSecurity (ex_env []) ''mock'' RT_SG ''sg2'') (\<lambda>_ _. False) (\<lambda>_ w'. wrows list_rows w' = wrows list_rows ex_sgs2) ex_sgs2 \<and>
      wp (AddRules (ex_env []) ''mock'' ''sg2'' [ex_rule\<lparr>rule_ToPort := ''80''\<rparr>]) (\<lambda>_ _. False)
        (\<lambda>_ w'. wrows list_rows w' = wrows list_rows ex_sgs2) ex_sgs2"
    by (intro security_without_vpc[OF ex_gorm_ok ex_perm]) auto
  moreover have "securityInfoMap (w_cloud (snd (AddRules (ex_env []) ''mock'' ''sg2'' [ex_rule\<lparr>rule_ToPort := ''80''\<rparr>] ex_sgs2))) ''m'' \<noteq>
     securityInfoMap (w_cloud ex_sgs2) ''m''"
    by code_simp
  ultimately show ?thesis by (auto simp: wp_def ex_sg_wrows split: prod.splits sum.splits)
qed

end
