(* ===== verification/VPCSubnetManager.thy ===== *)
theory VPCSubnetManager
  imports Example
begin

text \<open>
  The VPC and subnet manager, \<open>common-runtime/VPC-SubnetManager.go\<close>. A VPC has one row; each of its subnets has a
  row that names the VPC as its owner.
\<close>

section \<open>Helpers\<close>

definition vpc_handler :: "('d, 'c) env \<Rightarrow> string \<Rightarrow> 'c VPCHandler go_result" where
  "vpc_handler env connectionName =
     (case ccm_GetCloudConnection env connectionName of
        Inl err \<Rightarrow> Inl err
      | Inr cldConn \<Rightarrow> CreateVPCHandler cldConn)"

definition zone_vpc_handler :: "('d, 'c) env \<Rightarrow> string \<Rightarrow> string \<Rightarrow> 'c VPCHandler go_result" where
  "zone_vpc_handler env connectionName zoneId =
     (case ccm_GetZoneLevelCloudConnection env connectionName zoneId of
        Inl err \<Rightarrow> Inl err
      | Inr cldConn \<Rightarrow> CreateVPCHandler cldConn)"

record SubnetReqZoneInfo =
  srz_IId :: IID
  srz_Zone :: string

definition getSubnetReqNameId :: "SubnetReqZoneInfo list \<Rightarrow> string \<Rightarrow> string" where
  "getSubnetReqNameId reqIIdZoneList driverNameId =
     (case List.find (\<lambda>reqInfo. SystemId (srz_IId reqInfo) = driverNameId) reqIIdZoneList of
        Some reqInfo \<Rightarrow> NameId (srz_IId reqInfo)
      | None \<Rightarrow> [])"

definition getSubnetReqZoneId :: "SubnetReqZoneInfo list \<Rightarrow> string \<Rightarrow> string" where
  "getSubnetReqZoneId reqIIdZoneList driverNameId =
     (case List.find (\<lambda>reqInfo. SystemId (srz_IId reqInfo) = driverNameId) reqIIdZoneList of
        Some reqInfo \<Rightarrow> srz_Zone reqInfo
      | None \<Rightarrow> [])"

text \<open>"check the Zone info and the capability of ZONE_BASED_CONTROL", for one zone.\<close>

fun check_zones :: "('d, 'c) env \<Rightarrow> string \<Rightarrow> string \<Rightarrow> SubnetInfo list \<Rightarrow> (('d, 'c) world, unit) prog" where
  "check_zones env connectionName defaultZoneId [] = ret ()"
| "check_zones env connectionName defaultZoneId (subnetInfo # rest) =
     bindP (check_zone env connectionName defaultZoneId (subnet_Zone subnetInfo)) (\<lambda>_. check_zones env connectionName defaultZoneId rest)"

text \<open>
  "set NameId for SubnetInfo List": the subnets of the driver that have a row below the VPC, under the row's name;
  \<open>iid\<close> is the identifier shown for a row and a subnet.
\<close>

fun user_subnets :: "('d, 'c) env \<Rightarrow> (iid_row \<Rightarrow> SubnetInfo \<Rightarrow> IID) \<Rightarrow> string \<Rightarrow> string \<Rightarrow> SubnetInfo list \<Rightarrow> SubnetInfo list \<Rightarrow>
    (('d, 'c) world, SubnetInfo list) prog" where
  "user_subnets env iid connectionName vpcName [] subnetInfoList = ret subnetInfoList"
| "user_subnets env iid connectionName vpcName (subnetInfo # rest) subnetInfoList =
     catchP (onStore (GetByConditionsAndContain (env_gorm env) SubnetIIDInfo CONNECTION_NAME_COLUMN connectionName
         OWNER_VPC_NAME_COLUMN vpcName SYSTEM_ID_COLUMN (SystemId (subnet_IId subnetInfo))))
       (\<lambda>err. if checkNotFoundError err then user_subnets env iid connectionName vpcName rest subnetInfoList else throw err)
       (\<lambda>subnetIIDInfo.
          if row_NameId subnetIIDInfo \<noteq> []
          then user_subnets env iid connectionName vpcName rest
            (subnetInfoList @ [subnetInfo\<lparr>subnet_IId := iid subnetIIDInfo subnetInfo,
               subnet_Zone := (if subnet_Zone subnetInfo = [] then row_ZoneId subnetIIDInfo else subnet_Zone subnetInfo)\<rparr>])
          else user_subnets env iid connectionName vpcName rest subnetInfoList)"

definition row_subnet_IID :: "iid_row \<Rightarrow> SubnetInfo \<Rightarrow> IID" where
  "row_subnet_IID r s = getUserIID (row_IID r)"

definition csp_subnet_IID :: "iid_row \<Rightarrow> SubnetInfo \<Rightarrow> IID" where
  "csp_subnet_IID r s = getUserIID \<lparr>NameId = row_NameId r, SystemId = SystemId (subnet_IId s)\<rparr>"

section \<open>Registration\<close>

text \<open>The loop over the subnets of a registered VPC; \<open>done\<close> are those already set up.\<close>

fun RegisterVPC_subnets :: "('d, 'c) env \<Rightarrow> string \<Rightarrow> string \<Rightarrow> string \<Rightarrow> nat \<Rightarrow> SubnetInfo list \<Rightarrow> SubnetInfo list \<Rightarrow>
    (('d, 'c) world, SubnetInfo list) prog" where
  "RegisterVPC_subnets env connectionName defaultZoneId vpcName count [] infos = ret infos"
| "RegisterVPC_subnets env connectionName defaultZoneId vpcName count (subnetInfo # rest) infos =
     (let subnetUserId = vpcName @ ''-subnet-'' @ Itoa count;
          systemId = getMSShortID (SystemId (subnet_IId subnetInfo));
          zone = (if subnet_Zone subnetInfo = [] then defaultZoneId else subnet_Zone subnetInfo)
      in bindP (onStore (Insert (env_gorm env) SubnetIIDInfo (ZoneLevelVPCDependentIIDInfo connectionName zone subnetUserId
           (systemId @ '':'' @ SystemId (subnet_IId subnetInfo)) vpcName))) (\<lambda>_.
         RegisterVPC_subnets env connectionName defaultZoneId vpcName (Suc count) rest
           (infos @ [subnetInfo\<lparr>subnet_Zone := zone,
              subnet_IId := \<lparr>NameId = subnetUserId, SystemId = SystemId (subnet_IId subnetInfo)\<rparr>\<rparr>])))"

definition RegisterVPC :: "('d, 'c) env \<Rightarrow> string \<Rightarrow> IID \<Rightarrow> (('d, 'c) world, VPCInfo) prog" where
  "RegisterVPC env connectionName userIID =
     bindP (lift_result (EmptyCheckAndTrim ''connectionName'' connectionName)) (\<lambda>connectionName.
     bindP (validated (ValidateStruct (reflect_IID userIID) [])) (\<lambda>_.
     bindP (lift_result (vpc_handler env connectionName)) (\<lambda>handler.
     withLock vpcSPLock Wr connectionName (NameId userIID)
       (bindP (has_name env VPCIIDInfo connectionName (NameId userIID)) (\<lambda>bool_ret.
        if bool_ret then throw (already_exists RT_VPC (NameId userIID) connectionName)
        else
        bindP (onCloud (vh_GetVPC handler \<lparr>NameId = getMSShortID (SystemId userIID), SystemId = SystemId userIID\<rparr>)) (\<lambda>getInfo.
        let systemId = getMSShortID (SystemId (vpc_IId getInfo));
            spiderIId = \<lparr>NameId = NameId userIID, SystemId = systemId @ '':'' @ SystemId (vpc_IId getInfo)\<rparr>
        in
        bindP (onStore (Insert (env_gorm env) VPCIIDInfo (FirstIIDInfo connectionName (NameId spiderIId) (SystemId spiderIId)))) (\<lambda>_.
        bindP (lift_result (ccm_GetRegionNameByConnectionName env connectionName)) (\<lambda>(_, defaultZoneId).
        bindP (RegisterVPC_subnets env connectionName defaultZoneId (NameId userIID) 0 (vpc_SubnetInfoList getInfo) []) (\<lambda>subnets.
        ret (getInfo\<lparr>vpc_SubnetInfoList := subnets, vpc_IId := userIID\<rparr>))))))))))"

text \<open>The loop over the VPC's subnets in \<open>RegisterSubnet\<close>: the one with the given CSP id gets a row.\<close>

fun RegisterSubnet_subnets :: "('d, 'c) env \<Rightarrow> string \<Rightarrow> string \<Rightarrow> string \<Rightarrow> IID \<Rightarrow> SubnetInfo list \<Rightarrow> SubnetInfo list \<Rightarrow>
    (('d, 'c) world, SubnetInfo list) prog" where
  "RegisterSubnet_subnets env connectionName zoneId vpcName userIID [] infos = ret infos"
| "RegisterSubnet_subnets env connectionName zoneId vpcName userIID (subnetInfo # rest) infos =
     (if SystemId (subnet_IId subnetInfo) = SystemId userIID then
        bindP (onStore (Insert (env_gorm env) SubnetIIDInfo (ZoneLevelVPCDependentIIDInfo connectionName zoneId (NameId userIID)
          (getMSShortID (SystemId (subnet_IId subnetInfo)) @ '':'' @ SystemId (subnet_IId subnetInfo)) vpcName))) (\<lambda>_.
        RegisterSubnet_subnets env connectionName zoneId vpcName userIID rest
          (infos @ [subnetInfo\<lparr>subnet_Zone := (if subnet_Zone subnetInfo = [] then zoneId else subnet_Zone subnetInfo),
             subnet_IId := \<lparr>NameId = NameId userIID, SystemId = SystemId (subnet_IId subnetInfo)\<rparr>\<rparr>]))
      else RegisterSubnet_subnets env connectionName zoneId vpcName userIID rest (infos @ [subnetInfo]))"

definition RegisterSubnet :: "('d, 'c) env \<Rightarrow> string \<Rightarrow> string \<Rightarrow> string \<Rightarrow> IID \<Rightarrow> (('d, 'c) world, VPCInfo) prog" where
  "RegisterSubnet env connectionName zoneId vpcName userIID =
     bindP (lift_result (EmptyCheckAndTrim ''connectionName'' connectionName)) (\<lambda>connectionName.
     bindP (lift_result (EmptyCheckAndTrim ''vpcName'' vpcName)) (\<lambda>vpcName.
     bindP (validated (ValidateStruct (reflect_IID userIID) [])) (\<lambda>_.
     bindP (lift_result (ccm_GetRegionNameByConnectionName env connectionName)) (\<lambda>(_, defaultZoneId).
     bindP (check_zone env connectionName defaultZoneId zoneId) (\<lambda>_.
     bindP (if zoneId = [] then lift_result (map_sum id snd (ccm_GetRegionNameByConnectionName env connectionName)) else ret zoneId) (\<lambda>zoneId.
     bindP (lift_result (zone_vpc_handler env connectionName zoneId)) (\<lambda>handler.
     withLock vpcSPLock Wr connectionName (NameId userIID)
       (bindP (if permission_mode env then getAuthIIDInfoList env connectionName VPCIIDInfo else ret []) (\<lambda>iidInfoList.
        bindP (if permission_mode env then
                 bindP (lift_result (isNameIdExists VPCIIDInfo iidInfoList vpcName)) (\<lambda>isExist.
                 if \<not> isExist then throw (RSTypeString RT_VPC @ '' '' @ quoted vpcName @ '' does not exist'')
                 else onStore (HasByConditions (env_gorm env) SubnetIIDInfo OWNER_VPC_NAME_COLUMN vpcName NAME_ID_COLUMN (NameId userIID)))
               else onStore (HasBy3Conditions (env_gorm env) SubnetIIDInfo CONNECTION_NAME_COLUMN connectionName
                 OWNER_VPC_NAME_COLUMN vpcName NAME_ID_COLUMN (NameId userIID))) (\<lambda>bool_ret.
        if bool_ret then throw (already_exists RT_SUBNET (NameId userIID) connectionName)
        else
        bindP (if permission_mode env then lift_result (getAuthIIDInfo VPCIIDInfo iidInfoList vpcName)
               else onStore (GetByConditions (env_gorm env) VPCIIDInfo CONNECTION_NAME_COLUMN connectionName NAME_ID_COLUMN vpcName)) (\<lambda>iidInfo.
        bindP (onCloud (vh_GetVPC handler (getDriverIID (row_IID iidInfo)))) (\<lambda>getInfo.
        bindP (RegisterSubnet_subnets env (row_ConnectionName iidInfo) zoneId vpcName userIID (vpc_SubnetInfoList getInfo) []) (\<lambda>subnets.
        ret (getInfo\<lparr>vpc_SubnetInfoList := subnets, vpc_IId := makeUserIID (row_NameId iidInfo) (row_SystemId iidInfo)\<rparr>))))))))))))))"

definition UnregisterSubnet :: "('d, 'c) env \<Rightarrow> string \<Rightarrow> string \<Rightarrow> string \<Rightarrow> (('d, 'c) world, bool) prog" where
  "UnregisterSubnet env connectionName vpcName nameId =
     bindP (lift_result (EmptyCheckAndTrim ''connectionName'' connectionName)) (\<lambda>connectionName.
     bindP (lift_result (EmptyCheckAndTrim ''vpcName'' vpcName)) (\<lambda>vpcName.
     bindP (lift_result (EmptyCheckAndTrim ''nameId'' nameId)) (\<lambda>nameId.
     withLock vpcSPLock Wr connectionName nameId
       (bindP (if permission_mode env
               then onStore (HasByConditions (env_gorm env) SubnetIIDInfo OWNER_VPC_NAME_COLUMN vpcName NAME_ID_COLUMN nameId)
               else onStore (HasBy3Conditions (env_gorm env) SubnetIIDInfo CONNECTION_NAME_COLUMN connectionName
                 OWNER_VPC_NAME_COLUMN vpcName NAME_ID_COLUMN nameId)) (\<lambda>bool_ret.
        if \<not> bool_ret then
          throw (RSTypeString RT_SUBNET @ '' '' @ quoted nameId @ '' in VPC '' @ quoted vpcName @ '' does not exist'')
        else
        bindP (if permission_mode env
               then onStore (DeleteByConditions (env_gorm env) SubnetIIDInfo OWNER_VPC_NAME_COLUMN vpcName NAME_ID_COLUMN nameId)
               else onStore (DeleteBy3Conditions (env_gorm env) SubnetIIDInfo CONNECTION_NAME_COLUMN connectionName
                 OWNER_VPC_NAME_COLUMN vpcName NAME_ID_COLUMN nameId)) (\<lambda>_.
        ret True))))))"

section \<open>Creation\<close>

text \<open>"for subnet list": the identifiers asked for, and the subnets as the driver is to create them.\<close>

fun CreateVPC_subnet_reqs :: "('d, 'c) env \<Rightarrow> string \<Rightarrow> string \<Rightarrow> string \<Rightarrow> SubnetInfo list \<Rightarrow> SubnetReqZoneInfo list \<Rightarrow> SubnetInfo list \<Rightarrow>
    (('d, 'c) world, SubnetReqZoneInfo list \<times> SubnetInfo list) prog" where
  "CreateVPC_subnet_reqs env IDTransformMode connectionName providerName [] reqs infos = ret (reqs, infos)"
| "CreateVPC_subnet_reqs env IDTransformMode connectionName providerName (info # rest) reqs infos =
     bindP (make_spUUID env IDTransformMode connectionName RT_SUBNET (NameId (subnet_IId info))) (\<lambda>subnetUUID.
     let subnetUUID = (if providerName = ''KT'' \<and> NameId (subnet_IId info) = ''NLB-SUBNET'' then ''NLB-SUBNET'' else subnetUUID)
     in CreateVPC_subnet_reqs env IDTransformMode connectionName providerName rest
          (reqs @ [\<lparr>srz_IId = \<lparr>NameId = NameId (subnet_IId info), SystemId = subnetUUID\<rparr>, srz_Zone = subnet_Zone info\<rparr>])
          (infos @ [info\<lparr>subnet_IId := \<lparr>NameId = subnetUUID, SystemId = []\<rparr>\<rparr>]))"

text \<open>
  "insert IID, for Subnet list", with its rollback: the error of the last deletion hides the one that is to be
  reported, so when that deletion succeeds the function returns \<open>(nil, nil)\<close>, here the result \<open>False\<close>.
\<close>

fun CreateVPC_insert_subnets :: "('d, 'c) env \<Rightarrow> 'c VPCHandler \<Rightarrow> string \<Rightarrow> string \<Rightarrow> VPCInfo \<Rightarrow> SubnetReqZoneInfo list \<Rightarrow>
    SubnetInfo list \<Rightarrow> (('d, 'c) world, bool) prog" where
  "CreateVPC_insert_subnets env handler connectionName reqNameId info reqs [] = ret True"
| "CreateVPC_insert_subnets env handler connectionName reqNameId info reqs (subnetInfo # rest) =
     (let driverName = NameId (subnet_IId subnetInfo); subnetReqNameId = getSubnetReqNameId reqs driverName;
          zone = (if subnet_Zone subnetInfo = [] then getSubnetReqZoneId reqs driverName else subnet_Zone subnetInfo)
      in if subnetReqNameId = [] then CreateVPC_insert_subnets env handler connectionName reqNameId info reqs rest
         else
         catchP (onStore (Insert (env_gorm env) SubnetIIDInfo (ZoneLevelVPCDependentIIDInfo connectionName zone subnetReqNameId
             (driverName @ '':'' @ SystemId (subnet_IId subnetInfo)) reqNameId)))
           (\<lambda>err.
              bindP (onCloudDel (vh_DeleteVPC handler (vpc_IId info))) (\<lambda>(_, err2).
              case err2 of
                Some e2 \<Rightarrow> throw (err @ '', '' @ e2)
              | None \<Rightarrow>
                  catchP (onStore (DeleteByConditions (env_gorm env) VPCIIDInfo CONNECTION_NAME_COLUMN connectionName NAME_ID_COLUMN reqNameId))
                    (\<lambda>err3. throw (err @ '', '' @ err3))
                    (\<lambda>_.
                  bindP (onStore (DeleteByConditions (env_gorm env) SubnetIIDInfo CONNECTION_NAME_COLUMN connectionName
                    OWNER_VPC_NAME_COLUMN (NameId (vpc_IId info)))) (\<lambda>_.
                  ret False))))
           (\<lambda>_. CreateVPC_insert_subnets env handler connectionName reqNameId info reqs rest))"

text \<open>"create userIID, for Subnet list"; the zone is looked up under the name that was just replaced.\<close>

definition CreateVPC_user_subnets :: "SubnetReqZoneInfo list \<Rightarrow> SubnetInfo list \<Rightarrow> SubnetInfo list" where
  "CreateVPC_user_subnets reqs subnets =
     map (\<lambda>subnetInfo.
            let subnetReqNameId = getSubnetReqNameId reqs (NameId (subnet_IId subnetInfo));
                subnetInfo = subnetInfo\<lparr>subnet_IId := \<lparr>NameId = subnetReqNameId, SystemId = SystemId (subnet_IId subnetInfo)\<rparr>\<rparr>
            in if subnet_Zone subnetInfo = []
               then subnetInfo\<lparr>subnet_Zone := getSubnetReqZoneId reqs (NameId (subnet_IId subnetInfo))\<rparr>
               else subnetInfo) subnets"

text \<open>"can have only 1 VPC"\<close>

definition check_single_vpc :: "('d, 'c) env \<Rightarrow> string \<Rightarrow> string \<Rightarrow> (('d, 'c) world, unit) prog" where
  "check_single_vpc env connectionName rsType =
     bindP (lift_result (ccm_GetDriverCapability env connectionName)) (\<lambda>drv.
     if cap_SINGLE_VPC drv then
       bindP (onStore (ListByCondition (env_gorm env) VPCIIDInfo CONNECTION_NAME_COLUMN connectionName)) (\<lambda>vpcIIDInfoList.
       case vpcIIDInfoList of
         [] \<Rightarrow> ret ()
       | one # _ \<Rightarrow> throw (rsType @ ''-'' @ connectionName @ '' can have only 1 VPC, but already have a VPC '' @ row_NameId one))
     else ret ())"

text \<open>The result \<open>None\<close> is a nil pointer without an error.\<close>

definition CreateVPC :: "('d, 'c) env \<Rightarrow> string \<Rightarrow> string \<Rightarrow> VPCReqInfo \<Rightarrow> string \<Rightarrow> (('d, 'c) world, VPCInfo option) prog" where
  "CreateVPC env connectionName rsType reqInfo IDTransformMode =
     bindP (lift_result (EmptyCheckAndTrim ''connectionName'' connectionName)) (\<lambda>connectionName.
     bindP (validated (ValidateStruct (reflect_VPCReqInfo reqInfo)
       [''resources.IID:SystemId'', ''resources.VPCReqInfo:IPv4_CIDR'', ''resources.SubnetInfo:Zone'',
        ''resources.KeyValue:Key'', ''resources.KeyValue:Value''])) (\<lambda>_.
     bindP (lift_result (ccm_GetRegionNameByConnectionName env connectionName)) (\<lambda>(_, defaultZoneId).
     bindP (check_zones env connectionName defaultZoneId (vpcReq_SubnetInfoList reqInfo)) (\<lambda>_.
     bindP (lift_result (vpc_handler env connectionName)) (\<lambda>handler.
     let reqNameId = NameId (vpcReq_IId reqInfo) in
     withLock vpcSPLock Wr connectionName reqNameId
       (bindP (has_name env VPCIIDInfo connectionName reqNameId) (\<lambda>bool_ret.
        if bool_ret then throw (already_exists rsType reqNameId connectionName)
        else
        bindP (check_single_vpc env connectionName rsType) (\<lambda>_.
        bindP (make_spUUID env IDTransformMode connectionName rsType reqNameId) (\<lambda>spUUID.
        bindP (lift_result (ccm_GetProviderNameByConnectionName env connectionName)) (\<lambda>providerName.
        bindP (CreateVPC_subnet_reqs env IDTransformMode connectionName providerName (vpcReq_SubnetInfoList reqInfo) [] [])
          (\<lambda>(subnetReqIIdZoneList, subnetInfoList).
        bindP (onCloud (vh_CreateVPC handler
          (reqInfo\<lparr>vpcReq_IId := \<lparr>NameId = spUUID, SystemId = []\<rparr>, vpcReq_SubnetInfoList := subnetInfoList\<rparr>))) (\<lambda>info.
        let spiderIId = \<lparr>NameId = reqNameId, SystemId = spUUID @ '':'' @ SystemId (vpc_IId info)\<rparr>
        in
        catchP (onStore (Insert (env_gorm env) VPCIIDInfo (FirstIIDInfo connectionName (NameId spiderIId) (SystemId spiderIId))))
          (\<lambda>err.
             bindP (onCloudDel (vh_DeleteVPC handler (vpc_IId info))) (\<lambda>(_, err2).
             case err2 of Some e2 \<Rightarrow> throw (err @ '', '' @ e2) | None \<Rightarrow> throw err))
          (\<lambda>_.
        bindP (CreateVPC_insert_subnets env handler connectionName reqNameId info subnetReqIIdZoneList (vpc_SubnetInfoList info)) (\<lambda>inserted.
        if \<not> inserted then ret None
        else ret (Some (info\<lparr>vpc_IId := \<lparr>NameId = reqNameId, SystemId = SystemId (vpc_IId info)\<rparr>,
          vpc_SubnetInfoList := CreateVPC_user_subnets subnetReqIIdZoneList (vpc_SubnetInfoList info)\<rparr>))))))))))))))))"

section \<open>Listing and reading\<close>

definition getVPCInfo :: "('d, 'c) env \<Rightarrow> string \<Rightarrow> 'c VPCHandler \<Rightarrow> IID \<Rightarrow> (('d, 'c) world, VPCInfo) prog" where
  "getVPCInfo env connectionName handler iid =
     withLock vpcSPLock Rd connectionName (NameId iid)
       (bindP (onCloud (vh_GetVPC handler (getDriverIID iid))) (\<lambda>info.
        bindP (user_subnets env row_subnet_IID connectionName (NameId iid) (vpc_SubnetInfoList info) []) (\<lambda>subnetInfoList.
        ret (info\<lparr>vpc_IId := getUserIID iid, vpc_SubnetInfoList := subnetInfoList\<rparr>))))"

text \<open>
  The goroutines of \<open>ListVPC\<close> only read; they are run in the order of the list. Each sends a result or an error
  through its channel.
\<close>

fun ListVPC_results :: "('d, 'c) env \<Rightarrow> 'c VPCHandler \<Rightarrow> iid_row list \<Rightarrow> VPCInfo go_result list \<Rightarrow>
    (('d, 'c) world, VPCInfo go_result list) prog" where
  "ListVPC_results env handler [] results = ret results"
| "ListVPC_results env handler (iidInfo # rest) results =
     catchP (getVPCInfo env (row_ConnectionName iidInfo) handler (row_IID iidInfo))
       (\<lambda>err. ListVPC_results env handler rest (results @ [Inl err]))
       (\<lambda>info. ListVPC_results env handler rest (results @ [Inr info]))"

definition VPC_result :: "iid_row \<Rightarrow> VPCInfo go_result \<Rightarrow> VPCInfo go_result" where
  "VPC_result iidInfo r =
     (case r of
        Inl err \<Rightarrow> if checkNotFoundError err then Inr (VPCInfo_of (row_IID iidInfo)) else Inl err
      | Inr info \<Rightarrow> Inr info)"

definition ListVPC :: "('d, 'c) env \<Rightarrow> string \<Rightarrow> string \<Rightarrow> (('d, 'c) world, VPCInfo list) prog" where
  "ListVPC env connectionName rsType =
     bindP (lift_result (EmptyCheckAndTrim ''connectionName'' connectionName)) (\<lambda>connectionName.
     bindP (lift_result (vpc_handler env connectionName)) (\<lambda>handler.
     bindP (list_iid_infos env VPCIIDInfo connectionName) (\<lambda>iidInfoList.
     if iidInfoList = [] then ret []
     else
     bindP (ListVPC_results env handler iidInfoList []) (\<lambda>results.
     let outs = map2 VPC_result iidInfoList results;
         errList = concat (map2 (\<lambda>iidInfo r. case r of
             Inl err \<Rightarrow> [connectionName @ '':VPC:'' @ row_NameId iidInfo @ '' # '' @ err] | Inr _ \<Rightarrow> []) iidInfoList outs)
     in if errList \<noteq> [] then throw (Join errList [CHR 10])
        else ret (concat (map (\<lambda>r. case r of Inl _ \<Rightarrow> [] | Inr info \<Rightarrow> [info]) outs))))))"

definition GetVPC :: "('d, 'c) env \<Rightarrow> string \<Rightarrow> string \<Rightarrow> string \<Rightarrow> (('d, 'c) world, VPCInfo) prog" where
  "GetVPC env connectionName rsType nameID =
     bindP (lift_result (EmptyCheckAndTrim ''connectionName'' connectionName)) (\<lambda>connectionName.
     bindP (lift_result (EmptyCheckAndTrim ''nameID'' nameID)) (\<lambda>nameID.
     bindP (lift_result (vpc_handler env connectionName)) (\<lambda>handler.
     withLock vpcSPLock Rd connectionName nameID
       (bindP (get_iid_info env VPCIIDInfo connectionName nameID) (\<lambda>iidInfo.
        bindP (onCloud (vh_GetVPC handler (getDriverIID (row_IID iidInfo)))) (\<lambda>info.
        let userIId = getUserIID (row_IID iidInfo) in
        bindP (user_subnets env row_subnet_IID (row_ConnectionName iidInfo) (NameId userIId) (vpc_SubnetInfoList info) []) (\<lambda>subnetInfoList.
        ret (info\<lparr>vpc_IId := userIId, vpc_SubnetInfoList := subnetInfoList\<rparr>))))))))"

section \<open>Subnets of a VPC\<close>

text \<open>
  "insert IID" of \<open>AddSubnet\<close>, with its rollback: over the subnets the driver reports, those with the name that was
  given to the driver.
\<close>

fun AddSubnet_insert :: "('d, 'c) env \<Rightarrow> 'c VPCHandler \<Rightarrow> iid_row \<Rightarrow> string \<Rightarrow> string \<Rightarrow> string \<Rightarrow> string \<Rightarrow> SubnetInfo list \<Rightarrow>
    (('d, 'c) world, unit) prog" where
  "AddSubnet_insert env handler iidVPCInfo vpcName subnetUUID subnetReqNameId zone [] = ret ()"
| "AddSubnet_insert env handler iidVPCInfo vpcName subnetUUID subnetReqNameId zone (subnetInfo # rest) =
     (if NameId (subnet_IId subnetInfo) = subnetUUID then
        catchP (onStore (Insert (env_gorm env) SubnetIIDInfo (ZoneLevelVPCDependentIIDInfo (row_ConnectionName iidVPCInfo) zone
            subnetReqNameId (NameId (subnet_IId subnetInfo) @ '':'' @ SystemId (subnet_IId subnetInfo)) vpcName)))
          (\<lambda>err.
             bindP (onCloudDel (vh_RemoveSubnet handler (getDriverIID (row_IID iidVPCInfo)) (subnet_IId subnetInfo))) (\<lambda>(_, err2).
             case err2 of
               Some e2 \<Rightarrow> throw (err @ '', '' @ e2)
             | None \<Rightarrow>
                 catchP (onStore (DeleteBy3Conditions (env_gorm env) SubnetIIDInfo CONNECTION_NAME_COLUMN (row_ConnectionName iidVPCInfo)
                     NAME_ID_COLUMN subnetReqNameId OWNER_VPC_NAME_COLUMN vpcName))
                   (\<lambda>err3. throw (err @ '', '' @ err3)) (\<lambda>_. throw err)))
          (\<lambda>_. AddSubnet_insert env handler iidVPCInfo vpcName subnetUUID subnetReqNameId zone rest)
      else AddSubnet_insert env handler iidVPCInfo vpcName subnetUUID subnetReqNameId zone rest)"

text \<open>"check exist(NameID)" of \<open>AddSubnet\<close>; in the permission-based mode in the connection of the VPC.\<close>

definition has_subnet_name :: "('d, 'c) env \<Rightarrow> string \<Rightarrow> string \<Rightarrow> string \<Rightarrow> (('d, 'c) world, bool) prog" where
  "has_subnet_name env connectionName vpcName nameId =
     (if permission_mode env then
        bindP (get_iid_info env VPCIIDInfo connectionName vpcName) (\<lambda>vpcIIDInfo.
        onStore (HasBy3Conditions (env_gorm env) SubnetIIDInfo CONNECTION_NAME_COLUMN (row_ConnectionName vpcIIDInfo)
          NAME_ID_COLUMN nameId OWNER_VPC_NAME_COLUMN vpcName))
      else onStore (HasBy3Conditions (env_gorm env) SubnetIIDInfo CONNECTION_NAME_COLUMN connectionName
          NAME_ID_COLUMN nameId OWNER_VPC_NAME_COLUMN vpcName))"

definition AddSubnet :: "('d, 'c) env \<Rightarrow> string \<Rightarrow> string \<Rightarrow> string \<Rightarrow> SubnetInfo \<Rightarrow> string \<Rightarrow> (('d, 'c) world, VPCInfo) prog" where
  "AddSubnet env connectionName rsType vpcName reqInfo IDTransformMode =
     bindP (lift_result (EmptyCheckAndTrim ''connectionName'' connectionName)) (\<lambda>connectionName.
     bindP (lift_result (ccm_GetRegionNameByConnectionName env connectionName)) (\<lambda>(_, defaultZoneId).
     bindP (check_zone env connectionName defaultZoneId (subnet_Zone reqInfo)) (\<lambda>_.
     bindP (lift_result (EmptyCheckAndTrim ''vpcName'' vpcName)) (\<lambda>vpcName.
     bindP (lift_result (vpc_handler env connectionName)) (\<lambda>handler.
     let reqNameId = NameId (subnet_IId reqInfo) in
     withLock vpcSPLock Wr connectionName vpcName
       (bindP (has_subnet_name env connectionName vpcName reqNameId) (\<lambda>bool_ret.
        if bool_ret then throw (already_exists rsType reqNameId connectionName)
        else
        bindP (get_iid_info env VPCIIDInfo connectionName vpcName) (\<lambda>iidVPCInfo.
        bindP (make_spUUID env IDTransformMode connectionName rsType reqNameId) (\<lambda>subnetUUID.
        bindP (lift_result (ccm_GetProviderNameByConnectionName env connectionName)) (\<lambda>providerName.
        let subnetUUID = (if providerName = ''KT'' \<and> reqNameId = ''NLB-SUBNET'' then ''NLB-SUBNET'' else subnetUUID) in
        bindP (onCloud (vh_AddSubnet handler (getDriverIID (row_IID iidVPCInfo))
          (reqInfo\<lparr>subnet_IId := \<lparr>NameId = subnetUUID, SystemId = []\<rparr>\<rparr>))) (\<lambda>info.
        bindP (AddSubnet_insert env handler iidVPCInfo vpcName subnetUUID reqNameId (subnet_Zone reqInfo) (vpc_SubnetInfoList info)) (\<lambda>_.
        bindP (user_subnets env csp_subnet_IID (row_ConnectionName iidVPCInfo) vpcName (vpc_SubnetInfoList info) []) (\<lambda>subnetInfoList.
        ret (info\<lparr>vpc_IId := getUserIID (row_IID iidVPCInfo), vpc_SubnetInfoList := subnetInfoList\<rparr>))))))))))))))"

fun find_subnet :: "('d, 'c) env \<Rightarrow> string \<Rightarrow> string \<Rightarrow> string \<Rightarrow> SubnetInfo list \<Rightarrow> (('d, 'c) world, SubnetInfo option) prog" where
  "find_subnet env connectionName vpcName nameID [] = ret None"
| "find_subnet env connectionName vpcName nameID (subnetInfo # rest) =
     catchP (onStore (GetByConditionsAndContain (env_gorm env) SubnetIIDInfo CONNECTION_NAME_COLUMN connectionName
         OWNER_VPC_NAME_COLUMN vpcName SYSTEM_ID_COLUMN (SystemId (subnet_IId subnetInfo))))
       (\<lambda>err. if checkNotFoundError err then find_subnet env connectionName vpcName nameID rest else throw err)
       (\<lambda>subnetIIDInfo.
          if row_NameId subnetIIDInfo = nameID
          then ret (Some (subnetInfo\<lparr>subnet_IId := getUserIID (row_IID subnetIIDInfo),
                 subnet_Zone := (if subnet_Zone subnetInfo = [] then row_ZoneId subnetIIDInfo else subnet_Zone subnetInfo)\<rparr>))
          else find_subnet env connectionName vpcName nameID rest)"

definition GetSubnet :: "('d, 'c) env \<Rightarrow> string \<Rightarrow> string \<Rightarrow> string \<Rightarrow> (('d, 'c) world, SubnetInfo) prog" where
  "GetSubnet env connectionName vpcName nameID =
     bindP (lift_result (EmptyCheckAndTrim ''connectionName'' connectionName)) (\<lambda>connectionName.
     bindP (lift_result (EmptyCheckAndTrim ''vpcName'' vpcName)) (\<lambda>vpcName.
     bindP (lift_result (EmptyCheckAndTrim ''nameID'' nameID)) (\<lambda>nameID.
     bindP (lift_result (vpc_handler env connectionName)) (\<lambda>handler.
     withLock vpcSPLock Rd connectionName vpcName
       (bindP (get_iid_info env VPCIIDInfo connectionName vpcName) (\<lambda>iidInfo.
        bindP (onCloud (vh_GetVPC handler (getDriverIID (row_IID iidInfo)))) (\<lambda>vpcInfo.
        bindP (find_subnet env (row_ConnectionName iidInfo) (NameId (getUserIID (row_IID iidInfo))) nameID (vpc_SubnetInfoList vpcInfo)) (\<lambda>found.
        case found of
          Some subnetInfo \<Rightarrow> ret subnetInfo
        | None \<Rightarrow> throw (''Subnet with nameID '' @ nameID @ '' not found in VPC '' @ vpcName)))))))))"

definition RemoveSubnet :: "('d, 'c) env \<Rightarrow> string \<Rightarrow> string \<Rightarrow> string \<Rightarrow> string \<Rightarrow> (('d, 'c) world, bool) prog" where
  "RemoveSubnet env connectionName vpcName nameID force =
     bindP (lift_result (EmptyCheckAndTrim ''connectionName'' connectionName)) (\<lambda>connectionName.
     bindP (lift_result (EmptyCheckAndTrim ''vpcName'' vpcName)) (\<lambda>vpcName.
     bindP (lift_result (EmptyCheckAndTrim ''nameID'' nameID)) (\<lambda>nameID.
     withLock vpcSPLock Wr connectionName vpcName
       (bindP (if permission_mode env then
                 bindP (get_iid_info env VPCIIDInfo connectionName vpcName) (\<lambda>vpcIIDInfo.
                 onStore (GetBy3Conditions (env_gorm env) SubnetIIDInfo CONNECTION_NAME_COLUMN (row_ConnectionName vpcIIDInfo)
                   NAME_ID_COLUMN nameID OWNER_VPC_NAME_COLUMN vpcName))
               else onStore (GetBy3Conditions (env_gorm env) SubnetIIDInfo CONNECTION_NAME_COLUMN connectionName
                   NAME_ID_COLUMN nameID OWNER_VPC_NAME_COLUMN vpcName)) (\<lambda>iidInfo.
        bindP (lift_result (zone_vpc_handler env connectionName (row_ZoneId iidInfo))) (\<lambda>handler.
        bindP (onStore (GetByConditions (env_gorm env) VPCIIDInfo CONNECTION_NAME_COLUMN (row_ConnectionName iidInfo)
          NAME_ID_COLUMN vpcName)) (\<lambda>iidVPCInfo.
        bindP (onCloudDel (vh_RemoveSubnet handler (getDriverIID (row_IID iidVPCInfo)) (getDriverIID (row_IID iidInfo)))) (\<lambda>(result, err).
        delete_tail force result err
          (onStore (DeleteBy3Conditions (env_gorm env) SubnetIIDInfo CONNECTION_NAME_COLUMN (row_ConnectionName iidInfo)
            NAME_ID_COLUMN nameID OWNER_VPC_NAME_COLUMN vpcName))))))))))"

definition RemoveCSPSubnet :: "('d, 'c) env \<Rightarrow> string \<Rightarrow> string \<Rightarrow> string \<Rightarrow> (('d, 'c) world, bool) prog" where
  "RemoveCSPSubnet env connectionName vpcName systemID =
     bindP (lift_result (EmptyCheckAndTrim ''connectionName'' connectionName)) (\<lambda>connectionName.
     bindP (lift_result (EmptyCheckAndTrim ''vpcName'' vpcName)) (\<lambda>vpcName.
     bindP (lift_result (EmptyCheckAndTrim ''systemID'' systemID)) (\<lambda>systemID.
     bindP (lift_result (vpc_handler env connectionName)) (\<lambda>handler.
     bindP (get_iid_info env VPCIIDInfo connectionName vpcName) (\<lambda>iidVPCInfo.
     bindP (onCloudDel (vh_RemoveSubnet handler (getDriverIID (row_IID iidVPCInfo)) \<lparr>NameId = [], SystemId = systemID\<rparr>)) (\<lambda>(result, err).
     case err of Some e \<Rightarrow> throw e | None \<Rightarrow> ret result))))))"

section \<open>Deletion\<close>

text \<open>"pre-delete only this Spider's subnets" of KT VPCs; every error on the way is only logged.\<close>

fun remove_each_subnet :: "'c VPCHandler \<Rightarrow> IID \<Rightarrow> iid_row list \<Rightarrow> (('d, 'c) world, unit) prog" where
  "remove_each_subnet handler driverIId [] = ret ()"
| "remove_each_subnet handler driverIId (subnetInfo # rest) =
     bindP (onCloudDel (vh_RemoveSubnet handler driverIId (getDriverIID (row_IID subnetInfo)))) (\<lambda>_.
     remove_each_subnet handler driverIId rest)"

definition remove_KT_subnets :: "('d, 'c) env \<Rightarrow> 'c VPCHandler \<Rightarrow> string \<Rightarrow> iid_row \<Rightarrow> (('d, 'c) world, unit) prog" where
  "remove_KT_subnets env handler connectionName iidInfo =
     (case ccm_GetProviderNameByConnectionName env connectionName of
        Inl _ \<Rightarrow> ret ()
      | Inr providerName \<Rightarrow>
          if providerName \<noteq> ''KT'' then ret ()
          else catchP (onStore (ListByConditions (env_gorm env) SubnetIIDInfo CONNECTION_NAME_COLUMN (row_ConnectionName iidInfo)
                 OWNER_VPC_NAME_COLUMN (row_NameId iidInfo)))
               (\<lambda>_. ret ())
               (\<lambda>subnetIIDInfoList. remove_each_subnet handler (getDriverIID (row_IID iidInfo)) subnetIIDInfoList))"

text \<open>
  The end of \<open>DeleteVPC\<close>: the row of the VPC and those of its subnets. When the second deletion fails, the function
  returns the error variable of the first one, which is nil: the result is false without an error.
\<close>

definition delete_vpc_tail :: "('d, 'c) env \<Rightarrow> string \<Rightarrow> bool \<Rightarrow> go_error option \<Rightarrow> iid_row \<Rightarrow> (('d, 'c) world, bool) prog" where
  "delete_vpc_tail env force result err iidInfo =
     (let force = (case err of Some e \<Rightarrow> if checkNotFoundError e then ''true'' else force | None \<Rightarrow> force)
      in if err \<noteq> None \<and> force \<noteq> ''true'' then throw (the err)
         else if force \<noteq> ''true'' \<and> \<not> result then ret result
         else
         catchP (onStore (DeleteByConditions (env_gorm env) VPCIIDInfo CONNECTION_NAME_COLUMN (row_ConnectionName iidInfo)
             NAME_ID_COLUMN (row_NameId iidInfo)))
           (\<lambda>e. if force \<noteq> ''true'' then throw e
                else catchP (onStore (DeleteByConditions (env_gorm env) SubnetIIDInfo CONNECTION_NAME_COLUMN (row_ConnectionName iidInfo)
                    OWNER_VPC_NAME_COLUMN (row_NameId iidInfo)))
                  (\<lambda>_. ret result) (\<lambda>_. ret result))
           (\<lambda>_. catchP (onStore (DeleteByConditions (env_gorm env) SubnetIIDInfo CONNECTION_NAME_COLUMN (row_ConnectionName iidInfo)
                    OWNER_VPC_NAME_COLUMN (row_NameId iidInfo)))
                  (\<lambda>_. if force \<noteq> ''true'' then ret False else ret result) (\<lambda>_. ret result)))"

definition DeleteVPC :: "('d, 'c) env \<Rightarrow> string \<Rightarrow> string \<Rightarrow> string \<Rightarrow> string \<Rightarrow> (('d, 'c) world, bool) prog" where
  "DeleteVPC env connectionName rsType nameID force =
     bindP (lift_result (EmptyCheckAndTrim ''connectionName'' connectionName)) (\<lambda>connectionName.
     bindP (lift_result (EmptyCheckAndTrim ''nameID'' nameID)) (\<lambda>nameID.
     bindP (lift_result (vpc_handler env connectionName)) (\<lambda>handler.
     withLock vpcSPLock Wr connectionName nameID
       (bindP (get_iid_info env VPCIIDInfo connectionName nameID) (\<lambda>iidInfo.
        bindP (remove_KT_subnets env handler connectionName iidInfo) (\<lambda>_.
        bindP (onCloudDel (vh_DeleteVPC handler (getDriverIID (row_IID iidInfo)))) (\<lambda>(result, err).
        delete_vpc_tail env force result err iidInfo)))))))"

definition CountAllVPCs :: "('d, 'c) env \<Rightarrow> (('d, 'c) world, nat) prog" where
  "CountAllVPCs env = onStore (CountAllNameIDs (env_gorm env) VPCIIDInfo)"

definition CountVPCsByConnection :: "('d, 'c) env \<Rightarrow> string \<Rightarrow> (('d, 'c) world, nat) prog" where
  "CountVPCsByConnection env connectionName = onStore (CountNameIDsByConnection (env_gorm env) VPCIIDInfo connectionName)"

definition CountAllSubnets :: "('d, 'c) env \<Rightarrow> (('d, 'c) world, nat) prog" where
  "CountAllSubnets env = onStore (CountAllNameIDs (env_gorm env) SubnetIIDInfo)"

definition CountSubnetsByConnection :: "('d, 'c) env \<Rightarrow> string \<Rightarrow> (('d, 'c) world, nat) prog" where
  "CountSubnetsByConnection env connectionName = onStore (CountNameIDsByConnection (env_gorm env) SubnetIIDInfo connectionName)"

section \<open>Properties over any driver\<close>

lemma ZoneLevel_sel [simp]:
  "row_ConnectionName (ZoneLevelVPCDependentIIDInfo c z n s v) = c" "row_NameId (ZoneLevelVPCDependentIIDInfo c z n s v) = n"
  "row_OwnerVPCName (ZoneLevelVPCDependentIIDInfo c z n s v) = v" "row_ZoneId (ZoneLevelVPCDependentIIDInfo c z n s v) = z"
  "row_SystemId (ZoneLevelVPCDependentIIDInfo c z n s v) = s"
  by (simp_all add: ZoneLevelVPCDependentIIDInfo_def)

lemma check_zones_wp: "Q () w \<Longrightarrow> (\<And>e. E e w) \<Longrightarrow> wp (check_zones env conn z ss) Q E w"
  by (induction ss) (auto simp: check_zone_def intro!: wp_walk)

definition row_names :: "iid_row set \<Rightarrow> string \<Rightarrow> string \<Rightarrow> string set" where
  "row_names S conn v = row_NameId ` {r \<in> S. row_ConnectionName r = conn \<and> row_OwnerVPCName r = v}"

lemma user_subnets_wp:
  fixes env :: "('d, 'c) env" and w :: "('d, 'c) world"
  assumes ok: "gorm_ok (env_gorm env) R" and iid: "\<And>r s. NameId (iid r s) = row_NameId r"
    and Q: "\<And>ss' w'. reads R env w w' \<Longrightarrow> w_cloud w' = w_cloud w \<Longrightarrow>
      (NameId \<circ> subnet_IId) ` set ss' \<subseteq> (NameId \<circ> subnet_IId) ` set acc \<union> row_names (wrows R w SubnetIIDInfo) conn v \<Longrightarrow> Q ss' w'"
    and E: "\<And>e w'. reads R env w w' \<Longrightarrow> w_cloud w' = w_cloud w \<Longrightarrow> E e w'"
  shows "wp (user_subnets env iid conn v ss acc) Q E w"
  using Q E
proof (induction ss arbitrary: acc w)
  case Nil
  show ?case unfolding user_subnets.simps by (rule wp_retI, rule Nil(1)) simp_all
next
  case (Cons s ss)
  let ?P = "\<lambda>w. row_names (wrows R w SubnetIIDInfo) conn v"
  have step: "wp (user_subnets env iid conn v ss acc') Q E w'"
    if "reads R env w w'" "w_cloud w' = w_cloud w"
      "(NameId \<circ> subnet_IId) ` set acc' \<subseteq> (NameId \<circ> subnet_IId) ` set acc \<union> ?P w" for acc' w'
  proof (rule Cons.IH)
    fix ss' :: "SubnetInfo list" and w'' :: "('d, 'c) world"
    assume r: "reads R env w' w''" "w_cloud w'' = w_cloud w'"
      and n: "(NameId \<circ> subnet_IId) ` set ss' \<subseteq> (NameId \<circ> subnet_IId) ` set acc' \<union> ?P w'"
    have "?P w' = ?P w" using readsD(1)[OF that(1)] by simp
    with n that(3) have "(NameId \<circ> subnet_IId) ` set ss' \<subseteq> (NameId \<circ> subnet_IId) ` set acc \<union> ?P w" by blast
    with r that show "Q ss' w''" by (intro Cons.prems(1)) (auto dest: reads_trans)
  next
    fix e and w'' :: "('d, 'c) world"
    assume "reads R env w' w''" "w_cloud w'' = w_cloud w'"
    with that show "E e w''" by (intro Cons.prems(2)) (auto dest: reads_trans)
  qed
  show ?case
    unfolding user_subnets.simps
    by (intro wp_walk get_contain_wp[OF ok]; (rule step | rule Cons.prems(2))?) (auto simp: iid row_names_def)
qed

lemma CreateVPC_subnet_reqs_wp:
  fixes env :: "('d, 'c) env" and w :: "('d, 'c) world"
  assumes "\<And>reqs' infos' w'. wrows R w' = wrows R w \<Longrightarrow> w_cloud w' = w_cloud w \<Longrightarrow> w_locks w' = w_locks w \<Longrightarrow>
      (NameId \<circ> srz_IId) ` set reqs' = (NameId \<circ> srz_IId) ` set reqs \<union> (NameId \<circ> subnet_IId) ` set ss \<Longrightarrow> Q (reqs', infos') w'"
    and "\<And>e w'. wrows R w' = wrows R w \<Longrightarrow> w_cloud w' = w_cloud w \<Longrightarrow> w_locks w' = w_locks w \<Longrightarrow> E e w'"
  shows "wp (CreateVPC_subnet_reqs env mode conn p ss reqs infos) Q E w"
  using assms
proof (induction ss arbitrary: reqs infos w)
  case Nil
  show ?case unfolding CreateVPC_subnet_reqs.simps by (rule wp_retI, rule Nil(1)) simp_all
next
  case (Cons s ss)
  show ?case
    unfolding CreateVPC_subnet_reqs.simps Let_def
    by (intro wp_walk make_spUUID_wp[where R = R] Cons.IH; rule Cons.prems) simp_all
qed

text \<open>Rows of subnets that a VPC's creation adds: of its connection, below it, and with a name that was asked for.\<close>

definition subnet_rows :: "string \<Rightarrow> string \<Rightarrow> string set \<Rightarrow> iid_row list \<Rightarrow> bool" where
  "subnet_rows c v names rs \<longleftrightarrow> (\<forall>r \<in> set rs. row_ConnectionName r = c \<and> row_OwnerVPCName r = v \<and> row_NameId r \<in> names)"

lemma subnet_rows_Nil [simp]: "subnet_rows c v names []"
  by (simp add: subnet_rows_def)

lemma subnet_rows_Cons: "subnet_rows c v names (r # rs) \<longleftrightarrow>
    row_ConnectionName r = c \<and> row_OwnerVPCName r = v \<and> row_NameId r \<in> names \<and> subnet_rows c v names rs"
  by (auto simp: subnet_rows_def)

lemma getSubnetReqNameId_in: "getSubnetReqNameId reqs d \<noteq> [] \<Longrightarrow> getSubnetReqNameId reqs d \<in> (NameId \<circ> srz_IId) ` set reqs"
  by (auto simp: getSubnetReqNameId_def split: option.splits dest!: find_SomeD)

definition without_vpc :: "string \<Rightarrow> string \<Rightarrow> iid_row set \<Rightarrow> iid_row set" where
  "without_vpc c v S = {x \<in> S. \<not> (row_ConnectionName x = c \<and> row_NameId x = v)}"

definition without_owner :: "string \<Rightarrow> string \<Rightarrow> iid_row set \<Rightarrow> iid_row set" where
  "without_owner c v S = {x \<in> S. \<not> (row_ConnectionName x = c \<and> row_OwnerVPCName x = v)}"

lemma delete_vpc_wp:
  fixes env :: "('d, 'c) env" and w :: "('d, 'c) world"
  assumes ok: "gorm_ok (env_gorm env) R"
    and Q: "\<And>w'. wrows R w' = (wrows R w)(VPCIIDInfo := without_vpc c v (wrows R w VPCIIDInfo)) \<Longrightarrow>
      w_cloud w' = w_cloud w \<Longrightarrow> w_locks w' = w_locks w \<Longrightarrow> Q True w'"
    and E: "\<And>e w'. wrows R w' = wrows R w \<Longrightarrow> w_cloud w' = w_cloud w \<Longrightarrow> w_locks w' = w_locks w \<Longrightarrow> E e w'"
  shows "wp (onStore (DeleteByConditions (env_gorm env) VPCIIDInfo CONNECTION_NAME_COLUMN c NAME_ID_COLUMN v)) Q E w"
  by (rule delete_by_wp[OF ok]; (rule Q | rule E)) (simp_all add: without_vpc_def)

lemma delete_owned_wp:
  fixes env :: "('d, 'c) env" and w :: "('d, 'c) world"
  assumes ok: "gorm_ok (env_gorm env) R"
    and Q: "\<And>w'. wrows R w' = (wrows R w)(SubnetIIDInfo := without_owner c v (wrows R w SubnetIIDInfo)) \<Longrightarrow>
      w_cloud w' = w_cloud w \<Longrightarrow> w_locks w' = w_locks w \<Longrightarrow> Q True w'"
    and E: "\<And>e w'. wrows R w' = wrows R w \<Longrightarrow> w_cloud w' = w_cloud w \<Longrightarrow> w_locks w' = w_locks w \<Longrightarrow> E e w'"
  shows "wp (onStore (DeleteByConditions (env_gorm env) SubnetIIDInfo CONNECTION_NAME_COLUMN c OWNER_VPC_NAME_COLUMN v)) Q E w"
  by (rule delete_by_wp[OF ok]; (rule Q | rule E)) (simp_all add: without_owner_def)

lemma CreateVPC_insert_subnets_wp:
  fixes env :: "('d, 'c) env" and w :: "('d, 'c) world"
  assumes ok: "gorm_ok (env_gorm env) R" and names: "names = (NameId \<circ> srz_IId) ` set reqs"
    and T: "\<And>rs w'. subnet_rows c v names rs \<Longrightarrow>
      wrows R w' = (wrows R w)(SubnetIIDInfo := fold upsert rs (wrows R w SubnetIIDInfo)) \<Longrightarrow> w_locks w' = w_locks w \<Longrightarrow> Q True w'"
    and F: "\<And>rs w'. subnet_rows c v names rs \<Longrightarrow>
      wrows R w' = (wrows R w)(VPCIIDInfo := without_vpc c v (wrows R w VPCIIDInfo),
        SubnetIIDInfo := without_owner c (NameId (vpc_IId info)) (fold upsert rs (wrows R w SubnetIIDInfo))) \<Longrightarrow>
      w_locks w' = w_locks w \<Longrightarrow> Q False w'"
    and E: "\<And>e rs w'. subnet_rows c v names rs \<Longrightarrow>
      wrows R w' = (wrows R w)(SubnetIIDInfo := fold upsert rs (wrows R w SubnetIIDInfo)) \<or>
      wrows R w' = (wrows R w)(VPCIIDInfo := without_vpc c v (wrows R w VPCIIDInfo),
        SubnetIIDInfo := fold upsert rs (wrows R w SubnetIIDInfo)) \<Longrightarrow> w_locks w' = w_locks w \<Longrightarrow> E e w'"
  shows "wp (CreateVPC_insert_subnets env h c v info reqs ss) Q E w"
  using T F E
proof (induction ss arbitrary: w)
  case Nil
  show ?case unfolding CreateVPC_insert_subnets.simps by (rule wp_retI, rule Nil(1)[of "[]"]) simp_all
next
  case (Cons s ss)
  show ?case
  proof (cases "getSubnetReqNameId reqs (NameId (subnet_IId s)) = []")
    case True
    show ?thesis unfolding CreateVPC_insert_subnets.simps Let_def if_P[OF True] by (rule Cons.IH[OF Cons.prems])
  next
    case False
    define zone where "zone = (if subnet_Zone s = [] then getSubnetReqZoneId reqs (NameId (subnet_IId s)) else subnet_Zone s)"
    define r where "r = ZoneLevelVPCDependentIIDInfo c zone (getSubnetReqNameId reqs (NameId (subnet_IId s)))
      (NameId (subnet_IId s) @ '':'' @ SystemId (subnet_IId s)) v"
    have r: "subnet_rows c v names (r # rs) \<longleftrightarrow> subnet_rows c v names rs" for rs
      using getSubnetReqNameId_in[OF False] by (simp add: r_def subnet_rows_Cons names)
    have rest: "wp (CreateVPC_insert_subnets env h c v info reqs ss) Q E w1"
      if "wrows R w1 = (wrows R w)(SubnetIIDInfo := upsert r (wrows R w SubnetIIDInfo))" "w_locks w1 = w_locks w" for w1
    proof (rule Cons.IH)
      fix rs and w' :: "('d, 'c) world"
      assume "subnet_rows c v names rs" and "w_locks w' = w_locks w1"
        and "wrows R w' = (wrows R w1)(SubnetIIDInfo := fold upsert rs (wrows R w1 SubnetIIDInfo))"
      then show "Q True w'" by (intro Cons.prems(1)[of "r # rs"]) (simp_all add: r that)
    next
      fix rs and w' :: "('d, 'c) world"
      assume "subnet_rows c v names rs" and "w_locks w' = w_locks w1"
        and "wrows R w' = (wrows R w1)(VPCIIDInfo := without_vpc c v (wrows R w1 VPCIIDInfo),
          SubnetIIDInfo := without_owner c (NameId (vpc_IId info)) (fold upsert rs (wrows R w1 SubnetIIDInfo)))"
      then show "Q False w'" by (intro Cons.prems(2)[of "r # rs"]) (auto simp: r that fun_eq_iff)
    next
      fix e rs and w' :: "('d, 'c) world"
      assume "subnet_rows c v names rs" and "w_locks w' = w_locks w1"
        and "wrows R w' = (wrows R w1)(SubnetIIDInfo := fold upsert rs (wrows R w1 SubnetIIDInfo)) \<or>
          wrows R w' = (wrows R w1)(VPCIIDInfo := without_vpc c v (wrows R w1 VPCIIDInfo),
            SubnetIIDInfo := fold upsert rs (wrows R w1 SubnetIIDInfo))"
      then show "E e w'" by (intro Cons.prems(3)[of "r # rs"]) (auto simp: r that fun_eq_iff)
    qed
    show ?thesis
      unfolding CreateVPC_insert_subnets.simps Let_def if_not_P[OF False] zone_def[symmetric] r_def[symmetric]
      apply (intro wp_walk row_insert_wp[OF ok] rest wp_onCloudDelI delete_vpc_wp[OF ok] delete_owned_wp[OF ok])
      apply (auto intro: Cons.prems(1)[of "[]"] Cons.prems(2)[of "[]"] Cons.prems(3)[of "[]"] simp: fun_upd_twist)
       apply (rule Cons.prems(2)[of "[]"]; auto simp: fun_eq_iff)
      apply (rule Cons.prems(3)[of "[]"]; auto simp: fun_eq_iff)
      done
  qed
qed

lemma check_single_vpc_wp:
  fixes env :: "('d, 'c) env" and w :: "('d, 'c) world"
  assumes ok: "gorm_ok (env_gorm env) R"
    and Q: "\<And>w'. reads R env w w' \<Longrightarrow> w_cloud w' = w_cloud w \<Longrightarrow> Q () w'" and E: "\<And>e w'. reads R env w w' \<Longrightarrow> w_cloud w' = w_cloud w \<Longrightarrow> E e w'"
  shows "wp (check_single_vpc env conn rs) Q E w"
proof -
  have *: "wp (case rows of [] \<Rightarrow> ret () | one # _ \<Rightarrow> throw (m one)) Q E w'"
    if "reads R env w w'" "w_cloud w' = w_cloud w" for rows w' and m :: "iid_row \<Rightarrow> go_error"
    using that by (cases rows) (auto intro!: wp_retI wp_throwI Q E)
  show ?thesis
    unfolding check_single_vpc_def
    by (intro wp_walk list_connection_wp[OF ok] *; (rule Q | rule E)?) simp_all
qed

text \<open>The rows after a creation that returned a result, and after one that failed.\<close>

definition vpc_created :: "string \<Rightarrow> string \<Rightarrow> string set \<Rightarrow> (table \<Rightarrow> iid_row set) \<Rightarrow> VPCInfo option \<Rightarrow> (table \<Rightarrow> iid_row set) \<Rightarrow> bool" where
  "vpc_created c v names rows res rows' \<longleftrightarrow>
     (\<exists>rs driverName cspId. subnet_rows c v names rs \<and>
        (case res of
           Some info \<Rightarrow> vpc_IId info = \<lparr>NameId = v, SystemId = cspId\<rparr> \<and>
             rows' = rows(VPCIIDInfo := insert (FirstIIDInfo c v (spiderSystemId driverName cspId)) (rows VPCIIDInfo),
               SubnetIIDInfo := fold upsert rs (rows SubnetIIDInfo))
         | None \<Rightarrow> rows' = rows(SubnetIIDInfo := without_owner c driverName (fold upsert rs (rows SubnetIIDInfo)))))"

definition vpc_failed :: "string \<Rightarrow> string \<Rightarrow> string set \<Rightarrow> (table \<Rightarrow> iid_row set) \<Rightarrow> (table \<Rightarrow> iid_row set) \<Rightarrow> bool" where
  "vpc_failed c v names rows rows' \<longleftrightarrow> rows' = rows \<or>
     (\<exists>rs V sys. subnet_rows c v names rs \<and> rows' = rows(VPCIIDInfo := V, SubnetIIDInfo := fold upsert rs (rows SubnetIIDInfo)) \<and>
        (V = rows VPCIIDInfo \<or> V = insert (FirstIIDInfo c v sys) (rows VPCIIDInfo)))"

lemma vpc_failed_refl [simp]: "vpc_failed c v names rows rows"
  by (simp add: vpc_failed_def)

lemma without_vpc_new:
  assumes "\<not> name_taken env S c v"
  shows "without_vpc c v (insert (FirstIIDInfo c v sys) S) = S"
  using assms by (auto simp: without_vpc_def name_taken_def FirstIIDInfo_def)

text \<open>The part of \<open>CreateVPC\<close> after the driver has created the VPC.\<close>

lemma CreateVPC_store_wp:
  fixes env :: "('d, 'c) env" and w :: "('d, 'c) world"
  assumes ok: "gorm_ok (env_gorm env) R" and free: "\<not> name_taken env (wrows R w VPCIIDInfo) c v"
    and Q: "\<And>res w'. vpc_created c v ((NameId \<circ> srz_IId) ` set reqs) (wrows R w) res (wrows R w') \<Longrightarrow> w_locks w' = w_locks w \<Longrightarrow> Q res w'"
    and E: "\<And>e w'. vpc_failed c v ((NameId \<circ> srz_IId) ` set reqs) (wrows R w) (wrows R w') \<Longrightarrow> w_locks w' = w_locks w \<Longrightarrow> E e w'"
    and info': "vpc_IId info' = \<lparr>NameId = v, SystemId = cspId\<rparr>"
  shows "wp (catchP (onStore (Insert (env_gorm env) VPCIIDInfo (FirstIIDInfo c v (spiderSystemId x cspId))))
       (\<lambda>err. bindP (onCloudDel (vh_DeleteVPC h (vpc_IId info))) (\<lambda>(_, err2).
          case err2 of Some e2 \<Rightarrow> throw (err @ '', '' @ e2) | None \<Rightarrow> throw err))
       (\<lambda>_. bindP (CreateVPC_insert_subnets env h c v info reqs ss) (\<lambda>inserted.
          if \<not> inserted then ret None else ret (Some info')))) Q E w"
proof -
  let ?N = "(NameId \<circ> srz_IId) ` set reqs" and ?sys = "spiderSystemId x cspId"
  let ?V = "insert (FirstIIDInfo c v ?sys) (wrows R w VPCIIDInfo)"
  have tail: "wp (bindP (CreateVPC_insert_subnets env h c v info reqs ss) (\<lambda>inserted.
      if \<not> inserted then ret None else ret (Some info'))) Q E w1"
    if w1: "wrows R w1 = (wrows R w)(VPCIIDInfo := ?V)" "w_locks w1 = w_locks w" for w1
  proof (rule wp_bindPI, rule CreateVPC_insert_subnets_wp[OF ok refl])
    fix rs and w2 :: "('d, 'c) world"
    assume "subnet_rows c v ?N rs" and "w_locks w2 = w_locks w1"
      and "wrows R w2 = (wrows R w1)(SubnetIIDInfo := fold upsert rs (wrows R w1 SubnetIIDInfo))"
    then have "vpc_created c v ?N (wrows R w) (Some info') (wrows R w2)" and "w_locks w2 = w_locks w"
      unfolding vpc_created_def by - (rule exI[of _ rs], rule exI[of _ x], rule exI[of _ cspId], simp add: w1 info', simp add: w1)
    then show "wp (if \<not> True then ret None else ret (Some info')) Q E w2" by (simp add: wp_ret Q)
  next
    fix rs and w2 :: "('d, 'c) world"
    assume "subnet_rows c v ?N rs" and l: "w_locks w2 = w_locks w1"
      and r: "wrows R w2 = (wrows R w1)(VPCIIDInfo := without_vpc c v (wrows R w1 VPCIIDInfo),
        SubnetIIDInfo := without_owner c (NameId (vpc_IId info)) (fold upsert rs (wrows R w1 SubnetIIDInfo)))"
    moreover have "wrows R w2 = (wrows R w)(SubnetIIDInfo :=
        without_owner c (NameId (vpc_IId info)) (fold upsert rs (wrows R w SubnetIIDInfo)))"
      using r by (auto simp: w1 without_vpc_new[OF free] fun_eq_iff)
    ultimately have "vpc_created c v ?N (wrows R w) None (wrows R w2)"
      unfolding vpc_created_def by (intro exI[of _ rs] exI[of _ "NameId (vpc_IId info)"]) simp
    with l w1 show "wp (if \<not> False then ret None else ret (Some info')) Q E w2" by (simp add: wp_ret Q)
  next
    fix e rs and w2 :: "('d, 'c) world"
    assume s: "subnet_rows c v ?N rs" and l: "w_locks w2 = w_locks w1"
      and r: "wrows R w2 = (wrows R w1)(SubnetIIDInfo := fold upsert rs (wrows R w1 SubnetIIDInfo)) \<or>
        wrows R w2 = (wrows R w1)(VPCIIDInfo := without_vpc c v (wrows R w1 VPCIIDInfo),
          SubnetIIDInfo := fold upsert rs (wrows R w1 SubnetIIDInfo))"
    from r have "\<exists>V. wrows R w2 = (wrows R w)(VPCIIDInfo := V, SubnetIIDInfo := fold upsert rs (wrows R w SubnetIIDInfo)) \<and>
        (V = wrows R w VPCIIDInfo \<or> V = ?V)"
    proof
      assume "wrows R w2 = (wrows R w1)(SubnetIIDInfo := fold upsert rs (wrows R w1 SubnetIIDInfo))"
      then show ?thesis by (intro exI[of _ ?V]) (simp add: w1)
    next
      assume "wrows R w2 = (wrows R w1)(VPCIIDInfo := without_vpc c v (wrows R w1 VPCIIDInfo),
          SubnetIIDInfo := fold upsert rs (wrows R w1 SubnetIIDInfo))"
      then show ?thesis by (intro exI[of _ "wrows R w VPCIIDInfo"]) (auto simp: w1 without_vpc_new[OF free] fun_eq_iff)
    qed
    with s have "vpc_failed c v ?N (wrows R w) (wrows R w2)" unfolding vpc_failed_def by blast
    with l w1 show "E e w2" by (simp add: E)
  qed
  show ?thesis
    by (intro wp_walk row_insert_wp[OF ok] wp_onCloudDelI tail E) (simp_all add: upsert_new_name[OF free])
qed

text \<open>
  C4: A \<open>CreateVPC\<close> that returns a VPC has added the row of a name that was free, and below it only rows of subnets
  that were asked for; one that returns neither a VPC nor an error has added no VPC row, but leaves the rows
  of the subnets of the VPC it gave up, unless the driver calls the VPC by the user's name; one that fails has
  added the VPC row at most, and rows below it. Every path gives the locks back.
\<close>

theorem CreateVPC_rows:
  fixes env :: "('d, 'c) env" and w :: "('d, 'c) world"
  assumes "gorm_ok (env_gorm env) R"
  shows "wp (CreateVPC env conn rsType req mode)
    (\<lambda>res w'. w_locks w' = w_locks w \<and> \<not> name_taken env (wrows R w VPCIIDInfo) (TrimSpace conn) (NameId (vpcReq_IId req)) \<and>
       vpc_created (TrimSpace conn) (NameId (vpcReq_IId req)) ((NameId \<circ> subnet_IId) ` set (vpcReq_SubnetInfoList req))
         (wrows R w) res (wrows R w'))
    (\<lambda>e w'. w_locks w' = w_locks w \<and>
       vpc_failed (TrimSpace conn) (NameId (vpcReq_IId req)) ((NameId \<circ> subnet_IId) ` set (vpcReq_SubnetInfoList req))
         (wrows R w) (wrows R w')) w"
  unfolding CreateVPC_def Let_def spiderSystemId_def[symmetric] IID.simps
  by (intro wp_retI wp_throwI wp_lift_resultI wp_bindPI wp_ifI wp_case_prodI wp_withLockI wp_validatedI check_zones_wp
      has_name_wp'[OF assms(1)] check_single_vpc_wp[OF assms(1)] make_spUUID_wp[where R = R]
      CreateVPC_subnet_reqs_wp[where R = R] cloud_wp CreateVPC_store_wp[OF assms(1)])
    (simp_all add: EmptyCheckAndTrim_Inr reads_def)

text \<open>The row of a subnet, and what a creation of one subnet adds to the rows.\<close>

definition subnet_added :: "string \<Rightarrow> string \<Rightarrow> string \<Rightarrow> iid_row set \<Rightarrow> iid_row set \<Rightarrow> bool" where
  "subnet_added c v n S S' \<longleftrightarrow> S' = S \<or> (\<exists>zone sys. S' = insert (ZoneLevelVPCDependentIIDInfo c zone n sys v) S)"

definition no_subnet :: "string \<Rightarrow> string \<Rightarrow> string \<Rightarrow> iid_row set \<Rightarrow> bool" where
  "no_subnet c v n S \<longleftrightarrow> \<not> (\<exists>r \<in> S. row_ConnectionName r = c \<and> row_OwnerVPCName r = v \<and> row_NameId r = n)"

lemma subnet_added_refl [simp]: "subnet_added c v n S S"
  by (simp add: subnet_added_def)

lemma no_subnet_delete:
  assumes "no_subnet c v n S" and "subnet_added c v n S S'"
  shows "{r \<in> S'. \<not> (row_ConnectionName r = c \<and> row_NameId r = n \<and> row_OwnerVPCName r = v)} = S"
  using assms by (auto simp: no_subnet_def subnet_added_def)

lemma upsert_subnet_again:
  assumes "no_subnet c v n S" and "subnet_added c v n S S'"
  shows "subnet_added c v n S (upsert (ZoneLevelVPCDependentIIDInfo c z n s v) S')"
proof -
  let ?r = "\<lambda>z s. ZoneLevelVPCDependentIIDInfo c z n s v"
  have key: "primary_key (?r z' s') = primary_key (?r z s)" for z' s' by (simp add: primary_key_def ZoneLevelVPCDependentIIDInfo_def)
  have S: "{x \<in> S. primary_key x \<noteq> primary_key (?r z s)} = S"
    using assms(1) by (auto simp: no_subnet_def primary_key_def)
  from assms(2) have "{x \<in> S'. primary_key x \<noteq> primary_key (?r z s)} = S"
    using S key by (auto simp: subnet_added_def)
  then show ?thesis unfolding upsert_def subnet_added_def by blast
qed

lemma AddSubnet_insert_wp:
  fixes env :: "('d, 'c) env" and w :: "('d, 'c) world"
  assumes ok: "gorm_ok (env_gorm env) R" and c: "row_ConnectionName V = c" and new: "no_subnet c v n S"
    and w: "subnet_added c v n S (wrows R w SubnetIIDInfo)"
    and Q: "\<And>w' S'. subnet_added c v n S S' \<Longrightarrow> wrows R w' = (wrows R w)(SubnetIIDInfo := S') \<Longrightarrow> w_locks w' = w_locks w \<Longrightarrow> Q () w'"
    and E: "\<And>e w' S'. subnet_added c v n S S' \<Longrightarrow> wrows R w' = (wrows R w)(SubnetIIDInfo := S') \<Longrightarrow> w_locks w' = w_locks w \<Longrightarrow> E e w'"
  shows "wp (AddSubnet_insert env h V v u n z ss) Q E w"
  using w Q E
proof (induction ss arbitrary: w)
  case Nil
  show ?case unfolding AddSubnet_insert.simps by (rule wp_retI, rule Nil(2)[OF Nil(1)]) simp_all
next
  case (Cons s ss)
  have rest: "wp (AddSubnet_insert env h V v u n z ss) Q E w1"
    if w1: "wrows R w1 = (wrows R w)(SubnetIIDInfo := S1)" "subnet_added c v n S S1" "w_locks w1 = w_locks w" for w1 S1
  proof (rule Cons.IH)
    show "subnet_added c v n S (wrows R w1 SubnetIIDInfo)" by (simp add: w1)
  next
    fix w' :: "('d, 'c) world" and S'
    assume "subnet_added c v n S S'" "wrows R w' = (wrows R w1)(SubnetIIDInfo := S')" "w_locks w' = w_locks w1"
    then show "Q () w'" by (intro Cons.prems(2)[of S']) (simp_all only: w1 fun_upd_upd)
  next
    fix e and w' :: "('d, 'c) world" and S'
    assume "subnet_added c v n S S'" "wrows R w' = (wrows R w1)(SubnetIIDInfo := S')" "w_locks w' = w_locks w1"
    then show "E e w'" by (intro Cons.prems(3)[of S']) (simp_all only: w1 fun_upd_upd)
  qed
  have same: "wrows R w = (wrows R w)(SubnetIIDInfo := wrows R w SubnetIIDInfo)" by simp
  show ?case
  proof (cases "NameId (subnet_IId s) = u")
    case True
    show ?thesis
      unfolding AddSubnet_insert.simps if_P[OF True] c
      apply (intro wp_walk row_insert_wp[OF ok] rest wp_onCloudDelI delete_by3_wp[OF ok])
           apply (assumption)
          apply (rule upsert_subnet_again[OF new Cons.prems(1)])
         apply (simp_all add: no_subnet_delete[OF new Cons.prems(1), simplified])
        apply (rule Cons.prems(3)[OF subnet_added_refl]; simp)
       apply (rule Cons.prems(3)[OF Cons.prems(1)]; simp)
      apply (rule Cons.prems(3)[OF Cons.prems(1)]; simp)
      done
  next
    case False
    show ?thesis unfolding AddSubnet_insert.simps if_not_P[OF False] by (rule rest[OF same Cons.prems(1) refl])
  qed
qed

text \<open>
  \<open>AddSubnet\<close> adds at most one row: of the name that was asked for, which was free below the VPC. Also when it
  fails no other row changes, and every path gives the lock of the VPC back.
\<close>

theorem AddSubnet_rows:
  fixes env :: "('d, 'c) env" and w :: "('d, 'c) world"
  assumes "gorm_ok (env_gorm env) R" and "\<not> permission_mode env"
  shows "wp (AddSubnet env conn rsType vpcName req mode)
    (\<lambda>info w'. let c = TrimSpace conn; v = TrimSpace vpcName; n = NameId (subnet_IId req) in
       w_locks w' = w_locks w \<and> no_subnet c v n (wrows R w SubnetIIDInfo) \<and> name_taken env (wrows R w VPCIIDInfo) c v \<and>
       (\<exists>S'. subnet_added c v n (wrows R w SubnetIIDInfo) S' \<and> wrows R w' = (wrows R w)(SubnetIIDInfo := S')))
    (\<lambda>e w'. let c = TrimSpace conn; v = TrimSpace vpcName; n = NameId (subnet_IId req) in
       w_locks w' = w_locks w \<and>
       (\<exists>S'. subnet_added c v n (wrows R w SubnetIIDInfo) S' \<and> wrows R w' = (wrows R w)(SubnetIIDInfo := S'))) w"
proof -
  have same: "\<exists>S'. subnet_added c v n (wrows R w SubnetIIDInfo) S' \<and> wrows R w = (wrows R w)(SubnetIIDInfo := S')" for c v n
    by (rule exI[of _ "wrows R w SubnetIIDInfo"]) simp
  show ?thesis
  unfolding AddSubnet_def Let_def has_subnet_name_def if_not_P[OF assms(2)]
  apply (intro wp_retI wp_throwI wp_lift_resultI wp_bindPI wp_ifI wp_case_prodI wp_withLockI check_zone_wpI has_by3_wp[OF assms(1)]
      get_iid_info_wp[OF assms(1)] make_spUUID_wp[where R = R] cloud_wp AddSubnet_insert_wp[OF assms(1), where c = "TrimSpace conn" and S = "wrows R w SubnetIIDInfo"] user_subnets_wp[OF assms(1)])
  apply (auto simp: EmptyCheckAndTrim_Inr reads_def assms(2) no_subnet_def csp_subnet_IID_def getUserIID_def name_taken_def same)
  done
qed

text \<open>
  \<open>RemoveSubnet\<close> drops exactly the row of the connection, VPC and subnet name it found, and only after the
  driver of the row's zone confirmed the removal, or said that it does not know the subnet, or when the caller
  forces it; in every other case no row changes. Only a forced removal ignores a failure of the meta database.
\<close>

theorem RemoveSubnet_rows:
  fixes env :: "('d, 'c) env" and w :: "('d, 'c) world"
  assumes "gorm_ok (env_gorm env) R" and "\<not> permission_mode env"
  shows "wp (RemoveSubnet env conn vpcName name force)
    (\<lambda>res w'. let c = TrimSpace conn; v = TrimSpace vpcName; n = TrimSpace name in
       w_locks w' = w_locks w \<and>
       (\<exists>r vpc h err. r \<in> wrows R w SubnetIIDInfo \<and> row_ConnectionName r = c \<and> row_NameId r = n \<and> row_OwnerVPCName r = v \<and>
          vpc \<in> wrows R w VPCIIDInfo \<and> row_ConnectionName vpc = c \<and> row_NameId vpc = v \<and>
          zone_vpc_handler env c (row_ZoneId r) = Inr h \<and>
          vh_RemoveSubnet h (getDriverIID (row_IID vpc)) (getDriverIID (row_IID r)) (w_cloud w) = ((res, err), w_cloud w') \<and>
          (if deletes force res err
           then wrows R w' = (wrows R w)(SubnetIIDInfo := {x \<in> wrows R w SubnetIIDInfo.
                  \<not> (row_ConnectionName x = c \<and> row_NameId x = n \<and> row_OwnerVPCName x = v)}) \<or>
                (forced force err \<and> wrows R w' = wrows R w)
           else wrows R w' = wrows R w \<and> \<not> res \<and> err = None)))
    (\<lambda>e w'. wrows R w' = wrows R w \<and> w_locks w' = w_locks w) w"
  unfolding RemoveSubnet_def Let_def if_not_P[OF assms(2)]
  apply (intro wp_retI wp_throwI wp_lift_resultI wp_bindPI wp_ifI wp_case_prodI wp_withLockI wp_onCloudDelI
      get_by3_wp[OF assms(1)] get_by2_wp[OF assms(1)] delete_tail_wp delete_by3_wp[OF assms(1)])
  apply (auto simp: EmptyCheckAndTrim_Inr reads_def assms(2))
  done

lemma remove_each_subnet_wp:
  fixes w :: "('d, 'c) world"
  assumes "\<And>c. Q () (w\<lparr>w_cloud := c\<rparr>)"
  shows "wp (remove_each_subnet h i rs) Q E w"
  using assms
proof (induction rs arbitrary: w)
  case Nil
  from Nil[of "w_cloud w"] show ?case by (simp add: wp_ret)
next
  case (Cons r rs)
  show ?case unfolding remove_each_subnet.simps
    by (intro wp_bindPI wp_onCloudDelI Cons.IH) (use Cons.prems in simp)
qed

lemma remove_KT_subnets_wp:
  fixes env :: "('d, 'c) env" and w :: "('d, 'c) world"
  assumes ok: "gorm_ok (env_gorm env) R"
    and Q: "\<And>w'. wrows R w' = wrows R w \<Longrightarrow> w_locks w' = w_locks w \<Longrightarrow> Q () w'"
  shows "wp (remove_KT_subnets env h conn V) Q E w"
  unfolding remove_KT_subnets_def
  by (intro wp_walk list_by2_wp[OF ok] remove_each_subnet_wp; rule Q) (simp_all add: reads_def)

text \<open>The rows without a VPC's own row, without those of its subnets, and without both.\<close>

definition del_vpc :: "string \<Rightarrow> string \<Rightarrow> (table \<Rightarrow> iid_row set) \<Rightarrow> (table \<Rightarrow> iid_row set)" where
  "del_vpc c v rows = rows(VPCIIDInfo := without_vpc c v (rows VPCIIDInfo))"

definition del_subnets :: "string \<Rightarrow> string \<Rightarrow> (table \<Rightarrow> iid_row set) \<Rightarrow> (table \<Rightarrow> iid_row set)" where
  "del_subnets c v rows = rows(SubnetIIDInfo := without_owner c v (rows SubnetIIDInfo))"

lemma del_vpc_wp:
  fixes env :: "('d, 'c) env" and w :: "('d, 'c) world"
  assumes ok: "gorm_ok (env_gorm env) R"
    and Q: "\<And>w'. wrows R w' = del_vpc c v (wrows R w) \<Longrightarrow> w_cloud w' = w_cloud w \<Longrightarrow> w_locks w' = w_locks w \<Longrightarrow> Q True w'"
    and E: "\<And>e w'. wrows R w' = wrows R w \<Longrightarrow> w_cloud w' = w_cloud w \<Longrightarrow> w_locks w' = w_locks w \<Longrightarrow> E e w'"
  shows "wp (onStore (DeleteByConditions (env_gorm env) VPCIIDInfo CONNECTION_NAME_COLUMN c NAME_ID_COLUMN v)) Q E w"
  by (rule delete_vpc_wp[OF ok]; (rule Q | rule E)) (simp_all add: del_vpc_def)

lemma del_subnets_wp:
  fixes env :: "('d, 'c) env" and w :: "('d, 'c) world"
  assumes ok: "gorm_ok (env_gorm env) R"
    and Q: "\<And>w'. wrows R w' = del_subnets c v (wrows R w) \<Longrightarrow> w_cloud w' = w_cloud w \<Longrightarrow> w_locks w' = w_locks w \<Longrightarrow> Q True w'"
    and E: "\<And>e w'. wrows R w' = wrows R w \<Longrightarrow> w_cloud w' = w_cloud w \<Longrightarrow> w_locks w' = w_locks w \<Longrightarrow> E e w'"
  shows "wp (onStore (DeleteByConditions (env_gorm env) SubnetIIDInfo CONNECTION_NAME_COLUMN c OWNER_VPC_NAME_COLUMN v)) Q E w"
  by (rule delete_owned_wp[OF ok]; (rule Q | rule E)) (simp_all add: del_subnets_def)

text \<open>What a deletion that went on to the rows leaves, and what it then answers.\<close>

definition vpc_deleted :: "bool \<Rightarrow> bool \<Rightarrow> string \<Rightarrow> string \<Rightarrow> (table \<Rightarrow> iid_row set) \<Rightarrow> bool \<Rightarrow> (table \<Rightarrow> iid_row set) \<Rightarrow> bool" where
  "vpc_deleted isForced res c v rows answer rows' \<longleftrightarrow>
     answer = res \<and> rows' = del_subnets c v (del_vpc c v rows) \<or>
     \<not> isForced \<and> \<not> answer \<and> rows' = del_vpc c v rows \<or>
     isForced \<and> answer = res \<and> rows' \<in> {rows, del_vpc c v rows, del_subnets c v rows}"

lemma delete_vpc_tail_wp:
  fixes env :: "('d, 'c) env" and w :: "('d, 'c) world"
  assumes ok: "gorm_ok (env_gorm env) R" and V: "row_ConnectionName V = c" "row_NameId V = v"
    and del: "\<And>answer w'. deletes force res err \<Longrightarrow> w_locks w' = w_locks w \<Longrightarrow> w_cloud w' = w_cloud w \<Longrightarrow>
      vpc_deleted (forced force err) res c v (wrows R w) answer (wrows R w') \<Longrightarrow> Q answer w'"
    and keep: "\<not> deletes force res err \<Longrightarrow> err = None \<Longrightarrow> \<not> res \<Longrightarrow> Q False w"
    and E: "\<And>e w'. w_locks w' = w_locks w \<Longrightarrow> wrows R w' = wrows R w \<Longrightarrow> E e w'"
  shows "wp (delete_vpc_tail env force res err V) Q E w"
proof -
  have f: "(case err of Some e \<Rightarrow> if checkNotFoundError e then ''true'' else force | None \<Rightarrow> force) = ''true'' \<longleftrightarrow> forced force err"
    by (auto simp: forced_def split: option.split)
  show ?thesis
    unfolding delete_vpc_tail_def Let_def f V
    apply (intro wp_retI wp_throwI wp_ifI wp_catchPI del_vpc_wp[OF ok] del_subnets_wp[OF ok])
    apply (auto simp: vpc_deleted_def deletes_def intro: del E keep)
    done
qed

text \<open>
  C9: Outside the permission-based mode, \<open>DeleteVPC\<close> changes no row unless the driver confirmed the deletion, or said that it does not know the VPC, or
  the caller forces it. Then an answer without an error means that the VPC's row and those of all its subnets are
  gone, or that the deletion was forced, or that it answered false after it had dropped the VPC's row alone: the
  error of the second deletion is lost. An error means that no row changed.
\<close>

theorem DeleteVPC_rows:
  fixes env :: "('d, 'c) env" and w :: "('d, 'c) world"
  assumes "gorm_ok (env_gorm env) R" and "\<not> permission_mode env"
  shows "wp (DeleteVPC env conn rsType name force)
    (\<lambda>answer w'. let c = TrimSpace conn; v = TrimSpace name in
       w_locks w' = w_locks w \<and>
       (\<exists>V h cloud res err. V \<in> wrows R w VPCIIDInfo \<and> row_ConnectionName V = c \<and> row_NameId V = v \<and> vpc_handler env c = Inr h \<and>
          vh_DeleteVPC h (getDriverIID (row_IID V)) cloud = ((res, err), w_cloud w') \<and>
          (if deletes force res err then vpc_deleted (forced force err) res c v (wrows R w) answer (wrows R w')
           else wrows R w' = wrows R w \<and> \<not> answer \<and> err = None)))
    (\<lambda>e w'. wrows R w' = wrows R w \<and> w_locks w' = w_locks w) w"
  unfolding DeleteVPC_def Let_def
  apply (intro wp_retI wp_throwI wp_lift_resultI wp_bindPI wp_ifI wp_case_prodI wp_withLockI wp_onCloudDelI
      get_iid_info_wp[OF assms(1)] remove_KT_subnets_wp[OF assms(1)] delete_vpc_tail_wp[OF assms(1), where c = "TrimSpace conn" and v = "TrimSpace name"])
  apply (auto simp: EmptyCheckAndTrim_Inr reads_def assms(2))
  done

text \<open>
  A row of the connection belongs to a subnet of the driver's when it is below the VPC and the subnet's identifier
  matches the one it stores, in the sense of the database's \<open>LIKE\<close>.
\<close>

definition subnet_row :: "'d gorm \<Rightarrow> iid_row set \<Rightarrow> string \<Rightarrow> string \<Rightarrow> SubnetInfo \<Rightarrow> iid_row \<Rightarrow> bool" where
  "subnet_row G S conn v s r \<longleftrightarrow> r \<in> S \<and> row_ConnectionName r = conn \<and> row_OwnerVPCName r = v \<and>
     SystemId (subnet_IId s) \<noteq> [] \<and> g_like G (row_SystemId r) (like_pattern (SystemId (subnet_IId s)))"

definition subnet_lookup :: "'d gorm \<Rightarrow> string \<Rightarrow> string \<Rightarrow> SubnetInfo \<Rightarrow> ('d store, iid_row) prog" where
  "subnet_lookup G conn v s = GetByConditionsAndContain G SubnetIIDInfo CONNECTION_NAME_COLUMN conn OWNER_VPC_NAME_COLUMN v
     SYSTEM_ID_COLUMN (SystemId (subnet_IId s))"

text \<open>
  What becomes of the driver's subnets, in their order: one with a row is shown under the row's identifiers, one
  without a row is left out, and so is one whose row has no name, or whose look-up failed with a text like "not found"
  although there is a row.
\<close>

inductive subnets_shown :: "('d \<Rightarrow> table \<Rightarrow> iid_row set) \<Rightarrow> 'd gorm \<Rightarrow> iid_row set \<Rightarrow> string \<Rightarrow> string \<Rightarrow>
    SubnetInfo list \<Rightarrow> SubnetInfo list \<Rightarrow> bool" for R G S conn v where
  no_more: "subnets_shown R G S conn v [] []"
| shown: "subnet_row G S conn v s r \<Longrightarrow> row_NameId r \<noteq> [] \<Longrightarrow> subnets_shown R G S conn v ss ss' \<Longrightarrow>
    subnets_shown R G S conn v (s # ss) (s\<lparr>subnet_IId := getUserIID (row_IID r),
      subnet_Zone := (if subnet_Zone s = [] then row_ZoneId r else subnet_Zone s)\<rparr> # ss')"
| nameless: "subnet_row G S conn v s r \<Longrightarrow> row_NameId r = [] \<Longrightarrow> subnets_shown R G S conn v ss ss' \<Longrightarrow>
    subnets_shown R G S conn v (s # ss) ss'"
| foreign: "(\<And>r. \<not> subnet_row G S conn v s r) \<Longrightarrow> subnets_shown R G S conn v ss ss' \<Longrightarrow>
    subnets_shown R G S conn v (s # ss) ss'"
| unread: "subnet_row G S conn v s r \<Longrightarrow> R (st_db st) SubnetIIDInfo = S \<Longrightarrow> fst (subnet_lookup G conn v s st) = Inl e \<Longrightarrow>
    checkNotFoundError e \<Longrightarrow> subnets_shown R G S conn v ss ss' \<Longrightarrow> subnets_shown R G S conn v (s # ss) ss'"

lemma subnet_lookup_wp:
  fixes env :: "('d, 'c) env" and w :: "('d, 'c) world"
  assumes ok: "gorm_ok (env_gorm env) R"
    and Q: "\<And>r w'. reads R env w w' \<Longrightarrow> w_cloud w' = w_cloud w \<Longrightarrow>
      subnet_row (env_gorm env) (wrows R w SubnetIIDInfo) conn v s r \<Longrightarrow> Q r w'"
    and E: "\<And>e w'. reads R env w w' \<Longrightarrow> w_cloud w' = w_cloud w \<Longrightarrow>
      fst (subnet_lookup (env_gorm env) conn v s (w_store w)) = Inl e \<Longrightarrow> E e w'"
  shows "wp (onStore (subnet_lookup (env_gorm env) conn v s)) Q E w"
proof -
  have "wp (subnet_lookup (env_gorm env) conn v s) (\<lambda>r st. R (st_db st) = wrows R w \<and>
      subnet_row (env_gorm env) (wrows R w SubnetIIDInfo) conn v s r) (\<lambda>_ st. R (st_db st) = wrows R w) (w_store w)"
    unfolding subnet_lookup_def GetByConditionsAndContain_def
    by (intro wp_bindPI Open_wp[OF ok] wp_ifI wp_throwI first_or_wp[OF ok])
      (auto simp: wrows_def selected_def subnet_row_def)
  then show ?thesis
    unfolding wp_onStore
    by (auto simp: wp_def split: prod.splits sum.splits intro!: Q E)
qed

lemma user_subnets_shown_wp:
  fixes env :: "('d, 'c) env" and w :: "('d, 'c) world"
  assumes ok: "gorm_ok (env_gorm env) R"
    and Q: "\<And>ss' w'. reads R env w w' \<Longrightarrow> w_cloud w' = w_cloud w \<Longrightarrow>
      subnets_shown R (env_gorm env) (wrows R w SubnetIIDInfo) conn v ss ss' \<Longrightarrow> Q (acc @ ss') w'"
    and E: "\<And>e w'. reads R env w w' \<Longrightarrow> w_cloud w' = w_cloud w \<Longrightarrow> E e w'"
  shows "wp (user_subnets env row_subnet_IID conn v ss acc) Q E w"
  using Q E
proof (induction ss arbitrary: acc w)
  case Nil
  show ?case unfolding user_subnets.simps by (rule wp_retI, rule Nil(1)[where ss' = "[]", simplified]) (simp_all add: no_more)
next
  case (Cons s ss)
  let ?shown = "\<lambda>w. subnets_shown R (env_gorm env) (wrows R w SubnetIIDInfo) conn v"
  have step: "wp (user_subnets env row_subnet_IID conn v ss (acc @ new)) Q E w'"
    if w': "reads R env w w'" "w_cloud w' = w_cloud w"
      and new: "\<And>ss'. ?shown w ss ss' \<Longrightarrow> ?shown w (s # ss) (new @ ss')" for new w'
  proof (rule Cons.IH)
    fix ss' :: "SubnetInfo list" and w'' :: "('d, 'c) world"
    assume r: "reads R env w' w''" "w_cloud w'' = w_cloud w'" and "?shown w' ss ss'"
    then have "?shown w (s # ss) (new @ ss')" using new readsD(1)[OF w'(1)] by simp
    with r w' have "Q (acc @ new @ ss') w''" by (intro Cons.prems(1)) (auto dest: reads_trans)
    then show "Q ((acc @ new) @ ss') w''" by simp
  next
    fix e and w'' :: "('d, 'c) world"
    assume "reads R env w' w''" "w_cloud w'' = w_cloud w'"
    with w' show "E e w''" by (intro Cons.prems(2)) (auto dest: reads_trans)
  qed
  show ?case
    unfolding user_subnets.simps subnet_lookup_def[symmetric]
  proof (intro wp_catchPI subnet_lookup_wp[OF ok])
    fix e and w' :: "('d, 'c) world"
    assume w': "reads R env w w'" "w_cloud w' = w_cloud w"
      and e: "fst (subnet_lookup (env_gorm env) conn v s (w_store w)) = Inl e"
    have "?shown w (s # ss) ss'" if "checkNotFoundError e" "?shown w ss ss'" for ss'
      using that e unread[of "env_gorm env" "wrows R w SubnetIIDInfo" conn v s _ R "w_store w" e] foreign wrows_def by metis
    with step[OF w', of "[]"] show "wp (if checkNotFoundError e then user_subnets env row_subnet_IID conn v ss acc else throw e) Q E w'"
      by (intro wp_ifI wp_throwI Cons.prems(2)[OF w']) simp_all
  next
    fix r and w' :: "('d, 'c) world"
    assume w': "reads R env w w'" "w_cloud w' = w_cloud w"
      and r: "subnet_row (env_gorm env) (wrows R w SubnetIIDInfo) conn v s r"
    show "wp (if row_NameId r \<noteq> [] then user_subnets env row_subnet_IID conn v ss
          (acc @ [s\<lparr>subnet_IId := row_subnet_IID r s, subnet_Zone := (if subnet_Zone s = [] then row_ZoneId r else subnet_Zone s)\<rparr>])
        else user_subnets env row_subnet_IID conn v ss acc) Q E w'"
    proof (intro wp_ifI)
      assume "row_NameId r \<noteq> []"
      with shown[OF r] show "wp (user_subnets env row_subnet_IID conn v ss
          (acc @ [s\<lparr>subnet_IId := row_subnet_IID r s, subnet_Zone := (if subnet_Zone s = [] then row_ZoneId r else subnet_Zone s)\<rparr>])) Q E w'"
        by (intro step[OF w']) (simp add: row_subnet_IID_def)
    next
      assume "\<not> row_NameId r \<noteq> []"
      with nameless[OF r] step[OF w', of "[]"] show "wp (user_subnets env row_subnet_IID conn v ss acc) Q E w'" by simp
    qed
  qed
qed

text \<open>
  C21: Outside the permission-based mode, \<open>GetVPC\<close> changes no row and shows what the driver answers for the identifier
  in the row of the name that was asked for, under that name. Of the driver's subnets it shows, in their order, those
  that have a row below the VPC, under the identifiers of such a row, and of the others none.
\<close>

theorem GetVPC_shows_own_subnets:
  fixes env :: "('d, 'c) env" and w :: "('d, 'c) world"
  assumes "gorm_ok (env_gorm env) R" and "\<not> permission_mode env"
  shows "wp (GetVPC env conn rsType name)
    (\<lambda>info w'. let c = TrimSpace conn; v = TrimSpace name in
       wrows R w' = wrows R w \<and> w_locks w' = w_locks w \<and>
       (\<exists>V h vpc. V \<in> wrows R w VPCIIDInfo \<and> row_ConnectionName V = c \<and> row_NameId V = v \<and> vpc_handler env c = Inr h \<and>
          vh_GetVPC h (getDriverIID (row_IID V)) (w_cloud w) = (Inr vpc, w_cloud w') \<and>
          info = vpc\<lparr>vpc_IId := getUserIID (row_IID V), vpc_SubnetInfoList := vpc_SubnetInfoList info\<rparr> \<and>
          NameId (vpc_IId info) = v \<and>
          subnets_shown R (env_gorm env) (wrows R w SubnetIIDInfo) c v (vpc_SubnetInfoList vpc) (vpc_SubnetInfoList info)))
    (\<lambda>e w'. wrows R w' = wrows R w \<and> w_locks w' = w_locks w) w"
proof -
  have n: "NameId (getUserIID (row_IID r)) = row_NameId r" for r by (simp add: getUserIID_def row_IID_def)
  show ?thesis
    unfolding GetVPC_def Let_def n
    apply (intro wp_walk wp_onCloudI get_iid_info_wp[OF assms(1)] user_subnets_shown_wp[OF assms(1)])
    apply (simp_all add: EmptyCheckAndTrim_Inr reads_def assms(2) n wrows_def)
    subgoal for h V w1 vpc cloud ss w2 by (intro exI[of _ V] conjI exI[of _ vpc]) (simp_all add: row_IID_def)
    done
qed

section \<open>Concrete runs\<close>

definition ex_subnet :: "string \<Rightarrow> SubnetInfo" where
  "ex_subnet n = \<lparr>subnet_IId = \<lparr>NameId = n, SystemId = []\<rparr>, subnet_Zone = [], subnet_IPv4_CIDR = ''10.0.0.0/24'',
     subnet_TagList = [], subnet_KeyValueList = []\<rparr>"

definition ex_vpc_req :: "string \<Rightarrow> string list \<Rightarrow> VPCReqInfo" where
  "ex_vpc_req n ss = \<lparr>vpcReq_IId = \<lparr>NameId = n, SystemId = []\<rparr>, vpcReq_IPv4_CIDR = ''10.0.0.0/16'',
     vpcReq_SubnetInfoList = map ex_subnet ss, vpcReq_TagList = []\<rparr>"

text \<open>A VPC \<open>v\<close> with the subnets \<open>s1\<close> and \<open>s2\<close>, under the user's names or under generated ones.\<close>

definition ex_create_vpc :: "string \<Rightarrow> bool list \<Rightarrow> VPCInfo option go_result \<times> (list_db, mock) world" where
  "ex_create_vpc mode fs = CreateVPC (ex_env []) ''mock'' RT_VPC (ex_vpc_req ''v'' [''s1'', ''s2'']) mode (ex_world fs)"

definition ex_vpcs :: "(list_db, mock) world" where
  "ex_vpcs = snd (ex_create_vpc ''OFF'' [])"

definition ex_subnet_row :: "string \<Rightarrow> iid_row" where
  "ex_subnet_row n = ZoneLevelVPCDependentIIDInfo ''mock'' [] n (n @ '':'' @ n) ''v''"

definition ex_info :: VPCInfo where
  "ex_info = \<lparr>vpc_IId = \<lparr>NameId = ''v'', SystemId = ''v''\<rparr>, vpc_IPv4_CIDR = ''10.0.0.0/16'',
     vpc_SubnetInfoList = map (\<lambda>n. (ex_subnet n)\<lparr>subnet_IId := \<lparr>NameId = n, SystemId = n\<rparr>\<rparr>) [''s1'', ''s2''],
     vpc_TagList = [], vpc_KeyValueList = []\<rparr>"

lemma ex_vpc_runs:
  "fst (ex_create_vpc ''OFF'' []) = Inr (Some ex_info)"
  "fst (ex_create_vpc ''OFF'' [True]) = Inl ''disk I/O error''"
  "fst (GetVPC (ex_env []) ''mock'' RT_VPC ''v'' ex_vpcs) = Inr ex_info"
  "fst (AddSubnet (ex_env []) ''mock'' RT_SUBNET ''v'' (ex_subnet ''s3'') ''OFF'' ex_vpcs) =
     Inr (ex_info\<lparr>vpc_SubnetInfoList := map (\<lambda>n. (ex_subnet n)\<lparr>subnet_IId := \<lparr>NameId = n, SystemId = n\<rparr>\<rparr>) [''s1'', ''s2'', ''s3'']\<rparr>)"
  "fst (RemoveSubnet (ex_env []) ''mock'' ''v'' ''s1'' [] ex_vpcs) = Inr True"
  "fst (DeleteVPC (ex_env []) ''mock'' RT_VPC ''v'' [] ex_vpcs) = Inr True"
  by code_simp+

lemma ex_vpc_rows:
  "db_rows (st_db (w_store ex_vpcs)) VPCIIDInfo = [FirstIIDInfo ''mock'' ''v'' ''v:v'']"
  "db_rows (st_db (w_store ex_vpcs)) SubnetIIDInfo = [ex_subnet_row ''s1'', ex_subnet_row ''s2'']"
  by code_simp+

lemma ex_vpc_wrows:
  "wrows list_rows ex_vpcs VPCIIDInfo = {FirstIIDInfo ''mock'' ''v'' ''v:v''}"
  "wrows list_rows ex_vpcs SubnetIIDInfo = {ex_subnet_row ''s1'', ex_subnet_row ''s2''}"
  "wrows list_rows (ex_world fs) = (\<lambda>_. {})"
  by (auto simp: wrows_def list_rows_def ex_vpc_rows ex_world_def)

text \<open>
  When the row of the second subnet cannot be stored, \<open>CreateVPC\<close> deletes the VPC at the CSP and its row, and
  returns neither a VPC nor an error; with generated names the row of the first subnet stays behind, because the
  rollback deletes the subnets of the driver's VPC name.
\<close>

theorem CreateVPC_lost_error:
  "let (res, w) = CreateVPC (ex_env []) ''mock'' RT_VPC (ex_vpc_req ''v'' [''s1'', ''s2'']) [] (ex_world [False, False, True])
   in res = Inr None \<and> vpcInfoMap (w_cloud w) ''m'' = Some [] \<and> db_rows (st_db (w_store w)) VPCIIDInfo = [] \<and>
      map row_OwnerVPCName (db_rows (st_db (w_store w)) SubnetIIDInfo) = [''v'']"
  by code_simp

text \<open>
  When the rows of the subnets cannot be deleted, an unforced \<open>DeleteVPC\<close> answers false without an error although
  the VPC is gone at the CSP and its row too; the rows of the subnets stay.
\<close>

theorem DeleteVPC_lost_error:
  "let (res, w) = DeleteVPC (ex_env []) ''mock'' RT_VPC ''v'' [] (snd (ex_create_vpc ''OFF'' [False, False, False, False, True]))
   in res = Inr False \<and> vpcInfoMap (w_cloud w) ''m'' = Some [] \<and> db_rows (st_db (w_store w)) VPCIIDInfo = [] \<and>
      db_rows (st_db (w_store w)) SubnetIIDInfo = [ex_subnet_row ''s1'', ex_subnet_row ''s2'']"
  by code_simp


lemma ex_vpc_trim [simp]: "TrimSpace ''mock'' = ''mock''" "TrimSpace ''v'' = ''v''" "TrimSpace ''s1'' = ''s1''"
  by code_simp+

lemma ex_vpc_names [simp]:
  "NameId (vpcReq_IId (ex_vpc_req n ss)) = n" "(NameId \<circ> subnet_IId) ` set (vpcReq_SubnetInfoList (ex_vpc_req n ss)) = set ss"
  "NameId (subnet_IId (ex_subnet n)) = n"
  by (simp_all add: ex_vpc_req_def ex_subnet_def image_image comp_def)

lemma CreateVPC_rows_witness:
  "(\<exists>rs. subnet_rows ''mock'' ''v'' {''s1'', ''s2''} rs \<and> fold upsert rs {} = {ex_subnet_row ''s1'', ex_subnet_row ''s2''}) \<and>
   vpc_failed ''mock'' ''v'' {''s1'', ''s2''} (\<lambda>_. {}) (wrows list_rows (snd (ex_create_vpc ''OFF'' [True])))"
proof -
  note ok = wp_ok_run[OF CreateVPC_rows[OF ex_gorm_ok] ex_vpc_runs(1)[unfolded ex_create_vpc_def], folded ex_create_vpc_def ex_vpcs_def]
  note err = wp_err_run[OF CreateVPC_rows[OF ex_gorm_ok] ex_vpc_runs(2)[unfolded ex_create_vpc_def], folded ex_create_vpc_def]
  from ok obtain rs sys where rs: "subnet_rows ''mock'' ''v'' {''s1'', ''s2''} rs"
    and "wrows list_rows ex_vpcs = (\<lambda>_. {})(VPCIIDInfo := {FirstIIDInfo ''mock'' ''v'' sys}, SubnetIIDInfo := fold upsert rs {})"
    unfolding ex_vpc_names ex_vpc_trim vpc_created_def by (simp add: ex_vpc_wrows(3)) blast
  then have "fold upsert rs {} = {ex_subnet_row ''s1'', ex_subnet_row ''s2''}"
    using ex_vpc_wrows(2) by simp
  with rs err show ?thesis unfolding ex_vpc_names ex_vpc_trim by (auto simp: ex_vpc_wrows(3))
qed

lemma GetVPC_shows_own_subnets_witness:
  "\<exists>ss. subnets_shown list_rows (env_gorm (ex_env [])) {ex_subnet_row ''s1'', ex_subnet_row ''s2''} ''mock'' ''v'' ss
     (vpc_SubnetInfoList ex_info)"
  using wp_ok_run[OF GetVPC_shows_own_subnets[OF ex_gorm_ok ex_perm] ex_vpc_runs(3)]
  unfolding ex_vpc_wrows ex_vpc_trim Let_def by blast

lemma AddSubnet_rows_witness:
  "no_subnet ''mock'' ''v'' ''s3'' {ex_subnet_row ''s1'', ex_subnet_row ''s2''}"
  using wp_ok_run[OF AddSubnet_rows[OF ex_gorm_ok ex_perm] ex_vpc_runs(4)]
  unfolding Let_def ex_vpc_trim ex_vpc_names ex_vpc_wrows by blast

lemma mock_subnet_no_error: "vh_RemoveSubnet (MockVPCHandler m) i s c = ((True, err), c') \<Longrightarrow> err = None"
  by (auto simp: MockVPCHandler_def MockRemoveSubnet_def split: option.splits if_splits)

lemma mock_vpc_no_error: "vh_DeleteVPC (MockVPCHandler m) i c = ((True, err), c') \<Longrightarrow> err = None"
  by (auto simp: MockVPCHandler_def MockDeleteVPC_def split: option.splits if_splits)

lemma ex_vpc_handler: "vpc_handler (ex_env p) ''mock'' = Inr (MockVPCHandler ''m'')"
  "zone_vpc_handler (ex_env p) ''mock'' z = Inr (MockVPCHandler ''m'')"
  by (simp_all add: vpc_handler_def zone_vpc_handler_def ex_env_def ex_get_def ex_connection_def)

lemma RemoveSubnet_rows_witness:
  "wrows list_rows (snd (RemoveSubnet (ex_env []) ''mock'' ''v'' ''s1'' [] ex_vpcs)) SubnetIIDInfo = {ex_subnet_row ''s2''}"
proof -
  have r: "{x \<in> {ex_subnet_row ''s1'', ex_subnet_row ''s2''}.
      \<not> (row_ConnectionName x = ''mock'' \<and> row_NameId x = ''s1'' \<and> row_OwnerVPCName x = ''v'')} = {ex_subnet_row ''s2''}"
    by (auto simp: ex_subnet_row_def)
  show ?thesis
    using wp_ok_run[OF RemoveSubnet_rows[OF ex_gorm_ok ex_perm] ex_vpc_runs(5)]
    unfolding Let_def ex_vpc_trim ex_vpc_wrows ex_vpc_handler r
    by (auto simp: deletes_def forced_def dest!: mock_subnet_no_error split: if_splits)
qed

lemma DeleteVPC_rows_witness:
  "wrows list_rows (snd (DeleteVPC (ex_env []) ''mock'' RT_VPC ''v'' [] ex_vpcs)) SubnetIIDInfo = {} \<and>
   wrows list_rows (snd (DeleteVPC (ex_env []) ''mock'' RT_VPC ''v'' [] ex_vpcs)) VPCIIDInfo = {}"
proof -
  have r: "without_owner ''mock'' ''v'' {ex_subnet_row ''s1'', ex_subnet_row ''s2''} = {}"
    "without_vpc ''mock'' ''v'' {FirstIIDInfo ''mock'' ''v'' ''v:v''} = {}"
    by (auto simp: ex_subnet_row_def without_owner_def without_vpc_def FirstIIDInfo_def)
  show ?thesis
    using wp_ok_run[OF DeleteVPC_rows[OF ex_gorm_ok ex_perm] ex_vpc_runs(6)]
    unfolding Let_def ex_vpc_trim ex_vpc_wrows ex_vpc_handler
    by (auto simp: deletes_def forced_def vpc_deleted_def del_subnets_def del_vpc_def ex_vpc_wrows r
        dest!: mock_vpc_no_error split: if_splits)
qed

end
