(* ===== verification/DiskManager.thy ===== *)
theory DiskManager
  imports Example
begin

text \<open>
  The disk manager, \<open>common-runtime/DiskManager.go\<close>. A disk lives in a zone, which its row keeps and every later
  operation uses to get its connection; a disk that is attached shows the user's name of the VM that owns it.
\<close>

section \<open>Operations\<close>

definition disk_handler :: "('d, 'c) env \<Rightarrow> string \<Rightarrow> 'c DiskHandler go_result" where
  "disk_handler env connectionName =
     (case ccm_GetCloudConnection env connectionName of
        Inl err \<Rightarrow> Inl err
      | Inr cldConn \<Rightarrow> CreateDiskHandler cldConn)"

definition zone_disk_handler :: "('d, 'c) env \<Rightarrow> string \<Rightarrow> string \<Rightarrow> 'c DiskHandler go_result" where
  "zone_disk_handler env connectionName zoneId =
     (case ccm_GetZoneLevelCloudConnection env connectionName zoneId of
        Inl err \<Rightarrow> Inl err
      | Inr cldConn \<Rightarrow> CreateDiskHandler cldConn)"

definition RegisterDisk :: "('d, 'c) env \<Rightarrow> string \<Rightarrow> string \<Rightarrow> IID \<Rightarrow> (('d, 'c) world, DiskInfo) prog" where
  "RegisterDisk env connectionName zoneId userIID =
     bindP (lift_result (EmptyCheckAndTrim ''connectionName'' connectionName)) (\<lambda>connectionName.
     bindP (validated (ValidateStruct (reflect_IID userIID) [])) (\<lambda>_.
     bindP (lift_result (ccm_GetRegionNameByConnectionName env connectionName)) (\<lambda>(_, defaultZoneId).
     bindP (check_zone env connectionName defaultZoneId zoneId) (\<lambda>_.
     withLock diskSPLock Wr connectionName (NameId userIID)
       (bindP (has_name env DiskIIDInfo connectionName (NameId userIID)) (\<lambda>bool_ret.
        if bool_ret then throw (already_exists RT_DISK (NameId userIID) connectionName)
        else
        bindP (if zoneId = [] then lift_result (map_sum id snd (ccm_GetRegionNameByConnectionName env connectionName)) else ret zoneId) (\<lambda>zoneId.
        bindP (lift_result (zone_disk_handler env connectionName zoneId)) (\<lambda>handler.
        bindP (onCloud (dh_GetDisk handler \<lparr>NameId = getMSShortID (SystemId userIID), SystemId = SystemId userIID\<rparr>)) (\<lambda>getInfo.
        let systemId = getMSShortID (SystemId (disk_IId getInfo));
            spiderIId = \<lparr>NameId = NameId userIID, SystemId = systemId @ '':'' @ SystemId (disk_IId getInfo)\<rparr>
        in
        bindP (onStore (Insert (env_gorm env) DiskIIDInfo (ZoneLevelIIDInfo connectionName zoneId (NameId spiderIId) (SystemId spiderIId)))) (\<lambda>_.
        ret ((if disk_Zone getInfo = [] then getInfo\<lparr>disk_Zone := zoneId\<rparr> else getInfo)\<lparr>disk_IId := userIID\<rparr>)))))))))))"

definition CreateDisk :: "('d, 'c) env \<Rightarrow> string \<Rightarrow> string \<Rightarrow> DiskInfo \<Rightarrow> string \<Rightarrow> (('d, 'c) world, DiskInfo) prog" where
  "CreateDisk env connectionName rsType reqInfo IDTransformMode =
     bindP (lift_result (EmptyCheckAndTrim ''connectionName'' connectionName)) (\<lambda>connectionName.
     bindP (lift_result (ccm_GetRegionNameByConnectionName env connectionName)) (\<lambda>(_, defaultZoneId).
     bindP (check_zone env connectionName defaultZoneId (disk_Zone reqInfo)) (\<lambda>_.
     bindP (lift_result (disk_handler env connectionName)) (\<lambda>handler.
     let reqNameId = NameId (disk_IId reqInfo) in
     withLock diskSPLock Wr connectionName reqNameId
       (bindP (has_name env DiskIIDInfo connectionName reqNameId) (\<lambda>bool_ret.
        if bool_ret then throw (already_exists RT_DISK reqNameId connectionName)
        else
        bindP (make_spUUID env IDTransformMode connectionName rsType reqNameId) (\<lambda>spUUID.
        bindP (onCloud (dh_CreateDisk handler (reqInfo\<lparr>disk_IId := \<lparr>NameId = spUUID, SystemId = []\<rparr>,
                 disk_DiskType := (if ToLower (disk_DiskType reqInfo) = ''default'' then [] else disk_DiskType reqInfo)\<rparr>))) (\<lambda>info.
        let spiderIId = \<lparr>NameId = reqNameId, SystemId = NameId (disk_IId info) @ '':'' @ SystemId (disk_IId info)\<rparr>
        in
        catchP (onStore (Insert (env_gorm env) DiskIIDInfo (ZoneLevelIIDInfo connectionName (disk_Zone reqInfo) (NameId spiderIId) (SystemId spiderIId))))
          (\<lambda>err.
             bindP (onCloudDel (dh_DeleteDisk handler (disk_IId info))) (\<lambda>(_, err2).
             case err2 of Some e2 \<Rightarrow> throw (err @ '', '' @ e2) | None \<Rightarrow> throw err))
          (\<lambda>_. ret (info\<lparr>disk_IId := getUserIID spiderIId\<rparr>))))))))))"

definition with_owner_name :: "('d, 'c) env \<Rightarrow> string \<Rightarrow> DiskInfo \<Rightarrow> (('d, 'c) world, DiskInfo) prog" where
  "with_owner_name env connectionName info =
     (if disk_Status info = DiskAttached
      then bindP (owner_vm_row env connectionName (SystemId (disk_OwnerVM info))) (\<lambda>vmIIdInfo.
           ret (info\<lparr>disk_OwnerVM := (disk_OwnerVM info)\<lparr>NameId := row_NameId vmIIdInfo\<rparr>\<rparr>))
      else ret info)"

text \<open>The loop of \<open>ListDisk\<close>; \<open>infoList2\<close> is what it has appended so far.\<close>

fun ListDisk_loop :: "('d, 'c) env \<Rightarrow> string \<Rightarrow> iid_row list \<Rightarrow> DiskInfo list \<Rightarrow> (('d, 'c) world, DiskInfo list) prog" where
  "ListDisk_loop env connectionName [] infoList2 = ret infoList2"
| "ListDisk_loop env connectionName (iidInfo # rest) infoList2 =
     bindP (withLock diskSPLock Rd connectionName (row_NameId iidInfo)
       (bindP (lift_result (zone_disk_handler env connectionName (row_ZoneId iidInfo))) (\<lambda>handler.
        catchP (onCloud (dh_GetDisk handler (getDriverIID (row_IID iidInfo))))
          (\<lambda>err. if checkNotFoundError err then ret None else throw err)
          (\<lambda>info. ret (Some info))))) (\<lambda>found.
     case found of
       None \<Rightarrow> ListDisk_loop env connectionName rest (infoList2 @ [DiskInfo_of (row_IID iidInfo)])
     | Some info \<Rightarrow>
         bindP (with_owner_name env connectionName (info\<lparr>disk_IId := getUserIID (row_IID iidInfo)\<rparr>)) (\<lambda>info.
         ListDisk_loop env connectionName rest (infoList2 @ [info])))"

definition ListDisk :: "('d, 'c) env \<Rightarrow> string \<Rightarrow> (('d, 'c) world, DiskInfo list) prog" where
  "ListDisk env connectionName =
     bindP (lift_result (EmptyCheckAndTrim ''connectionName'' connectionName)) (\<lambda>connectionName.
     bindP (list_iid_infos env DiskIIDInfo connectionName) (\<lambda>iidInfoList.
     if iidInfoList = [] then ret []
     else ListDisk_loop env connectionName iidInfoList []))"

definition GetDisk :: "('d, 'c) env \<Rightarrow> string \<Rightarrow> string \<Rightarrow> (('d, 'c) world, DiskInfo) prog" where
  "GetDisk env connectionName nameID =
     bindP (lift_result (EmptyCheckAndTrim ''connectionName'' connectionName)) (\<lambda>connectionName.
     bindP (lift_result (EmptyCheckAndTrim ''nameID'' nameID)) (\<lambda>nameID.
     withLock diskSPLock Rd connectionName nameID
       (bindP (get_iid_info env DiskIIDInfo connectionName nameID) (\<lambda>iidInfo.
        bindP (lift_result (zone_disk_handler env connectionName (row_ZoneId iidInfo))) (\<lambda>handler.
        bindP (onCloud (dh_GetDisk handler (getDriverIID (row_IID iidInfo)))) (\<lambda>info.
        with_owner_name env connectionName (info\<lparr>disk_IId := getUserIID (row_IID iidInfo)\<rparr>)))))))"

definition ChangeDiskSize :: "('d, 'c) env \<Rightarrow> string \<Rightarrow> string \<Rightarrow> string \<Rightarrow> (('d, 'c) world, bool) prog" where
  "ChangeDiskSize env connectionName diskName size' =
     bindP (lift_result (EmptyCheckAndTrim ''connectionName'' connectionName)) (\<lambda>connectionName.
     bindP (lift_result (EmptyCheckAndTrim ''diskName'' diskName)) (\<lambda>diskName.
     bindP (lift_result (EmptyCheckAndTrim ''size'' size')) (\<lambda>size'.
     withLock diskSPLock Wr connectionName diskName
       (bindP (get_iid_info env DiskIIDInfo connectionName diskName) (\<lambda>diskIIDInfo.
        bindP (lift_result (zone_disk_handler env connectionName (row_ZoneId diskIIDInfo))) (\<lambda>handler.
        onCloud (dh_ChangeDiskSize handler (getDriverIID (row_IID diskIIDInfo)) size')))))))"

definition AttachDisk :: "('d, 'c) env \<Rightarrow> string \<Rightarrow> string \<Rightarrow> string \<Rightarrow> (('d, 'c) world, DiskInfo) prog" where
  "AttachDisk env connectionName diskName ownerVMName =
     bindP (lift_result (EmptyCheckAndTrim ''connectionName'' connectionName)) (\<lambda>connectionName.
     bindP (lift_result (EmptyCheckAndTrim ''diskName'' diskName)) (\<lambda>diskName.
     bindP (lift_result (EmptyCheckAndTrim ''ownerVMName'' ownerVMName)) (\<lambda>ownerVMName.
     withLock diskSPLock Wr connectionName diskName
       (bindP (get_iid_info env DiskIIDInfo connectionName diskName) (\<lambda>diskIIDInfo.
        bindP (lift_result (zone_disk_handler env connectionName (row_ZoneId diskIIDInfo))) (\<lambda>handler.
        bindP (get_iid_info env VMIIDInfo connectionName ownerVMName) (\<lambda>vmIIDInfo.
        bindP (onCloud (dh_AttachDisk handler (getDriverIID (row_IID diskIIDInfo)) (getDriverIID (row_IID vmIIDInfo)))) (\<lambda>info.
        ret (info\<lparr>disk_IId := getUserIID (row_IID diskIIDInfo), disk_OwnerVM := getUserIID (row_IID vmIIDInfo)\<rparr>)))))))))"

text \<open>The name of the VM is used as it is given.\<close>

definition DetachDisk :: "('d, 'c) env \<Rightarrow> string \<Rightarrow> string \<Rightarrow> string \<Rightarrow> (('d, 'c) world, bool) prog" where
  "DetachDisk env connectionName diskName ownerVMName =
     bindP (lift_result (EmptyCheckAndTrim ''connectionName'' connectionName)) (\<lambda>connectionName.
     bindP (lift_result (EmptyCheckAndTrim ''diskName'' diskName)) (\<lambda>diskName.
     withLock diskSPLock Wr connectionName diskName
       (bindP (get_iid_info env DiskIIDInfo connectionName diskName) (\<lambda>diskIIDInfo.
        bindP (lift_result (zone_disk_handler env connectionName (row_ZoneId diskIIDInfo))) (\<lambda>handler.
        bindP (get_iid_info env VMIIDInfo connectionName ownerVMName) (\<lambda>vmIIDInfo.
        onCloud (dh_DetachDisk handler (getDriverIID (row_IID diskIIDInfo)) (getDriverIID (row_IID vmIIDInfo)))))))))"

definition DeleteDisk :: "('d, 'c) env \<Rightarrow> string \<Rightarrow> string \<Rightarrow> string \<Rightarrow> (('d, 'c) world, bool) prog" where
  "DeleteDisk env connectionName nameID force =
     bindP (lift_result (EmptyCheckAndTrim ''connectionName'' connectionName)) (\<lambda>connectionName.
     bindP (lift_result (EmptyCheckAndTrim ''nameID'' nameID)) (\<lambda>nameID.
     withLock diskSPLock Wr connectionName nameID
       (bindP (get_iid_info env DiskIIDInfo connectionName nameID) (\<lambda>iidInfo.
        bindP (lift_result (zone_disk_handler env connectionName (row_ZoneId iidInfo))) (\<lambda>handler.
        bindP (onCloudDel (dh_DeleteDisk handler (getDriverIID (row_IID iidInfo)))) (\<lambda>(result, err).
        delete_tail force result err
          (onStore (DeleteByConditions (env_gorm env) DiskIIDInfo CONNECTION_NAME_COLUMN (row_ConnectionName iidInfo) NAME_ID_COLUMN nameID))))))))"

definition CountAllDisks :: "('d, 'c) env \<Rightarrow> (('d, 'c) world, nat) prog" where
  "CountAllDisks env = onStore (CountAllNameIDs (env_gorm env) DiskIIDInfo)"

definition CountDisksByConnection :: "('d, 'c) env \<Rightarrow> string \<Rightarrow> (('d, 'c) world, nat) prog" where
  "CountDisksByConnection env connectionName = onStore (CountNameIDsByConnection (env_gorm env) DiskIIDInfo connectionName)"

section \<open>Properties over any driver\<close>

text \<open>
  A successful \<open>CreateDisk\<close> adds exactly one row, of a name that was free, in the zone that was asked for, with
  the identifiers it returns, and a zone other than the connection's own only where the driver supports zones; a
  failed one leaves the rows as they were, and every path gives back its locks.
\<close>

theorem CreateDisk_rows:
  fixes env :: "('d, 'c) env" and w :: "('d, 'c) world"
  assumes "gorm_ok (env_gorm env) R"
  shows "wp (CreateDisk env conn rsType req mode)
    (\<lambda>info w'. let n = NameId (disk_IId req); c = TrimSpace conn in
       \<not> name_taken env (wrows R w DiskIIDInfo) c n \<and> w_locks w' = w_locks w \<and>
       (disk_Zone req = [] \<or> checkCapability env c ZONE_BASED_CONTROL = Inr () \<or>
          (\<exists>region. ccm_GetRegionNameByConnectionName env c = Inr (region, disk_Zone req))) \<and>
       (\<exists>name cspId. wrows R w' = (wrows R w)(DiskIIDInfo :=
            insert (ZoneLevelIIDInfo c (disk_Zone req) n (spiderSystemId name cspId)) (wrows R w DiskIIDInfo)) \<and>
          disk_IId info = getUserIID \<lparr>NameId = n, SystemId = spiderSystemId name cspId\<rparr>))
    (\<lambda>e w'. wrows R w' = wrows R w \<and> w_locks w' = w_locks w) w"
  unfolding CreateDisk_def Let_def spiderSystemId_def[symmetric] check_zone_def
  by (intro wp_walk wp_onCloudDelI has_name_wp'[OF assms] make_spUUID_wp[where R = R] cloud_wp row_insert_wp[OF assms])
    (auto simp: EmptyCheckAndTrim_Inr reads_def upsert_new ZoneLevelIIDInfo_def)
lemma RegisterDisk_rows:
  fixes env :: "('d, 'c) env" and w :: "('d, 'c) world"
  assumes "gorm_ok (env_gorm env) R"
  shows "wp (RegisterDisk env conn zone userIID)
    (\<lambda>info w'. let c = TrimSpace conn in
       \<not> name_taken env (wrows R w DiskIIDInfo) c (NameId userIID) \<and> w_locks w' = w_locks w \<and> disk_IId info = userIID \<and>
       (\<exists>zone' cspId. (zone \<noteq> [] \<longrightarrow> zone' = zone) \<and> wrows R w' = (wrows R w)(DiskIIDInfo :=
            insert (ZoneLevelIIDInfo c zone' (NameId userIID) (spiderSystemId (getMSShortID cspId) cspId)) (wrows R w DiskIIDInfo)) \<and>
          (disk_Zone info = [] \<longrightarrow> zone' = [])))
    (\<lambda>e w'. wrows R w' = wrows R w \<and> w_locks w' = w_locks w) w"
  unfolding RegisterDisk_def Let_def spiderSystemId_def[symmetric]
  by (intro wp_walk check_zone_wpI wp_onCloudDelI has_name_wp'[OF assms] cloud_wp row_insert_wp[OF assms])
    (auto simp: EmptyCheckAndTrim_Inr reads_def upsert_new ZoneLevelIIDInfo_def)

text \<open>What a disk shows of its owner.\<close>

definition owner_shown :: "('d, 'c) env \<Rightarrow> iid_row set \<Rightarrow> string \<Rightarrow> DiskInfo \<Rightarrow> bool" where
  "owner_shown env vms conn info \<longleftrightarrow> (disk_Status info = DiskAttached \<longrightarrow> name_taken env vms conn (NameId (disk_OwnerVM info)))"

lemma with_owner_name_wp:
  fixes env :: "('d, 'c) env" and w :: "('d, 'c) world"
  assumes "gorm_ok (env_gorm env) R"
    and "\<And>info' w'. reads R env w w' \<Longrightarrow> disk_IId info' = disk_IId info \<Longrightarrow> owner_shown env (wrows R w VMIIDInfo) conn info' \<Longrightarrow> Q info' w'"
    and "\<And>e w'. reads R env w w' \<Longrightarrow> E e w'"
  shows "wp (with_owner_name env conn info) Q E w"
  unfolding with_owner_name_def
  by (intro wp_walk owner_vm_row_wp[OF assms(1)]; (rule assms(2) | rule assms(3)))
    (auto simp: owner_shown_def name_taken_def)

text \<open>
  \<open>GetDisk\<close> shows a disk that has a row, under the name it was asked for; a disk that is attached shows the name
  of a VM that has a row (in the connection, or in the permission-based mode any). Reading changes no row.
\<close>

theorem GetDisk_shows_owner:
  fixes env :: "('d, 'c) env" and w :: "('d, 'c) world"
  assumes "gorm_ok (env_gorm env) R"
  shows "wp (GetDisk env conn name)
    (\<lambda>info w'. wrows R w' = wrows R w \<and> w_locks w' = w_locks w \<and>
       name_taken env (wrows R w DiskIIDInfo) (TrimSpace conn) (TrimSpace name) \<and>
       NameId (disk_IId info) = TrimSpace name \<and> owner_shown env (wrows R w VMIIDInfo) (TrimSpace conn) info)
    (\<lambda>e w'. wrows R w' = wrows R w \<and> w_locks w' = w_locks w) w"
  unfolding GetDisk_def
  by (intro wp_walk get_iid_info_wp[OF assms] cloud_wp with_owner_name_wp[OF assms])
    (auto simp: EmptyCheckAndTrim_Inr reads_def name_taken_def getUserIID_def makeUserIID_def row_IID_def)

lemma ListDisk_loop_wp:
  fixes env :: "('d, 'c) env" and w :: "('d, 'c) world"
  assumes ok: "gorm_ok (env_gorm env) R"
    and "\<And>infos w'. wrows R w' = wrows R w \<Longrightarrow> w_locks w' = w_locks w \<Longrightarrow>
      map (NameId \<circ> disk_IId) infos = map (NameId \<circ> disk_IId) acc @ map row_NameId rs \<Longrightarrow>
      (\<forall>i \<in> set infos - set acc. owner_shown env (wrows R w VMIIDInfo) conn i) \<Longrightarrow> Q infos w'"
    and "\<And>e w'. wrows R w' = wrows R w \<Longrightarrow> w_locks w' = w_locks w \<Longrightarrow> E e w'"
  shows "wp (ListDisk_loop env conn rs acc) Q E w"
  using assms(2,3)
proof (induction rs arbitrary: acc w)
  case Nil
  then show ?case by (auto intro!: wp_retI)
next
  case (Cons r rs)
  show ?case
    unfolding ListDisk_loop.simps Let_def
    by (intro wp_walk cloud_wp with_owner_name_wp[OF ok] Cons.IH)
      (auto intro!: Cons.prems simp: reads_def row_IID_def DiskInfo_of_def owner_shown_def getUserIID_def makeUserIID_def)
qed

lemma ListDisk_complete:
  fixes env :: "('d, 'c) env" and w :: "('d, 'c) world"
  assumes "gorm_ok (env_gorm env) R" and "\<not> permission_mode env"
  shows "wp (ListDisk env conn)
    (\<lambda>infos w'. wrows R w' = wrows R w \<and> w_locks w' = w_locks w \<and>
       (\<exists>rs. distinct rs \<and> set rs = {r \<in> wrows R w DiskIIDInfo. row_ConnectionName r = TrimSpace conn} \<and>
          map (NameId \<circ> disk_IId) infos = map row_NameId rs) \<and>
       (\<forall>i \<in> set infos. owner_shown env (wrows R w VMIIDInfo) (TrimSpace conn) i))
    (\<lambda>e w'. wrows R w' = wrows R w \<and> w_locks w' = w_locks w) w"
  unfolding ListDisk_def
  by (intro wp_walk list_iid_infos_wp[OF assms(1)] ListDisk_loop_wp[OF assms(1)])
    (auto simp: EmptyCheckAndTrim_Inr reads_def assms(2))
text \<open>
  \<open>DeleteDisk\<close> asks the driver of the zone in the disk's row, and drops exactly the row of the connection and name it
  was asked for: only after the driver confirmed the deletion, or said that it does not know the disk, or when the
  caller forces it; the result is the driver's. In every other case no row changes. Only a forced deletion ignores a
  failure of the meta database.
\<close>

theorem DeleteDisk_rows:
  fixes env :: "('d, 'c) env" and w :: "('d, 'c) world"
  assumes "gorm_ok (env_gorm env) R" and "\<not> permission_mode env"
  shows "wp (DeleteDisk env conn name force)
    (\<lambda>res w'. let c = TrimSpace conn; n = TrimSpace name in
       w_locks w' = w_locks w \<and>
       (\<exists>r h err. r \<in> wrows R w DiskIIDInfo \<and> row_ConnectionName r = c \<and> row_NameId r = n \<and>
          zone_disk_handler env c (row_ZoneId r) = Inr h \<and>
          dh_DeleteDisk h (getDriverIID (row_IID r)) (w_cloud w) = ((res, err), w_cloud w') \<and>
          (if deletes force res err
           then wrows R w' = (wrows R w)(DiskIIDInfo :=
                  {x \<in> wrows R w DiskIIDInfo. \<not> (row_ConnectionName x = c \<and> row_NameId x = n)}) \<or>
                (forced force err \<and> wrows R w' = wrows R w)
           else wrows R w' = wrows R w \<and> \<not> res \<and> err = None)))
    (\<lambda>e w'. wrows R w' = wrows R w \<and> w_locks w' = w_locks w) w"
  unfolding DeleteDisk_def Let_def
  by (intro wp_rules get_iid_info_wp[OF assms(1)] delete_tail_wp delete_by_wp[OF assms(1)])
    (auto simp: EmptyCheckAndTrim_Inr reads_def assms(2))

text \<open>The operations that change the cloud alone.\<close>

lemma ChangeDiskSize_rows:
  fixes env :: "('d, 'c) env" and w :: "('d, 'c) world"
  assumes "gorm_ok (env_gorm env) R"
  shows "wp (ChangeDiskSize env conn name size')
    (\<lambda>_ w'. wrows R w' = wrows R w \<and> w_locks w' = w_locks w \<and> name_taken env (wrows R w DiskIIDInfo) (TrimSpace conn) (TrimSpace name))
    (\<lambda>e w'. wrows R w' = wrows R w \<and> w_locks w' = w_locks w) w"
  unfolding ChangeDiskSize_def
  by (intro wp_walk get_iid_info_wp[OF assms] cloud_wp) (auto simp: EmptyCheckAndTrim_Inr reads_def name_taken_def)

lemma AttachDisk_rows:
  fixes env :: "('d, 'c) env" and w :: "('d, 'c) world"
  assumes "gorm_ok (env_gorm env) R"
  shows "wp (AttachDisk env conn name vm)
    (\<lambda>info w'. wrows R w' = wrows R w \<and> w_locks w' = w_locks w \<and>
       NameId (disk_IId info) = TrimSpace name \<and> NameId (disk_OwnerVM info) = TrimSpace vm \<and>
       name_taken env (wrows R w DiskIIDInfo) (TrimSpace conn) (TrimSpace name) \<and>
       name_taken env (wrows R w VMIIDInfo) (TrimSpace conn) (TrimSpace vm))
    (\<lambda>e w'. wrows R w' = wrows R w \<and> w_locks w' = w_locks w) w"
  unfolding AttachDisk_def
  by (intro wp_walk get_iid_info_wp[OF assms] cloud_wp)
    (auto simp: EmptyCheckAndTrim_Inr reads_def name_taken_def getUserIID_def makeUserIID_def row_IID_def)

lemma DetachDisk_rows:
  fixes env :: "('d, 'c) env" and w :: "('d, 'c) world"
  assumes "gorm_ok (env_gorm env) R"
  shows "wp (DetachDisk env conn name vm)
    (\<lambda>_ w'. wrows R w' = wrows R w \<and> w_locks w' = w_locks w \<and>
       name_taken env (wrows R w DiskIIDInfo) (TrimSpace conn) (TrimSpace name) \<and> name_taken env (wrows R w VMIIDInfo) (TrimSpace conn) vm)
    (\<lambda>e w'. wrows R w' = wrows R w \<and> w_locks w' = w_locks w) w"
  unfolding DetachDisk_def
  by (intro wp_walk get_iid_info_wp[OF assms] cloud_wp) (auto simp: EmptyCheckAndTrim_Inr reads_def name_taken_def)

section \<open>Concrete runs\<close>

text \<open>A connection with two VMs, whose names are the driver's too.\<close>

definition ex_vm_row :: "string \<Rightarrow> iid_row" where
  "ex_vm_row n = FirstIIDInfo ''mock'' n (n @ '':'' @ n)"

definition ex_vms :: "bool list \<Rightarrow> (list_db, mock) world" where
  "ex_vms fs = (ex_world fs)\<lparr>w_store := \<lparr>dbConfigErr = None, st_open = None,
     st_db = \<lparr>db_rows = (\<lambda>_. [])(VMIIDInfo := [ex_vm_row ''a-vm1'', ex_vm_row ''vm1'']), db_fails = fs\<rparr>\<rparr>\<rparr>"

definition ex_disk_req :: DiskInfo where
  "ex_disk_req = (DiskInfo_of \<lparr>NameId = ''disk-1'', SystemId = []\<rparr>)\<lparr>disk_Zone := ''zone-b'', disk_DiskType := ''Default''\<rparr>"

definition ex_disk :: DiskInfo where
  "ex_disk = \<lparr>disk_IId = \<lparr>NameId = ''disk-1'', SystemId = ''disk-1''\<rparr>, disk_Zone = [], disk_DiskType = ''SSD'', disk_DiskSize = ''512'',
     disk_Status = DiskAvailable, disk_OwnerVM = IID_zero, disk_CreatedTime = 0, disk_TagList = [], disk_KeyValueList = []\<rparr>"

definition ex_disks :: "(list_db, mock) world" where
  "ex_disks = snd (CreateDisk (ex_env []) ''mock'' RT_DISK ex_disk_req ''OFF'' (ex_vms []))"

definition ex_attached :: "(list_db, mock) world" where
  "ex_attached = snd (AttachDisk (ex_env []) ''mock'' ''disk-1'' ''vm1'' ex_disks)"

lemma ex_create_disk: "fst (CreateDisk (ex_env []) ''mock'' RT_DISK ex_disk_req ''OFF'' (ex_vms [])) = Inr ex_disk"
  by code_simp

lemma ex_create_disk_fails:
  "fst (CreateDisk (ex_env []) ''mock'' RT_DISK ex_disk_req ''OFF'' (ex_vms [True])) = Inl ''disk I/O error''"
  by code_simp

lemma ex_attach_disk:
  "fst (AttachDisk (ex_env []) ''mock'' ''disk-1'' ''vm1'' ex_disks) =
     Inr (ex_disk\<lparr>disk_Status := DiskAttached, disk_OwnerVM := \<lparr>NameId = ''vm1'', SystemId = ''vm1''\<rparr>\<rparr>)"
  by code_simp

text \<open>
  The system id of the VM that owns the disk, \<open>vm1\<close>, is contained in that of another VM, \<open>a-vm1:a-vm1\<close>, whose row
  comes first: the disk that was attached to \<open>vm1\<close> is shown as attached to \<open>a-vm1\<close>.
\<close>

lemma ex_get_disk:
  "fst (GetDisk (ex_env []) ''mock'' '' disk-1'' ex_attached) =
     Inr (ex_disk\<lparr>disk_Status := DiskAttached, disk_OwnerVM := \<lparr>NameId = ''a-vm1'', SystemId = ''vm1''\<rparr>\<rparr>)"
  by code_simp

text \<open>A disk that is attached to a VM without a row can be neither read nor listed, and no other disk can be listed.\<close>

lemma ex_disk_of_unknown_vm:
  "let w = ex_attached\<lparr>w_store := (w_store ex_attached)\<lparr>st_db := (st_db (w_store ex_attached))
         \<lparr>db_rows := (db_rows (st_db (w_store ex_attached)))(VMIIDInfo := [])\<rparr>\<rparr>\<rparr>
   in fst (GetDisk (ex_env []) ''mock'' ''disk-1'' w) = Inl (''VM with SystemID containing '' @ quoted ''vm1'' @ '' does not exist in connection '' @ quoted ''mock'') \<and>
     fst (ListDisk (ex_env []) ''mock'' w) = Inl (''VM with SystemID containing '' @ quoted ''vm1'' @ '' does not exist in connection '' @ quoted ''mock'')"
  by code_simp

lemma ex_detach_disk: "fst (DetachDisk (ex_env []) ''mock'' ''disk-1'' ''vm1'' ex_attached) = Inr True"
  by code_simp

text \<open>\<open>DetachDisk\<close> does not trim the name of the VM, \<open>AttachDisk\<close> does.\<close>

lemma ex_untrimmed_vm:
  "fst (AttachDisk (ex_env []) ''mock'' ''disk-1'' '' vm1'' ex_disks) = fst (AttachDisk (ex_env []) ''mock'' ''disk-1'' ''vm1'' ex_disks) \<and>
   fst (DetachDisk (ex_env []) ''mock'' ''disk-1'' '' vm1'' ex_attached) = Inl (''VM '' @ quoted '' vm1'' @ '' does not exist in connection '' @ quoted ''mock'')"
  by code_simp

lemma ex_delete_disk: "fst (DeleteDisk (ex_env []) ''mock'' ''disk-1'' [] ex_attached) = Inr True"
  by code_simp

definition ex_disk_row :: iid_row where
  "ex_disk_row = ZoneLevelIIDInfo ''mock'' ''zone-b'' ''disk-1'' ''disk-1:disk-1''"

lemma ex_disks_rows:
  "db_rows (st_db (w_store ex_disks)) DiskIIDInfo = [ex_disk_row]" "db_rows (st_db (w_store ex_attached)) DiskIIDInfo = [ex_disk_row]"
  "db_rows (st_db (w_store ex_attached)) VMIIDInfo = [ex_vm_row ''a-vm1'', ex_vm_row ''vm1'']"
  by code_simp+

lemma ex_disks_wrows:
  "wrows list_rows ex_disks DiskIIDInfo = {ex_disk_row}" "wrows list_rows ex_attached DiskIIDInfo = {ex_disk_row}"
  "wrows list_rows ex_attached VMIIDInfo = {ex_vm_row ''a-vm1'', ex_vm_row ''vm1''}" "wrows list_rows (ex_vms fs) DiskIIDInfo = {}"
  by (simp_all add: wrows_def list_rows_def ex_disks_rows ex_vms_def)

lemma ex_disk_trim: "TrimSpace ''mock'' = ''mock''" "TrimSpace ''disk-1'' = ''disk-1''" "TrimSpace '' disk-1'' = ''disk-1''"
  by code_simp+

lemma ex_disk_name: "NameId (disk_IId ex_disk_req) = ''disk-1''" "disk_Zone ex_disk_req = ''zone-b''"
  by (simp_all add: ex_disk_req_def DiskInfo_of_def)

lemma CreateDisk_rows_witness:
  "\<exists>name cspId. wrows list_rows ex_disks DiskIIDInfo = {ZoneLevelIIDInfo ''mock'' ''zone-b'' ''disk-1'' (spiderSystemId name cspId)} \<and>
     wrows list_rows (snd (CreateDisk (ex_env []) ''mock'' RT_DISK ex_disk_req ''OFF'' (ex_vms [True]))) DiskIIDInfo = {}"
proof -
  note ok = wp_ok_run[OF CreateDisk_rows[OF ex_gorm_ok] ex_create_disk, folded ex_disks_def]
  note err = wp_err_run[OF CreateDisk_rows[OF ex_gorm_ok] ex_create_disk_fails]
  obtain name cspId where r: "wrows list_rows ex_disks = (wrows list_rows (ex_vms []))(DiskIIDInfo :=
      insert (ZoneLevelIIDInfo ''mock'' ''zone-b'' ''disk-1'' (spiderSystemId name cspId)) (wrows list_rows (ex_vms []) DiskIIDInfo))"
    using ok unfolding Let_def ex_disk_trim ex_disk_name by blast
  show ?thesis using err by (intro exI[of _ name] exI[of _ cspId]) (simp add: r ex_disks_wrows(4))
qed

lemma GetDisk_shows_owner_witness:
  "name_taken (ex_env []) {ex_disk_row} ''mock'' ''disk-1'' \<and> name_taken (ex_env []) {ex_vm_row ''a-vm1'', ex_vm_row ''vm1''} ''mock'' ''a-vm1''"
  using wp_ok_run[OF GetDisk_shows_owner[OF ex_gorm_ok] ex_get_disk]
  unfolding ex_disks_wrows ex_disk_trim owner_shown_def by simp

lemma ex_zone_disk_handler: "zone_disk_handler (ex_env p) ''mock'' z = Inr (MockDiskHandler ''m'')"
  by (simp add: zone_disk_handler_def ex_env_def ex_get_def ex_connection_def)

lemma mock_delete_disk_no_error: "dh_DeleteDisk (MockDiskHandler m) i c = ((True, err), c') \<Longrightarrow> err = None"
  by (auto simp: MockDiskHandler_def MockDeleteDisk_def Let_def split: option.splits if_splits)

lemma DeleteDisk_rows_witness:
  "wrows list_rows (snd (DeleteDisk (ex_env []) ''mock'' ''disk-1'' [] ex_attached)) DiskIIDInfo = {}"
proof -
  have p: "\<not> permission_mode (ex_env [])" by simp
  have r: "{r \<in> {ex_disk_row}. \<not> (row_ConnectionName r = ''mock'' \<and> row_NameId r = ''disk-1'')} = {}"
    by (auto simp: ex_disk_row_def ZoneLevelIIDInfo_def)
  show ?thesis
    using wp_ok_run[OF DeleteDisk_rows[OF ex_gorm_ok p] ex_delete_disk]
    unfolding ex_disks_wrows ex_disk_trim Let_def r ex_zone_disk_handler
    by (auto simp: deletes_def forced_def split: if_splits dest!: mock_delete_disk_no_error)
qed

end
