(* ===== verification/MyImageManager.thy ===== *)
theory MyImageManager
  imports Example
begin

text \<open>
  The manager of private images, \<open>common-runtime/MyImageManager.go\<close>. An image is the snapshot of a VM: it is made in the
  zone of the VM's row, and shows the user's name of the VM.
\<close>

section \<open>Operations\<close>

definition myimage_handler :: "('d, 'c) env \<Rightarrow> string \<Rightarrow> 'c MyImageHandler go_result" where
  "myimage_handler env connectionName =
     (case ccm_GetCloudConnection env connectionName of
        Inl err \<Rightarrow> Inl err
      | Inr cldConn \<Rightarrow> CreateMyImageHandler cldConn)"

definition zone_myimage_handler :: "('d, 'c) env \<Rightarrow> string \<Rightarrow> string \<Rightarrow> 'c MyImageHandler go_result" where
  "zone_myimage_handler env connectionName zoneId =
     (case ccm_GetZoneLevelCloudConnection env connectionName zoneId of
        Inl err \<Rightarrow> Inl err
      | Inr cldConn \<Rightarrow> CreateMyImageHandler cldConn)"

definition RegisterMyImage :: "('d, 'c) env \<Rightarrow> string \<Rightarrow> IID \<Rightarrow> (('d, 'c) world, MyImageInfo) prog" where
  "RegisterMyImage env connectionName userIID =
     bindP (lift_result (EmptyCheckAndTrim ''connectionName'' connectionName)) (\<lambda>connectionName.
     bindP (validated (ValidateStruct (reflect_IID userIID) [])) (\<lambda>_.
     bindP (lift_result (myimage_handler env connectionName)) (\<lambda>handler.
     withLock myImageSPLock Wr connectionName (NameId userIID)
       (bindP (has_name env MyImageIIDInfo connectionName (NameId userIID)) (\<lambda>bool_ret.
        if bool_ret then throw (already_exists RT_MYIMAGE (NameId userIID) connectionName)
        else
        bindP (onCloud (mih_GetMyImage handler \<lparr>NameId = getMSShortID (SystemId userIID), SystemId = SystemId userIID\<rparr>)) (\<lambda>getInfo.
        let systemId = getMSShortID (SystemId (mi_IId getInfo));
            spiderIId = \<lparr>NameId = NameId userIID, SystemId = systemId @ '':'' @ SystemId (mi_IId getInfo)\<rparr>
        in
        bindP (onStore (Insert (env_gorm env) MyImageIIDInfo (FirstIIDInfo connectionName (NameId spiderIId) (SystemId spiderIId)))) (\<lambda>_.
        ret (getInfo\<lparr>mi_IId := userIID\<rparr>))))))))"

definition SnapshotVM :: "('d, 'c) env \<Rightarrow> string \<Rightarrow> string \<Rightarrow> MyImageInfo \<Rightarrow> string \<Rightarrow> (('d, 'c) world, MyImageInfo) prog" where
  "SnapshotVM env connectionName rsType reqInfo IDTransformMode =
     bindP (lift_result (EmptyCheckAndTrim ''connectionName'' connectionName)) (\<lambda>connectionName.
     let reqNameId = NameId (mi_IId reqInfo); vmName = NameId (mi_SourceVM reqInfo) in
     withLock myImageSPLock Wr connectionName reqNameId
       (bindP (has_name env MyImageIIDInfo connectionName reqNameId) (\<lambda>bool_ret.
        if bool_ret then throw (already_exists RT_MYIMAGE reqNameId connectionName)
        else
        bindP (make_spUUID env IDTransformMode connectionName rsType reqNameId) (\<lambda>spUUID.
        bindP (get_iid_info env VMIIDInfo connectionName vmName) (\<lambda>vmIIdInfo.
        bindP (lift_result (zone_myimage_handler env connectionName (row_ZoneId vmIIdInfo))) (\<lambda>handler.
        bindP (onCloud (mih_SnapshotVM handler (reqInfo\<lparr>mi_IId := \<lparr>NameId = spUUID, SystemId = []\<rparr>,
                 mi_SourceVM := \<lparr>NameId = vmName, SystemId = getDriverSystemId (row_IID vmIIdInfo)\<rparr>\<rparr>))) (\<lambda>info.
        let spiderIId = \<lparr>NameId = reqNameId, SystemId = NameId (mi_IId info) @ '':'' @ SystemId (mi_IId info)\<rparr>
        in
        catchP (onStore (Insert (env_gorm env) MyImageIIDInfo (FirstIIDInfo connectionName (NameId spiderIId) (SystemId spiderIId))))
          (\<lambda>err.
             bindP (onCloudDel (mih_DeleteMyImage handler (mi_IId info))) (\<lambda>(_, err2).
             case err2 of Some e2 \<Rightarrow> throw (err @ '', '' @ e2) | None \<Rightarrow> throw err))
          (\<lambda>_. ret (info\<lparr>mi_IId := getUserIID spiderIId, mi_SourceVM := (mi_SourceVM info)\<lparr>NameId := vmName\<rparr>\<rparr>)))))))))"

text \<open>"get Source VM's IID with VM's SystemId": an unknown VM is an error in the permission-based mode only.\<close>

definition with_source_name :: "('d, 'c) env \<Rightarrow> string \<Rightarrow> MyImageInfo \<Rightarrow> (('d, 'c) world, MyImageInfo) prog" where
  "with_source_name env connectionName info =
     catchP (owner_vm_row env connectionName (SystemId (mi_SourceVM info)))
       (\<lambda>err. if permission_mode env then throw err
              else ret (info\<lparr>mi_SourceVM := (mi_SourceVM info)\<lparr>NameId := []\<rparr>\<rparr>))
       (\<lambda>vmIIdInfo. ret (info\<lparr>mi_SourceVM := (mi_SourceVM info)\<lparr>NameId := row_NameId vmIIdInfo\<rparr>\<rparr>))"

text \<open>The loop of \<open>ListMyImage\<close>; \<open>infoList2\<close> is what it has appended so far.\<close>

fun ListMyImage_loop :: "('d, 'c) env \<Rightarrow> 'c MyImageHandler \<Rightarrow> string \<Rightarrow> iid_row list \<Rightarrow> MyImageInfo list \<Rightarrow>
    (('d, 'c) world, MyImageInfo list) prog" where
  "ListMyImage_loop env handler connectionName [] infoList2 = ret infoList2"
| "ListMyImage_loop env handler connectionName (iidInfo # rest) infoList2 =
     catchP (withLock myImageSPLock Rd connectionName (row_NameId iidInfo) (onCloud (mih_GetMyImage handler (getDriverIID (row_IID iidInfo)))))
       (\<lambda>err.
          if checkNotFoundError err
          then ListMyImage_loop env handler connectionName rest (infoList2 @ [MyImageInfo_of (row_IID iidInfo)])
          else throw err)
       (\<lambda>info.
          bindP (with_source_name env connectionName (info\<lparr>mi_IId := getUserIID (row_IID iidInfo)\<rparr>)) (\<lambda>info.
          ListMyImage_loop env handler connectionName rest (infoList2 @ [info])))"

definition ListMyImage :: "('d, 'c) env \<Rightarrow> string \<Rightarrow> (('d, 'c) world, MyImageInfo list) prog" where
  "ListMyImage env connectionName =
     bindP (lift_result (EmptyCheckAndTrim ''connectionName'' connectionName)) (\<lambda>connectionName.
     bindP (lift_result (myimage_handler env connectionName)) (\<lambda>handler.
     bindP (list_iid_infos env MyImageIIDInfo connectionName) (\<lambda>iidInfoList.
     if iidInfoList = [] then ret []
     else ListMyImage_loop env handler connectionName iidInfoList [])))"

definition GetMyImage :: "('d, 'c) env \<Rightarrow> string \<Rightarrow> string \<Rightarrow> (('d, 'c) world, MyImageInfo) prog" where
  "GetMyImage env connectionName nameID =
     bindP (lift_result (EmptyCheckAndTrim ''connectionName'' connectionName)) (\<lambda>connectionName.
     bindP (lift_result (EmptyCheckAndTrim ''nameID'' nameID)) (\<lambda>nameID.
     bindP (lift_result (myimage_handler env connectionName)) (\<lambda>handler.
     withLock myImageSPLock Rd connectionName nameID
       (bindP (get_iid_info env MyImageIIDInfo connectionName nameID) (\<lambda>iidInfo.
        bindP (onCloud (mih_GetMyImage handler (getDriverIID (row_IID iidInfo)))) (\<lambda>info.
        with_source_name env connectionName (info\<lparr>mi_IId := getUserIID (row_IID iidInfo)\<rparr>)))))))"

definition DeleteMyImage :: "('d, 'c) env \<Rightarrow> string \<Rightarrow> string \<Rightarrow> string \<Rightarrow> (('d, 'c) world, bool) prog" where
  "DeleteMyImage env connectionName nameID force =
     bindP (lift_result (EmptyCheckAndTrim ''connectionName'' connectionName)) (\<lambda>connectionName.
     bindP (lift_result (EmptyCheckAndTrim ''nameID'' nameID)) (\<lambda>nameID.
     bindP (lift_result (myimage_handler env connectionName)) (\<lambda>handler.
     withLock myImageSPLock Wr connectionName nameID
       (bindP (get_iid_info env MyImageIIDInfo connectionName nameID) (\<lambda>iidInfo.
        bindP (onCloudDel (mih_DeleteMyImage handler (getDriverIID (row_IID iidInfo)))) (\<lambda>(result, err).
        delete_tail force result err
          (onStore (DeleteByConditions (env_gorm env) MyImageIIDInfo CONNECTION_NAME_COLUMN (row_ConnectionName iidInfo)
             NAME_ID_COLUMN (row_NameId iidInfo)))))))))"

definition CountAllMyImages :: "('d, 'c) env \<Rightarrow> (('d, 'c) world, nat) prog" where
  "CountAllMyImages env = onStore (CountAllNameIDs (env_gorm env) MyImageIIDInfo)"

definition CountMyImagesByConnection :: "('d, 'c) env \<Rightarrow> string \<Rightarrow> (('d, 'c) world, nat) prog" where
  "CountMyImagesByConnection env connectionName = onStore (CountNameIDsByConnection (env_gorm env) MyImageIIDInfo connectionName)"

section \<open>Properties over any driver\<close>

text \<open>
  A successful \<open>SnapshotVM\<close> adds exactly one row, of a name that was free, with the identifiers it returns, for a
  VM that has a row; it asks the driver of that VM's zone, and gives it the VM's own identifier. A failed one
  leaves the rows as they were, and every path gives back its locks.
\<close>

theorem SnapshotVM_rows:
  fixes env :: "('d, 'c) env" and w :: "('d, 'c) world"
  assumes "gorm_ok (env_gorm env) R" and "\<not> permission_mode env"
  shows "wp (SnapshotVM env conn rsType req mode)
    (\<lambda>info w'. let n = NameId (mi_IId req); c = TrimSpace conn in
       \<not> name_taken env (wrows R w MyImageIIDInfo) c n \<and> w_locks w' = w_locks w \<and>
       NameId (mi_SourceVM info) = NameId (mi_SourceVM req) \<and>
       (\<exists>vm h spUUID made. vm \<in> wrows R w VMIIDInfo \<and> row_ConnectionName vm = c \<and> row_NameId vm = NameId (mi_SourceVM req) \<and>
          zone_myimage_handler env c (row_ZoneId vm) = Inr h \<and>
          mih_SnapshotVM h (req\<lparr>mi_IId := \<lparr>NameId = spUUID, SystemId = []\<rparr>,
            mi_SourceVM := \<lparr>NameId = NameId (mi_SourceVM req), SystemId = getDriverSystemId (row_IID vm)\<rparr>\<rparr>) (w_cloud w) = (Inr made, w_cloud w') \<and>
          wrows R w' = (wrows R w)(MyImageIIDInfo :=
            insert (FirstIIDInfo c n (spiderSystemId (NameId (mi_IId made)) (SystemId (mi_IId made)))) (wrows R w MyImageIIDInfo)) \<and>
          mi_IId info = getUserIID \<lparr>NameId = n, SystemId = spiderSystemId (NameId (mi_IId made)) (SystemId (mi_IId made))\<rparr>))
    (\<lambda>e w'. wrows R w' = wrows R w \<and> w_locks w' = w_locks w) w"
proof -
  have call: "wp (onCloud f) Q E w'" if "\<And>x c. f (w_cloud w') = (Inr x, c) \<Longrightarrow> Q x (w'\<lparr>w_cloud := c\<rparr>)" "\<And>e c. E e (w'\<lparr>w_cloud := c\<rparr>)"
    for f :: "('c, MyImageInfo) prog" and Q E and w' :: "('d, 'c) world"
    unfolding wp_onCloud using that by (auto simp: wp_def split: prod.split sum.split)
  show ?thesis
    unfolding SnapshotVM_def Let_def spiderSystemId_def[symmetric]
    apply (intro wp_walk wp_onCloudDelI has_name_wp'[OF assms(1)] make_spUUID_wp[where R = R] get_iid_info_wp[OF assms(1)] call
        row_insert_wp[OF assms(1)])
    apply (simp_all add: EmptyCheckAndTrim_Inr reads_def upsert_new_name assms(2))
    apply (elim conjE, intro exI conjI; (assumption | rule refl | simp))
    done
qed

lemma RegisterMyImage_rows:
  fixes env :: "('d, 'c) env" and w :: "('d, 'c) world"
  assumes "gorm_ok (env_gorm env) R"
  shows "wp (RegisterMyImage env conn userIID)
    (\<lambda>info w'. let c = TrimSpace conn in
       \<not> name_taken env (wrows R w MyImageIIDInfo) c (NameId userIID) \<and> w_locks w' = w_locks w \<and> mi_IId info = userIID \<and>
       (\<exists>cspId. wrows R w' = (wrows R w)(MyImageIIDInfo :=
            insert (FirstIIDInfo c (NameId userIID) (spiderSystemId (getMSShortID cspId) cspId)) (wrows R w MyImageIIDInfo))))
    (\<lambda>e w'. wrows R w' = wrows R w \<and> w_locks w' = w_locks w) w"
  unfolding RegisterMyImage_def Let_def spiderSystemId_def[symmetric]
  by (intro wp_walk has_name_wp'[OF assms] cloud_wp row_insert_wp[OF assms])
    (auto simp: EmptyCheckAndTrim_Inr reads_def upsert_new_name)

lemma with_source_name_wp:
  fixes env :: "('d, 'c) env" and w :: "('d, 'c) world"
  assumes "gorm_ok (env_gorm env) R"
    and "\<And>info' w'. reads R env w w' \<Longrightarrow> mi_IId info' = mi_IId info \<Longrightarrow>
      NameId (mi_SourceVM info') = [] \<and> \<not> permission_mode env \<or> name_taken env (wrows R w VMIIDInfo) conn (NameId (mi_SourceVM info')) \<Longrightarrow> Q info' w'"
    and "\<And>e w'. reads R env w w' \<Longrightarrow> E e w'"
  shows "wp (with_source_name env conn info) Q E w"
  unfolding with_source_name_def
  by (intro wp_walk owner_vm_row_wp[OF assms(1)]; (rule assms(2) | rule assms(3))) (auto simp: name_taken_def)

lemma ListMyImage_loop_wp:
  fixes env :: "('d, 'c) env" and w :: "('d, 'c) world"
  assumes ok: "gorm_ok (env_gorm env) R"
    and "\<And>infos w'. wrows R w' = wrows R w \<Longrightarrow> w_locks w' = w_locks w \<Longrightarrow>
      map (NameId \<circ> mi_IId) infos = map (NameId \<circ> mi_IId) acc @ map row_NameId rs \<Longrightarrow> Q infos w'"
    and "\<And>e w'. wrows R w' = wrows R w \<Longrightarrow> w_locks w' = w_locks w \<Longrightarrow> E e w'"
  shows "wp (ListMyImage_loop env h conn rs acc) Q E w"
  using assms(2,3)
proof (induction rs arbitrary: acc w)
  case Nil
  then show ?case by (auto intro!: wp_retI)
next
  case (Cons r rs)
  show ?case
    unfolding ListMyImage_loop.simps
    by (intro wp_walk cloud_wp with_source_name_wp[OF ok] Cons.IH)
      (auto intro!: Cons.prems simp: reads_def row_IID_def MyImageInfo_of_def getUserIID_def)
qed

lemma ListMyImage_complete:
  fixes env :: "('d, 'c) env" and w :: "('d, 'c) world"
  assumes "gorm_ok (env_gorm env) R" and "\<not> permission_mode env"
  shows "wp (ListMyImage env conn)
    (\<lambda>infos w'. wrows R w' = wrows R w \<and> w_locks w' = w_locks w \<and>
       (\<exists>rs. distinct rs \<and> set rs = {r \<in> wrows R w MyImageIIDInfo. row_ConnectionName r = TrimSpace conn} \<and>
          map (NameId \<circ> mi_IId) infos = map row_NameId rs))
    (\<lambda>e w'. wrows R w' = wrows R w \<and> w_locks w' = w_locks w) w"
  unfolding ListMyImage_def
  by (intro wp_walk list_iid_infos_wp[OF assms(1)] ListMyImage_loop_wp[OF assms(1)])
    (auto simp: EmptyCheckAndTrim_Inr reads_def assms(2))

lemma GetMyImage_rows:
  fixes env :: "('d, 'c) env" and w :: "('d, 'c) world"
  assumes "gorm_ok (env_gorm env) R"
  shows "wp (GetMyImage env conn name)
    (\<lambda>info w'. wrows R w' = wrows R w \<and> w_locks w' = w_locks w \<and>
       name_taken env (wrows R w MyImageIIDInfo) (TrimSpace conn) (TrimSpace name) \<and> NameId (mi_IId info) = TrimSpace name)
    (\<lambda>e w'. wrows R w' = wrows R w \<and> w_locks w' = w_locks w) w"
  unfolding GetMyImage_def
  by (intro wp_walk get_iid_info_wp[OF assms] cloud_wp with_source_name_wp[OF assms])
    (auto simp: EmptyCheckAndTrim_Inr reads_def name_taken_def getUserIID_def row_IID_def)

lemma DeleteMyImage_rows:
  fixes env :: "('d, 'c) env" and w :: "('d, 'c) world"
  assumes "gorm_ok (env_gorm env) R" and "\<not> permission_mode env"
  shows "wp (DeleteMyImage env conn name force)
    (\<lambda>res w'. let c = TrimSpace conn; n = TrimSpace name in
       w_locks w' = w_locks w \<and>
       (\<exists>r h err. r \<in> wrows R w MyImageIIDInfo \<and> row_ConnectionName r = c \<and> row_NameId r = n \<and> myimage_handler env c = Inr h \<and>
          mih_DeleteMyImage h (getDriverIID (row_IID r)) (w_cloud w) = ((res, err), w_cloud w') \<and>
          (if deletes force res err
           then wrows R w' = (wrows R w)(MyImageIIDInfo :=
                  {x \<in> wrows R w MyImageIIDInfo. \<not> (row_ConnectionName x = c \<and> row_NameId x = n)}) \<or>
                (forced force err \<and> wrows R w' = wrows R w)
           else wrows R w' = wrows R w \<and> \<not> res \<and> err = None)))
    (\<lambda>e w'. wrows R w' = wrows R w \<and> w_locks w' = w_locks w) w"
  unfolding DeleteMyImage_def Let_def
  by (intro wp_rules get_iid_info_wp[OF assms(1)] delete_tail_wp delete_by_wp[OF assms(1)])
    (auto simp: EmptyCheckAndTrim_Inr reads_def assms(2))

section \<open>Concrete runs\<close>

definition im_world :: "string \<Rightarrow> bool list \<Rightarrow> (list_db, mock) world" where
  "im_world vm fs = (ex_world fs)\<lparr>w_store := \<lparr>dbConfigErr = None, st_open = None,
     st_db = \<lparr>db_rows = (\<lambda>_. [])(VMIIDInfo := [FirstIIDInfo ''mock'' vm (vm @ '':'' @ vm)]), db_fails = fs\<rparr>\<rparr>\<rparr>"

definition im_req :: MyImageInfo where
  "im_req = (MyImageInfo_of \<lparr>NameId = ''snap-1'', SystemId = []\<rparr>)\<lparr>mi_SourceVM := \<lparr>NameId = ''vm1'', SystemId = []\<rparr>\<rparr>"

definition im_info :: MyImageInfo where
  "im_info = \<lparr>mi_IId = \<lparr>NameId = ''snap-1'', SystemId = ''snap-1''\<rparr>, mi_SourceVM = \<lparr>NameId = ''vm1'', SystemId = ''vm1''\<rparr>,
     mi_Status = MyImageAvailable, mi_CreatedTime = 0, mi_TagList = [], mi_KeyValueList = []\<rparr>"

definition im_snapped :: "(list_db, mock) world" where
  "im_snapped = snd (SnapshotVM (ex_env []) ''mock'' RT_MYIMAGE im_req ''OFF'' (im_world ''vm1'' []))"

lemma im_snapshot: "fst (SnapshotVM (ex_env []) ''mock'' RT_MYIMAGE im_req ''OFF'' (im_world ''vm1'' [])) = Inr im_info"
  by code_simp

lemma im_snapshot_fails: "fst (SnapshotVM (ex_env []) ''mock'' RT_MYIMAGE im_req ''OFF'' (im_world ''vm1'' [True])) = Inl ''disk I/O error''"
  by code_simp

text \<open>Once its VM has no row, an image is still shown, without the name of the VM.\<close>

lemma im_get:
  "fst (GetMyImage (ex_env []) ''mock'' ''snap-1'' im_snapped) = Inr im_info"
  "fst (GetMyImage (ex_env []) ''mock'' ''snap-1'' (im_snapped\<lparr>w_store := (w_store im_snapped)\<lparr>st_db := (st_db (w_store im_snapped))
     \<lparr>db_rows := (db_rows (st_db (w_store im_snapped)))(VMIIDInfo := [])\<rparr>\<rparr>\<rparr>)) =
   Inr (im_info\<lparr>mi_SourceVM := \<lparr>NameId = [], SystemId = ''vm1''\<rparr>\<rparr>)"
  by code_simp+

lemma im_trim: "TrimSpace ''mock'' = ''mock''"
  by code_simp

lemma SnapshotVM_rows_witness:
  "\<exists>s. wrows list_rows im_snapped MyImageIIDInfo = {FirstIIDInfo ''mock'' ''snap-1'' s} \<and>
     wrows list_rows (snd (SnapshotVM (ex_env []) ''mock'' RT_MYIMAGE im_req ''OFF'' (im_world ''vm1'' [True]))) MyImageIIDInfo = {}"
proof -
  have p: "\<not> permission_mode (ex_env [])" by simp
  have e: "wrows list_rows (im_world v fs) MyImageIIDInfo = {}" for v fs by (simp add: im_world_def wrows_def list_rows_def)
  have n: "NameId (mi_IId im_req) = ''snap-1''" by (simp add: im_req_def MyImageInfo_of_def)
  note ok = wp_ok_run[OF SnapshotVM_rows[OF ex_gorm_ok p] im_snapshot, folded im_snapped_def]
  note err = wp_err_run[OF SnapshotVM_rows[OF ex_gorm_ok p] im_snapshot_fails]
  obtain s where r: "wrows list_rows im_snapped = (wrows list_rows (im_world ''vm1'' []))(MyImageIIDInfo :=
      insert (FirstIIDInfo ''mock'' ''snap-1'' s) (wrows list_rows (im_world ''vm1'' []) MyImageIIDInfo))"
    using ok unfolding Let_def im_trim n by blast
  show ?thesis using err by (intro exI[of _ s]) (simp add: r e)
qed

end
