(* ===== verification/Requests.thy ===== *)
theory Requests
  imports KeyPairManager SecurityGroupManager VPCSubnetManager DiskManager MyImageManager
begin

text \<open>
  The managers together: a server that handles requests for key pairs, security groups, VPCs, subnets, disks and
  private images one after the other, the worlds it can get to, and what holds in all of them. The fixed arguments are those the REST
  handlers give (\<open>api-runtime/rest-runtime\<close>: the resource type of the called manager).
\<close>

section \<open>Requests\<close>

datatype request =
    ReqRegisterKey string IID
  | ReqCreateKey string KeyPairReqInfo string
  | ReqGetKey string string
  | ReqListKey string
  | ReqDeleteKey string string string
  | ReqRegisterSecurity string string IID
  | ReqCreateSecurity string SecurityReqInfo string
  | ReqGetSecurity string string
  | ReqListSecurity string
  | ReqAddRules string string "SecurityRuleInfo list"
  | ReqRemoveRules string string "SecurityRuleInfo list"
  | ReqDeleteSecurity string string string
  | ReqRegisterVPC string IID
  | ReqCreateVPC string VPCReqInfo string
  | ReqGetVPC string string
  | ReqListVPC string
  | ReqDeleteVPC string string string
  | ReqRegisterSubnet string string string IID
  | ReqUnregisterSubnet string string string
  | ReqAddSubnet string string SubnetInfo string
  | ReqRemoveSubnet string string string string
  | ReqRegisterDisk string string IID
  | ReqCreateDisk string DiskInfo string
  | ReqGetDisk string string
  | ReqListDisk string
  | ReqChangeDiskSize string string string
  | ReqAttachDisk string string string
  | ReqDetachDisk string string string
  | ReqDeleteDisk string string string
  | ReqRegisterMyImage string IID
  | ReqSnapshotVM string MyImageInfo string
  | ReqGetMyImage string string
  | ReqListMyImage string
  | ReqDeleteMyImage string string string

definition done_with :: "(('d, 'c) world, 'a) prog \<Rightarrow> (('d, 'c) world, unit) prog" where
  "done_with m = bindP m (\<lambda>_. ret ())"

fun serve :: "('d, 'c) env \<Rightarrow> request \<Rightarrow> (('d, 'c) world, unit) prog" where
  "serve env (ReqRegisterKey conn iid) = done_with (RegisterKey env conn iid)"
| "serve env (ReqCreateKey conn req mode) = done_with (CreateKey env conn RT_KEY req mode)"
| "serve env (ReqGetKey conn name) = done_with (GetKey env conn name)"
| "serve env (ReqListKey conn) = done_with (ListKey env conn)"
| "serve env (ReqDeleteKey conn name force) = done_with (DeleteKey env conn name force)"
| "serve env (ReqRegisterSecurity conn vpc iid) = done_with (RegisterSecurity env conn vpc iid)"
| "serve env (ReqCreateSecurity conn req mode) = done_with (CreateSecurity env conn RT_SG req mode)"
| "serve env (ReqGetSecurity conn name) = done_with (GetSecurity env conn RT_SG name)"
| "serve env (ReqListSecurity conn) = done_with (ListSecurity env conn RT_SG)"
| "serve env (ReqAddRules conn name rules) = done_with (AddRules env conn name rules)"
| "serve env (ReqRemoveRules conn name rules) = done_with (RemoveRules env conn name rules)"
| "serve env (ReqDeleteSecurity conn name force) = done_with (DeleteSecurity env conn RT_SG name force)"
| "serve env (ReqRegisterVPC conn iid) = done_with (RegisterVPC env conn iid)"
| "serve env (ReqCreateVPC conn req mode) = done_with (CreateVPC env conn RT_VPC req mode)"
| "serve env (ReqGetVPC conn name) = done_with (GetVPC env conn RT_VPC name)"
| "serve env (ReqListVPC conn) = done_with (ListVPC env conn RT_VPC)"
| "serve env (ReqDeleteVPC conn name force) = done_with (DeleteVPC env conn RT_VPC name force)"
| "serve env (ReqRegisterSubnet conn zone vpc iid) = done_with (RegisterSubnet env conn zone vpc iid)"
| "serve env (ReqUnregisterSubnet conn vpc name) = done_with (UnregisterSubnet env conn vpc name)"
| "serve env (ReqAddSubnet conn vpc req mode) = done_with (AddSubnet env conn RT_SUBNET vpc req mode)"
| "serve env (ReqRemoveSubnet conn vpc name force) = done_with (RemoveSubnet env conn vpc name force)"
| "serve env (ReqRegisterDisk conn zone iid) = done_with (RegisterDisk env conn zone iid)"
| "serve env (ReqCreateDisk conn req mode) = done_with (CreateDisk env conn RT_DISK req mode)"
| "serve env (ReqGetDisk conn name) = done_with (GetDisk env conn name)"
| "serve env (ReqListDisk conn) = done_with (ListDisk env conn)"
| "serve env (ReqChangeDiskSize conn name size') = done_with (ChangeDiskSize env conn name size')"
| "serve env (ReqAttachDisk conn name vm) = done_with (AttachDisk env conn name vm)"
| "serve env (ReqDetachDisk conn name vm) = done_with (DetachDisk env conn name vm)"
| "serve env (ReqDeleteDisk conn name force) = done_with (DeleteDisk env conn name force)"
| "serve env (ReqRegisterMyImage conn iid) = done_with (RegisterMyImage env conn iid)"
| "serve env (ReqSnapshotVM conn req mode) = done_with (SnapshotVM env conn RT_MYIMAGE req mode)"
| "serve env (ReqGetMyImage conn name) = done_with (GetMyImage env conn name)"
| "serve env (ReqListMyImage conn) = done_with (ListMyImage env conn)"
| "serve env (ReqDeleteMyImage conn name force) = done_with (DeleteMyImage env conn name force)"

text \<open>The worlds a server gets to that starts with an empty meta database, one request after the other.\<close>

inductive reachable :: "('d \<Rightarrow> table \<Rightarrow> iid_row set) \<Rightarrow> ('d, 'c) env \<Rightarrow> ('d, 'c) world \<Rightarrow> bool" for R env where
  start: "wrows R w = (\<lambda>_. {}) \<Longrightarrow> w_locks w = [] \<Longrightarrow> reachable R env w"
| served: "reachable R env w \<Longrightarrow> reachable R env (snd (serve env req w))"

section \<open>The invariant\<close>

text \<open>
  Within a connection (in the permission-based mode: in all of them together) a name belongs to one row of a table,
  although the primary key of security groups would admit one per VPC; and subnets are known by their primary key.
\<close>

definition unique_names :: "('d, 'c) env \<Rightarrow> iid_row set \<Rightarrow> bool" where
  "unique_names env S \<longleftrightarrow> (\<forall>r1 \<in> S. \<forall>r2 \<in> S. row_NameId r1 = row_NameId r2 \<longrightarrow>
     permission_mode env \<or> row_ConnectionName r1 = row_ConnectionName r2 \<longrightarrow> r1 = r2)"

lemma unique_names_empty [simp]: "unique_names env {}"
  by (simp add: unique_names_def)

lemma unique_names_subset: "unique_names env S \<Longrightarrow> S' \<subseteq> S \<Longrightarrow> unique_names env S'"
  unfolding unique_names_def by blast

lemma unique_names_filter [simp, intro]: "unique_names env S \<Longrightarrow> unique_names env {r \<in> S. P r}"
  by (rule unique_names_subset) auto

lemma unique_names_upsert:
  assumes "unique_names env S" and "\<not> name_taken env S (row_ConnectionName r) (row_NameId r)"
  shows "unique_names env (upsert r S)"
  using assms unfolding unique_names_def name_taken_def upsert_def by auto

lemma inj_on_filter [simp, intro]: "inj_on f S \<Longrightarrow> inj_on f {r \<in> S. P r}"
  by (rule inj_on_subset) auto

lemma upsert_key [simp, intro]: "inj_on primary_key S \<Longrightarrow> inj_on primary_key (upsert r S)"
  by (auto simp: upsert_def inj_on_def)

definition good_rows :: "('d, 'c) env \<Rightarrow> (table \<Rightarrow> iid_row set) \<Rightarrow> bool" where
  "good_rows env rows \<longleftrightarrow> unique_names env (rows VPCIIDInfo) \<and> unique_names env (rows SGIIDInfo) \<and> unique_names env (rows KeyIIDInfo) \<and>
     unique_names env (rows DiskIIDInfo) \<and> unique_names env (rows MyImageIIDInfo) \<and> inj_on primary_key (rows SubnetIIDInfo)"

text \<open>\<open>keeps R env m\<close>: however it ends, \<open>m\<close> keeps the invariant and gives the locks back.\<close>

definition keeps :: "('d \<Rightarrow> table \<Rightarrow> iid_row set) \<Rightarrow> ('d, 'c) env \<Rightarrow> (('d, 'c) world, 'a) prog \<Rightarrow> bool" where
  "keeps R env m \<longleftrightarrow> (\<forall>w. good_rows env (wrows R w) \<longrightarrow>
     wp m (\<lambda>_ w'. good_rows env (wrows R w') \<and> w_locks w' = w_locks w) (\<lambda>_ w'. good_rows env (wrows R w') \<and> w_locks w' = w_locks w) w)"

lemma keepsI [intro?]: "(\<And>w. good_rows env (wrows R w) \<Longrightarrow>
     wp m (\<lambda>_ w'. good_rows env (wrows R w') \<and> w_locks w' = w_locks w) (\<lambda>_ w'. good_rows env (wrows R w') \<and> w_locks w' = w_locks w) w) \<Longrightarrow>
   keeps R env m"
  by (simp add: keeps_def)

lemma wp_done: "wp (done_with m) Q E w = wp m (\<lambda>_. Q ()) E w"
  by (simp add: wp_def done_with_def bindP_def ret_def split: prod.split sum.split)

lemma keeps_done: "keeps R env m \<Longrightarrow> keeps R env (done_with m)"
  by (simp add: keeps_def wp_done)

section \<open>Every operation keeps it\<close>

lemma unique_names_new:
  assumes "\<not> name_taken env S c n" and "unique_names env S" and "row_ConnectionName r = c" and "row_NameId r = n"
  shows "unique_names env (upsert r S)"
  using assms unique_names_upsert by blast

lemma FirstIIDInfo_sel [simp]:
  "row_ConnectionName (FirstIIDInfo c n s) = c" "row_NameId (FirstIIDInfo c n s) = n"
  by (simp_all add: FirstIIDInfo_def)

lemma keeps_keys:
  fixes env :: "('d, 'c) env"
  assumes ok: "gorm_ok (env_gorm env) R"
  shows "keeps R env (RegisterKey env conn iid)" and "keeps R env (CreateKey env conn rsType req mode)"
    and "keeps R env (GetKey env conn name)" and "keeps R env (ListKey env conn)" and "keeps R env (DeleteKey env conn name force)"
proof -
  show "keeps R env (RegisterKey env conn iid)"
    unfolding RegisterKey_def Let_def
    by (rule keepsI, intro wp_rules has_name_wp'[OF ok] cloud_wp row_insert_wp[OF ok])
      (auto simp: good_rows_def reads_def unique_names_new)
  show "keeps R env (CreateKey env conn rsType req mode)"
    unfolding CreateKey_def Let_def
    by (rule keepsI, intro wp_rules has_name_wp'[OF ok] make_spUUID_wp[where R = R] cloud_wp row_insert_wp[OF ok])
      (auto simp: good_rows_def reads_def unique_names_new)
  show "keeps R env (GetKey env conn name)"
    unfolding GetKey_def
    by (rule keepsI, intro wp_rules get_iid_info_wp[OF ok] cloud_wp) (auto simp: reads_def)
  show "keeps R env (ListKey env conn)"
    unfolding ListKey_def
    by (rule keepsI, intro wp_rules list_iid_infos_wp[OF ok] ListKey_loop_wp[where R = R]) (auto simp: reads_def)
  show "keeps R env (DeleteKey env conn name force)"
    unfolding DeleteKey_def
    by (rule keepsI, intro wp_rules get_iid_info_wp[OF ok] delete_tail_wp delete_by_wp[OF ok]) (auto simp: good_rows_def reads_def)
qed

lemma keeps_security:
  fixes env :: "('d, 'c) env"
  assumes ok: "gorm_ok (env_gorm env) R"
  shows "keeps R env (RegisterSecurity env conn vpc iid)" and "keeps R env (CreateSecurity env conn rsType req mode)"
    and "keeps R env (GetSecurity env conn rsType name)" and "keeps R env (ListSecurity env conn rsType)"
    and "keeps R env (AddRules env conn name rules)" and "keeps R env (RemoveRules env conn name rules)"
    and "keeps R env (DeleteSecurity env conn rsType name force)"
proof -
  show "keeps R env (RegisterSecurity env conn vpc iid)"
    unfolding RegisterSecurity_def withLockIf_def Let_def
    by (rule keepsI, intro wp_rules has_name_wp'[OF ok] has_authorized_taken_wp[OF ok] cloud_wp row_insert_wp[OF ok] get_or_connection_wp[OF ok])
      (auto simp: good_rows_def reads_def unique_names_new)
  show "keeps R env (CreateSecurity env conn rsType req mode)"
    unfolding CreateSecurity_def Let_def
    by (rule keepsI, intro wp_rules all_names_wp[OF ok] get_iid_info_wp[OF ok] make_spUUID_wp[where R = R] cloud_wp row_insert_wp[OF ok])
      (auto simp: good_rows_def reads_def unique_names_new)
  show "keeps R env (GetSecurity env conn rsType name)"
    unfolding GetSecurity_def Let_def
    by (rule keepsI, intro wp_rules get_iid_info_wp[OF ok] cloud_wp) (auto simp: reads_def)
  show "keeps R env (ListSecurity env conn rsType)"
    unfolding ListSecurity_def
    by (rule keepsI, intro wp_rules list_iid_infos_wp[OF ok] ListSecurity_loop_wp[OF ok]) (auto simp: reads_def)
  show "keeps R env (AddRules env conn name rules)"
    unfolding AddRules_def Let_def
    by (rule keepsI, intro wp_rules get_iid_info_wp[OF ok] has_authorized_taken_wp[OF ok] cloud_wp) (auto simp: reads_def)
  show "keeps R env (RemoveRules env conn name rules)"
    unfolding RemoveRules_def Let_def
    by (rule keepsI, intro wp_rules get_iid_info_wp[OF ok] has_authorized_taken_wp[OF ok] cloud_wp) (auto simp: reads_def)
  show "keeps R env (DeleteSecurity env conn rsType name force)"
    unfolding DeleteSecurity_def
    by (rule keepsI, intro wp_rules get_iid_info_wp[OF ok] delete_tail_wp delete_by3_wp[OF ok]) (auto simp: good_rows_def reads_def)
qed


lemma good_rowsD:
  assumes "good_rows env rows"
  shows "inj_on primary_key (rows SubnetIIDInfo)" and "unique_names env (rows VPCIIDInfo)"
  using assms by (simp_all add: good_rows_def)

lemma fold_upsert_key: "inj_on primary_key S \<Longrightarrow> inj_on primary_key (fold upsert rs S)"
  by (induction rs arbitrary: S) auto

lemma RegisterVPC_subnets_wp:
  fixes env :: "('d, 'c) env" and w :: "('d, 'c) world"
  assumes ok: "gorm_ok (env_gorm env) R" and "good_rows env (wrows R w)"
    and "\<And>x w'. good_rows env (wrows R w') \<Longrightarrow> w_locks w' = w_locks w \<Longrightarrow> Q x w'"
    and "\<And>e w'. good_rows env (wrows R w') \<Longrightarrow> w_locks w' = w_locks w \<Longrightarrow> E e w'"
  shows "wp (RegisterVPC_subnets env conn z v n ss infos) Q E w"
  using assms(2-)
proof (induction ss arbitrary: n infos w)
  case Nil
  then show ?case by (auto intro!: wp_retI)
next
  case (Cons s ss)
  show ?case
    unfolding RegisterVPC_subnets.simps Let_def
    by (intro wp_bindPI row_insert_wp[OF ok] Cons.IH)
      (use Cons.prems(1) in \<open>auto intro!: Cons.prems(2,3) simp: good_rows_def\<close>)
qed

lemma RegisterSubnet_subnets_wp:
  fixes env :: "('d, 'c) env" and w :: "('d, 'c) world"
  assumes ok: "gorm_ok (env_gorm env) R" and "good_rows env (wrows R w)"
    and "\<And>x w'. good_rows env (wrows R w') \<Longrightarrow> w_locks w' = w_locks w \<Longrightarrow> Q x w'"
    and "\<And>e w'. good_rows env (wrows R w') \<Longrightarrow> w_locks w' = w_locks w \<Longrightarrow> E e w'"
  shows "wp (RegisterSubnet_subnets env conn z v i ss infos) Q E w"
  using assms(2-)
proof (induction ss arbitrary: infos w)
  case Nil
  then show ?case by (auto intro!: wp_retI)
next
  case (Cons s ss)
  show ?case
    unfolding RegisterSubnet_subnets.simps
    by (intro wp_ifI wp_bindPI row_insert_wp[OF ok] Cons.IH)
      (use Cons.prems(1) in \<open>auto intro!: Cons.prems(2,3) simp: good_rows_def\<close>)
qed

lemma AddSubnet_insert_good:
  fixes env :: "('d, 'c) env" and w :: "('d, 'c) world"
  assumes ok: "gorm_ok (env_gorm env) R" and "good_rows env (wrows R w)"
    and "\<And>x w'. good_rows env (wrows R w') \<Longrightarrow> w_locks w' = w_locks w \<Longrightarrow> Q x w'"
    and "\<And>e w'. good_rows env (wrows R w') \<Longrightarrow> w_locks w' = w_locks w \<Longrightarrow> E e w'"
  shows "wp (AddSubnet_insert env h V v u n z ss) Q E w"
  using assms(2-)
proof (induction ss arbitrary: w)
  case Nil
  then show ?case by (auto intro!: wp_retI)
next
  case (Cons s ss)
  show ?case
    unfolding AddSubnet_insert.simps
    by (intro wp_walk wp_onCloudDelI row_insert_wp[OF ok] delete_by3_wp[OF ok] Cons.IH)
      (use Cons.prems(1) in \<open>auto intro!: Cons.prems(2,3) simp: good_rows_def\<close>)
qed

lemma ListVPC_results_wp:
  fixes env :: "('d, 'c) env" and w :: "('d, 'c) world"
  assumes ok: "gorm_ok (env_gorm env) R"
    and "\<And>x w'. wrows R w' = wrows R w \<Longrightarrow> w_locks w' = w_locks w \<Longrightarrow> Q x w'"
    and "\<And>e w'. wrows R w' = wrows R w \<Longrightarrow> w_locks w' = w_locks w \<Longrightarrow> E e w'"
  shows "wp (ListVPC_results env h rs results) Q E w"
  using assms(2-)
proof (induction rs arbitrary: results w)
  case Nil
  then show ?case by (auto intro!: wp_retI)
next
  case (Cons r rs)
  show ?case
    unfolding ListVPC_results.simps getVPCInfo_def
    by (intro wp_walk cloud_wp user_subnets_wp[OF ok] Cons.IH)
      (auto intro!: Cons.prems simp: row_subnet_IID_def getUserIID_def row_IID_def reads_def)
qed

lemma vpc_created_good:
  assumes "vpc_created c v names rows res rows'" and "good_rows env rows" and "\<not> name_taken env (rows VPCIIDInfo) c v"
  shows "good_rows env rows'"
proof -
  have "unique_names env (insert (FirstIIDInfo c v s) (rows VPCIIDInfo))" for s
    using unique_names_new[OF assms(3), of "FirstIIDInfo c v s"] good_rowsD(2)[OF assms(2)] upsert_new_name[OF assms(3), of s] by simp
  moreover have "inj_on primary_key (without_owner c' v' S)" if "inj_on primary_key S" for c' v' and S :: "iid_row set"
    using that by (auto simp: without_owner_def)
  ultimately show ?thesis
    using assms(1,2) fold_upsert_key[OF good_rowsD(1)[OF assms(2)]]
    by (auto simp: vpc_created_def good_rows_def split: option.splits)
qed

lemma vpc_failed_good:
  assumes "vpc_failed c v names rows rows'" and "good_rows env rows" and "\<not> name_taken env (rows VPCIIDInfo) c v"
  shows "good_rows env rows'"
proof -
  have "unique_names env (insert (FirstIIDInfo c v s) (rows VPCIIDInfo))" for s
    using unique_names_new[OF assms(3), of "FirstIIDInfo c v s"] good_rowsD(2)[OF assms(2)] upsert_new_name[OF assms(3), of s] by simp
  then show ?thesis
    using assms(1,2) fold_upsert_key[OF good_rowsD(1)[OF assms(2)]] good_rowsD(2)[OF assms(2)]
    by (auto simp: vpc_failed_def good_rows_def)
qed

lemma vpc_deleted_good:
  assumes "vpc_deleted f res c v rows a rows'" and "good_rows env rows"
  shows "good_rows env rows'"
proof -
  have "good_rows env (del_vpc c v rows)" and s: "good_rows env (del_subnets c v rows)" if "good_rows env rows" for rows
    using that by (auto simp: del_vpc_def del_subnets_def good_rows_def without_vpc_def without_owner_def)
  with assms show ?thesis unfolding vpc_deleted_def by blast
qed


lemma keeps_vpc:
  fixes env :: "('d, 'c) env"
  assumes ok: "gorm_ok (env_gorm env) R"
  shows "keeps R env (RegisterVPC env conn iid)" and "keeps R env (CreateVPC env conn rsType vpcReq mode)"
    and "keeps R env (GetVPC env conn rsType name)" and "keeps R env (ListVPC env conn rsType)"
    and "keeps R env (DeleteVPC env conn rsType name force)"
proof -
  show "keeps R env (RegisterVPC env conn iid)"
    unfolding RegisterVPC_def Let_def
    by (rule keepsI, intro wp_walk has_name_wp'[OF ok] cloud_wp row_insert_wp[OF ok] RegisterVPC_subnets_wp[OF ok])
      (auto simp: good_rows_def reads_def unique_names_new)
  show "keeps R env (CreateVPC env conn rsType vpcReq mode)"
    unfolding CreateVPC_def Let_def spiderSystemId_def[symmetric] IID.simps
    by (rule keepsI, intro wp_retI wp_throwI wp_lift_resultI wp_bindPI wp_ifI wp_case_prodI wp_withLockI wp_validatedI check_zones_wp
        has_name_wp'[OF ok] check_single_vpc_wp[OF ok] make_spUUID_wp[where R = R]
        CreateVPC_subnet_reqs_wp[where R = R] cloud_wp CreateVPC_store_wp[OF ok])
      (auto simp: reads_def dest: vpc_created_good vpc_failed_good)
  show "keeps R env (GetVPC env conn rsType name)"
    unfolding GetVPC_def Let_def
    by (rule keepsI, intro wp_walk get_iid_info_wp[OF ok] cloud_wp user_subnets_wp[OF ok])
      (auto simp: reads_def row_subnet_IID_def getUserIID_def row_IID_def)
  show "keeps R env (ListVPC env conn rsType)"
    unfolding ListVPC_def Let_def
    by (rule keepsI, intro wp_walk list_iid_infos_wp[OF ok] ListVPC_results_wp[OF ok]) (auto simp: reads_def)
  show "keeps R env (DeleteVPC env conn rsType name force)"
    unfolding DeleteVPC_def
    by (rule keepsI, intro wp_walk wp_onCloudDelI get_iid_info_wp[OF ok] remove_KT_subnets_wp[OF ok] delete_vpc_tail_wp[OF ok refl refl])
      (auto simp: reads_def dest: vpc_deleted_good)
qed

lemma keeps_subnet:
  fixes env :: "('d, 'c) env"
  assumes ok: "gorm_ok (env_gorm env) R"
  shows "keeps R env (RegisterSubnet env conn zone vpc iid)" and "keeps R env (UnregisterSubnet env conn vpc name)"
    and "keeps R env (AddSubnet env conn rsType vpc subnetReq mode)" and "keeps R env (RemoveSubnet env conn vpc name force)"
proof -
  show "keeps R env (RegisterSubnet env conn zone vpc iid)"
    unfolding RegisterSubnet_def Let_def
    by (rule keepsI, cases "permission_mode env"; simp only: if_True if_False;
        intro wp_walk check_zone_wpI get_by2_wp[OF ok] has_by3_wp[OF ok] has_by2_wp[OF ok] getAuthIIDInfoList_wp[OF ok]
          cloud_wp RegisterSubnet_subnets_wp[OF ok])
      (auto simp: reads_def)
  show "keeps R env (UnregisterSubnet env conn vpc name)"
    unfolding UnregisterSubnet_def
    by (rule keepsI, intro wp_walk has_by3_wp[OF ok] has_by2_wp[OF ok] delete_by_wp[OF ok] delete_by3_wp[OF ok])
      (auto simp: good_rows_def reads_def)
  show "keeps R env (AddSubnet env conn rsType vpc subnetReq mode)"
    unfolding AddSubnet_def Let_def has_subnet_name_def
    by (rule keepsI, intro wp_walk check_zone_wpI has_by3_wp[OF ok] get_iid_info_wp[OF ok] make_spUUID_wp[where R = R] cloud_wp
        AddSubnet_insert_good[OF ok] user_subnets_wp[OF ok])
      (auto simp: reads_def csp_subnet_IID_def getUserIID_def)
  show "keeps R env (RemoveSubnet env conn vpc name force)"
    unfolding RemoveSubnet_def
    by (rule keepsI, intro wp_walk wp_onCloudDelI get_iid_info_wp[OF ok] get_by3_wp[OF ok] get_by2_wp[OF ok] delete_tail_wp delete_by3_wp[OF ok])
      (auto simp: good_rows_def reads_def)
qed

lemma ZoneLevelIIDInfo_sel [simp]:
  "row_ConnectionName (ZoneLevelIIDInfo c z n s) = c" "row_NameId (ZoneLevelIIDInfo c z n s) = n"
  by (simp_all add: ZoneLevelIIDInfo_def)

lemma keeps_disk:
  fixes env :: "('d, 'c) env"
  assumes ok: "gorm_ok (env_gorm env) R"
  shows "keeps R env (RegisterDisk env conn zone iid)" and "keeps R env (CreateDisk env conn rsType diskReq mode)"
    and "keeps R env (GetDisk env conn name)" and "keeps R env (ListDisk env conn)" and "keeps R env (ChangeDiskSize env conn name size')"
    and "keeps R env (AttachDisk env conn name vm)" and "keeps R env (DetachDisk env conn name vm)" and "keeps R env (DeleteDisk env conn name force)"
proof -
  show "keeps R env (RegisterDisk env conn zone iid)"
    unfolding RegisterDisk_def Let_def
    by (rule keepsI, intro wp_walk check_zone_wpI has_name_wp'[OF ok] cloud_wp row_insert_wp[OF ok])
      (auto simp: good_rows_def reads_def unique_names_new)
  show "keeps R env (CreateDisk env conn rsType diskReq mode)"
    unfolding CreateDisk_def Let_def
    by (rule keepsI, intro wp_walk wp_onCloudDelI check_zone_wpI has_name_wp'[OF ok] make_spUUID_wp[where R = R] cloud_wp row_insert_wp[OF ok])
      (auto simp: good_rows_def reads_def unique_names_new)
  show "keeps R env (GetDisk env conn name)"
    unfolding GetDisk_def
    by (rule keepsI, intro wp_walk get_iid_info_wp[OF ok] cloud_wp with_owner_name_wp[OF ok]) (auto simp: reads_def)
  show "keeps R env (ListDisk env conn)"
    unfolding ListDisk_def
    by (rule keepsI, intro wp_walk list_iid_infos_wp[OF ok] ListDisk_loop_wp[OF ok]) (auto simp: reads_def)
  show "keeps R env (ChangeDiskSize env conn name size')"
    unfolding ChangeDiskSize_def
    by (rule keepsI, intro wp_walk get_iid_info_wp[OF ok] cloud_wp) (auto simp: reads_def)
  show "keeps R env (AttachDisk env conn name vm)"
    unfolding AttachDisk_def
    by (rule keepsI, intro wp_walk get_iid_info_wp[OF ok] cloud_wp) (auto simp: reads_def)
  show "keeps R env (DetachDisk env conn name vm)"
    unfolding DetachDisk_def
    by (rule keepsI, intro wp_walk get_iid_info_wp[OF ok] cloud_wp) (auto simp: reads_def)
  show "keeps R env (DeleteDisk env conn name force)"
    unfolding DeleteDisk_def
    by (rule keepsI, intro wp_rules get_iid_info_wp[OF ok] delete_tail_wp delete_by_wp[OF ok]) (auto simp: good_rows_def reads_def)
qed

lemma keeps_myimage:
  fixes env :: "('d, 'c) env"
  assumes ok: "gorm_ok (env_gorm env) R"
  shows "keeps R env (RegisterMyImage env conn iid)" and "keeps R env (SnapshotVM env conn rsType imageReq mode)"
    and "keeps R env (GetMyImage env conn name)" and "keeps R env (ListMyImage env conn)" and "keeps R env (DeleteMyImage env conn name force)"
proof -
  show "keeps R env (RegisterMyImage env conn iid)"
    unfolding RegisterMyImage_def Let_def
    by (rule keepsI, intro wp_walk has_name_wp'[OF ok] cloud_wp row_insert_wp[OF ok]) (auto simp: good_rows_def reads_def unique_names_new)
  show "keeps R env (SnapshotVM env conn rsType imageReq mode)"
    unfolding SnapshotVM_def Let_def
    by (rule keepsI, intro wp_walk wp_onCloudDelI has_name_wp'[OF ok] make_spUUID_wp[where R = R] get_iid_info_wp[OF ok] cloud_wp row_insert_wp[OF ok])
      (auto simp: good_rows_def reads_def unique_names_new)
  show "keeps R env (GetMyImage env conn name)"
    unfolding GetMyImage_def
    by (rule keepsI, intro wp_walk get_iid_info_wp[OF ok] cloud_wp with_source_name_wp[OF ok]) (auto simp: reads_def)
  show "keeps R env (ListMyImage env conn)"
    unfolding ListMyImage_def
    by (rule keepsI, intro wp_walk list_iid_infos_wp[OF ok] ListMyImage_loop_wp[OF ok]) (auto simp: reads_def)
  show "keeps R env (DeleteMyImage env conn name force)"
    unfolding DeleteMyImage_def
    by (rule keepsI, intro wp_rules get_iid_info_wp[OF ok] delete_tail_wp delete_by_wp[OF ok]) (auto simp: good_rows_def reads_def)
qed

lemma keeps_serve:
  fixes env :: "('d, 'c) env"
  assumes "gorm_ok (env_gorm env) R"
  shows "keeps R env (serve env req)"
  by (cases req) (simp_all add: keeps_done keeps_keys[OF assms] keeps_security[OF assms] keeps_vpc[OF assms] keeps_subnet[OF assms]
    keeps_disk[OF assms] keeps_myimage[OF assms])

lemma keepsD:
  assumes "keeps R env m" and "good_rows env (wrows R w)"
  shows "good_rows env (wrows R (snd (m w)))" and "w_locks (snd (m w)) = w_locks w"
  using assms by (auto simp: keeps_def wp_def split: prod.splits sum.splits) (metis prod.exhaust_sel)+

lemma reachable_good:
  assumes "reachable R env w" and "gorm_ok (env_gorm env) R"
  shows "good_rows env (wrows R w) \<and> w_locks w = []"
  using assms(1)
proof induction
  case (start w)
  then show ?case by (simp add: good_rows_def)
next
  case (served w req)
  then show ?case using keepsD[OF keeps_serve[OF assms(2)], of w] by simp
qed



text \<open>
  C3: In every world that requests lead to, a name belongs to one VPC, one security group, one key pair, one disk and
  one private image of the connection (in the permission-based mode: of all connections), a subnet is known by its connection, VPC and name,
  and no lock is held: whatever the drivers answer, and whichever calls of the meta database fail.
\<close>

theorem names_stay_unique:
  fixes env :: "('d, 'c) env" and w :: "('d, 'c) world"
  assumes "reachable R env w" and "gorm_ok (env_gorm env) R"
  shows "unique_names env (wrows R w VPCIIDInfo) \<and> unique_names env (wrows R w SGIIDInfo) \<and> unique_names env (wrows R w KeyIIDInfo) \<and>
    unique_names env (wrows R w DiskIIDInfo) \<and> unique_names env (wrows R w MyImageIIDInfo) \<and> inj_on primary_key (wrows R w SubnetIIDInfo) \<and> w_locks w = []"
  using reachable_good[OF assms] by (simp add: good_rows_def)

definition ex_requests :: "request list" where
  "ex_requests = [ReqCreateVPC ''mock'' (ex_vpc_req ''vpc-1'' [''s1'', ''s2'']) ''OFF'', ReqCreateSecurity ''mock'' ex_sg_req ''OFF'',
     ReqCreateSecurity ''mock'' ex_sg_req ''OFF'', ReqDeleteVPC ''mock'' ''vpc-1'' []]"

definition ex_served :: "(list_db, mock) world" where
  "ex_served = fold (\<lambda>req w. snd (serve (ex_env []) req w)) ex_requests (ex_world [])"

lemma ex_served_reachable: "reachable list_rows (ex_env []) ex_served"
  unfolding ex_served_def ex_requests_def fold.simps comp_def id_def
  by (intro reachable.served reachable.start) (auto simp: ex_vpc_wrows(3), simp add: ex_world_def)

lemma names_stay_unique_witness:
  "unique_names (ex_env []) (wrows list_rows ex_served SGIIDInfo) \<and>
   map row_OwnerVPCName (db_rows (st_db (w_store ex_served)) SGIIDInfo) = [''vpc-1''] \<and> db_rows (st_db (w_store ex_served)) VPCIIDInfo = []"
proof -
  have "map row_OwnerVPCName (db_rows (st_db (w_store ex_served)) SGIIDInfo) = [''vpc-1''] \<and> db_rows (st_db (w_store ex_served)) VPCIIDInfo = []"
    by code_simp
  with names_stay_unique[OF ex_served_reachable ex_gorm_ok] show ?thesis by blast
qed

end
