(* ===== verification/KeyRegistry.thy ===== *)
theory KeyRegistry
  imports KeyPairManager
begin

text \<open>
  What the key pair manager promises a client that uses one connection: a registry of names. The abstract state
  relates each registered name to the identifier kept for it; the operations and what they may answer are the rules
  of \<open>registry_step\<close>. Outside the permission-based mode a run of the
  manager is a run of the registry, for any driver that does not report a missing key pair as deleted.
\<close>

section \<open>The registry\<close>

type_synonym registry = "(string \<times> string) set"

definition known :: "registry \<Rightarrow> string \<Rightarrow> bool" where
  "known G n \<longleftrightarrow> n \<in> fst ` G"

datatype key_op =
    RegisterOp IID
  | CreateOp KeyPairReqInfo string
  | LookupOp string
  | DeleteOp string string

datatype outcome = Added string | Found string | Answer bool | Failed

inductive registry_step :: "key_op \<Rightarrow> outcome \<Rightarrow> registry \<Rightarrow> registry \<Rightarrow> bool" where
  register: "\<not> known G (NameId i) \<Longrightarrow> NameId i \<noteq> [] \<Longrightarrow>
    registry_step (RegisterOp i) (Added (NameId i)) G (insert (NameId i, s) G)"
| create: "\<not> known G (NameId (keyReq_IId r)) \<Longrightarrow>
    registry_step (CreateOp r mode) (Added (NameId (keyReq_IId r))) G (insert (NameId (keyReq_IId r), s) G)"
| lookup: "known G (TrimSpace n) \<Longrightarrow> registry_step (LookupOp n) (Found (TrimSpace n)) G G"
| delete: "known G (TrimSpace n) \<Longrightarrow> registry_step (DeleteOp n force) (Answer b) G {p \<in> G. fst p \<noteq> TrimSpace n}"
| kept: "known G (TrimSpace n) \<Longrightarrow> registry_step (DeleteOp n force) (Answer False) G G"
| kept_by_force: "known G (TrimSpace n) \<Longrightarrow> registry_step (DeleteOp n ''true'') (Answer True) G G"
| failed: "registry_step op Failed G G"

inductive registry_run :: "key_op list \<Rightarrow> outcome list \<Rightarrow> registry \<Rightarrow> registry \<Rightarrow> bool" where
  finished: "registry_run [] [] G G"
| step: "registry_step op out G G' \<Longrightarrow> registry_run ops outs G' G'' \<Longrightarrow> registry_run (op # ops) (out # outs) G G''"

inductive_cases registry_runE: "registry_run (op # ops) outs G G'"

text \<open>The registry is a finite map throughout.\<close>

lemma registry_step_single_valued:
  assumes "registry_step op out G G'" and "single_valued G"
  shows "single_valued G'"
  using assms by cases (auto simp: single_valued_def known_def image_iff)

lemma registry_run_single_valued:
  assumes "registry_run ops outs G G'" and "single_valued G"
  shows "single_valued G'"
  using assms by induction (auto dest: registry_step_single_valued)

section \<open>The manager as an implementation\<close>

definition outcome_of :: "'a go_result \<times> 'w \<Rightarrow> ('a \<Rightarrow> outcome) \<Rightarrow> outcome \<times> 'w" where
  "outcome_of p f = (case p of (Inr x, w) \<Rightarrow> (f x, w) | (Inl e, w) \<Rightarrow> (Failed, w))"

fun run_op :: "('d, 'c) env \<Rightarrow> string \<Rightarrow> key_op \<Rightarrow> ('d, 'c) world \<Rightarrow> outcome \<times> ('d, 'c) world" where
  "run_op env conn (RegisterOp i) w = outcome_of (RegisterKey env conn i w) (\<lambda>info. Added (NameId (key_IId info)))"
| "run_op env conn (CreateOp r mode) w = outcome_of (CreateKey env conn RT_KEY r mode w) (\<lambda>info. Added (NameId (key_IId info)))"
| "run_op env conn (LookupOp n) w = outcome_of (GetKey env conn n w) (\<lambda>info. Found (NameId (key_IId info)))"
| "run_op env conn (DeleteOp n force) w = outcome_of (DeleteKey env conn n force w) Answer"

fun run_ops :: "('d, 'c) env \<Rightarrow> string \<Rightarrow> key_op list \<Rightarrow> ('d, 'c) world \<Rightarrow> outcome list \<times> ('d, 'c) world" where
  "run_ops env conn [] w = ([], w)"
| "run_ops env conn (op # ops) w =
     (let (out, w') = run_op env conn op w; (outs, w'') = run_ops env conn ops w' in (out # outs, w''))"

definition registry_of :: "('d \<Rightarrow> table \<Rightarrow> iid_row set) \<Rightarrow> string \<Rightarrow> ('d, 'c) world \<Rightarrow> registry" where
  "registry_of R c w = (\<lambda>r. (row_NameId r, row_SystemId r)) ` {r \<in> wrows R w KeyIIDInfo. row_ConnectionName r = c}"

text \<open>
  A driver that reports the key pair missing does not also report that it deleted it. (With any other error the
  manager stops, whatever the \<open>bool\<close>; the Oracle driver, which returns \<open>true\<close> with every error of its key store, is
  such a driver as long as that store does not fail with a "not found".)
\<close>

definition missing_is_false :: "'c KeyPairHandler \<Rightarrow> bool" where
  "missing_is_false h \<longleftrightarrow> (\<forall>i c res e c'. kh_DeleteKey h i c = ((res, Some e), c') \<and> checkNotFoundError e \<longrightarrow> \<not> res)"

lemma missing_is_falseD:
  "missing_is_false h \<Longrightarrow> kh_DeleteKey h i c = ((res, Some e), c') \<Longrightarrow> checkNotFoundError e \<Longrightarrow> \<not> res"
  unfolding missing_is_false_def by blast

lemma outcome_ofI:
  assumes "wp m (\<lambda>x w'. P (f x) w') (\<lambda>_ w'. P Failed w') w"
  shows "P (fst (outcome_of (m w) f)) (snd (outcome_of (m w) f))"
  using assms by (auto simp: wp_def outcome_of_def split: prod.splits sum.splits)

lemma registry_of_insert:
  assumes "wrows R w' = (wrows R w)(KeyIIDInfo := insert (FirstIIDInfo c n s) (wrows R w KeyIIDInfo))"
  shows "registry_of R c w' = insert (n, s) (registry_of R c w)"
proof -
  have "{r \<in> insert (FirstIIDInfo c n s) S. row_ConnectionName r = c} = insert (FirstIIDInfo c n s) {r \<in> S. row_ConnectionName r = c}" for S
    by (auto simp: FirstIIDInfo_def)
  then show ?thesis unfolding registry_of_def assms by (simp add: FirstIIDInfo_def)
qed

lemma registry_of_delete:
  assumes "wrows R w' = (wrows R w)(KeyIIDInfo := {x \<in> wrows R w KeyIIDInfo. row_ConnectionName x = c \<longrightarrow> row_NameId x \<noteq> n})"
  shows "registry_of R c w' = {p \<in> registry_of R c w. fst p \<noteq> n}"
proof -
  have "f ` {r \<in> {x \<in> S. row_ConnectionName x = c \<longrightarrow> row_NameId x \<noteq> n}. row_ConnectionName r = c} =
      {p \<in> f ` {r \<in> S. row_ConnectionName r = c}. fst p \<noteq> n}" if "\<And>r. fst (f r) = row_NameId r" for f :: "iid_row \<Rightarrow> string \<times> string" and S
    using that by force
  then show ?thesis unfolding registry_of_def assms by simp
qed

lemma known_registry:
  assumes "\<not> permission_mode env"
  shows "known (registry_of R c w) n = name_taken env (wrows R w KeyIIDInfo) c n"
  using assms by (auto simp: registry_of_def known_def name_taken_def image_image image_iff)

text \<open>The rules of the registry, on rows.\<close>

lemma step_added:
  assumes "wrows R w' = (wrows R w)(KeyIIDInfo := upsert (FirstIIDInfo c n s) (wrows R w KeyIIDInfo))"
    and "\<not> name_taken env (wrows R w KeyIIDInfo) c n" and "\<not> permission_mode env"
  shows "n = NameId i \<Longrightarrow> n \<noteq> [] \<Longrightarrow> registry_step (RegisterOp i) (Added n) (registry_of R c w) (registry_of R c w')"
    and "n = NameId (keyReq_IId r) \<Longrightarrow> registry_step (CreateOp r mode) (Added n) (registry_of R c w) (registry_of R c w')"
proof -
  have "wrows R w' = (wrows R w)(KeyIIDInfo := insert (FirstIIDInfo c n s) (wrows R w KeyIIDInfo))"
    using assms(1) upsert_new_name[OF assms(2)] by simp
  then have "registry_of R c w' = insert (n, s) (registry_of R c w)" by (rule registry_of_insert)
  moreover have "\<not> known (registry_of R c w) n" using known_registry[OF assms(3)] assms(2) by blast
  ultimately show "n = NameId i \<Longrightarrow> n \<noteq> [] \<Longrightarrow> registry_step (RegisterOp i) (Added n) (registry_of R c w) (registry_of R c w')"
    and "n = NameId (keyReq_IId r) \<Longrightarrow> registry_step (CreateOp r mode) (Added n) (registry_of R c w) (registry_of R c w')"
    by (auto intro: registry_step.intros)
qed

lemma step_same:
  assumes "wrows R w' = wrows R w"
  shows "registry_step op Failed (registry_of R c w) (registry_of R c w')"
    and "\<not> permission_mode env \<Longrightarrow> name_taken env (wrows R w KeyIIDInfo) c (TrimSpace n) \<Longrightarrow>
      registry_step (LookupOp n) (Found (TrimSpace n)) (registry_of R c w) (registry_of R c w')"
    and "\<not> permission_mode env \<Longrightarrow> name_taken env (wrows R w KeyIIDInfo) c (TrimSpace n) \<Longrightarrow> b \<longrightarrow> force = ''true'' \<Longrightarrow>
      registry_step (DeleteOp n force) (Answer b) (registry_of R c w) (registry_of R c w')"
proof -
  have same: "registry_of R c w' = registry_of R c w" by (simp add: registry_of_def assms)
  show "registry_step op Failed (registry_of R c w) (registry_of R c w')" unfolding same by (rule failed)
  assume p: "\<not> permission_mode env" and t: "name_taken env (wrows R w KeyIIDInfo) c (TrimSpace n)"
  then have k: "known (registry_of R c w) (TrimSpace n)" using known_registry[OF p] by blast
  then show "registry_step (LookupOp n) (Found (TrimSpace n)) (registry_of R c w) (registry_of R c w')"
    unfolding same by (rule lookup)
  show "registry_step (DeleteOp n force) (Answer b) (registry_of R c w) (registry_of R c w')" if "b \<longrightarrow> force = ''true''"
    unfolding same using that k by (cases b) (auto intro: kept kept_by_force)
qed

lemma step_deleted:
  assumes "wrows R w' = (wrows R w)(KeyIIDInfo := {x \<in> wrows R w KeyIIDInfo. row_ConnectionName x = c \<longrightarrow> row_NameId x \<noteq> TrimSpace n}) \<or>
      wrows R w' = wrows R w \<and> (b \<longrightarrow> force = ''true'')"
    and "\<not> permission_mode env" and "q \<in> wrows R w KeyIIDInfo" and "row_NameId q = TrimSpace n" and "row_ConnectionName q = c"
  shows "registry_step (DeleteOp n force) (Answer b) (registry_of R c w) (registry_of R c w')"
proof -
  have t: "name_taken env (wrows R w KeyIIDInfo) c (TrimSpace n)" using assms(3-5) by (auto simp: name_taken_def)
  then have "known (registry_of R c w) (TrimSpace n)" using known_registry[OF assms(2)] by blast
  then have "registry_step (DeleteOp n force) (Answer b) (registry_of R c w) {p \<in> registry_of R c w. fst p \<noteq> TrimSpace n}"
    by (rule delete)
  with assms(1) show ?thesis
    using registry_of_delete[of R w' w c "TrimSpace n"] step_same(3)[OF _ assms(2) t] by auto
qed

lemma run_op_refines:
  fixes env :: "('d, 'c) env" and w :: "('d, 'c) world"
  assumes ok: "gorm_ok (env_gorm env) R" and pm: "\<not> permission_mode env"
    and drv: "\<And>h. key_handler env (TrimSpace conn) = Inr h \<Longrightarrow> missing_is_false h"
  shows "registry_step op (fst (run_op env conn op w)) (registry_of R (TrimSpace conn) w)
    (registry_of R (TrimSpace conn) (snd (run_op env conn op w)))"
proof (cases op)
  let ?c = "TrimSpace conn"
  let ?P = "\<lambda>op out w'. registry_step op out (registry_of R ?c w) (registry_of R ?c w')"
  note same = step_same(1)[where R = R and c = ?c] 
  {
    case (RegisterOp i)
    have "wp (RegisterKey env conn i) (\<lambda>info. ?P op (Added (NameId (key_IId info)))) (\<lambda>_. ?P op Failed) w"
      unfolding RegisterKey_def Let_def RegisterOp
      by (intro wp_walk has_name_wp'[OF ok] cloud_wp row_insert_wp[OF ok] same)
        (auto simp: EmptyCheckAndTrim_Inr reads_def ValidateStruct_IID hideSecretInfo_def pm intro!: step_added(1))
    then show ?thesis unfolding RegisterOp run_op.simps by (rule outcome_ofI)
  next
    case (CreateOp r mode)
    have "wp (CreateKey env conn RT_KEY r mode) (\<lambda>info. ?P op (Added (NameId (key_IId info)))) (\<lambda>_. ?P op Failed) w"
      unfolding CreateKey_def Let_def CreateOp
      by (intro wp_walk wp_onCloudDelI has_name_wp'[OF ok] make_spUUID_wp[where R = R] cloud_wp row_insert_wp[OF ok] same)
        (auto simp: EmptyCheckAndTrim_Inr reads_def getUserIID_def pm intro!: step_added(2))
    then show ?thesis unfolding CreateOp run_op.simps by (rule outcome_ofI)
  next
    case (LookupOp n)
    have "wp (GetKey env conn n) (\<lambda>info. ?P op (Found (NameId (key_IId info)))) (\<lambda>_. ?P op Failed) w"
      unfolding GetKey_def LookupOp
      by (intro wp_walk get_name_wp[OF ok] cloud_wp same)
        (auto simp: EmptyCheckAndTrim_Inr reads_def hideSecretInfo_def intro!: step_same(2)[OF _ pm])
    then show ?thesis unfolding LookupOp run_op.simps by (rule outcome_ofI)
  next
    case (DeleteOp n force)
    have "wp (DeleteKey env conn n force) (\<lambda>b. ?P op (Answer b)) (\<lambda>_. ?P op Failed) w"
      unfolding DeleteKey_def DeleteOp
      by (intro wp_walk wp_onCloudDelI get_iid_info_wp[OF ok] delete_tail_wp delete_by_wp[OF ok] same)
        (auto simp: EmptyCheckAndTrim_Inr reads_def pm forced_def intro!: step_deleted[where env = env] same dest!: drv
          dest: missing_is_falseD)
    then show ?thesis unfolding DeleteOp run_op.simps by (rule outcome_ofI)
  }
qed


text \<open>
  C7: Outside the permission-based mode, a run of the key pair manager over one connection, with any driver that does
  not report success together with a "not found" error, and whichever calls of the meta database fail, is a run of
  the registry with the same answers. (In the permission-based mode a name is looked up in the rows of all
  connections, so one connection is no registry of its own.)
\<close>

theorem key_registry_refinement:
  fixes env :: "('d, 'c) env" and w :: "('d, 'c) world"
  assumes "gorm_ok (env_gorm env) R" and "\<not> permission_mode env"
    and "\<And>h. key_handler env (TrimSpace conn) = Inr h \<Longrightarrow> missing_is_false h"
  shows "registry_run ops (fst (run_ops env conn ops w)) (registry_of R (TrimSpace conn) w)
    (registry_of R (TrimSpace conn) (snd (run_ops env conn ops w)))"
proof (induction ops arbitrary: w)
  case Nil
  then show ?case by (simp add: finished)
next
  case (Cons op ops)
  from run_op_refines[OF assms, where op = op and w = w] Cons[of "snd (run_op env conn op w)"]
  show ?case by (auto simp: split_beta intro: step)
qed

definition ex_ops :: "key_op list" where
  "ex_ops = [CreateOp (ex_key_req ''my-key'') [], CreateOp (ex_key_req ''my-key'') [], LookupOp ''my-key'', DeleteOp ''my-key'' [],
     LookupOp ''my-key'']"

lemma mock_missing_is_false: "missing_is_false (MockKeyPairHandler m)"
  by (auto simp: missing_is_false_def MockKeyPairHandler_def MockDeleteKey_def split: option.splits if_splits)

lemma key_registry_refinement_witness:
  "registry_run ex_ops [Added ''my-key'', Failed, Found ''my-key'', Answer True, Failed] {} {}"
proof -
  have outs: "fst (run_ops (ex_env []) ''mock'' ex_ops (ex_world [])) = [Added ''my-key'', Failed, Found ''my-key'', Answer True, Failed]"
    by code_simp
  have rows: "db_rows (st_db (w_store (snd (run_ops (ex_env []) ''mock'' ex_ops (ex_world []))))) KeyIIDInfo = []"
    by code_simp
  have reg: "registry_of list_rows c (snd (run_ops (ex_env []) ''mock'' ex_ops (ex_world []))) = {}"
    "registry_of list_rows c (ex_world []) = {}" for c
    by (simp_all add: registry_of_def wrows_def list_rows_def rows) (simp add: ex_world_def)
  have drv: "missing_is_false h" if "key_handler (ex_env []) (TrimSpace ''mock'') = Inr h" for h
    using that by (auto simp: ex_key_handler mock_missing_is_false)
  have p: "\<not> permission_mode (ex_env [])" by simp
  show ?thesis
    using key_registry_refinement[where conn = "''mock''", OF ex_gorm_ok p drv, where ops = ex_ops and w = "ex_world []"]
    unfolding outs reg by simp
qed

end
