(* ===== verification/MockAttach.thy ===== *)
theory MockAttach
  imports MockCompute
begin

text \<open>
  Disks and virtual machines of the mock driver: the relation the disks keep (who owns me) and the one the VMs keep
  (what is attached to me) agree in every state the handlers lead to, as long as a disk is detached from the VM that
  owns it, attached to a VM that exists, and no start of a VM fails halfway; what happens otherwise is shown too.
\<close>
section \<open>Lists under distinct keys\<close>

lemma update_first_map:
  assumes "distinct (map k l)" and "\<And>x. p x \<Longrightarrow> k x = a"
  shows "update_first p f l = map (\<lambda>x. if p x then f x else x) l"
  using assms(1)
proof (induction l)
  case (Cons x l)
  show ?case
  proof (cases "p x")
    case True
    with Cons.prems assms(2) have "\<not> p y" if "y \<in> set l" for y using that by (force simp: image_iff)
    then have "map (\<lambda>x. if p x then f x else x) l = l" by (simp add: map_idI)
    with True show ?thesis by simp
  qed (use Cons in simp)
qed simp

lemma find_key:
  assumes "distinct (map k l)" and "x \<in> set l" and "k x = a"
  shows "List.find (\<lambda>y. k y = a) l = Some x"
  using find_distinct[of k l x] assms by simp

lemma shift_out_length: "idx < k \<Longrightarrow> k \<le> length a \<Longrightarrow> length (shift_out idx k a) = length a"
  by (auto simp: shift_out_def)

lemma shift_out_nth: "idx < j \<Longrightarrow> Suc j < k \<Longrightarrow> k \<le> length a \<Longrightarrow> shift_out idx k a ! j = a ! Suc j"
  by (auto simp: shift_out_def nth_append min_def)

text \<open>When no element at or after \<open>idx\<close> satisfies \<open>p\<close> the range changes nothing.\<close>

lemma range_remove_none:
  assumes "\<And>j. idx \<le> j \<Longrightarrow> j < idx + m \<Longrightarrow> \<not> p (a ! j)"
  shows "range_remove p act m idx k a c = ((a, k, False), c)"
  using assms by (induction m arbitrary: idx) auto

lemma range_remove_no_match:
  assumes "\<And>x. x \<in> set l \<Longrightarrow> \<not> p x"
  shows "range_remove p act (length l) 0 (length l) l c = ((l, length l, False), c)"
  using assms by (intro range_remove_none) auto

text \<open>With one match, the loop removes it and acts on it once.\<close>

lemma range_remove_skip:
  assumes "\<And>j. j < n \<Longrightarrow> \<not> p (a ! (idx + j))" and "n \<le> m"
  shows "range_remove p act m idx k a c = range_remove p act (m - n) (idx + n) k a c"
  using assms
proof (induction n arbitrary: m idx)
  case (Suc n)
  then obtain m' where m: "m = Suc m'" by (cases m) auto
  have "\<not> p (a ! idx)" using Suc.prems(1)[of 0] by simp
  moreover have "range_remove p act m' (Suc idx) k a c = range_remove p act (m' - n) (Suc idx + n) k a c"
    using Suc.prems m by (intro Suc.IH) (metis Suc_mono add_Suc_right add_Suc, simp)
  ultimately show ?case by (simp add: m)
qed simp

lemma shift_out_split:
  "shift_out (length xs) (Suc (length xs + length ys)) (xs @ x # ys) = xs @ ys @ drop (length xs + length ys) (xs @ x # ys)"
  by (simp add: shift_out_def)

lemma range_remove_one:
  assumes "l = xs @ x # ys" and "p x" and "\<And>y. y \<in> set xs \<union> set ys \<Longrightarrow> \<not> p y"
  shows "\<exists>a. range_remove p act (length l) 0 (length l) l c = ((a, length l - 1, False), act x c) \<and> take (length l - 1) a = xs @ ys"
proof -
  let ?n = "length xs" and ?b = "shift_out (length xs) (length l) l"
  have b: "?b = xs @ ys @ drop (?n + length ys) l" using shift_out_split[of xs ys x] assms(1) by simp
  have s1: "range_remove p act (length l) 0 (length l) l c = range_remove p act (length l - ?n) ?n (length l) l c"
    using assms by (subst range_remove_skip[of ?n]) (auto simp: nth_append)
  have m: "length l - ?n = Suc (length ys)" "l ! ?n = x" "?n < length l" using assms(1) by auto
  have "\<not> p (?b ! j)" if "Suc ?n \<le> j" "j < Suc ?n + length ys" for j
  proof (cases "j < ?n + length ys")
    case True
    with that have "j - ?n < length ys" by linarith
    with that have "?b ! j \<in> set ys" by (simp add: b nth_append)
    with assms(3) show ?thesis by blast
  next
    case False
    with that have j: "j = ?n + length ys" "ys \<noteq> []" by (auto simp: not_less)
    have "?b ! j = (xs @ ys @ drop (?n + length ys) l) ! j" by (simp only: b)
    also have "\<dots> = l ! j" using j(1) assms(1) by (simp add: nth_append)
    also have "\<dots> = ys ! (length ys - 1)" using j assms(1) by (cases ys rule: rev_cases) (auto simp: nth_append)
    finally have "?b ! j \<in> set ys" using j by simp
    with assms(3) show ?thesis by blast
  qed
  then have "range_remove p act (length ys) (Suc ?n) (length l - 1) ?b (act x c) = ((?b, length l - 1, False), act x c)"
    by (intro range_remove_none) auto
  with s1 m assms(2) have "range_remove p act (length l) 0 (length l) l c = ((?b, length l - 1, False), act x c)" by (simp add: Let_def)
  moreover have "take (length l - 1) (xs @ ys @ drop (?n + length ys) l) = xs @ ys" using assms(1) by simp
  then have "take (length l - 1) ?b = xs @ ys" by (simp only: b)
  ultimately show ?thesis by blast
qed


section \<open>The two sides of an attachment\<close>

definition disks :: "string \<Rightarrow> mock \<Rightarrow> DiskInfo list" where
  "disks m c = slice_of (diskInfoMap c m)"

definition vms :: "string \<Rightarrow> mock \<Rightarrow> VMInfo list" where
  "vms m c = slice_of (vmInfoMap c m)"

text \<open>Which VM a disk says owns it, and which disks a VM says it has.\<close>

definition owners :: "DiskInfo list \<Rightarrow> (IID \<times> IID) set" where
  "owners ds = {(disk_IId d, disk_OwnerVM d) | d. d \<in> set ds \<and> disk_Status d = DiskAttached}"

definition mounts :: "VMInfo list \<Rightarrow> (IID \<times> IID) set" where
  "mounts vs = {(i, vm_IId v) | i v. v \<in> set vs \<and> i \<in> set (vm_DataDiskIIDs v)}"

text \<open>
  The two sides agree; besides, names are unique, an attached disk has an owner with a name, a free one has none,
  and no VM lists a disk twice.
\<close>

definition attach_ok :: "DiskInfo list \<Rightarrow> VMInfo list \<Rightarrow> bool" where
  "attach_ok ds vs \<longleftrightarrow> ids_ok disk_IId ds \<and> ids_ok vm_IId vs \<and> owners ds = mounts vs \<and>
     (\<forall>d \<in> set ds. disk_Status d = DiskAvailable \<and> disk_OwnerVM d = IID_zero \<or> disk_Status d = DiskAttached \<and> NameId (disk_OwnerVM d) \<noteq> []) \<and>
     (\<forall>v \<in> set vs. distinct (vm_DataDiskIIDs v) \<and> NameId (vm_IId v) \<noteq> [])"

lemma ids_ok_map: "(\<And>x. x \<in> set l \<Longrightarrow> iid (f x) = iid x) \<Longrightarrow> ids_ok iid (map f l) = ids_ok iid l"
  by (auto simp: ids_ok_def comp_def cong: map_cong)

text \<open>The effects of the operations on the lists.\<close>

definition set_owner :: "IID \<Rightarrow> IID \<Rightarrow> DiskInfo \<Rightarrow> DiskInfo" where
  "set_owner d v x = (if disk_IId x = d then x\<lparr>disk_OwnerVM := v, disk_Status := DiskAttached\<rparr> else x)"

definition clear_owner :: "IID \<Rightarrow> DiskInfo \<Rightarrow> DiskInfo" where
  "clear_owner d x = (if disk_IId x = d then x\<lparr>disk_Status := DiskAvailable, disk_OwnerVM := IID_zero\<rparr> else x)"

definition mount :: "IID \<Rightarrow> IID \<Rightarrow> VMInfo \<Rightarrow> VMInfo" where
  "mount d v x = (if vm_IId x = v then x\<lparr>vm_DataDiskIIDs := vm_DataDiskIIDs x @ [d]\<rparr> else x)"

definition unmount :: "IID \<Rightarrow> VMInfo \<Rightarrow> VMInfo" where
  "unmount d x = x\<lparr>vm_DataDiskIIDs := filter (\<lambda>i. i \<noteq> d) (vm_DataDiskIIDs x)\<rparr>"

lemma owner_sel [simp]:
  "disk_IId (set_owner d v x) = disk_IId x" "disk_OwnerVM (set_owner d v x) = (if disk_IId x = d then v else disk_OwnerVM x)"
  "disk_Status (set_owner d v x) = (if disk_IId x = d then DiskAttached else disk_Status x)"
  "disk_IId (clear_owner d x) = disk_IId x" "disk_OwnerVM (clear_owner d x) = (if disk_IId x = d then IID_zero else disk_OwnerVM x)"
  "disk_Status (clear_owner d x) = (if disk_IId x = d then DiskAvailable else disk_Status x)"
  by (simp_all add: set_owner_def clear_owner_def)

lemma mount_sel [simp]:
  "vm_IId (mount d v x) = vm_IId x" "vm_DataDiskIIDs (mount d v x) = (if vm_IId x = v then vm_DataDiskIIDs x @ [d] else vm_DataDiskIIDs x)"
  "vm_IId (unmount d x) = vm_IId x" "vm_DataDiskIIDs (unmount d x) = filter (\<lambda>i. i \<noteq> d) (vm_DataDiskIIDs x)"
  by (simp_all add: mount_def unmount_def)

lemma owners_iff: "(i, v) \<in> owners ds \<longleftrightarrow> (\<exists>d \<in> set ds. disk_IId d = i \<and> disk_OwnerVM d = v \<and> disk_Status d = DiskAttached)"
  by (auto simp: owners_def)

lemma mounts_iff: "(i, v) \<in> mounts vs \<longleftrightarrow> (\<exists>x \<in> set vs. vm_IId x = v \<and> i \<in> set (vm_DataDiskIIDs x))"
  by (auto simp: mounts_def)

lemma rel_eqI: "(\<And>i u. (i, u) \<in> A \<longleftrightarrow> (i, u) \<in> B) \<Longrightarrow> A = B"
  by auto

lemma owners_set:
  assumes "d \<in> disk_IId ` set ds"
  shows "owners (map (set_owner d v) ds) = insert (d, v) {p \<in> owners ds. fst p \<noteq> d}"
proof (rule rel_eqI)
  fix i u
  show "(i, u) \<in> owners (map (set_owner d v) ds) \<longleftrightarrow> (i, u) \<in> insert (d, v) {p \<in> owners ds. fst p \<noteq> d}"
    using assms by (auto simp: owners_iff)
qed

lemma owners_clear: "owners (map (clear_owner d) ds) = {p \<in> owners ds. fst p \<noteq> d}"
proof (rule rel_eqI)
  fix i u
  show "(i, u) \<in> owners (map (clear_owner d) ds) \<longleftrightarrow> (i, u) \<in> {p \<in> owners ds. fst p \<noteq> d}"
    by (auto simp: owners_iff)
qed

lemma mounts_mount:
  assumes "v \<in> vm_IId ` set vs"
  shows "mounts (map (mount d v) vs) = insert (d, v) (mounts vs)"
proof (rule rel_eqI)
  fix i u
  have "vm_IId x = u \<and> i \<in> set (vm_DataDiskIIDs (mount d v x)) \<longleftrightarrow> vm_IId x = u \<and> (i \<in> set (vm_DataDiskIIDs x) \<or> i = d \<and> u = v)" for x
    by auto
  then have "(i, u) \<in> mounts (map (mount d v) vs) \<longleftrightarrow> (\<exists>x \<in> set vs. vm_IId x = u \<and> (i \<in> set (vm_DataDiskIIDs x) \<or> i = d \<and> u = v))"
    by (auto simp: mounts_iff)
  with assms show "(i, u) \<in> mounts (map (mount d v) vs) \<longleftrightarrow> (i, u) \<in> insert (d, v) (mounts vs)"
    by (auto simp: mounts_iff)
qed

lemma mounts_unmount: "mounts (map (unmount d) vs) = {p \<in> mounts vs. fst p \<noteq> d}"
proof (rule rel_eqI)
  fix i u
  show "(i, u) \<in> mounts (map (unmount d) vs) \<longleftrightarrow> (i, u) \<in> {p \<in> mounts vs. fst p \<noteq> d}"
    by (auto simp: mounts_iff)
qed


lemma attach_okD:
  assumes "attach_ok ds vs"
  shows "ids_ok disk_IId ds" and "ids_ok vm_IId vs" and "owners ds = mounts vs"
    and "x \<in> set ds \<Longrightarrow> disk_Status x = DiskAvailable \<and> disk_OwnerVM x = IID_zero \<or> disk_Status x = DiskAttached \<and> NameId (disk_OwnerVM x) \<noteq> []"
    and "y \<in> set vs \<Longrightarrow> distinct (vm_DataDiskIIDs y)" and "y \<in> set vs \<Longrightarrow> NameId (vm_IId y) \<noteq> []"
  using assms by (auto simp: attach_ok_def)

lemma owners_free:
  assumes "attach_ok ds vs" and "x \<in> set ds" and "disk_Status x \<noteq> DiskAttached"
  shows "(disk_IId x, u) \<notin> owners ds"
proof
  assume "(disk_IId x, u) \<in> owners ds"
  then obtain y where y: "y \<in> set ds" "disk_IId y = disk_IId x" "disk_Status y = DiskAttached" by (auto simp: owners_iff)
  with ids_ok_same_name[OF attach_okD(1)[OF assms(1)] y(1) assms(2)] have "y = x" by simp
  with y assms(3) show False by simp
qed

lemma owner_unique:
  assumes "attach_ok ds vs" and "(i, u) \<in> owners ds" and "(i, v) \<in> owners ds"
  shows "u = v"
proof -
  from assms(2,3) obtain x y where "x \<in> set ds" "y \<in> set ds" "disk_IId x = i" "disk_IId y = i" "disk_OwnerVM x = u" "disk_OwnerVM y = v"
    by (auto simp: owners_iff)
  with ids_ok_same_name[OF attach_okD(1)[OF assms(1)], of x y] show ?thesis by auto
qed

lemma attach_ok_attach:
  assumes ok: "attach_ok ds vs" and d: "d \<in> disk_IId ` set ds" and v: "v \<in> vm_IId ` set vs" and free: "\<And>u. (d, u) \<notin> owners ds"
  shows "attach_ok (map (set_owner d v) ds) (map (mount d v) vs)"
proof -
  have m: "owners ds = mounts vs" by (rule attach_okD(3)[OF ok])
  have "{p \<in> owners ds. fst p \<noteq> d} = owners ds" using free by auto
  then have "owners (map (set_owner d v) ds) = mounts (map (mount d v) vs)" using owners_set[OF d] mounts_mount[OF v] m by simp
  moreover have "NameId v \<noteq> []" using v attach_okD(6)[OF ok] by auto
  moreover have "distinct (vm_DataDiskIIDs (mount d v y))" if "y \<in> set vs" for y
  proof -
    have "vm_IId y = v \<Longrightarrow> d \<notin> set (vm_DataDiskIIDs y)" using free[of v] that unfolding m by (auto simp: mounts_iff)
    with attach_okD(5)[OF ok that] show ?thesis by simp
  qed
  ultimately show ?thesis
    using attach_okD(1,2,4,6)[OF ok] unfolding attach_ok_def by (auto simp: ids_ok_map)
qed

lemma attach_ok_detach:
  assumes ok: "attach_ok ds vs"
  shows "attach_ok (map (clear_owner d) ds) (map (unmount d) vs)"
  by (simp add: attach_ok_def ids_ok_map owners_clear mounts_unmount attach_okD(1-3)[OF ok])
    (use attach_okD(4-6)[OF ok] in \<open>fastforce intro: distinct_filter\<close>)

lemma attach_ok_drop_disk:
  assumes ok: "attach_ok ds vs"
  shows "attach_ok (filter (\<lambda>x. disk_IId x \<noteq> d) ds) (map (unmount d) vs)"
proof -
  have "(i, u) \<in> owners (filter (\<lambda>x. disk_IId x \<noteq> d) ds) \<longleftrightarrow> (i, u) \<in> {p \<in> owners ds. fst p \<noteq> d}" for i u
    by (auto simp: owners_iff)
  then have "owners (filter (\<lambda>x. disk_IId x \<noteq> d) ds) = {p \<in> owners ds. fst p \<noteq> d}" by (rule rel_eqI)
  then have "owners (filter (\<lambda>x. disk_IId x \<noteq> d) ds) = mounts (map (unmount d) vs)"
    by (simp add: mounts_unmount attach_okD(3)[OF ok])
  moreover have "ids_ok disk_IId (filter (\<lambda>x. disk_IId x \<noteq> d) ds)" by (rule ids_ok_filter[OF attach_okD(1)[OF ok]])
  moreover have "ids_ok vm_IId (map (unmount d) vs)" using attach_okD(2)[OF ok] by (simp add: ids_ok_map)
  ultimately show ?thesis
    unfolding attach_ok_def by (intro conjI ballI) (use attach_okD(4-6)[OF ok] in \<open>force intro: distinct_filter\<close>)+
qed

lemma attach_ok_new_disk:
  assumes ok: "attach_ok ds vs" and x: "SystemId (disk_IId x) = NameId (disk_IId x)" "NameId (disk_IId x) \<notin> (NameId \<circ> disk_IId) ` set ds"
    "disk_Status x = DiskAvailable" "disk_OwnerVM x = IID_zero"
  shows "attach_ok (ds @ [x]) vs"
proof -
  have "(i, u) \<in> owners (ds @ [x]) \<longleftrightarrow> (i, u) \<in> owners ds" for i u using x by (auto simp: owners_iff)
  then have "owners (ds @ [x]) = owners ds" by (rule rel_eqI)
  with attach_okD[OF ok] x show ?thesis unfolding attach_ok_def by (auto simp: ids_ok_append)
qed

lemma attach_ok_new_vm:
  assumes ok: "attach_ok ds vs" and x: "SystemId (vm_IId x) = NameId (vm_IId x)" "NameId (vm_IId x) \<notin> (NameId \<circ> vm_IId) ` set vs"
    "vm_DataDiskIIDs x = []" "NameId (vm_IId x) \<noteq> []"
  shows "attach_ok ds (vs @ [x])"
proof -
  have "(i, u) \<in> mounts (vs @ [x]) \<longleftrightarrow> (i, u) \<in> mounts vs" for i u using x by (auto simp: mounts_iff)
  then have "mounts (vs @ [x]) = mounts vs" by (rule rel_eqI)
  with attach_okD[OF ok] x show ?thesis unfolding attach_ok_def by (auto simp: ids_ok_append)
qed

lemma attach_ok_drop_vm:
  assumes ok: "attach_ok ds vs" and x: "x \<in> set vs"
  shows "attach_ok (fold (\<lambda>d. map (clear_owner d)) (vm_DataDiskIIDs x) ds) (filter (\<lambda>y. vm_IId y \<noteq> vm_IId x) vs)"
proof -
  let ?D = "vm_DataDiskIIDs x"
  have step: "attach_ok (map (clear_owner d) ds) (map (unmount d) vs)" if "attach_ok ds vs" for d ds vs
    by (rule attach_ok_detach[OF that])
  have f: "attach_ok (fold (\<lambda>d. map (clear_owner d)) D ds) (fold (\<lambda>d. map (unmount d)) D vs)" for D
    using ok by (induction D arbitrary: ds vs) (auto intro: step)
  have u: "fold (\<lambda>d. map (unmount d)) D vs = map (\<lambda>y. y\<lparr>vm_DataDiskIIDs := filter (\<lambda>i. i \<notin> set D) (vm_DataDiskIIDs y)\<rparr>) vs" for D
    by (induction D arbitrary: vs) (auto simp: unmount_def comp_def)
  have rest: "vm_DataDiskIIDs y = filter (\<lambda>i. i \<notin> set ?D) (vm_DataDiskIIDs y)" if "y \<in> set vs" "vm_IId y \<noteq> vm_IId x" for y
  proof -
    have "i \<notin> set ?D" if "i \<in> set (vm_DataDiskIIDs y)" for i
    proof
      assume "i \<in> set ?D"
      with that \<open>y \<in> set vs\<close> x have "(i, vm_IId x) \<in> owners ds" "(i, vm_IId y) \<in> owners ds"
        unfolding attach_okD(3)[OF ok] by (auto simp: mounts_iff)
      from owner_unique[OF ok this] \<open>vm_IId y \<noteq> vm_IId x\<close> show False by simp
    qed
    then show ?thesis by (simp add: filter_id_conv)
  qed
  let ?vs = "filter (\<lambda>y. vm_IId y \<noteq> vm_IId x) vs" and ?ws = "fold (\<lambda>d. map (unmount d)) ?D vs"
  have "mounts ?ws = mounts ?vs"
  proof (rule rel_eqI)
    fix i w
    have "i \<notin> set ?D" if "y \<in> set vs" "vm_IId y \<noteq> vm_IId x" "i \<in> set (vm_DataDiskIIDs y)" for y
      using arg_cong[OF rest[OF that(1,2)], of set] that(3) by auto
    moreover have "vm_IId y \<noteq> vm_IId x" if "y \<in> set vs" "i \<in> set (vm_DataDiskIIDs y)" "i \<notin> set ?D" for y
      using ids_ok_same_name[OF attach_okD(2)[OF ok] that(1) x] that(2,3) by auto
    ultimately show "(i, w) \<in> mounts ?ws \<longleftrightarrow> (i, w) \<in> mounts ?vs"
      by (auto simp: u mounts_iff)
  qed
  with f[of ?D] attach_okD(2,5,6)[OF ok] show ?thesis
    unfolding attach_ok_def by (auto simp: ids_ok_filter)
qed


section \<open>What the methods do to the two lists\<close>

lemma lists_simps [simp]:
  "disks m (tick c) = disks m c" "vms m (tick c) = vms m c"
  "vms m (set_disk m i d l c) = vms m c" "disks m (set_disk m i d l c) = update_first (named_disk i) (\<lambda>_. d) l"
  by (simp_all add: disks_def vms_def tick_def set_disk_def slice_of_def)

lemma named_disk_iff:
  assumes "ids_ok disk_IId ds" and "i \<in> disk_IId ` set ds" and "x \<in> set ds"
  shows "named_disk i x \<longleftrightarrow> disk_IId x = i"
  using assms ids_ok_same_name[OF assms(1)] by (auto simp: named_disk_def)

lemma with_disk_found:
  assumes "ids_ok disk_IId (disks m c)" and "i \<in> disk_IId ` set (disks m c)"
  shows "\<exists>d. d \<in> set (disks m c) \<and> disk_IId d = i \<and> with_disk m i k c = k d (disks m c) c"
proof -
  from assms(2) obtain l where l: "diskInfoMap c m = Some l" by (cases "diskInfoMap c m") (auto simp: disks_def slice_of_def)
  from assms(2) obtain d where d: "d \<in> set (disks m c)" "disk_IId d = i" by auto
  have "distinct (map (NameId \<circ> disk_IId) (disks m c))" using assms(1) by (simp add: ids_ok_def)
  then have "List.find (\<lambda>y. (NameId \<circ> disk_IId) y = NameId i) (disks m c) = Some d" by (rule find_key[OF _ d(1)]) (simp add: d)
  moreover have "named_disk i = (\<lambda>y. (NameId \<circ> disk_IId) y = NameId i)" by (auto simp: named_disk_def)
  ultimately have "List.find (named_disk i) l = Some d" by (simp add: disks_def slice_of_def l)
  with d l show ?thesis by (intro exI[of _ d]) (simp add: with_disk_def disks_def slice_of_def)
qed

lemma update_named_disk:
  assumes "ids_ok disk_IId ds" and "d \<in> set ds"
  shows "update_first (named_disk (disk_IId d)) f ds = map (\<lambda>x. if disk_IId x = disk_IId d then f x else x) ds"
proof -
  have "update_first (named_disk (disk_IId d)) f ds = map (\<lambda>x. if named_disk (disk_IId d) x then f x else x) ds"
    using assms(1) by (intro update_first_map[of "NameId \<circ> disk_IId" _ _ "NameId (disk_IId d)"]) (auto simp: ids_ok_def named_disk_def)
  also have "\<dots> = map (\<lambda>x. if disk_IId x = disk_IId d then f x else x) ds"
    using named_disk_iff[OF assms(1)] assms(2) by (intro map_cong) auto
  finally show ?thesis .
qed

lemma map_same_disk:
  assumes "ids_ok disk_IId ds" and "d \<in> set ds"
  shows "map (\<lambda>x. if disk_IId x = disk_IId d then f d else x) ds = map (\<lambda>x. if disk_IId x = disk_IId d then f x else x) ds"
proof (rule map_cong[OF refl])
  fix x
  assume "x \<in> set ds"
  then have "disk_IId x = disk_IId d \<Longrightarrow> x = d" by (intro ids_ok_same_name[OF assms(1) _ assms(2)]) simp_all
  then show "(if disk_IId x = disk_IId d then f d else x) = (if disk_IId x = disk_IId d then f x else x)" by auto
qed

lemma ids_ok_distinct_SystemId: "ids_ok iid l \<Longrightarrow> distinct (map (SystemId \<circ> iid) l)"
  unfolding ids_ok_def by (metis (no_types, lifting) comp_apply map_cong)

lemma set_disk_owner:
  assumes "ids_ok disk_IId ds" and "d \<in> set ds"
  shows "update_first (named_disk (disk_IId d)) (\<lambda>_. d\<lparr>disk_OwnerVM := v, disk_Status := DiskAttached\<rparr>) ds = map (set_owner (disk_IId d) v) ds"
    and "update_first (named_disk (disk_IId d)) (\<lambda>_. d\<lparr>disk_Status := DiskAttached, disk_OwnerVM := v\<rparr>) ds = map (set_owner (disk_IId d) v) ds"
    and "update_first (named_disk (disk_IId d)) (\<lambda>_. d\<lparr>disk_Status := DiskAvailable, disk_OwnerVM := IID_zero\<rparr>) ds = map (clear_owner (disk_IId d)) ds"
  using map_same_disk[OF assms, of "\<lambda>x. x\<lparr>disk_OwnerVM := v, disk_Status := DiskAttached\<rparr>"]
    map_same_disk[OF assms, of "\<lambda>x. x\<lparr>disk_Status := DiskAttached, disk_OwnerVM := v\<rparr>"]
    map_same_disk[OF assms, of "\<lambda>x. x\<lparr>disk_Status := DiskAvailable, disk_OwnerVM := IID_zero\<rparr>"]
  unfolding update_named_disk[OF assms] set_owner_def clear_owner_def by simp_all

text \<open>\<open>diskAttach\<close> and \<open>diskDetach\<close> on a VM that is there.\<close>

lemma diskAttach_vms:
  assumes ok: "ids_ok vm_IId (vms m c)" and v: "v \<in> vm_IId ` set (vms m c)"
  shows "vms m (snd (diskAttach m v d c)) = map (mount d v) (vms m c)" and "disks m (snd (diskAttach m v d c)) = disks m c"
proof -
  from v obtain l where l: "vmInfoMap c m = Some l" by (cases "vmInfoMap c m") (auto simp: vms_def slice_of_def)
  then have vl: "vms m c = l" by (simp add: vms_def slice_of_def)
  have s: "SystemId (vm_IId x) = SystemId v \<longleftrightarrow> vm_IId x = v" if "x \<in> set l" for x
    using that v ids_ok_SystemId[OF ok] unfolding vl by auto
  have "distinct (map (SystemId \<circ> vm_IId) l)" using ids_ok_distinct_SystemId[OF ok] unfolding vl .
  then have "update_first (\<lambda>x. SystemId (vm_IId x) = SystemId v) f l = map (\<lambda>x. if SystemId (vm_IId x) = SystemId v then f x else x) l" for f
    by (rule update_first_map[of _ _ _ "SystemId v"]) simp
  also have "map (\<lambda>x. if SystemId (vm_IId x) = SystemId v then f x else x) l = map (\<lambda>x. if vm_IId x = v then f x else x) l" for f :: "VMInfo \<Rightarrow> VMInfo"
    using s by (intro map_cong) auto
  finally have u: "update_first (\<lambda>x. SystemId (vm_IId x) = SystemId v) f l = map (\<lambda>x. if vm_IId x = v then f x else x) l" for f .
  have "list_ex (\<lambda>x. SystemId (vm_IId x) = SystemId v) l" using v s unfolding vl by (auto simp: list_ex_iff)
  with l u show "vms m (snd (diskAttach m v d c)) = map (mount d v) (vms m c)" and "disks m (snd (diskAttach m v d c)) = disks m c"
    by (simp_all add: diskAttach_def vms_def disks_def slice_of_def mount_def cong: map_cong)
qed


lemma mounted_disk:
  assumes "attach_ok ds vs" and "y \<in> set vs" and "i \<in> set (vm_DataDiskIIDs y)"
  shows "i \<in> disk_IId ` set ds" and "(i, vm_IId y) \<in> owners ds"
proof -
  from assms show "(i, vm_IId y) \<in> owners ds" unfolding attach_okD(3)[OF assms(1)] by (auto simp: mounts_iff)
  then show "i \<in> disk_IId ` set ds" by (auto simp: owners_iff)
qed

lemma SystemId_disk:
  assumes "ids_ok disk_IId ds" and "i \<in> disk_IId ` set ds" and "j \<in> disk_IId ` set ds"
  shows "SystemId i = SystemId j \<longleftrightarrow> i = j"
  using assms ids_ok_SystemId[OF assms(1)] by auto

lemma remove_mounted:
  assumes ok: "attach_ok ds vs" and y: "y \<in> set vs" and d: "d \<in> disk_IId ` set ds"
  shows "remove_first (\<lambda>i. SystemId i = SystemId d) (vm_DataDiskIIDs y) = filter (\<lambda>i. i \<noteq> d) (vm_DataDiskIIDs y)"
proof -
  let ?D = "vm_DataDiskIIDs y"
  have s: "SystemId i = SystemId j \<longleftrightarrow> i = j" if "i \<in> set ?D" "j \<in> set ?D \<union> {d}" for i j
    using SystemId_disk[OF attach_okD(1)[OF ok]] mounted_disk(1)[OF ok y] that d by auto
  then have "distinct (map SystemId ?D)" using attach_okD(5)[OF ok y] by (auto simp: distinct_map inj_on_def)
  then have "remove_first (\<lambda>i. SystemId i = SystemId d) ?D = filter (\<lambda>i. SystemId i \<noteq> SystemId d) ?D"
    by (rule remove_first_distinct)
  also have "\<dots> = filter (\<lambda>i. i \<noteq> d) ?D" using s by (intro filter_cong) auto
  finally show ?thesis .
qed

lemma diskDetach_vms:
  assumes ok: "attach_ok (disks m c) (vms m c)" and o: "(d, v) \<in> owners (disks m c)" and d': "SystemId d' = SystemId d"
  shows "vms m (snd (diskDetach m v d' c)) = map (unmount d) (vms m c)" and "disks m (snd (diskDetach m v d' c)) = disks m c"
proof -
  have d: "d \<in> disk_IId ` set (disks m c)" using o by (auto simp: owners_iff)
  from o obtain x where x: "x \<in> set (vms m c)" "vm_IId x = v" "d \<in> set (vm_DataDiskIIDs x)"
    unfolding attach_okD(3)[OF ok] by (auto simp: mounts_iff)
  then obtain l where l: "vmInfoMap c m = Some l" by (cases "vmInfoMap c m") (auto simp: vms_def slice_of_def)
  then have vl: "vms m c = l" by (simp add: vms_def slice_of_def)
  have h: "vm_has_disk v d' y \<longleftrightarrow> vm_IId y = v" if "y \<in> set l" for y
  proof
    assume "vm_has_disk v d' y"
    then have "NameId (vm_IId y) = NameId (vm_IId x)" using x by (simp add: vm_has_disk_def)
    with ids_ok_same_name[OF attach_okD(2)[OF ok]] x that vl show "vm_IId y = v" by metis
  next
    assume "vm_IId y = v"
    with ids_ok_same_name[OF attach_okD(2)[OF ok], of y x] x that vl have "y = x" by simp
    with x d' show "vm_has_disk v d' y" by (auto simp: vm_has_disk_def list_ex_iff)
  qed
  let ?f = "\<lambda>y. y\<lparr>vm_DataDiskIIDs := remove_first (\<lambda>i. SystemId i = SystemId d') (vm_DataDiskIIDs y)\<rparr>"
  have "update_first (vm_has_disk v d') ?f l = map (\<lambda>y. if vm_has_disk v d' y then ?f y else y) l"
    using attach_okD(2)[OF ok] unfolding vl
    by (intro update_first_map[of "NameId \<circ> vm_IId" _ _ "NameId v"]) (auto simp: ids_ok_def vm_has_disk_def)
  also have "\<dots> = map (unmount d) l"
  proof (rule map_cong[OF refl])
    fix y
    assume y: "y \<in> set l"
    show "(if vm_has_disk v d' y then ?f y else y) = unmount d y"
    proof (cases "vm_IId y = v")
      case True
      with h[OF y] show ?thesis using remove_mounted[OF ok _ d, of y] y vl by (simp add: unmount_def d')
    next
      case False
      have "d \<notin> set (vm_DataDiskIIDs y)"
        using mounted_disk(2)[OF ok, of y d] owner_unique[OF ok o] y vl False by auto
      then have "filter (\<lambda>i. i \<noteq> d) (vm_DataDiskIIDs y) = vm_DataDiskIIDs y" by (auto simp: filter_id_conv)
      with h[OF y] False show ?thesis by (simp add: unmount_def)
    qed
  qed
  finally have "update_first (vm_has_disk v d') ?f l = map (unmount d) l" .
  moreover have "list_ex (vm_has_disk v d') l" using h x vl by (auto simp: list_ex_iff)
  ultimately show "vms m (snd (diskDetach m v d' c)) = map (unmount d) (vms m c)" and "disks m (snd (diskDetach m v d' c)) = disks m c"
    using l by (simp_all add: diskDetach_def vms_def disks_def slice_of_def)
qed

text \<open>The methods keep the two sides in step.\<close>

lemma MockCreateDisk_ok:
  assumes ok: "attach_ok (disks m c) (vms m c)" and "NameId (disk_IId req) \<notin> (NameId \<circ> disk_IId) ` set (disks m c)" and "disk_OwnerVM req = IID_zero"
  shows "attach_ok (disks m (snd (MockCreateDisk m req c))) (vms m (snd (MockCreateDisk m req c)))"
proof -
  have "vms m (snd (MockCreateDisk m req c)) = vms m c"
    by (simp add: MockCreateDisk_def Let_def vms_def tick_def)
  moreover have "\<exists>x. disks m (snd (MockCreateDisk m req c)) = disks m c @ [x] \<and> disk_IId x = (disk_IId req)\<lparr>SystemId := NameId (disk_IId req)\<rparr> \<and>
      disk_Status x = DiskAvailable \<and> disk_OwnerVM x = IID_zero"
    using assms(3) by (simp add: MockCreateDisk_def Let_def disks_def tick_def slice_of_def)
  ultimately show ?thesis using attach_ok_new_disk[OF ok] assms(2) by auto
qed

lemma MockAttachDisk_ok:
  assumes ok: "attach_ok (disks m c) (vms m c)" and v: "v \<in> vm_IId ` set (vms m c)" and d: "d \<in> disk_IId ` set (disks m c)"
  shows "attach_ok (disks m (snd (MockAttachDisk m d v c))) (vms m (snd (MockAttachDisk m d v c)))"
proof -
  let ?k = "\<lambda>info infoList c.
       if disk_Status info = DiskAttached then (Inl (NameId d @ '' Disk is already Attached status!!''), c)
       else if disk_Status info \<noteq> DiskAvailable
       then (Inl (NameId d @ '' Disk is not Available status!! It is '' @ disk_Status info @ '' status''), c)
       else
         (let info' = info\<lparr>disk_OwnerVM := v, disk_Status := DiskAttached\<rparr>
          in (Inr (CloneDiskInfo info'), snd (diskAttach m v d (set_disk m d info' infoList c))))"
  obtain x where x: "x \<in> set (disks m c)" "disk_IId x = d" and r: "MockAttachDisk m d v c = ?k x (disks m c) c"
    using with_disk_found[OF attach_okD(1)[OF ok] d, of ?k] unfolding MockAttachDisk_def by blast
  show ?thesis
  proof (cases "disk_Status x = DiskAvailable")
    case True
    let ?c = "set_disk m d (x\<lparr>disk_OwnerVM := v, disk_Status := DiskAttached\<rparr>) (disks m c) c"
    have ds: "disks m ?c = map (set_owner d v) (disks m c)"
      using set_disk_owner(1)[OF attach_okD(1)[OF ok] x(1), of v] x(2) by simp
    have vs: "vms m (snd (diskAttach m v d ?c)) = map (mount d v) (vms m c)" "disks m (snd (diskAttach m v d ?c)) = disks m ?c"
      using diskAttach_vms[of m ?c v d] v attach_okD(2)[OF ok] by simp_all
    have "(d, u) \<notin> owners (disks m c)" for u using owners_free[OF ok x(1), of u] x(2) True by simp
    from attach_ok_attach[OF ok d v this] show ?thesis using True unfolding r by (simp add: Let_def vs ds[simplified])
  next
    case False
    then show ?thesis using ok unfolding r by simp
  qed
qed


lemma MockDetachDisk_ok:
  assumes ok: "attach_ok (disks m c) (vms m c)" and o: "(d, v) \<in> owners (disks m c)"
  shows "attach_ok (disks m (snd (MockDetachDisk m d v c))) (vms m (snd (MockDetachDisk m d v c)))"
proof -
  let ?k = "\<lambda>info infoList c.
       if disk_Status info \<noteq> DiskAttached then (Inl (not_attached d (disk_Status info)), c)
       else (Inr True, set_disk m d (info\<lparr>disk_Status := DiskAvailable, disk_OwnerVM := IID_zero\<rparr>) infoList (snd (diskDetach m v d c)))"
  have d: "d \<in> disk_IId ` set (disks m c)" using o by (auto simp: owners_iff)
  obtain x where x: "x \<in> set (disks m c)" "disk_IId x = d" and r: "MockDetachDisk m d v c = ?k x (disks m c) c"
    using with_disk_found[OF attach_okD(1)[OF ok] d, of ?k] unfolding MockDetachDisk_def by blast
  have ds: "update_first (named_disk d) (\<lambda>_. x\<lparr>disk_Status := DiskAvailable, disk_OwnerVM := IID_zero\<rparr>) (disks m c) = map (clear_owner d) (disks m c)"
    using set_disk_owner(3)[OF attach_okD(1)[OF ok] x(1)] x(2) by simp
  show ?thesis
    using ok attach_ok_detach[OF ok, of d] unfolding r by (simp add: ds diskDetach_vms[OF ok o refl])
qed

lemma disk_owner_known:
  assumes "attach_ok ds vs" and "x \<in> set ds" and "NameId (disk_OwnerVM x) \<noteq> []"
  shows "(disk_IId x, disk_OwnerVM x) \<in> owners ds"
  using attach_okD(4)[OF assms(1,2)] assms(2,3) by (auto simp: owners_iff IID_zero_def)

lemma unmount_free:
  assumes ok: "attach_ok ds vs" and "\<And>u. (d, u) \<notin> owners ds"
  shows "map (unmount d) vs = vs"
proof (rule map_idI)
  fix y
  assume "y \<in> set vs"
  with assms(2)[unfolded attach_okD(3)[OF ok], of "vm_IId y"] have "d \<notin> set (vm_DataDiskIIDs y)" by (auto simp: mounts_iff)
  then have "filter (\<lambda>i. i \<noteq> d) (vm_DataDiskIIDs y) = vm_DataDiskIIDs y" by (auto simp: filter_id_conv)
  then show "unmount d y = y" by (simp add: unmount_def)
qed

lemma MockDeleteDisk_ok:
  assumes ok: "attach_ok (disks m c) (vms m c)"
  shows "attach_ok (disks m (snd (MockDeleteDisk m i c))) (vms m (snd (MockDeleteDisk m i c)))"
proof (cases "diskInfoMap c m")
  case None
  with ok show ?thesis by (simp add: MockDeleteDisk_def)
next
  case (Some l)
  then have l: "disks m c = l" by (simp add: disks_def slice_of_def)
  show ?thesis
  proof (cases "List.find (\<lambda>x. SystemId (disk_IId x) = SystemId i) l")
    case None
    with Some ok show ?thesis by (simp add: MockDeleteDisk_def)
  next
    case found: (Some x)
    then have x: "x \<in> set (disks m c)" "SystemId (disk_IId x) = SystemId i" unfolding l by (auto dest: find_SomeD)
    let ?d = "disk_IId x" and ?c1 = "if NameId (disk_OwnerVM x) \<noteq> [] then snd (diskDetach m (disk_OwnerVM x) i c) else c"
    have vs: "vms m ?c1 = map (unmount ?d) (vms m c)"
    proof (cases "NameId (disk_OwnerVM x) = []")
      case True
      then have "(?d, u) \<notin> owners (disks m c)" for u
        using owners_free[OF ok x(1), of u] attach_okD(4)[OF ok x(1)] by auto
      from unmount_free[OF ok this] True show ?thesis by simp
    next
      case False
      from diskDetach_vms(1)[OF ok disk_owner_known[OF ok x(1) False] x(2)[symmetric]] False show ?thesis by simp
    qed
    have "distinct (map (SystemId \<circ> disk_IId) l)" using ids_ok_distinct_SystemId[OF attach_okD(1)[OF ok]] l by simp
    from remove_first_distinct[OF this, of "SystemId i"]
    have "remove_first (\<lambda>x. SystemId (disk_IId x) = SystemId i) l = filter (\<lambda>y. SystemId (disk_IId y) \<noteq> SystemId i) l" by simp
    also have "\<dots> = filter (\<lambda>y. disk_IId y \<noteq> ?d) l"
    proof (rule filter_cong[OF refl])
      fix y
      assume "y \<in> set l"
      with SystemId_disk[OF attach_okD(1)[OF ok], of "disk_IId y" ?d] x l
      show "(SystemId (disk_IId y) \<noteq> SystemId i) = (disk_IId y \<noteq> ?d)" by simp
    qed
    finally have ds: "remove_first (\<lambda>x. SystemId (disk_IId x) = SystemId i) l = filter (\<lambda>y. disk_IId y \<noteq> ?d) (disks m c)" using l by simp
    have "disks m (snd (MockDeleteDisk m i c)) = filter (\<lambda>y. disk_IId y \<noteq> ?d) (disks m c)"
      unfolding ds[symmetric] by (simp add: MockDeleteDisk_def Some found Let_def disks_def slice_of_def)
    moreover have "vms m (snd (MockDeleteDisk m i c)) = vms m ?c1"
      by (simp add: MockDeleteDisk_def Some found Let_def vms_def)
    ultimately show ?thesis using attach_ok_drop_disk[OF ok, of ?d] vs by simp
  qed
qed

lemma detach_disks_lists:
  assumes "ids_ok disk_IId (disks m c)" and "set D \<subseteq> disk_IId ` set (disks m c)" and "distinct D"
    and "\<And>x. x \<in> set (disks m c) \<Longrightarrow> disk_IId x \<in> set D \<Longrightarrow> disk_Status x = DiskAttached"
  shows "disks m (detach_disks m v D c) = fold (\<lambda>d. map (clear_owner d)) D (disks m c) \<and>
    vmInfoMap (detach_disks m v D c) = vmInfoMap c \<and> vmStatusInfoMap (detach_disks m v D c) = vmStatusInfoMap c"
  using assms
proof (induction D arbitrary: c)
  case Nil
  then show ?case by simp
next
  case (Cons d D)
  let ?k = "\<lambda>info infoList c.
       if disk_Status info \<noteq> DiskAttached then (Inl (not_attached d (disk_Status info)), c)
       else (Inr True, set_disk m d (info\<lparr>disk_Status := DiskAvailable, disk_OwnerVM := IID_zero\<rparr>) infoList c)"
  obtain x where x: "x \<in> set (disks m c)" "disk_IId x = d" and r: "justDetachDisk m d v c = ?k x (disks m c) c"
    using with_disk_found[OF Cons.prems(1), of d ?k] Cons.prems(2) unfolding justDetachDisk_def by auto
  let ?c = "snd (justDetachDisk m d v c)"
  have "disk_Status x = DiskAttached" using Cons.prems(4)[OF x(1)] x(2) by simp
  then have c: "?c = set_disk m d (x\<lparr>disk_Status := DiskAvailable, disk_OwnerVM := IID_zero\<rparr>) (disks m c) c" unfolding r by simp
  have ds: "disks m ?c = map (clear_owner d) (disks m c)"
    using set_disk_owner(3)[OF Cons.prems(1) x(1)] x(2) unfolding c by simp
  have "disks m (detach_disks m v D ?c) = fold (\<lambda>d. map (clear_owner d)) D (disks m ?c) \<and>
      vmInfoMap (detach_disks m v D ?c) = vmInfoMap ?c \<and> vmStatusInfoMap (detach_disks m v D ?c) = vmStatusInfoMap ?c"
    using Cons.prems by (intro Cons.IH) (auto simp: ds ids_ok_map image_image)
  then show ?case unfolding detach_disks.simps by (simp add: ds) (simp add: c set_disk_def)
qed

lemma owned_attached:
  assumes "attach_ok ds vs" and "y \<in> set vs" and "x \<in> set ds" and "disk_IId x \<in> set (vm_DataDiskIIDs y)"
  shows "disk_Status x = DiskAttached"
proof -
  obtain z where "z \<in> set ds" "disk_IId z = disk_IId x" "disk_Status z = DiskAttached"
    using mounted_disk(2)[OF assms(1,2,4)] by (auto simp: owners_iff)
  with ids_ok_same_name[OF attach_okD(1)[OF assms(1)] _ assms(3)] show ?thesis by metis
qed

lemma MockTerminateVM_ok:
  assumes ok: "attach_ok (disks m c) (vms m c)"
  shows "attach_ok (disks m (snd (MockTerminateVM m i c))) (vms m (snd (MockTerminateVM m i c)))"
proof (cases "vmInfoMap c m = None \<or> vmStatusInfoMap c m = None")
  case True
  with ok show ?thesis by (auto simp: MockTerminateVM_def split: option.split)
next
  case False
  then obtain l s where l: "vmInfoMap c m = Some l" and s: "vmStatusInfoMap c m = Some s" by auto
  have vl: "vms m c = l" using l by (simp add: vms_def slice_of_def)
  let ?p = "\<lambda>x. SystemId (vm_IId x) = SystemId i" and ?act = "\<lambda>x. detach_disks m (vm_IId x) (vm_DataDiskIIDs x)"
  have "\<exists>a k c1. range_remove ?p ?act (length l) 0 (length l) l c = ((a, k, False), c1) \<and> attach_ok (disks m c1) (take k a)"
  proof (cases "\<exists>x \<in> set l. ?p x")
    case True
    then obtain x xs ys where x: "x \<in> set l" "?p x" and split: "l = xs @ x # ys" by (metis split_list)
    have "distinct (map (SystemId \<circ> vm_IId) l)" using ids_ok_distinct_SystemId[OF attach_okD(2)[OF ok]] vl by simp
    then have others: "\<not> ?p y" if "y \<in> set xs \<union> set ys" for y using that x(2) split by (force simp: image_iff)
    obtain a where r: "range_remove ?p ?act (length l) 0 (length l) l c = ((a, length l - 1, False), ?act x c)" "take (length l - 1) a = xs @ ys"
      using range_remove_one[where p="?p" and act="?act" and c=c, OF split x(2) others] by blast
    have "vm_IId y \<noteq> vm_IId x" if "y \<in> set xs \<union> set ys" for y using others[OF that] x(2) by metis
    then have "filter (\<lambda>y. vm_IId y \<noteq> vm_IId x) l = xs @ ys" using split by (auto simp: filter_id_conv)
    moreover have "disks m (?act x c) = fold (\<lambda>d. map (clear_owner d)) (vm_DataDiskIIDs x) (disks m c)"
      using detach_disks_lists[OF attach_okD(1)[OF ok], of "vm_DataDiskIIDs x"] mounted_disk(1)[OF ok] attach_okD(5)[OF ok]
        owned_attached[OF ok] x(1) vl by blast
    ultimately show ?thesis using attach_ok_drop_vm[OF ok, of x] x(1) vl r by simp
  next
    case False
    then have "range_remove ?p ?act (length l) 0 (length l) l c = ((l, length l, False), c)" by (intro range_remove_no_match) auto
    with ok vl show ?thesis by simp
  qed
  then obtain a k c1 where r: "range_remove ?p ?act (length l) 0 (length l) l c = ((a, k, False), c1)" "attach_ok (disks m c1) (take k a)"
    by blast
  have "disks m (snd (MockTerminateVM m i c)) = disks m c1" "vms m (snd (MockTerminateVM m i c)) = take k a"
    using r(1) by (auto simp: MockTerminateVM_def l s Let_def disks_def vms_def slice_of_def split: prod.split)
  with r(2) show ?thesis by simp
qed

lemma owners_set_free:
  assumes "attach_ok ds vs" and "x \<in> set ds" and "disk_Status x = DiskAvailable"
  shows "(disk_IId x, u) \<notin> owners ds"
  using owners_free[OF assms(1,2)] assms(3) by simp

text \<open>The loop "attach disks" of \<open>StartVM\<close> on free disks.\<close>

lemma attach_disks_ok:
  assumes "attach_ok (disks m c) (l @ [v\<lparr>vm_DataDiskIIDs := E\<rparr>])" and "vm_IId v \<notin> vm_IId ` set l"
    and "distinct D" and "set D \<subseteq> disk_IId ` set (disks m c)"
    and "\<And>x. x \<in> set (disks m c) \<Longrightarrow> disk_IId x \<in> set D \<Longrightarrow> disk_Status x = DiskAvailable"
  shows "wp (attach_disks m (vm_IId v) D)
     (\<lambda>_ c'. attach_ok (disks m c') (l @ [v\<lparr>vm_DataDiskIIDs := E @ D\<rparr>]) \<and> vmInfoMap c' = vmInfoMap c) (\<lambda>_ _. False) c"
  using assms
proof (induction D arbitrary: c E)
  case Nil
  then show ?case by (simp add: wp_simps)
next
  case (Cons d D)
  let ?k = "\<lambda>info infoList c.
       if disk_Status info \<noteq> DiskAvailable
       then (Inl (NameId d @ '' Disk is not Available status!!. It is '' @ disk_Status info @ '' status''), c)
       else (Inr True, set_disk m d (info\<lparr>disk_Status := DiskAttached, disk_OwnerVM := vm_IId v\<rparr>) infoList c)"
  note ok = attach_okD(1)[OF Cons.prems(1)]
  obtain x where x: "x \<in> set (disks m c)" "disk_IId x = d" and r: "justAttachDisk m d (vm_IId v) c = ?k x (disks m c) c"
    using with_disk_found[OF ok, of d ?k] Cons.prems(4) unfolding justAttachDisk_def by auto
  let ?c = "set_disk m d (x\<lparr>disk_Status := DiskAttached, disk_OwnerVM := vm_IId v\<rparr>) (disks m c) c"
  have free: "disk_Status x = DiskAvailable" using Cons.prems(5)[OF x(1)] x(2) by simp
  have ds: "disks m ?c = map (set_owner d (vm_IId v)) (disks m c)"
    using set_disk_owner(2)[OF ok x(1), of "vm_IId v"] x(2) by simp
  have "(d, u) \<notin> owners (disks m c)" for u using owners_set_free[OF Cons.prems(1) x(1) free] x(2) by simp
  then have "attach_ok (map (set_owner d (vm_IId v)) (disks m c)) (map (mount d (vm_IId v)) (l @ [v\<lparr>vm_DataDiskIIDs := E\<rparr>]))"
    using x by (intro attach_ok_attach[OF Cons.prems(1)]) auto
  moreover have "map (mount d (vm_IId v)) l = l" using Cons.prems(2) by (intro map_idI) (metis (no_types, lifting) image_eqI mount_def)
  ultimately have "attach_ok (disks m ?c) (l @ [v\<lparr>vm_DataDiskIIDs := E @ [d]\<rparr>])" unfolding ds by (simp add: mount_def)
  then have "wp (attach_disks m (vm_IId v) D)
      (\<lambda>_ c'. attach_ok (disks m c') (l @ [v\<lparr>vm_DataDiskIIDs := (E @ [d]) @ D\<rparr>]) \<and> vmInfoMap c' = vmInfoMap ?c) (\<lambda>_ _. False) ?c"
    using Cons.prems(2-5) by (intro Cons.IH) (auto simp only: ds image_image set_map owner_sel list.set distinct.simps insert_iff simp_thms split: if_splits)
  moreover have "vmInfoMap ?c = vmInfoMap c" by (simp add: set_disk_def)
  ultimately show ?case using free by (simp add: wp_simps r wp_def[of "justAttachDisk m d (vm_IId v)"])
qed

lemma distinct_keys_one:
  assumes "distinct (map k (y # ys))" and "\<And>z. z \<in> set (y # ys) \<Longrightarrow> k z = a"
  shows "ys = []"
  using assms by (cases ys) auto

lemma check_disks_found:
  assumes "check_disks infos reqs acc = Inr D" and "distinct (map (NameId \<circ> disk_IId) infos)" and "distinct (map NameId reqs)"
  shows "\<exists>E. D = acc @ E \<and> distinct E \<and> set E \<subseteq> disk_IId ` set infos \<and> NameId ` set E = NameId ` set reqs"
  using assms(1,3)
proof (induction reqs arbitrary: acc)
  case (Cons i reqs)
  then obtain y ys where f: "filter (\<lambda>d. NameId (disk_IId d) = NameId i) infos = y # ys"
    by (auto split: list.splits)
  have "filter (\<lambda>d. NameId (disk_IId d) = NameId i) infos = [y]"
  proof -
    have "distinct (map (NameId \<circ> disk_IId) (y # ys))" unfolding f[symmetric] by (rule distinct_map_filter[OF assms(2)])
    moreover have "(NameId \<circ> disk_IId) z = NameId i" if "z \<in> set (y # ys)" for z using that unfolding f[symmetric] by simp
    ultimately have "ys = []" by (rule distinct_keys_one)
    then show ?thesis unfolding f by simp
  qed
  moreover have "y \<in> set (filter (\<lambda>d. NameId (disk_IId d) = NameId i) infos)" unfolding f by simp
  then have y: "y \<in> set infos" "NameId (disk_IId y) = NameId i" by simp_all
  ultimately have "check_disks infos reqs (acc @ [disk_IId y]) = Inr D" "distinct (map NameId reqs)" using Cons.prems by simp_all
  then obtain E where "D = (acc @ [disk_IId y]) @ E" "distinct E" "set E \<subseteq> disk_IId ` set infos" "NameId ` set E = NameId ` set reqs"
    using Cons.IH by blast
  moreover have "disk_IId y \<notin> set E"
  proof
    assume "disk_IId y \<in> set E"
    then have "NameId i \<in> NameId ` set reqs" using \<open>NameId ` set E = _\<close> y(2) by (metis imageI)
    with Cons.prems(2) show False by auto
  qed
  ultimately show ?case using y by (intro exI[of _ "disk_IId y # E"]) auto
qed simp

text \<open>The checks of \<open>StartVM\<close> only read.\<close>

definition only_reads :: "('s, 'a) prog \<Rightarrow> bool" where
  "only_reads p \<longleftrightarrow> (\<forall>s. snd (p s) = s)"

lemma only_reads_wp: "only_reads p \<Longrightarrow> (\<And>x. p c = (Inr x, c) \<Longrightarrow> Q x c) \<Longrightarrow> (\<And>e. p c = (Inl e, c) \<Longrightarrow> E e c) \<Longrightarrow> wp p Q E c"
  by (cases "p c"; cases "fst (p c)") (auto simp: wp_def only_reads_def dest: spec[of _ c])

lemma wp_run: "wp (\<lambda>c. (Inr v, f c)) Q E = (\<lambda>c. Q v (f c))"
  by (simp add: wp_def fun_eq_iff)

lemma wp_now: "Q (mock_clock c) (tick c) \<Longrightarrow> wp now Q E c"
  by (simp add: wp_def now_def)

lemma only_reads_basic [simp]: "only_reads (ret x)" "only_reads (throw e)" "only_reads (lift_result r)"
  by (simp_all add: only_reads_def prog_simps)

lemma only_reads_bindP [simp]: "only_reads p \<Longrightarrow> (\<And>x. only_reads (f x)) \<Longrightarrow> only_reads (bindP p f)"
  unfolding only_reads_def bindP_def by (auto split: prod.split sum.split) (metis prod.collapse snd_conv)+

lemma mock_readers [simp]:
  "only_reads (MockListImage m)" "only_reads (MockGetMyImage m i)" "only_reads (MockListVMSpec m)" "only_reads (MockListVPC m)" "only_reads (MockGetVPC m i)"
  "only_reads (MockListSecurity m)" "only_reads (MockListDisk m)" "only_reads (MockGetKey m i)"
  by (simp_all add: only_reads_def MockListImage_def MockGetMyImage_def MockListVMSpec_def MockListVPC_def MockGetVPC_def
      MockListSecurity_def MockListDisk_def MockGetKey_def prog_simps split: option.split)

lemma mock_readers2 [simp]: "only_reads (MockGetImage m i)" "only_reads (MockGetVMSpec m n)" "only_reads (check_image m req)"
  by (auto simp: MockGetImage_def MockGetVMSpec_def check_image_def split: option.split intro!: only_reads_bindP)

definition start_allowed :: "string \<Rightarrow> VMReqInfo \<Rightarrow> mock \<Rightarrow> bool" where
  "start_allowed m req c \<longleftrightarrow>
     NameId (vmReq_IId req) \<noteq> [] \<and> NameId (vmReq_IId req) \<notin> (NameId \<circ> vm_IId) ` set (vms m c) \<and>
     distinct (map NameId (vmReq_DataDiskIIDs req)) \<and>
     (\<forall>d \<in> set (disks m c). NameId (disk_IId d) \<in> NameId ` set (vmReq_DataDiskIIDs req) \<longrightarrow> disk_Status d = DiskAvailable)"

lemma MockListDisk_ids: "MockListDisk m c = (Inr infos, c') \<Longrightarrow> map disk_IId infos = map disk_IId (disks m c)"
  by (auto simp: MockListDisk_def disks_def slice_of_def CloneDiskInfo_def split: option.splits)

lemma MockStartVM_ok:
  assumes ok: "attach_ok (disks m c) (vms m c)" and req: "start_allowed m req c"
  shows "wp (MockStartVM region m req) (\<lambda>_ c'. attach_ok (disks m c') (vms m c')) (\<lambda>_ c'. attach_ok (disks m c') (vms m c')) c"
proof -
  have rest: "wp (attach_disks m i D) (\<lambda>_. wp (\<lambda>c. (Inr v, add_vm m v c)) (\<lambda>_ c'. attach_ok (disks m c') (vms m c')) (\<lambda>_ c'. attach_ok (disks m c') (vms m c')))
      (\<lambda>_ c'. attach_ok (disks m c') (vms m c')) (tick c)"
    if l: "MockListDisk m c = (Inr infos, c)" and D: "check_disks infos (vmReq_DataDiskIIDs req) [] = Inr D"
      and v: "vm_IId v = (vmReq_IId req)\<lparr>SystemId := NameId (vmReq_IId req)\<rparr>" "vm_DataDiskIIDs v = D"
      and i: "i = (vmReq_IId req)\<lparr>SystemId := NameId (vmReq_IId req)\<rparr>" for infos D v i
  proof -
    have n: "vm_IId v \<notin> vm_IId ` set (vms m c)" using req v(1) by (force simp: start_allowed_def)
    have "distinct (map NameId (map disk_IId infos))"
      using attach_okD(1)[OF ok] unfolding MockListDisk_ids[OF l] by (simp add: ids_ok_def)
    then have E: "distinct D" "set D \<subseteq> disk_IId ` set (disks m c)" "NameId ` set D = NameId ` set (vmReq_DataDiskIIDs req)"
      using check_disks_found[OF D] req arg_cong[OF MockListDisk_ids[OF l], of set] by (auto simp: start_allowed_def)
    have free: "disk_Status x = DiskAvailable" if "x \<in> set (disks m c)" "disk_IId x \<in> set D" for x
      using req that E(3) unfolding start_allowed_def by (metis imageI)
    have "attach_ok (disks m c) (vms m c @ [v\<lparr>vm_DataDiskIIDs := []\<rparr>])"
      using req v by (intro attach_ok_new_vm[OF ok]) (auto simp: start_allowed_def)
    then have "wp (attach_disks m (vm_IId v) D)
        (\<lambda>_ c'. attach_ok (disks m c') (vms m c @ [v\<lparr>vm_DataDiskIIDs := [] @ D\<rparr>]) \<and> vmInfoMap c' = vmInfoMap (tick c)) (\<lambda>_ _. False) (tick c)"
      using n E(1,2) free by (intro attach_disks_ok) simp_all
    then have "wp (attach_disks m (vm_IId v) D)
        (\<lambda>_ c'. attach_ok (disks m (add_vm m v c')) (vms m (add_vm m v c'))) (\<lambda>_ c'. attach_ok (disks m c') (vms m c')) (tick c)"
      by (rule wp_mono) (use v(2) in \<open>auto simp: add_vm_def disks_def vms_def slice_of_def tick_def\<close>)
    then show ?thesis using v(1) i by (simp add: wp_simps wp_run)
  qed
  note r = only_reads_wp[OF mock_readers2(3)] only_reads_wp[OF mock_readers2(2)] only_reads_wp[OF mock_readers(5)] only_reads_wp[OF mock_readers(6)]
    only_reads_wp[OF mock_readers(7)] only_reads_wp[OF mock_readers(8)]
  show ?thesis
    unfolding MockStartVM_def Let_def
    by (intro wp_bindPI wp_case_optionI r wp_throwI wp_lift_resultI wp_now ok) (rule rest, assumption, assumption, simp_all)
qed

lemma MockChangeDiskSize_ok:
  assumes ok: "attach_ok (disks m c) (vms m c)" and d: "d \<in> disk_IId ` set (disks m c)"
  shows "attach_ok (disks m (snd (MockChangeDiskSize m d z c))) (vms m (snd (MockChangeDiskSize m d z c)))"
proof -
  let ?k = "\<lambda>info infoList c. (Inr True, set_disk m d (info\<lparr>disk_DiskSize := z\<rparr>) infoList c)"
  obtain x where x: "x \<in> set (disks m c)" "disk_IId x = d" and r: "MockChangeDiskSize m d z c = ?k x (disks m c) c"
    using with_disk_found[OF attach_okD(1)[OF ok] d, of ?k] unfolding MockChangeDiskSize_def by blast
  let ?f = "\<lambda>y. if disk_IId y = d then y\<lparr>disk_DiskSize := z\<rparr> else y"
  have "update_first (named_disk d) (\<lambda>_. x\<lparr>disk_DiskSize := z\<rparr>) (disks m c) = map ?f (disks m c)"
    using update_named_disk[OF attach_okD(1)[OF ok] x(1)] map_same_disk[OF attach_okD(1)[OF ok] x(1), of "\<lambda>x. x\<lparr>disk_DiskSize := z\<rparr>"] x(2)
    by simp
  then have ds: "disks m (snd (MockChangeDiskSize m d z c)) = map ?f (disks m c)" "vms m (snd (MockChangeDiskSize m d z c)) = vms m c"
    unfolding r by simp_all
  define f :: "DiskInfo \<Rightarrow> DiskInfo" where "f = ?f"
  have f: "disk_IId (f y) = disk_IId y" "disk_Status (f y) = disk_Status y" "disk_OwnerVM (f y) = disk_OwnerVM y" for y
    by (simp_all add: f_def)
  have "ids_ok disk_IId (map f (disks m c)) = ids_ok disk_IId (disks m c)" by (intro ids_ok_map f)
  moreover have "owners (map f (disks m c)) = owners (disks m c)" by (rule rel_eqI) (simp add: owners_iff f)
  ultimately show ?thesis using ok unfolding ds attach_ok_def f_def[symmetric] by (simp add: f)
qed

lemma MockDetachDisk_ok':
  assumes ok: "attach_ok (disks m c) (vms m c)" and d: "d \<in> disk_IId ` set (disks m c)" and o: "\<And>u. (d, u) \<in> owners (disks m c) \<Longrightarrow> u = v"
  shows "attach_ok (disks m (snd (MockDetachDisk m d v c))) (vms m (snd (MockDetachDisk m d v c)))"
proof (cases "(d, v) \<in> owners (disks m c)")
  case True
  then show ?thesis by (rule MockDetachDisk_ok[OF ok])
next
  case False
  let ?k = "\<lambda>info infoList c.
       if disk_Status info \<noteq> DiskAttached then (Inl (not_attached d (disk_Status info)), c)
       else (Inr True, set_disk m d (info\<lparr>disk_Status := DiskAvailable, disk_OwnerVM := IID_zero\<rparr>) infoList (snd (diskDetach m v d c)))"
  obtain x where x: "x \<in> set (disks m c)" "disk_IId x = d" and r: "MockDetachDisk m d v c = ?k x (disks m c) c"
    using with_disk_found[OF attach_okD(1)[OF ok] d, of ?k] unfolding MockDetachDisk_def by blast
  have "disk_Status x \<noteq> DiskAttached"
  proof
    assume "disk_Status x = DiskAttached"
    then have "(d, disk_OwnerVM x) \<in> owners (disks m c)" using x unfolding owners_iff by blast
    with False o show False by metis
  qed
  with ok show ?thesis unfolding r by simp
qed

section \<open>Every run of the handlers\<close>

text \<open>A call of one of the handlers; \<open>op_other\<close> are the handlers that share the state but neither disks nor VMs.\<close>

datatype compute_op =
    op_CreateDisk DiskInfo
  | op_ChangeDiskSize IID string
  | op_AttachDisk IID IID
  | op_DetachDisk IID IID
  | op_DeleteDisk IID
  | op_StartVM VMReqInfo
  | op_SuspendVM IID
  | op_ResumeVM IID
  | op_RebootVM IID
  | op_TerminateVM IID
  | op_SnapshotVM MyImageInfo
  | op_DeleteMyImage IID
  | op_CreateVPC VPCReqInfo
  | op_CreateSecurity SecurityReqInfo
  | op_CreateKey KeyPairReqInfo
  | op_prepare

fun serve_op :: "RegionInfo \<Rightarrow> string \<Rightarrow> compute_op \<Rightarrow> mock \<Rightarrow> mock" where
  "serve_op region m (op_CreateDisk req) c = snd (MockCreateDisk m req c)"
| "serve_op region m (op_ChangeDiskSize d z) c = snd (MockChangeDiskSize m d z c)"
| "serve_op region m (op_AttachDisk d v) c = snd (MockAttachDisk m d v c)"
| "serve_op region m (op_DetachDisk d v) c = snd (MockDetachDisk m d v c)"
| "serve_op region m (op_DeleteDisk d) c = snd (MockDeleteDisk m d c)"
| "serve_op region m (op_StartVM req) c = snd (MockStartVM region m req c)"
| "serve_op region m (op_SuspendVM v) c = snd (MockSuspendVM m v c)"
| "serve_op region m (op_ResumeVM v) c = snd (MockResumeVM m v c)"
| "serve_op region m (op_RebootVM v) c = snd (MockRebootVM m v c)"
| "serve_op region m (op_TerminateVM v) c = snd (MockTerminateVM m v c)"
| "serve_op region m (op_SnapshotVM req) c = snd (MockSnapshotVM m req c)"
| "serve_op region m (op_DeleteMyImage i) c = snd (MockDeleteMyImage m i c)"
| "serve_op region m (op_CreateVPC req) c = snd (MockCreateVPC m req c)"
| "serve_op region m (op_CreateSecurity req) c = snd (MockCreateSecurity m req c)"
| "serve_op region m (op_CreateKey req) c = snd (MockCreateKey m req c)"
| "serve_op region m op_prepare c = PrepareVMSpec m (PrepareVMImage m c)"

text \<open>What a caller that knows the drivers' contract does not do, and the handlers do not check.\<close>

fun op_allowed :: "string \<Rightarrow> compute_op \<Rightarrow> mock \<Rightarrow> bool" where
  "op_allowed m (op_CreateDisk req) c \<longleftrightarrow> NameId (disk_IId req) \<notin> (NameId \<circ> disk_IId) ` set (disks m c) \<and> disk_OwnerVM req = IID_zero"
| "op_allowed m (op_ChangeDiskSize d z) c \<longleftrightarrow> d \<in> disk_IId ` set (disks m c)"
| "op_allowed m (op_AttachDisk d v) c \<longleftrightarrow> d \<in> disk_IId ` set (disks m c) \<and> v \<in> vm_IId ` set (vms m c)"
| "op_allowed m (op_DetachDisk d v) c \<longleftrightarrow>
     d \<in> disk_IId ` set (disks m c) \<and> (\<forall>x \<in> set (disks m c). disk_IId x = d \<and> disk_Status x = DiskAttached \<longrightarrow> disk_OwnerVM x = v)"
| "op_allowed m (op_StartVM req) c \<longleftrightarrow> start_allowed m req c"
| "op_allowed m op c \<longleftrightarrow> True"

inductive compute_reachable :: "RegionInfo \<Rightarrow> string \<Rightarrow> mock \<Rightarrow> bool" for region m where
  init: "compute_reachable region m mock_init"
| step: "compute_reachable region m c \<Longrightarrow> op_allowed m op c \<Longrightarrow> compute_reachable region m (serve_op region m op c)"

lemma other_ops [simp]:
  "disks m (snd (status_change w m i r st res c)) = disks m c" "vms m (snd (status_change w m i r st res c)) = vms m c"
  "disks m (snd (MockSnapshotVM m mi c)) = disks m c" "vms m (snd (MockSnapshotVM m mi c)) = vms m c"
  "disks m (snd (MockDeleteMyImage m i c)) = disks m c" "vms m (snd (MockDeleteMyImage m i c)) = vms m c"
  "disks m (snd (MockCreateVPC m vr c)) = disks m c" "vms m (snd (MockCreateVPC m vr c)) = vms m c"
  "disks m (snd (MockCreateSecurity m sr c)) = disks m c" "vms m (snd (MockCreateSecurity m sr c)) = vms m c"
  "disks m (snd (MockCreateKey m kr c)) = disks m c" "vms m (snd (MockCreateKey m kr c)) = vms m c"
  "disks m (PrepareVMSpec m c) = disks m c" "vms m (PrepareVMSpec m c) = vms m c"
  "disks m (PrepareVMImage m c) = disks m c" "vms m (PrepareVMImage m c) = vms m c"
  by (auto simp: disks_def vms_def status_change_def MockSnapshotVM_def MockDeleteMyImage_def MockCreateVPC_def MockCreateSecurity_def
      MockCreateKey_def PrepareVMSpec_def PrepareVMImage_def Let_def tick_def split: option.splits)

lemma serve_op_ok:
  assumes "attach_ok (disks m c) (vms m c)" and "op_allowed m op c"
  shows "attach_ok (disks m (serve_op region m op c)) (vms m (serve_op region m op c))"
proof (cases op)
  case (op_StartVM req)
  with MockStartVM_ok[OF assms(1), of req region] assms(2) show ?thesis by (simp add: wp_def split: prod.splits sum.splits)
qed (use assms in \<open>auto simp: MockSuspendVM_def MockResumeVM_def MockRebootVM_def owners_iff intro!: MockCreateDisk_ok MockChangeDiskSize_ok
  MockAttachDisk_ok MockDetachDisk_ok' MockDeleteDisk_ok MockTerminateVM_ok\<close>)

lemma compute_reachable_ok: "compute_reachable region m c \<Longrightarrow> attach_ok (disks m c) (vms m c)"
proof (induction rule: compute_reachable.induct)
  case init
  then show ?case by (simp add: mock_init_def disks_def vms_def attach_ok_def ids_ok_def owners_def mounts_def)
next
  case (step c op)
  then show ?case by (intro serve_op_ok)
qed

text \<open>
  C8: In every run whose calls satisfy \<open>op_allowed\<close>, in any order, errors included: every disk that says it is attached
  to a VM is listed by that VM, and every disk a VM lists says so; the names stay unique, a free disk has no owner and no
  VM lists a disk twice. \<open>op_allowed\<close> is what a caller has to see to, since the handlers do not check it: new resources
  have new names, what is attached or resized exists, a disk is detached from the VM that has it, and a VM is started on
  free disks named once. Without it the claim fails: see \<open>detach_from_wrong_vm\<close> and \<open>start_vm_half_done\<close>.
\<close>

theorem disks_and_vms_agree:
  assumes "compute_reachable region m c"
  shows "attach_ok (disks m c) (vms m c)"
  using assms by (rule compute_reachable_ok)

section \<open>Concrete runs\<close>

fun allowed_run :: "RegionInfo \<Rightarrow> string \<Rightarrow> compute_op list \<Rightarrow> mock \<Rightarrow> bool" where
  "allowed_run region m [] c \<longleftrightarrow> True"
| "allowed_run region m (op # ops) c \<longleftrightarrow> op_allowed m op c \<and> allowed_run region m ops (serve_op region m op c)"

lemma allowed_run_reachable:
  assumes "compute_reachable region m c" and "allowed_run region m ops c"
  shows "compute_reachable region m (fold (serve_op region m) ops c)"
  using assms by (induction ops arbitrary: c) (auto intro: compute_reachable.step)

definition ia_region :: RegionInfo where
  "ia_region = \<lparr>region_Region = ''r'', region_Zone = ''z''\<rparr>"

definition ia :: "string \<Rightarrow> IID" where
  "ia n = \<lparr>NameId = n, SystemId = n\<rparr>"

definition ia_disk :: "string \<Rightarrow> DiskInfo" where
  "ia_disk n = \<lparr>disk_IId = \<lparr>NameId = n, SystemId = []\<rparr>, disk_Zone = [], disk_DiskType = [], disk_DiskSize = [], disk_Status = [],
     disk_OwnerVM = IID_zero, disk_CreatedTime = 0, disk_TagList = [], disk_KeyValueList = []\<rparr>"

definition ia_vm :: "string \<Rightarrow> string list \<Rightarrow> VMReqInfo" where
  "ia_vm n ds = \<lparr>vmReq_IId = \<lparr>NameId = n, SystemId = []\<rparr>, vmReq_ImageType = PublicImage, vmReq_ImageIID = ia ''mock-vmimage-01'',
     vmReq_VpcIID = ia ''v'', vmReq_SubnetIID = ia ''s'', vmReq_SecurityGroupIIDs = [ia ''g''], vmReq_VMSpecName = ''mock-vmspec-01'',
     vmReq_KeyPairIID = ia ''k'', vmReq_RootDiskType = [], vmReq_RootDiskSize = [], vmReq_DataDiskIIDs = map ia ds,
     vmReq_VMUserId = [], vmReq_VMUserPasswd = [], vmReq_WindowsType = False, vmReq_AssignPublicIP = None, vmReq_TagList = []\<rparr>"

definition ia_setup :: "compute_op list" where
  "ia_setup =
     [op_prepare,
      op_CreateVPC \<lparr>vpcReq_IId = ia ''v'', vpcReq_IPv4_CIDR = [], vpcReq_SubnetInfoList =
        [\<lparr>subnet_IId = ia ''s'', subnet_Zone = [], subnet_IPv4_CIDR = [], subnet_TagList = [], subnet_KeyValueList = []\<rparr>], vpcReq_TagList = []\<rparr>,
      op_CreateSecurity \<lparr>sgReq_IId = ia ''g'', sgReq_VpcIID = ia ''v'', sgReq_SecurityRules = None, sgReq_TagList = []\<rparr>,
      op_CreateKey \<lparr>keyReq_IId = ia ''k'', keyReq_TagList = []\<rparr>,
      op_CreateDisk (ia_disk ''d1''), op_CreateDisk (ia_disk ''d2''),
      op_StartVM (ia_vm ''vm1'' [''d1'']), op_AttachDisk (ia ''d2'') (ia ''vm1'')]"

definition ia_run :: "compute_op list" where
  "ia_run = ia_setup @ [op_DetachDisk (ia ''d1'') (ia ''vm1''), op_StartVM (ia_vm ''vm2'' [''d1'']), op_SuspendVM (ia ''vm2''),
     op_TerminateVM (ia ''vm1'')]"

text \<open>What a state shows of its attachments.\<close>

definition shown :: "mock \<Rightarrow> (string \<times> string) list \<times> (string \<times> string list) list" where
  "shown c = (map (\<lambda>d. (NameId (disk_IId d), NameId (disk_OwnerVM d))) (disks ''m'' c),
     map (\<lambda>v. (NameId (vm_IId v), map NameId (vm_DataDiskIIDs v))) (vms ''m'' c))"

lemma ia_run_allowed: "allowed_run ia_region ''m'' ia_run mock_init"
  by code_simp

lemma ia_run_shown: "shown (fold (serve_op ia_region ''m'') ia_run mock_init) = ([(''d1'', ''vm2''), (''d2'', [])], [(''vm2'', [''d1''])])"
  by code_simp

lemma disks_and_vms_agree_witness:
  "\<exists>c. compute_reachable ia_region ''m'' c \<and> shown c = ([(''d1'', ''vm2''), (''d2'', [])], [(''vm2'', [''d1''])]) \<and>
     attach_ok (disks ''m'' c) (vms ''m'' c)"
proof -
  have "compute_reachable ia_region ''m'' (fold (serve_op ia_region ''m'') ia_run mock_init)"
    by (rule allowed_run_reachable[OF init ia_run_allowed])
  with disks_and_vms_agree[OF this] ia_run_shown show ?thesis by blast
qed

text \<open>
  What the handlers do not check. \<open>DetachDisk\<close> frees a disk of the VM \<open>vm1\<close> for a caller that names another VM: the
  disk is free and still on \<open>vm1\<close>, so it can be attached to a second VM.
\<close>

lemma detach_from_wrong_vm:
  "shown (fold (serve_op ia_region ''m'') (ia_setup @ [op_StartVM (ia_vm ''vm2'' []), op_DetachDisk (ia ''d1'') (ia ''vm2''),
     op_AttachDisk (ia ''d1'') (ia ''vm2'')]) mock_init) =
   ([(''d1'', ''vm2''), (''d2'', ''vm1'')], [(''vm1'', [''d1'', ''d2'']), (''vm2'', [''d1''])])"
  by code_simp

text \<open>\<open>StartVM\<close> with a free disk and one in use fails, and the free one stays attached to a VM that does not exist.\<close>

lemma start_vm_half_done:
  "let c = fold (serve_op ia_region ''m'') (ia_setup @ [op_CreateDisk (ia_disk ''d3'')]) mock_init
   in fst (MockStartVM ia_region ''m'' (ia_vm ''vm2'' [''d3'', ''d1'']) c) = Inl ''d1 Disk is not Available status!!. It is Attached status'' \<and>
     shown (snd (MockStartVM ia_region ''m'' (ia_vm ''vm2'' [''d3'', ''d1'']) c)) =
       ([(''d1'', ''vm1''), (''d2'', ''vm1''), (''d3'', ''vm2'')], [(''vm1'', [''d1'', ''d2''])])"
  by code_simp

text \<open>\<open>TerminateVM\<close> of an identifier that two VMs have, the last in the list among them, panics: its loop goes on after the removal.\<close>

lemma terminate_vm_twice:
  "let c = fold (serve_op ia_region ''m'') (ia_setup @ [op_StartVM (ia_vm ''vm1'' [])]) mock_init
   in fst (MockTerminateVM ''m'' (ia ''vm1'') c) = Inl slice_panic"
  by code_simp

end
