(* ===== verification/DiskAttach.thy ===== *)
theory DiskAttach
  imports DiskManager MockAttach
begin

text \<open>
  The disk manager over the mock driver: an attachment made through the manager is one on both sides of the driver.
\<close>

lemma MockAttachDisk_wp:
  assumes ok: "attach_ok (disks m c) (vms m c)" and v: "v \<in> vm_IId ` set (vms m c)" and d: "d \<in> disk_IId ` set (disks m c)"
    and Q: "\<And>info c'. disks m c' = map (set_owner d v) (disks m c) \<Longrightarrow> vms m c' = map (mount d v) (vms m c) \<Longrightarrow>
      (\<And>u. (d, u) \<notin> owners (disks m c)) \<Longrightarrow> disk_Status info = DiskAttached \<Longrightarrow> Q info c'"
    and E: "\<And>e. E e c"
  shows "wp (MockAttachDisk m d v) Q E c"
proof -
  let ?k = "\<lambda>info infoList c.
       if disk_Status info = DiskAttached then (Inl (NameId d @ '' Disk is already Attached status!!''), c)
       else if disk_Status info \<noteq> DiskAvailable
       then (Inl (NameId d @ '' Disk is not Available status!! It is '' @ disk_Status info @ '' status''), c)
       else
         (let info' = info\<lparr>disk_OwnerVM := v, disk_Status := DiskAttached\<rparr>
          in (Inr (CloneDiskInfo info'), snd (diskAttach m v d (set_disk m d info' infoList c))))"
  obtain x where x: "x \<in> set (disks m c)" "disk_IId x = d" and r: "MockAttachDisk m d v c = ?k x (disks m c) c"
    using with_disk_found[OF attach_okD(1)[OF ok] d, of ?k] unfolding MockAttachDisk_def by blast
  show ?thesis
  proof (cases "disk_Status x = DiskAvailable")
    case True
    let ?c = "set_disk m d (x\<lparr>disk_OwnerVM := v, disk_Status := DiskAttached\<rparr>) (disks m c) c"
    have ds: "disks m ?c = map (set_owner d v) (disks m c)"
      using set_disk_owner(1)[OF attach_okD(1)[OF ok] x(1), of v] x(2) by simp
    have vs: "vms m (snd (diskAttach m v d ?c)) = map (mount d v) (vms m c)" "disks m (snd (diskAttach m v d ?c)) = disks m ?c"
      using diskAttach_vms[of m ?c v d] v attach_okD(2)[OF ok] by simp_all
    have "(d, u) \<notin> owners (disks m c)" for u using owners_free[OF ok x(1), of u] x(2) True by simp
    with True show ?thesis unfolding wp_def r by (simp add: Let_def) (rule Q, simp_all add: vs ds[simplified] CloneDiskInfo_def)
  next
    case False
    then show ?thesis unfolding wp_def r using E by simp
  qed
qed

text \<open>Rows that name what the driver has.\<close>

definition rows_name :: "iid_row set \<Rightarrow> string \<Rightarrow> IID set \<Rightarrow> bool" where
  "rows_name S conn I \<longleftrightarrow> (\<forall>r \<in> S. row_ConnectionName r = conn \<longrightarrow> getDriverIID (row_IID r) \<in> I)"

text \<open>
  C18: Outside the permission-based mode, \<open>AttachDisk\<close> over the mock driver, in a connection whose rows name disks and VMs of the driver and where the two
  sides of every attachment agree: when it succeeds, the disk was free, now belongs to the VM on both sides, and is
  shown under the user's names of disk and VM; when it fails the driver is as it was. Either way all attachments
  agree again.
\<close>

theorem AttachDisk_mock:
  fixes env :: "('d, mock) env" and w :: "('d, mock) world"
  assumes ok: "gorm_ok (env_gorm env) R" and pm: "\<not> permission_mode env"
    and h: "\<And>z. zone_disk_handler env (TrimSpace conn) z = Inr (MockDiskHandler m)"
    and agree: "attach_ok (disks m (w_cloud w)) (vms m (w_cloud w))"
    and rows: "rows_name (wrows R w DiskIIDInfo) (TrimSpace conn) (disk_IId ` set (disks m (w_cloud w)))"
      "rows_name (wrows R w VMIIDInfo) (TrimSpace conn) (vm_IId ` set (vms m (w_cloud w)))"
  shows "wp (AttachDisk env conn name vm)
    (\<lambda>info w'. attach_ok (disks m (w_cloud w')) (vms m (w_cloud w')) \<and> disk_Status info = DiskAttached \<and>
       NameId (disk_IId info) = TrimSpace name \<and> NameId (disk_OwnerVM info) = TrimSpace vm \<and>
       (\<exists>d \<in> wrows R w DiskIIDInfo. \<exists>v \<in> wrows R w VMIIDInfo.
          (row_ConnectionName d, row_NameId d) = (TrimSpace conn, TrimSpace name) \<and>
          (row_ConnectionName v, row_NameId v) = (TrimSpace conn, TrimSpace vm) \<and>
          owners (disks m (w_cloud w')) = insert (getDriverIID (row_IID d), getDriverIID (row_IID v)) (owners (disks m (w_cloud w))) \<and>
          getDriverIID (row_IID d) \<notin> fst ` owners (disks m (w_cloud w))))
    (\<lambda>e w'. w_cloud w' = w_cloud w) w"
proof -
  have h': "dh_AttachDisk (MockDiskHandler m) = MockAttachDisk m" by (simp add: MockDiskHandler_def)
  have step: "wp (onCloud (dh_AttachDisk hd d v)) Q E w'"
    if "hd = MockDiskHandler m" and that: "w_cloud w' = w_cloud w" "d \<in> disk_IId ` set (disks m (w_cloud w))" "v \<in> vm_IId ` set (vms m (w_cloud w))"
      and Q: "\<And>info c'. attach_ok (disks m c') (vms m c') \<Longrightarrow> disk_Status info = DiskAttached \<Longrightarrow>
        owners (disks m c') = insert (d, v) (owners (disks m (w_cloud w))) \<Longrightarrow> d \<notin> fst ` owners (disks m (w_cloud w)) \<Longrightarrow> Q info (w'\<lparr>w_cloud := c'\<rparr>)"
      and E: "\<And>e. E e w'" for hd d v Q E and w' :: "('d, mock) world"
    unfolding wp_onCloud \<open>hd = _\<close> h'
  proof (rule MockAttachDisk_wp)
    fix info :: DiskInfo and c'
    assume c': "disks m c' = map (set_owner d v) (disks m (w_cloud w'))" "vms m c' = map (mount d v) (vms m (w_cloud w'))"
      and free: "\<And>u. (d, u) \<notin> owners (disks m (w_cloud w'))" and att: "disk_Status info = DiskAttached"
    have f: "{p \<in> owners (disks m (w_cloud w)). fst p \<noteq> d} = owners (disks m (w_cloud w))" "d \<notin> fst ` owners (disks m (w_cloud w))"
      using free that(1) by auto
    have "attach_ok (disks m c') (vms m c')" using attach_ok_attach[OF agree that(2,3)] free c' that(1) by simp
    from this att show "Q info (w'\<lparr>w_cloud := c'\<rparr>)" by (rule Q) (use f owners_set[OF that(2), of v] c' that(1) in simp_all)
  next
    fix e
    have "w'\<lparr>w_cloud := w_cloud w'\<rparr> = w'" by simp
    with E show "E e (w'\<lparr>w_cloud := w_cloud w'\<rparr>)" by simp
  qed (use that agree in simp_all)
  have in_rows: "getDriverIID (row_IID r) \<in> I" if "rows_name S (TrimSpace conn) I" "r \<in> S" "row_ConnectionName r = TrimSpace conn" for S r I
    using that by (auto simp: rows_name_def)
  have user: "NameId (row_IID r) = row_NameId r" for r by (simp add: row_IID_def)
  show ?thesis
    unfolding AttachDisk_def
    apply (intro wp_walk get_iid_info_wp[OF ok] step)
    apply (simp_all add: EmptyCheckAndTrim_Inr reads_def h pm user in_rows[OF rows(1)] in_rows[OF rows(2)])
    subgoal for r w' hd ra by (intro bexI[of _ r] conjI bexI[of _ ra]) simp_all
    done
qed

section \<open>Concrete runs\<close>

text \<open>
  The state of the mock driver in which \<open>vm1\<close> has the disks \<open>d1\<close> and \<open>d2\<close>, \<open>d3\<close> is free and \<open>vm2\<close> has no disk, and
  rows that give each its user's name.
\<close>

definition at_ops :: "compute_op list" where
  "at_ops = ia_setup @ [op_CreateDisk (ia_disk ''d3''), op_StartVM (ia_vm ''vm2'' [])]"

definition at_row :: "string \<Rightarrow> string \<Rightarrow> iid_row" where
  "at_row n d = FirstIIDInfo ''mock'' n (d @ '':'' @ d)"

definition at_world :: "(list_db, mock) world" where
  "at_world = (ex_world [])\<lparr>w_cloud := fold (serve_op ia_region ''m'') at_ops mock_init,
     w_store := \<lparr>dbConfigErr = None, st_open = None, st_db = \<lparr>db_rows = (\<lambda>_. [])(
       DiskIIDInfo := [at_row ''disk-1'' ''d1'', at_row ''disk-2'' ''d2'', at_row ''disk-3'' ''d3''],
       VMIIDInfo := [at_row ''web'' ''vm1'', at_row ''db'' ''vm2'']), db_fails = []\<rparr>\<rparr>\<rparr>"

lemma at_ops_allowed: "allowed_run ia_region ''m'' at_ops mock_init"
  by code_simp

lemma at_world_agree: "attach_ok (disks ''m'' (w_cloud at_world)) (vms ''m'' (w_cloud at_world))"
  using compute_reachable_ok[OF allowed_run_reachable[OF init at_ops_allowed]] by (simp add: at_world_def)

lemma at_world_ids:
  "map disk_IId (disks ''m'' (w_cloud at_world)) = [ia ''d1'', ia ''d2'', ia ''d3'']"
  "map vm_IId (vms ''m'' (w_cloud at_world)) = [ia ''vm1'', ia ''vm2'']"
  by code_simp+

lemma at_world_wrows:
  "wrows list_rows at_world DiskIIDInfo = {at_row ''disk-1'' ''d1'', at_row ''disk-2'' ''d2'', at_row ''disk-3'' ''d3''}"
  "wrows list_rows at_world VMIIDInfo = {at_row ''web'' ''vm1'', at_row ''db'' ''vm2''}"
  by (simp_all add: at_world_def wrows_def list_rows_def)

lemma at_row_IIDs:
  "getDriverIID (row_IID (at_row ''disk-1'' ''d1'')) = ia ''d1''" "getDriverIID (row_IID (at_row ''disk-2'' ''d2'')) = ia ''d2''"
  "getDriverIID (row_IID (at_row ''disk-3'' ''d3'')) = ia ''d3''"
  "getDriverIID (row_IID (at_row ''web'' ''vm1'')) = ia ''vm1''" "getDriverIID (row_IID (at_row ''db'' ''vm2'')) = ia ''vm2''"
  by code_simp+

lemma at_rows_name:
  "rows_name (wrows list_rows at_world DiskIIDInfo) ''mock'' (disk_IId ` set (disks ''m'' (w_cloud at_world)))"
  "rows_name (wrows list_rows at_world VMIIDInfo) ''mock'' (vm_IId ` set (vms ''m'' (w_cloud at_world)))"
  unfolding rows_name_def at_world_wrows set_map[symmetric] at_world_ids by (simp_all add: at_row_IIDs)

lemma at_attach:
  "map_sum id (\<lambda>d. (NameId (disk_IId d), disk_OwnerVM d)) (fst (AttachDisk (ex_env []) ''mock'' ''disk-3'' ''db'' at_world)) =
     Inr (''disk-3'', \<lparr>NameId = ''db'', SystemId = ''vm2''\<rparr>)"
  by code_simp

lemma at_trim: "TrimSpace ''mock'' = ''mock''" "TrimSpace ''disk-3'' = ''disk-3''" "TrimSpace ''db'' = ''db''"
  by code_simp+

lemma AttachDisk_mock_witness:
  "\<exists>info w'. AttachDisk (ex_env []) ''mock'' ''disk-3'' ''db'' at_world = (Inr info, w') \<and>
     NameId (disk_OwnerVM info) = ''db'' \<and> attach_ok (disks ''m'' (w_cloud w')) (vms ''m'' (w_cloud w'))"
proof -
  have p: "\<not> permission_mode (ex_env [])" by simp
  obtain info w' where run: "AttachDisk (ex_env []) ''mock'' ''disk-3'' ''db'' at_world = (Inr info, w')"
    using at_attach by (cases "AttachDisk (ex_env []) ''mock'' ''disk-3'' ''db'' at_world"; cases "fst (AttachDisk (ex_env []) ''mock'' ''disk-3'' ''db'' at_world)") auto
  have h: "\<And>z. zone_disk_handler (ex_env []) (TrimSpace ''mock'') z = Inr (MockDiskHandler ''m'')"
    unfolding at_trim by (rule ex_zone_disk_handler)
  note t = wp_okD[OF AttachDisk_mock[where conn = "''mock''", unfolded at_trim(1), OF ex_gorm_ok p h[unfolded at_trim(1)] at_world_agree at_rows_name] run]
  then show ?thesis using run unfolding at_trim by blast
qed

text \<open>
  Through the manager too, a disk of one VM is detached by a request that names another: \<open>web\<close> goes on listing the
  disk, which then is attached to \<open>db\<close> as well.
\<close>

lemma detach_wrong_vm:
  "fst (DetachDisk (ex_env []) ''mock'' ''disk-1'' ''db'' at_world) = Inr True \<and>
   (let w = snd (DetachDisk (ex_env []) ''mock'' ''disk-1'' ''db'' at_world)
    in snd (shown (w_cloud (snd (AttachDisk (ex_env []) ''mock'' ''disk-1'' ''db'' w)))) = [(''vm1'', [''d1'', ''d2'']), (''vm2'', [''d1''])])"
  by code_simp

end
