(* ===== verification/AllResources.thy ===== *)
theory AllResources
  imports Example
begin

text \<open>
  The operations of \<open>common-runtime/CommonManager.go\<close> that work on resources of any type: unregistering a name, listing
  what the meta database and the CSP know of each other's resources, and the CSP's name of a resource.
\<close>

section \<open>Types of resources\<close>

text \<open>The table of a resource type, in the type switches.\<close>

definition rs_table :: "string \<Rightarrow> table option" where
  "rs_table rsType =
     (if rsType = RT_VPC then Some VPCIIDInfo
      else if rsType = RT_SG then Some SGIIDInfo
      else if rsType = RT_KEY then Some KeyIIDInfo
      else if rsType = RT_VM then Some VMIIDInfo
      else if rsType = RT_NLB then Some NLBIIDInfo
      else if rsType = RT_DISK then Some DiskIIDInfo
      else if rsType = RT_MYIMAGE then Some MyImageIIDInfo
      else if rsType = RT_CLUSTER then Some ClusterIIDInfo
      else if rsType = RT_RDBMS then Some RDBMSIIDInfo
      else None)"

definition not_supported :: "string \<Rightarrow> go_error" where
  "not_supported rsType = rsType @ '' is not supported Resource!!''"

text \<open>The values behind the interface type of the listed infos; of three types the identifiers alone.\<close>

datatype resource_info =
    R_VPC VPCInfo
  | R_SG SecurityInfo
  | R_KEY KeyPairInfo
  | R_VM VMInfo
  | R_NLB IID
  | R_DISK DiskInfo
  | R_MYIMAGE MyImageInfo
  | R_CLUSTER IID
  | R_RDBMS IID

fun info_IId :: "resource_info \<Rightarrow> IID" where
  "info_IId (R_VPC v) = vpc_IId v"
| "info_IId (R_SG v) = sg_IId v"
| "info_IId (R_KEY v) = key_IId v"
| "info_IId (R_VM v) = vm_IId v"
| "info_IId (R_NLB i) = i"
| "info_IId (R_DISK v) = disk_IId v"
| "info_IId (R_MYIMAGE v) = mi_IId v"
| "info_IId (R_CLUSTER i) = i"
| "info_IId (R_RDBMS i) = i"

fun info_type :: "resource_info \<Rightarrow> string" where
  "info_type (R_VPC _) = RT_VPC"
| "info_type (R_SG _) = RT_SG"
| "info_type (R_KEY _) = RT_KEY"
| "info_type (R_VM _) = RT_VM"
| "info_type (R_NLB _) = RT_NLB"
| "info_type (R_DISK _) = RT_DISK"
| "info_type (R_MYIMAGE _) = RT_MYIMAGE"
| "info_type (R_CLUSTER _) = RT_CLUSTER"
| "info_type (R_RDBMS _) = RT_RDBMS"

definition listed :: "('c, 'a list) prog \<Rightarrow> ('a \<Rightarrow> resource_info) \<Rightarrow> ('c, resource_info list) prog" where
  "listed m R = bindP m (\<lambda>infos. ret (map R infos))"

text \<open>The handler of a type and its listing: \<open>None\<close> for the default case, \<open>Inl\<close> when the handler cannot be created.\<close>

definition handler_List :: "'c CloudConnection \<Rightarrow> string \<Rightarrow> ('c, resource_info list) prog go_result option" where
  "handler_List cld rsType =
     (case rs_table rsType of
        Some VPCIIDInfo \<Rightarrow> Some (map_sum id (\<lambda>h. listed (vh_ListVPC h) R_VPC) (CreateVPCHandler cld))
      | Some SGIIDInfo \<Rightarrow> Some (map_sum id (\<lambda>h. listed (sh_ListSecurity h) R_SG) (CreateSecurityHandler cld))
      | Some KeyIIDInfo \<Rightarrow> Some (map_sum id (\<lambda>h. listed (kh_ListKey h) R_KEY) (CreateKeyPairHandler cld))
      | Some VMIIDInfo \<Rightarrow> Some (map_sum id (\<lambda>h. listed (vmh_ListVM h) R_VM) (CreateVMHandler cld))
      | Some NLBIIDInfo \<Rightarrow> Some (map_sum id (\<lambda>h. listed (nlbh_ListNLB h) R_NLB) (CreateNLBHandler cld))
      | Some DiskIIDInfo \<Rightarrow> Some (map_sum id (\<lambda>h. listed (dh_ListDisk h) R_DISK) (CreateDiskHandler cld))
      | Some MyImageIIDInfo \<Rightarrow> Some (map_sum id (\<lambda>h. listed (mih_ListMyImage h) R_MYIMAGE) (CreateMyImageHandler cld))
      | Some ClusterIIDInfo \<Rightarrow> Some (map_sum id (\<lambda>h. listed (ch_ListCluster h) R_CLUSTER) (CreateClusterHandler cld))
      | Some RDBMSIIDInfo \<Rightarrow> Some (map_sum id (\<lambda>h. listed (rh_ListRDBMS h) R_RDBMS) (CreateRDBMSHandler cld))
      | _ \<Rightarrow> None)"

section \<open>Listing\<close>

record AllResourceList =
  MappedList :: "IID list"
  OnlySpiderList :: "IID list"
  OnlyCSPList :: "IID list"

text \<open>
  What \<open>ListAllResource\<close> makes of the user's identifiers and those of the CSP: the cases (1) to (3), and the two loops
  of case (4). The first loop goes on after a match.
\<close>

definition mapped_iids :: "IID list \<Rightarrow> IID list \<Rightarrow> IID list" where
  "mapped_iids iidList iidCSPList =
     concat (map (\<lambda>userIId. map (\<lambda>_. userIId) (filter (\<lambda>iid. SystemId userIId = SystemId iid) iidCSPList)) iidList)"

definition only_spider_iids :: "IID list \<Rightarrow> IID list \<Rightarrow> IID list" where
  "only_spider_iids iidList iidCSPList = filter (\<lambda>userIId. \<not> list_ex (\<lambda>iid. SystemId userIId = SystemId iid) iidCSPList) iidList"

definition only_csp_iids :: "IID list \<Rightarrow> IID list \<Rightarrow> IID list" where
  "only_csp_iids iidCSPList mapped =
     filter (\<lambda>iid. mapped = [] \<or> \<not> list_ex (\<lambda>mappedInfo. SystemId iid = SystemId mappedInfo) mapped) iidCSPList"

definition classify_iids :: "IID list \<Rightarrow> IID list \<Rightarrow> AllResourceList" where
  "classify_iids iidList iidCSPList =
     (if iidCSPList = [] then
        (if iidList = [] then \<lparr>MappedList = [], OnlySpiderList = [], OnlyCSPList = []\<rparr>
         else \<lparr>MappedList = [], OnlySpiderList = iidList, OnlyCSPList = []\<rparr>)
      else if iidList = [] then \<lparr>MappedList = [], OnlySpiderList = [], OnlyCSPList = iidCSPList\<rparr>
      else
        (let mapped = mapped_iids iidList iidCSPList
         in \<lparr>MappedList = mapped, OnlySpiderList = only_spider_iids iidList iidCSPList,
             OnlyCSPList = only_csp_iids iidCSPList mapped\<rparr>))"

definition ListAllResource :: "('d, 'c) env \<Rightarrow> string \<Rightarrow> string \<Rightarrow> (('d, 'c) world, AllResourceList) prog" where
  "ListAllResource env connectionName rsType =
     bindP (lift_result (EmptyCheckAndTrim ''connectionName'' connectionName)) (\<lambda>connectionName.
     bindP (lift_result (ccm_GetCloudConnection env connectionName)) (\<lambda>cldConn.
     case (handler_List cldConn rsType, rs_table rsType) of
       (Some handler, Some t) \<Rightarrow>
         bindP (lift_result handler) (\<lambda>listInfos.
         bindP (onStore (ListByCondition (env_gorm env) t CONNECTION_NAME_COLUMN connectionName)) (\<lambda>iidInfoList.
         bindP (onCloud listInfos) (\<lambda>infoList.
         ret (classify_iids (map (\<lambda>info. makeUserIID (row_NameId info) (row_SystemId info)) iidInfoList) (map info_IId infoList)))))
     | _ \<Rightarrow> throw (not_supported rsType)))"

record AllResourceInfoList =
  ResourceType :: string
  MappedInfoList :: "resource_info list"
  OnlySpiderInfoList :: "IID list"
  OnlyCSPInfoList :: "resource_info list"

definition resourceInfoMatchesIID :: "resource_info \<Rightarrow> string \<Rightarrow> bool" where
  "resourceInfoMatchesIID info driverSystemId \<longleftrightarrow> SystemId (info_IId info) = driverSystemId"

definition resourceInfoInMappedList :: "string \<Rightarrow> resource_info \<Rightarrow> resource_info list \<Rightarrow> bool" where
  "resourceInfoInMappedList rsType info mappedList =
     list_ex (\<lambda>mapped. info_type mapped = rsType \<and> SystemId (info_IId mapped) = SystemId (info_IId info)) mappedList"

fun classify_rows :: "IID list \<Rightarrow> resource_info list \<Rightarrow> resource_info list \<Rightarrow> IID list \<Rightarrow> resource_info list \<times> IID list" where
  "classify_rows [] infoList mapped onlySpider = (mapped, onlySpider)"
| "classify_rows (iid # rest) infoList mapped onlySpider =
     (case List.find (\<lambda>info. resourceInfoMatchesIID info (getDriverSystemId iid)) infoList of
        Some info \<Rightarrow> classify_rows rest infoList (mapped @ [info]) onlySpider
      | None \<Rightarrow> classify_rows rest infoList mapped (onlySpider @ [iid]))"

definition classifyResourceLists :: "string \<Rightarrow> IID list \<Rightarrow> resource_info list \<Rightarrow> resource_info list \<times> IID list \<times> resource_info list" where
  "classifyResourceLists rsType iidList infoList =
     (let (mapped, onlySpider) = classify_rows iidList infoList [] []
      in (mapped, onlySpider, filter (\<lambda>info. \<not> resourceInfoInMappedList rsType info mapped) infoList))"

definition fetchIIDList :: "('d, 'c) env \<Rightarrow> string \<Rightarrow> string \<Rightarrow> (('d, 'c) world, IID list) prog" where
  "fetchIIDList env connectionName rsType =
     (case rs_table rsType of
        Some t \<Rightarrow> bindP (onStore (ListByCondition (env_gorm env) t CONNECTION_NAME_COLUMN connectionName)) (\<lambda>iidInfoList.
                   ret (map row_IID iidInfoList))
      | None \<Rightarrow> throw (rsType @ '' is not a supported resource type''))"

definition ListAllResourceInfo :: "('d, 'c) env \<Rightarrow> string \<Rightarrow> string \<Rightarrow> (('d, 'c) world, AllResourceInfoList) prog" where
  "ListAllResourceInfo env connectionName rsType =
     bindP (lift_result (EmptyCheckAndTrim ''connectionName'' connectionName)) (\<lambda>connectionName.
     bindP (lift_result (ccm_GetCloudConnection env connectionName)) (\<lambda>cldConn.
     case handler_List cldConn rsType of
       None \<Rightarrow> throw (rsType @ '' is not a supported resource type'')
     | Some handler \<Rightarrow>
         bindP (lift_result handler) (\<lambda>listInfos.
         bindP (fetchIIDList env connectionName rsType) (\<lambda>iidList.
         bindP (onCloud listInfos) (\<lambda>infoList.
         if iidList = [] \<and> infoList = []
         then ret \<lparr>ResourceType = rsType, MappedInfoList = [], OnlySpiderInfoList = [], OnlyCSPInfoList = []\<rparr>
         else
           (let (mapped, onlySpider, onlyCSP) = classifyResourceLists rsType iidList infoList
            in ret \<lparr>ResourceType = rsType, MappedInfoList = mapped, OnlySpiderInfoList = onlySpider, OnlyCSPInfoList = onlyCSP\<rparr>))))))"

section \<open>Unregistering\<close>

definition unregister_lock :: "string \<Rightarrow> splock_id option" where
  "unregister_lock rsType =
     (if rsType = RT_VPC \<or> rsType = RT_SUBNET then Some vpcSPLock
      else if rsType = RT_SG then Some sgSPLock
      else if rsType = RT_KEY then Some keySPLock
      else if rsType = RT_VM then Some vmSPLock
      else if rsType = RT_NLB then Some nlbSPLock
      else if rsType = RT_DISK then Some diskSPLock
      else if rsType = RT_MYIMAGE then Some myImageSPLock
      else if rsType = RT_CLUSTER then Some clusterSPLock
      else if rsType = RT_FILESYSTEM then Some fsSPLock
      else if rsType = RT_RDBMS then Some rdbmsSPLock
      else None)"

text \<open>"check existence(UserID)" in either mode; \<open>authorized\<close> and \<open>present\<close> go on with the rows that were listed.\<close>

definition with_rows :: "('d, 'c) env \<Rightarrow> table \<Rightarrow> string \<Rightarrow> string \<Rightarrow> string \<Rightarrow> (iid_row list \<Rightarrow> (('d, 'c) world, bool) prog) \<Rightarrow>
    (iid_row list \<Rightarrow> (('d, 'c) world, bool) prog) \<Rightarrow> (('d, 'c) world, bool) prog" where
  "with_rows env t connectionName rsType nameId authorized present =
     (if permission_mode env then
        bindP (getAuthIIDInfoList env connectionName t) (\<lambda>iidInfoList.
        case getAuthIIDInfo t iidInfoList nameId of
          Inl err \<Rightarrow> throw (if Contains err ''not found'' then does_not_exist rsType nameId else err)
        | Inr _ \<Rightarrow> authorized iidInfoList)
      else
        bindP (onStore (ListByConditions (env_gorm env) t CONNECTION_NAME_COLUMN connectionName NAME_ID_COLUMN nameId)) (\<lambda>iidInfoList.
        if iidInfoList = [] then throw (does_not_exist rsType nameId) else present iidInfoList))"

definition unregister_plain :: "('d, 'c) env \<Rightarrow> table \<Rightarrow> table \<Rightarrow> string \<Rightarrow> string \<Rightarrow> string \<Rightarrow> (('d, 'c) world, bool) prog" where
  "unregister_plain env t t' connectionName rsType nameId =
     with_rows env t connectionName rsType nameId
       (\<lambda>_. bindP (onStore (DeleteByCondition (env_gorm env) t' NAME_ID_COLUMN nameId)) (\<lambda>_. ret True))
       (\<lambda>_. bindP (onStore (DeleteByConditions (env_gorm env) t CONNECTION_NAME_COLUMN connectionName NAME_ID_COLUMN nameId)) (\<lambda>_. ret True))"

definition unregister_vpc :: "('d, 'c) env \<Rightarrow> string \<Rightarrow> string \<Rightarrow> string \<Rightarrow> (('d, 'c) world, bool) prog" where
  "unregister_vpc env connectionName rsType nameId =
     with_rows env VPCIIDInfo connectionName rsType nameId
       (\<lambda>_. bindP (onStore (DeleteByCondition (env_gorm env) VPCIIDInfo NAME_ID_COLUMN nameId)) (\<lambda>_.
             bindP (onStore (DeleteByCondition (env_gorm env) SubnetIIDInfo OWNER_VPC_NAME_COLUMN nameId)) (\<lambda>_. ret True)))
       (\<lambda>_. bindP (onStore (DeleteByConditions (env_gorm env) VPCIIDInfo CONNECTION_NAME_COLUMN connectionName NAME_ID_COLUMN nameId)) (\<lambda>_.
             bindP (onStore (DeleteByConditions (env_gorm env) SubnetIIDInfo CONNECTION_NAME_COLUMN connectionName
               OWNER_VPC_NAME_COLUMN nameId)) (\<lambda>_. ret True)))"

text \<open>The resources below a VPC: the loop takes the first row of the name, and hands it to the deletion.\<close>

definition unregister_dependent :: "('d, 'c) env \<Rightarrow> table \<Rightarrow> string \<Rightarrow> string \<Rightarrow> string \<Rightarrow> (('d, 'c) world, bool) prog" where
  "unregister_dependent env t connectionName rsType nameId =
     (let first = (\<lambda>iidInfoList delete. case List.find (\<lambda>one. row_NameId one = nameId) iidInfoList of
            None \<Rightarrow> throw (does_not_exist rsType nameId)
          | Some one \<Rightarrow> bindP (onStore (delete one (row_OwnerVPCName one))) (\<lambda>_. ret True))
      in with_rows env t connectionName rsType nameId
           (\<lambda>iidInfoList. first iidInfoList
              (\<lambda>one owner. DeleteByConditions_of (env_gorm env) t (Some one) NAME_ID_COLUMN nameId OWNER_VPC_NAME_COLUMN owner))
           (\<lambda>iidInfoList. first iidInfoList
              (\<lambda>one owner. DeleteBy3Conditions_of (env_gorm env) t (Some one) CONNECTION_NAME_COLUMN connectionName
                 NAME_ID_COLUMN nameId OWNER_VPC_NAME_COLUMN owner)))"

text \<open>In the permission-based mode the case of private images deletes from the table of disks.\<close>

definition unregister_rows :: "('d, 'c) env \<Rightarrow> string \<Rightarrow> string \<Rightarrow> string \<Rightarrow> (('d, 'c) world, bool) prog" where
  "unregister_rows env connectionName rsType nameId =
     (if rsType = RT_VPC then unregister_vpc env connectionName rsType nameId
      else if rsType = RT_SG then unregister_dependent env SGIIDInfo connectionName rsType nameId
      else if rsType = RT_KEY then unregister_plain env KeyIIDInfo KeyIIDInfo connectionName rsType nameId
      else if rsType = RT_VM then unregister_plain env VMIIDInfo VMIIDInfo connectionName rsType nameId
      else if rsType = RT_DISK then unregister_plain env DiskIIDInfo DiskIIDInfo connectionName rsType nameId
      else if rsType = RT_MYIMAGE then unregister_plain env MyImageIIDInfo DiskIIDInfo connectionName rsType nameId
      else if rsType = RT_NLB then unregister_dependent env NLBIIDInfo connectionName rsType nameId
      else if rsType = RT_CLUSTER then unregister_dependent env ClusterIIDInfo connectionName rsType nameId
      else if rsType = RT_RDBMS then unregister_dependent env RDBMSIIDInfo connectionName rsType nameId
      else throw (not_supported rsType))"

definition UnregisterResource :: "('d, 'c) env \<Rightarrow> string \<Rightarrow> string \<Rightarrow> string \<Rightarrow> (('d, 'c) world, bool) prog" where
  "UnregisterResource env connectionName rsType nameId =
     bindP (lift_result (EmptyCheckAndTrim ''connectionName'' connectionName)) (\<lambda>connectionName.
     bindP (lift_result (EmptyCheckAndTrim ''nameId'' nameId)) (\<lambda>nameId.
     case unregister_lock rsType of
       None \<Rightarrow> throw (not_supported rsType)
     | Some lock \<Rightarrow> withLock lock Wr connectionName nameId (unregister_rows env connectionName rsType nameId)))"

section \<open>Names\<close>

definition GetCSPResourceName :: "('d, 'c) env \<Rightarrow> string \<Rightarrow> string \<Rightarrow> string \<Rightarrow> (('d, 'c) world, string) prog" where
  "GetCSPResourceName env connectionName rsType nameID =
     bindP (lift_result (EmptyCheckAndTrim ''connectionName'' connectionName)) (\<lambda>connectionName.
     bindP (lift_result (EmptyCheckAndTrim ''nameID'' nameID)) (\<lambda>nameID.
     case rs_table rsType of
       None \<Rightarrow> throw (not_supported rsType)
     | Some t \<Rightarrow>
         bindP (onStore (GetByConditions (env_gorm env) t CONNECTION_NAME_COLUMN connectionName NAME_ID_COLUMN nameID)) (\<lambda>iid.
         ret (NameId (makeDriverIID (row_NameId iid) (row_SystemId iid))))))"

definition ListResourceName :: "('d, 'c) env \<Rightarrow> string \<Rightarrow> string \<Rightarrow> (('d, 'c) world, string list) prog" where
  "ListResourceName env connectionName rsType =
     (case rs_table rsType of
        None \<Rightarrow> throw (rsType @ '' is not a supported Resource!!'')
      | Some t \<Rightarrow> onStore (ListNameIDByConnection (env_gorm env) t connectionName))"

section \<open>What the lists say\<close>

lemma mapped_iids_filter:
  assumes "distinct (map SystemId cs)"
  shows "mapped_iids us cs = filter (\<lambda>u. SystemId u \<in> SystemId ` set cs) us"
proof -
  have one: "map (\<lambda>_. u) (filter (\<lambda>iid. SystemId u = SystemId iid) cs) = (if SystemId u \<in> SystemId ` set cs then [u] else [])" for u
    using assms by (induction cs) (auto simp: filter_empty_conv image_iff)
  show ?thesis unfolding mapped_iids_def one by (induction us) simp_all
qed

lemma set_mapped_iids: "set (mapped_iids us cs) = {u \<in> set us. SystemId u \<in> SystemId ` set cs}"
  by (auto simp: mapped_iids_def)

lemma only_csp_filter: "only_csp_iids cs (mapped_iids us cs) = filter (\<lambda>c. SystemId c \<notin> SystemId ` set us) cs"
proof -
  have "(mapped_iids us cs = [] \<or> \<not> list_ex (\<lambda>m. SystemId c = SystemId m) (mapped_iids us cs)) \<longleftrightarrow> SystemId c \<notin> SystemId ` set us"
    if "c \<in> set cs" for c
    unfolding list_ex_iff set_mapped_iids set_empty[symmetric] using that by (auto 0 4 simp: image_iff)
  then show ?thesis unfolding only_csp_iids_def by (intro filter_cong refl) simp_all
qed

text \<open>
  C22: The four cases of \<open>ListAllResource\<close> are one classification: the user's identifiers are split, in their order, into
  those the CSP has and those it has not, and the CSP's identifiers that no user's identifier names make the third list.
\<close>

theorem ListAllResource_classifies:
  "classify_iids us cs =
    \<lparr>MappedList = (if distinct (map SystemId cs) then filter (\<lambda>u. SystemId u \<in> SystemId ` set cs) us else mapped_iids us cs),
     OnlySpiderList = filter (\<lambda>u. SystemId u \<notin> SystemId ` set cs) us,
     OnlyCSPList = filter (\<lambda>c. SystemId c \<notin> SystemId ` set us) cs\<rparr>"
proof -
  have s: "only_spider_iids us cs = filter (\<lambda>u. SystemId u \<notin> SystemId ` set cs) us"
    by (auto simp: only_spider_iids_def list_ex_iff intro!: filter_cong)
  have "mapped_iids us [] = []" and "mapped_iids [] cs = []" by (auto simp: mapped_iids_def)
  then show ?thesis
    by (cases "cs = []"; cases "us = []") (simp_all add: classify_iids_def Let_def s only_csp_filter mapped_iids_filter)
qed

lemma classify_rows_filter:
  "classify_rows is infos m s =
     (m @ map (\<lambda>i. the (List.find (\<lambda>info. resourceInfoMatchesIID info (getDriverSystemId i)) infos))
        (filter (\<lambda>i. getDriverSystemId i \<in> (SystemId \<circ> info_IId) ` set infos) is),
      s @ filter (\<lambda>i. getDriverSystemId i \<notin> (SystemId \<circ> info_IId) ` set infos) is)"
proof (induction "is" arbitrary: m s)
  case (Cons i "is")
  have "List.find (\<lambda>info. resourceInfoMatchesIID info (getDriverSystemId i)) infos = None \<longleftrightarrow> getDriverSystemId i \<notin> (SystemId \<circ> info_IId) ` set infos"
    by (auto simp: find_None_iff resourceInfoMatchesIID_def image_iff)
  with Cons show ?case by (auto split: option.split)
qed simp

lemma find_matching:
  assumes "s \<in> (SystemId \<circ> info_IId) ` set infos"
  shows "the (List.find (\<lambda>info. resourceInfoMatchesIID info s) infos) \<in> set infos"
    and "SystemId (info_IId (the (List.find (\<lambda>info. resourceInfoMatchesIID info s) infos))) = s"
proof -
  from assms obtain x where f: "List.find (\<lambda>info. resourceInfoMatchesIID info s) infos = Some x"
    by (cases "List.find (\<lambda>info. resourceInfoMatchesIID info s) infos") (auto simp: find_None_iff resourceInfoMatchesIID_def)
  then have "x \<in> set infos" and "SystemId (info_IId x) = s" by (auto simp: find_Some_iff resourceInfoMatchesIID_def)
  with f show "the (List.find (\<lambda>info. resourceInfoMatchesIID info s) infos) \<in> set infos"
    and "SystemId (info_IId (the (List.find (\<lambda>info. resourceInfoMatchesIID info s) infos))) = s" by simp_all
qed

lemma in_mapped_iff:
  assumes "\<And>i. i \<in> set mapped \<Longrightarrow> info_type i = rsType"
  shows "resourceInfoInMappedList rsType x mapped \<longleftrightarrow> SystemId (info_IId x) \<in> set (map (SystemId \<circ> info_IId) mapped)"
  using assms by (auto simp: resourceInfoInMappedList_def list_ex_iff image_iff) metis

text \<open>
  C13: The two listings of a resource type agree on what the CSP and the meta database have in common, when the CSP gives
  every resource an identifier of its own: the infos that \<open>ListAllResourceInfo\<close> finds mapped are those whose identifiers
  \<open>ListAllResource\<close> lists as mapped, in the same order, and so with the resources that only one side has.
\<close>

theorem listings_agree:
  assumes "distinct (map (SystemId \<circ> info_IId) infos)" and ty: "\<And>i. i \<in> set infos \<Longrightarrow> info_type i = rsType"
  shows "let L = classify_iids (map (\<lambda>r. makeUserIID (row_NameId r) (row_SystemId r)) rows) (map info_IId infos) in
    case classifyResourceLists rsType (map row_IID rows) infos of (mapped, onlySpider, onlyCSP) \<Rightarrow>
    map (SystemId \<circ> info_IId) mapped = map SystemId (MappedList L) \<and> map getUserIID onlySpider = OnlySpiderList L \<and>
    map info_IId onlyCSP = OnlyCSPList L"
proof -
  define L where "L = classify_iids (map (\<lambda>r. makeUserIID (row_NameId r) (row_SystemId r)) rows) (map info_IId infos)"
  have u: "makeUserIID (row_NameId r) (row_SystemId r) = getUserIID (row_IID r)" and d: "SystemId (getUserIID (row_IID r)) = getDriverSystemId (row_IID r)" for r
    by (simp_all add: makeUserIID_def getUserIID_def row_IID_def getDriverSystemId_def)
  let ?ids = "(SystemId \<circ> info_IId) ` set infos"
  let ?find = "\<lambda>i. the (List.find (\<lambda>info. resourceInfoMatchesIID info (getDriverSystemId i)) infos)"
  let ?both = "filter (\<lambda>i. getDriverSystemId i \<in> ?ids) (map row_IID rows)"
  have ids: "SystemId ` set (map info_IId infos) = ?ids" by (simp add: image_comp)
  have users: "map (\<lambda>r. makeUserIID (row_NameId r) (row_SystemId r)) rows = map getUserIID (map row_IID rows)" by (simp add: u)
  have L: "L = \<lparr>MappedList = map getUserIID ?both,
      OnlySpiderList = map getUserIID (filter (\<lambda>i. getDriverSystemId i \<notin> ?ids) (map row_IID rows)),
      OnlyCSPList = map info_IId (filter (\<lambda>i. SystemId (info_IId i) \<notin> getDriverSystemId ` row_IID ` set rows) infos)\<rparr>"
    unfolding L_def users ListAllResource_classifies ids
    using assms(1) by (simp add: filter_map comp_def d image_comp)
  have mapped: "map (SystemId \<circ> info_IId) (map ?find ?both) = map getDriverSystemId ?both"
    by (auto simp: find_matching(2)[unfolded comp_def])
  have "resourceInfoInMappedList rsType x (map ?find ?both) \<longleftrightarrow> SystemId (info_IId x) \<in> getDriverSystemId ` row_IID ` set rows"
    if "x \<in> set infos" for x
  proof -
    have "resourceInfoInMappedList rsType x (map ?find ?both) \<longleftrightarrow> SystemId (info_IId x) \<in> set (map (SystemId \<circ> info_IId) (map ?find ?both))"
      using ty[OF find_matching(1)] by (intro in_mapped_iff) auto
    also have "\<dots> \<longleftrightarrow> SystemId (info_IId x) \<in> getDriverSystemId ` row_IID ` set rows"
      unfolding mapped using that by (force simp: image_iff)
    finally show ?thesis .
  qed
  then have csp: "filter (\<lambda>x. \<not> resourceInfoInMappedList rsType x (map ?find ?both)) infos =
      filter (\<lambda>i. SystemId (info_IId i) \<notin> getDriverSystemId ` row_IID ` set rows) infos"
    by (intro filter_cong) simp_all
  have "map SystemId (map getUserIID is) = map getDriverSystemId is" for "is"
    by (simp add: getUserIID_def getDriverSystemId_def Let_def)
  with mapped show ?thesis
    unfolding Let_def L_def[symmetric] L classifyResourceLists_def classify_rows_filter
    by (simp only: prod.case append_Nil csp AllResourceList.select_convs simp_thms)
qed

section \<open>What an unregistration drops\<close>

text \<open>Of a VPC the rows of its subnets too; of what lies below a VPC one VPC's.\<close>

definition unregistered :: "string \<Rightarrow> string \<Rightarrow> string \<Rightarrow> (table \<Rightarrow> iid_row set) \<Rightarrow> (table \<Rightarrow> iid_row set) \<Rightarrow> bool" where
  "unregistered rsType conn n W W' \<longleftrightarrow>
     (\<exists>t r. rs_table rsType = Some t \<and> r \<in> W t \<and> row_ConnectionName r = conn \<and> row_NameId r = n \<and>
        (if rsType = RT_VPC
         then W' = W(VPCIIDInfo := {x \<in> W VPCIIDInfo. \<not> (row_ConnectionName x = conn \<and> row_NameId x = n)},
                SubnetIIDInfo := {x \<in> W SubnetIIDInfo. \<not> (row_ConnectionName x = conn \<and> row_OwnerVPCName x = n)})
         else if rsType \<in> {RT_SG, RT_NLB, RT_CLUSTER, RT_RDBMS}
         then W' = W(t := {x \<in> W t. \<not> (row_ConnectionName x = conn \<and> row_NameId x = n \<and> row_OwnerVPCName x = row_OwnerVPCName r)})
         else W' = W(t := {x \<in> W t. \<not> (row_ConnectionName x = conn \<and> row_NameId x = n)})))"

definition half_unregistered :: "string \<Rightarrow> string \<Rightarrow> string \<Rightarrow> (table \<Rightarrow> iid_row set) \<Rightarrow> (table \<Rightarrow> iid_row set) \<Rightarrow> bool" where
  "half_unregistered rsType conn n W W' \<longleftrightarrow> rsType = RT_VPC \<and>
     W' = W(VPCIIDInfo := {x \<in> W VPCIIDInfo. \<not> (row_ConnectionName x = conn \<and> row_NameId x = n)})"

text \<open>Nothing but the rows changes.\<close>

definition only_rows :: "('d, 'c) world \<Rightarrow> ('d, 'c) world \<Rightarrow> bool" where
  "only_rows w w' \<longleftrightarrow> w_cloud w' = w_cloud w \<and> w_locks w' = w_locks w"

lemma with_rows_wp:
  fixes env :: "('d, 'c) env" and w :: "('d, 'c) world"
  assumes ok: "gorm_ok (env_gorm env) R" and pm: "\<not> permission_mode env"
    and step: "\<And>rs w'. only_rows w w' \<Longrightarrow> wrows R w' = wrows R w \<Longrightarrow> rs \<noteq> [] \<Longrightarrow>
      set rs = {r \<in> wrows R w t. row_ConnectionName r = c \<and> row_NameId r = n} \<Longrightarrow> wp (present rs) Q E w'"
    and E: "\<And>e w'. only_rows w w' \<Longrightarrow> wrows R w' = wrows R w \<Longrightarrow> E e w'"
  shows "wp (with_rows env t c rsType n authorized present) Q E w"
  unfolding with_rows_def if_not_P[OF pm]
  by (intro wp_walk list_by2_wp[OF ok] step) (auto simp: reads_def only_rows_def intro!: E)

lemma unregister_plain_wp:
  fixes env :: "('d, 'c) env" and w :: "('d, 'c) world"
  assumes ok: "gorm_ok (env_gorm env) R" and pm: "\<not> permission_mode env"
    and t: "rs_table rsType = Some t" "rsType \<notin> {RT_VPC, RT_SG, RT_NLB, RT_CLUSTER, RT_RDBMS}"
    and Q: "\<And>w'. only_rows w w' \<Longrightarrow> unregistered rsType c n (wrows R w) (wrows R w') \<Longrightarrow> Q True w'"
    and E: "\<And>e w'. only_rows w w' \<Longrightarrow> wrows R w' = wrows R w \<Longrightarrow> E e w'"
  shows "wp (unregister_plain env t t' c rsType n) Q E w"
  unfolding unregister_plain_def
  by (intro wp_walk with_rows_wp[OF ok pm] delete_by_wp[OF ok]; (rule Q | rule E)?)
    (use t(2) in \<open>auto simp: only_rows_def unregistered_def t(1) neq_Nil_conv\<close>)

lemma unregistered_dependentI:
  assumes "rs_table rsType = Some t" and "rsType \<in> {RT_SG, RT_NLB, RT_CLUSTER, RT_RDBMS}"
    and "r \<in> W t" and "row_ConnectionName r = c" and "row_NameId r = n"
    and "W' = W(t := {x \<in> W t. \<not> (row_ConnectionName x = c \<and> row_NameId x = n \<and> row_OwnerVPCName x = row_OwnerVPCName r)})"
  shows "unregistered rsType c n W W'"
proof -
  from assms(2) have "rsType \<noteq> RT_VPC" by auto
  with assms show ?thesis
    unfolding unregistered_def by (intro exI[of _ t] exI[of _ r]) (simp only: if_False if_True simp_thms)
qed

lemma unregister_dependent_wp:
  fixes env :: "('d, 'c) env" and w :: "('d, 'c) world"
  assumes ok: "gorm_ok (env_gorm env) R" and pm: "\<not> permission_mode env"
    and t: "rs_table rsType = Some t" "rsType \<in> {RT_SG, RT_NLB, RT_CLUSTER, RT_RDBMS}"
    and Q: "\<And>w'. only_rows w w' \<Longrightarrow> unregistered rsType c n (wrows R w) (wrows R w') \<Longrightarrow> Q True w'"
    and E: "\<And>e w'. only_rows w w' \<Longrightarrow> wrows R w' = wrows R w \<Longrightarrow> E e w'"
  shows "wp (unregister_dependent env t c rsType n) Q E w"
proof -
  have key: "key_columns t = [CONNECTION_NAME_COLUMN, NAME_ID_COLUMN, OWNER_VPC_NAME_COLUMN]"
    using t by (auto simp: rs_table_def)
  show ?thesis
    unfolding unregister_dependent_def Let_def
    by (intro wp_walk with_rows_wp[OF ok pm] delete_by3_of_wp[OF ok key]; (rule Q | rule E)?)
      (auto simp: only_rows_def dest!: find_SomeD intro!: unregistered_dependentI[OF t])
qed

lemma unregister_vpc_wp:
  fixes env :: "('d, 'c) env" and w :: "('d, 'c) world"
  assumes ok: "gorm_ok (env_gorm env) R" and pm: "\<not> permission_mode env"
    and vpc: "rsType = RT_VPC" and Q: "\<And>w'. only_rows w w' \<Longrightarrow> unregistered rsType c n (wrows R w) (wrows R w') \<Longrightarrow> Q True w'"
    and E: "\<And>e w'. only_rows w w' \<Longrightarrow> wrows R w' = wrows R w \<or> half_unregistered rsType c n (wrows R w) (wrows R w') \<Longrightarrow> E e w'"
  shows "wp (unregister_vpc env c rsType n) Q E w"
  unfolding unregister_vpc_def
  by (intro wp_walk with_rows_wp[OF ok pm] delete_by_wp[OF ok]; (rule Q | rule E)?)
    (auto simp: vpc only_rows_def unregistered_def half_unregistered_def rs_table_def neq_Nil_conv)

text \<open>
  C14: Outside the permission-based mode \<open>UnregisterResource\<close> never calls the driver. When it succeeds, the meta database had a row of the connection and
  name, and has lost the rows of that name (of a VPC those of its subnets too, of what lies below a VPC only those of one
  VPC); nothing else changes. When it fails no row is lost, but that of a VPC whose subnets cannot be deleted. (In the
  permission-based mode the driver is asked for its identifiers, and \<open>unregister_myimage_drops_disk\<close> shows another defect.)
\<close>

theorem UnregisterResource_rows:
  fixes env :: "('d, 'c) env" and w :: "('d, 'c) world"
  assumes ok: "gorm_ok (env_gorm env) R" and pm: "\<not> permission_mode env"
  shows "wp (UnregisterResource env conn rsType name)
    (\<lambda>b w'. b \<and> w_cloud w' = w_cloud w \<and> w_locks w' = w_locks w \<and> unregistered rsType (TrimSpace conn) (TrimSpace name) (wrows R w) (wrows R w'))
    (\<lambda>e w'. w_cloud w' = w_cloud w \<and> w_locks w' = w_locks w \<and>
       (wrows R w' = wrows R w \<or> half_unregistered rsType (TrimSpace conn) (TrimSpace name) (wrows R w) (wrows R w'))) w"
proof -
  have "wp (unregister_rows env c rsType n) (\<lambda>b w'. b \<and> only_rows w1 w' \<and> unregistered rsType c n (wrows R w1) (wrows R w'))
      (\<lambda>e w'. only_rows w1 w' \<and> (wrows R w' = wrows R w1 \<or> half_unregistered rsType c n (wrows R w1) (wrows R w'))) w1" for c n w1
    unfolding unregister_rows_def
    by (intro wp_walk unregister_plain_wp[OF ok pm] unregister_dependent_wp[OF ok pm] unregister_vpc_wp[OF ok pm])
      (simp_all add: rs_table_def only_rows_def)
  note step = wp_mono[OF this]
  show ?thesis
    unfolding UnregisterResource_def
    by (intro wp_walk step) (auto simp: EmptyCheckAndTrim_Inr only_rows_def)
qed

section \<open>Concrete runs\<close>

definition ar_info :: "string \<Rightarrow> resource_info" where
  "ar_info n = R_NLB \<lparr>NameId = n, SystemId = n\<rparr>"

definition ar_rows :: "iid_row list" where
  "ar_rows = [FirstIIDInfo ''mock'' ''lb'' ''x1:a'', FirstIIDInfo ''mock'' ''old'' ''x2:b'']"

lemma ar_classified:
  "classifyResourceLists RT_NLB (map row_IID ar_rows) (map ar_info [''c'', ''a'']) =
     ([ar_info ''a''], [row_IID (FirstIIDInfo ''mock'' ''old'' ''x2:b'')], [ar_info ''c''])"
  by code_simp

lemma listings_agree_witness:
  "let L = classify_iids (map (\<lambda>r. makeUserIID (row_NameId r) (row_SystemId r)) ar_rows) (map info_IId (map ar_info [''c'', ''a''])) in
   map (SystemId \<circ> info_IId) [ar_info ''a''] = map SystemId (MappedList L) \<and>
   map getUserIID [row_IID (FirstIIDInfo ''mock'' ''old'' ''x2:b'')] = OnlySpiderList L \<and> map info_IId [ar_info ''c''] = OnlyCSPList L"
proof -
  have "distinct (map (SystemId \<circ> info_IId) (map ar_info [''c'', ''a'']))" and "\<And>i. i \<in> set (map ar_info [''c'', ''a'']) \<Longrightarrow> info_type i = RT_NLB"
    by (auto simp: ar_info_def)
  from listings_agree[OF this, of ar_rows] show ?thesis by (simp only: ar_classified prod.case)
qed

definition ar_world :: "(list_db, mock) world" where
  "ar_world = (ex_world [])\<lparr>w_store := \<lparr>dbConfigErr = None, st_open = None, st_db = \<lparr>db_rows = (\<lambda>_. [])(
      VPCIIDInfo := [FirstIIDInfo ''mock'' ''net'' ''v:v''],
      SubnetIIDInfo := [ZoneLevelVPCDependentIIDInfo ''mock'' ''z'' ''sub'' ''s:s'' ''net'', ZoneLevelVPCDependentIIDInfo ''mock'' ''z'' ''sub'' ''t:t'' ''other''],
      MyImageIIDInfo := [FirstIIDInfo ''mock'' ''snap'' ''i:i''], DiskIIDInfo := [FirstIIDInfo ''mock'' ''snap'' ''d:d'']), db_fails = []\<rparr>\<rparr>,
    w_cloud := mock_init\<lparr>myImageInfoMap := [''m'' \<mapsto> [MyImageInfo_of \<lparr>NameId = ''i'', SystemId = ''i''\<rparr>]]\<rparr>\<rparr>"

lemma ar_unregister: "fst (UnregisterResource (ex_env []) ''mock'' RT_VPC ''net'' ar_world) = Inr True"
  by code_simp

lemma UnregisterResource_rows_witness:
  "\<exists>w'. UnregisterResource (ex_env []) ''mock'' RT_VPC ''net'' ar_world = (Inr True, w') \<and> wrows list_rows w' VPCIIDInfo = {} \<and>
     wrows list_rows w' SubnetIIDInfo = {ZoneLevelVPCDependentIIDInfo ''mock'' ''z'' ''sub'' ''t:t'' ''other''}"
proof -
  obtain w' where run: "UnregisterResource (ex_env []) ''mock'' RT_VPC ''net'' ar_world = (Inr True, w')"
    using ar_unregister by (cases "UnregisterResource (ex_env []) ''mock'' RT_VPC ''net'' ar_world") auto
  have t: "TrimSpace ''mock'' = ''mock''" "TrimSpace ''net'' = ''net''" by code_simp+
  let ?W = "wrows list_rows ar_world"
  have W: "?W VPCIIDInfo = {FirstIIDInfo ''mock'' ''net'' ''v:v''}" "?W SubnetIIDInfo =
      {ZoneLevelVPCDependentIIDInfo ''mock'' ''z'' ''sub'' ''s:s'' ''net'', ZoneLevelVPCDependentIIDInfo ''mock'' ''z'' ''sub'' ''t:t'' ''other''}"
    by (simp_all add: wrows_def list_rows_def ar_world_def)
  have "unregistered RT_VPC ''mock'' ''net'' ?W (wrows list_rows w')"
    using wp_okD[OF UnregisterResource_rows[OF ex_gorm_ok ex_perm] run] by (simp add: t)
  then have "wrows list_rows w' = ?W(VPCIIDInfo := {x \<in> ?W VPCIIDInfo. \<not> (row_ConnectionName x = ''mock'' \<and> row_NameId x = ''net'')},
      SubnetIIDInfo := {x \<in> ?W SubnetIIDInfo. \<not> (row_ConnectionName x = ''mock'' \<and> row_OwnerVPCName x = ''net'')})"
    unfolding unregistered_def if_P[OF refl] by (elim exE conjE)
  moreover have "{x \<in> ?W VPCIIDInfo. \<not> (row_ConnectionName x = ''mock'' \<and> row_NameId x = ''net'')} = {}"
    and "{x \<in> ?W SubnetIIDInfo. \<not> (row_ConnectionName x = ''mock'' \<and> row_OwnerVPCName x = ''net'')} =
      {ZoneLevelVPCDependentIIDInfo ''mock'' ''z'' ''sub'' ''t:t'' ''other''}"
    unfolding W by (auto simp: FirstIIDInfo_def ZoneLevelVPCDependentIIDInfo_def)
  ultimately show ?thesis using run by simp
qed

text \<open>In the permission-based mode the unregistration of a private image leaves its row, and drops that of a disk of the same name.\<close>

lemma unregister_myimage_drops_disk:
  "case UnregisterResource (ex_env ''ON'') ''mock'' RT_MYIMAGE ''snap'' ar_world of (r, w') \<Rightarrow>
     r = Inr True \<and> map row_NameId (db_rows (st_db (w_store w')) MyImageIIDInfo) = [''snap''] \<and> db_rows (st_db (w_store w')) DiskIIDInfo = []"
  by code_simp

end
