(* ===== verification/Waiter.thy ===== *)
theory Waiter
  imports Runtime
begin

text \<open>
  Waiting for the cloud: \<open>common-runtime/Waiter.go\<close>, and the loops that poll a driver and pause between two calls. Such
  a loop may go on for ever, so a program that contains one is a partial function: \<open>None\<close> says that it never returns.
\<close>

section \<open>Programs that may not return\<close>

type_synonym ('s, 'a) run = "'s \<Rightarrow> ('a go_result \<times> 's) option"

definition returning :: "('s, 'a) prog \<Rightarrow> ('s, 'a) run" where
  "returning m = (\<lambda>s. Some (m s))"

definition bindR :: "('s, 'a) run \<Rightarrow> ('a \<Rightarrow> ('s, 'b) run) \<Rightarrow> ('s, 'b) run" where
  "bindR m f = (\<lambda>s. case m s of
       None \<Rightarrow> None
     | Some (Inl e, s') \<Rightarrow> Some (Inl e, s')
     | Some (Inr x, s') \<Rightarrow> f x s')"

text \<open>
  \<open>wpR\<close> is total correctness: the program returns, in a state of the postcondition. \<open>wlpR\<close> is partial correctness.
\<close>

definition wpR :: "('s, 'a) run \<Rightarrow> ('a \<Rightarrow> 's \<Rightarrow> bool) \<Rightarrow> (go_error \<Rightarrow> 's \<Rightarrow> bool) \<Rightarrow> 's \<Rightarrow> bool" where
  "wpR m Q E s = (case m s of None \<Rightarrow> False | Some (Inr x, s') \<Rightarrow> Q x s' | Some (Inl e, s') \<Rightarrow> E e s')"

definition wlpR :: "('s, 'a) run \<Rightarrow> ('a \<Rightarrow> 's \<Rightarrow> bool) \<Rightarrow> (go_error \<Rightarrow> 's \<Rightarrow> bool) \<Rightarrow> 's \<Rightarrow> bool" where
  "wlpR m Q E s = (case m s of None \<Rightarrow> True | Some (Inr x, s') \<Rightarrow> Q x s' | Some (Inl e, s') \<Rightarrow> E e s')"

lemma wpR_returning [wp_simps]: "wpR (returning m) Q E s = wp m Q E s"
  by (simp add: wpR_def returning_def wp_def split: prod.split sum.split)

lemma wlpR_returning [wp_simps]: "wlpR (returning m) Q E s = wp m Q E s"
  by (simp add: wlpR_def returning_def wp_def split: prod.split sum.split)

lemma wpR_bindR [wp_simps]: "wpR (bindR m f) Q E s = wpR m (\<lambda>x. wpR (f x) Q E) E s"
  by (simp add: wpR_def bindR_def split: option.split prod.split sum.split)

lemma wlpR_bindR [wp_simps]: "wlpR (bindR m f) Q E s = wlpR m (\<lambda>x. wlpR (f x) Q E) E s"
  by (simp add: wlpR_def bindR_def split: option.split prod.split sum.split)

text \<open>As introduction rules.\<close>

lemma R_returningI: "wp m Q E s \<Longrightarrow> wlpR (returning m) Q E s" "wp m Q E s \<Longrightarrow> wpR (returning m) Q E s"
  by (simp_all add: wlpR_returning wpR_returning)

lemma R_bindRI:
  "wlpR m (\<lambda>x. wlpR (f x) Q E) E s \<Longrightarrow> wlpR (bindR m f) Q E s"
  "wpR m (\<lambda>x. wpR (f x) Q E) E s \<Longrightarrow> wpR (bindR m f) Q E s"
  by (simp_all add: wlpR_bindR wpR_bindR)

lemma R_case_prodI:
  "(\<And>a b. p = (a, b) \<Longrightarrow> wlpR (f a b) Q E s) \<Longrightarrow> wlpR (case p of (a, b) \<Rightarrow> f a b) Q E s"
  "(\<And>a b. p = (a, b) \<Longrightarrow> wpR (f a b) Q E s) \<Longrightarrow> wpR (case p of (a, b) \<Rightarrow> f a b) Q E s"
  by (cases p; simp)+

lemma R_ifI:
  "(b \<Longrightarrow> wlpR m Q E s) \<Longrightarrow> (\<not> b \<Longrightarrow> wlpR m' Q E s) \<Longrightarrow> wlpR (if b then m else m') Q E s"
  "(b \<Longrightarrow> wpR m Q E s) \<Longrightarrow> (\<not> b \<Longrightarrow> wpR m' Q E s) \<Longrightarrow> wpR (if b then m else m') Q E s"
  by simp_all

lemma R_case_optionI:
  "(v = None \<Longrightarrow> wlpR m Q E s) \<Longrightarrow> (\<And>x. v = Some x \<Longrightarrow> wlpR (f x) Q E s) \<Longrightarrow> wlpR (case v of None \<Rightarrow> m | Some x \<Rightarrow> f x) Q E s"
  "(v = None \<Longrightarrow> wpR m Q E s) \<Longrightarrow> (\<And>x. v = Some x \<Longrightarrow> wpR (f x) Q E s) \<Longrightarrow> wpR (case v of None \<Rightarrow> m | Some x \<Rightarrow> f x) Q E s"
  by (cases v; simp)+

lemma wpR_mono:
  assumes "wpR m Q E s" and "\<And>x s'. Q x s' \<Longrightarrow> Q' x s'" and "\<And>e s'. E e s' \<Longrightarrow> E' e s'"
  shows "wpR m Q' E' s"
  using assms by (auto simp: wpR_def split: option.splits prod.splits sum.splits)

lemma wpR_wlpR: "wpR m Q E s \<longleftrightarrow> m s \<noteq> None \<and> wlpR m Q E s"
  by (simp add: wpR_def wlpR_def split: option.split prod.split sum.split)

lemma bindR_returning_None: "bindR (returning m) f s = None \<longleftrightarrow> (\<exists>x s'. m s = (Inr x, s') \<and> f x s' = None)"
  by (simp add: bindR_def returning_def split: prod.split sum.split)

lemma wlpR_okD: "wlpR m Q E s \<Longrightarrow> m s = Some (Inr x, s') \<Longrightarrow> Q x s'"
  by (simp add: wlpR_def)

section \<open>The waiter\<close>

text \<open>
  The outside of the program, as a pause needs it: the reading of the monotonic clock, in nanoseconds, and what
  happens out there while the program pauses for some of them.
\<close>

record 'c machine =
  time_Now :: "'c \<Rightarrow> int"
  time_Sleep :: "int \<Rightarrow> 'c \<Rightarrow> 'c"

definition Second :: int where
  "Second = 1000000000"

record WAITER =
  w_start :: int
  Sleep :: int
  Timeout :: int

definition NewWaiter :: "int \<Rightarrow> int \<Rightarrow> int \<Rightarrow> WAITER" where
  "NewWaiter now sleep timeout =
     (let waiter = \<lparr>w_start = now, Sleep = 1, Timeout = 120\<rparr>;
          waiter = (if sleep > 1 then waiter\<lparr>Sleep := sleep\<rparr> else waiter)
      in if timeout > Sleep waiter then waiter\<lparr>Timeout := timeout\<rparr> else waiter)"

definition Wait :: "'c machine \<Rightarrow> WAITER \<Rightarrow> 'c \<Rightarrow> bool \<times> 'c" where
  "Wait mach waiter c =
     (let elapsed = time_Now mach c - w_start waiter
      in if elapsed div Second < Timeout waiter then (True, time_Sleep mach (Sleep waiter * Second) c) else (False, c))"

lemma NewWaiter_sel [simp]:
  "w_start (NewWaiter now s t) = now" "Sleep (NewWaiter now s t) = max 1 s"
  "Timeout (NewWaiter now s t) = (if t > max 1 s then t else 120)"
  by (simp_all add: NewWaiter_def Let_def)

text \<open>
  The loop \<open>for { ... if !waiter.Wait() { ... } }\<close>. A turn of its body leaves the loop with a value, goes to the next
  turn by \<open>continue\<close>, or arrives at the call of \<open>Wait\<close>. When the time is up the loop is left with the value \<open>late\<close>, or
  goes on when the code has no way out there.
\<close>

datatype 'r turn = Break 'r | Continue | Polled

partial_function (option) for_wait :: "'c machine \<Rightarrow> WAITER \<Rightarrow> ('c \<Rightarrow> 'r turn \<times> 'c) \<Rightarrow> 'r option \<Rightarrow> 'c \<Rightarrow> ('r \<times> 'c) option" where
  "for_wait mach waiter body late c =
     (case body c of
        (Break r, c) \<Rightarrow> Some (r, c)
      | (Continue, c) \<Rightarrow> for_wait mach waiter body late c
      | (Polled, c) \<Rightarrow>
          (let (more, c) = Wait mach waiter c
           in if more then for_wait mach waiter body late c
              else (case late of Some r \<Rightarrow> Some (r, c) | None \<Rightarrow> for_wait mach waiter body late c)))"

declare for_wait.simps [code]

subsection \<open>Returning\<close>

text \<open>A clock that a pause moves on by at least its length, and a body that does not turn it back.\<close>

definition clock_ok :: "'c machine \<Rightarrow> bool" where
  "clock_ok mach \<longleftrightarrow> (\<forall>n c. 0 \<le> n \<longrightarrow> time_Now mach c + n \<le> time_Now mach (time_Sleep mach n c))"

definition keeps_time :: "'c machine \<Rightarrow> ('c \<Rightarrow> 'a \<times> 'c) \<Rightarrow> bool" where
  "keeps_time mach f \<longleftrightarrow> (\<forall>c. time_Now mach c \<le> time_Now mach (snd (f c)))"

lemma Wait_True:
  assumes "clock_ok mach" and "Wait mach waiter c = (True, c')" and "1 \<le> Sleep waiter"
  shows "time_Now mach c < w_start waiter + Timeout waiter * Second"
    and "time_Now mach c + Sleep waiter * Second \<le> time_Now mach c'"
proof -
  from assms(2) have late: "(time_Now mach c - w_start waiter) div Second < Timeout waiter"
    and c': "c' = time_Sleep mach (Sleep waiter * Second) c"
    by (auto simp: Wait_def Let_def split: if_splits)
  from late show "time_Now mach c < w_start waiter + Timeout waiter * Second"
    by (simp add: Second_def div_less_iff_less_mult)
  from assms(1,3) show "time_Now mach c + Sleep waiter * Second \<le> time_Now mach c'"
    unfolding c' clock_ok_def by (simp add: Second_def)
qed

lemma Wait_False: "Wait mach waiter c = (False, c') \<Longrightarrow> c' = c"
  by (auto simp: Wait_def Let_def split: if_splits)

text \<open>
  The turns left before the time is up: a counter that a turn raises by one at most and that pauses leave alone says how
  often the body has run.
\<close>

definition turns_left :: "'c machine \<Rightarrow> WAITER \<Rightarrow> 'c \<Rightarrow> nat" where
  "turns_left mach waiter c =
     nat ((w_start waiter + Timeout waiter * Second - time_Now mach c + Sleep waiter * Second - 1) div (Sleep waiter * Second))"

lemma turns_left_Wait:
  assumes "clock_ok mach" and "Wait mach waiter c = (True, c')" and "1 \<le> Sleep waiter" and "time_Now mach c0 \<le> time_Now mach c"
  shows "turns_left mach waiter c' < turns_left mach waiter c0"
proof -
  define k where "k = Sleep waiter * Second"
  define d where "d = w_start waiter + Timeout waiter * Second"
  have k: "0 < k" using assms(3) by (simp add: k_def Second_def)
  note w = Wait_True[OF assms(1-3), folded k_def d_def]
  have "d - time_Now mach c' + k - 1 \<le> (d - time_Now mach c0 + k - 1) - k"
    using w(2) assms(4) by simp
  then have "(d - time_Now mach c' + k - 1) div k \<le> ((d - time_Now mach c0 + k - 1) - k) div k"
    using k by (rule zdiv_mono1)
  also have "\<dots> = (d - time_Now mach c0 + k - 1) div k - 1"
    using div_add_self2[of k "d - time_Now mach c0 + k - 1 - k"] k by (simp add: algebra_simps)
  finally have "(d - time_Now mach c' + k - 1) div k < (d - time_Now mach c0 + k - 1) div k" by simp
  moreover have "0 < (d - time_Now mach c0 + k - 1) div k"
    using w(1) assms(4) k by (simp add: pos_imp_zdiv_pos_iff)
  ultimately show ?thesis by (simp add: turns_left_def k_def d_def)
qed

lemma for_wait_returns:
  assumes "clock_ok mach" and "1 \<le> Sleep waiter" and "keeps_time mach body"
    and "\<And>c. fst (body c) \<noteq> Continue"
    and turn: "\<And>c. count (snd (body c)) \<le> Suc (count c)" and pause: "\<And>n c. count (time_Sleep mach n c) = count c"
  shows "\<exists>r c'. for_wait mach waiter body (Some late) c = Some (r, c') \<and> count c' \<le> count c + Suc (turns_left mach waiter c)"
proof (induction "turns_left mach waiter c" arbitrary: c rule: less_induct)
  case less
  obtain t c1 where b: "body c = (t, c1)" by (cases "body c")
  from assms(3) b have time: "time_Now mach c \<le> time_Now mach c1" unfolding keeps_time_def by (metis snd_conv)
  from turn[of c] b have n: "count c1 \<le> Suc (count c)" by simp
  show ?case
  proof (cases t)
    case Polled
    obtain more c2 where w: "Wait mach waiter c1 = (more, c2)" by (cases "Wait mach waiter c1")
    show ?thesis
    proof (cases more)
      case True
      with w have w: "Wait mach waiter c1 = (True, c2)" by simp
      then have c2: "count c2 = count c1" using pause by (auto simp: Wait_def Let_def split: if_splits)
      have fewer: "turns_left mach waiter c2 < turns_left mach waiter c" by (rule turns_left_Wait[OF assms(1) w assms(2) time])
      from less[OF fewer] obtain r c' where "for_wait mach waiter body (Some late) c2 = Some (r, c')"
        and "count c' \<le> count c2 + Suc (turns_left mach waiter c2)" by blast
      then show ?thesis using b w Polled n c2 fewer by (subst for_wait.simps) simp
    next
      case False
      with w have "Wait mach waiter c1 = (False, c1)" by (metis Wait_False)
      then show ?thesis using b Polled n by (subst for_wait.simps) simp
    qed
  next
    case (Break r)
    then show ?thesis using b n by (subst for_wait.simps) simp
  next
    case Continue
    then show ?thesis using b assms(4)[of c] by simp
  qed
qed

subsection \<open>What holds of a loop that returns\<close>

lemma for_wait_rule [consumes 1, case_names Break Continue Again Late]:
  fixes mach :: "'c machine" and body :: "'c \<Rightarrow> 'r turn \<times> 'c"
  assumes "for_wait mach waiter body late c = Some (r, c')"
    and brk: "\<And>c r c1. body c = (Break r, c1) \<Longrightarrow> P c r c1"
    and cont: "\<And>c c1 r c'. body c = (Continue, c1) \<Longrightarrow> P c1 r c' \<Longrightarrow> P c r c'"
    and again: "\<And>c c1 more c2 r c'. body c = (Polled, c1) \<Longrightarrow> Wait mach waiter c1 = (more, c2) \<Longrightarrow> more \<or> late = None \<Longrightarrow>
      P c2 r c' \<Longrightarrow> P c r c'"
    and out: "\<And>c c1 r c2. body c = (Polled, c1) \<Longrightarrow> Wait mach waiter c1 = (False, c2) \<Longrightarrow> late = Some r \<Longrightarrow> P c r c2"
  shows "P c r c'"
proof -
  have "mach = mach \<and> waiter = waiter \<and> body = body \<and> late = late \<longrightarrow> P c (fst (r, c')) (snd (r, c'))"
    using assms(1)
  proof (rule for_wait.raw_induct[where P = "\<lambda>m w b l c x. m = mach \<and> w = waiter \<and> b = body \<and> l = late \<longrightarrow> P c (fst x) (snd x)", rotated])
    fix rec :: "'c machine \<Rightarrow> WAITER \<Rightarrow> ('c \<Rightarrow> 'r turn \<times> 'c) \<Rightarrow> 'r option \<Rightarrow> 'c \<Rightarrow> ('r \<times> 'c) option" and m w b l c x
    assume IH: "\<And>m w b l c x. rec m w b l c = Some x \<Longrightarrow> m = mach \<and> w = waiter \<and> b = body \<and> l = late \<longrightarrow> P c (fst x) (snd x)"
      and run: "(case b c of (Break r, c) \<Rightarrow> Some (r, c) | (Continue, c) \<Rightarrow> rec m w b l c
         | (Polled, c) \<Rightarrow> (let (more, c) = Wait m w c
             in if more then rec m w b l c else (case l of None \<Rightarrow> rec m w b l c | Some r \<Rightarrow> Some (r, c)))) = Some x"
    show "m = mach \<and> w = waiter \<and> b = body \<and> l = late \<longrightarrow> P c (fst x) (snd x)"
    proof (intro impI, elim conjE)
      assume eq: "m = mach" "w = waiter" "b = body" "l = late"
      have rec: "P c1 (fst x) (snd x)" if "rec mach waiter body late c1 = Some x" for c1
        using IH[OF that] by simp
      obtain t c1 where b: "body c = (t, c1)" by (cases "body c")
      obtain more c2 where w: "Wait mach waiter c1 = (more, c2)" by (cases "Wait mach waiter c1")
      show "P c (fst x) (snd x)"
        using run b w eq rec brk[of c] cont[of c] again[of c] out[of c]
        by (cases t; cases more; cases late) auto
    qed
  qed
  then show ?thesis by simp
qed

text \<open>It was left by its body, or by the branch for the end of the time.\<close>

lemma for_wait_left:
  assumes "for_wait mach waiter body late c = Some (r, c')"
  shows "late = Some r \<or> (\<exists>c1. body c1 = (Break r, c'))"
  using assms by (induction rule: for_wait_rule) blast+

text \<open>A loop whose body is never left, and that has no way out at the end of the time, does not return.\<close>

lemma for_wait_loops:
  assumes turn: "\<And>c. I c \<Longrightarrow> (fst (body c) = Continue \<or> fst (body c) = Polled \<and> late = None) \<and> I (snd (body c))"
    and pause: "\<And>n c. I c \<Longrightarrow> I (time_Sleep mach n c)" and "I c"
  shows "for_wait mach waiter body late c = None"
proof (rule ccontr)
  assume "for_wait mach waiter body late c \<noteq> None"
  then obtain r c' where "for_wait mach waiter body late c = Some (r, c')" by (metis not_None_eq surj_pair)
  then have "\<not> I c"
  proof (induction rule: for_wait_rule)
    case (Again c c1 more c2 r c')
    then show ?case using turn[of c] pause by (auto simp: Wait_def Let_def split: if_splits)
  qed (use turn in \<open>force+\<close>)
  with assms(3) show False by simp
qed

section \<open>In the world of the runtime\<close>

definition onCloudR :: "('c \<Rightarrow> ('a go_result \<times> 'c) option) \<Rightarrow> (('d, 'c) world, 'a) run" where
  "onCloudR f w = (case f (w_cloud w) of None \<Rightarrow> None | Some (r, c) \<Rightarrow> Some (r, w\<lparr>w_cloud := c\<rparr>))"

text \<open>A lock whose holder does not return is never released.\<close>

definition withLockR :: "splock_id \<Rightarrow> lmode \<Rightarrow> string \<Rightarrow> string \<Rightarrow> (('d, 'c) world, 'a) run \<Rightarrow> (('d, 'c) world, 'a) run" where
  "withLockR l md conn name m w =
     (case m (w\<lparr>w_locks := (l, md, conn, name) # w_locks w\<rparr>) of
        None \<Rightarrow> None
      | Some (r, w') \<Rightarrow> Some (r, w'\<lparr>w_locks := remove1 (l, md, conn, name) (w_locks w')\<rparr>))"

lemma wlpR_onCloudR:
  assumes "\<And>x c. f (w_cloud w) = Some (Inr x, c) \<Longrightarrow> Q x (w\<lparr>w_cloud := c\<rparr>)"
    and "\<And>e c. f (w_cloud w) = Some (Inl e, c) \<Longrightarrow> E e (w\<lparr>w_cloud := c\<rparr>)"
  shows "wlpR (onCloudR f) Q E w"
  using assms by (auto simp: wlpR_def onCloudR_def split: option.split sum.split)

lemma wpR_onCloudR:
  assumes "f (w_cloud w) \<noteq> None"
    and "\<And>x c. f (w_cloud w) = Some (Inr x, c) \<Longrightarrow> Q x (w\<lparr>w_cloud := c\<rparr>)"
    and "\<And>e c. f (w_cloud w) = Some (Inl e, c) \<Longrightarrow> E e (w\<lparr>w_cloud := c\<rparr>)"
  shows "wpR (onCloudR f) Q E w"
  using assms by (auto simp: wpR_def onCloudR_def split: option.split sum.split)

lemma wpR_withLockR [wp_simps]:
  "wpR (withLockR l md conn name m) Q E w =
     wpR m (\<lambda>x w'. Q x (w'\<lparr>w_locks := remove1 (l, md, conn, name) (w_locks w')\<rparr>))
       (\<lambda>e w'. E e (w'\<lparr>w_locks := remove1 (l, md, conn, name) (w_locks w')\<rparr>))
       (w\<lparr>w_locks := (l, md, conn, name) # w_locks w\<rparr>)"
  by (simp add: wpR_def withLockR_def split: option.split prod.split sum.split)

lemma wlpR_withLockR [wp_simps]:
  "wlpR (withLockR l md conn name m) Q E w =
     wlpR m (\<lambda>x w'. Q x (w'\<lparr>w_locks := remove1 (l, md, conn, name) (w_locks w')\<rparr>))
       (\<lambda>e w'. E e (w'\<lparr>w_locks := remove1 (l, md, conn, name) (w_locks w')\<rparr>))
       (w\<lparr>w_locks := (l, md, conn, name) # w_locks w\<rparr>)"
  by (simp add: wlpR_def withLockR_def split: option.split prod.split sum.split)

lemma R_withLockRI:
  "wlpR m (\<lambda>x w'. Q x (w'\<lparr>w_locks := remove1 (l, md, conn, name) (w_locks w')\<rparr>))
     (\<lambda>e w'. E e (w'\<lparr>w_locks := remove1 (l, md, conn, name) (w_locks w')\<rparr>))
     (w\<lparr>w_locks := (l, md, conn, name) # w_locks w\<rparr>) \<Longrightarrow> wlpR (withLockR l md conn name m) Q E w"
  "wpR m (\<lambda>x w'. Q x (w'\<lparr>w_locks := remove1 (l, md, conn, name) (w_locks w')\<rparr>))
     (\<lambda>e w'. E e (w'\<lparr>w_locks := remove1 (l, md, conn, name) (w_locks w')\<rparr>))
     (w\<lparr>w_locks := (l, md, conn, name) # w_locks w\<rparr>) \<Longrightarrow> wpR (withLockR l md conn name m) Q E w"
  by (simp_all add: wlpR_withLockR wpR_withLockR)

lemmas R_walk = R_returningI R_bindRI R_case_prodI R_ifI R_case_optionI R_withLockRI wp_walk

lemma withLockR_None:
  "withLockR l md conn name m w = None \<longleftrightarrow> m (w\<lparr>w_locks := (l, md, conn, name) # w_locks w\<rparr>) = None"
  by (simp add: withLockR_def split: option.split)

end
