(* ===== verification/VMManager.thy ===== *)
theory VMManager
  imports Waiter Example
begin

text \<open>
  The manager of virtual machines, \<open>common-runtime/VMManager.go\<close>, but for the start of a VM (theory \<open>VMStart\<close>): the
  status of VMs, their control and deletion, their registration, and the infos that name what a VM uses.

  \<open>GetVMStatus\<close>, \<open>ListVMStatus\<close> and \<open>DeleteVM\<close> poll the driver, \<open>ListVM\<close> waits for its goroutines: they are programs that
  may not return.
\<close>

section \<open>Handlers\<close>

definition vm_handler :: "('d, 'c) env \<Rightarrow> string \<Rightarrow> 'c VMHandler go_result" where
  "vm_handler env connectionName =
     (case ccm_GetCloudConnection env connectionName of
        Inl err \<Rightarrow> Inl err
      | Inr cldConn \<Rightarrow> CreateVMHandler cldConn)"

definition zone_vm_handler :: "('d, 'c) env \<Rightarrow> string \<Rightarrow> string \<Rightarrow> 'c VMHandler go_result" where
  "zone_vm_handler env connectionName zoneId =
     (case ccm_GetZoneLevelCloudConnection env connectionName zoneId of
        Inl err \<Rightarrow> Inl err
      | Inr cldConn \<Rightarrow> CreateVMHandler cldConn)"

section \<open>Status\<close>

definition known_status :: "string \<Rightarrow> bool" where
  "known_status status \<longleftrightarrow>
     status = Creating \<or> status = Running \<or> status = Suspending \<or> status = Suspended \<or>
     status = Resuming \<or> status = Rebooting \<or> status = Terminating \<or> status = Terminated \<or>
     status = NotExist \<or> status = Failed"

definition not_found :: "IID \<Rightarrow> go_error" where
  "not_found driverIID = ''Not Found '' @ SystemId driverIID"

definition status_timeout :: "string \<Rightarrow> int \<Rightarrow> go_error" where
  "status_timeout nameID timeout =
     ''Unable to provide current VM status for VM '' @ quoted nameID @ ''. Timeout after '' @ Itoa (nat timeout) @ '' seconds''"

text \<open>A turn of the loop of \<open>GetVMStatus\<close>.\<close>

definition status_turn :: "'c VMHandler \<Rightarrow> IID \<Rightarrow> 'c \<Rightarrow> string go_result turn \<times> 'c" where
  "status_turn handler driverIID c =
     (let ((info, err), c) = vmh_GetVMStatus handler driverIID c;
          err = (if info = NotExist then Some (not_found driverIID) else err)
      in (case err of
            Some e \<Rightarrow> Break (Inl e)
          | None \<Rightarrow> if known_status info then Break (Inr info) else Polled, c))"

definition GetVMStatus :: "('d, 'c) env \<Rightarrow> 'c machine \<Rightarrow> string \<Rightarrow> string \<Rightarrow> (('d, 'c) world, string) run" where
  "GetVMStatus env mach connectionName nameID =
     bindR (returning (
       bindP (lift_result (EmptyCheckAndTrim ''connectionName'' connectionName)) (\<lambda>connectionName.
       bindP (lift_result (EmptyCheckAndTrim ''nameID'' nameID)) (\<lambda>nameID.
       bindP (get_iid_info env VMIIDInfo connectionName nameID) (\<lambda>iidInfo.
       bindP (lift_result (zone_vm_handler env connectionName (row_ZoneId iidInfo))) (\<lambda>handler.
       ret (nameID, getDriverIID (row_IID iidInfo), handler))))))) (\<lambda>(nameID, driverIID, handler).
     onCloudR (\<lambda>c.
       let waiter = NewWaiter (time_Now mach c) 3 60
       in for_wait mach waiter (status_turn handler driverIID) (Some (Inl (status_timeout nameID (Timeout waiter)))) c))"

text \<open>
  A turn of the loop inside \<open>ListVMStatus\<close>, which gets its connection anew; a VM that is not found has the status
  \<open>NotExist\<close>.
\<close>

definition list_status_turn :: "('d, 'c) env \<Rightarrow> string \<Rightarrow> iid_row \<Rightarrow> 'c \<Rightarrow> string go_result turn \<times> 'c" where
  "list_status_turn env connectionName iidInfo c =
     (case zone_vm_handler env connectionName (row_ZoneId iidInfo) of
        Inl err \<Rightarrow> (Break (Inl err), c)
      | Inr handler \<Rightarrow>
          (let driverIID = getDriverIID (row_IID iidInfo);
               ((statusInfo, err), c) = vmh_GetVMStatus handler driverIID c;
               err = (if statusInfo = NotExist then Some (not_found driverIID) else err)
           in (case err of
                 Some e \<Rightarrow> if checkNotFoundError e then Break (Inr NotExist) else Break (Inl e)
               | None \<Rightarrow> if known_status statusInfo then Break (Inr statusInfo) else Polled, c)))"

fun ListVMStatus_loop :: "('d, 'c) env \<Rightarrow> 'c machine \<Rightarrow> string \<Rightarrow> iid_row list \<Rightarrow> VMStatusInfo list \<Rightarrow>
    (('d, 'c) world, VMStatusInfo list) run" where
  "ListVMStatus_loop env mach connectionName [] infoList2 = returning (ret infoList2)"
| "ListVMStatus_loop env mach connectionName (iidInfo # rest) infoList2 =
     bindR (onCloudR (\<lambda>c.
       let waiter = NewWaiter (time_Now mach c) 3 60
       in for_wait mach waiter (list_status_turn env connectionName iidInfo)
            (Some (Inl (status_timeout (row_NameId iidInfo) (Timeout waiter)))) c)) (\<lambda>statusInfo.
     ListVMStatus_loop env mach connectionName rest
       (infoList2 @ [\<lparr>vmst_IId = getUserIID (row_IID iidInfo), vmst_VmStatus = statusInfo\<rparr>]))"

definition ListVMStatus :: "('d, 'c) env \<Rightarrow> 'c machine \<Rightarrow> string \<Rightarrow> (('d, 'c) world, VMStatusInfo list) run" where
  "ListVMStatus env mach connectionName =
     bindR (returning (
       bindP (lift_result (EmptyCheckAndTrim ''connectionName'' connectionName)) (\<lambda>connectionName.
       bindP (list_iid_infos env VMIIDInfo connectionName) (\<lambda>iidInfoList.
       ret (connectionName, iidInfoList))))) (\<lambda>(connectionName, iidInfoList).
     if iidInfoList = [] then returning (ret []) else ListVMStatus_loop env mach connectionName iidInfoList [])"

section \<open>Control\<close>

definition ControlVM :: "('d, 'c) env \<Rightarrow> string \<Rightarrow> string \<Rightarrow> string \<Rightarrow> (('d, 'c) world, string) prog" where
  "ControlVM env connectionName nameID action =
     withLock vmSPLock Rd connectionName nameID
       (bindP (get_iid_info env VMIIDInfo connectionName nameID) (\<lambda>iidInfo.
        bindP (lift_result (zone_vm_handler env connectionName (row_ZoneId iidInfo))) (\<lambda>handler.
        let vmIID = getDriverIID (row_IID iidInfo)
        in if ToLower action = ''suspend'' then onCloud (vmh_SuspendVM handler vmIID)
           else if ToLower action = ''resume'' then onCloud (vmh_ResumeVM handler vmIID)
           else if ToLower action = ''reboot'' then onCloud (vmh_RebootVM handler vmIID)
           else throw (action @ '' is not a valid action!!''))))"

section \<open>Deletion\<close>

text \<open>
  A turn of the loop that waits for the VM to disappear. It is left with the status to return, or with an error: the
  code leaves it in both ways with a status, which beside an error is not used.
\<close>

definition terminated_turn :: "'c VMHandler \<Rightarrow> IID \<Rightarrow> string \<Rightarrow> string \<Rightarrow> 'c \<Rightarrow> string go_result turn \<times> 'c" where
  "terminated_turn handler driverIId force vmStatus c =
     (let ((status, err), c) = vmh_GetVMStatus handler driverIId c;
          err = (if status = NotExist then Some (not_found driverIId) else err)
      in (case err of
            Some e \<Rightarrow>
              if checkNotFoundError e then Break (Inr vmStatus)
              else if status = Failed then Break (Inr vmStatus)
              else if force \<noteq> ''true'' then Break (Inl e) else Break (Inr vmStatus)
          | None \<Rightarrow> if status = Terminated then Break (Inr status) else Polled, c))"

definition terminate_timeout :: "string \<Rightarrow> IID \<Rightarrow> int \<Rightarrow> go_error" where
  "terminate_timeout connectionName driverIId timeout =
     ''['' @ connectionName @ ''] Failed to terminate VM '' @ NameId driverIId @ ''. (Timeout='' @ Itoa (nat timeout) @ '')''"

text \<open>When the time is up a forced deletion stays in the loop.\<close>

definition wait_terminated :: "'c machine \<Rightarrow> 'c VMHandler \<Rightarrow> string \<Rightarrow> IID \<Rightarrow> string \<Rightarrow> string \<Rightarrow> 'c \<Rightarrow> (string go_result \<times> 'c) option" where
  "wait_terminated mach handler connectionName driverIId force vmStatus c =
     (let waiter = NewWaiter (time_Now mach c) 15 600
      in for_wait mach waiter (terminated_turn handler driverIId force vmStatus)
           (if force \<noteq> ''true'' then Some (Inl (terminate_timeout connectionName driverIId (Timeout waiter))) else None) c)"

text \<open>The call of \<open>TerminateVM\<close>: the status it gave, and the \<open>force\<close> to go on with.\<close>

definition onCloudStatus :: "'c status_call \<Rightarrow> (('d, 'c) world, string \<times> go_error option) prog" where
  "onCloudStatus f w = (let (r, c) = f (w_cloud w) in (Inr r, w\<lparr>w_cloud := c\<rparr>))"

definition terminate_call :: "'c VMHandler \<Rightarrow> IID \<Rightarrow> string \<Rightarrow> (('d, 'c) world, string \<times> string) prog" where
  "terminate_call handler driverIId force =
     bindP (onCloudStatus (vmh_TerminateVM handler driverIId)) (\<lambda>(vmStatus, err).
     case err of
       None \<Rightarrow> ret (vmStatus, force)
     | Some e \<Rightarrow>
         if checkNotFoundError e then ret (vmStatus, ''true'')
         else if force \<noteq> ''true'' then throw e else ret (vmStatus, force))"

definition DeleteVM :: "('d, 'c) env \<Rightarrow> 'c machine \<Rightarrow> string \<Rightarrow> string \<Rightarrow> string \<Rightarrow> (('d, 'c) world, bool \<times> string) run" where
  "DeleteVM env mach connectionName nameID force =
     bindR (returning (lift_result (EmptyCheckAndTrim ''connectionName'' connectionName))) (\<lambda>connectionName.
     bindR (returning (lift_result (EmptyCheckAndTrim ''nameID'' nameID))) (\<lambda>nameID.
     withLockR vmSPLock Wr connectionName nameID
       (bindR (returning (
          bindP (get_iid_info env VMIIDInfo connectionName nameID) (\<lambda>iidInfo.
          bindP (lift_result (zone_vm_handler env connectionName (row_ZoneId iidInfo))) (\<lambda>handler.
          bindP (lift_result (ccm_GetProviderNameByConnectionName env connectionName)) (\<lambda>providerName.
          bindP (lift_result (ccm_GetRegionNameByConnectionName env connectionName)) (\<lambda>regionZone.
          bindP (terminate_call handler (getDriverIID (row_IID iidInfo)) force) (\<lambda>(vmStatus, force).
          ret (iidInfo, handler, vmStatus, force)))))))) (\<lambda>(iidInfo, handler, vmStatus, force).
        bindR (onCloudR (wait_terminated mach handler connectionName (getDriverIID (row_IID iidInfo)) force vmStatus)) (\<lambda>vmStatus.
        returning (
          catchP (onStore (DeleteByConditions (env_gorm env) VMIIDInfo CONNECTION_NAME_COLUMN (row_ConnectionName iidInfo)
              NAME_ID_COLUMN (row_NameId iidInfo)))
            (\<lambda>err. if force \<noteq> ''true'' then throw err else ret (True, vmStatus))
            (\<lambda>_. ret (True, vmStatus))))))))"

section \<open>The names in the info of a VM\<close>

text \<open>\<open>for i, x := range xs { ... xs[i].NameId = ... }\<close>.\<close>

fun mapP :: "('a \<Rightarrow> ('s, 'b) prog) \<Rightarrow> 'a list \<Rightarrow> ('s, 'b list) prog" where
  "mapP f [] = ret []"
| "mapP f (x # xs) = bindP (f x) (\<lambda>y. bindP (mapP f xs) (\<lambda>ys. ret (y # ys)))"

text \<open>
  The steps of \<open>getSetNameId\<close>: the image, the VPC, the subnet, the security groups, the key pair, the disks. Each finds
  the row whose system id contains that of the CSP and takes its name.
\<close>

definition set_image_name :: "('d, 'c) env \<Rightarrow> string \<Rightarrow> VMInfo \<Rightarrow> (('d, 'c) world, VMInfo) prog" where
  "set_image_name env connectionName vmInfo =
     bindP (if SystemId (vm_ImageIId vmInfo) \<noteq> []
            then find_by_contain env MyImageIIDInfo connectionName (SystemId (vm_ImageIId vmInfo))
                   (\<lambda>err. Contains err ''does not exist'' \<or> Contains err ''not found'')
            else ret None) (\<lambda>imageIIdInfo.
     case imageIIdInfo of
       Some row \<Rightarrow>
         if row_NameId row \<noteq> [] then ret (vmInfo\<lparr>vm_ImageType := MyImage, vm_ImageIId := (vm_ImageIId vmInfo)\<lparr>NameId := row_NameId row\<rparr>\<rparr>)
         else ret (vmInfo\<lparr>vm_ImageType := PublicImage, vm_ImageIId := (vm_ImageIId vmInfo)\<lparr>NameId := SystemId (vm_ImageIId vmInfo)\<rparr>\<rparr>)
     | None \<Rightarrow> ret (vmInfo\<lparr>vm_ImageType := PublicImage, vm_ImageIId := (vm_ImageIId vmInfo)\<lparr>NameId := SystemId (vm_ImageIId vmInfo)\<rparr>\<rparr>))"

definition set_vpc_name :: "('d, 'c) env \<Rightarrow> string \<Rightarrow> VMInfo \<Rightarrow> (('d, 'c) world, VMInfo) prog" where
  "set_vpc_name env connectionName vmInfo =
     (if SystemId (vm_VpcIID vmInfo) \<noteq> [] then
        bindP (find_by_contain env VPCIIDInfo connectionName (SystemId (vm_VpcIID vmInfo)) (\<lambda>_. False)) (\<lambda>iidInfo.
        ret (case iidInfo of None \<Rightarrow> vmInfo | Some row \<Rightarrow> vmInfo\<lparr>vm_VpcIID := (vm_VpcIID vmInfo)\<lparr>NameId := row_NameId row\<rparr>\<rparr>))
      else ret vmInfo)"

text \<open>The connection to look subnets up in: in the permission-based mode that of the row of the VPC.\<close>

definition vpc_connection :: "('d, 'c) env \<Rightarrow> string \<Rightarrow> string \<Rightarrow> (('d, 'c) world, string) prog" where
  "vpc_connection env connectionName vpcName =
     (if permission_mode env then
        bindP (getAuthIIDInfoList env connectionName VPCIIDInfo) (\<lambda>iidInfoList.
        bindP (lift_result (getAuthIIDInfo VPCIIDInfo iidInfoList vpcName)) (\<lambda>vpcIIDInfo.
        ret (row_ConnectionName vpcIIDInfo)))
      else ret connectionName)"

definition set_subnet_name :: "('d, 'c) env \<Rightarrow> string \<Rightarrow> VMInfo \<Rightarrow> (('d, 'c) world, VMInfo) prog" where
  "set_subnet_name env connectionName vmInfo =
     (if SystemId (vm_SubnetIID vmInfo) \<noteq> [] then
        bindP (vpc_connection env connectionName (NameId (vm_VpcIID vmInfo))) (\<lambda>conn.
        catchP (onStore (GetByConditionsAndContain (env_gorm env) SubnetIIDInfo CONNECTION_NAME_COLUMN conn
            OWNER_VPC_NAME_COLUMN (NameId (vm_VpcIID vmInfo)) SYSTEM_ID_COLUMN (SystemId (vm_SubnetIID vmInfo))))
          (\<lambda>err. if checkNotFoundError err then ret vmInfo else throw err)
          (\<lambda>iidInfo. ret (if row_NameId iidInfo \<noteq> []
             then vmInfo\<lparr>vm_SubnetIID := (vm_SubnetIID vmInfo)\<lparr>NameId := row_NameId iidInfo\<rparr>\<rparr> else vmInfo)))
      else ret vmInfo)"

definition sg_name :: "('d, 'c) env \<Rightarrow> string \<Rightarrow> string \<Rightarrow> IID \<Rightarrow> (('d, 'c) world, IID) prog" where
  "sg_name env connectionName vpcName sgIID =
     (if permission_mode env then
        bindP (getAuthIIDInfoList env connectionName SGIIDInfo) (\<lambda>iidInfoList.
        case getAuthIIDInfoBySystemIdContain SGIIDInfo iidInfoList (SystemId sgIID) of
          Inl err \<Rightarrow> ret sgIID
        | Inr iidInfo \<Rightarrow> ret (sgIID\<lparr>NameId := row_NameId iidInfo\<rparr>))
      else
        catchP (onStore (GetByConditionsAndContain (env_gorm env) SGIIDInfo CONNECTION_NAME_COLUMN connectionName
            OWNER_VPC_NAME_COLUMN vpcName SYSTEM_ID_COLUMN (SystemId sgIID)))
          (\<lambda>err. ret sgIID) (\<lambda>iidInfo. ret (sgIID\<lparr>NameId := row_NameId iidInfo\<rparr>)))"

definition set_key_name :: "('d, 'c) env \<Rightarrow> string \<Rightarrow> VMInfo \<Rightarrow> (('d, 'c) world, VMInfo) prog" where
  "set_key_name env connectionName vmInfo =
     (if SystemId (vm_KeyPairIId vmInfo) \<noteq> [] then
        catchP (find_by_contain env KeyIIDInfo connectionName (SystemId (vm_KeyPairIId vmInfo)) (\<lambda>_. True))
          (\<lambda>err. ret (vmInfo\<lparr>vm_KeyPairIId := (vm_KeyPairIId vmInfo)\<lparr>NameId := []\<rparr>\<rparr>))
          (\<lambda>iidInfo. ret (vmInfo\<lparr>vm_KeyPairIId := (vm_KeyPairIId vmInfo)
             \<lparr>NameId := (case iidInfo of None \<Rightarrow> [] | Some row \<Rightarrow> row_NameId row)\<rparr>\<rparr>))
      else ret vmInfo)"

definition disk_name :: "('d, 'c) env \<Rightarrow> string \<Rightarrow> IID \<Rightarrow> (('d, 'c) world, IID) prog" where
  "disk_name env connectionName diskIID =
     bindP (find_by_contain env DiskIIDInfo connectionName (SystemId diskIID) (\<lambda>err. Contains err ''does not exist'')) (\<lambda>iidInfo.
     ret (case iidInfo of None \<Rightarrow> diskIID | Some row \<Rightarrow> diskIID\<lparr>NameId := row_NameId row\<rparr>))"

definition getSetNameId :: "('d, 'c) env \<Rightarrow> string \<Rightarrow> VMInfo \<Rightarrow> (('d, 'c) world, VMInfo) prog" where
  "getSetNameId env connectionName vmInfo =
     bindP (set_image_name env connectionName vmInfo) (\<lambda>vmInfo.
     bindP (set_vpc_name env connectionName vmInfo) (\<lambda>vmInfo.
     bindP (set_subnet_name env connectionName vmInfo) (\<lambda>vmInfo.
     bindP (mapP (sg_name env connectionName (NameId (vm_VpcIID vmInfo))) (vm_SecurityGroupIIds vmInfo)) (\<lambda>sgs.
     bindP (set_key_name env connectionName (vmInfo\<lparr>vm_SecurityGroupIIds := sgs\<rparr>)) (\<lambda>vmInfo.
     bindP (mapP (disk_name env connectionName) (vm_DataDiskIIDs vmInfo)) (\<lambda>disks.
     ret (vmInfo\<lparr>vm_DataDiskIIDs := disks\<rparr>)))))))"

text \<open>"check Winddows GuestOS": the user and the access point.\<close>

definition set_guest :: "VMInfo \<Rightarrow> VMInfo" where
  "set_guest info =
     (if vm_Platform info = WINDOWS
      then info\<lparr>vm_VMUserId := ''Administrator'', vm_SSHAccessPoint := vm_PublicIP info @ '':3389''\<rparr>
      else (let info = info\<lparr>vm_VMUserId := ''cb-user''\<rparr>
            in if vm_SSHAccessPoint info = [] then info\<lparr>vm_SSHAccessPoint := vm_PublicIP info @ '':22''\<rparr> else info))"

text \<open>The verb \<open>%d\<close>.\<close>

definition show_int :: "int \<Rightarrow> string" where
  "show_int i = (if i < 0 then ''-'' @ Itoa (nat (- i)) else Itoa (nat i))"

text \<open>\<open>resolveNICNameIds\<close>; errors of the look-ups are not errors of the function.\<close>

definition resolve_nic :: "('d, 'c) env \<Rightarrow> string \<Rightarrow> VMNICInfo \<Rightarrow> (('d, 'c) world, VMNICInfo) prog" where
  "resolve_nic env connectionName nic =
     bindP (if SystemId (nic_IId nic) \<noteq> [] then
              catchP (onStore (GetByContain (env_gorm env) NICIIDInfo CONNECTION_NAME_COLUMN connectionName
                  SYSTEM_ID_COLUMN (SystemId (nic_IId nic))))
                (\<lambda>err. ret (nic\<lparr>nic_IId := (nic_IId nic)\<lparr>NameId :=
                   (if nic_DeviceIndex nic = 0 then ''default'' else ''default-'' @ show_int (nic_DeviceIndex nic))\<rparr>\<rparr>))
                (\<lambda>nicIIdInfo. ret (nic\<lparr>nic_IId := (nic_IId nic)\<lparr>NameId := row_NameId nicIIdInfo\<rparr>\<rparr>))
            else ret nic) (\<lambda>nic.
     if SystemId (nic_SubnetIID nic) \<noteq> [] \<and> NameId (nic_SubnetIID nic) = [] then
       catchP (onStore (GetByContain (env_gorm env) SubnetIIDInfo CONNECTION_NAME_COLUMN connectionName
           SYSTEM_ID_COLUMN (SystemId (nic_SubnetIID nic))))
         (\<lambda>err. ret nic)
         (\<lambda>subnetIIdInfo. ret (nic\<lparr>nic_SubnetIID := (nic_SubnetIID nic)\<lparr>NameId := row_NameId subnetIIdInfo\<rparr>\<rparr>))
     else ret nic)"

definition resolveNICNameIds :: "('d, 'c) env \<Rightarrow> string \<Rightarrow> VMInfo \<Rightarrow> (('d, 'c) world, VMInfo) prog" where
  "resolveNICNameIds env connectionName info =
     (if vm_NICs info = [] then ret info
      else bindP (mapP (resolve_nic env connectionName) (vm_NICs info)) (\<lambda>nics.
        let info = info\<lparr>vm_NICs := nics\<rparr>
        in ret (if vm_NetworkInterface info = [] then
                  (case List.find (\<lambda>nic. nic_DeviceIndex nic = 0) nics of
                     Some nic \<Rightarrow> if SystemId (nic_IId nic) \<noteq> [] then info\<lparr>vm_NetworkInterface := SystemId (nic_IId nic)\<rparr> else info
                   | None \<Rightarrow> info)
                else info)))"

section \<open>Registering, reading, listing\<close>

definition RegisterVM :: "('d, 'c) env \<Rightarrow> string \<Rightarrow> IID \<Rightarrow> (('d, 'c) world, VMInfo) prog" where
  "RegisterVM env connectionName userIID =
     bindP (lift_result (EmptyCheckAndTrim ''connectionName'' connectionName)) (\<lambda>connectionName.
     bindP (validated (ValidateStruct (reflect_IID userIID) [])) (\<lambda>_.
     bindP (lift_result (vm_handler env connectionName)) (\<lambda>handler.
     withLock vmSPLock Wr connectionName (NameId userIID)
       (bindP (has_name env VMIIDInfo connectionName (NameId userIID)) (\<lambda>bool_ret.
        if bool_ret then throw (already_exists RT_VM (NameId userIID) connectionName)
        else
          bindP (onCloud (vmh_GetVM handler \<lparr>NameId = SystemId userIID, SystemId = SystemId userIID\<rparr>)) (\<lambda>getInfo.
          bindP (getSetNameId env connectionName getInfo) (\<lambda>getInfo.
          let getInfo = set_guest getInfo;
              systemId = getMSShortID (SystemId (vm_IId getInfo));
              spiderIId = \<lparr>NameId = NameId userIID, SystemId = systemId @ '':'' @ SystemId (vm_IId getInfo)\<rparr>
          in
          bindP (if region_Zone (vm_Region getInfo) = []
                 then bindP (lift_result (ccm_GetRegionNameByConnectionName env connectionName)) (\<lambda>(_, zone).
                      ret (getInfo\<lparr>vm_Region := (vm_Region getInfo)\<lparr>region_Zone := zone\<rparr>\<rparr>))
                 else ret getInfo) (\<lambda>getInfo.
          bindP (onStore (Insert (env_gorm env) VMIIDInfo
            (ZoneLevelIIDInfo connectionName (region_Zone (vm_Region getInfo)) (NameId spiderIId) (SystemId spiderIId)))) (\<lambda>_.
          ret (getInfo\<lparr>vm_IId := userIID\<rparr>))))))))))"

definition GetVM :: "('d, 'c) env \<Rightarrow> string \<Rightarrow> string \<Rightarrow> (('d, 'c) world, VMInfo) prog" where
  "GetVM env connectionName nameID =
     bindP (lift_result (EmptyCheckAndTrim ''connectionName'' connectionName)) (\<lambda>connectionName.
     bindP (lift_result (EmptyCheckAndTrim ''nameID'' nameID)) (\<lambda>nameID.
     withLock vmSPLock Rd connectionName nameID
       (bindP (get_iid_info env VMIIDInfo connectionName nameID) (\<lambda>iidInfo.
        bindP (lift_result (zone_vm_handler env connectionName (row_ZoneId iidInfo))) (\<lambda>handler.
        bindP (onCloud (vmh_GetVM handler (getDriverIID (row_IID iidInfo)))) (\<lambda>info.
        bindP (getSetNameId env (row_ConnectionName iidInfo) (info\<lparr>vm_IId := getUserIID (row_IID iidInfo)\<rparr>)) (\<lambda>info.
        resolveNICNameIds env connectionName (set_guest info))))))))"

definition GetCSPVM :: "('d, 'c) env \<Rightarrow> string \<Rightarrow> string \<Rightarrow> (('d, 'c) world, VMInfo) prog" where
  "GetCSPVM env connectionName cspID =
     bindP (lift_result (EmptyCheckAndTrim ''connectionName'' connectionName)) (\<lambda>connectionName.
     bindP (lift_result (EmptyCheckAndTrim ''cspID'' cspID)) (\<lambda>cspID.
     bindP (lift_result (vm_handler env connectionName)) (\<lambda>handler.
     onCloud (vmh_GetVM handler \<lparr>NameId = [], SystemId = cspID\<rparr>))))"

text \<open>
  The goroutine \<open>getVMInfo\<close> of \<open>ListVM\<close> sends its result on a channel. It sends nothing when it gets no connection or
  no handler, and then the receiver waits for ever: \<open>None\<close>. A panic in it, which nobody recovers, is the end of the
  whole process and gives no answer either. The goroutines run here one after the other.
\<close>

definition VMInfo_of :: "IID \<Rightarrow> VMInfo" where
  "VMInfo_of iid =
     \<lparr>vm_IId = iid, vm_StartTime = 0, vm_Region = \<lparr>region_Region = [], region_Zone = []\<rparr>, vm_ImageType = [], vm_ImageIId = IID_zero,
      vm_VMSpecName = [], vm_VpcIID = IID_zero, vm_SubnetIID = IID_zero, vm_SecurityGroupIIds = [], vm_KeyPairIId = IID_zero,
      vm_RootDiskType = [], vm_RootDiskSize = [], vm_RootDeviceName = [], vm_DataDiskIIDs = [], vm_VMBootDisk = [],
      vm_VMBlockDisk = [], vm_VMUserId = [], vm_VMUserPasswd = [], vm_NICs = [], vm_NetworkInterface = [], vm_PublicIP = [],
      vm_PublicIPs = [], vm_PublicDNS = [], vm_PrivateIP = [], vm_PrivateIPs = [], vm_PrivateDNS = [], vm_Platform = [],
      vm_SSHAccessPoint = [], vm_AccessPoint = [], vm_TagList = [], vm_KeyValueList = []\<rparr>"

definition getVMInfo :: "('d, 'c) env \<Rightarrow> iid_row \<Rightarrow> ('d, 'c) world \<Rightarrow> (VMInfo go_result \<times> ('d, 'c) world) option" where
  "getVMInfo env iidInfo w =
     (case zone_vm_handler env (row_ConnectionName iidInfo) (row_ZoneId iidInfo) of
        Inl err \<Rightarrow> None
      | Inr handler \<Rightarrow>
          (let (r, w) = withLock vmSPLock Rd (row_ConnectionName iidInfo) (row_NameId iidInfo)
                 (bindP (onCloud (vmh_GetVM handler (getDriverIID (row_IID iidInfo)))) (\<lambda>info.
                  getSetNameId env (row_ConnectionName iidInfo) (info\<lparr>vm_IId := getUserIID (row_IID iidInfo)\<rparr>))) w
           in if r = Inl nil_panic then None else Some (map_sum id set_guest r, w)))"

fun ListVM_loop :: "('d, 'c) env \<Rightarrow> iid_row list \<Rightarrow> VMInfo list \<Rightarrow> (('d, 'c) world, VMInfo list) run" where
  "ListVM_loop env [] infoList2 w = Some (Inr infoList2, w)"
| "ListVM_loop env (iidInfo # rest) infoList2 w =
     (case getVMInfo env iidInfo w of
        None \<Rightarrow> None
      | Some (Inl err, w) \<Rightarrow> ListVM_loop env rest (infoList2 @ [VMInfo_of (row_IID iidInfo)]) w
      | Some (Inr info, w) \<Rightarrow> ListVM_loop env rest (infoList2 @ [info]) w)"

definition ListVM :: "('d, 'c) env \<Rightarrow> string \<Rightarrow> (('d, 'c) world, VMInfo list) run" where
  "ListVM env connectionName =
     bindR (returning (
       bindP (lift_result (EmptyCheckAndTrim ''connectionName'' connectionName)) (\<lambda>connectionName.
       list_iid_infos env VMIIDInfo connectionName))) (\<lambda>iidInfoList.
     if iidInfoList = [] then returning (ret []) else ListVM_loop env iidInfoList [])"

section \<open>Counting\<close>

definition CountAllVMs :: "('d, 'c) env \<Rightarrow> (('d, 'c) world, nat) prog" where
  "CountAllVMs env = onStore (CountAllNameIDs (env_gorm env) VMIIDInfo)"

definition CountVMsByConnection :: "('d, 'c) env \<Rightarrow> string \<Rightarrow> (('d, 'c) world, nat) prog" where
  "CountVMsByConnection env connectionName = onStore (CountNameIDsByConnection (env_gorm env) VMIIDInfo connectionName)"


section \<open>What the programs do to rows and locks\<close>

lemma onCloudStatus_wp:
  "(\<And>st err c. f (w_cloud w) = ((st, err), c) \<Longrightarrow> Q (st, err) (w\<lparr>w_cloud := c\<rparr>)) \<Longrightarrow> wp (onCloudStatus f) Q E w"
  by (auto simp: wp_def onCloudStatus_def split: prod.split)

lemma mapP_wp:
  fixes env :: "('d, 'c) env"
  assumes step: "\<And>x w1. reads R env w w1 \<Longrightarrow> wp (f x) (\<lambda>y w2. reads R env w w2 \<and> P x y) E w1"
    and Q: "\<And>ys w'. reads R env w w' \<Longrightarrow> list_all2 P xs ys \<Longrightarrow> Q ys w'"
    and "reads R env w w1"
  shows "wp (mapP f xs) Q E w1"
  using Q assms(3)
proof (induction xs arbitrary: w1 Q)
  case Nil
  then show ?case by (simp add: wp_ret)
next
  case (Cons x xs)
  have "wp (f x) (\<lambda>y. wp (bindP (mapP f xs) (\<lambda>ys. ret (y # ys))) Q E) E w1"
  proof (rule wp_mono[OF step[OF Cons.prems(2)]])
    fix y s' assume "reads R env w s' \<and> P x y"
    then show "wp (bindP (mapP f xs) (\<lambda>ys. ret (y # ys))) Q E s'"
      by (intro wp_bindPI Cons.IH) (auto simp: wp_ret Cons.prems(1))
  qed
  then show ?case by (simp add: wp_bindP)
qed

text \<open>
  \<open>renames vm vm'\<close>: the infos differ at most in the names of what the VM uses, and in the type of its image.
\<close>

definition same_id :: "IID \<Rightarrow> IID \<Rightarrow> bool" where
  "same_id i j \<longleftrightarrow> SystemId i = SystemId j"

definition renames :: "VMInfo \<Rightarrow> VMInfo \<Rightarrow> bool" where
  "renames vm vm' \<longleftrightarrow>
     vm' = vm\<lparr>vm_ImageType := vm_ImageType vm', vm_ImageIId := vm_ImageIId vm', vm_VpcIID := vm_VpcIID vm',
       vm_SubnetIID := vm_SubnetIID vm', vm_SecurityGroupIIds := vm_SecurityGroupIIds vm', vm_KeyPairIId := vm_KeyPairIId vm',
       vm_DataDiskIIDs := vm_DataDiskIIDs vm'\<rparr> \<and>
     same_id (vm_ImageIId vm) (vm_ImageIId vm') \<and> same_id (vm_VpcIID vm) (vm_VpcIID vm') \<and>
     same_id (vm_SubnetIID vm) (vm_SubnetIID vm') \<and> same_id (vm_KeyPairIId vm) (vm_KeyPairIId vm') \<and>
     list_all2 same_id (vm_SecurityGroupIIds vm) (vm_SecurityGroupIIds vm') \<and>
     list_all2 same_id (vm_DataDiskIIDs vm) (vm_DataDiskIIDs vm')"

lemma same_id_refl [simp]: "same_id i i" "same_id i (i\<lparr>NameId := n\<rparr>)" "list_all2 same_id is is"
  by (simp_all add: same_id_def list_all2_same)

lemma renames_refl [simp]: "renames vm vm"
  by (simp add: renames_def)

lemma same_id_trans: "same_id i j \<Longrightarrow> same_id j k \<Longrightarrow> same_id i k"
  by (simp add: same_id_def)

lemma renames_trans: "renames a b \<Longrightarrow> renames b c \<Longrightarrow> renames a c"
proof -
  assume ab: "renames a b" and bc: "renames b c"
  have "list_all2 same_id xs zs" if "list_all2 same_id xs ys" and "list_all2 same_id ys zs" for xs ys zs
    using that by (rule list_all2_trans[rotated]) (rule same_id_trans)
  with ab bc show "renames a c"
    unfolding renames_def by (cases a; cases b; cases c; auto intro: same_id_trans)
qed

named_theorems vm_wp "what the steps of the naming do"

lemma set_image_name_wp [vm_wp]:
  fixes env :: "('d, 'c) env" and w :: "('d, 'c) world"
  assumes ok: "gorm_ok (env_gorm env) R"
  shows "wp (set_image_name env conn vm) (\<lambda>vm' w'. reads R env w w' \<and> renames vm vm') (\<lambda>_. reads R env w) w"
  unfolding set_image_name_def
  by (intro wp_walk find_by_contain_wp[OF ok]) (auto simp: renames_def same_id_def list_all2_same)

lemma set_vpc_name_wp [vm_wp]:
  fixes env :: "('d, 'c) env" and w :: "('d, 'c) world"
  assumes ok: "gorm_ok (env_gorm env) R"
  shows "wp (set_vpc_name env conn vm) (\<lambda>vm' w'. reads R env w w' \<and> renames vm vm') (\<lambda>_. reads R env w) w"
  unfolding set_vpc_name_def
  by (intro wp_walk find_by_contain_wp[OF ok]) (auto simp: renames_def same_id_def list_all2_same)

lemma vpc_connection_wp:
  fixes env :: "('d, 'c) env" and w :: "('d, 'c) world"
  assumes ok: "gorm_ok (env_gorm env) R"
    and Q: "\<And>c w'. reads R env w w' \<Longrightarrow> \<not> permission_mode env \<Longrightarrow> c = conn \<Longrightarrow> Q c w'" "\<And>c w'. reads R env w w' \<Longrightarrow> permission_mode env \<Longrightarrow> Q c w'"
    and E: "\<And>e w'. reads R env w w' \<Longrightarrow> E e w'"
  shows "wp (vpc_connection env conn vpc) Q E w"
  unfolding vpc_connection_def
  by (intro wp_walk getAuthIIDInfoList_wp[OF ok]) (auto intro: Q E)

lemma set_subnet_name_wp [vm_wp]:
  fixes env :: "('d, 'c) env" and w :: "('d, 'c) world"
  assumes ok: "gorm_ok (env_gorm env) R"
  shows "wp (set_subnet_name env conn vm) (\<lambda>vm' w'. reads R env w w' \<and> renames vm vm') (\<lambda>_. reads R env w) w"
  unfolding set_subnet_name_def
  by (intro wp_walk vpc_connection_wp[OF ok] get_contain_wp[OF ok])
    (auto simp: renames_def same_id_def list_all2_same intro: reads_trans)

lemma sg_name_wp [vm_wp]:
  fixes env :: "('d, 'c) env" and w :: "('d, 'c) world"
  assumes ok: "gorm_ok (env_gorm env) R" and "reads R env w0 w"
  shows "wp (sg_name env conn vpc sg) (\<lambda>sg' w'. reads R env w0 w' \<and> same_id sg sg') (\<lambda>_. reads R env w0) w"
  unfolding sg_name_def
  by (intro wp_walk getAuthIIDInfoList_wp[OF ok] get_contain_wp[OF ok]) (auto intro: reads_trans[OF assms(2)])

lemma set_key_name_wp [vm_wp]:
  fixes env :: "('d, 'c) env" and w :: "('d, 'c) world"
  assumes ok: "gorm_ok (env_gorm env) R"
  shows "wp (set_key_name env conn vm) (\<lambda>vm' w'. reads R env w w' \<and> renames vm vm') (\<lambda>_. reads R env w) w"
  unfolding set_key_name_def
  by (intro wp_walk find_by_contain_wp[OF ok]) (auto simp: renames_def same_id_def list_all2_same)

lemma disk_name_wp [vm_wp]:
  fixes env :: "('d, 'c) env" and w :: "('d, 'c) world"
  assumes ok: "gorm_ok (env_gorm env) R" and "reads R env w0 w"
  shows "wp (disk_name env conn d) (\<lambda>d' w'. reads R env w0 w' \<and> same_id d d') (\<lambda>_. reads R env w0) w"
  unfolding disk_name_def
  by (intro wp_walk find_by_contain_wp[OF ok]) (auto intro: reads_trans[OF assms(2)])

lemma getSetNameId_wp:
  fixes env :: "('d, 'c) env" and w :: "('d, 'c) world"
  assumes ok: "gorm_ok (env_gorm env) R"
    and Q: "\<And>vm' w'. reads R env w w' \<Longrightarrow> renames vm vm' \<Longrightarrow> Q vm' w'" and E: "\<And>e w'. reads R env w w' \<Longrightarrow> E e w'"
  shows "wp (getSetNameId env conn vm) Q E w"
proof -
  have step: "wp (m vm1) Q' E w1"
    if "\<And>w. wp (m vm1) (\<lambda>vm' w'. reads R env w w' \<and> renames vm1 vm') (\<lambda>_. reads R env w) w"
      and "reads R env w w1" "renames vm vm1"
      and "\<And>vm2 w2. reads R env w w2 \<Longrightarrow> renames vm vm2 \<Longrightarrow> Q' vm2 w2" for m vm1 Q' w1
    by (rule wp_mono[OF that(1)]) (auto intro!: that(4) E intro: reads_trans[OF that(2)] renames_trans[OF that(3)])
  have names: "wp (mapP f xs) Q' E w1"
    if "\<And>x w1. reads R env w w1 \<Longrightarrow> wp (f x) (\<lambda>y w2. reads R env w w2 \<and> same_id x y) (\<lambda>_. reads R env w) w1"
      and "reads R env w w1" and "\<And>ys w2. reads R env w w2 \<Longrightarrow> list_all2 same_id xs ys \<Longrightarrow> Q' ys w2" for f xs Q' w1
    by (rule mapP_wp[where P = same_id, OF wp_mono[OF that(1)] _ that(2)]) (auto intro: that(3) E)
  have sgs: "renames vm (vm1\<lparr>vm_SecurityGroupIIds := sgs\<rparr>)"
    if "renames vm vm1" "list_all2 same_id (vm_SecurityGroupIIds vm1) sgs" for vm1 sgs
    by (rule renames_trans[OF that(1)]) (use that(2) in \<open>simp add: renames_def\<close>)
  have disks: "renames vm (vm1\<lparr>vm_DataDiskIIDs := disks\<rparr>)"
    if "renames vm vm1" "list_all2 same_id (vm_DataDiskIIDs vm1) disks" for vm1 disks
    by (rule renames_trans[OF that(1)]) (use that(2) in \<open>simp add: renames_def\<close>)
  show ?thesis
    unfolding getSetNameId_def
    by (intro wp_bindPI wp_retI Q step[OF vm_wp(1)[OF ok]] step[OF vm_wp(2)[OF ok]] step[OF vm_wp(3)[OF ok]]
        step[OF vm_wp(5)[OF ok]] names[OF vm_wp(4)[OF ok]] names[OF vm_wp(6)[OF ok]] sgs disks; (assumption | simp))
qed

text \<open>\<open>resolveNICNameIds\<close> changes nothing but the interfaces, and has no error.\<close>

lemma resolve_nic_wp:
  fixes env :: "('d, 'c) env" and w :: "('d, 'c) world"
  assumes ok: "gorm_ok (env_gorm env) R" and "reads R env w0 w"
  shows "wp (resolve_nic env conn nic)
    (\<lambda>nic' w'. reads R env w0 w' \<and> nic' = nic\<lparr>nic_IId := nic_IId nic', nic_SubnetIID := nic_SubnetIID nic'\<rparr> \<and>
       same_id (nic_IId nic) (nic_IId nic') \<and> same_id (nic_SubnetIID nic) (nic_SubnetIID nic'))
    E w"
proof -
  have get: "wp (onStore (GetByContain (env_gorm env) t c1 v1 c2 v2)) Q E w1"
    if "\<And>r w'. reads R env w1 w' \<Longrightarrow> Q r w'" "\<And>e w'. reads R env w1 w' \<Longrightarrow> E e w'" for t c1 v1 c2 v2 Q E w1
    unfolding wp_onStore GetByContain_def
    by (intro wp_bindPI Open_wp[OF ok] first_or_wp[OF ok]; (rule that)?) (auto simp: wrows_def)
  show ?thesis
    unfolding resolve_nic_def
    by (intro wp_walk get) (auto intro: reads_trans[OF assms(2)] reads_trans)
qed

lemma resolveNICNameIds_wp:
  fixes env :: "('d, 'c) env" and w :: "('d, 'c) world"
  assumes ok: "gorm_ok (env_gorm env) R"
    and Q: "\<And>vm' w'. reads R env w w' \<Longrightarrow>
      vm' = vm\<lparr>vm_NICs := vm_NICs vm', vm_NetworkInterface := vm_NetworkInterface vm'\<rparr> \<Longrightarrow> Q vm' w'"
  shows "wp (resolveNICNameIds env conn vm) Q E w"
  unfolding resolveNICNameIds_def Let_def
  by (intro wp_ifI wp_bindPI wp_retI mapP_wp[OF resolve_nic_wp[OF ok] _ reads_refl])
    (auto intro!: Q split: option.split)

text \<open>How a user gets into the VM.\<close>

definition guest_shown :: "VMInfo \<Rightarrow> bool" where
  "guest_shown info \<longleftrightarrow> vm_SSHAccessPoint info \<noteq> [] \<and>
     (if vm_Platform info = WINDOWS
      then vm_VMUserId info = ''Administrator'' \<and> vm_SSHAccessPoint info = vm_PublicIP info @ '':3389''
      else vm_VMUserId info = ''cb-user'')"

lemma set_guest_sel [simp]:
  "vm_IId (set_guest vm) = vm_IId vm" "vm_Region (set_guest vm) = vm_Region vm" "guest_shown (set_guest vm)"
  by (auto simp: set_guest_def guest_shown_def Let_def)

lemma guest_shown_upd [simp]:
  "guest_shown (vm\<lparr>vm_IId := i\<rparr>) = guest_shown vm" "guest_shown (vm\<lparr>vm_Region := r\<rparr>) = guest_shown vm"
  "guest_shown (vm\<lparr>vm_NICs := ns, vm_NetworkInterface := n\<rparr>) = guest_shown vm"
  by (simp_all add: guest_shown_def)

lemma renames_sel: "renames vm vm' \<Longrightarrow> vm_IId vm' = vm_IId vm \<and> vm_Region vm' = vm_Region vm"
  unfolding renames_def by (cases vm; cases vm') auto

section \<open>Properties over any driver\<close>

text \<open>
  A successful \<open>RegisterVM\<close> adds exactly one row, of a name that was free, which decodes to the identifiers the
  driver gave, in the zone of the VM or, when the driver does not tell it, the default zone; a failed one leaves the
  rows as they were, and every path gives back its locks.
\<close>

lemma RegisterVM_rows:
  fixes env :: "('d, 'c) env" and w :: "('d, 'c) world"
  assumes "gorm_ok (env_gorm env) R"
  shows "wp (RegisterVM env conn userIID)
    (\<lambda>info w'. let c = TrimSpace conn; n = NameId userIID in
       \<not> name_taken env (wrows R w VMIIDInfo) c n \<and> w_locks w' = w_locks w \<and> vm_IId info = userIID \<and> guest_shown info \<and>
       (\<exists>zone cspId. region_Zone (vm_Region info) = zone \<and> wrows R w' = (wrows R w)(VMIIDInfo :=
          insert (ZoneLevelIIDInfo c zone n (spiderSystemId (getMSShortID cspId) cspId)) (wrows R w VMIIDInfo))))
    (\<lambda>e w'. wrows R w' = wrows R w \<and> w_locks w' = w_locks w) w"
  unfolding RegisterVM_def Let_def spiderSystemId_def[symmetric]
  by (intro wp_walk has_name_wp'[OF assms] cloud_wp getSetNameId_wp[OF assms] row_insert_wp[OF assms])
    (auto simp: EmptyCheckAndTrim_Inr reads_def upsert_new ZoneLevelIIDInfo_def dest!: renames_sel)

text \<open>
  C33: Outside the permission-based mode, \<open>GetVM\<close> shows the VM of the row it was asked for, under the identifiers of the row, as the driver of the zone of
  the row describes it, but for the names of what the VM uses and the way a user gets in. Reading changes no row.
\<close>

theorem GetVM_shows:
  fixes env :: "('d, 'c) env" and w :: "('d, 'c) world"
  assumes "gorm_ok (env_gorm env) R" and "\<not> permission_mode env"
  shows "wp (GetVM env conn name)
    (\<lambda>info w'. let c = TrimSpace conn in
       wrows R w' = wrows R w \<and> w_locks w' = w_locks w \<and> guest_shown info \<and>
       (\<exists>r h vm named. r \<in> wrows R w VMIIDInfo \<and> row_ConnectionName r = c \<and> row_NameId r = TrimSpace name \<and>
          zone_vm_handler env c (row_ZoneId r) = Inr h \<and> vmh_GetVM h (getDriverIID (row_IID r)) (w_cloud w) = (Inr vm, w_cloud w') \<and>
          renames (vm\<lparr>vm_IId := getUserIID (row_IID r)\<rparr>) named \<and>
          info = (set_guest named)\<lparr>vm_NICs := vm_NICs info, vm_NetworkInterface := vm_NetworkInterface info\<rparr>))
    (\<lambda>e w'. wrows R w' = wrows R w \<and> w_locks w' = w_locks w) w"
proof -
  have shown: "guest_shown vm'" if "vm' = (set_guest vm)\<lparr>vm_NICs := ns, vm_NetworkInterface := n\<rparr>" for vm vm' ns n
    unfolding that by simp
  show ?thesis
    unfolding GetVM_def Let_def
    by (intro wp_walk get_iid_info_wp[OF assms(1)] wp_onCloudI getSetNameId_wp[OF assms(1)] resolveNICNameIds_wp[OF assms(1)])
      (auto simp: EmptyCheckAndTrim_Inr reads_def assms(2) intro: shown, blast?)
qed

section \<open>Polling the status\<close>

text \<open>The driver of every zone keeps the time, and its status call is counted by \<open>calls\<close>.\<close>

definition status_keeps_time :: "'c machine \<Rightarrow> 'c VMHandler \<Rightarrow> bool" where
  "status_keeps_time mach h \<longleftrightarrow> (\<forall>iid. keeps_time mach (vmh_GetVMStatus h iid))"

definition status_counted :: "('c \<Rightarrow> nat) \<Rightarrow> 'c VMHandler \<Rightarrow> bool" where
  "status_counted calls h \<longleftrightarrow> (\<forall>iid c. calls (snd (vmh_GetVMStatus h iid c)) \<le> Suc (calls c))"

lemma snd_status_turn: "snd (status_turn h iid c) = snd (vmh_GetVMStatus h iid c)"
  by (simp add: status_turn_def split: prod.split)

lemma fst_status_turn: "fst (status_turn h iid c) \<noteq> Continue"
  by (auto simp: status_turn_def Let_def split: prod.split option.split)

lemma status_turn_known: "status_turn h iid c = (Break (Inr status), c') \<Longrightarrow> known_status status"
  by (auto simp: status_turn_def Let_def split: prod.splits option.splits if_splits)

text \<open>A minute of polling every three seconds.\<close>

lemma status_poll_wp:
  fixes w :: "('d, 'c) world"
  assumes "clock_ok mach" and "keeps_time mach turn" and "\<And>c. fst (turn c) \<noteq> Continue"
    and "\<And>c. calls (snd (turn c)) \<le> Suc (calls c)" and "\<And>n c. calls (time_Sleep mach n c) = calls c"
    and Q: "\<And>x c c1 c2. turn c1 = (Break (Inr x), c2) \<Longrightarrow> calls c \<le> calls (w_cloud w) + 21 \<Longrightarrow> Q x (w\<lparr>w_cloud := c\<rparr>)"
    and E: "\<And>e c. calls c \<le> calls (w_cloud w) + 21 \<Longrightarrow> E e (w\<lparr>w_cloud := c\<rparr>)"
  shows "wpR (onCloudR (\<lambda>c. let waiter = NewWaiter (time_Now mach c) 3 60
      in for_wait mach waiter turn (Some (Inl (status_timeout name (Timeout waiter)))) c)) Q E w"
proof -
  let ?c = "w_cloud w" let ?w = "NewWaiter (time_Now mach ?c) 3 60" let ?late = "Inl (status_timeout name (Timeout ?w))"
  have "\<exists>r c'. for_wait mach ?w turn (Some ?late) ?c = Some (r, c') \<and> calls c' \<le> calls ?c + Suc (turns_left mach ?w ?c)"
    using assms(1-5) by (intro for_wait_returns) auto
  moreover have "turns_left mach ?w ?c = 20" by (simp add: turns_left_def Second_def)
  ultimately obtain r c' where run: "for_wait mach ?w turn (Some ?late) ?c = Some (r, c')" and n: "calls c' \<le> calls ?c + 21"
    by auto
  from for_wait_left[OF run] show ?thesis
    by (intro wpR_onCloudR) (use run n in \<open>auto simp: Let_def intro: Q E\<close>)
qed

text \<open>
  C10: Outside the permission-based mode, \<open>GetVMStatus\<close> returns, whatever the driver reports, as long as the clock runs: it asks the driver for the status
  at most 21 times, at most once every three seconds within a minute. The status it returns is one of the ten of the
  interface. It changes no row and holds no lock.
\<close>

theorem GetVMStatus_returns:
  fixes env :: "('d, 'c) env" and w :: "('d, 'c) world"
  assumes "gorm_ok (env_gorm env) R" and "\<not> permission_mode env" and "clock_ok mach"
    and "\<And>c z h. zone_vm_handler env c z = Inr h \<Longrightarrow> status_keeps_time mach h \<and> status_counted calls h"
    and "\<And>n c. calls (time_Sleep mach n c) = calls c"
  shows "wpR (GetVMStatus env mach conn name)
    (\<lambda>status w'. known_status status \<and> calls (w_cloud w') \<le> calls (w_cloud w) + 21 \<and> wrows R w' = wrows R w \<and> w_locks w' = w_locks w)
    (\<lambda>e w'. calls (w_cloud w') \<le> calls (w_cloud w) + 21 \<and> wrows R w' = wrows R w \<and> w_locks w' = w_locks w) w"
  unfolding GetVMStatus_def
  by (intro R_walk get_iid_info_wp[OF assms(1)] status_poll_wp[where calls = calls, OF assms(3)] fst_status_turn)
    (use assms(4,5) in \<open>auto simp: reads_def assms(2) snd_status_turn status_keeps_time_def status_counted_def keeps_time_def
       dest: status_turn_known\<close>)


text \<open>The listing of the status returns too, with the status of every row.\<close>

lemma list_status_turn_facts:
  assumes "\<And>c z h. zone_vm_handler env c z = Inr h \<Longrightarrow> status_keeps_time mach h \<and> status_counted calls h"
  shows "keeps_time mach (list_status_turn env conn row)" and "calls (snd (list_status_turn env conn row c)) \<le> Suc (calls c)"
    and "fst (list_status_turn env conn row c) \<noteq> Continue"
  using assms[of conn "row_ZoneId row"]
  by (auto simp: list_status_turn_def Let_def keeps_time_def status_keeps_time_def status_counted_def
      split: sum.split prod.split option.split) (metis order.trans snd_conv)+

lemma ListVMStatus_loop_wp:
  fixes env :: "('d, 'c) env" and w :: "('d, 'c) world"
  assumes "clock_ok mach" and "\<And>c z h. zone_vm_handler env c z = Inr h \<Longrightarrow> status_keeps_time mach h \<and> status_counted calls h"
    and "\<And>n c. calls (time_Sleep mach n c) = calls c"
  shows "wpR (ListVMStatus_loop env mach conn rs acc)
    (\<lambda>infos w'. wrows R w' = wrows R w \<and> w_locks w' = w_locks w \<and> map vmst_IId infos = map vmst_IId acc @ map (getUserIID \<circ> row_IID) rs)
    (\<lambda>e w'. wrows R w' = wrows R w \<and> w_locks w' = w_locks w) w"
proof (induction rs arbitrary: acc w)
  case Nil
  then show ?case by (simp add: wp_simps)
next
  case (Cons r rs)
  show ?case
    unfolding ListVMStatus_loop.simps
    by (intro R_bindRI status_poll_wp[where calls = calls, OF assms(1) _ _ _ assms(3)] list_status_turn_facts[OF assms(2)] wpR_mono[OF Cons.IH]) auto
qed

section \<open>Deleting\<close>





lemma wait_terminated_wp:
  fixes w :: "('d, 'c) world"
  assumes "clock_ok mach" and "status_keeps_time mach h" and "force \<noteq> ''true''"
    and "\<And>st c. Q st (w\<lparr>w_cloud := c\<rparr>)" and "\<And>e c. E e (w\<lparr>w_cloud := c\<rparr>)"
  shows "wpR (onCloudR (wait_terminated mach h conn iid force vmStatus)) Q E w"
proof (rule wpR_onCloudR)
  have "fst (terminated_turn h iid force vmStatus c) \<noteq> Continue" and "keeps_time mach (terminated_turn h iid force vmStatus)" for c
    using assms(2) by (auto simp: terminated_turn_def Let_def keeps_time_def status_keeps_time_def split: prod.split option.split)
      (metis snd_conv)
  from for_wait_returns[where count = "\<lambda>_. 0", OF assms(1) _ this(2,1)]
  show "wait_terminated mach h conn iid force vmStatus (w_cloud w) \<noteq> None"
    unfolding wait_terminated_def Let_def using assms(3) by fastforce
qed (rule assms)+


text \<open>
  C11: Outside the permission-based mode, a deletion that is not forced returns, whatever the driver reports, as long as the clock runs and the driver does
  not answer the termination by saying that it does not know the VM.
\<close>

theorem DeleteVM_returns:
  fixes env :: "('d, 'c) env" and w :: "('d, 'c) world"
  assumes "gorm_ok (env_gorm env) R" and "\<not> permission_mode env" and "clock_ok mach"
    and "\<And>z h. zone_vm_handler env (TrimSpace conn) z = Inr h \<Longrightarrow> status_keeps_time mach h"
    and known: "\<And>r h st e c. r \<in> wrows R w VMIIDInfo \<Longrightarrow> (row_ConnectionName r, row_NameId r) = (TrimSpace conn, TrimSpace name) \<Longrightarrow>
      zone_vm_handler env (TrimSpace conn) (row_ZoneId r) = Inr h \<Longrightarrow>
      vmh_TerminateVM h (getDriverIID (row_IID r)) (w_cloud w) = ((st, Some e), c) \<Longrightarrow> \<not> checkNotFoundError e"
    and "force \<noteq> ''true''"
  shows "\<exists>r w'. DeleteVM env mach conn name force w = Some (r, w')"
proof -
  have del: "wp (onStore (DeleteByConditions (env_gorm env) t c1 v1 c2 v2)) (\<lambda>_ _. True) (\<lambda>_ _. True) w1" for t c1 v1 c2 v2 and w1 :: "('d, 'c) world"
    by (rule delete_by_wp[OF assms(1)]) simp_all
  have "wpR (DeleteVM env mach conn name force) (\<lambda>_ _. True) (\<lambda>_ _. True) w"
    unfolding DeleteVM_def terminate_call_def
    by (intro R_walk get_iid_info_wp[OF assms(1)] onCloudStatus_wp wait_terminated_wp[OF assms(3)] wp_mono[OF del])
      (use assms(2,4,6) known in \<open>auto simp: wp_simps EmptyCheckAndTrim_Inr reads_def\<close>)
  then show ?thesis by (auto simp: wpR_wlpR)
qed


text \<open>
  C12: Outside the permission-based mode, a forced deletion never returns while the driver reports, without an error, a status other than \<open>Terminated\<close> and
  \<open>NotExist\<close>: when the time of the waiter is up the loop goes on, without a pause. The write lock of the VM stays held.
\<close>

theorem DeleteVM_force_loops:
  fixes env :: "('d, 'c) env" and w :: "('d, 'c) world"
  assumes "\<not> permission_mode env" and "conn \<noteq> []" and "name \<noteq> []"
    and row: "fst (GetByConditions (env_gorm env) VMIIDInfo CONNECTION_NAME_COLUMN (TrimSpace conn) NAME_ID_COLUMN (TrimSpace name) (w_store w)) = Inr r"
    and h: "zone_vm_handler env (TrimSpace conn) (row_ZoneId r) = Inr h"
    and "ccm_GetProviderNameByConnectionName env (TrimSpace conn) = Inr provider"
    and "ccm_GetRegionNameByConnectionName env (TrimSpace conn) = Inr region"
    and stuck: "\<And>c. stuck c \<Longrightarrow> \<exists>st c'. vmh_GetVMStatus h (getDriverIID (row_IID r)) c = ((st, None), c') \<and>
        st \<noteq> NotExist \<and> st \<noteq> Terminated \<and> stuck c'"
    and "\<And>n c. stuck c \<Longrightarrow> stuck (time_Sleep mach n c)"
    and told: "stuck (snd (vmh_TerminateVM h (getDriverIID (row_IID r)) (w_cloud w)))"
  shows "DeleteVM env mach conn name ''true'' w = None"
proof -
  let ?iid = "getDriverIID (row_IID r)"
  let ?w = "w\<lparr>w_locks := (vmSPLock, Wr, TrimSpace conn, TrimSpace name) # w_locks w\<rparr>"
  obtain st err c where t: "vmh_TerminateVM h ?iid (w_cloud w) = ((st, err), c)" by (metis surj_pair)
  have loop: "wait_terminated mach h conn' ?iid ''true'' vmStatus c' = None" if "stuck c'" for conn' vmStatus c'
    unfolding wait_terminated_def Let_def
  proof (rule for_wait_loops[where I = stuck, OF _ assms(9) that])
    fix c assume "stuck c"
    from stuck[OF this] show "(fst (terminated_turn h ?iid ''true'' vmStatus c) = Continue \<or>
        fst (terminated_turn h ?iid ''true'' vmStatus c) = Polled \<and>
        (if ''true'' \<noteq> ''true'' then Some (Inl (terminate_timeout conn' ?iid (Timeout (NewWaiter (time_Now mach c') 15 600)))) else None) = None) \<and>
        stuck (snd (terminated_turn h ?iid ''true'' vmStatus c))"
      by (auto simp: terminated_turn_def Let_def)
  qed
  obtain st' where "GetByConditions (env_gorm env) VMIIDInfo CONNECTION_NAME_COLUMN (TrimSpace conn) NAME_ID_COLUMN (TrimSpace name) (w_store w) = (Inr r, st')"
    using row by (metis fst_conv surj_pair)
  then have r: "get_iid_info env VMIIDInfo (TrimSpace conn) (TrimSpace name) ?w = (Inr r, ?w\<lparr>w_store := st'\<rparr>)"
    using assms(1) by (simp add: get_iid_info_def onStore_def)
  have call: "terminate_call h ?iid ''true'' (?w\<lparr>w_store := st'\<rparr>) = (Inr (st, ''true''), ?w\<lparr>w_store := st', w_cloud := c\<rparr>)"
    using t by (simp add: terminate_call_def onCloudStatus_def prog_simps split: option.split)
  show ?thesis
    using assms(2,3,6,7) told t
    by (simp add: DeleteVM_def bindR_def returning_def withLockR_None prog_simps EmptyCheckAndTrim_def r h call onCloudR_def loop split: prod.split)
qed

section \<open>Listing\<close>

lemma getVMInfo_wp:
  fixes env :: "('d, 'c) env" and w :: "('d, 'c) world"
  assumes "gorm_ok (env_gorm env) R" and "getVMInfo env r w = Some (res, w')"
  shows "wrows R w' = wrows R w \<and> w_locks w' = w_locks w \<and> (\<exists>h. zone_vm_handler env (row_ConnectionName r) (row_ZoneId r) = Inr h) \<and>
    (\<forall>info. res = Inr info \<longrightarrow> NameId (vm_IId info) = row_NameId r)"
proof -
  let ?m = "\<lambda>handler. withLock vmSPLock Rd (row_ConnectionName r) (row_NameId r)
        (bindP (onCloud (vmh_GetVM handler (getDriverIID (row_IID r)))) (\<lambda>info.
         getSetNameId env (row_ConnectionName r) (info\<lparr>vm_IId := getUserIID (row_IID r)\<rparr>)))"
  have "wp (?m h) (\<lambda>info w'. wrows R w' = wrows R w \<and> w_locks w' = w_locks w \<and> NameId (vm_IId info) = row_NameId r)
      (\<lambda>e w'. wrows R w' = wrows R w \<and> w_locks w' = w_locks w) w" for h
    by (intro wp_walk cloud_wp getSetNameId_wp[OF assms(1)])
      (auto simp: reads_def getUserIID_def makeUserIID_def row_IID_def dest!: renames_sel)
  note run = this
  show ?thesis
  proof (cases "zone_vm_handler env (row_ConnectionName r) (row_ZoneId r)")
    case (Inr h)
    then obtain res' where "?m h w = (res', w')" "res = map_sum id set_guest res'"
      using assms(2) by (auto simp: getVMInfo_def split: prod.splits if_splits)
    with run[of h] Inr show ?thesis by (cases res') (auto simp: wp_def)
  qed (use assms(2) in \<open>simp add: getVMInfo_def\<close>)
qed

lemma ListVM_loop_wlp:
  fixes env :: "('d, 'c) env" and w :: "('d, 'c) world"
  assumes "gorm_ok (env_gorm env) R"
  shows "wlpR (ListVM_loop env rs acc)
    (\<lambda>infos w'. wrows R w' = wrows R w \<and> w_locks w' = w_locks w \<and>
       map (\<lambda>i. NameId (vm_IId i)) infos = map (\<lambda>i. NameId (vm_IId i)) acc @ map row_NameId rs \<and>
       (\<forall>r \<in> set rs. \<exists>h. zone_vm_handler env (row_ConnectionName r) (row_ZoneId r) = Inr h))
    (\<lambda>_ _. False) w"
proof (induction rs arbitrary: acc w)
  case Nil
  then show ?case by (simp add: wlpR_def)
next
  case (Cons r rs)
  show ?case
  proof (cases "getVMInfo env r w")
    case (Some p)
    then obtain res w1 where run: "getVMInfo env r w = Some (res, w1)" by (cases p) auto
    note facts = getVMInfo_wp[OF assms run]
    have "wlpR (ListVM_loop env rs acc') (\<lambda>infos w'. wrows R w' = wrows R w \<and> w_locks w' = w_locks w \<and>
        map (\<lambda>i. NameId (vm_IId i)) infos = map (\<lambda>i. NameId (vm_IId i)) acc @ map row_NameId (r # rs) \<and>
        (\<forall>r \<in> set (r # rs). \<exists>h. zone_vm_handler env (row_ConnectionName r) (row_ZoneId r) = Inr h)) (\<lambda>_ _. False) w1"
      if "map (\<lambda>i. NameId (vm_IId i)) acc' = map (\<lambda>i. NameId (vm_IId i)) acc @ [row_NameId r]" for acc'
      using Cons.IH[of acc' w1] facts that
      by (auto simp: wlpR_def split: option.splits prod.splits sum.splits)
    with run facts show ?thesis
      by (cases res) (auto simp: wlpR_def VMInfo_of_def row_IID_def)
  qed (simp add: wlpR_def)
qed

text \<open>
  C34: Outside the permission-based mode, when \<open>ListVM\<close> returns a list, it lists every row of the connection exactly once, under the name of the row, and then a
  connection and a handler could be had for every row: one row for which they cannot is enough for it never to return
  (in the permission-based mode the rows are those, of all connections, whose identifiers the driver grants). No row changes, and every lock is given back.
\<close>

theorem ListVM_complete:
  fixes env :: "('d, 'c) env" and w :: "('d, 'c) world"
  assumes "gorm_ok (env_gorm env) R" and "\<not> permission_mode env"
  shows "wlpR (ListVM env conn)
    (\<lambda>infos w'. wrows R w' = wrows R w \<and> w_locks w' = w_locks w \<and>
       (\<exists>rs. distinct rs \<and> set rs = {r \<in> wrows R w VMIIDInfo. row_ConnectionName r = TrimSpace conn} \<and>
          map (\<lambda>i. NameId (vm_IId i)) infos = map row_NameId rs \<and>
          (\<forall>r \<in> set rs. \<exists>h. zone_vm_handler env (row_ConnectionName r) (row_ZoneId r) = Inr h)))
    (\<lambda>e w'. wrows R w' = wrows R w \<and> w_locks w' = w_locks w) w"
proof -
  have loop: "wlpR (ListVM_loop env rs []) Q E w1"
    if "\<And>infos w'. wrows R w' = wrows R w1 \<Longrightarrow> w_locks w' = w_locks w1 \<Longrightarrow> map (\<lambda>i. NameId (vm_IId i)) infos = map row_NameId rs \<Longrightarrow>
      (\<forall>r \<in> set rs. \<exists>h. zone_vm_handler env (row_ConnectionName r) (row_ZoneId r) = Inr h) \<Longrightarrow> Q infos w'"
    for rs Q E and w1 :: "('d, 'c) world"
    using ListVM_loop_wlp[OF assms(1), of rs "[]" w1] that by (auto simp: wlpR_def split: option.splits prod.splits sum.splits)
  show ?thesis
    unfolding ListVM_def
    by (intro R_walk list_iid_infos_wp[OF assms(1)] loop) (auto simp: EmptyCheckAndTrim_Inr reads_def assms(2))
qed

text \<open>A row whose goroutine gets no connection or handler.\<close>

lemma ListVM_loop_blocks:
  assumes "r \<in> set rs" and "zone_vm_handler env (row_ConnectionName r) (row_ZoneId r) = Inl err"
  shows "ListVM_loop env rs acc w = None"
  using assms
proof (induction rs arbitrary: acc w)
  case (Cons r' rs)
  then show ?case by (cases "r' = r") (auto simp: getVMInfo_def split: sum.split prod.split option.split)
qed simp

end
