(* ===== verification/VMStart.thy ===== *)
theory VMStart
  imports VMManager DiskManager
begin

text \<open>
  Starting a VM, \<open>StartVM\<close> of \<open>common-runtime/VMManager.go\<close> with its helper functions. Left out are the log of the
  call and the goroutine that records a successful start for the web console, which nothing here reads.
\<close>

section \<open>What the start asks of the outside\<close>

text \<open>
  The clock, the environment variable of the access check, the supported root disk types of a provider, and
  \<open>sshrun.SSHRun\<close> of \<open>whoami\<close> on a server, of which only the error is looked at.
\<close>

record 'c vm_deps =
  deps_machine :: "'c machine"
  SPIDER_ENABLE_VM_ACCESS_CHECK :: string
  cim_RootDiskType :: "string \<Rightarrow> string list go_result"
  sshrun_SSHRun :: "string \<Rightarrow> 'c \<Rightarrow> go_error option \<times> 'c"

section \<open>The request\<close>

text \<open>
  A field of the named type \<open>ImageType\<close> is never found empty: the validator compares it, as an interface value, with
  a value of type \<open>string\<close>.
\<close>

definition reflect_VMReqInfo :: "VMReqInfo \<Rightarrow> rval" where
  "reflect_VMReqInfo req =
     RStruct ''resources.VMReqInfo''
       [(''IId'', reflect_IID (vmReq_IId req)), (''ImageType'', ROther), (''ImageIID'', reflect_IID (vmReq_ImageIID req)),
        (''VpcIID'', reflect_IID (vmReq_VpcIID req)), (''SubnetIID'', reflect_IID (vmReq_SubnetIID req)),
        (''SecurityGroupIIDs'', RSlice (map reflect_IID (vmReq_SecurityGroupIIDs req))),
        (''VMSpecName'', RString (vmReq_VMSpecName req)), (''KeyPairIID'', reflect_IID (vmReq_KeyPairIID req)),
        (''RootDiskType'', RString (vmReq_RootDiskType req)), (''RootDiskSize'', RString (vmReq_RootDiskSize req)),
        (''DataDiskIIDs'', RSlice (map reflect_IID (vmReq_DataDiskIIDs req))),
        (''VMUserId'', RString (vmReq_VMUserId req)), (''VMUserPasswd'', RString (vmReq_VMUserPasswd req)),
        (''WindowsType'', ROther), (''AssignPublicIP'', RPtr (map_option (\<lambda>_. ROther) (vmReq_AssignPublicIP req))),
        (''TagList'', RSlice (map reflect_KeyValue (vmReq_TagList req)))]"

definition vm_empty_permissions :: "string list" where
  "vm_empty_permissions =
     [''resources.IID:SystemId'', ''resources.VMReqInfo:RootDiskType'', ''resources.VMReqInfo:RootDiskSize'',
      ''resources.VMReqInfo:VMUserId'', ''resources.VMReqInfo:VMUserPasswd'']"

text \<open>The test for data disks asks for a nil slice that is not empty.\<close>

definition checkImageType :: "VMReqInfo \<Rightarrow> VMReqInfo go_result" where
  "checkImageType reqInfo =
     (let reqInfo = (if vmReq_ImageType reqInfo = [] then reqInfo\<lparr>vmReq_ImageType := PublicImage\<rparr> else reqInfo)
      in if vmReq_ImageType reqInfo = MyImage \<and> vmReq_DataDiskIIDs reqInfo = [] \<and> 0 < length (vmReq_DataDiskIIDs reqInfo)
         then Inl ''MyImage can not have a Data-Disk!!''
         else Inr reqInfo)"

text \<open>Both components of the answer count: the start looks at the \<open>bool\<close> in spite of some errors.\<close>

definition checkImageWindowsOS :: "'c CloudConnection \<Rightarrow> string \<Rightarrow> IID \<Rightarrow> 'c deletion" where
  "checkImageWindowsOS cldConn imageType imageIID c =
     (if imageType = PublicImage then
        (case CreateImageHandler cldConn of
           Inl err \<Rightarrow> ((False, Some err), c)
         | Inr handler \<Rightarrow> imh_CheckWindowsImage handler imageIID c)
      else if imageType = MyImage then
        (case CreateMyImageHandler cldConn of
           Inl err \<Rightarrow> ((False, Some err), c)
         | Inr handler \<Rightarrow> mih_CheckWindowsImage handler imageIID c)
      else ((False, Some (imageType @ '' is not supported ImageType!'')), c))"

definition checkImageWindowsOSCached :: "string \<Rightarrow> 'c CloudConnection \<Rightarrow> string \<Rightarrow> IID \<Rightarrow>
    (('d, 'c) world, bool \<times> go_error option) prog" where
  "checkImageWindowsOSCached connectionName cldConn imageType imageIID w =
     (let key = connectionName @ ''|'' @ imageType @ ''|'' @ SystemId imageIID
      in case w_windowsImageCache w key of
           Some v \<Rightarrow> (Inr (v, None), w)
         | None \<Rightarrow>
             (let ((isWindows, err), c) = checkImageWindowsOS cldConn imageType imageIID (w_cloud w);
                  w = w\<lparr>w_cloud := c\<rparr>
              in (Inr (isWindows, err),
                  if err = None then w\<lparr>w_windowsImageCache := (w_windowsImageCache w)(key \<mapsto> isWindows)\<rparr> else w)))"

definition index_panic :: go_error where
  "index_panic = ''runtime error: index out of range''"

text \<open>\<open>translateRootDiskSetupInfo\<close>, once the meta information of the provider has been read.\<close>

definition translate_disk_type :: "string list \<Rightarrow> string \<Rightarrow> string go_result" where
  "translate_disk_type rootDiskTypes diskType =
     (if ToUpper diskType = [] \<or> ToUpper diskType = ''DEFAULT'' then Inr []
      else if Contains (ToUpper diskType) ''TYPE'' then
        (let typeNum = fst (Atoi (ReplaceAll (ToUpper diskType) ''TYPE'' []));
             typeMax = int (length rootDiskTypes);
             typeNum = (if typeNum > typeMax then typeMax else typeNum)
         in if typeNum - 1 < 0 then Inl index_panic else Inr (rootDiskTypes ! nat (typeNum - 1)))
      else Inr diskType)"

definition translate_disk_size :: "string \<Rightarrow> string go_result" where
  "translate_disk_size diskSize =
     (if ToUpper diskSize = [] \<or> ToUpper diskSize = ''DEFAULT'' then Inr []
      else if snd (Atoi diskSize) then Inr diskSize
      else Inl (diskSize @ '' is not a valid Root Disk Size: '' @ Atoi_error diskSize @ ''!''))"

definition translateRootDiskSetupInfo :: "'c vm_deps \<Rightarrow> string \<Rightarrow> VMReqInfo \<Rightarrow> VMReqInfo go_result" where
  "translateRootDiskSetupInfo deps providerName reqInfo =
     (case cim_RootDiskType deps providerName of
        Inl err \<Rightarrow> Inl err
      | Inr rootDiskTypes \<Rightarrow>
          (case translate_disk_type rootDiskTypes (vmReq_RootDiskType reqInfo) of
             Inl err \<Rightarrow> Inl err
           | Inr ty \<Rightarrow>
               (case translate_disk_size (vmReq_RootDiskSize reqInfo) of
                  Inl err \<Rightarrow> Inl err
                | Inr sz \<Rightarrow> Inr (reqInfo\<lparr>vmReq_RootDiskType := ty, vmReq_RootDiskSize := sz\<rparr>))))"

text \<open>The row of a subnet by its name and that of its VPC.\<close>

definition subnet_row :: "('d, 'c) env \<Rightarrow> string \<Rightarrow> string \<Rightarrow> string \<Rightarrow> (('d, 'c) world, iid_row) prog" where
  "subnet_row env connectionName vpcName subnetName =
     bindP (vpc_connection env connectionName vpcName) (\<lambda>conn.
     onStore (GetBy3Conditions (env_gorm env) SubnetIIDInfo CONNECTION_NAME_COLUMN conn NAME_ID_COLUMN subnetName
       OWNER_VPC_NAME_COLUMN vpcName))"

definition driver_IID_of :: "('d, 'c) env \<Rightarrow> table \<Rightarrow> string \<Rightarrow> string \<Rightarrow> (('d, 'c) world, IID) prog" where
  "driver_IID_of env t connectionName nameId =
     bindP (get_iid_info env t connectionName nameId) (\<lambda>iidInfo. ret (getDriverIID (row_IID iidInfo)))"

definition clone_image_IID :: "('d, 'c) env \<Rightarrow> string \<Rightarrow> VMReqInfo \<Rightarrow> (('d, 'c) world, IID) prog" where
  "clone_image_IID env connectionName reqInfo =
     (let imageName = NameId (vmReq_ImageIID reqInfo)
      in if vmReq_ImageType reqInfo = PublicImage then ret \<lparr>NameId = imageName, SystemId = imageName\<rparr>
         else if vmReq_ImageType reqInfo = MyImage \<and> imageName \<noteq> [] then driver_IID_of env MyImageIIDInfo connectionName imageName
         else ret IID_zero)"

definition cloneReqInfoWithDriverIID :: "('d, 'c) env \<Rightarrow> string \<Rightarrow> VMReqInfo \<Rightarrow> (('d, 'c) world, VMReqInfo) prog" where
  "cloneReqInfoWithDriverIID env connectionName reqInfo =
     bindP (clone_image_IID env connectionName reqInfo) (\<lambda>imageIID.
     bindP (if NameId (vmReq_VpcIID reqInfo) \<noteq> [] then driver_IID_of env VPCIIDInfo connectionName (NameId (vmReq_VpcIID reqInfo))
            else ret IID_zero) (\<lambda>vpcIID.
     bindP (if NameId (vmReq_SubnetIID reqInfo) \<noteq> []
            then bindP (subnet_row env connectionName (NameId (vmReq_VpcIID reqInfo)) (NameId (vmReq_SubnetIID reqInfo))) (\<lambda>iidInfo.
                 ret (getDriverIID (row_IID iidInfo)))
            else ret IID_zero) (\<lambda>subnetIID.
     bindP (mapP (\<lambda>sgIID. driver_IID_of env SGIIDInfo connectionName (NameId sgIID)) (vmReq_SecurityGroupIIDs reqInfo)) (\<lambda>sgIIDs.
     bindP (mapP (\<lambda>diskIID. driver_IID_of env DiskIIDInfo connectionName (NameId diskIID)) (vmReq_DataDiskIIDs reqInfo)) (\<lambda>diskIIDs.
     bindP (if NameId (vmReq_KeyPairIID reqInfo) \<noteq> []
            then driver_IID_of env KeyIIDInfo connectionName (NameId (vmReq_KeyPairIID reqInfo)) else ret IID_zero) (\<lambda>keyIID.
     ret (reqInfo\<lparr>vmReq_ImageIID := imageIID, vmReq_VpcIID := vpcIID, vmReq_SubnetIID := subnetIID,
       vmReq_SecurityGroupIIDs := sgIIDs, vmReq_DataDiskIIDs := diskIIDs, vmReq_KeyPairIID := keyIID,
       vmReq_WindowsType := False\<rparr>)))))))"

section \<open>The names in the answer\<close>

text \<open>
  The steps of \<open>setNameId\<close>. Its caller ignores its error and goes on with the info as far as the names were set, so the
  error is a part of the value; a panic is not ignored.
\<close>

fun set_names :: "('a \<Rightarrow> ('s, 'a) prog) \<Rightarrow> 'a list \<Rightarrow> ('s, 'a list \<times> go_error option) prog" where
  "set_names f [] = ret ([], None)"
| "set_names f (x # xs) =
     catchP (f x) (\<lambda>err. if err = nil_panic then throw err else ret (x # xs, Some err))
       (\<lambda>y. bindP (set_names f xs) (\<lambda>(ys, err). ret (y # ys, err)))"

definition sg_name_or_error :: "('d, 'c) env \<Rightarrow> string \<Rightarrow> string \<Rightarrow> IID \<Rightarrow> (('d, 'c) world, IID) prog" where
  "sg_name_or_error env connectionName vpcName sgIID =
     bindP (if permission_mode env then
              bindP (getAuthIIDInfoList env connectionName SGIIDInfo) (\<lambda>iidInfoList.
              lift_result (getAuthIIDInfoBySystemIdContain SGIIDInfo iidInfoList (SystemId sgIID)))
            else onStore (GetByConditionsAndContain (env_gorm env) SGIIDInfo CONNECTION_NAME_COLUMN connectionName
              OWNER_VPC_NAME_COLUMN vpcName SYSTEM_ID_COLUMN (SystemId sgIID))) (\<lambda>iidInfo.
     ret (sgIID\<lparr>NameId := row_NameId iidInfo\<rparr>))"

text \<open>The disks that come with a private image are registered under generated names.\<close>

definition register_disk :: "('d, 'c) env \<Rightarrow> string \<Rightarrow> string \<Rightarrow> string \<Rightarrow> nat \<times> IID \<Rightarrow> (('d, 'c) world, nat \<times> IID) prog" where
  "register_disk env connectionName zone vmName = (\<lambda>(i, diskIID).
     bindP (RegisterDisk env connectionName zone (diskIID\<lparr>NameId := vmName @ ''-disk-'' @ Itoa i\<rparr>)) (\<lambda>diskInfo.
     ret (i, diskIID\<lparr>NameId := NameId (disk_IId diskInfo)\<rparr>)))"

definition set_disk_names :: "('d, 'c) env \<Rightarrow> string \<Rightarrow> VMReqInfo \<Rightarrow> VMInfo \<Rightarrow> (('d, 'c) world, VMInfo \<times> go_error option) prog" where
  "set_disk_names env connectionName reqInfo vmInfo =
     (if vmReq_ImageType reqInfo = PublicImage then
        bindP (set_names (disk_name env connectionName) (vm_DataDiskIIDs vmInfo)) (\<lambda>(disks, err).
        ret (vmInfo\<lparr>vm_DataDiskIIDs := disks\<rparr>, err))
      else if vmReq_ImageType reqInfo = MyImage then
        bindP (set_names (register_disk env connectionName (region_Zone (vm_Region vmInfo)) (NameId (vmReq_IId reqInfo)))
            (List.enumerate 0 (vm_DataDiskIIDs vmInfo))) (\<lambda>(disks, err).
        ret (vmInfo\<lparr>vm_DataDiskIIDs := map snd disks\<rparr>, err))
      else ret (vmInfo, None))"

definition request_names :: "VMReqInfo \<Rightarrow> VMInfo \<Rightarrow> VMInfo" where
  "request_names reqInfo vmInfo =
     (let vmInfo = (if vmReq_ImageType reqInfo \<noteq> [] then vmInfo\<lparr>vm_ImageType := vmReq_ImageType reqInfo\<rparr> else vmInfo);
          vmInfo = (if NameId (vmReq_ImageIID reqInfo) \<noteq> []
            then vmInfo\<lparr>vm_ImageIId := (vm_ImageIId vmInfo)\<lparr>NameId := NameId (vmReq_ImageIID reqInfo)\<rparr>\<rparr> else vmInfo);
          vmInfo = (if NameId (vmReq_VpcIID reqInfo) \<noteq> []
            then vmInfo\<lparr>vm_VpcIID := (vm_VpcIID vmInfo)\<lparr>NameId := NameId (vmReq_VpcIID reqInfo)\<rparr>\<rparr> else vmInfo)
      in if NameId (vmReq_SubnetIID reqInfo) \<noteq> []
         then vmInfo\<lparr>vm_SubnetIID := (vm_SubnetIID vmInfo)\<lparr>NameId := NameId (vmReq_SubnetIID reqInfo)\<rparr>\<rparr> else vmInfo)"

definition setNameId :: "('d, 'c) env \<Rightarrow> string \<Rightarrow> VMInfo \<Rightarrow> VMReqInfo \<Rightarrow> (('d, 'c) world, VMInfo \<times> go_error option) prog" where
  "setNameId env connectionName vmInfo reqInfo =
     (let vmInfo = request_names reqInfo vmInfo in
      bindP (set_names (sg_name_or_error env connectionName (NameId (vmReq_VpcIID reqInfo))) (vm_SecurityGroupIIds vmInfo)) (\<lambda>(sgs, err).
      let vmInfo = vmInfo\<lparr>vm_SecurityGroupIIds := sgs\<rparr>
      in if err \<noteq> None then ret (vmInfo, err)
         else
           bindP (set_disk_names env connectionName reqInfo vmInfo) (\<lambda>(vmInfo, err).
           if err \<noteq> None then ret (vmInfo, err)
           else ret (if NameId (vmReq_KeyPairIID reqInfo) \<noteq> []
                     then vmInfo\<lparr>vm_KeyPairIId := (vm_KeyPairIId vmInfo)\<lparr>NameId := NameId (vmReq_KeyPairIID reqInfo)\<rparr>\<rparr> else vmInfo, None))))"

section \<open>The check of access\<close>

text \<open>
  The loop that waits for the public address: a VM that is not found is asked for again at once. It is left with the
  address, or with none when the time is up, which is not an error of the start.
\<close>

definition public_ip_turn :: "'c VMHandler \<Rightarrow> IID \<Rightarrow> bool \<Rightarrow> 'c \<Rightarrow> string option go_result turn \<times> 'c" where
  "public_ip_turn handler iid assignPublicIP c =
     (case vmh_GetVM handler iid c of
        (Inl err, c) \<Rightarrow> (if checkNotFoundError err then Continue else Break (Inl err), c)
      | (Inr vmInfo, c) \<Rightarrow>
          (if \<not> assignPublicIP \<or> vm_PublicIP vmInfo \<noteq> [] then Break (Inr (Some (vm_PublicIP vmInfo))) else Polled, c))"

text \<open>\<open>checkSSH\<close> reads the message of the error without asking whether there is one.\<close>

definition checkSSH :: "'c vm_deps \<Rightarrow> string \<Rightarrow> ('c, bool) prog" where
  "checkSSH deps serverPort c =
     (case sshrun_SSHRun deps serverPort c of
        (None, c) \<Rightarrow> (Inl nil_panic, c)
      | (Some err, c) \<Rightarrow> (Inr (Contains err ''handshake failed''), c))"

definition ssh_turn :: "'c vm_deps \<Rightarrow> string \<Rightarrow> 'c \<Rightarrow> unit go_result turn \<times> 'c" where
  "ssh_turn deps publicIP c =
     (case checkSSH deps (publicIP @ '':22'') c of
        (Inl err, c) \<Rightarrow> (Break (Inl err), c)
      | (Inr True, c) \<Rightarrow> (Break (Inr ()), c)
      | (Inr False, c) \<Rightarrow> (Polled, c))"

definition access_check :: "'c vm_deps \<Rightarrow> 'c VMHandler \<Rightarrow> string \<Rightarrow> bool \<Rightarrow> IID \<Rightarrow> bool \<Rightarrow> (('d, 'c) world, unit) run" where
  "access_check deps handler providerName isWindowsOS iid assignPublicIP =
     (if ToLower (SPIDER_ENABLE_VM_ACCESS_CHECK deps) = ''true'' then
        (let mach = deps_machine deps in
         bindR (onCloudR (\<lambda>c. for_wait mach (NewWaiter (time_Now mach c) 15 600)
             (public_ip_turn handler iid assignPublicIP) (Some (Inr None)) c)) (\<lambda>publicIP.
         case publicIP of
           Some ip \<Rightarrow>
             if \<not> isWindowsOS \<and> providerName \<noteq> ''MOCK'' \<and> assignPublicIP
             then onCloudR (\<lambda>c. for_wait mach (NewWaiter (time_Now mach c) 2 120) (ssh_turn deps ip) (Some (Inr ())) c)
             else returning (ret ())
         | None \<Rightarrow> returning (ret ())))
      else returning (ret ()))"

section \<open>The start\<close>

text \<open>What \<open>StartVM\<close> has found out when it calls the driver.\<close>

record 'c start_plan =
  plan_handler :: "'c VMHandler"
  plan_req :: VMReqInfo
  plan_driver_req :: VMReqInfo
  plan_name :: string
  plan_zone :: string
  plan_provider :: string
  plan_windows :: bool

definition windows_check :: "string \<Rightarrow> 'c CloudConnection \<Rightarrow> VMReqInfo \<Rightarrow> bool option \<Rightarrow> (('d, 'c) world, bool) prog" where
  "windows_check connectionName cldConn reqInfoForDriver windowsTypeHint =
     (case windowsTypeHint of
        Some b \<Rightarrow> ret b
      | None \<Rightarrow>
          bindP (checkImageWindowsOSCached connectionName cldConn (vmReq_ImageType reqInfoForDriver) (vmReq_ImageIID reqInfoForDriver))
            (\<lambda>(isWindowsOS, err).
            case err of
              Some e \<Rightarrow> if Contains e ''yet!'' then ret isWindowsOS else throw e
            | None \<Rightarrow> ret isWindowsOS))"

definition windows_user :: "bool \<Rightarrow> VMReqInfo \<Rightarrow> VMReqInfo \<Rightarrow> (VMReqInfo \<times> VMReqInfo) go_result" where
  "windows_user isWindowsOS reqInfo reqInfoForDriver =
     (if isWindowsOS then
        (let adminID = ''Administrator'';
             (reqInfo, reqInfoForDriver) = (if vmReq_VMUserId reqInfoForDriver = []
               then (reqInfo\<lparr>vmReq_VMUserId := adminID\<rparr>, reqInfoForDriver\<lparr>vmReq_VMUserId := adminID\<rparr>) else (reqInfo, reqInfoForDriver))
         in if vmReq_VMUserId reqInfoForDriver \<noteq> adminID
            then Inl (vmReq_VMUserId reqInfoForDriver @ '': cannot be used for Windows GuestOS UserID!'')
            else Inr (reqInfo, reqInfoForDriver))
      else Inr (reqInfo, reqInfoForDriver))"

definition start_prepare :: "('d, 'c) env \<Rightarrow> 'c vm_deps \<Rightarrow> string \<Rightarrow> string \<Rightarrow> VMReqInfo \<Rightarrow> string \<Rightarrow> bool option \<Rightarrow>
    (('d, 'c) world, 'c start_plan) prog" where
  "start_prepare env deps connectionName rsType reqInfo IDTransformMode windowsTypeHint =
     (let reqNameId = NameId (vmReq_IId reqInfo) in
      bindP (has_name env VMIIDInfo connectionName reqNameId) (\<lambda>bool_ret.
      if bool_ret then throw (already_exists rsType reqNameId connectionName)
      else
        bindP (subnet_row env connectionName (NameId (vmReq_VpcIID reqInfo)) (NameId (vmReq_SubnetIID reqInfo))) (\<lambda>subnetIIDInfo.
        bindP (lift_result (ccm_GetZoneLevelCloudConnection env connectionName (row_ZoneId subnetIIDInfo))) (\<lambda>cldConn.
        bindP (lift_result (CreateVMHandler cldConn)) (\<lambda>handler.
        bindP (has_authorized_name env VMIIDInfo connectionName reqNameId) (\<lambda>bool_ret.
        if bool_ret then throw (already_exists rsType reqNameId connectionName)
        else
          bindP (lift_result (ccm_GetProviderNameByConnectionName env connectionName)) (\<lambda>providerName.
          bindP (lift_result (ccm_GetRegionNameByConnectionName env connectionName)) (\<lambda>regionZone.
          bindP (lift_result (translateRootDiskSetupInfo deps providerName reqInfo)) (\<lambda>reqInfo.
          bindP (cloneReqInfoWithDriverIID env connectionName reqInfo) (\<lambda>reqInfoForDriver.
          bindP (windows_check connectionName cldConn reqInfoForDriver windowsTypeHint) (\<lambda>isWindowsOS.
          bindP (make_spUUID env IDTransformMode connectionName (if isWindowsOS then ''windowsvm'' else rsType) reqNameId) (\<lambda>spUUID.
          let driverIId = \<lparr>NameId = spUUID, SystemId = []\<rparr>
          in
          bindP (lift_result (windows_user isWindowsOS (reqInfo\<lparr>vmReq_IId := driverIId\<rparr>)
            (reqInfoForDriver\<lparr>vmReq_WindowsType := isWindowsOS, vmReq_IId := driverIId\<rparr>))) (\<lambda>(reqInfo, reqInfoForDriver).
          ret \<lparr>plan_handler = handler, plan_req = reqInfo, plan_driver_req = reqInfoForDriver, plan_name = spUUID,
               plan_zone = row_ZoneId subnetIIDInfo, plan_provider = providerName, plan_windows = isWindowsOS\<rparr>)))))))))))))"

definition set_started_guest :: "bool \<Rightarrow> VMReqInfo \<Rightarrow> VMInfo \<Rightarrow> VMInfo" where
  "set_started_guest isWindowsOS reqInfo info =
     (if isWindowsOS
      then info\<lparr>vm_VMUserId := vmReq_VMUserId reqInfo, vm_VMUserPasswd := vmReq_VMUserPasswd reqInfo,
             vm_SSHAccessPoint := vm_PublicIP info @ '':3389''\<rparr>
      else (let info = info\<lparr>vm_VMUserId := ''cb-user''\<rparr>
            in if vm_SSHAccessPoint info = [] then info\<lparr>vm_SSHAccessPoint := vm_PublicIP info @ '':22''\<rparr> else info))"

text \<open>The end of a start: the row, and when it cannot be inserted the rollback; then the answer.\<close>

definition start_finish :: "('d, 'c) env \<Rightarrow> string \<Rightarrow> string \<Rightarrow> 'c start_plan \<Rightarrow> VMInfo \<Rightarrow> (('d, 'c) world, VMInfo) prog" where
  "start_finish env connectionName reqNameId plan info =
     (let reqInfo = plan_req plan;
          spiderIId = \<lparr>NameId = reqNameId, SystemId = plan_name plan @ '':'' @ SystemId (vm_IId info)\<rparr>
      in
      catchP (onStore (Insert (env_gorm env) VMIIDInfo
          (ZoneLevelIIDInfo connectionName (plan_zone plan) (NameId spiderIId) (SystemId spiderIId))))
        (\<lambda>err.
           bindP (onCloudStatus (vmh_TerminateVM (plan_handler plan) (vm_IId info))) (\<lambda>(_, err2).
           case err2 of Some e2 \<Rightarrow> throw (err @ '', '' @ e2) | None \<Rightarrow> throw err))
        (\<lambda>_.
           bindP (setNameId env connectionName (info\<lparr>vm_IId := getUserIID spiderIId\<rparr>) reqInfo) (\<lambda>(info, _).
           resolveNICNameIds env connectionName (set_started_guest (plan_windows plan) reqInfo info))))"

definition StartVM :: "('d, 'c) env \<Rightarrow> 'c vm_deps \<Rightarrow> string \<Rightarrow> string \<Rightarrow> VMReqInfo \<Rightarrow> string \<Rightarrow> bool option \<Rightarrow>
    (('d, 'c) world, VMInfo) run" where
  "StartVM env deps connectionName rsType reqInfo IDTransformMode windowsTypeHint =
     bindR (returning (
       bindP (lift_result (EmptyCheckAndTrim ''connectionName'' connectionName)) (\<lambda>connectionName.
       bindP (validated (ValidateStruct (reflect_VMReqInfo reqInfo) vm_empty_permissions)) (\<lambda>_.
       bindP (lift_result (checkImageType reqInfo)) (\<lambda>reqInfo.
       ret (connectionName, reqInfo)))))) (\<lambda>(connectionName, reqInfo).
     withLockR vmSPLock Wr connectionName (NameId (vmReq_IId reqInfo))
       (bindR (returning (
          bindP (start_prepare env deps connectionName rsType reqInfo IDTransformMode windowsTypeHint) (\<lambda>plan.
          bindP (onCloud (vmh_StartVM (plan_handler plan) (plan_driver_req plan))) (\<lambda>info.
          ret (plan, info))))) (\<lambda>(plan, info).
        bindR (access_check deps (plan_handler plan) (plan_provider plan) (plan_windows plan) (vm_IId info)
            (vmReq_AssignPublicIP reqInfo = None \<or> vmReq_AssignPublicIP reqInfo = Some True)) (\<lambda>_.
        returning (start_finish env connectionName (NameId (vmReq_IId reqInfo)) plan info)))))"


section \<open>What the parts do to rows and locks\<close>


lemma subnet_row_wp:
  fixes env :: "('d, 'c) env" and w :: "('d, 'c) world"
  assumes ok: "gorm_ok (env_gorm env) R"
    and Q: "\<And>s w'. reads R env w w' \<Longrightarrow> s \<in> wrows R w SubnetIIDInfo \<Longrightarrow> row_NameId s = subnet \<Longrightarrow> row_OwnerVPCName s = vpc \<Longrightarrow>
      permission_mode env \<or> row_ConnectionName s = conn \<Longrightarrow> Q s w'"
    and E: "\<And>e w'. reads R env w w' \<Longrightarrow> E e w'"
  shows "wp (subnet_row env conn vpc subnet) Q E w"
  unfolding subnet_row_def
  by (intro wp_walk vpc_connection_wp[OF ok] get_by3_wp[OF ok]) (auto simp: reads_def intro!: Q E)

lemma driver_IID_of_wp:
  fixes env :: "('d, 'c) env" and w :: "('d, 'c) world"
  assumes ok: "gorm_ok (env_gorm env) R" and "reads R env w0 w"
    and "\<And>i w'. reads R env w0 w' \<Longrightarrow> Q i w'" and "\<And>e w'. reads R env w0 w' \<Longrightarrow> E e w'"
  shows "wp (driver_IID_of env t conn n) Q E w"
  unfolding driver_IID_of_def
  by (intro wp_walk get_iid_info_wp[OF ok]) (auto intro: assms(3,4) reads_trans[OF assms(2)])

lemma cloneReqInfoWithDriverIID_wp:
  fixes env :: "('d, 'c) env" and w :: "('d, 'c) world"
  assumes ok: "gorm_ok (env_gorm env) R"
    and Q: "\<And>req' w'. reads R env w w' \<Longrightarrow> vmReq_IId req' = vmReq_IId req \<Longrightarrow> Q req' w'" and E: "\<And>e w'. reads R env w w' \<Longrightarrow> E e w'"
  shows "wp (cloneReqInfoWithDriverIID env conn req) Q E w"
proof -
  have ids: "wp (mapP (\<lambda>i. driver_IID_of env t conn (NameId i)) is) Q' E w1"
    if "reads R env w w1" "\<And>ys w'. reads R env w w' \<Longrightarrow> Q' ys w'" for t "is" Q' w1
    by (rule mapP_wp[where P = "\<lambda>_ _. True" and R = R and w = w]) (auto intro!: driver_IID_of_wp[OF ok] that E)
  have sub: "wp (subnet_row env conn v s) Q' E w1"
    if "reads R env w w1" "\<And>r w'. reads R env w w' \<Longrightarrow> Q' r w'" for v s Q' w1
    by (rule subnet_row_wp[OF ok]) (auto intro!: that(2) E intro: reads_trans[OF that(1)])
  have one: "wp (driver_IID_of env t conn n) Q' E w1"
    if "reads R env w w1" "\<And>i w'. reads R env w w' \<Longrightarrow> Q' i w'" for t n Q' w1
    by (rule driver_IID_of_wp[OF ok that(1)]) (auto intro: that(2) E)
  show ?thesis
    unfolding cloneReqInfoWithDriverIID_def clone_image_IID_def Let_def
    by (intro wp_walk one ids sub Q; (assumption | simp))
qed

lemma checkImageWindowsOSCached_wp:
  assumes "\<And>b w'. kept R w w' \<Longrightarrow> Q b w'" and "\<And>e w'. kept R w w' \<Longrightarrow> E e w'"
  shows "wp (checkImageWindowsOSCached conn cld ty iid) Q E w"
  by (rule wpI; rule assms)
    (auto simp: checkImageWindowsOSCached_def kept_def wrows_def Let_def split: option.splits prod.splits if_splits)

lemma windows_check_wp:
  assumes "\<And>b w'. kept R w w' \<Longrightarrow> Q b w'" and "\<And>e w'. kept R w w' \<Longrightarrow> E e w'"
  shows "wp (windows_check conn cld req hint) Q E w"
  unfolding windows_check_def
  by (intro wp_walk checkImageWindowsOSCached_wp[where R = R]) (auto intro: assms)

text \<open>What is known of the plan: the name is free, and the zone is that of the subnet's row.\<close>

definition prepared :: "('d \<Rightarrow> table \<Rightarrow> iid_row set) \<Rightarrow> ('d, 'c) env \<Rightarrow> string \<Rightarrow> VMReqInfo \<Rightarrow> ('d, 'c) world \<Rightarrow> 'c start_plan \<Rightarrow> bool" where
  "prepared R env conn req w plan \<longleftrightarrow>
     \<not> name_taken env (wrows R w VMIIDInfo) conn (NameId (vmReq_IId req)) \<and>
     vmReq_ImageType (plan_req plan) = vmReq_ImageType req \<and>
     zone_vm_handler env conn (plan_zone plan) = Inr (plan_handler plan) \<and>
     (\<exists>s \<in> wrows R w SubnetIIDInfo. row_ZoneId s = plan_zone plan \<and> row_NameId s = NameId (vmReq_SubnetIID req) \<and>
        row_OwnerVPCName s = NameId (vmReq_VpcIID req) \<and> (permission_mode env \<or> row_ConnectionName s = conn))"

lemma start_prepare_wp:
  fixes env :: "('d, 'c) env" and w :: "('d, 'c) world"
  assumes ok: "gorm_ok (env_gorm env) R"
    and Q: "\<And>plan w'. kept R w w' \<Longrightarrow> prepared R env conn req w plan \<Longrightarrow> Q plan w'" and E: "\<And>e w'. kept R w w' \<Longrightarrow> E e w'"
  shows "wp (start_prepare env deps conn rs req mode hint) Q E w"
proof -
  have ty: "vmReq_ImageType r = vmReq_ImageType req" if "translateRootDiskSetupInfo deps p req = Inr r" for r p
    using that by (auto simp: translateRootDiskSetupInfo_def split: sum.splits)
  have win: "vmReq_ImageType r' = vmReq_ImageType r" if "windows_user b (r\<lparr>vmReq_IId := i\<rparr>) d = Inr (r', d')" for b r d r' d' i
    using that by (auto simp: windows_user_def Let_def split: if_splits)
  show ?thesis
    unfolding start_prepare_def Let_def
    apply (intro wp_walk has_name_wp'[OF ok] subnet_row_wp[OF ok] has_authorized_name_wp[OF ok] cloneReqInfoWithDriverIID_wp[OF ok]
        windows_check_wp[where R = R] make_spUUID_wp[where R = R]; (rule Q | rule E))
    apply (simp_all add: kept_def reads_def prepared_def zone_vm_handler_def)
    by (metis ty win)+
qed

lemma set_names_wp:
  assumes f: "\<And>x w1. I w1 \<Longrightarrow> wp (f x) (\<lambda>_. I) (\<lambda>_. I) w1" and Q: "\<And>ys e w'. I w' \<Longrightarrow> Q (ys, e) w'" and E: "\<And>w'. I w' \<Longrightarrow> E nil_panic w'" and "I w1"
  shows "wp (set_names f xs) Q E w1"
  using Q assms(4)
proof (induction xs arbitrary: w1 Q)
  case (Cons x xs)
  have "wp (f x) (\<lambda>y. wp (bindP (set_names f xs) (\<lambda>(ys, e). ret (y # ys, e))) Q E)
      (\<lambda>e. wp (if e = nil_panic then throw e else ret (x # xs, Some e)) Q E) w1"
  proof (rule wp_mono[OF f[OF Cons.prems(2)]])
    fix y w' assume "I w'"
    then show "wp (bindP (set_names f xs) (\<lambda>(ys, e). ret (y # ys, e))) Q E w'"
      by (intro wp_bindPI Cons.IH) (auto simp: wp_ret intro: Cons.prems(1))
  qed (auto simp: wp_simps intro: Cons.prems(1) E)
  then show ?case by (simp add: wp_catchP)
qed (simp add: wp_ret)

text \<open>What \<open>setNameId\<close> may do: register disks, when the VM was made from a private image.\<close>

definition disks_added :: "('d \<Rightarrow> table \<Rightarrow> iid_row set) \<Rightarrow> bool \<Rightarrow> ('d, 'c) world \<Rightarrow> ('d, 'c) world \<Rightarrow> bool" where
  "disks_added R may w w' \<longleftrightarrow> w_locks w' = w_locks w \<and> (\<forall>t. t \<noteq> DiskIIDInfo \<longrightarrow> wrows R w' t = wrows R w t) \<and>
     wrows R w DiskIIDInfo \<subseteq> wrows R w' DiskIIDInfo \<and> (\<not> may \<longrightarrow> wrows R w' DiskIIDInfo = wrows R w DiskIIDInfo)"

lemma disks_added_kept: "kept R w w' \<Longrightarrow> disks_added R may w w'"
  by (simp add: disks_added_def kept_def)

lemma disks_added_trans: "disks_added R may w w' \<Longrightarrow> disks_added R may w' w'' \<Longrightarrow> disks_added R may w w''"
  by (auto simp: disks_added_def)

lemma RegisterDisk_added:
  fixes env :: "('d, 'c) env" and w :: "('d, 'c) world"
  assumes "gorm_ok (env_gorm env) R"
  shows "wp (RegisterDisk env conn zone i) (\<lambda>_. disks_added R True w) (\<lambda>_. disks_added R True w) w"
  by (rule wp_mono[OF RegisterDisk_rows[OF assms]]) (auto simp: disks_added_def Let_def)

lemma register_disk_wp:
  fixes env :: "('d, 'c) env" and w :: "('d, 'c) world"
  assumes ok: "gorm_ok (env_gorm env) R" and "disks_added R True w0 w"
  shows "wp (register_disk env conn zone vm p) (\<lambda>_. disks_added R True w0) (\<lambda>_. disks_added R True w0) w"
  unfolding register_disk_def case_prod_beta wp_bindP
  by (rule wp_mono[OF RegisterDisk_added[OF ok]]; (rule wp_retI)?; rule disks_added_trans[OF assms(2)])

lemma sg_name_or_error_wp:
  fixes env :: "('d, 'c) env" and w :: "('d, 'c) world"
  assumes ok: "gorm_ok (env_gorm env) R" and "reads R env w0 w"
  shows "wp (sg_name_or_error env conn vpc sg) (\<lambda>_. reads R env w0) (\<lambda>_. reads R env w0) w"
  unfolding sg_name_or_error_def
  by (intro wp_walk getAuthIIDInfoList_wp[OF ok] get_contain_wp[OF ok]) (auto intro: reads_trans[OF assms(2)])

lemma request_names_IId: "vm_IId (request_names req vm) = vm_IId vm"
  by (simp add: request_names_def Let_def)

lemma setNameId_wp:
  fixes env :: "('d, 'c) env" and w :: "('d, 'c) world"
  assumes ok: "gorm_ok (env_gorm env) R"
    and Q: "\<And>vm' e w'. disks_added R (vmReq_ImageType req = MyImage) w w' \<Longrightarrow> vm_IId vm' = vm_IId vm \<Longrightarrow> Q (vm', e) w'"
    and E: "\<And>w'. disks_added R (vmReq_ImageType req = MyImage) w w' \<Longrightarrow> E nil_panic w'"
  shows "wp (setNameId env conn vm req) Q E w"
proof -
  let ?I = "disks_added R (vmReq_ImageType req = MyImage) w"
  have read: "wp (set_names f xs) Q' E w1"
    if "\<And>x w2. reads R env w1 w2 \<Longrightarrow> wp (f x) (\<lambda>_. reads R env w1) (\<lambda>_. reads R env w1) w2" "?I w1"
      "\<And>ys e w'. ?I w' \<Longrightarrow> Q' (ys, e) w'" for f xs Q' w1
    by (rule set_names_wp[where I = "reads R env w1", OF that(1)])
      (auto intro!: that(3) E intro: disks_added_trans[OF that(2)] disks_added_kept kept_reads)
  have reg: "wp (set_names (register_disk env conn z n) xs) Q' E w1"
    if "vmReq_ImageType req = MyImage" "?I w1" "\<And>ys e w'. ?I w' \<Longrightarrow> Q' (ys, e) w'" for z n xs Q' w1
    using that by (intro set_names_wp[where I = "disks_added R True w"] register_disk_wp[OF ok]) (auto intro: E)
  have disk: "wp (disk_name env conn d) (\<lambda>_. reads R env w1) (\<lambda>_. reads R env w1) w2" if "reads R env w1 w2" for d w1 w2
    by (rule wp_mono[OF vm_wp(6)[OF ok that]]) auto
  show ?thesis
    unfolding setNameId_def set_disk_names_def Let_def
    by (intro wp_walk read sg_name_or_error_wp[OF ok] disk reg)
      (auto intro!: Q split: if_splits simp: disks_added_kept request_names_IId)
qed


lemma wlpR_onCloudR_any:
  assumes "\<And>x c. Q x (w\<lparr>w_cloud := c\<rparr>)" and "\<And>e c. E e (w\<lparr>w_cloud := c\<rparr>)"
  shows "wlpR (onCloudR f) Q E w"
  by (rule wlpR_onCloudR) (rule assms)+

lemma access_check_wlp:
  fixes w :: "('d, 'c) world"
  assumes Q: "\<And>w'. kept R w w' \<Longrightarrow> Q () w'" and E: "\<And>e w'. kept R w w' \<Longrightarrow> E e w'"
  shows "wlpR (access_check deps h provider win iid assign) Q E w"
  unfolding access_check_def Let_def
  by (intro R_walk wlpR_onCloudR_any) (auto intro!: Q E)

text \<open>What a start leaves in the rows.\<close>

definition vm_added :: "('d \<Rightarrow> table \<Rightarrow> iid_row set) \<Rightarrow> bool \<Rightarrow> iid_row \<Rightarrow> ('d, 'c) world \<Rightarrow> ('d, 'c) world \<Rightarrow> bool" where
  "vm_added R may row w w' \<longleftrightarrow> w_locks w' = w_locks w \<and>
     wrows R w' VMIIDInfo = insert row (wrows R w VMIIDInfo) \<and> wrows R w DiskIIDInfo \<subseteq> wrows R w' DiskIIDInfo \<and>
     (\<not> may \<longrightarrow> wrows R w' DiskIIDInfo = wrows R w DiskIIDInfo) \<and>
     (\<forall>t. t \<noteq> VMIIDInfo \<longrightarrow> t \<noteq> DiskIIDInfo \<longrightarrow> wrows R w' t = wrows R w t)"

lemma vm_added_disks:
  assumes "wrows R w1 = (wrows R w)(VMIIDInfo := insert row (wrows R w VMIIDInfo))" and "w_locks w1 = w_locks w" and "disks_added R may w1 w'"
  shows "vm_added R may row w w'"
  using assms by (auto simp: vm_added_def disks_added_def)

lemma set_started_guest_IId: "vm_IId (set_started_guest win req vm) = vm_IId vm"
  by (simp add: set_started_guest_def Let_def)

lemma same_vm: "vm' = vm\<lparr>vm_NICs := ns, vm_NetworkInterface := n\<rparr> \<Longrightarrow> vm_IId vm' = vm_IId vm"
  by simp

lemma start_finish_wp:
  fixes env :: "('d, 'c) env" and w :: "('d, 'c) world"
  assumes ok: "gorm_ok (env_gorm env) R" and free: "\<not> name_taken env (wrows R w VMIIDInfo) conn n"
    and Q: "\<And>vm' w' sys. sys = spiderSystemId (plan_name plan) (SystemId (vm_IId info)) \<Longrightarrow> vm_IId vm' = getUserIID \<lparr>NameId = n, SystemId = sys\<rparr> \<Longrightarrow>
        vm_added R (vmReq_ImageType (plan_req plan) = MyImage) (ZoneLevelIIDInfo conn (plan_zone plan) n sys) w w' \<Longrightarrow> Q vm' w'"
    and E: "\<And>e w'. w_locks w' = w_locks w \<Longrightarrow> wrows R w' = wrows R w \<Longrightarrow> E e w'"
    and P: "\<And>w'. w_locks w' = w_locks w \<Longrightarrow> E nil_panic w'"
  shows "wp (start_finish env conn n plan info) Q E w"
proof -
  have vm: "upsert (ZoneLevelIIDInfo conn z n s) (wrows R w VMIIDInfo) = insert (ZoneLevelIIDInfo conn z n s) (wrows R w VMIIDInfo)" for z s
    using free by (intro upsert_new) (simp add: ZoneLevelIIDInfo_def)
  show ?thesis
    unfolding start_finish_def Let_def spiderSystemId_def[symmetric]
    apply (intro wp_walk onCloudStatus_wp row_insert_wp[OF ok] setNameId_wp[OF ok] resolveNICNameIds_wp[OF ok])
    apply (simp_all add: vm)
      apply (rule Q[OF refl])
    subgoal premises prems using same_vm[OF prems(9)] prems(6,7) by (simp add: set_started_guest_IId)
    subgoal premises prems
      by (rule vm_added_disks[OF prems(1,3) disks_added_trans[OF prems(5) disks_added_kept[OF kept_reads[OF prems(8)]]]])
    apply (auto intro!: P E simp: disks_added_def)
    done
qed

definition started :: "('d \<Rightarrow> table \<Rightarrow> iid_row set) \<Rightarrow> ('d, 'c) env \<Rightarrow> string \<Rightarrow> VMReqInfo \<Rightarrow> ('d, 'c) world \<Rightarrow> VMInfo \<Rightarrow> ('d, 'c) world \<Rightarrow> bool" where
  "started R env conn req w info w' \<longleftrightarrow>
     \<not> name_taken env (wrows R w VMIIDInfo) conn (NameId (vmReq_IId req)) \<and>
     (\<exists>s name cspId. s \<in> wrows R w SubnetIIDInfo \<and> row_NameId s = NameId (vmReq_SubnetIID req) \<and>
        row_OwnerVPCName s = NameId (vmReq_VpcIID req) \<and> (permission_mode env \<or> row_ConnectionName s = conn) \<and>
        vm_added R (vmReq_ImageType req = MyImage)
          (ZoneLevelIIDInfo conn (row_ZoneId s) (NameId (vmReq_IId req)) (spiderSystemId name cspId)) w w' \<and>
        vm_IId info = getUserIID \<lparr>NameId = NameId (vmReq_IId req), SystemId = spiderSystemId name cspId\<rparr>)"

lemma startedI:
  assumes "prepared R env conn req w plan" and "kept R w w1"
    and "vm_added R (vmReq_ImageType (plan_req plan) = MyImage)
      (ZoneLevelIIDInfo conn (plan_zone plan) (NameId (vmReq_IId req)) (spiderSystemId name cspId)) w1 w'"
    and "vm_IId info = getUserIID \<lparr>NameId = NameId (vmReq_IId req), SystemId = spiderSystemId name cspId\<rparr>"
  shows "started R env conn req w info w'"
proof -
  from assms(1) obtain s where s: "s \<in> wrows R w SubnetIIDInfo" "row_ZoneId s = plan_zone plan" "row_NameId s = NameId (vmReq_SubnetIID req)"
      "row_OwnerVPCName s = NameId (vmReq_VpcIID req)" "permission_mode env \<or> row_ConnectionName s = conn"
    unfolding prepared_def by blast
  from assms(1,3) have "vm_added R (vmReq_ImageType req = MyImage)
      (ZoneLevelIIDInfo conn (row_ZoneId s) (NameId (vmReq_IId req)) (spiderSystemId name cspId)) w1 w'"
    unfolding prepared_def s(2) by simp
  then have "vm_added R (vmReq_ImageType req = MyImage)
      (ZoneLevelIIDInfo conn (row_ZoneId s) (NameId (vmReq_IId req)) (spiderSystemId name cspId)) w w'"
    using assms(2) by (simp add: vm_added_def kept_def)
  with assms(1,4) s show ?thesis
    unfolding started_def prepared_def by blast
qed

lemma started_lock:
  "started R env conn req (w\<lparr>w_locks := l # w_locks w\<rparr>) info w' \<Longrightarrow> started R env conn req w info (w'\<lparr>w_locks := remove1 l (w_locks w')\<rparr>)"
  unfolding started_def vm_added_def by (simp, elim conjE exE, intro exI conjI; simp)

lemma checkImageType_fields:
  assumes "checkImageType req = Inr r"
  shows "vmReq_IId r = vmReq_IId req" and "vmReq_SubnetIID r = vmReq_SubnetIID req" and "vmReq_VpcIID r = vmReq_VpcIID req"
    and "(vmReq_ImageType r = MyImage) = (vmReq_ImageType req = MyImage)"
  using assms by (auto simp: checkImageType_def Let_def split: if_splits)

lemma started_checked: "checkImageType req = Inr r \<Longrightarrow> started R env conn r w info w' = started R env conn req w info w'"
  unfolding started_def by (simp only: checkImageType_fields)

lemma kept_from_cloud: "kept R (w\<lparr>w_cloud := c\<rparr>) w' \<Longrightarrow> kept R w w'"
  by (simp add: kept_def)

lemma kept_lock: "kept R (w\<lparr>w_locks := l # w_locks w\<rparr>) w' \<Longrightarrow> kept R w (w'\<lparr>w_locks := remove1 l (w_locks w')\<rparr>)"
  by (simp add: kept_def)

text \<open>
  C1: A successful \<open>StartVM\<close> adds exactly one row for the VM, of a name that was free, in the zone of the row of the
  subnet that was asked for, which decodes to the identifiers it returns; beside that only rows of disks are added, and
  only when the VM is made from a private image. When it ends with an error no row has changed (but for a panic while
  the names are set), and either way the locks are given back.
\<close>

theorem StartVM_rows:
  fixes env :: "('d, 'c) env" and w :: "('d, 'c) world"
  assumes "gorm_ok (env_gorm env) R"
  shows "wlpR (StartVM env deps conn rs req mode hint)
    (\<lambda>info w'. started R env (TrimSpace conn) req w info w')
    (\<lambda>e w'. w_locks w' = w_locks w \<and> (wrows R w' = wrows R w \<or> e = nil_panic)) w"
  unfolding StartVM_def
  apply (intro R_walk start_prepare_wp[OF assms] cloud_wp access_check_wlp[where R = R] start_finish_wp[OF assms])
  apply (simp_all add: EmptyCheckAndTrim_Inr)
    apply (simp add: prepared_def kept_def)
   apply (erule started_checked[THEN iffD1])
   apply (rule started_lock)
  subgoal premises prems
    by (rule startedI[OF prems(5) kept_trans[OF prems(4) kept_from_cloud[OF prems(7)]]]) (use prems(6,8-10) in simp_all)
  apply (simp_all add: kept_def)
  done

text \<open>
  The start of a VM that the driver does not find does not end: the loop asks again at once, and never looks at the
  time.
\<close>

lemma access_check_spins:
  fixes w :: "('d, 'c) world"
  assumes "ToLower (SPIDER_ENABLE_VM_ACCESS_CHECK deps) = ''true''"
    and lost: "\<And>c. lost c \<Longrightarrow> \<exists>e c'. vmh_GetVM h iid c = (Inl e, c') \<and> checkNotFoundError e \<and> lost c'"
    and "\<And>n c. lost c \<Longrightarrow> lost (time_Sleep (deps_machine deps) n c)" and "lost (w_cloud w)"
  shows "access_check deps h provider win iid assign w = None"
proof -
  have "for_wait (deps_machine deps) wt (public_ip_turn h iid assign) late (w_cloud w) = None" for wt late
    by (rule for_wait_loops[where I = lost]) (use assms(3,4) lost in \<open>force simp: public_ip_turn_def\<close>)+
  then show ?thesis by (simp add: access_check_def assms(1) Let_def bindR_def onCloudR_def)
qed

section \<open>Disk types by number\<close>

lemma ToUpper_type_number: "ToUpper (''TYPE'' @ Itoa n) = ''TYPE'' @ Itoa n"
proof -
  have "ToUpper (Itoa n) = Itoa n"
    unfolding ToUpper_def by (rule map_idI) (use Itoa_digits[of n] in simp)
  then show ?thesis by (simp add: ToUpper_def upper_char_def)
qed

lemma type_number_replaced: "ReplaceAll (''TYPE'' @ Itoa n) ''TYPE'' [] = Itoa n"
proof -
  have "\<not> is_digit CHR ''T''" by (simp add: is_digit_def)
  then have "\<not> Contains (Itoa n) ''TYPE''"
    using Contains_hd[of "Itoa n" "''TYPE''"] Itoa_digits[of n] by (metis list.sel(1) list.distinct(1))
  then show ?thesis using ReplaceAll_prefix[of "''TYPE''" "Itoa n" "[]"] by (simp add: ReplaceAll_absent)
qed
text \<open>
  C35: The root disk type \<open>TYPEn\<close>, for a number \<open>n\<close>, is the \<open>n\<close>-th of the provider, or its last when there are fewer; the
  number 0, and any number when the provider lists no types, is an index out of range, which is a panic.
\<close>

theorem translate_disk_type_number:
  assumes "n < 2 ^ 63"
  shows "translate_disk_type types (''TYPE'' @ Itoa n) =
    (if n = 0 \<or> types = [] then Inl index_panic else Inr (types ! (min n (length types) - 1)))"
proof -
  have "Contains (''TYPE'' @ Itoa n) ''TYPE''" unfolding Contains_iff by (rule exI[of _ "[]"]) simp
  moreover have "''TYPE'' @ Itoa n \<noteq> []" and "''TYPE'' @ Itoa n \<noteq> ''DEFAULT''" by simp_all
  ultimately have "translate_disk_type types (''TYPE'' @ Itoa n) =
    (let i = (if int n > int (length types) then int (length types) else int n)
     in if i - 1 < 0 then Inl index_panic else Inr (types ! nat (i - 1)))"
    by (simp only: translate_disk_type_def ToUpper_type_number type_number_replaced Atoi_Itoa[OF assms] Let_def
        fst_conv if_True if_False simp_thms)
  moreover have "nat (int m - 1) = m - 1" for m by simp
  ultimately show ?thesis by (auto simp: Let_def min_def)
qed
end
