(* ===== verification/VMExamples.thy ===== *)
theory VMExamples
  imports VMStart
begin

text \<open>
  The manager of virtual machines on a concrete cloud: the mock driver beside a clock, with rows for its VPC, its subnet,
  its security group, its key pair, its disks and its VMs. The witnesses of the theories \<open>VMManager\<close> and \<open>VMStart\<close> run
  here.
\<close>

section \<open>The state of the mock driver\<close>

definition t_region :: RegionInfo where
  "t_region = \<lparr>region_Region = ''region'', region_Zone = ''zone-a''\<rparr>"

definition t_id :: "string \<Rightarrow> IID" where
  "t_id n = \<lparr>NameId = n, SystemId = n\<rparr>"

definition t_disk :: "string \<Rightarrow> string \<Rightarrow> IID \<Rightarrow> DiskInfo" where
  "t_disk n st owner = \<lparr>disk_IId = t_id n, disk_Zone = [], disk_DiskType = ''SSD'', disk_DiskSize = ''64'', disk_Status = st,
     disk_OwnerVM = owner, disk_CreatedTime = 0, disk_TagList = [], disk_KeyValueList = []\<rparr>"

definition t_vm :: "string \<Rightarrow> string list \<Rightarrow> VMInfo" where
  "t_vm n ds = \<lparr>vm_IId = t_id n, vm_StartTime = 0, vm_Region = t_region, vm_ImageType = [], vm_ImageIId = t_id ''image-1'',
     vm_VMSpecName = ''spec-1'', vm_VpcIID = t_id ''v'', vm_SubnetIID = t_id ''s'', vm_SecurityGroupIIds = [t_id ''g''],
     vm_KeyPairIId = t_id ''k'', vm_RootDiskType = ''SSD'', vm_RootDiskSize = ''32'', vm_RootDeviceName = ''/dev/sda1'',
     vm_DataDiskIIDs = map t_id ds, vm_VMBootDisk = ''/dev/sda1'', vm_VMBlockDisk = ''/dev/sda1'', vm_VMUserId = [], vm_VMUserPasswd = [],
     vm_NICs = [mock_nic], vm_NetworkInterface = [], vm_PublicIP = ''4.3.2.1'', vm_PublicIPs = [], vm_PublicDNS = [],
     vm_PrivateIP = ''1.2.3.4'', vm_PrivateIPs = [], vm_PrivateDNS = [], vm_Platform = [], vm_SSHAccessPoint = [], vm_AccessPoint = [],
     vm_TagList = [], vm_KeyValueList = []\<rparr>"

text \<open>One VPC with a subnet, a security group, a key pair, an image, a VM spec, three disks and two VMs.\<close>

definition t_init :: mock where
  "t_init = \<lparr>
     keyPairInfoMap = [''m'' \<mapsto> [\<lparr>key_IId = t_id ''k'', key_Fingerprint = [], key_PublicKey = [], key_PrivateKey = [], key_VMUserID = [],
       key_TagList = [], key_KeyValueList = []\<rparr>]],
     securityInfoMap = [''m'' \<mapsto> [\<lparr>sg_IId = t_id ''g'', sg_VpcIID = t_id ''v'', sg_SecurityRules = None, sg_TagList = [], sg_KeyValueList = []\<rparr>]],
     vpcInfoMap = [''m'' \<mapsto> [\<lparr>vpc_IId = t_id ''v'', vpc_IPv4_CIDR = [], vpc_SubnetInfoList =
       [\<lparr>subnet_IId = t_id ''s'', subnet_Zone = [], subnet_IPv4_CIDR = [], subnet_TagList = [], subnet_KeyValueList = []\<rparr>],
       vpc_TagList = [], vpc_KeyValueList = []\<rparr>]],
     diskInfoMap = [''m'' \<mapsto> [t_disk ''d1'' DiskAttached (t_id ''vm1''), t_disk ''d2'' DiskAttached (t_id ''vm1''), t_disk ''d3'' DiskAvailable IID_zero]],
     myImageInfoMap = Map.empty,
     imgInfoMap = [''m'' \<mapsto> [\<lparr>img_IId = t_id ''image-1'', img_Name = ''image-1'', img_OSArchitecture = [], img_OSPlatform = [],
       img_OSDistribution = [], img_OSDiskType = [], img_OSDiskSizeGB = [], img_ImageStatus = [], img_KeyValueList = []\<rparr>]],
     vmSpecInfoMap = [''m'' \<mapsto> [\<lparr>spec_Region = ''region'', spec_Name = ''spec-1'', spec_VCpu = \<lparr>vcpu_Count = ''1'', vcpu_ClockGHz = ''1''\<rparr>,
       spec_MemSizeMiB = [], spec_DiskSizeGB = [], spec_Gpu = [], spec_Accelerator = [], spec_KeyValueList = []\<rparr>]],
     vmInfoMap = [''m'' \<mapsto> [t_vm ''vm1'' [''d1'', ''d2''], t_vm ''vm2'' []]],
     vmStatusInfoMap = [''m'' \<mapsto> [\<lparr>vmst_IId = t_id ''vm1'', vmst_VmStatus = Running\<rparr>, \<lparr>vmst_IId = t_id ''vm2'', vmst_VmStatus = Running\<rparr>]],
     nlbInfoMap = Map.empty, mock_clock = 0, mock_xids = 0\<rparr>"

section \<open>The mock driver beside a clock\<close>

text \<open>\<open>t_calls\<close> counts the calls of \<open>GetVMStatus\<close>. A call takes no time.\<close>

record timed =
  t_mock :: mock
  t_now :: int
  t_calls :: nat

definition t_machine :: "timed machine" where
  "t_machine = \<lparr>time_Now = t_now, time_Sleep = (\<lambda>n c. c\<lparr>t_now := t_now c + n\<rparr>)\<rparr>"

definition t_lift :: "(mock \<Rightarrow> 'a \<times> mock) \<Rightarrow> timed \<Rightarrow> 'a \<times> timed" where
  "t_lift f c = (let (x, m) = f (t_mock c) in (x, c\<lparr>t_mock := m\<rparr>))"

text \<open>The handler of VMs of the mock driver; with \<open>reported = Some st\<close> it reports the status \<open>st\<close> for every VM.\<close>

definition t_VMHandler :: "string option \<Rightarrow> timed VMHandler" where
  "t_VMHandler reported =
     (let h = MockVMHandler t_region ''m''
      in \<lparr>vmh_ListIID = t_lift (vmh_ListIID h), vmh_StartVM = (\<lambda>req. t_lift (vmh_StartVM h req)),
          vmh_SuspendVM = (\<lambda>iid. t_lift (vmh_SuspendVM h iid)), vmh_ResumeVM = (\<lambda>iid. t_lift (vmh_ResumeVM h iid)),
          vmh_RebootVM = (\<lambda>iid. t_lift (vmh_RebootVM h iid)), vmh_TerminateVM = (\<lambda>iid. t_lift (vmh_TerminateVM h iid)),
          vmh_ListVMStatus = t_lift (vmh_ListVMStatus h),
          vmh_GetVMStatus = (\<lambda>iid c.
            let c = c\<lparr>t_calls := Suc (t_calls c)\<rparr>
            in case reported of Some st \<Rightarrow> ((st, None), c) | None \<Rightarrow> t_lift (vmh_GetVMStatus h iid) c),
          vmh_ListVM = t_lift (vmh_ListVM h), vmh_GetVM = (\<lambda>iid. t_lift (vmh_GetVM h iid))\<rparr>)"

definition t_connection :: "string option \<Rightarrow> timed CloudConnection" where
  "t_connection reported =
     \<lparr>CreateImageHandler = Inl [], CreateVPCHandler = Inl [], CreateSecurityHandler = Inl [], CreateKeyPairHandler = Inl [],
      CreateVMHandler = Inr (t_VMHandler reported), CreateNLBHandler = Inl [], CreateDiskHandler = Inl [],
      CreateMyImageHandler = Inl [], CreateClusterHandler = Inl [], CreateRDBMSHandler = Inl []\<rparr>"

text \<open>A connection whose zones all work but the one of the name \<open>''zone-x''\<close>.\<close>

definition t_env :: "string option \<Rightarrow> (list_db, timed) env" where
  "t_env reported =
     \<lparr>PERMISSION_BASED_CONTROL_MODE = [], ID_TRANSFORM_MODE = ''ON'',
      ccm_GetCloudConnection = (\<lambda>conn. Inr (t_connection reported)),
      ccm_GetZoneLevelCloudConnection = (\<lambda>conn zone. if zone = ''zone-x'' then Inl ''zone-x: no such zone'' else Inr (t_connection reported)),
      ccm_GetRegionNameByConnectionName = (\<lambda>_. Inr (''region'', ''zone-a'')),
      ccm_GetProviderNameByConnectionName = (\<lambda>_. Inr ''MOCK''),
      ccm_GetDriverCapability = ccm_GetDriverCapability (ex_env []),
      ccim_GetConnectionConfig = (\<lambda>_. Inr ''MOCK''), cim_GetCloudOSMetaInfo = (\<lambda>_. Inr []),
      xid_New = ex_xid, env_gorm = list_gorm\<rparr>"

definition t_deps :: "string \<Rightarrow> timed vm_deps" where
  "t_deps check =
     \<lparr>deps_machine = t_machine, SPIDER_ENABLE_VM_ACCESS_CHECK = check, cim_RootDiskType = (\<lambda>_. Inr [''HDD'', ''SSD'']),
      sshrun_SSHRun = (\<lambda>_ c. (Some ''ssh: handshake failed'', c))\<rparr>"

definition t_rows :: "string \<Rightarrow> table \<Rightarrow> iid_row list" where
  "t_rows zone =
     (\<lambda>_. [])(VPCIIDInfo := [FirstIIDInfo ''mock'' ''net'' ''v:v''],
       SubnetIIDInfo := [ZoneLevelVPCDependentIIDInfo ''mock'' zone ''sub'' ''s:s'' ''net''],
       SGIIDInfo := [VPCDependentIIDInfo ''mock'' ''fw'' ''g:g'' ''net''], KeyIIDInfo := [FirstIIDInfo ''mock'' ''key'' ''k:k''],
       DiskIIDInfo := [FirstIIDInfo ''mock'' ''disk-1'' ''d1:d1'', FirstIIDInfo ''mock'' ''disk-2'' ''d2:d2'', FirstIIDInfo ''mock'' ''disk-3'' ''d3:d3''],
       VMIIDInfo := [ZoneLevelIIDInfo ''mock'' zone ''web'' ''vm1:vm1'', ZoneLevelIIDInfo ''mock'' ''zone-a'' ''db'' ''vm2:vm2''])"

definition t_world :: "string \<Rightarrow> (list_db, timed) world" where
  "t_world zone =
     \<lparr>w_store = \<lparr>dbConfigErr = None, st_open = None, st_db = \<lparr>db_rows = t_rows zone, db_fails = []\<rparr>\<rparr>,
      w_cloud = \<lparr>t_mock = t_init, t_now = 0, t_calls = 0\<rparr>, w_heap = ex_heap, w_xids = 0, w_locks = [], w_windowsImageCache = (\<lambda>_. None)\<rparr>"

lemma t_env_sel [simp]:
  "env_gorm (t_env s) = list_gorm" "permission_mode (t_env s) = False"
  "ccm_GetProviderNameByConnectionName (t_env s) c = Inr ''MOCK''"
  "ccm_GetRegionNameByConnectionName (t_env s) c = Inr (''region'', ''zone-a'')"
  by (simp_all add: t_env_def permission_mode_def)

lemma t_gorm_ok: "gorm_ok (env_gorm (t_env s)) list_rows"
  by (simp add: list_gorm_ok)

lemma t_zone_handler: "zone_vm_handler (t_env s) conn zone = (if zone = ''zone-x'' then Inl ''zone-x: no such zone'' else Inr (t_VMHandler s))"
  by (simp add: zone_vm_handler_def t_env_def t_connection_def)

lemma t_clock_ok: "clock_ok t_machine"
  by (simp add: clock_ok_def t_machine_def)

lemma t_pause: "t_calls (time_Sleep t_machine n c) = t_calls c"
  by (simp add: t_machine_def)

lemma t_lift_sel [simp]: "t_now (snd (t_lift f c)) = t_now c" "t_calls (snd (t_lift f c)) = t_calls c"
  by (simp_all add: t_lift_def split: prod.split)

lemma t_status:
  "vmh_GetVMStatus (t_VMHandler (Some st)) iid c = ((st, None), c\<lparr>t_calls := Suc (t_calls c)\<rparr>)"
  "t_now (snd (vmh_GetVMStatus (t_VMHandler s) iid c)) = t_now c"
  "t_calls (snd (vmh_GetVMStatus (t_VMHandler s) iid c)) = Suc (t_calls c)"
  by (simp_all add: t_VMHandler_def Let_def split: option.split)

lemma t_handler_facts: "zone_vm_handler (t_env s) c z = Inr h \<Longrightarrow> status_keeps_time t_machine h \<and> status_counted t_calls h"
  by (auto simp: t_zone_handler status_keeps_time_def status_counted_def keeps_time_def t_status t_machine_def split: if_splits)

text \<open>Runs.\<close>

definition answer :: "(('d, 'c) world, 'a) run \<Rightarrow> ('d, 'c) world \<Rightarrow> 'a go_result option" where
  "answer m w = map_option fst (m w)"

definition after :: "(('d, 'c) world, 'a) run \<Rightarrow> ('d, 'c) world \<Rightarrow> ('d, 'c) world" where
  "after m w = (case m w of Some (_, w') \<Rightarrow> w' | None \<Rightarrow> w)"

lemma t_GetVM:
  "map_sum id (\<lambda>i. (vm_IId i, vm_SSHAccessPoint i, NameId (vm_VpcIID i), map NameId (vm_DataDiskIIDs i))) (fst (GetVM (t_env None) ''mock'' ''web'' (t_world ''zone-a''))) =
     Inr (\<lparr>NameId = ''web'', SystemId = ''vm1''\<rparr>, ''4.3.2.1:22'', ''net'', [''disk-1'', ''disk-2''])"
  by code_simp

lemma t_GetVMStatus: "answer (GetVMStatus (t_env None) t_machine ''mock'' ''web'') (t_world ''zone-a'') = Some (Inr ''Running'')"
  by code_simp

text \<open>A driver that reports a status of its own is asked 21 times, and the bound is met.\<close>

lemma t_GetVMStatus_unknown:
  "answer (GetVMStatus (t_env (Some ''Booting'')) t_machine ''mock'' ''web'') (t_world ''zone-a'') =
     Some (Inl ''Unable to provide current VM status for VM 'web'. Timeout after 60 seconds'') \<and>
   t_calls (w_cloud (after (GetVMStatus (t_env (Some ''Booting'')) t_machine ''mock'' ''web'') (t_world ''zone-a''))) = 21"
  by code_simp


lemma t_ListVM:
  "map_option (map_sum id (map (\<lambda>i. (NameId (vm_IId i), vm_SSHAccessPoint i)))) (answer (ListVM (t_env None) ''mock'') (t_world ''zone-a'')) =
     Some (Inr [(''web'', ''4.3.2.1:22''), (''db'', ''4.3.2.1:22'')])"
  by code_simp

text \<open>One VM in a zone for which there is no connection is enough for the list never to come.\<close>

lemma t_ListVM_hangs: "answer (ListVM (t_env None) ''mock'') (t_world ''zone-x'') = None"
  by code_simp

definition t_req :: "string \<Rightarrow> string \<Rightarrow> VMReqInfo" where
  "t_req name disk =
     \<lparr>vmReq_IId = \<lparr>NameId = name, SystemId = []\<rparr>, vmReq_ImageType = [], vmReq_ImageIID = t_id ''image-1'',
      vmReq_VpcIID = t_id ''net'', vmReq_SubnetIID = t_id ''sub'', vmReq_SecurityGroupIIDs = [t_id ''fw''], vmReq_VMSpecName = ''spec-1'',
      vmReq_KeyPairIID = t_id ''key'', vmReq_RootDiskType = disk, vmReq_RootDiskSize = [], vmReq_DataDiskIIDs = [t_id ''disk-3''],
      vmReq_VMUserId = [], vmReq_VMUserPasswd = [], vmReq_WindowsType = False, vmReq_AssignPublicIP = None, vmReq_TagList = []\<rparr>"

definition t_start :: "string \<Rightarrow> string \<Rightarrow> string \<Rightarrow> ((list_db, timed) world, VMInfo) run" where
  "t_start check name disk = StartVM (t_env None) (t_deps check) ''mock'' ''vm'' (t_req name disk) ''ON'' (Some False)"

lemma t_StartVM:
  "map_option (map_sum id (\<lambda>i. (vm_IId i, vm_SSHAccessPoint i, map NameId (vm_DataDiskIIDs i)))) (answer (t_start ''true'' ''app'' ''TYPE2'') (t_world ''zone-a'')) =
     Some (Inr (\<lparr>NameId = ''app'', SystemId = ''app-9m4e2mr0ui3e8a215n4g''\<rparr>, ''4.3.2.1:22'', [''disk-3'']))"
  by code_simp

text \<open>A root disk of type \<open>TYPE0\<close> ends the start with a panic.\<close>

lemma t_StartVM_panic: "answer (t_start ''true'' ''app'' ''TYPE0'') (t_world ''zone-a'') = Some (Inl index_panic)"
  by code_simp

section \<open>The properties at these runs\<close>

lemma t_trim [simp]: "TrimSpace ''mock'' = ''mock''" "TrimSpace ''web'' = ''web''" "TrimSpace ''db'' = ''db''"
  by code_simp+

lemma answerD: "answer m w = Some (Inr x) \<Longrightarrow> \<exists>w'. m w = Some (Inr x, w')"
  by (auto simp: answer_def)

lemma answer_mapD: "map_option (map_sum id f) (answer m w) = Some (Inr y) \<Longrightarrow> \<exists>x w'. m w = Some (Inr x, w') \<and> f x = y"
  by (cases "m w"; cases "fst (the (m w))") (auto simp: answer_def)

lemma run_mapD: "map_sum id f (fst (m w)) = Inr y \<Longrightarrow> \<exists>x w'. m w = (Inr x, w') \<and> f x = y"
  by (cases "m w"; cases "fst (m w)") auto

lemma wpR_okD: "wpR m Q E s \<Longrightarrow> m s = Some (Inr x, s') \<Longrightarrow> Q x s'"
  by (simp add: wpR_def)

lemma t_wrows:
  "wrows list_rows (t_world zone) t = set (t_rows zone t)"
  by (simp add: wrows_def list_rows_def t_world_def)

lemma GetVM_shows_witness:
  "\<exists>info w'. GetVM (t_env None) ''mock'' ''web'' (t_world ''zone-a'') = (Inr info, w') \<and> vm_IId info = \<lparr>NameId = ''web'', SystemId = ''vm1''\<rparr> \<and>
     guest_shown info \<and> wrows list_rows w' = wrows list_rows (t_world ''zone-a'')"
proof -
  from run_mapD[where m = "GetVM (t_env None) ''mock'' ''web''", OF t_GetVM] obtain info w' where run: "GetVM (t_env None) ''mock'' ''web'' (t_world ''zone-a'') = (Inr info, w')"
    and id: "vm_IId info = \<lparr>NameId = ''web'', SystemId = ''vm1''\<rparr>" by blast
  have p: "\<not> permission_mode (t_env None)" by simp
  from wp_okD[OF GetVM_shows[OF t_gorm_ok p] run] id run show ?thesis by (simp add: Let_def)
qed

lemma GetVMStatus_returns_witness:
  "\<exists>w'. GetVMStatus (t_env None) t_machine ''mock'' ''web'' (t_world ''zone-a'') = Some (Inr ''Running'', w') \<and>
     t_calls (w_cloud w') \<le> 21 \<and> w_locks w' = []"
proof -
  have p: "\<not> permission_mode (t_env None)" by simp
  from answerD[OF t_GetVMStatus] obtain w' where run: "GetVMStatus (t_env None) t_machine ''mock'' ''web'' (t_world ''zone-a'') = Some (Inr ''Running'', w')" ..
  from wpR_okD[OF GetVMStatus_returns[OF t_gorm_ok p t_clock_ok t_handler_facts t_pause] run] run
  show ?thesis by (simp add: t_world_def)
qed

lemma t_row:
  "r \<in> wrows list_rows (t_world zone) VMIIDInfo \<Longrightarrow> row_NameId r = ''db'' \<Longrightarrow> r = ZoneLevelIIDInfo ''mock'' ''zone-a'' ''db'' ''vm2:vm2''"
  "getDriverIID (row_IID (ZoneLevelIIDInfo ''mock'' ''zone-a'' ''db'' ''vm2:vm2'')) = t_id ''vm2''"
  "row_ZoneId (ZoneLevelIIDInfo ''mock'' ''zone-a'' ''db'' ''vm2:vm2'') = ''zone-a''"
    apply (force simp: t_wrows t_rows_def ZoneLevelIIDInfo_def)
   apply code_simp
  apply code_simp
  done

lemma t_told: "fst (vmh_TerminateVM (t_VMHandler None) (t_id ''vm2'') (w_cloud (t_world ''zone-a''))) = (''Terminating'', None)"
  by code_simp


lemma DeleteVM_returns_witness:
  "\<exists>r w'. DeleteVM (t_env (Some ''Booting'')) t_machine ''mock'' ''db'' ''false'' (t_world ''zone-a'') = Some (r, w')"
proof (rule DeleteVM_returns[OF t_gorm_ok _ t_clock_ok])
  fix z h assume "zone_vm_handler (t_env (Some ''Booting'')) (TrimSpace ''mock'') z = Inr h"
  from t_handler_facts[OF this] show "status_keeps_time t_machine h" by simp
next
  fix r h st e c
  assume r: "r \<in> wrows list_rows (t_world ''zone-a'') VMIIDInfo" "(row_ConnectionName r, row_NameId r) = (TrimSpace ''mock'', TrimSpace ''db'')"
    and h: "zone_vm_handler (t_env (Some ''Booting'')) (TrimSpace ''mock'') (row_ZoneId r) = Inr h"
    and told: "vmh_TerminateVM h (getDriverIID (row_IID r)) (w_cloud (t_world ''zone-a'')) = ((st, Some e), c)"
  have row: "r = ZoneLevelIIDInfo ''mock'' ''zone-a'' ''db'' ''vm2:vm2''" using t_row(1)[OF r(1)] r(2) by simp
  have "vmh_TerminateVM (t_VMHandler (Some ''Booting'')) = vmh_TerminateVM (t_VMHandler None)" by (simp add: t_VMHandler_def Let_def)
  then show "\<not> checkNotFoundError e" using told h t_told by (simp add: row t_row t_zone_handler)
qed simp_all

lemma t_db_row:
  "fst (GetByConditions list_gorm VMIIDInfo CONNECTION_NAME_COLUMN ''mock'' NAME_ID_COLUMN ''db'' (w_store (t_world ''zone-a''))) =
     Inr (ZoneLevelIIDInfo ''mock'' ''zone-a'' ''db'' ''vm2:vm2'')"
  by code_simp

lemma DeleteVM_force_loops_witness:
  "DeleteVM (t_env (Some Terminating)) t_machine ''mock'' ''db'' ''true'' (t_world ''zone-a'') = None"
proof -
  have ne: "Terminating \<noteq> NotExist" "Terminating \<noteq> Terminated" by simp_all
  have stuck: "\<exists>st c'. vmh_GetVMStatus (t_VMHandler (Some Terminating)) iid c = ((st, None), c') \<and> st \<noteq> NotExist \<and> st \<noteq> Terminated \<and> True" for iid c
    using t_status(1)[of Terminating iid c] ne by blast
  show ?thesis
    by (rule DeleteVM_force_loops[where stuck = "\<lambda>_. True" and r = "ZoneLevelIIDInfo ''mock'' ''zone-a'' ''db'' ''vm2:vm2''", OF _ _ _ _ _ _ _ stuck])
      (simp_all add: t_row t_zone_handler t_db_row)
qed

lemma ListVM_complete_witness:
  "\<exists>infos w'. ListVM (t_env None) ''mock'' (t_world ''zone-a'') = Some (Inr infos, w') \<and> map (\<lambda>i. NameId (vm_IId i)) infos = [''web'', ''db''] \<and>
     (\<exists>rs. distinct rs \<and> set rs = {r \<in> wrows list_rows (t_world ''zone-a'') VMIIDInfo. row_ConnectionName r = ''mock''} \<and> map row_NameId rs = [''web'', ''db''])"
proof -
  have p: "\<not> permission_mode (t_env None)" by simp
  from answer_mapD[OF t_ListVM] obtain infos w' where run: "ListVM (t_env None) ''mock'' (t_world ''zone-a'') = Some (Inr infos, w')"
    and shown: "map (\<lambda>i. (NameId (vm_IId i), vm_SSHAccessPoint i)) infos = [(''web'', ''4.3.2.1:22''), (''db'', ''4.3.2.1:22'')]" by (elim exE conjE)
  from arg_cong[OF shown, of "map fst"] have names: "map (\<lambda>i. NameId (vm_IId i)) infos = [''web'', ''db'']" by (simp add: comp_def)
  from wlpR_okD[OF ListVM_complete[OF t_gorm_ok p] run] run names show ?thesis by auto
qed

lemma StartVM_rows_witness:
  "\<exists>info w'. t_start ''true'' ''app'' ''TYPE2'' (t_world ''zone-a'') = Some (Inr info, w') \<and>
     vm_IId info = \<lparr>NameId = ''app'', SystemId = ''app-9m4e2mr0ui3e8a215n4g''\<rparr> \<and>
     started list_rows (t_env None) ''mock'' (t_req ''app'' ''TYPE2'') (t_world ''zone-a'') info w'"
proof -
  from answer_mapD[OF t_StartVM] obtain info w' where run: "t_start ''true'' ''app'' ''TYPE2'' (t_world ''zone-a'') = Some (Inr info, w')"
    and id: "vm_IId info = \<lparr>NameId = ''app'', SystemId = ''app-9m4e2mr0ui3e8a215n4g''\<rparr>" by blast
  from wlpR_okD[OF StartVM_rows[OF t_gorm_ok] run[unfolded t_start_def]] run id show ?thesis by simp
qed

lemma translate_disk_type_number_witness: "translate_disk_type [''HDD'', ''SSD''] ''TYPE5'' = Inr ''SSD''"
proof -
  have "(5 :: nat) < 2 ^ 63" and "Itoa 5 = ''5''" by (simp, code_simp)
  with translate_disk_type_number[of 5 "[''HDD'', ''SSD'']"] show ?thesis by simp
qed

end
