(* ===== verification/NLBManager.thy ===== *)
theory NLBManager
  imports Example
begin

text \<open>
  The manager of network load balancers, \<open>common-runtime/NLBManager.go\<close>. A balancer belongs to a VPC, and its info has a
  pointer to its VMs. The manager writes the user's names of the VMs through that pointer, into the slice the driver
  gave.
\<close>

section \<open>Infos\<close>

definition nlb_handler :: "('d, 'c) env \<Rightarrow> string \<Rightarrow> 'c NLBHandler go_result" where
  "nlb_handler env connectionName =
     (case ccm_GetCloudConnection env connectionName of
        Inl err \<Rightarrow> Inl err
      | Inr cldConn \<Rightarrow> CreateNLBHandler cldConn)"

definition transformArgsToUpper :: "NLBInfo \<Rightarrow> NLBInfo" where
  "transformArgsToUpper nlbInfo =
     nlbInfo\<lparr>nlb_Type := ToUpper (nlb_Type nlbInfo), nlb_Scope := ToUpper (nlb_Scope nlbInfo),
       nlb_Listener := (nlb_Listener nlbInfo)\<lparr>lis_Protocol := ToUpper (lis_Protocol (nlb_Listener nlbInfo))\<rparr>,
       nlb_VMGroup := (nlb_VMGroup nlbInfo)\<lparr>vmg_Protocol := ToUpper (vmg_Protocol (nlb_VMGroup nlbInfo))\<rparr>,
       nlb_HealthChecker := (nlb_HealthChecker nlbInfo)\<lparr>hc_Protocol := ToUpper (hc_Protocol (nlb_HealthChecker nlbInfo))\<rparr>\<rparr>"

text \<open>The value -1 asks for a default of the program.\<close>

definition setDefaultHealthCheckerConfig :: "string \<Rightarrow> HealthCheckerInfo \<Rightarrow> HealthCheckerInfo" where
  "setDefaultHealthCheckerConfig providerName reqInfo =
     (let own = providerName \<noteq> ''AWS'' \<and> providerName \<noteq> ''AZURE'' in
      if hc_Protocol reqInfo = ''TCP'' then
        reqInfo\<lparr>hc_Interval := (if hc_Interval reqInfo = -1 then 10 else hc_Interval reqInfo),
          hc_Timeout := (if hc_Timeout reqInfo = -1 \<and> own then (if providerName = ''IBM'' then 9 else 10) else hc_Timeout reqInfo),
          hc_Threshold := (if hc_Threshold reqInfo = -1 then 3 else hc_Threshold reqInfo)\<rparr>
      else if hc_Protocol reqInfo = ''HTTP'' then
        reqInfo\<lparr>hc_Interval := (if hc_Interval reqInfo = -1 then 10 else hc_Interval reqInfo),
          hc_Timeout := (if hc_Timeout reqInfo = -1 \<and> own then 6 else hc_Timeout reqInfo),
          hc_Threshold := (if hc_Threshold reqInfo = -1 then 3 else hc_Threshold reqInfo)\<rparr>
      else reqInfo)"

definition NLBInfo_of :: "IID \<Rightarrow> NLBInfo" where
  "NLBInfo_of iid =
     \<lparr>nlb_IId = iid, nlb_VpcIID = IID_zero, nlb_Type = [], nlb_Scope = [],
      nlb_Listener = \<lparr>lis_Protocol = [], lis_IP = [], lis_Port = [], lis_DNSName = [], lis_CspID = [], lis_KeyValueList = []\<rparr>,
      nlb_VMGroup = \<lparr>vmg_Protocol = [], vmg_Port = [], vmg_VMs = None, vmg_CspID = [], vmg_KeyValueList = []\<rparr>,
      nlb_HealthChecker = \<lparr>hc_Protocol = [], hc_Port = [], hc_Interval = 0, hc_Timeout = 0, hc_Threshold = 0, hc_CspID = [],
        hc_KeyValueList = []\<rparr>,
      nlb_CreatedTime = 0, nlb_TagList = [], nlb_KeyValueList = []\<rparr>"

definition reflect_ListenerInfo :: "ListenerInfo \<Rightarrow> rval" where
  "reflect_ListenerInfo l =
     RStruct ''resources.ListenerInfo''
       [(''Protocol'', RString (lis_Protocol l)), (''IP'', RString (lis_IP l)), (''Port'', RString (lis_Port l)),
        (''DNSName'', RString (lis_DNSName l)), (''CspID'', RString (lis_CspID l)),
        (''KeyValueList'', RSlice (map reflect_KeyValue (lis_KeyValueList l)))]"

definition reflect_HealthCheckerInfo :: "HealthCheckerInfo \<Rightarrow> rval" where
  "reflect_HealthCheckerInfo k =
     RStruct ''resources.HealthCheckerInfo''
       [(''Protocol'', RString (hc_Protocol k)), (''Port'', RString (hc_Port k)), (''Interval'', ROther), (''Timeout'', ROther),
        (''Threshold'', ROther), (''CspID'', RString (hc_CspID k)), (''KeyValueList'', RSlice (map reflect_KeyValue (hc_KeyValueList k)))]"

section \<open>Rows and names\<close>

definition not_in_connection :: "string \<Rightarrow> string \<Rightarrow> string \<Rightarrow> go_error" where
  "not_in_connection rsType name connectionName =
     RSTypeString rsType @ '' '' @ quoted name @ '' does not exist in connection '' @ quoted connectionName"

text \<open>The loops take the first row of the name, in whatever VPC.\<close>

definition find_nlb :: "('d, 'c) env \<Rightarrow> string \<Rightarrow> string \<Rightarrow> string \<Rightarrow> (('d, 'c) world, iid_row) prog" where
  "find_nlb env connectionName rsType nameID =
     bindP (list_iid_infos env NLBIIDInfo connectionName) (\<lambda>iidInfoList.
     case List.find (\<lambda>one. row_NameId one = nameID) iidInfoList of
       None \<Rightarrow> throw (not_in_connection rsType nameID connectionName)
     | Some iidInfo \<Rightarrow> ret iidInfo)"

text \<open>
  "set used VM's NameId": the names are written one by one, and those before an error stay written. The loop ranges over
  the slice as it was, \<open>xs\<close> being what is left of it.
\<close>

fun set_vm_names :: "('d, 'c) env \<Rightarrow> string \<Rightarrow> nat \<Rightarrow> nat \<Rightarrow> IID list \<Rightarrow> (('d, 'c) world, unit) prog" where
  "set_vm_names env connectionName a idx [] = ret ()"
| "set_vm_names env connectionName a idx (vmIID # rest) =
     bindP (owner_vm_row env connectionName (SystemId vmIID)) (\<lambda>vmIIDInfo.
     bindP (assign_at a idx (\<lambda>iid. iid\<lparr>NameId := row_NameId vmIIDInfo\<rparr>)) (\<lambda>_.
     set_vm_names env connectionName a (Suc idx) rest))"

definition name_vms :: "('d, 'c) env \<Rightarrow> string \<Rightarrow> NLBInfo \<Rightarrow> (('d, 'c) world, unit) prog" where
  "name_vms env connectionName info =
     bindP (deref (vmg_VMs (nlb_VMGroup info))) (\<lambda>(a, vms). set_vm_names env connectionName a 0 vms)"

text \<open>What the operations make of the info that the driver gave for a row.\<close>

definition show_nlb :: "('d, 'c) env \<Rightarrow> string \<Rightarrow> iid_row \<Rightarrow> NLBInfo \<Rightarrow> (('d, 'c) world, NLBInfo) prog" where
  "show_nlb env connectionName iidInfo info =
     (let info = (transformArgsToUpper info)\<lparr>nlb_IId := getUserIID (row_IID iidInfo)\<rparr> in
      bindP (get_iid_info env VPCIIDInfo connectionName (row_OwnerVPCName iidInfo)) (\<lambda>vpcIIDInfo.
      let info = info\<lparr>nlb_VpcIID := getUserIID (row_IID vpcIIDInfo)\<rparr> in
      bindP (name_vms env connectionName info) (\<lambda>_. ret info)))"

text \<open>A call for the balancer of a row, and then the balancer anew.\<close>

definition call_and_show :: "('d, 'c) env \<Rightarrow> string \<Rightarrow> 'c NLBHandler \<Rightarrow> iid_row \<Rightarrow> ('c \<times> heap, 'a) prog \<Rightarrow> (('d, 'c) world, NLBInfo) prog" where
  "call_and_show env connectionName handler iidInfo call =
     bindP (onShared call) (\<lambda>_.
     bindP (onShared (nlbh_GetNLB handler (getDriverIID (row_IID iidInfo)))) (\<lambda>info.
     show_nlb env connectionName iidInfo info))"

section \<open>Operations\<close>

definition GetNLBOwnerVPC :: "('d, 'c) env \<Rightarrow> string \<Rightarrow> string \<Rightarrow> (('d, 'c) world, IID) prog" where
  "GetNLBOwnerVPC env connectionName cspID =
     bindP (lift_result (EmptyCheckAndTrim ''connectionName'' connectionName)) (\<lambda>connectionName.
     bindP (lift_result (EmptyCheckAndTrim ''cspID'' cspID)) (\<lambda>cspID.
     bindP (lift_result (nlb_handler env connectionName)) (\<lambda>handler.
     bindP (list_iid_infos env NLBIIDInfo connectionName) (\<lambda>iidInfoList.
     case List.find (\<lambda>one. short_id one = cspID) iidInfoList of
       Some one \<Rightarrow> throw (RSTypeString RT_NLB @ '' with SystemID '' @ quoted cspID @ '' already exists in connection '' @
         quoted connectionName @ '' (NameID: '' @ quoted (row_NameId one) @ '')'')
     | None \<Rightarrow>
         bindP (onShared (nlbh_GetNLB handler \<lparr>NameId = getMSShortID cspID, SystemId = cspID\<rparr>)) (\<lambda>getInfo.
         bindP (list_iid_infos env VPCIIDInfo connectionName) (\<lambda>vpcIIDInfoList.
         let vpcCSPID = getMSShortID (SystemId (nlb_VpcIID getInfo)) in
         case List.find (\<lambda>one. short_id one = vpcCSPID) vpcIIDInfoList of
           Some one \<Rightarrow> ret \<lparr>NameId = row_NameId one, SystemId = vpcCSPID\<rparr>
         | None \<Rightarrow> ret \<lparr>NameId = [], SystemId = vpcCSPID\<rparr>))))))"

definition RegisterNLB :: "('d, 'c) env \<Rightarrow> string \<Rightarrow> string \<Rightarrow> IID \<Rightarrow> (('d, 'c) world, NLBInfo) prog" where
  "RegisterNLB env connectionName vpcUserID userIID =
     bindP (lift_result (EmptyCheckAndTrim ''connectionName'' connectionName)) (\<lambda>connectionName.
     bindP (lift_result (EmptyCheckAndTrim ''vpcUserID'' vpcUserID)) (\<lambda>vpcUserID.
     bindP (validated (ValidateStruct (reflect_IID userIID) [])) (\<lambda>_.
     bindP (lift_result (nlb_handler env connectionName)) (\<lambda>handler.
     withLock vpcSPLock Rd connectionName vpcUserID
       (withLock nlbSPLock Wr connectionName (NameId userIID)
         (bindP (has_authorized_name env VPCIIDInfo connectionName vpcUserID) (\<lambda>bool_ret.
          if \<not> bool_ret then throw (not_in_connection RT_VPC vpcUserID connectionName)
          else
          bindP (has_name env NLBIIDInfo connectionName (NameId userIID)) (\<lambda>isExist.
          if isExist then throw (already_exists RT_NLB (NameId userIID) connectionName)
          else
          bindP (onShared (nlbh_GetNLB handler \<lparr>NameId = getMSShortID (SystemId userIID), SystemId = SystemId userIID\<rparr>)) (\<lambda>getInfo.
          let getInfo = transformArgsToUpper getInfo;
              systemId = getAWSNLBShortID (getMSShortID (SystemId (nlb_IId getInfo)));
              spiderIId = \<lparr>NameId = NameId userIID, SystemId = systemId @ '':'' @ SystemId (nlb_IId getInfo)\<rparr>
          in
          bindP (onStore (Insert (env_gorm env) NLBIIDInfo
            (VPCDependentIIDInfo connectionName (NameId spiderIId) (SystemId spiderIId) vpcUserID))) (\<lambda>_.
          bindP (onStore (GetByConditions (env_gorm env) VPCIIDInfo CONNECTION_NAME_COLUMN connectionName NAME_ID_COLUMN vpcUserID)) (\<lambda>iidInfo.
          ret (getInfo\<lparr>nlb_IId := userIID, nlb_VpcIID := getUserIID (row_IID iidInfo)\<rparr>))))))))))))"

text \<open>The VMs of a creation get the driver's identifiers, in the slice of the request.\<close>

fun set_driver_vms :: "('d, 'c) env \<Rightarrow> string \<Rightarrow> nat \<Rightarrow> nat \<Rightarrow> IID list \<Rightarrow> (('d, 'c) world, unit) prog" where
  "set_driver_vms env connectionName a idx [] = ret ()"
| "set_driver_vms env connectionName a idx (vmIID # rest) =
     bindP (get_iid_info env VMIIDInfo connectionName (NameId vmIID)) (\<lambda>vmIIDInfo.
     bindP (assign_at a idx (\<lambda>_. getDriverIID (row_IID vmIIDInfo))) (\<lambda>_.
     set_driver_vms env connectionName a (Suc idx) rest))"

definition CreateNLB :: "('d, 'c) env \<Rightarrow> string \<Rightarrow> string \<Rightarrow> NLBInfo \<Rightarrow> string \<Rightarrow> (('d, 'c) world, NLBInfo) prog" where
  "CreateNLB env connectionName rsType reqInfo IDTransformMode =
     bindP (lift_result (EmptyCheckAndTrim ''connectionName'' connectionName)) (\<lambda>connectionName.
     let vpcName = NameId (nlb_VpcIID reqInfo); reqNameId = NameId (nlb_IId reqInfo); vms = vmg_VMs (nlb_VMGroup reqInfo) in
     withLock vpcSPLock Rd connectionName vpcName
       (bindP (get_iid_info env VPCIIDInfo connectionName vpcName) (\<lambda>vpcIIDInfo.
        let reqInfo = reqInfo\<lparr>nlb_VpcIID := getDriverIID (row_IID vpcIIDInfo)\<rparr> in
        bindP (if vms = None then ret () else bindP (deref vms) (\<lambda>(a, vmList). set_driver_vms env connectionName a 0 vmList)) (\<lambda>_.
        bindP (lift_result (nlb_handler env connectionName)) (\<lambda>handler.
        let reqInfo = transformArgsToUpper reqInfo in
        withLock nlbSPLock Wr connectionName reqNameId
          (bindP (onStore (ListByConditions (env_gorm env) NLBIIDInfo CONNECTION_NAME_COLUMN connectionName
             OWNER_VPC_NAME_COLUMN (row_NameId vpcIIDInfo))) (\<lambda>iidInfoList.
           if list_ex (\<lambda>one. row_NameId one = reqNameId) iidInfoList then throw (already_exists rsType reqNameId connectionName)
           else
           bindP (make_spUUID env IDTransformMode connectionName rsType reqNameId) (\<lambda>spUUID.
           bindP (lift_result (ccm_GetProviderNameByConnectionName env connectionName)) (\<lambda>providerName.
           let reqInfo = reqInfo\<lparr>nlb_IId := \<lparr>NameId = spUUID, SystemId = []\<rparr>,
                 nlb_HealthChecker := setDefaultHealthCheckerConfig providerName (nlb_HealthChecker reqInfo)\<rparr>
           in
           bindP (onShared (nlbh_CreateNLB handler reqInfo)) (\<lambda>info.
           let info = transformArgsToUpper info;
               info = info\<lparr>nlb_VpcIID := (nlb_VpcIID info)\<lparr>NameId := row_NameId vpcIIDInfo\<rparr>,
                 nlb_VMGroup := (nlb_VMGroup info)\<lparr>vmg_VMs := vms\<rparr>\<rparr>;
               spiderIId = \<lparr>NameId = reqNameId, SystemId = spUUID @ '':'' @ SystemId (nlb_IId info)\<rparr>
           in
           catchP (onStore (Insert (env_gorm env) NLBIIDInfo
               (VPCDependentIIDInfo connectionName (NameId spiderIId) (SystemId spiderIId) (row_NameId vpcIIDInfo))))
             (\<lambda>err.
                bindP (onCloudDel (nlbh_DeleteNLB handler (nlb_IId info))) (\<lambda>(_, err2).
                case err2 of Some e2 \<Rightarrow> throw (err @ '', '' @ e2) | None \<Rightarrow> throw err))
             (\<lambda>_. ret (info\<lparr>nlb_IId := getUserIID spiderIId\<rparr>))))))))))))"

fun ListNLB_loop :: "('d, 'c) env \<Rightarrow> 'c NLBHandler \<Rightarrow> string \<Rightarrow> iid_row list \<Rightarrow> NLBInfo list \<Rightarrow> (('d, 'c) world, NLBInfo list) prog" where
  "ListNLB_loop env handler connectionName [] infoList2 = ret infoList2"
| "ListNLB_loop env handler connectionName (iidInfo # rest) infoList2 =
     catchP (withLock nlbSPLock Rd connectionName (row_NameId iidInfo) (onShared (nlbh_GetNLB handler (getDriverIID (row_IID iidInfo)))))
       (\<lambda>err.
          if checkNotFoundError err
          then ListNLB_loop env handler connectionName rest (infoList2 @ [NLBInfo_of (row_IID iidInfo)])
          else throw err)
       (\<lambda>info.
          bindP (show_nlb env connectionName iidInfo info) (\<lambda>info.
          ListNLB_loop env handler connectionName rest (infoList2 @ [info])))"

definition ListNLB :: "('d, 'c) env \<Rightarrow> string \<Rightarrow> (('d, 'c) world, NLBInfo list) prog" where
  "ListNLB env connectionName =
     bindP (lift_result (EmptyCheckAndTrim ''connectionName'' connectionName)) (\<lambda>connectionName.
     bindP (lift_result (nlb_handler env connectionName)) (\<lambda>handler.
     bindP (list_iid_infos env NLBIIDInfo connectionName) (\<lambda>iidInfoList.
     ListNLB_loop env handler connectionName iidInfoList [])))"

text \<open>The common start of the operations on one balancer.\<close>

definition with_nlb_row :: "('d, 'c) env \<Rightarrow> string \<Rightarrow> string \<Rightarrow> string \<Rightarrow> lmode \<Rightarrow> (('d, 'c) world, unit) prog \<Rightarrow>
    (string \<Rightarrow> 'c NLBHandler \<Rightarrow> iid_row \<Rightarrow> (('d, 'c) world, 'a) prog) \<Rightarrow> string \<Rightarrow> (('d, 'c) world, 'a) prog" where
  "with_nlb_row env connectionName what rsType md checks body nlbName =
     bindP (lift_result (EmptyCheckAndTrim ''connectionName'' connectionName)) (\<lambda>connectionName.
     bindP (lift_result (EmptyCheckAndTrim what nlbName)) (\<lambda>nlbName.
     bindP checks (\<lambda>_.
     bindP (lift_result (nlb_handler env connectionName)) (\<lambda>handler.
     withLock nlbSPLock md connectionName nlbName
       (bindP (find_nlb env connectionName rsType nlbName) (body connectionName handler))))))"

definition GetNLB :: "('d, 'c) env \<Rightarrow> string \<Rightarrow> string \<Rightarrow> string \<Rightarrow> (('d, 'c) world, NLBInfo) prog" where
  "GetNLB env connectionName rsType nameID =
     with_nlb_row env connectionName ''nameID'' rsType Rd (ret ()) (\<lambda>connectionName handler iidInfo.
       bindP (onShared (nlbh_GetNLB handler (getDriverIID (row_IID iidInfo)))) (\<lambda>info.
       show_nlb env connectionName iidInfo info)) nameID"

fun add_driver_vms :: "('d, 'c) env \<Rightarrow> string \<Rightarrow> string list \<Rightarrow> IID list \<Rightarrow> (('d, 'c) world, IID list) prog" where
  "add_driver_vms env connectionName [] vmIIDs = ret vmIIDs"
| "add_driver_vms env connectionName (one # rest) vmIIDs =
     bindP (has_authorized_name env VMIIDInfo connectionName one) (\<lambda>bool_ret.
     if \<not> bool_ret then throw (not_in_connection RT_VM one connectionName)
     else
     bindP (get_iid_info env VMIIDInfo connectionName one) (\<lambda>vmIIDInfo.
     add_driver_vms env connectionName rest (vmIIDs @ [getDriverIID (row_IID vmIIDInfo)])))"

definition AddNLBVMs :: "('d, 'c) env \<Rightarrow> string \<Rightarrow> string \<Rightarrow> string list \<Rightarrow> (('d, 'c) world, NLBInfo) prog" where
  "AddNLBVMs env connectionName nlbName vmNames =
     with_nlb_row env connectionName ''nlbName'' RT_NLB Wr (ret ()) (\<lambda>connectionName handler iidInfo.
       bindP (add_driver_vms env connectionName vmNames []) (\<lambda>vmIIDs.
       call_and_show env connectionName handler iidInfo (nlbh_AddVMs handler (getDriverIID (row_IID iidInfo)) vmIIDs))) nlbName"

fun remove_driver_vms :: "('d, 'c) env \<Rightarrow> string \<Rightarrow> string list \<Rightarrow> IID list \<Rightarrow> (('d, 'c) world, IID list) prog" where
  "remove_driver_vms env connectionName [] vmIIDs = ret vmIIDs"
| "remove_driver_vms env connectionName (one # rest) vmIIDs =
     bindP (get_iid_info env VMIIDInfo connectionName one) (\<lambda>vmIIDInfo.
     remove_driver_vms env connectionName rest (vmIIDs @ [getDriverIID (row_IID vmIIDInfo)]))"

definition RemoveNLBVMs :: "('d, 'c) env \<Rightarrow> string \<Rightarrow> string \<Rightarrow> string list \<Rightarrow> (('d, 'c) world, bool) prog" where
  "RemoveNLBVMs env connectionName nlbName vmNames =
     with_nlb_row env connectionName ''nlbName'' RT_NLB Wr (ret ()) (\<lambda>connectionName handler iidInfo.
       bindP (remove_driver_vms env connectionName vmNames []) (\<lambda>vmIIDs.
       onShared (nlbh_RemoveVMs handler (getDriverIID (row_IID iidInfo)) vmIIDs))) nlbName"

definition ChangeListener :: "('d, 'c) env \<Rightarrow> string \<Rightarrow> string \<Rightarrow> ListenerInfo \<Rightarrow> (('d, 'c) world, NLBInfo) prog" where
  "ChangeListener env connectionName nlbName listener =
     with_nlb_row env connectionName ''nlbName'' RT_NLB Wr
       (validated (ValidateStruct (reflect_ListenerInfo listener)
          [''resources.IID:SystemId'', ''resources.ListenerInfo:IP'', ''resources.ListenerInfo:DNSName'', ''resources.ListenerInfo:CspID'']))
       (\<lambda>connectionName handler iidInfo.
         call_and_show env connectionName handler iidInfo (nlbh_ChangeListener handler (getDriverIID (row_IID iidInfo)) listener)) nlbName"

text \<open>Here the VMs get their names before the VPC is looked up.\<close>

definition ChangeVMGroup :: "('d, 'c) env \<Rightarrow> string \<Rightarrow> string \<Rightarrow> VMGroupInfo \<Rightarrow> (('d, 'c) world, NLBInfo) prog" where
  "ChangeVMGroup env connectionName nlbName vmGroup =
     with_nlb_row env connectionName ''nlbName'' RT_NLB Wr (ret ()) (\<lambda>connectionName handler iidInfo.
       bindP (onShared (nlbh_ChangeVMGroupInfo handler (getDriverIID (row_IID iidInfo)) vmGroup)) (\<lambda>_.
       bindP (onShared (nlbh_GetNLB handler (getDriverIID (row_IID iidInfo)))) (\<lambda>info.
       let info = (transformArgsToUpper info)\<lparr>nlb_IId := getUserIID (row_IID iidInfo)\<rparr> in
       bindP (name_vms env connectionName info) (\<lambda>_.
       bindP (get_iid_info env VPCIIDInfo connectionName (row_OwnerVPCName iidInfo)) (\<lambda>vpcIIDInfo.
       ret (info\<lparr>nlb_VpcIID := getUserIID (row_IID vpcIIDInfo)\<rparr>)))))) nlbName"

definition ChangeHealthChecker :: "('d, 'c) env \<Rightarrow> string \<Rightarrow> string \<Rightarrow> HealthCheckerInfo \<Rightarrow> (('d, 'c) world, NLBInfo) prog" where
  "ChangeHealthChecker env connectionName nlbName healthChecker =
     with_nlb_row env connectionName ''nlbName'' RT_NLB Wr
       (validated (ValidateStruct (reflect_HealthCheckerInfo healthChecker) [''resources.IID:SystemId'', ''resources.HealthCheckerInfo:CspID'']))
       (\<lambda>connectionName handler iidInfo.
         call_and_show env connectionName handler iidInfo (nlbh_ChangeHealthCheckerInfo handler (getDriverIID (row_IID iidInfo)) healthChecker)) nlbName"

text \<open>One of the three loops of \<open>setVMUserIIDwithSystemId\<close>, which collects the errors of VMs that are not the row's.\<close>

fun set_health_names :: "('d, 'c) env \<Rightarrow> string \<Rightarrow> IID list \<Rightarrow> (('d, 'c) world, IID list \<times> go_error list) prog" where
  "set_health_names env connectionName [] = ret ([], [])"
| "set_health_names env connectionName (vm # rest) =
     bindP (owner_vm_row env connectionName (SystemId vm)) (\<lambda>vmIIDInfo.
     bindP (set_health_names env connectionName rest) (\<lambda>(vms, errList).
     ret (if SystemId vm = getDriverSystemId (row_IID vmIIDInfo) then (vm\<lparr>NameId := row_NameId vmIIDInfo\<rparr> # vms, errList)
          else (vm # vms, (connectionName @ '':CSP-VM:'' @ SystemId vm @ '' is not owned by CB-Spider!'') # errList))))"

definition set_pointed_names :: "('d, 'c) env \<Rightarrow> string \<Rightarrow> IID list option \<Rightarrow> (('d, 'c) world, IID list \<times> go_error list) prog" where
  "set_pointed_names env connectionName p = (case p of None \<Rightarrow> throw nil_panic | Some vms \<Rightarrow> set_health_names env connectionName vms)"

definition setVMUserIIDwithSystemId :: "('d, 'c) env \<Rightarrow> string \<Rightarrow> HealthInfo \<Rightarrow> (('d, 'c) world, HealthInfo) prog" where
  "setVMUserIIDwithSystemId env connectionName healthInfo =
     (if health_AllVMs healthInfo = None \<or> health_AllVMs healthInfo = Some [] then ret healthInfo
      else
        bindP (set_pointed_names env connectionName (health_AllVMs healthInfo)) (\<lambda>(all, e1).
        bindP (set_pointed_names env connectionName (health_HealthyVMs healthInfo)) (\<lambda>(healthy, e2).
        bindP (set_pointed_names env connectionName (health_UnHealthyVMs healthInfo)) (\<lambda>(unhealthy, e3).
        if e1 @ e2 @ e3 \<noteq> [] then throw (Join (e1 @ e2 @ e3) [CHR 0x0A])
        else ret \<lparr>health_AllVMs = Some all, health_HealthyVMs = Some healthy, health_UnHealthyVMs = Some unhealthy\<rparr>))))"

definition GetVMGroupHealthInfo :: "('d, 'c) env \<Rightarrow> string \<Rightarrow> string \<Rightarrow> (('d, 'c) world, HealthInfo) prog" where
  "GetVMGroupHealthInfo env connectionName nlbName =
     with_nlb_row env connectionName ''nlbName'' RT_NLB Wr (ret ()) (\<lambda>connectionName handler iidInfo.
       bindP (onShared (nlbh_GetVMGroupHealthInfo handler (getDriverIID (row_IID iidInfo)))) (\<lambda>healthInfo.
       setVMUserIIDwithSystemId env connectionName healthInfo)) nlbName"

text \<open>The deletion drops the rows of the name in every VPC of the connection.\<close>

definition DeleteNLB :: "('d, 'c) env \<Rightarrow> string \<Rightarrow> string \<Rightarrow> string \<Rightarrow> string \<Rightarrow> (('d, 'c) world, bool) prog" where
  "DeleteNLB env connectionName rsType nameID force =
     with_nlb_row env connectionName ''nameID'' rsType Wr (ret ()) (\<lambda>connectionName handler iidInfo.
       bindP (onCloudDel (nlbh_DeleteNLB handler (getDriverIID (row_IID iidInfo)))) (\<lambda>(result, err).
       delete_tail force result err
         (onStore (DeleteByConditions (env_gorm env) NLBIIDInfo CONNECTION_NAME_COLUMN (row_ConnectionName iidInfo)
            NAME_ID_COLUMN (row_NameId iidInfo))))) nameID"

definition CountAllNLBs :: "('d, 'c) env \<Rightarrow> (('d, 'c) world, nat) prog" where
  "CountAllNLBs env = onStore (CountAllNameIDs (env_gorm env) NLBIIDInfo)"

definition CountNLBsByConnection :: "('d, 'c) env \<Rightarrow> string \<Rightarrow> (('d, 'c) world, nat) prog" where
  "CountNLBsByConnection env connectionName = onStore (CountNameIDsByConnection (env_gorm env) NLBIIDInfo connectionName)"

section \<open>What the loops over a slice do\<close>

lemma drop_update_Suc:
  assumes "drop n xs = y # ys"
  shows "drop (Suc n) (xs[n := z]) = ys" and "xs ! n = y" and "take (Suc n) (xs[n := z]) = take n xs @ [z]"
proof -
  have n: "n < length xs" using assms by (metis drop_all linorder_not_less list.distinct(1))
  then have "drop n xs = xs ! n # drop (Suc n) xs" by (simp add: Cons_nth_drop_Suc)
  with assms have "xs ! n = y" and "drop (Suc n) xs = ys" by simp_all
  then show "drop (Suc n) (xs[n := z]) = ys" and "xs ! n = y" by simp_all
  show "take (Suc n) (xs[n := z]) = take n xs @ [z]" using n by (simp add: take_Suc_conv_app_nth)
qed

text \<open>
  A loop \<open>L\<close> that looks up a row for each element and assigns what \<open>g\<close> makes of both: when it ends, the slice has that
  for every element, and no other slice, row or lock has changed.
\<close>

lemma assign_each_wp:
  fixes env :: "('d, 'c) env" and w :: "('d, 'c) world"
  assumes L: "\<And>i. L i [] = ret ()"
      "\<And>i x xs. L i (x # xs) = bindP (look x) (\<lambda>r. bindP (assign_at a i (g r)) (\<lambda>_. L (Suc i) xs))"
    and look: "\<And>x w Q E. wrows R w = W \<Longrightarrow> (\<And>r w'. reads R env w w' \<Longrightarrow> P x r \<Longrightarrow> Q r w') \<Longrightarrow>
      (\<And>e w'. reads R env w w' \<Longrightarrow> E e w') \<Longrightarrow> wp (look x) Q E w"
    and "wrows R w = W" and "drop idx (h_iids (w_heap w) a) = rest"
    and "\<And>ys w'. wrows R w' = W \<Longrightarrow> w_locks w' = w_locks w \<Longrightarrow> list_all2 (\<lambda>x y. \<exists>r. P x r \<and> y = g r x) rest ys \<Longrightarrow>
      w_heap w' = heap_set a (take idx (h_iids (w_heap w) a) @ ys) (w_heap w) \<Longrightarrow> Q () w'"
    and "\<And>e w'. wrows R w' = W \<Longrightarrow> w_locks w' = w_locks w \<Longrightarrow> E e w'"
  shows "wp (L idx rest) Q E w"
  using assms(4-)
proof (induction rest arbitrary: idx w)
  case Nil
  then have "Q () w" by (intro Nil.prems(3)[of _ "[]"]) (simp_all add: heap_set_def)
  then show ?case by (simp add: wp_simps L)
next
  case (Cons x rest)
  note d = drop_update_Suc[OF Cons.prems(2)]
  show ?case
    unfolding L
  proof (intro wp_bindPI look, fact Cons.prems(1), simp only: wp_assign_at, rule Cons.IH, goal_cases)
    case (1 r w')
    then show ?case using Cons.prems(1) by (simp add: reads_def)
  next
    case (2 r w')
    then show ?case by (simp add: reads_def heap_set_def d)
  next
    case (3 r w' w'' ys)
    have h: "w_heap w' = w_heap w" and "w_locks w' = w_locks w" using 3(1) by (simp_all add: reads_def)
    with 3(2-) show ?case
      by (intro Cons.prems(3)[of _ "g r x # ys"]) (auto simp add: h heap_set_def d)
  next
    case (4 r w' e w'')
    then show ?case by (intro Cons.prems(4)) (simp_all add: reads_def)
  next
    case (5 e w')
    then show ?case using Cons.prems(1) by (intro Cons.prems(4)) (simp_all add: reads_def)
  qed
qed

text \<open>\<open>vms_named\<close>: names only are changed, each into that of a VM with a row; \<open>vms_driven\<close>: each VM is that of a row, for the driver.\<close>

definition vms_named :: "('d, 'c) env \<Rightarrow> iid_row set \<Rightarrow> string \<Rightarrow> IID list \<Rightarrow> IID list \<Rightarrow> bool" where
  "vms_named env S conn = list_all2 (\<lambda>x y. name_taken env S conn (NameId y) \<and> SystemId y = SystemId x)"

definition vms_driven :: "('d, 'c) env \<Rightarrow> iid_row set \<Rightarrow> string \<Rightarrow> IID list \<Rightarrow> IID list \<Rightarrow> bool" where
  "vms_driven env S conn = list_all2 (\<lambda>x y. \<exists>r \<in> S. row_NameId r = NameId x \<and> (permission_mode env \<or> row_ConnectionName r = conn) \<and>
     y = getDriverIID (row_IID r))"

lemma name_vms_wp:
  fixes env :: "('d, 'c) env" and w :: "('d, 'c) world"
  assumes ok: "gorm_ok (env_gorm env) R"
    and Q: "\<And>b ys w'. vmg_VMs (nlb_VMGroup info) = Some b \<Longrightarrow> wrows R w' = wrows R w \<Longrightarrow> w_locks w' = w_locks w \<Longrightarrow>
      vms_named env (wrows R w VMIIDInfo) conn (h_iids (w_heap w) b) ys \<Longrightarrow> w_heap w' = heap_set b ys (w_heap w) \<Longrightarrow> Q () w'"
    and E: "\<And>e w'. wrows R w' = wrows R w \<Longrightarrow> w_locks w' = w_locks w \<Longrightarrow> E e w'"
  shows "wp (name_vms env conn info) Q E w"
proof (cases "vmg_VMs (nlb_VMGroup info)")
  case None
  then show ?thesis by (simp add: name_vms_def wp_simps E)
next
  case (Some b)
  let ?P = "\<lambda>x r. r \<in> wrows R w VMIIDInfo \<and> (permission_mode env \<or> row_ConnectionName r = conn)"
  have "wp (set_vm_names env conn b 0 (h_iids (w_heap w) b)) Q E w"
  proof (rule assign_each_wp[where L = "set_vm_names env conn b" and W = "wrows R w" and P = ?P and R = R and env = env])
    show "wp (owner_vm_row env conn (SystemId x)) Q' E' w0"
      if "wrows R w0 = wrows R w" "\<And>r w'. reads R env w0 w' \<Longrightarrow> ?P x r \<Longrightarrow> Q' r w'" "\<And>e w'. reads R env w0 w' \<Longrightarrow> E' e w'" for x w0 Q' E'
      using that by (intro owner_vm_row_wp[OF ok]) simp_all
    show "Q () w'" if "wrows R w' = wrows R w" "w_locks w' = w_locks w"
      "list_all2 (\<lambda>x y. \<exists>r. ?P x r \<and> y = x\<lparr>NameId := row_NameId r\<rparr>) (h_iids (w_heap w) b) ys"
      "w_heap w' = heap_set b (take 0 (h_iids (w_heap w) b) @ ys) (w_heap w)" for ys w'
      using that by (intro Q[OF Some]) (auto simp: vms_named_def name_taken_def elim!: list_all2_mono)
  qed (simp_all add: E)
  then show ?thesis by (simp add: name_vms_def wp_simps Some)
qed

lemma set_driver_vms_wp:
  fixes env :: "('d, 'c) env" and w :: "('d, 'c) world"
  assumes ok: "gorm_ok (env_gorm env) R"
    and Q: "\<And>ys w'. wrows R w' = wrows R w \<Longrightarrow> w_locks w' = w_locks w \<Longrightarrow>
      vms_driven env (wrows R w VMIIDInfo) conn (h_iids (w_heap w) b) ys \<Longrightarrow> w_heap w' = heap_set b ys (w_heap w) \<Longrightarrow> Q () w'"
    and E: "\<And>e w'. wrows R w' = wrows R w \<Longrightarrow> w_locks w' = w_locks w \<Longrightarrow> E e w'"
  shows "wp (set_driver_vms env conn b 0 (h_iids (w_heap w) b)) Q E w"
proof (rule assign_each_wp[where L = "set_driver_vms env conn b" and W = "wrows R w" and R = R and env = env
    and P = "\<lambda>x r. r \<in> wrows R w VMIIDInfo \<and> row_NameId r = NameId x \<and> (permission_mode env \<or> row_ConnectionName r = conn)"])
  show "wp (get_iid_info env VMIIDInfo conn (NameId x)) Q' E' w0"
    if "wrows R w0 = wrows R w" "\<And>r w'. reads R env w0 w' \<Longrightarrow>
        r \<in> wrows R w VMIIDInfo \<and> row_NameId r = NameId x \<and> (permission_mode env \<or> row_ConnectionName r = conn) \<Longrightarrow> Q' r w'"
      "\<And>e w'. reads R env w0 w' \<Longrightarrow> E' e w'" for x w0 Q' E'
    using that by (intro get_iid_info_wp[OF ok]) simp_all
qed (simp_all add: E, auto simp: vms_driven_def Bex_def elim!: list_all2_mono intro!: Q)

section \<open>What the operations do\<close>

lemma row_IID_name: "NameId (row_IID r) = row_NameId r"
  by (simp add: row_IID_def)

lemma show_nlb_wp:
  fixes env :: "('d, 'c) env" and w :: "('d, 'c) world"
  assumes ok: "gorm_ok (env_gorm env) R"
    and Q: "\<And>b ys info' w'. vmg_VMs (nlb_VMGroup info) = Some b \<Longrightarrow> vmg_VMs (nlb_VMGroup info') = Some b \<Longrightarrow>
      nlb_IId info' = getUserIID (row_IID r) \<Longrightarrow> NameId (nlb_VpcIID info') = row_OwnerVPCName r \<Longrightarrow>
      name_taken env (wrows R w VPCIIDInfo) conn (row_OwnerVPCName r) \<Longrightarrow> wrows R w' = wrows R w \<Longrightarrow> w_locks w' = w_locks w \<Longrightarrow>
      vms_named env (wrows R w VMIIDInfo) conn (h_iids (w_heap w) b) ys \<Longrightarrow> w_heap w' = heap_set b ys (w_heap w) \<Longrightarrow> Q info' w'"
    and E: "\<And>e w'. wrows R w' = wrows R w \<Longrightarrow> w_locks w' = w_locks w \<Longrightarrow> E e w'"
  shows "wp (show_nlb env conn r info) Q E w"
  unfolding show_nlb_def Let_def
  by (intro wp_bindPI wp_retI get_name_wp[OF ok] name_vms_wp[OF ok])
    (auto simp: reads_def transformArgsToUpper_def getUserIID_def makeUserIID_def row_IID_def intro!: Q E)

lemma find_nlb_wp:
  fixes env :: "('d, 'c) env" and w :: "('d, 'c) world"
  assumes ok: "gorm_ok (env_gorm env) R"
    and "\<And>r w'. reads R env w w' \<Longrightarrow> r \<in> wrows R w NLBIIDInfo \<Longrightarrow> row_NameId r = n \<Longrightarrow>
      (\<not> permission_mode env \<Longrightarrow> row_ConnectionName r = conn) \<Longrightarrow> Q r w'"
    and "\<And>e w'. reads R env w w' \<Longrightarrow> E e w'"
  shows "wp (find_nlb env conn rsType n) Q E w"
  unfolding find_nlb_def
  by (intro wp_bindPI list_iid_infos_wp[OF ok] wp_case_optionI wp_throwI wp_retI)
    (auto dest!: find_SomeD intro!: assms(2,3))

text \<open>
  C5: Outside the permission-based mode, \<open>GetNLB\<close> shows a balancer that has a row, under the name it was asked for and with the name of the VPC of the row,
  which has a row too. The VMs it points to are those that the driver gave, in their order and with their system ids,
  each under the name of a VM that has a row; they are renamed where the driver keeps them, and no other slice changes.
\<close>

theorem GetNLB_shows:
  fixes env :: "('d, 'c) env" and w :: "('d, 'c) world"
  assumes "gorm_ok (env_gorm env) R" and "\<not> permission_mode env"
  shows "wp (GetNLB env conn rsType name)
    (\<lambda>info w'. let c = TrimSpace conn; n = TrimSpace name in
       wrows R w' = wrows R w \<and> w_locks w' = w_locks w \<and>
       (\<exists>r h drv cloud heap b ys. nlb_handler env c = Inr h \<and> r \<in> wrows R w NLBIIDInfo \<and> row_ConnectionName r = c \<and> row_NameId r = n \<and>
          nlbh_GetNLB h (getDriverIID (row_IID r)) (w_cloud w, w_heap w) = (Inr drv, cloud, heap) \<and>
          NameId (nlb_IId info) = n \<and> NameId (nlb_VpcIID info) = row_OwnerVPCName r \<and>
          name_taken env (wrows R w VPCIIDInfo) c (row_OwnerVPCName r) \<and>
          vmg_VMs (nlb_VMGroup drv) = Some b \<and> vmg_VMs (nlb_VMGroup info) = Some b \<and>
          vms_named env (wrows R w VMIIDInfo) c (h_iids heap b) ys \<and> w_heap w' = heap_set b ys heap))
    (\<lambda>e w'. wrows R w' = wrows R w \<and> w_locks w' = w_locks w) w"
  unfolding GetNLB_def with_nlb_row_def Let_def
  by (intro wp_walk find_nlb_wp[OF assms(1)] wp_onSharedI show_nlb_wp[OF assms(1)];
    simp add: EmptyCheckAndTrim_Inr reads_def assms(2) row_IID_name; blast)

text \<open>
  C19: Outside the permission-based mode, \<open>DeleteNLB\<close> asks the driver for the balancer of one row of the name, and drops the rows of that name in every VPC of
  the connection: only after the driver confirmed the deletion, or said that it does not know the balancer, or
  when the caller forces it. In every other case no row changes.
\<close>

theorem DeleteNLB_rows:
  fixes env :: "('d, 'c) env" and w :: "('d, 'c) world"
  assumes "gorm_ok (env_gorm env) R" and "\<not> permission_mode env"
  shows "wp (DeleteNLB env conn rsType name force)
    (\<lambda>res w'. let c = TrimSpace conn; n = TrimSpace name in
       w_locks w' = w_locks w \<and>
       (\<exists>r h err. nlb_handler env c = Inr h \<and> r \<in> wrows R w NLBIIDInfo \<and> row_ConnectionName r = c \<and> row_NameId r = n \<and>
          nlbh_DeleteNLB h (getDriverIID (row_IID r)) (w_cloud w) = ((res, err), w_cloud w') \<and>
          (if deletes force res err
           then wrows R w' = (wrows R w)(NLBIIDInfo := {x \<in> wrows R w NLBIIDInfo. \<not> (row_ConnectionName x = c \<and> row_NameId x = n)}) \<or>
                (forced force err \<and> wrows R w' = wrows R w)
           else wrows R w' = wrows R w \<and> \<not> res \<and> err = None)))
    (\<lambda>e w'. wrows R w' = wrows R w \<and> w_locks w' = w_locks w) w"
  unfolding DeleteNLB_def with_nlb_row_def Let_def
  by (intro wp_rules find_nlb_wp[OF assms(1)] delete_tail_wp delete_by_wp[OF assms(1)])
    (auto simp: EmptyCheckAndTrim_Inr reads_def assms(2))

lemma shared_wp:
  assumes "\<And>x c h. Q x (w\<lparr>w_cloud := c, w_heap := h\<rparr>)" and "\<And>e c h. E e (w\<lparr>w_cloud := c, w_heap := h\<rparr>)"
  shows "wp (onShared m) Q E w"
  using assms by (intro wp_onSharedI)

lemma upsert_new_nlb:
  assumes "\<not> (\<exists>r \<in> S. row_ConnectionName r = c \<and> row_OwnerVPCName r = v \<and> row_NameId r = n)"
  shows "upsert (VPCDependentIIDInfo c n s v) S = insert (VPCDependentIIDInfo c n s v) S"
  using assms by (intro upsert_fresh) (auto simp: primary_key_def VPCDependentIIDInfo_def)

text \<open>The VMs of the request become those of the driver.\<close>

lemma request_vms_wp:
  fixes env :: "('d, 'c) env" and w :: "('d, 'c) world"
  assumes ok: "gorm_ok (env_gorm env) R"
    and Q: "\<And>w'. wrows R w' = wrows R w \<Longrightarrow> w_locks w' = w_locks w \<Longrightarrow>
      (\<And>b. p = Some b \<Longrightarrow> \<exists>ys. vms_driven env (wrows R w VMIIDInfo) conn (h_iids (w_heap w) b) ys \<and> w_heap w' = heap_set b ys (w_heap w)) \<Longrightarrow> Q () w'"
    and E: "\<And>e w'. wrows R w' = wrows R w \<Longrightarrow> w_locks w' = w_locks w \<Longrightarrow> E e w'"
  shows "wp (if p = None then ret () else bindP (deref p) (\<lambda>(a, vmList). set_driver_vms env conn a 0 vmList)) Q E w"
proof (cases p)
  case None
  then show ?thesis by (simp add: wp_simps) (rule Q; simp)
next
  case (Some b)
  have "wp (set_driver_vms env conn b 0 (h_iids (w_heap w) b)) Q E w"
    by (rule set_driver_vms_wp[OF ok]) (use Some in \<open>auto intro!: Q E\<close>)
  with Some show ?thesis by (simp add: wp_simps)
qed

text \<open>
  C20: A successful \<open>CreateNLB\<close> adds exactly one row, below a VPC that has a row, for a name that was free in that VPC; the
  result has the user's names, and points to the slice of VMs that the request points to. A failed one changes no row.
\<close>

theorem CreateNLB_rows:
  fixes env :: "('d, 'c) env" and w :: "('d, 'c) world"
  assumes "gorm_ok (env_gorm env) R"
  shows "wp (CreateNLB env conn rsType req mode)
    (\<lambda>info w'. let c = TrimSpace conn; n = NameId (nlb_IId req); v = NameId (nlb_VpcIID req) in
       w_locks w' = w_locks w \<and> name_taken env (wrows R w VPCIIDInfo) c v \<and>
       \<not> (\<exists>r \<in> wrows R w NLBIIDInfo. row_ConnectionName r = c \<and> row_OwnerVPCName r = v \<and> row_NameId r = n) \<and>
       (\<exists>spUUID cspId. wrows R w' = (wrows R w)(NLBIIDInfo :=
            insert (VPCDependentIIDInfo c n (spiderSystemId spUUID cspId) v) (wrows R w NLBIIDInfo))) \<and>
       NameId (nlb_IId info) = n \<and> NameId (nlb_VpcIID info) = v \<and>
       vmg_VMs (nlb_VMGroup info) = vmg_VMs (nlb_VMGroup req))
    (\<lambda>e w'. wrows R w' = wrows R w \<and> w_locks w' = w_locks w) w"
  unfolding CreateNLB_def Let_def spiderSystemId_def[symmetric]
  apply (intro request_vms_wp[OF assms] wp_rules get_name_wp[OF assms] list_by2_wp[OF assms] make_spUUID_wp[where R = R] shared_wp row_insert_wp[OF assms])
  apply (simp_all add: EmptyCheckAndTrim_Inr reads_def row_IID_name transformArgsToUpper_def list_ex_iff)
  by (subst upsert_new_nlb; auto)

text \<open>\<open>ListNLB\<close> answers with one info per row of the connection, under the names of the rows, whatever the driver finds.\<close>

lemma ListNLB_loop_wp:
  fixes env :: "('d, 'c) env" and w :: "('d, 'c) world"
  assumes ok: "gorm_ok (env_gorm env) R"
    and "\<And>infos w'. wrows R w' = wrows R w \<Longrightarrow> w_locks w' = w_locks w \<Longrightarrow>
      map (NameId \<circ> nlb_IId) infos = map (NameId \<circ> nlb_IId) acc @ map row_NameId rs \<Longrightarrow> Q infos w'"
    and "\<And>e w'. wrows R w' = wrows R w \<Longrightarrow> w_locks w' = w_locks w \<Longrightarrow> E e w'"
  shows "wp (ListNLB_loop env h conn rs acc) Q E w"
  using assms(2,3)
proof (induction rs arbitrary: acc w)
  case Nil
  then show ?case by (auto intro!: wp_retI)
next
  case (Cons r rs)
  show ?case
    unfolding ListNLB_loop.simps
    by (intro wp_walk shared_wp show_nlb_wp[OF ok] Cons.IH)
      (auto intro!: Cons.prems simp: NLBInfo_of_def row_IID_name)
qed

lemma ListNLB_complete:
  fixes env :: "('d, 'c) env" and w :: "('d, 'c) world"
  assumes "gorm_ok (env_gorm env) R" and "\<not> permission_mode env"
  shows "wp (ListNLB env conn)
    (\<lambda>infos w'. wrows R w' = wrows R w \<and> w_locks w' = w_locks w \<and>
       (\<exists>rs. distinct rs \<and> set rs = {r \<in> wrows R w NLBIIDInfo. row_ConnectionName r = TrimSpace conn} \<and>
          map (NameId \<circ> nlb_IId) infos = map row_NameId rs))
    (\<lambda>e w'. wrows R w' = wrows R w \<and> w_locks w' = w_locks w) w"
  unfolding ListNLB_def
  by (intro wp_walk list_iid_infos_wp[OF assms(1)] ListNLB_loop_wp[OF assms(1)])
    (auto simp: EmptyCheckAndTrim_Inr reads_def assms(2))

text \<open>The operations that change the cloud alone change no row.\<close>

lemma add_driver_vms_wp:
  fixes env :: "('d, 'c) env" and w :: "('d, 'c) world"
  assumes ok: "gorm_ok (env_gorm env) R" and "\<And>is w'. reads R env w w' \<Longrightarrow> Q is w'" and "\<And>e w'. reads R env w w' \<Longrightarrow> E e w'"
  shows "wp (add_driver_vms env conn ns acc) Q E w"
  using assms(2,3)
proof (induction ns arbitrary: acc w)
  case (Cons n ns)
  show ?case
    unfolding add_driver_vms.simps
    by (intro wp_walk has_authorized_taken_wp[OF ok] get_name_wp[OF ok] Cons.IH) (auto intro!: Cons.prems intro: reads_trans)
qed (simp add: wp_ret)

lemma remove_driver_vms_wp:
  fixes env :: "('d, 'c) env" and w :: "('d, 'c) world"
  assumes ok: "gorm_ok (env_gorm env) R" and "\<And>is w'. reads R env w w' \<Longrightarrow> Q is w'" and "\<And>e w'. reads R env w w' \<Longrightarrow> E e w'"
  shows "wp (remove_driver_vms env conn ns acc) Q E w"
  using assms(2,3)
proof (induction ns arbitrary: acc w)
  case (Cons n ns)
  show ?case
    unfolding remove_driver_vms.simps
    by (intro wp_walk get_name_wp[OF ok] Cons.IH) (auto intro!: Cons.prems intro: reads_trans)
qed (simp add: wp_ret)

lemma nlb_changes_rows:
  fixes env :: "('d, 'c) env" and w :: "('d, 'c) world"
  assumes ok: "gorm_ok (env_gorm env) R"
  shows "wp (AddNLBVMs env conn name vms) (\<lambda>_. kept R w) (\<lambda>_. kept R w) w"
    and "wp (RemoveNLBVMs env conn name vms) (\<lambda>_. kept R w) (\<lambda>_. kept R w) w"
    and "wp (ChangeListener env conn name l) (\<lambda>_. kept R w) (\<lambda>_. kept R w) w"
    and "wp (ChangeVMGroup env conn name g) (\<lambda>_. kept R w) (\<lambda>_. kept R w) w"
    and "wp (ChangeHealthChecker env conn name k) (\<lambda>_. kept R w) (\<lambda>_. kept R w) w"
  unfolding AddNLBVMs_def RemoveNLBVMs_def ChangeListener_def ChangeVMGroup_def ChangeHealthChecker_def with_nlb_row_def call_and_show_def Let_def
  by (intro wp_walk find_nlb_wp[OF ok] shared_wp show_nlb_wp[OF ok] add_driver_vms_wp[OF ok] remove_driver_vms_wp[OF ok]
      name_vms_wp[OF ok] get_name_wp[OF ok]; auto simp: kept_def reads_def)+

text \<open>
  The defaults of the health checker: no -1 is left for the two protocols that have defaults, except the timeout with the
  two providers that want none; values that are given stay; a second run changes nothing.
\<close>

lemma setDefaultHealthCheckerConfig_defaults:
  assumes "hc_Protocol k \<in> {''TCP'', ''HTTP''}"
  shows "hc_Interval (setDefaultHealthCheckerConfig p k) \<noteq> -1" and "hc_Threshold (setDefaultHealthCheckerConfig p k) \<noteq> -1"
    and "p \<notin> {''AWS'', ''AZURE''} \<Longrightarrow> hc_Timeout (setDefaultHealthCheckerConfig p k) \<noteq> -1"
    and "p \<in> {''AWS'', ''AZURE''} \<Longrightarrow> hc_Timeout (setDefaultHealthCheckerConfig p k) = hc_Timeout k"
  using assms by (auto simp: setDefaultHealthCheckerConfig_def Let_def)

lemma setDefaultHealthCheckerConfig_idem:
  "setDefaultHealthCheckerConfig p (setDefaultHealthCheckerConfig p k) = setDefaultHealthCheckerConfig p k"
  by (simp add: setDefaultHealthCheckerConfig_def Let_def)

section \<open>Concrete runs\<close>

text \<open>Two VPCs and one VM, which is \<open>web\<close> for the user and \<open>vm-x\<close> for the driver; a request for a balancer with that VM.\<close>

definition ex_nlb_req :: "string \<Rightarrow> nat option \<Rightarrow> NLBInfo" where
  "ex_nlb_req vpc vms = (NLBInfo_of \<lparr>NameId = ''nlb'', SystemId = []\<rparr>)
     \<lparr>nlb_VpcIID := \<lparr>NameId = vpc, SystemId = []\<rparr>,
      nlb_VMGroup := \<lparr>vmg_Protocol = ''tcp'', vmg_Port = ''80'', vmg_VMs = vms, vmg_CspID = [], vmg_KeyValueList = []\<rparr>\<rparr>"

definition ex_nlb_world :: "bool list \<Rightarrow> (list_db, mock) world" where
  "ex_nlb_world fs = (ex_world fs)\<lparr>w_store := \<lparr>dbConfigErr = None, st_open = None,
       st_db = \<lparr>db_rows = (\<lambda>_. [])(VPCIIDInfo := [FirstIIDInfo ''mock'' ''vpc-1'' ''v:v'', FirstIIDInfo ''mock'' ''vpc-2'' ''u:u''],
         VMIIDInfo := [FirstIIDInfo ''mock'' ''web'' ''vm-x:vm-x'']), db_fails = fs\<rparr>\<rparr>,
     w_heap := \<lparr>h_next = 1, h_iids = (\<lambda>_. [])(0 := [\<lparr>NameId = ''web'', SystemId = []\<rparr>])\<rparr>\<rparr>"

text \<open>Worlds with balancers below VPCs: rows, what the driver knows, and the slice of the driver's first one.\<close>

definition ex_nlb_row :: "string \<Rightarrow> string \<Rightarrow> iid_row" where
  "ex_nlb_row vpc sys = VPCDependentIIDInfo ''mock'' ''nlb'' (sys @ '':'' @ sys) vpc"

definition ex_nlb :: "string \<Rightarrow> nat option \<Rightarrow> NLBInfo" where
  "ex_nlb sys vms = (ex_nlb_req ''v'' vms)\<lparr>nlb_IId := \<lparr>NameId = sys, SystemId = sys\<rparr>\<rparr>"

definition ex_nlbs :: "iid_row list \<Rightarrow> NLBInfo list \<Rightarrow> IID list \<Rightarrow> (list_db, mock) world" where
  "ex_nlbs rows infos vms = (ex_nlb_world [])\<lparr>w_store := \<lparr>dbConfigErr = None, st_open = None,
       st_db = \<lparr>db_rows = (db_rows (st_db (w_store (ex_nlb_world []))))(NLBIIDInfo := rows), db_fails = []\<rparr>\<rparr>,
     w_cloud := mock_init\<lparr>nlbInfoMap := [''m'' \<mapsto> infos]\<rparr>,
     w_heap := \<lparr>h_next = 1, h_iids = (\<lambda>_. [])(0 := vms)\<rparr>\<rparr>"

definition ex_one_nlb :: "IID list \<Rightarrow> (list_db, mock) world" where
  "ex_one_nlb vms = ex_nlbs [ex_nlb_row ''vpc-1'' ''nlb''] [ex_nlb ''nlb'' (Some 0)] vms"

definition vm_x :: "string \<Rightarrow> IID" where
  "vm_x name = \<lparr>NameId = name, SystemId = ''vm-x''\<rparr>"

text \<open>
  A creation leads there. The slice then holds the driver's names, and so does the result, which points to it, although
  the comment is "set VM's IID with NameId".
\<close>

definition ex_create_nlb :: "bool list \<Rightarrow> NLBInfo go_result \<times> (list_db, mock) world" where
  "ex_create_nlb fs = CreateNLB (ex_env []) ''mock'' RT_NLB (ex_nlb_req ''vpc-1'' (Some 0)) ''OFF'' (ex_nlb_world fs)"

lemma ex_create_nlb:
  "(case ex_create_nlb [] of (res, w) \<Rightarrow> (map_sum id (\<lambda>i. (nlb_IId i, vmg_VMs (nlb_VMGroup i))) res,
      db_rows (st_db (w_store w)) NLBIIDInfo, map_option (map (\<lambda>i. (nlb_IId i, vmg_VMs (nlb_VMGroup i)))) (nlbInfoMap (w_cloud w) ''m''),
      h_iids (w_heap w) 0)) =
   (Inr (\<lparr>NameId = ''nlb'', SystemId = ''nlb''\<rparr>, Some 0), [ex_nlb_row ''vpc-1'' ''nlb''],
    Some [(\<lparr>NameId = ''nlb'', SystemId = ''nlb''\<rparr>, Some 0)], [vm_x ''vm-x''])"
  by code_simp

lemma ex_create_nlb_fails: "fst (ex_create_nlb [True]) = Inl ''disk I/O error''"
  by code_simp

text \<open>
  The removal of the VM works then. But a mere \<open>GetNLB\<close> puts the user's name into the driver's slice: from then on the VM
  cannot be removed, and adding it adds it twice.
\<close>

lemma reading_breaks_vms:
  "fst (RemoveNLBVMs (ex_env []) ''mock'' ''nlb'' [''web''] (ex_one_nlb [vm_x ''vm-x''])) = Inr True"
  "h_iids (w_heap (snd (GetNLB (ex_env []) ''mock'' RT_NLB ''nlb'' (ex_one_nlb [vm_x ''vm-x''])))) 0 = [vm_x ''web'']"
  "isl (fst (RemoveNLBVMs (ex_env []) ''mock'' ''nlb'' [''web''] (ex_one_nlb [vm_x ''web''])))"
  "isl (fst (AddNLBVMs (ex_env []) ''mock'' ''nlb'' [''web''] (ex_one_nlb [vm_x ''vm-x''])))"
  "(case AddNLBVMs (ex_env []) ''mock'' ''nlb'' [''web''] (ex_one_nlb [vm_x ''web'']) of (res, w) \<Rightarrow>
      (isl res, h_iids (w_heap w) 0)) = (False, [vm_x ''web'', vm_x ''web''])"
  by code_simp+

text \<open>A balancer may be created without VMs, but a panic ends every reading of it, and of the list.\<close>

lemma nlb_without_vms:
  "\<not> isl (fst (CreateNLB (ex_env []) ''mock'' RT_NLB (ex_nlb_req ''vpc-1'' None) ''OFF'' (ex_nlb_world [])))"
  "fst (GetNLB (ex_env []) ''mock'' RT_NLB ''nlb'' (ex_nlbs [ex_nlb_row ''vpc-1'' ''nlb''] [ex_nlb ''nlb'' None] [])) = Inl nil_panic"
  "fst (ListNLB (ex_env []) ''mock'' (ex_nlbs [ex_nlb_row ''vpc-1'' ''nlb''] [ex_nlb ''nlb'' None] [])) = Inl nil_panic"
  by code_simp+

text \<open>The same name is free in another VPC; a deletion then asks the driver for one of the two and drops the rows of both.\<close>

definition ex_delete_nlb :: "bool go_result \<times> (list_db, mock) world" where
  "ex_delete_nlb = DeleteNLB (ex_env []) ''mock'' RT_NLB ''nlb'' [] (ex_nlbs [ex_nlb_row ''vpc-1'' ''n1'', ex_nlb_row ''vpc-2'' ''n2''] [ex_nlb ''n1'' None, ex_nlb ''n2'' None] [])"

lemma deletion_drops_both:
  "map row_OwnerVPCName (db_rows (st_db (w_store (snd (CreateNLB (ex_env []) ''mock'' RT_NLB (ex_nlb_req ''vpc-2'' None) ''OFF'' (ex_one_nlb []))))) NLBIIDInfo) = [''vpc-1'', ''vpc-2'']"
  "fst ex_delete_nlb = Inr True"
  "db_rows (st_db (w_store (snd ex_delete_nlb))) NLBIIDInfo = []"
  "map_option (map (SystemId \<circ> nlb_IId)) (nlbInfoMap (w_cloud (snd ex_delete_nlb)) ''m'') = Some [''n2'']"
  by code_simp+

lemma ex_nlb_trim: "TrimSpace ''mock'' = ''mock''" "TrimSpace ''nlb'' = ''nlb''"
  by code_simp+

lemma ex_nlb_wrows: "wrows list_rows (ex_nlbs rows infos vms) NLBIIDInfo = set rows"
  "wrows list_rows (ex_nlbs rows infos vms) VMIIDInfo = {FirstIIDInfo ''mock'' ''web'' ''vm-x:vm-x''}" "wrows list_rows (ex_nlb_world fs) NLBIIDInfo = {}"
  by (simp_all add: wrows_def list_rows_def ex_nlbs_def ex_nlb_world_def)

lemma CreateNLB_rows_witness:
  "\<exists>name cspId. wrows list_rows (snd (ex_create_nlb [])) NLBIIDInfo = {VPCDependentIIDInfo ''mock'' ''nlb'' (spiderSystemId name cspId) ''vpc-1''} \<and>
     wrows list_rows (snd (ex_create_nlb [True])) NLBIIDInfo = {}"
proof -
  obtain info where run: "fst (ex_create_nlb []) = Inr info"
    using ex_create_nlb by (cases "fst (ex_create_nlb [])") (auto simp: case_prod_beta)
  have names: "NameId (nlb_IId (ex_nlb_req v p)) = ''nlb''" "NameId (nlb_VpcIID (ex_nlb_req v p)) = v" for v p
    by (simp_all add: ex_nlb_req_def NLBInfo_of_def)
  note ok = wp_ok_run[OF CreateNLB_rows[OF ex_gorm_ok] run[unfolded ex_create_nlb_def], folded ex_create_nlb_def]
  note err = wp_err_run[OF CreateNLB_rows[OF ex_gorm_ok] ex_create_nlb_fails[unfolded ex_create_nlb_def], folded ex_create_nlb_def]
  show ?thesis using ok err unfolding Let_def names ex_nlb_trim by (auto simp: ex_nlb_wrows) blast
qed

lemma GetNLB_shows_witness:
  "\<exists>info w'. GetNLB (ex_env []) ''mock'' RT_NLB ''nlb'' (ex_one_nlb [vm_x ''vm-x'']) = (Inr info, w') \<and> NameId (nlb_IId info) = ''nlb'' \<and>
     NameId (nlb_VpcIID info) = ''vpc-1'' \<and> wrows list_rows w' = wrows list_rows (ex_one_nlb [vm_x ''vm-x''])"
proof -
  have "\<not> isl (fst (GetNLB (ex_env []) ''mock'' RT_NLB ''nlb'' (ex_one_nlb [vm_x ''vm-x''])))"
    by code_simp
  then obtain info w' where run: "GetNLB (ex_env []) ''mock'' RT_NLB ''nlb'' (ex_one_nlb [vm_x ''vm-x'']) = (Inr info, w')"
    by (metis prod.collapse isl_def sum.exhaust_sel)
  have v: "row_OwnerVPCName (ex_nlb_row p s) = p" for p s by (simp add: ex_nlb_row_def VPCDependentIIDInfo_def)
  show ?thesis
    using wp_okD[OF GetNLB_shows[OF ex_gorm_ok ex_perm] run] run
    unfolding Let_def ex_nlb_trim ex_one_nlb_def ex_nlb_wrows by (auto simp: v)
qed

lemma DeleteNLB_rows_witness:
  "\<exists>w'. DeleteNLB (ex_env []) ''mock'' RT_NLB ''nlb'' [] (ex_one_nlb []) = (Inr True, w') \<and> wrows list_rows w' NLBIIDInfo = {}"
proof -
  have "fst (DeleteNLB (ex_env []) ''mock'' RT_NLB ''nlb'' [] (ex_one_nlb [])) = Inr True"
    by code_simp
  then obtain w' where run: "DeleteNLB (ex_env []) ''mock'' RT_NLB ''nlb'' [] (ex_one_nlb []) = (Inr True, w')"
    by (metis prod.collapse)
  have none: "err = None" if "nlbh_DeleteNLB (MockNLBHandler xid m) i c = ((True, err), c')" for xid m i c c' err
    using that by (auto simp: MockNLBHandler_def MockDeleteNLB_def split: option.splits if_splits)
  have h: "nlb_handler (ex_env p) ''mock'' = Inr (MockNLBHandler ex_xid ''m'')" for p
    by (simp add: nlb_handler_def ex_env_def ex_get_def ex_connection_def)
  have r: "{r \<in> {ex_nlb_row v s}. \<not> (row_ConnectionName r = ''mock'' \<and> row_NameId r = ''nlb'')} = {}" for v s
    by (auto simp: ex_nlb_row_def VPCDependentIIDInfo_def)
  show ?thesis
    using wp_okD[OF DeleteNLB_rows[OF ex_gorm_ok ex_perm] run] run
    unfolding Let_def ex_nlb_trim ex_one_nlb_def ex_nlb_wrows h
    by (auto simp: deletes_def forced_def r split: if_splits dest!: none)
qed

end
