(* ===== verification/CredentialCrypt.thy ===== *)
theory CredentialCrypt
  imports DriverInterfaces "HOL-Library.Word"
begin

text \<open>
  How credentials are kept secret, \<open>Encrypt\<close> and \<open>Decrypt\<close> of \<open>credential-info-manager/CredentialInfoManager.go\<close>, with
  what they use of Go's library: the encoding \<open>base64.StdEncoding\<close>, the block cipher of \<open>crypto/aes\<close> and the counter mode
  of \<open>crypto/cipher\<close>. The main fact is that \<open>Decrypt\<close> undoes \<open>Encrypt\<close> on every text.
\<close>

unbundle bit_operations_syntax

section \<open>Base64\<close>

type_synonym byte = "8 word"

definition alphabet :: string where
  "alphabet = ''ABCDEFGHIJKLMNOPQRSTUVWXYZabcdefghijklmnopqrstuvwxyz0123456789+/''"

definition digit_of :: "char \<Rightarrow> nat option" where
  "digit_of c = (let i = length (takeWhile (\<lambda>a. a \<noteq> c) alphabet) in if i < 64 then Some i else None)"

text \<open>Three bytes, as a number, are four digits to base 64; a last group of one or two bytes is filled up with \<open>=\<close>.\<close>

definition sextet :: "nat \<Rightarrow> nat \<Rightarrow> char" where
  "sextet k val = alphabet ! (val div 64 ^ k mod 64)"

fun EncodeToString :: "byte list \<Rightarrow> string" where
  "EncodeToString [] = []"
| "EncodeToString [a] = (let val = unat a * 65536 in [sextet 3 val, sextet 2 val, CHR ''='', CHR ''=''])"
| "EncodeToString [a, b] = (let val = unat a * 65536 + unat b * 256 in [sextet 3 val, sextet 2 val, sextet 1 val, CHR ''=''])"
| "EncodeToString (a # b # c # rest) =
     (let val = unat a * 65536 + unat b * 256 + unat c
      in [sextet 3 val, sextet 2 val, sextet 1 val, sextet 0 val] @ EncodeToString rest)"

definition newline :: "char \<Rightarrow> bool" where
  "newline c \<longleftrightarrow> c = CHR 0x0A \<or> c = CHR 0x0D"

text \<open>
  \<open>decodeQuantum\<close>: the digits of one group, starting at position \<open>si\<close>, \<open>dbuf\<close> being those that have been read. Line breaks
  are skipped; an error is the position of the corrupt byte.
\<close>

definition padding :: "nat \<Rightarrow> string \<Rightarrow> nat \<times> string" where
  "padding si src = (si + length (takeWhile newline src), dropWhile newline src)"

fun decodeQuantum :: "nat \<Rightarrow> nat list \<Rightarrow> string \<Rightarrow> nat + nat list \<times> nat \<times> string" where
  "decodeQuantum si dbuf [] = (if dbuf = [] then Inr ([], si, []) else Inl (si - length dbuf))"
| "decodeQuantum si dbuf (c # src) =
     (case digit_of c of
        Some d \<Rightarrow> if length dbuf = 3 then Inr (dbuf @ [d], Suc si, src) else decodeQuantum (Suc si) (dbuf @ [d]) src
      | None \<Rightarrow>
          if newline c then decodeQuantum (Suc si) dbuf src
          else if c \<noteq> CHR ''='' \<or> length dbuf < 2 then Inl si
          else
            (let (si, src) = padding (Suc si) src in
             if length dbuf = 2 then
               (case src of
                  [] \<Rightarrow> Inl si
                | c # src \<Rightarrow>
                    if c \<noteq> CHR ''='' then Inl (si - 1)
                    else (let (si, src) = padding (Suc si) src in if src = [] then Inr (dbuf, si, []) else Inl si))
             else if src = [] then Inr (dbuf, si, []) else Inl si))"

text \<open>The bytes of a group of four, three or two digits.\<close>

definition group_bytes :: "nat list \<Rightarrow> byte list" where
  "group_bytes dbuf =
     (let val = foldl (\<lambda>v d. v * 64 + d) 0 (take 4 (dbuf @ [0, 0, 0, 0]))
      in take (length dbuf - 1) [of_nat (val div 65536), of_nat (val div 256), of_nat val])"

lemma length_dropWhile: "length (dropWhile P xs) \<le> length xs"
  by (induction xs) auto

lemma decodeQuantum_rest: "decodeQuantum si dbuf src = Inr (ds, si', src') \<Longrightarrow> length src' \<le> length src"
  by (induction si dbuf src rule: decodeQuantum.induct)
    (auto simp: padding_def Let_def length_dropWhile split: option.splits if_splits list.splits prod.splits
      intro: le_SucI dest: arg_cong[where f = length])

lemma decodeQuantum_shorter:
  assumes "decodeQuantum si [] (c # src) = Inr (ds, si', src')"
  shows "length src' < Suc (length src)"
  using assms decodeQuantum_rest[where src = src and src' = src']
  by (fastforce split: option.splits if_splits simp: less_Suc_eq_le)

function DecodeString_from :: "nat \<Rightarrow> string \<Rightarrow> nat + byte list" where
  "DecodeString_from si src =
     (if src = [] then Inr []
      else
        (case decodeQuantum si [] src of
           Inl e \<Rightarrow> Inl e
         | Inr (dbuf, si', src') \<Rightarrow>
             (case DecodeString_from si' src' of Inl e \<Rightarrow> Inl e | Inr bs \<Rightarrow> Inr (group_bytes dbuf @ bs))))"
  by pat_completeness auto
termination
proof (relation "measure (length \<circ> snd)", simp)
  fix si :: nat and src x xa y xb ya
  assume "src \<noteq> []" and "decodeQuantum si [] src = Inr x" and "(xa, y) = x" and "(xb, ya) = y"
  then show "((xb, ya), si, src) \<in> measure (length \<circ> snd)"
    using decodeQuantum_shorter by (cases src) auto
qed

declare DecodeString_from.simps [simp del]

definition DecodeString :: "string \<Rightarrow> (string + byte list)" where
  "DecodeString s =
     (case DecodeString_from 0 s of Inl n \<Rightarrow> Inl (''illegal base64 data at input byte '' @ Itoa n) | Inr bs \<Rightarrow> Inr bs)"

section \<open>The block cipher\<close>

text \<open>
  AES as \<open>aes.NewCipher\<close> gives it for keys of 16, 24 and 32 bytes. Blocks are lists of sixteen bytes, the columns of the state
  one after the other.
\<close>

definition sbox :: "byte list" where
  "sbox = [
     0x63, 0x7c, 0x77, 0x7b, 0xf2, 0x6b, 0x6f, 0xc5, 0x30, 0x01, 0x67, 0x2b, 0xfe, 0xd7, 0xab, 0x76,
     0xca, 0x82, 0xc9, 0x7d, 0xfa, 0x59, 0x47, 0xf0, 0xad, 0xd4, 0xa2, 0xaf, 0x9c, 0xa4, 0x72, 0xc0,
     0xb7, 0xfd, 0x93, 0x26, 0x36, 0x3f, 0xf7, 0xcc, 0x34, 0xa5, 0xe5, 0xf1, 0x71, 0xd8, 0x31, 0x15,
     0x04, 0xc7, 0x23, 0xc3, 0x18, 0x96, 0x05, 0x9a, 0x07, 0x12, 0x80, 0xe2, 0xeb, 0x27, 0xb2, 0x75,
     0x09, 0x83, 0x2c, 0x1a, 0x1b, 0x6e, 0x5a, 0xa0, 0x52, 0x3b, 0xd6, 0xb3, 0x29, 0xe3, 0x2f, 0x84,
     0x53, 0xd1, 0x00, 0xed, 0x20, 0xfc, 0xb1, 0x5b, 0x6a, 0xcb, 0xbe, 0x39, 0x4a, 0x4c, 0x58, 0xcf,
     0xd0, 0xef, 0xaa, 0xfb, 0x43, 0x4d, 0x33, 0x85, 0x45, 0xf9, 0x02, 0x7f, 0x50, 0x3c, 0x9f, 0xa8,
     0x51, 0xa3, 0x40, 0x8f, 0x92, 0x9d, 0x38, 0xf5, 0xbc, 0xb6, 0xda, 0x21, 0x10, 0xff, 0xf3, 0xd2,
     0xcd, 0x0c, 0x13, 0xec, 0x5f, 0x97, 0x44, 0x17, 0xc4, 0xa7, 0x7e, 0x3d, 0x64, 0x5d, 0x19, 0x73,
     0x60, 0x81, 0x4f, 0xdc, 0x22, 0x2a, 0x90, 0x88, 0x46, 0xee, 0xb8, 0x14, 0xde, 0x5e, 0x0b, 0xdb,
     0xe0, 0x32, 0x3a, 0x0a, 0x49, 0x06, 0x24, 0x5c, 0xc2, 0xd3, 0xac, 0x62, 0x91, 0x95, 0xe4, 0x79,
     0xe7, 0xc8, 0x37, 0x6d, 0x8d, 0xd5, 0x4e, 0xa9, 0x6c, 0x56, 0xf4, 0xea, 0x65, 0x7a, 0xae, 0x08,
     0xba, 0x78, 0x25, 0x2e, 0x1c, 0xa6, 0xb4, 0xc6, 0xe8, 0xdd, 0x74, 0x1f, 0x4b, 0xbd, 0x8b, 0x8a,
     0x70, 0x3e, 0xb5, 0x66, 0x48, 0x03, 0xf6, 0x0e, 0x61, 0x35, 0x57, 0xb9, 0x86, 0xc1, 0x1d, 0x9e,
     0xe1, 0xf8, 0x98, 0x11, 0x69, 0xd9, 0x8e, 0x94, 0x9b, 0x1e, 0x87, 0xe9, 0xce, 0x55, 0x28, 0xdf,
     0x8c, 0xa1, 0x89, 0x0d, 0xbf, 0xe6, 0x42, 0x68, 0x41, 0x99, 0x2d, 0x0f, 0xb0, 0x54, 0xbb, 0x16]"

definition SubByte :: "byte \<Rightarrow> byte" where
  "SubByte b = sbox ! unat b"

definition xtime :: "byte \<Rightarrow> byte" where
  "xtime b = push_bit 1 b XOR (if bit b 7 then 0x1b else 0)"

definition xor_bytes :: "byte list \<Rightarrow> byte list \<Rightarrow> byte list" where
  "xor_bytes xs ys = map2 (XOR) xs ys"

text \<open>The words of the key schedule have four bytes; each is made from the last one and the one a key's length before.\<close>

definition next_word :: "nat \<Rightarrow> nat \<Rightarrow> byte \<Rightarrow> byte list list \<Rightarrow> byte list" where
  "next_word nk i rcon ws =
     (let temp = last ws;
          temp = (if i mod nk = 0 then xor_bytes (map SubByte (rotate1 temp)) [rcon, 0, 0, 0]
                  else if 6 < nk \<and> i mod nk = 4 then map SubByte temp else temp)
      in xor_bytes (ws ! (i - nk)) temp)"

fun expand :: "nat \<Rightarrow> nat \<Rightarrow> nat \<Rightarrow> byte \<Rightarrow> byte list list \<Rightarrow> byte list list" where
  "expand nk 0 i rcon ws = ws"
| "expand nk (Suc n) i rcon ws =
     expand nk n (Suc i) (if i mod nk = 0 then xtime rcon else rcon) (ws @ [next_word nk i rcon ws])"

fun fours :: "nat \<Rightarrow> 'a list \<Rightarrow> 'a list list" where
  "fours 0 xs = []"
| "fours (Suc n) xs = take 4 xs # fours n (drop 4 xs)"

definition round_keys :: "byte list \<Rightarrow> byte list list" where
  "round_keys key =
     (let nk = length key div 4; ws = expand nk (4 * (nk + 7) - nk) nk 1 (fours nk key)
      in map concat (fours (nk + 7) ws))"

definition ShiftRows :: "byte list \<Rightarrow> byte list" where
  "ShiftRows s = map (\<lambda>i. s ! ((i + 4 * (i mod 4)) mod 16)) [0..<16]"

definition mix_byte :: "byte list \<Rightarrow> nat \<Rightarrow> byte" where
  "mix_byte s i =
     (let a = (\<lambda>k. s ! (4 * (i div 4) + (i + k) mod 4))
      in xtime (a 0) XOR (xtime (a 1) XOR a 1) XOR a 2 XOR a 3)"

definition MixColumns :: "byte list \<Rightarrow> byte list" where
  "MixColumns s = map (mix_byte s) [0..<16]"

definition aes_round :: "byte list \<Rightarrow> byte list \<Rightarrow> byte list" where
  "aes_round s k = xor_bytes (MixColumns (ShiftRows (map SubByte s))) k"

definition aes_block :: "byte list \<Rightarrow> byte list \<Rightarrow> byte list" where
  "aes_block key block =
     (let ks = round_keys key
      in xor_bytes (ShiftRows (map SubByte (foldl aes_round (xor_bytes block (hd ks)) (butlast (tl ks))))) (last ks))"

definition NewCipher :: "byte list \<Rightarrow> string + (byte list \<Rightarrow> byte list)" where
  "NewCipher key =
     (if length key \<in> {16, 24, 32} then Inr (aes_block key)
      else Inl (''crypto/aes: invalid key size '' @ Itoa (length key)))"

section \<open>Counter mode\<close>

text \<open>The counter is a number of sixteen bytes, the last of which is the least; it wraps around.\<close>

fun increment :: "byte list \<Rightarrow> byte list" where
  "increment [] = []"
| "increment (b # bs) = (if b + 1 = 0 then (b + 1) # increment bs else (b + 1) # bs)"

definition next_counter :: "byte list \<Rightarrow> byte list" where
  "next_counter ctr = rev (increment (rev ctr))"

fun key_stream :: "(byte list \<Rightarrow> byte list) \<Rightarrow> byte list \<Rightarrow> nat \<Rightarrow> byte list" where
  "key_stream block ctr n =
     (if n \<le> 16 then take n (block ctr) else block ctr @ key_stream block (next_counter ctr) (n - 16))"

declare key_stream.simps [simp del]

definition XORKeyStream :: "(byte list \<Rightarrow> byte list) \<Rightarrow> byte list \<Rightarrow> byte list \<Rightarrow> byte list" where
  "XORKeyStream block iv src = xor_bytes src (key_stream block iv (length src))"

section \<open>Encryption and decryption\<close>

definition bytes :: "string \<Rightarrow> byte list" where
  "bytes s = map (\<lambda>c. of_nat (of_char c)) s"

definition text_of :: "byte list \<Rightarrow> string" where
  "text_of bs = map (\<lambda>b. char_of (unat b)) bs"

definition BlockSize :: nat where
  "BlockSize = 16"

definition SPIDER_KEY :: "byte list" where
  "SPIDER_KEY = bytes ''cloud-barista-cb-spider-cloud-ba''"

text \<open>\<open>random\<close> is what reading from \<open>crypto/rand\<close> gives: an error, or as many bytes as are wanted.\<close>

definition Encrypt :: "go_error + (nat \<Rightarrow> byte) \<Rightarrow> byte list \<Rightarrow> string \<Rightarrow> string go_result" where
  "Encrypt random spider_key contents =
     (case NewCipher spider_key of
        Inl err \<Rightarrow> Inl err
      | Inr block \<Rightarrow>
          (case random of
             Inl err \<Rightarrow> Inl err
           | Inr bs \<Rightarrow>
               (let iv = map bs [0..<BlockSize]
                in Inr (EncodeToString (iv @ XORKeyStream block iv (bytes contents))))))"

text \<open>A ciphertext shorter than one block is sliced out of its range.\<close>

definition Decrypt :: "byte list \<Rightarrow> string \<Rightarrow> string go_result" where
  "Decrypt spider_key contents =
     (case DecodeString contents of
        Inl err \<Rightarrow> Inl err
      | Inr ciphertext \<Rightarrow>
          (case NewCipher spider_key of
             Inl err \<Rightarrow> Inl err
           | Inr block \<Rightarrow>
               if length ciphertext < BlockSize then Inl slice_panic
               else Inr (text_of (XORKeyStream block (take BlockSize ciphertext) (drop BlockSize ciphertext)))))"

section \<open>Decoding undoes encoding\<close>

lemma digit_of_alphabet: "i < 64 \<Longrightarrow> digit_of (alphabet ! i) = Some i"
proof -
  have "\<forall>i \<in> set [0..<64]. digit_of (alphabet ! i) = Some i" by code_simp
  then show "i < 64 \<Longrightarrow> digit_of (alphabet ! i) = Some i" by auto
qed

lemma digit_of_sextet [simp]: "digit_of (sextet k val) = Some (val div 64 ^ k mod 64)"
  by (simp add: sextet_def digit_of_alphabet)

lemma digit_of_padding: "digit_of (CHR ''='') = None" "\<not> newline (CHR ''='')"
  by code_simp+

lemma decode_four:
  "decodeQuantum si [] (sextet k a # sextet l b # sextet m c # sextet n d # src) =
     Inr ([a div 64 ^ k mod 64, b div 64 ^ l mod 64, c div 64 ^ m mod 64, d div 64 ^ n mod 64], si + 4, src)"
  by simp

lemma decode_three:
  "decodeQuantum si [] [sextet k a, sextet l b, sextet m c, CHR ''=''] =
     Inr ([a div 64 ^ k mod 64, b div 64 ^ l mod 64, c div 64 ^ m mod 64], si + 4, [])"
  by (simp add: digit_of_padding padding_def)

lemma decode_two:
  "decodeQuantum si [] [sextet k a, sextet l b, CHR ''='', CHR ''=''] =
     Inr ([a div 64 ^ k mod 64, b div 64 ^ l mod 64], si + 4, [])"
  by (simp add: digit_of_padding padding_def)

lemma sextets_value:
  fixes val :: nat
  assumes "val < 64 ^ 4"
  shows "((val div 64 ^ 3 mod 64 * 64 + val div 64 ^ 2 mod 64) * 64 + val div 64 ^ 1 mod 64) * 64 + val div 64 ^ 0 mod 64 = val"
proof -
  have "val div 64 ^ 3 < 64" using assms by (simp add: less_mult_imp_div_less)
  then have top: "val div 64 ^ 3 mod 64 = val div 64 ^ 3" by simp
  have step: "val div 64 ^ m * 64 + val div 64 ^ k mod 64 = val div 64 ^ k" if "m = Suc k" for m k
    by (simp only: that power_Suc2 div_mult2_eq div_mult_mod_eq)
  have "val div 64 ^ 3 * 64 + val div 64 ^ 2 mod 64 = val div 64 ^ 2" "val div 64 ^ 2 * 64 + val div 64 ^ 1 mod 64 = val div 64 ^ 1"
    "val div 64 ^ 1 * 64 + val div 64 ^ 0 mod 64 = val div 64 ^ 0" by (rule step; simp)+
  then show ?thesis by (simp only: top power_0 div_by_1)
qed

lemma byte_less: "unat (x :: byte) < 256"
  using unsigned_less[of x, where ?'a = nat] by simp

lemma byte_of_nat: "unat x = n mod 256 \<Longrightarrow> of_nat n = (x :: byte)"
  by (simp add: word_eq_iff_unsigned[where ?'a = nat] unsigned_of_nat take_bit_eq_mod)

lemma bytes_value:
  fixes a b c :: byte
  defines "n \<equiv> unat a * 65536 + unat b * 256 + unat c"
  shows "of_nat (n div 65536) = a" and "of_nat (n div 256) = b" and "of_nat n = c" and "n < 64 ^ 4"
proof -
  note l = byte_less[of a] byte_less[of b] byte_less[of c]
  have "n div 256 = unat a * 256 + unat b" using l(3) by (simp add: n_def div_add1_eq)
  then show "of_nat (n div 256) = b" using l(2) by (intro byte_of_nat) simp
  have "n div 65536 = unat a" using l(2,3) by (simp add: n_def)
  then show "of_nat (n div 65536) = a" using l(1) by (intro byte_of_nat) simp
  have "n mod 256 = unat c" using l(3) by (simp add: n_def mod_add_left_eq[symmetric] mod_mult_right_eq[symmetric])
  then show "of_nat n = c" by (intro byte_of_nat) simp
  show "n < 64 ^ 4" using l by (simp add: n_def)
qed

lemma group_bytes_simps:
  "group_bytes [p, q, r, s] = [of_nat ((((p * 64 + q) * 64 + r) * 64 + s) div 65536), of_nat ((((p * 64 + q) * 64 + r) * 64 + s) div 256),
     of_nat (((p * 64 + q) * 64 + r) * 64 + s)]"
  "group_bytes [p, q, r] = take 2 (group_bytes [p, q, r, 0])"
  "group_bytes [p, q] = take 1 (group_bytes [p, q, 0, 0])"
  unfolding group_bytes_def Let_def by simp_all

lemma group_bytes_digits:
  fixes a b c :: byte
  defines "n \<equiv> unat a * 65536 + unat b * 256 + unat c"
  shows "group_bytes [n div 64 ^ 3 mod 64, n div 64 ^ 2 mod 64, n div 64 ^ 1 mod 64, n div 64 ^ 0 mod 64] = [a, b, c]"
    and "c = 0 \<Longrightarrow> group_bytes [n div 64 ^ 3 mod 64, n div 64 ^ 2 mod 64, n div 64 ^ 1 mod 64] = [a, b]"
    and "c = 0 \<Longrightarrow> b = 0 \<Longrightarrow> group_bytes [n div 64 ^ 3 mod 64, n div 64 ^ 2 mod 64] = [a]"
proof -
  note v = bytes_value[of a b c, folded n_def]
  note s = sextets_value[OF v(4)]
  have z: "n div 64 ^ 0 mod 64 = 0" if "c = 0"
    using that by (simp add: n_def mod_add_left_eq[symmetric] mod_mult_right_eq[symmetric])
  have y: "n div 64 ^ 1 mod 64 = 0" if "c = 0" "b = 0"
    using that by (simp add: n_def)
  show "group_bytes [n div 64 ^ 3 mod 64, n div 64 ^ 2 mod 64, n div 64 ^ 1 mod 64, n div 64 ^ 0 mod 64] = [a, b, c]"
    by (simp only: group_bytes_simps s v(1-3))
  note full = this
  show "group_bytes [n div 64 ^ 3 mod 64, n div 64 ^ 2 mod 64, n div 64 ^ 1 mod 64] = [a, b]" if "c = 0"
    using full unfolding z[OF that] by (simp only: group_bytes_simps(2)) simp
  show "group_bytes [n div 64 ^ 3 mod 64, n div 64 ^ 2 mod 64] = [a]" if "c = 0" "b = 0"
    using full unfolding z[OF that(1)] y[OF that] by (simp only: group_bytes_simps(3)) simp
qed

theorem DecodeString_EncodeToString: "DecodeString_from si (EncodeToString bs) = Inr bs"
proof (induction bs arbitrary: si rule: EncodeToString.induct)
  case 1
  show ?case by (simp add: DecodeString_from.simps)
next
  case (2 a)
  show ?case
    using group_bytes_digits(3)[of 0 0 a]
    by (simp add: DecodeString_from.simps Let_def decode_two del: decodeQuantum.simps)
next
  case (3 a b)
  show ?case
    using group_bytes_digits(2)[of 0 a b]
    by (simp add: DecodeString_from.simps Let_def decode_three del: decodeQuantum.simps)
next
  case (4 a b c rest)
  show ?case
    using group_bytes_digits(1)[of a b c]
    by (subst DecodeString_from.simps) (simp add: Let_def decode_four "4.IH" del: decodeQuantum.simps)
qed

section \<open>Lengths\<close>

lemma length_xor_bytes [simp]: "length (xor_bytes xs ys) = min (length xs) (length ys)"
  by (simp add: xor_bytes_def)

lemma xor_bytes_twice: "length xs \<le> length ks \<Longrightarrow> xor_bytes (xor_bytes xs ks) ks = xs"
  by (rule nth_equalityI) (auto simp: xor_bytes_def xor.assoc)

lemma expand_words:
  assumes "\<forall>w \<in> set ws. length w = 4" and "0 < nk" and "nk \<le> i" and "i = length ws"
  shows "length (expand nk n i rcon ws) = length ws + n \<and> (\<forall>w \<in> set (expand nk n i rcon ws). length w = 4)"
  using assms
proof (induction nk n i rcon ws rule: expand.induct)
  case (2 nk n i rcon ws)
  have "ws \<noteq> []" using "2.prems" by auto
  then have "length (last ws) = 4" "length (ws ! (i - nk)) = 4" using "2.prems" by auto
  then have "length (next_word nk i rcon ws) = 4" by (simp add: next_word_def Let_def)
  then have "length (expand nk n (Suc i) r (ws @ [next_word nk i rcon ws])) = length (ws @ [next_word nk i rcon ws]) + n \<and>
      (\<forall>w \<in> set (expand nk n (Suc i) r (ws @ [next_word nk i rcon ws])). length w = 4)"
    if "r = (if i mod nk = 0 then xtime rcon else rcon)" for r
    unfolding that using "2.prems" by (intro "2.IH") auto
  then show ?case by simp
qed simp

lemma fours_lengths: "4 * n \<le> length xs \<Longrightarrow> length (fours n xs) = n \<and> (\<forall>w \<in> set (fours n xs). length w = 4 \<and> set w \<subseteq> set xs)"
proof (induction n xs rule: fours.induct)
  case (2 n xs)
  have "4 * n \<le> length (drop 4 xs)" using "2.prems" by simp
  note ih = "2.IH"[OF this]
  note ih1 = ih[THEN conjunct1]
  note ihw = ih[THEN conjunct2, THEN bspec]
  have ih2: "length w = 4" if w: "w \<in> set (fours n (drop 4 xs))" for w
    by (rule ihw[OF w, THEN conjunct1])
  have ih3: "set w \<subseteq> set xs" if w: "w \<in> set (fours n (drop 4 xs))" for w
    by (rule subset_trans[OF ihw[OF w, THEN conjunct2] set_drop_subset])
  have t: "length (take 4 xs) = 4" "set (take 4 xs) \<subseteq> set xs" using "2.prems" set_take_subset[of 4 xs] by simp_all
  have "length w = 4 \<and> set w \<subseteq> set xs" if "w \<in> set (fours (Suc n) xs)" for w
  proof -
    have "w = take 4 xs \<or> w \<in> set (fours n (drop 4 xs))" using that by simp
    then show ?thesis using ih2 ih3 t by blast
  qed
  moreover have "length (fours (Suc n) xs) = Suc n" using ih1 by simp
  ultimately show ?case by blast
qed simp

lemma round_keys_lengths:
  assumes "length key \<in> {16, 24, 32}"
  shows "length (round_keys key) = length key div 4 + 7" and "\<forall>k \<in> set (round_keys key). length k = 16"
proof -
  define nk where "nk = length key div 4"
  have nk: "0 < nk" "4 * nk = length key" "nk \<le> 4 * (nk + 7)" using assms by (auto simp: nk_def)
  define ws where "ws = expand nk (4 * (nk + 7) - nk) nk 1 (fours nk key)"
  have f: "length (fours nk key) = nk" "\<forall>w \<in> set (fours nk key). length w = 4" using fours_lengths[of nk key] nk by auto
  have ws: "length ws = 4 * (nk + 7)" "\<forall>w \<in> set ws. length w = 4"
    using expand_words[OF f(2) nk(1), of nk "4 * (nk + 7) - nk" 1] f(1) nk(3) by (auto simp: ws_def)
  have g: "length (fours (nk + 7) ws) = nk + 7" "\<forall>g \<in> set (fours (nk + 7) ws). length g = 4 \<and> set g \<subseteq> set ws"
    using fours_lengths[of "nk + 7" ws] ws(1) by auto
  have r: "round_keys key = map concat (fours (nk + 7) ws)" by (simp add: round_keys_def Let_def nk_def ws_def)
  show "length (round_keys key) = length key div 4 + 7" using g(1) by (simp add: r flip: nk_def)
  have "length (concat g) = 16" if "length g = 4" "set g \<subseteq> set ws" for g :: "byte list list"
  proof -
    have "\<forall>w \<in> set g. length w = 4" using that(2) ws(2) by blast
    then have "map length g = replicate (length g) 4" by (simp flip: map_replicate_const)
    then show ?thesis using that(1) by (simp add: length_concat sum_list_replicate)
  qed
  then show "\<forall>k \<in> set (round_keys key). length k = 16" using g(2) by (auto simp: r)
qed

lemma length_aes_block: "length key \<in> {16, 24, 32} \<Longrightarrow> length (aes_block key b) = 16"
proof -
  assume key: "length key \<in> {16, 24, 32}"
  have "round_keys key \<noteq> []" using round_keys_lengths(1)[OF key] by auto
  then have "length (last (round_keys key)) = 16" using round_keys_lengths(2)[OF key] last_in_set by blast
  then show ?thesis by (simp add: aes_block_def Let_def ShiftRows_def)
qed

lemma length_key_stream: "(\<And>b. length (block b) = 16) \<Longrightarrow> length (key_stream block ctr n) = n"
  by (induction block ctr n rule: key_stream.induct) (subst key_stream.simps, auto)

section \<open>Decryption undoes encryption\<close>

lemma text_of_bytes: "text_of (bytes s) = s"
  by (auto simp: text_of_def bytes_def unsigned_of_nat take_bit_eq_mod intro!: map_idI)

lemma decrypt_encrypted:
  assumes "Encrypt random SPIDER_KEY contents = Inr enc"
  shows "Decrypt SPIDER_KEY enc = Inr contents"
proof (cases random)
  case (Inr bs)
  have key: "length SPIDER_KEY \<in> {16, 24, 32}" by (simp add: SPIDER_KEY_def bytes_def)
  let ?iv = "map bs [0..<16]" and ?block = "aes_block SPIDER_KEY"
  let ?ks = "key_stream ?block ?iv (length (bytes contents))"
  have ks: "length ?ks = length (bytes contents)" by (simp add: length_key_stream length_aes_block[OF key])
  have x: "XORKeyStream ?block ?iv (XORKeyStream ?block ?iv (bytes contents)) = bytes contents"
    by (simp add: XORKeyStream_def ks xor_bytes_twice)
  have enc: "enc = EncodeToString (?iv @ XORKeyStream ?block ?iv (bytes contents))"
    using assms key Inr by (simp add: Encrypt_def NewCipher_def BlockSize_def Let_def del: upt_Suc)
  show ?thesis
    using key x by (simp add: enc Decrypt_def NewCipher_def DecodeString_def DecodeString_EncodeToString BlockSize_def text_of_bytes Let_def del: upt_Suc)
qed (use assms in \<open>simp add: Encrypt_def NewCipher_def SPIDER_KEY_def bytes_def\<close>)

text \<open>
  C26: Whatever text a credential value is, \<open>Decrypt\<close> turns what \<open>Encrypt\<close> made of it with the key of the program back
  into that text, whatever random bytes were drawn for the initial counter; encryption fails only when no random bytes
  can be drawn.
\<close>

theorem Decrypt_Encrypt:
  "case Encrypt random SPIDER_KEY contents of
     Inr enc \<Rightarrow> Decrypt SPIDER_KEY enc = Inr contents
   | Inl err \<Rightarrow> random = Inl err"
proof (cases "Encrypt random SPIDER_KEY contents")
  case (Inl err)
  then show ?thesis
    by (simp add: Encrypt_def NewCipher_def SPIDER_KEY_def bytes_def Let_def split: sum.split_asm)
qed (simp add: decrypt_encrypted)
end
