(* ===== verification/Registry.thy ===== *)
theory Registry
  imports InfoStore CredentialCrypt
begin

text \<open>
  The registries of \<open>cloud-info-manager\<close>: the drivers, credentials, regions and connection configurations that are
  registered with the program, kept in the meta database, and the meta information on the kinds of clouds that the
  registrations are checked against. The packages \<open>dim\<close>, \<open>cim\<close>, \<open>rim\<close> and \<open>ccim\<close> use the same names for their
  functions; each definition has its package's alias in front.

  The first theorems are on the check of the keys; then come the four tables, each of which is a map from names to
  rows, and what the operations do to these maps.
\<close>

section \<open>Rows\<close>

text \<open>
  Columns of key-value pairs and of zones are written as JSON text; an empty list is written like a missing one, as
  \<open>NULL\<close>, which reads as nil.
\<close>

type_synonym KVList = "KeyValue list option"
type_synonym AZList = "string list option"

definition KVList_Value :: "KVList \<Rightarrow> KVList" where
  "KVList_Value kvs = (if kvs = None \<or> kvs = Some [] then None else kvs)"

definition AZList_Value :: "AZList \<Rightarrow> AZList" where
  "AZList_Value zs = (if zs = None \<or> zs = Some [] then None else zs)"

definition elems :: "'a list option \<Rightarrow> 'a list" where
  "elems l = (case l of None \<Rightarrow> [] | Some xs \<Rightarrow> xs)"

record CloudDriverInfo =
  drv_DriverName :: string
  drv_ProviderName :: string
  drv_DriverLibFileName :: string

record CredentialInfo =
  crd_CredentialName :: string
  crd_ProviderName :: string
  crd_KeyValueInfoList :: KVList

record rim_RegionInfo =
  rgn_RegionName :: string
  rgn_ProviderName :: string
  rgn_KeyValueInfoList :: KVList
  rgn_AvailableZoneList :: AZList

record ConnectionConfigInfo =
  cfg_ConfigName :: string
  cfg_ProviderName :: string
  cfg_DriverName :: string
  cfg_CredentialName :: string
  cfg_RegionName :: string

text \<open>The columns the code selects by: the key of a table, and the provider.\<close>

datatype info_column = KEY_COLUMN_NAME | PROVIDER_NAME_COLUMN

section \<open>Environment and state\<close>

record CloudOSMetaInfo =
  meta_Region :: "string list"
  meta_Credential :: "string list"
  meta_CredentialCSP :: "string list"
  meta_RootDiskType :: "string list"
  meta_RootDiskSize :: "string list"
  meta_DiskType :: "string list"
  meta_DiskSize :: "string list"
  meta_IdMaxLength :: "string list"
  meta_DefaultRegionToQuery :: "string list"

record YamlMetaInfo =
  yaml_Region :: string
  yaml_Credential :: string
  yaml_CredentialCSP :: string
  yaml_RootDiskType :: string
  yaml_RootDiskSize :: string
  yaml_DiskType :: string
  yaml_DiskSize :: string
  yaml_IdMaxLength :: string
  yaml_DefaultRegionToQuery :: string

text \<open>
  \<open>read_yaml n file\<close> is what the \<open>n\<close>-th reading and parsing of a file gives, an error or a map; \<open>rand_Reader n\<close> what the
  \<open>n\<close>-th reading of random bytes gives. The mapper is one record for each type of rows.
\<close>

record 'd registry_env =
  CBSPIDER_ROOT :: string
  read_yaml :: "nat \<Rightarrow> string \<Rightarrow> (string \<Rightarrow> YamlMetaInfo option) go_result"
  rand_Reader :: "nat \<Rightarrow> go_error + (nat \<Rightarrow> byte)"
  tb_drivers :: "('d, unit, CloudDriverInfo, info_column) mapper"
  tb_credentials :: "('d, unit, CredentialInfo, info_column) mapper"
  tb_regions :: "('d, unit, rim_RegionInfo, info_column) mapper"
  tb_connections :: "('d, unit, ConnectionConfigInfo, info_column) mapper"

text \<open>The variable \<open>metaInfo\<close>, a map that is nil until the first use, and what has been read so far.\<close>

record 'd cim_state =
  rg_store :: "'d store"
  rg_metaInfo :: "(string \<Rightarrow> CloudOSMetaInfo option) option"
  rg_reads :: nat
  rg_draws :: nat

definition stored :: "('d store, 'a) prog \<Rightarrow> ('d cim_state, 'a) prog" where
  "stored m s = (let (r, st) = m (rg_store s) in (r, s\<lparr>rg_store := st\<rparr>))"

section \<open>Meta information on clouds\<close>

definition splitAndTrim :: "string \<Rightarrow> string list" where
  "splitAndTrim s = map TrimSpace (Split s ''/'')"

definition convertMetaInfo :: "YamlMetaInfo \<Rightarrow> CloudOSMetaInfo" where
  "convertMetaInfo v =
     \<lparr>meta_Region = splitAndTrim (yaml_Region v),
      meta_Credential = splitAndTrim (yaml_Credential v),
      meta_CredentialCSP = splitAndTrim (yaml_CredentialCSP v),
      meta_RootDiskType = splitAndTrim (yaml_RootDiskType v),
      meta_RootDiskSize = splitAndTrim (yaml_RootDiskSize v),
      meta_DiskType = splitAndTrim (yaml_DiskType v),
      meta_DiskSize = splitAndTrim (yaml_DiskSize v),
      meta_IdMaxLength = splitAndTrim (yaml_IdMaxLength v),
      meta_DefaultRegionToQuery = splitAndTrim (yaml_DefaultRegionToQuery v)\<rparr>"

definition no_meta :: CloudOSMetaInfo where
  "no_meta =
     \<lparr>meta_Region = [], meta_Credential = [], meta_CredentialCSP = [], meta_RootDiskType = [], meta_RootDiskSize = [],
      meta_DiskType = [], meta_DiskSize = [], meta_IdMaxLength = [], meta_DefaultRegionToQuery = []\<rparr>"

definition meta_at :: "(string \<Rightarrow> CloudOSMetaInfo option) \<Rightarrow> string \<Rightarrow> CloudOSMetaInfo" where
  "meta_at m k = (case m k of None \<Rightarrow> no_meta | Some v \<Rightarrow> v)"

definition getConfigFileName :: "'d registry_env \<Rightarrow> string go_result" where
  "getConfigFileName env =
     (if CBSPIDER_ROOT env = [] then Inl ''$CBSPIDER_ROOT is not set!!''
      else Inr (CBSPIDER_ROOT env @ ''/cloud-driver-libs/cloudos_meta.yaml''))"

text \<open>\<open>readMetaYaml\<close> holds its mutex twice: while it clears the map, and while it fills it with what it has read in between.\<close>

definition clearMetaInfo :: "'d cim_state \<Rightarrow> 'd cim_state" where
  "clearMetaInfo s = s\<lparr>rg_metaInfo := Some (\<lambda>_. None)\<rparr>"

definition convertAndSetMetaInfo :: "(string \<Rightarrow> YamlMetaInfo option) \<Rightarrow> 'd cim_state \<Rightarrow> 'd cim_state" where
  "convertAndSetMetaInfo yaml s =
     s\<lparr>rg_metaInfo := map_option (\<lambda>m k. case yaml k of None \<Rightarrow> m k | Some v \<Rightarrow> Some (convertMetaInfo v)) (rg_metaInfo s)\<rparr>"

definition readMetaYaml :: "'d registry_env \<Rightarrow> string \<Rightarrow> ('d cim_state, unit) prog" where
  "readMetaYaml env confFileName s =
     (let s = clearMetaInfo s; r = read_yaml env (rg_reads s) confFileName; s = s\<lparr>rg_reads := Suc (rg_reads s)\<rparr>
      in case r of Inl err \<Rightarrow> (Inl err, s) | Inr yaml \<Rightarrow> (Inr (), convertAndSetMetaInfo yaml s))"

text \<open>The caller does not look at the error of \<open>readMetaYaml\<close>.\<close>

definition GetCloudOSMetaInfo :: "'d registry_env \<Rightarrow> string \<Rightarrow> ('d cim_state, CloudOSMetaInfo) prog" where
  "GetCloudOSMetaInfo env cloudOS s =
     (let cloudOS = ToUpper cloudOS in
      case rg_metaInfo s of
        Some m \<Rightarrow> (Inr (meta_at m cloudOS), s)
      | None \<Rightarrow>
          (case getConfigFileName env of
             Inl err \<Rightarrow> (Inl err, s)
           | Inr confFileName \<Rightarrow>
               (let s = snd (readMetaYaml env confFileName s)
                in (Inr (case rg_metaInfo s of None \<Rightarrow> no_meta | Some m \<Rightarrow> meta_at m cloudOS), s))))"

section \<open>The check of the keys\<close>

definition EqualFold :: "string \<Rightarrow> string \<Rightarrow> bool" where
  "EqualFold s t \<longleftrightarrow> ToLower s = ToLower t"

text \<open>
  The list of the keys that are still missing is a slice: the array behind it, and how many of its elements belong to it.
  Removing an element moves those after it in the same array, which is what a loop over the old slice goes on to read.
\<close>

type_synonym slice = "string list \<times> nat"

definition visible :: "slice \<Rightarrow> string list" where
  "visible sl = take (snd sl) (fst sl)"

definition cloneSlice :: "string list \<Rightarrow> slice" where
  "cloneSlice xs = (xs, length xs)"

definition removeSlice :: "slice \<Rightarrow> string \<Rightarrow> slice" where
  "removeSlice sl deleteValue =
     (let (arr, n) = sl; idx = length (takeWhile (\<lambda>v. v \<noteq> deleteValue) (visible sl))
      in if idx < n then (take idx arr @ drop (Suc idx) (take n arr) @ drop (n - 1) arr, n - 1) else sl)"

definition check_at :: "string \<Rightarrow> nat \<Rightarrow> slice \<Rightarrow> slice" where
  "check_at k i sl = (let key = fst sl ! i in if EqualFold k key then removeSlice sl key else sl)"

definition check_key :: "string \<Rightarrow> slice \<Rightarrow> slice" where
  "check_key k sl = fold (check_at k) [0..<snd sl] sl"

text \<open>\<open>%v\<close> of a slice of strings.\<close>

definition show_strings :: "string list \<Rightarrow> string" where
  "show_strings xs = ''['' @ Join xs '' '' @ '']''"

definition ValidateKeyValueList :: "KeyValue list \<Rightarrow> string list \<Rightarrow> go_error option" where
  "ValidateKeyValueList inKeyValueList validKeyList =
     (if snd (fold (\<lambda>kv. check_key (kv_Key kv)) inKeyValueList (cloneSlice validKeyList)) = 0 then None
      else Some (''Invalid Key in input arguments.'' @ [CHR 0x0A, CHR 0x09] @ ''...... have '' @
        show_strings (map kv_Key inKeyValueList) @ [CHR 0x0A, CHR 0x09] @ ''...... want '' @ show_strings validKeyList))"

section \<open>Drivers\<close>

definition dim_checkParams :: "string \<Rightarrow> string \<Rightarrow> string \<Rightarrow> go_error option" where
  "dim_checkParams driverName providerName driverLibFileName =
     (if driverName = [] then Some ''DriverName is empty!''
      else if providerName = [] then Some ''ProviderName is empty!''
      else if driverLibFileName = [] then Some ''DriverLibFileName is empty!''
      else None)"

definition checkDriverLibFile :: "string \<Rightarrow> go_error option" where
  "checkDriverLibFile driverLibFileName = None"

definition checked :: "go_error option \<Rightarrow> ('s, unit) prog" where
  "checked err = (case err of Some e \<Rightarrow> throw e | None \<Rightarrow> ret ())"

definition RegisterCloudDriverInfo :: "'d registry_env \<Rightarrow> CloudDriverInfo \<Rightarrow> ('d cim_state, CloudDriverInfo) prog" where
  "RegisterCloudDriverInfo env cldInfo =
     bindP (checked (dim_checkParams (drv_DriverName cldInfo) (drv_ProviderName cldInfo) (drv_DriverLibFileName cldInfo))) (\<lambda>_.
     bindP (checked (checkDriverLibFile (drv_DriverLibFileName cldInfo))) (\<lambda>_.
     let cldInfo = cldInfo\<lparr>drv_DriverName := TrimSpace (drv_DriverName cldInfo),
                           drv_ProviderName := ToUpper (TrimSpace (drv_ProviderName cldInfo)),
                           drv_DriverLibFileName := TrimSpace (drv_DriverLibFileName cldInfo)\<rparr> in
     bindP (stored (Insert (tb_drivers env) () cldInfo)) (\<lambda>_.
     ret cldInfo)))"

definition RegisterCloudDriver :: "'d registry_env \<Rightarrow> string \<Rightarrow> string \<Rightarrow> string \<Rightarrow> ('d cim_state, CloudDriverInfo) prog" where
  "RegisterCloudDriver env driverName providerName driverLibFileName =
     RegisterCloudDriverInfo env
       \<lparr>drv_DriverName = driverName, drv_ProviderName = providerName, drv_DriverLibFileName = driverLibFileName\<rparr>"

definition ListCloudDriver :: "'d registry_env \<Rightarrow> ('d cim_state, CloudDriverInfo list) prog" where
  "ListCloudDriver env = stored (InfoStore.List (tb_drivers env) ())"

definition ListCloudDriverByProvider :: "'d registry_env \<Rightarrow> string \<Rightarrow> ('d cim_state, CloudDriverInfo list) prog" where
  "ListCloudDriverByProvider env providerName =
     (let providerName = ToUpper (TrimSpace providerName)
      in stored (ListByCondition (tb_drivers env) () PROVIDER_NAME_COLUMN providerName))"

definition dim_GetCloudDriver :: "'d registry_env \<Rightarrow> string \<Rightarrow> ('d cim_state, CloudDriverInfo) prog" where
  "dim_GetCloudDriver env driverName =
     (if driverName = [] then throw ''DriverName is empty!''
      else stored (Get (tb_drivers env) () KEY_COLUMN_NAME driverName))"

definition UnRegisterCloudDriver :: "'d registry_env \<Rightarrow> string \<Rightarrow> ('d cim_state, bool) prog" where
  "UnRegisterCloudDriver env driverName =
     (if driverName = [] then throw ''DriverName is empty!''
      else stored (Delete (tb_drivers env) () KEY_COLUMN_NAME driverName))"

section \<open>Credentials\<close>

definition cspToSpiderMap :: "CloudOSMetaInfo \<Rightarrow> string \<Rightarrow> string option" where
  "cspToSpiderMap meta = map_of (rev (zip (meta_CredentialCSP meta) (meta_Credential meta)))"

definition spider_keys :: "CloudOSMetaInfo \<Rightarrow> KeyValue list \<Rightarrow> KeyValue list" where
  "spider_keys meta kvList =
     map (\<lambda>kv. case cspToSpiderMap meta (kv_Key kv) of
         Some spiderKey \<Rightarrow> \<lparr>kv_Key = spiderKey, kv_Value = kv_Value kv\<rparr> | None \<Rightarrow> kv) kvList"

definition mapCredentialsCSPKeyToSpiderKeys :: "'d registry_env \<Rightarrow> string \<Rightarrow> KVList \<Rightarrow> ('d cim_state, KVList) prog" where
  "mapCredentialsCSPKeyToSpiderKeys env providerName kvList =
     bindP (GetCloudOSMetaInfo env (ToUpper (TrimSpace providerName))) (\<lambda>cloudOSMetaInfo.
     ret (Some (spider_keys cloudOSMetaInfo (elems kvList))))"

definition cim_checkParams :: "'d registry_env \<Rightarrow> string \<Rightarrow> string \<Rightarrow> KVList \<Rightarrow> ('d cim_state, unit) prog" where
  "cim_checkParams env credentialName providerName keyValueInfoList =
     (if credentialName = [] then throw ''CredentialName is empty!''
      else if providerName = [] then throw ''ProviderName is empty!''
      else if keyValueInfoList = None then throw ''KeyValue List is nil!''
      else
        bindP (GetCloudOSMetaInfo env providerName) (\<lambda>cloudOSMetaInfo.
        checked (ValidateKeyValueList (elems keyValueInfoList) (meta_Credential cloudOSMetaInfo))))"

definition draw_random :: "'d registry_env \<Rightarrow> ('d cim_state, go_error + (nat \<Rightarrow> byte)) prog" where
  "draw_random env s = (Inr (rand_Reader env (rg_draws s)), s\<lparr>rg_draws := Suc (rg_draws s)\<rparr>)"

fun encryptKeyValueList :: "'d registry_env \<Rightarrow> KeyValue list \<Rightarrow> ('d cim_state, KeyValue list) prog" where
  "encryptKeyValueList env [] = ret []"
| "encryptKeyValueList env (kv # kvs) =
     bindP (draw_random env) (\<lambda>random.
     bindP (lift_result (Encrypt random SPIDER_KEY (kv_Value kv))) (\<lambda>encString.
     bindP (encryptKeyValueList env kvs) (\<lambda>kvs.
     ret (kv\<lparr>kv_Value := encString\<rparr> # kvs))))"

fun decryptKeyValueList :: "KeyValue list \<Rightarrow> KeyValue list go_result" where
  "decryptKeyValueList [] = Inr []"
| "decryptKeyValueList (kv # kvs) =
     (case Decrypt SPIDER_KEY (kv_Value kv) of
        Inl err \<Rightarrow> Inl err
      | Inr decString \<Rightarrow>
          (case decryptKeyValueList kvs of
             Inl err \<Rightarrow> Inl err
           | Inr kvs \<Rightarrow> Inr (kv\<lparr>kv_Value := decString\<rparr> # kvs)))"

text \<open>
  The row is written with its list as \<open>KVList_Value\<close> makes of it. The list of hidden values that the code makes at the end
  goes nowhere: what is returned holds the encrypted values.
\<close>

definition RegisterCredentialInfo :: "'d registry_env \<Rightarrow> CredentialInfo \<Rightarrow> ('d cim_state, CredentialInfo) prog" where
  "RegisterCredentialInfo env crdInfo =
     bindP (mapCredentialsCSPKeyToSpiderKeys env (crd_ProviderName crdInfo) (crd_KeyValueInfoList crdInfo)) (\<lambda>kvInfoList.
     let crdInfo = crdInfo\<lparr>crd_KeyValueInfoList := kvInfoList\<rparr> in
     bindP (cim_checkParams env (crd_CredentialName crdInfo) (crd_ProviderName crdInfo) (crd_KeyValueInfoList crdInfo)) (\<lambda>_.
     let crdInfo = crdInfo\<lparr>crd_CredentialName := TrimSpace (crd_CredentialName crdInfo),
                           crd_ProviderName := ToUpper (TrimSpace (crd_ProviderName crdInfo))\<rparr> in
     bindP (encryptKeyValueList env (elems (crd_KeyValueInfoList crdInfo))) (\<lambda>kvs.
     let crdInfo = crdInfo\<lparr>crd_KeyValueInfoList := Some kvs\<rparr> in
     bindP (stored (Insert (tb_credentials env) () (crd_KeyValueInfoList_update KVList_Value crdInfo))) (\<lambda>_.
     ret crdInfo))))"

definition RegisterCredential :: "'d registry_env \<Rightarrow> string \<Rightarrow> string \<Rightarrow> KVList \<Rightarrow> ('d cim_state, CredentialInfo) prog" where
  "RegisterCredential env credentialName providerName keyValueInfoList =
     RegisterCredentialInfo env
       \<lparr>crd_CredentialName = credentialName, crd_ProviderName = providerName, crd_KeyValueInfoList = keyValueInfoList\<rparr>"

definition hidden :: "CredentialInfo \<Rightarrow> CredentialInfo" where
  "hidden info =
     info\<lparr>crd_KeyValueInfoList :=
       Some (map (\<lambda>kv. kv\<lparr>kv_Value := ''Hidden for security.''\<rparr>) (elems (crd_KeyValueInfoList info)))\<rparr>"

definition ListCredential :: "'d registry_env \<Rightarrow> ('d cim_state, CredentialInfo list) prog" where
  "ListCredential env =
     bindP (stored (InfoStore.List (tb_credentials env) ())) (\<lambda>credentialInfoList.
     ret (map hidden credentialInfoList))"

definition ListCredentialByProvider :: "'d registry_env \<Rightarrow> string \<Rightarrow> ('d cim_state, CredentialInfo list) prog" where
  "ListCredentialByProvider env providerName =
     (let providerName = ToUpper (TrimSpace providerName) in
     bindP (stored (ListByCondition (tb_credentials env) () PROVIDER_NAME_COLUMN providerName)) (\<lambda>credentialInfoList.
     ret (map hidden credentialInfoList)))"

definition GetCredential :: "'d registry_env \<Rightarrow> string \<Rightarrow> ('d cim_state, CredentialInfo) prog" where
  "GetCredential env credentialName =
     (if credentialName = [] then throw ''CredentialName is empty!''
      else
        bindP (stored (Get (tb_credentials env) () KEY_COLUMN_NAME credentialName)) (\<lambda>credentialInfo.
        ret (hidden credentialInfo)))"

definition GetCredentialDecrypt :: "'d registry_env \<Rightarrow> string \<Rightarrow> ('d cim_state, CredentialInfo) prog" where
  "GetCredentialDecrypt env credentialName =
     (if credentialName = [] then throw ''CredentialName is empty!''
      else
        bindP (stored (Get (tb_credentials env) () KEY_COLUMN_NAME credentialName)) (\<lambda>credentialInfo.
        case crd_KeyValueInfoList credentialInfo of
          None \<Rightarrow> ret credentialInfo
        | Some kvs \<Rightarrow>
            bindP (lift_result (decryptKeyValueList kvs)) (\<lambda>kvs.
            ret (credentialInfo\<lparr>crd_KeyValueInfoList := Some kvs\<rparr>))))"

definition UnRegisterCredential :: "'d registry_env \<Rightarrow> string \<Rightarrow> ('d cim_state, bool) prog" where
  "UnRegisterCredential env credentialName =
     (if credentialName = [] then throw ''CredentialName is empty!''
      else stored (Delete (tb_credentials env) () KEY_COLUMN_NAME credentialName))"

section \<open>Regions\<close>

definition rim_checkParams :: "'d registry_env \<Rightarrow> string \<Rightarrow> string \<Rightarrow> KVList \<Rightarrow> ('d cim_state, unit) prog" where
  "rim_checkParams env regionName providerName keyValueInfoList =
     (if regionName = [] then throw ''RegionName is empty!''
      else if providerName = [] then throw ''ProviderName is empty!''
      else if keyValueInfoList = None then throw ''KeyValue List is nil!''
      else
        bindP (GetCloudOSMetaInfo env providerName) (\<lambda>cloudOSMetaInfo.
        checked (ValidateKeyValueList (elems keyValueInfoList) (meta_Region cloudOSMetaInfo))))"

definition RegisterRegionInfo :: "'d registry_env \<Rightarrow> rim_RegionInfo \<Rightarrow> ('d cim_state, rim_RegionInfo) prog" where
  "RegisterRegionInfo env rgnInfo =
     bindP (rim_checkParams env (rgn_RegionName rgnInfo) (rgn_ProviderName rgnInfo) (rgn_KeyValueInfoList rgnInfo)) (\<lambda>_.
     let rgnInfo = rgnInfo\<lparr>rgn_RegionName := TrimSpace (rgn_RegionName rgnInfo),
                           rgn_ProviderName := ToUpper (TrimSpace (rgn_ProviderName rgnInfo))\<rparr> in
     bindP (stored (Insert (tb_regions env) ()
       (rgn_KeyValueInfoList_update KVList_Value (rgn_AvailableZoneList_update AZList_Value rgnInfo)))) (\<lambda>_.
     ret rgnInfo))"

definition RegisterRegion :: "'d registry_env \<Rightarrow> string \<Rightarrow> string \<Rightarrow> KVList \<Rightarrow> AZList \<Rightarrow> ('d cim_state, rim_RegionInfo) prog" where
  "RegisterRegion env regionName providerName keyValueInfoList azList =
     RegisterRegionInfo env
       \<lparr>rgn_RegionName = regionName, rgn_ProviderName = providerName, rgn_KeyValueInfoList = keyValueInfoList,
        rgn_AvailableZoneList = azList\<rparr>"

definition ListRegion :: "'d registry_env \<Rightarrow> ('d cim_state, rim_RegionInfo list) prog" where
  "ListRegion env = stored (InfoStore.List (tb_regions env) ())"

definition ListRegionByProvider :: "'d registry_env \<Rightarrow> string \<Rightarrow> ('d cim_state, rim_RegionInfo list) prog" where
  "ListRegionByProvider env providerName =
     (let providerName = ToUpper (TrimSpace providerName)
      in stored (ListByCondition (tb_regions env) () PROVIDER_NAME_COLUMN providerName))"

definition GetRegion :: "'d registry_env \<Rightarrow> string \<Rightarrow> ('d cim_state, rim_RegionInfo) prog" where
  "GetRegion env regionName =
     (if regionName = [] then throw ''RegionName is empty!''
      else stored (Get (tb_regions env) () KEY_COLUMN_NAME regionName))"

definition UnRegisterRegion :: "'d registry_env \<Rightarrow> string \<Rightarrow> ('d cim_state, bool) prog" where
  "UnRegisterRegion env regionName =
     (if regionName = [] then throw ''RegionName is empty!''
      else stored (Delete (tb_regions env) () KEY_COLUMN_NAME regionName))"

section \<open>Connection configurations\<close>

definition ccim_checkParams :: "string \<Rightarrow> string \<Rightarrow> string \<Rightarrow> string \<Rightarrow> string \<Rightarrow> go_error option" where
  "ccim_checkParams configName providerName driverName credentialName regionName =
     (if configName = [] then Some ''ConfigName is empty!''
      else if providerName = [] then Some ''ProviderName is empty!''
      else if driverName = [] then Some ''DriverName is empty!''
      else if credentialName = [] then Some ''CredentialName is empty!''
      else if regionName = [] then Some ''RegionName is empty!''
      else None)"

definition CreateConnectionConfigInfo ::
    "'d registry_env \<Rightarrow> ConnectionConfigInfo \<Rightarrow> ('d cim_state, ConnectionConfigInfo) prog" where
  "CreateConnectionConfigInfo env configInfo =
     bindP (checked (ccim_checkParams (cfg_ConfigName configInfo) (cfg_ProviderName configInfo) (cfg_DriverName configInfo)
       (cfg_CredentialName configInfo) (cfg_RegionName configInfo))) (\<lambda>_.
     let configInfo = \<lparr>cfg_ConfigName = TrimSpace (cfg_ConfigName configInfo),
                       cfg_ProviderName = ToUpper (TrimSpace (cfg_ProviderName configInfo)),
                       cfg_DriverName = TrimSpace (cfg_DriverName configInfo),
                       cfg_CredentialName = TrimSpace (cfg_CredentialName configInfo),
                       cfg_RegionName = TrimSpace (cfg_RegionName configInfo)\<rparr> in
     bindP (stored (Insert (tb_connections env) () configInfo)) (\<lambda>_.
     ret configInfo))"

definition CreateConnectionConfig ::
    "'d registry_env \<Rightarrow> string \<Rightarrow> string \<Rightarrow> string \<Rightarrow> string \<Rightarrow> string \<Rightarrow> ('d cim_state, ConnectionConfigInfo) prog" where
  "CreateConnectionConfig env configName providerName driverName credentialName regionName =
     CreateConnectionConfigInfo env
       \<lparr>cfg_ConfigName = configName, cfg_ProviderName = providerName, cfg_DriverName = driverName,
        cfg_CredentialName = credentialName, cfg_RegionName = regionName\<rparr>"

definition ListConnectionConfig :: "'d registry_env \<Rightarrow> ('d cim_state, ConnectionConfigInfo list) prog" where
  "ListConnectionConfig env = stored (InfoStore.List (tb_connections env) ())"

definition GetConnectionConfig :: "'d registry_env \<Rightarrow> string \<Rightarrow> ('d cim_state, ConnectionConfigInfo) prog" where
  "GetConnectionConfig env configName =
     (if configName = [] then throw ''ConfigName is empty!''
      else stored (Get (tb_connections env) () KEY_COLUMN_NAME configName))"

definition DeleteConnectionConfig :: "'d registry_env \<Rightarrow> string \<Rightarrow> ('d cim_state, bool) prog" where
  "DeleteConnectionConfig env configName =
     (if configName = [] then throw ''ConfigName is empty!''
      else stored (Delete (tb_connections env) () KEY_COLUMN_NAME configName))"

definition ccim_CountAllConnections :: "'d registry_env \<Rightarrow> ('d cim_state, nat) prog" where
  "ccim_CountAllConnections env = stored (CountAllConnections (tb_connections env) ())"

definition ccim_CountConnectionsByProvider :: "'d registry_env \<Rightarrow> string \<Rightarrow> ('d cim_state, nat) prog" where
  "ccim_CountConnectionsByProvider env providerName =
     (let providerName = ToUpper (TrimSpace providerName)
      in stored (CountConnectionsByProvider (tb_connections env) () PROVIDER_NAME_COLUMN providerName))"

section \<open>Which keys the check accepts\<close>

lemma EqualFold_sym: "EqualFold s t = EqualFold t s"
  by (auto simp: EqualFold_def)

definition slice_ok :: "slice \<Rightarrow> bool" where
  "slice_ok sl \<longleftrightarrow> snd sl \<le> length (fst sl)"

lemma length_visible: "slice_ok sl \<Longrightarrow> length (visible sl) = snd sl"
  by (simp add: slice_ok_def visible_def)

lemma removeSlice_absent:
  assumes "slice_ok sl" and "v \<notin> set (visible sl)"
  shows "removeSlice sl v = sl"
proof -
  have "takeWhile (\<lambda>w. w \<noteq> v) (visible sl) = visible sl" using assms(2) by (auto simp: takeWhile_eq_all_conv)
  then have "length (takeWhile (\<lambda>w. w \<noteq> v) (visible sl)) = snd sl" using length_visible[OF assms(1)] by metis
  then show ?thesis by (cases sl) (simp add: removeSlice_def Let_def)
qed

lemma removeSlice_present:
  assumes "v \<in> set (visible sl)" and "snd sl \<le> length (fst sl)"
  shows "visible (removeSlice sl v) = remove1 v (visible sl)" and "snd (removeSlice sl v) = snd sl - 1"
    and "length (fst (removeSlice sl v)) = length (fst sl)"
proof -
  obtain arr n where sl: "sl = (arr, n)" by (cases sl)
  have n: "length (take n arr) = n" using assms(2) by (simp add: sl)
  obtain ls rs where x: "take n arr = ls @ v # rs" "v \<notin> set ls"
    using assms(1) by (auto simp: sl visible_def dest: split_list_first)
  have idx: "length (takeWhile (\<lambda>w. w \<noteq> v) (take n arr)) = length ls"
    unfolding x(1) using x(2) by (subst takeWhile_append2) auto
  have lt: "length ls < n" and l: "n - 1 = length ls + length rs" using n x(1) by (metis length_append length_Cons add_Suc_right less_add_Suc1, metis length_append length_Cons add_Suc_right diff_Suc_1)
  have "take (length ls) arr = ls" using x(1) lt by (metis append_eq_conv_conj min.absorb1 nat_less_le take_take)
  moreover have "drop (Suc (length ls)) (take n arr) = rs" unfolding x(1) by simp
  ultimately have r: "removeSlice sl v = (ls @ rs @ drop (n - 1) arr, n - 1)"
    by (simp add: removeSlice_def sl visible_def idx lt Let_def)
  have "visible (removeSlice sl v) = ls @ rs" unfolding r visible_def fst_conv snd_conv l by simp
  moreover have "remove1 v (visible sl) = ls @ rs" using x by (simp add: visible_def sl remove1_append)
  ultimately show "visible (removeSlice sl v) = remove1 v (visible sl)" by simp
  show "snd (removeSlice sl v) = snd sl - 1" unfolding r by (simp add: sl)
  show "length (fst (removeSlice sl v)) = length (fst sl)" using assms(2) lt l unfolding r by (simp add: sl)
qed

lemma check_at_keeps:
  assumes "slice_ok sl"
  shows "slice_ok (check_at k i sl)"
    and "filter (\<lambda>x. \<not> EqualFold k x) (visible (check_at k i sl)) = filter (\<lambda>x. \<not> EqualFold k x) (visible sl)"
proof -
  let ?key = "fst sl ! i"
  consider "\<not> EqualFold k ?key" | "?key \<notin> set (visible sl)" | "EqualFold k ?key" "?key \<in> set (visible sl)" by blast
  then have "slice_ok (check_at k i sl) \<and>
    filter (\<lambda>x. \<not> EqualFold k x) (visible (check_at k i sl)) = filter (\<lambda>x. \<not> EqualFold k x) (visible sl)"
  proof cases
    case 3
    then show ?thesis
      using removeSlice_present[OF 3(2)] assms by (simp add: slice_ok_def check_at_def Let_def filter_remove1 remove1_idem)
  qed (use assms in \<open>simp_all add: check_at_def removeSlice_absent[OF assms] Let_def\<close>)
  then show "slice_ok (check_at k i sl)"
    and "filter (\<lambda>x. \<not> EqualFold k x) (visible (check_at k i sl)) = filter (\<lambda>x. \<not> EqualFold k x) (visible sl)" by blast+
qed

lemma check_loop_keeps:
  "slice_ok sl \<Longrightarrow> slice_ok (fold (check_at k) is sl) \<and>
     filter (\<lambda>x. \<not> EqualFold k x) (visible (fold (check_at k) is sl)) = filter (\<lambda>x. \<not> EqualFold k x) (visible sl)"
  by (induction "is" arbitrary: sl) (simp_all add: check_at_keeps)

lemma check_at_none: "slice_ok sl \<Longrightarrow> (\<And>x. x \<in> set (visible sl) \<Longrightarrow> \<not> EqualFold k x) \<Longrightarrow> check_at k i sl = sl"
  by (auto simp: check_at_def Let_def intro: removeSlice_absent)

lemma check_loop_none: "slice_ok sl \<Longrightarrow> (\<And>x. x \<in> set (visible sl) \<Longrightarrow> \<not> EqualFold k x) \<Longrightarrow> fold (check_at k) is sl = sl"
  by (induction "is") (simp_all add: check_at_none)

lemma check_loop_prefix: "(\<And>i. i \<in> set is \<Longrightarrow> \<not> EqualFold k (fst sl ! i)) \<Longrightarrow> fold (check_at k) is sl = sl"
  by (induction "is") (simp_all add: check_at_def Let_def)

text \<open>When no two keys are the same up to case, the loop removes exactly the keys that the input key matches.\<close>

lemma check_key_visible:
  assumes "slice_ok sl" and d: "distinct (map ToLower (visible sl))"
  shows "visible (check_key k sl) = filter (\<lambda>x. \<not> EqualFold k x) (visible sl)"
proof (cases "\<exists>x \<in> set (visible sl). EqualFold k x")
  case False
  then have "check_key k sl = sl" unfolding check_key_def using assms(1) by (intro check_loop_none) blast+
  then show ?thesis using False by (auto simp: filter_id_conv)
next
  case True
  have len: "length (visible sl) = snd sl" using assms(1) by (simp add: slice_ok_def visible_def)
  have nth: "visible sl ! i = fst sl ! i" if "i < snd sl" for i using that by (simp add: visible_def)
  obtain j where j: "j < snd sl" "EqualFold k (fst sl ! j)" using True len nth by (metis in_set_conv_nth)
  have one: "i = j" if "i < snd sl" "EqualFold k (fst sl ! i)" for i
  proof -
    have "map ToLower (visible sl) ! i = map ToLower (visible sl) ! j" using that j len nth by (simp add: EqualFold_def)
    then show "i = j" using nth_eq_iff_index_eq[OF d, of i j] that(1) j(1) len by simp
  qed
  let ?v = "fst sl ! j" let ?sl = "removeSlice sl ?v"
  have v: "?v \<in> set (visible sl)" using j(1) len nth by (metis nth_mem)
  have r: "visible ?sl = remove1 ?v (visible sl)" using removeSlice_present(1)[OF v] assms(1) by (simp add: slice_ok_def)
  have sl_ok: "slice_ok ?sl" using removeSlice_present(2,3)[OF v] assms(1) by (simp add: slice_ok_def)
  have ds: "distinct (visible sl)" using d by (simp add: distinct_map)
  have none: "\<not> EqualFold k x" if x: "x \<in> set (visible ?sl)" for x
  proof
    assume "EqualFold k x"
    moreover have "x \<noteq> ?v" "x \<in> set (visible sl)" using x ds by (auto simp: r)
    then obtain i where "i < snd sl" "fst sl ! i = x" using len nth by (metis in_set_conv_nth)
    ultimately show False using one \<open>x \<noteq> ?v\<close> by blast
  qed
  have "[0..<snd sl] = [0..<j] @ j # [Suc j..<snd sl]" using j(1) by (metis less_imp_le_nat upt_add_eq_append upt_conv_Cons zero_le le_add_diff_inverse add_0)
  then have "check_key k sl = fold (check_at k) [Suc j..<snd sl] (check_at k j (fold (check_at k) [0..<j] sl))"
    unfolding check_key_def by simp
  also have "fold (check_at k) [0..<j] sl = sl" 
  proof (rule check_loop_prefix)
    fix i assume "i \<in> set [0..<j]"
    then show "\<not> EqualFold k (fst sl ! i)" using one[of i] j(1) by auto
  qed
  also have "check_at k j sl = ?sl" using j(2) by (simp add: check_at_def Let_def)
  also have "fold (check_at k) [Suc j..<snd sl] ?sl = ?sl" by (rule check_loop_none[OF sl_ok none])
  finally have "visible (check_key k sl) = visible ?sl" by simp
  also have "\<dots> = filter (\<lambda>x. \<not> EqualFold k x) (visible ?sl)" using none by (simp add: filter_id_conv)
  also have "\<dots> = filter (\<lambda>x. \<not> EqualFold k x) (visible sl)" using check_at_keeps(2)[OF assms(1), of k j] j(2) by (simp add: check_at_def Let_def)
  finally show ?thesis .
qed

lemma check_key_keeps:
  "slice_ok sl \<Longrightarrow> slice_ok (check_key k sl) \<and>
     filter (\<lambda>x. \<not> EqualFold k x) (visible (check_key k sl)) = filter (\<lambda>x. \<not> EqualFold k x) (visible sl)"
  unfolding check_key_def by (rule check_loop_keeps)

lemma check_all_visible:
  "slice_ok sl \<Longrightarrow> distinct (map ToLower (visible sl)) \<Longrightarrow>
     slice_ok (fold (\<lambda>kv. check_key (kv_Key kv)) kvs sl) \<and>
     visible (fold (\<lambda>kv. check_key (kv_Key kv)) kvs sl) = filter (\<lambda>x. \<forall>kv \<in> set kvs. \<not> EqualFold (kv_Key kv) x) (visible sl)"
proof (induction kvs arbitrary: sl)
  case (Cons kv kvs)
  let ?sl = "check_key (kv_Key kv) sl"
  have v: "visible ?sl = filter (\<lambda>x. \<not> EqualFold (kv_Key kv) x) (visible sl)" by (rule check_key_visible[OF Cons.prems])
  have "slice_ok ?sl" using check_key_keeps[OF Cons.prems(1)] by blast
  moreover have "distinct (map ToLower (visible ?sl))" using Cons.prems(2) unfolding v by (rule distinct_map_filter)
  ultimately show ?case using Cons.IH[of ?sl] by (auto simp: v intro: filter_cong)
qed simp

lemma visible_empty: "slice_ok sl \<Longrightarrow> snd sl = 0 \<longleftrightarrow> visible sl = []"
  by (auto simp: slice_ok_def visible_def)

lemma slice_ok_clone: "slice_ok (cloneSlice xs)" and visible_clone: "visible (cloneSlice xs) = xs"
  by (simp_all add: slice_ok_def cloneSlice_def visible_def)

text \<open>
  C27: When no two of the valid keys are the same up to case, the check of a key-value list, which removes from a slice
  while it ranges over it, accepts the list exactly when every valid key is among its keys up to case; keys that are not
  valid are let through.
\<close>

theorem ValidateKeyValueList_iff:
  assumes "distinct (map ToLower validKeyList)"
  shows "ValidateKeyValueList inKeyValueList validKeyList = None \<longleftrightarrow>
    (\<forall>key \<in> set validKeyList. \<exists>kv \<in> set inKeyValueList. EqualFold (kv_Key kv) key)"
  using check_all_visible[OF slice_ok_clone, of validKeyList inKeyValueList] assms
  by (simp add: visible_clone ValidateKeyValueList_def visible_empty filter_empty_conv)

theorem ValidateKeyValueList_iff_witness:
  "ValidateKeyValueList [\<lparr>kv_Key = ''zone'', kv_Value = ''z''\<rparr>, \<lparr>kv_Key = ''REGION'', kv_Value = ''r''\<rparr>] [''Region'', ''Zone''] = None \<longleftrightarrow>
    (\<forall>key \<in> set [''Region'', ''Zone'']. \<exists>kv \<in> set [\<lparr>kv_Key = ''zone'', kv_Value = ''z''\<rparr>, \<lparr>kv_Key = ''REGION'', kv_Value = ''r''\<rparr>].
      EqualFold (kv_Key kv) key)"
  by (rule ValidateKeyValueList_iff) code_simp

text \<open>
  A check without valid keys accepts everything. With two valid keys that differ only in case, the removal makes the loop
  step over a key: here the list has every valid key and is refused.
\<close>

lemma ValidateKeyValueList_none: "ValidateKeyValueList kvs [] = None"
  by (simp add: ValidateKeyValueList_iff)

lemma ValidateKeyValueList_steps_over:
  "ValidateKeyValueList [\<lparr>kv_Key = ''a'', kv_Value = []\<rparr>, \<lparr>kv_Key = ''b'', kv_Value = []\<rparr>] [''a'', ''A'', ''b''] \<noteq> None"
  by code_simp

end
