(* ===== verification/RegistryTables.thy ===== *)
theory RegistryTables
  imports Registry
begin

text \<open>
  The registries as maps from names to rows: what the program relies on of its object-relational mapper, the interface
  \<open>info_table\<close> that the tables of drivers, credentials, regions and connection configurations implement, and what each
  registration does to the maps.
\<close>

section \<open>What the program relies on\<close>

text \<open>
  The contents of the meta database, as far as the registries are concerned: a map from names to rows for each table.
\<close>

record views =
  v_drivers :: "string \<Rightarrow> CloudDriverInfo option"
  v_credentials :: "string \<Rightarrow> CredentialInfo option"
  v_regions :: "string \<Rightarrow> rim_RegionInfo option"
  v_connections :: "string \<Rightarrow> ConnectionConfigInfo option"

fun drv_column :: "info_column \<Rightarrow> CloudDriverInfo \<Rightarrow> string" where
  "drv_column KEY_COLUMN_NAME = drv_DriverName"
| "drv_column PROVIDER_NAME_COLUMN = drv_ProviderName"

fun crd_column :: "info_column \<Rightarrow> CredentialInfo \<Rightarrow> string" where
  "crd_column KEY_COLUMN_NAME = crd_CredentialName"
| "crd_column PROVIDER_NAME_COLUMN = crd_ProviderName"

fun rgn_column :: "info_column \<Rightarrow> rim_RegionInfo \<Rightarrow> string" where
  "rgn_column KEY_COLUMN_NAME = rgn_RegionName"
| "rgn_column PROVIDER_NAME_COLUMN = rgn_ProviderName"

fun cfg_column :: "info_column \<Rightarrow> ConnectionConfigInfo \<Rightarrow> string" where
  "cfg_column KEY_COLUMN_NAME = cfg_ConfigName"
| "cfg_column PROVIDER_NAME_COLUMN = cfg_ProviderName"

text \<open>
  A mapper handles one of the tables as documented: \<open>Save\<close> inserts a row or replaces the one with its key, \<open>Find\<close> and
  \<open>First\<close> read the rows of a name or of a provider, or all, \<open>Delete\<close> removes the row of a name, \<open>Count\<close> counts; a call
  that fails changes nothing, and no call changes another table. The part \<open>get\<close> of the contents is the table.
\<close>

definition rows_of :: "('k \<Rightarrow> 'r \<Rightarrow> string) \<Rightarrow> ('k \<times> string) list \<Rightarrow> (string \<Rightarrow> 'r option) \<Rightarrow> 'r set" where
  "rows_of column eqs m = {r \<in> ran m. \<forall>(c, v) \<in> set eqs. column c r = v}"

definition conds :: "('k \<times> string) list \<Rightarrow> 'k cond list" where
  "conds eqs = map (\<lambda>(c, v). CEq c v) eqs"

definition table_ok :: "('d, unit, 'r, info_column) mapper \<Rightarrow> ('d \<Rightarrow> views) \<Rightarrow> (info_column \<Rightarrow> 'r \<Rightarrow> string) \<Rightarrow>
    (views \<Rightarrow> string \<Rightarrow> 'r option) \<Rightarrow> (((string \<Rightarrow> 'r option) \<Rightarrow> string \<Rightarrow> 'r option) \<Rightarrow> views \<Rightarrow> views) \<Rightarrow> bool" where
  "table_ok G V column get upd \<longleftrightarrow>
     (\<forall>d n r. get (V d) n = Some r \<longrightarrow> column KEY_COLUMN_NAME r = n) \<and>
     (\<forall>d. V (snd (g_open G d)) = V d) \<and>
     (\<forall>r d. V (snd (g_save G () r d)) =
        (if fst (g_save G () r d) = None then upd (\<lambda>m. m(column KEY_COLUMN_NAME r \<mapsto> r)) (V d) else V d)) \<and>
     (\<forall>eqs d. V (snd (g_find G () (conds eqs) d)) = V d \<and>
        (\<forall>rs. fst (g_find G () (conds eqs) d) = Inr rs \<longrightarrow> set rs = rows_of column eqs (get (V d)) \<and> distinct rs)) \<and>
     (\<forall>n d. V (snd (g_first G () [CEq KEY_COLUMN_NAME n] d)) = V d \<and>
        (\<forall>r. fst (g_first G () [CEq KEY_COLUMN_NAME n] d) = Inr r \<longrightarrow> get (V d) n = Some r) \<and>
        (fst (g_first G () [CEq KEY_COLUMN_NAME n] d) = Inl ErrRecordNotFound \<longrightarrow> get (V d) n = None)) \<and>
     (\<forall>n d. V (snd (g_delete G () None [CEq KEY_COLUMN_NAME n] d)) =
        (if fst (g_delete G () None [CEq KEY_COLUMN_NAME n] d) = None then upd (\<lambda>m. m(n := None)) (V d) else V d)) \<and>
     (\<forall>eqs d. V (snd (g_count G () (conds eqs) d)) = V d \<and>
        (\<forall>k. fst (g_count G () (conds eqs) d) = Inr k \<longrightarrow> k = card (rows_of column eqs (get (V d)))))"

definition registry_ok :: "'d registry_env \<Rightarrow> ('d \<Rightarrow> views) \<Rightarrow> bool" where
  "registry_ok env V \<longleftrightarrow>
     table_ok (tb_drivers env) V drv_column v_drivers v_drivers_update \<and>
     table_ok (tb_credentials env) V crd_column v_credentials v_credentials_update \<and>
     table_ok (tb_regions env) V rgn_column v_regions v_regions_update \<and>
     table_ok (tb_connections env) V cfg_column v_connections v_connections_update"

definition viewed :: "('d \<Rightarrow> views) \<Rightarrow> 'd cim_state \<Rightarrow> views" where
  "viewed V s = V (st_db (rg_store s))"

section \<open>The interface of a table\<close>

text \<open>
  What the four packages share: a table, as the part \<open>get\<close> of a view of the state, with the operations to save a row,
  to fetch the row of a name, to remove it, and to list and to count rows. A failed operation changes nothing.
\<close>

locale info_table =
  fixes ok :: bool
    and view :: "'s \<Rightarrow> 'v"
    and get :: "'v \<Rightarrow> string \<Rightarrow> 'r option"
    and upd :: "((string \<Rightarrow> 'r option) \<Rightarrow> string \<Rightarrow> 'r option) \<Rightarrow> 'v \<Rightarrow> 'v"
    and column :: "info_column \<Rightarrow> 'r \<Rightarrow> string"
    and save :: "'r \<Rightarrow> ('s, unit) prog"
    and fetch :: "string \<Rightarrow> ('s, 'r) prog"
    and remove :: "string \<Rightarrow> ('s, bool) prog"
    and list_all :: "('s, 'r list) prog"
    and list_by :: "string \<Rightarrow> ('s, 'r list) prog"
  assumes get_upd: "get (upd f v) = f (get v)"
    and save_law: "ok \<Longrightarrow> wp (save r) (\<lambda>_ s'. view s' = upd (\<lambda>m. m(column KEY_COLUMN_NAME r \<mapsto> r)) (view s))
      (\<lambda>_ s'. view s' = view s) s"
    and fetch_law: "ok \<Longrightarrow> wp (fetch n) (\<lambda>r s'. view s' = view s \<and> get (view s) n = Some r) (\<lambda>_ s'. view s' = view s) s"
    and remove_law: "ok \<Longrightarrow> wp (remove n) (\<lambda>b s'. b \<and> view s' = upd (\<lambda>m. m(n := None)) (view s)) (\<lambda>_ s'. view s' = view s) s"
    and list_all_law: "ok \<Longrightarrow> wp list_all (\<lambda>rs s'. view s' = view s \<and> set rs = ran (get (view s)) \<and> distinct rs)
      (\<lambda>_ s'. view s' = view s) s"
    and list_by_law: "ok \<Longrightarrow> wp (list_by p)
      (\<lambda>rs s'. view s' = view s \<and> set rs = {r \<in> ran (get (view s)). column PROVIDER_NAME_COLUMN r = p} \<and> distinct rs)
      (\<lambda>_ s'. view s' = view s) s"
begin

lemma save_wp:
  assumes "ok" and "\<And>s'. view s' = upd (\<lambda>m. m(column KEY_COLUMN_NAME r \<mapsto> r)) (view s) \<Longrightarrow> Q () s'"
    and "\<And>e s'. view s' = view s \<Longrightarrow> E e s'"
  shows "wp (save r) Q E s"
  using save_law[OF assms(1), of r s] by (rule wp_mono) (use assms in auto)

lemma fetch_wp:
  assumes "ok" and "\<And>r s'. view s' = view s \<Longrightarrow> get (view s) n = Some r \<Longrightarrow> Q r s'" and "\<And>e s'. view s' = view s \<Longrightarrow> E e s'"
  shows "wp (fetch n) Q E s"
  using fetch_law[OF assms(1), of n s] by (rule wp_mono) (use assms in auto)

lemma remove_wp:
  assumes "ok" and "\<And>s'. view s' = upd (\<lambda>m. m(n := None)) (view s) \<Longrightarrow> Q True s'" and "\<And>e s'. view s' = view s \<Longrightarrow> E e s'"
  shows "wp (remove n) Q E s"
  using remove_law[OF assms(1), of n s] by (rule wp_mono) (use assms in auto)

lemma list_all_wp:
  assumes "ok" and "\<And>rs s'. view s' = view s \<Longrightarrow> set rs = ran (get (view s)) \<Longrightarrow> distinct rs \<Longrightarrow> Q rs s'"
    and "\<And>e s'. view s' = view s \<Longrightarrow> E e s'"
  shows "wp list_all Q E s"
  using list_all_law[OF assms(1), of s] by (rule wp_mono) (use assms in auto)

lemma list_by_wp:
  assumes "ok" and "\<And>rs s'. view s' = view s \<Longrightarrow> set rs = {r \<in> ran (get (view s)). column PROVIDER_NAME_COLUMN r = p} \<Longrightarrow>
      distinct rs \<Longrightarrow> Q rs s'"
    and "\<And>e s'. view s' = view s \<Longrightarrow> E e s'"
  shows "wp (list_by p) Q E s"
  using list_by_law[OF assms(1), of p s] by (rule wp_mono) (use assms in auto)

text \<open>A row that was saved is what is fetched by its name, until it is removed.\<close>

lemma save_then_fetch:
  assumes "ok"
  shows "wp (bindP (save r) (\<lambda>_. fetch (column KEY_COLUMN_NAME r))) (\<lambda>r' _. r' = r) (\<lambda>_ _. True) s"
  unfolding wp_bindP by (rule save_wp[OF assms]; (rule fetch_wp[OF assms])?) (auto simp: get_upd)

lemma remove_then_fetch:
  assumes "ok"
  shows "wp (bindP (remove n) (\<lambda>_. fetch n)) (\<lambda>_ _. False) (\<lambda>_ _. True) s"
  unfolding wp_bindP by (rule remove_wp[OF assms]; (rule fetch_wp[OF assms])?) (auto simp: get_upd)

end

section \<open>The tables implement it\<close>

lemma conds_simps: "conds [] = []" "conds [(c, v)] = [CEq c v]"
  by (simp_all add: conds_def)

lemma wp_stored [wp_simps]:
  "wp (stored m) Q E s = wp m (\<lambda>x st. Q x (s\<lparr>rg_store := st\<rparr>)) (\<lambda>e st. E e (s\<lparr>rg_store := st\<rparr>)) (rg_store s)"
  by (simp add: wp_def stored_def split: prod.split sum.split)

lemma wp_checked [wp_simps]: "wp (checked err) Q E s = (case err of Some e \<Rightarrow> E e s | None \<Rightarrow> Q () s)"
  by (simp add: checked_def wp_simps split: option.split)

lemma wp_checkedI: "(err = None \<Longrightarrow> Q () s) \<Longrightarrow> (\<And>e. E e s) \<Longrightarrow> wp (checked err) Q E s"
  by (simp add: wp_checked split: option.split)

lemma table_okD:
  assumes "table_ok G V column get upd"
  shows "get (V d) n = Some r \<Longrightarrow> column KEY_COLUMN_NAME r = n"
    and "V (snd (g_open G d)) = V d"
    and "V (snd (g_save G () r d)) =
      (if fst (g_save G () r d) = None then upd (\<lambda>m. m(column KEY_COLUMN_NAME r \<mapsto> r)) (V d) else V d)"
    and "V (snd (g_find G () (conds eqs) d)) = V d"
    and "fst (g_find G () (conds eqs) d) = Inr rs \<Longrightarrow> set rs = rows_of column eqs (get (V d)) \<and> distinct rs"
    and "V (snd (g_first G () [CEq KEY_COLUMN_NAME n] d)) = V d"
    and "fst (g_first G () [CEq KEY_COLUMN_NAME n] d) = Inr r \<Longrightarrow> get (V d) n = Some r"
    and "V (snd (g_delete G () None [CEq KEY_COLUMN_NAME n] d)) =
      (if fst (g_delete G () None [CEq KEY_COLUMN_NAME n] d) = None then upd (\<lambda>m. m(n := None)) (V d) else V d)"
    and "V (snd (g_count G () (conds eqs) d)) = V d"
    and "fst (g_count G () (conds eqs) d) = Inr k \<Longrightarrow> k = card (rows_of column eqs (get (V d)))"
  using assms unfolding table_ok_def by blast+

lemma open_wp:
  assumes "table_ok G V column get upd" and "\<And>s'. V (st_db s') = V (st_db s) \<Longrightarrow> Q () s'"
    and "\<And>e s'. V (st_db s') = V (st_db s) \<Longrightarrow> E e s'"
  shows "wp (Open G) Q E s"
  using assms(2,3) table_okD(2)[OF assms(1), of "st_db s"]
  by (auto simp: wp_def Open_def Let_def split: option.splits prod.splits)

text \<open>One rule for each operation of the package \<open>infostore\<close> on one of these tables.\<close>

lemma table_save:
  assumes "table_ok G V column get upd"
  shows "wp (Insert G () r) (\<lambda>_ st. V (st_db st) = upd (\<lambda>m. m(column KEY_COLUMN_NAME r \<mapsto> r)) (V (st_db st0)))
      (\<lambda>_ st. V (st_db st) = V (st_db st0)) st0"
  unfolding Insert_def wp_bindP[of "Open G"]
  by (rule open_wp[OF assms]) (simp_all add: wp_simps table_okD(3)[OF assms] split: option.split)

lemma table_find:
  assumes "table_ok G V column get upd"
  shows "wp (bindP (Open G) (\<lambda>_. bindP (onDB (g_find G () (conds eqs))) (\<lambda>r. case r of Inl e \<Rightarrow> throw (gorm_msg e) | Inr rows \<Rightarrow> ret rows)))
      (\<lambda>rs st. V (st_db st) = V (st_db st0) \<and> set rs = rows_of column eqs (get (V (st_db st0))) \<and> distinct rs)
      (\<lambda>_ st. V (st_db st) = V (st_db st0)) st0"
  unfolding wp_bindP[of "Open G"]
proof (rule open_wp[OF assms])
  fix s' :: "_ store" assume "V (st_db s') = V (st_db st0)"
  then show "wp (bindP (onDB (g_find G () (conds eqs))) (\<lambda>r. case r of Inl e \<Rightarrow> throw (gorm_msg e) | Inr rows \<Rightarrow> ret rows))
      (\<lambda>rs st. V (st_db st) = V (st_db st0) \<and> set rs = rows_of column eqs (get (V (st_db st0))) \<and> distinct rs)
      (\<lambda>_ st. V (st_db st) = V (st_db st0)) s'"
    using table_okD(4,5)[OF assms, of eqs "st_db s'"] by (auto simp: wp_simps split: sum.split)
qed

lemma table_list:
  assumes "table_ok G V column get upd"
  shows "wp (InfoStore.List G ()) (\<lambda>rs st. V (st_db st) = V (st_db st0) \<and> set rs = ran (get (V (st_db st0))) \<and> distinct rs)
      (\<lambda>_ st. V (st_db st) = V (st_db st0)) st0"
  using table_find[OF assms, of "[]" st0] by (simp add: List_def conds_simps rows_of_def)

lemma table_list_by:
  assumes "table_ok G V column get upd"
  shows "wp (ListByCondition G () c p)
      (\<lambda>rs st. V (st_db st) = V (st_db st0) \<and> set rs = {r \<in> ran (get (V (st_db st0))). column c r = p} \<and> distinct rs)
      (\<lambda>_ st. V (st_db st) = V (st_db st0)) st0"
  using table_find[OF assms, of "[(c, p)]" st0] by (simp add: ListByCondition_def conds_simps rows_of_def)

lemma table_fetch:
  assumes "table_ok G V column get upd"
  shows "wp (Get G () KEY_COLUMN_NAME n) (\<lambda>r st. V (st_db st) = V (st_db st0) \<and> get (V (st_db st0)) n = Some r)
      (\<lambda>_ st. V (st_db st) = V (st_db st0)) st0"
  unfolding Get_def first_or_def wp_bindP[of "Open G"]
proof (rule open_wp[OF assms])
  fix s' :: "_ store" assume "V (st_db s') = V (st_db st0)"
  then show "wp (bindP (onDB (g_first G () [CEq KEY_COLUMN_NAME n])) (\<lambda>r. case r of
      Inl ErrRecordNotFound \<Rightarrow> throw (n @ '': does not exist!'') | Inl (DBError e) \<Rightarrow> throw (n @ '': '' @ e) | Inr row \<Rightarrow> ret row))
      (\<lambda>r st. V (st_db st) = V (st_db st0) \<and> get (V (st_db st0)) n = Some r) (\<lambda>_ st. V (st_db st) = V (st_db st0)) s'"
    using table_okD(6,7)[OF assms, of n "st_db s'"] by (auto simp: wp_simps split: sum.split gorm_error.split)
qed

lemma table_remove:
  assumes "table_ok G V column get upd"
  shows "wp (Delete G () KEY_COLUMN_NAME n) (\<lambda>b st. b \<and> V (st_db st) = upd (\<lambda>m. m(n := None)) (V (st_db st0)))
      (\<lambda>_ st. V (st_db st) = V (st_db st0)) st0"
  unfolding Delete_def delete_or_def wp_bindP[of "Open G"]
  by (rule open_wp[OF assms]) (simp_all add: wp_simps table_okD(8)[OF assms] split: option.split gorm_error.split)

lemma info_table_of_mapper:
  assumes "\<And>f v. get (upd f v) = f (get v)"
  shows "info_table (table_ok G V column get upd) (viewed V) get upd column (\<lambda>r. stored (Insert G () r))
    (\<lambda>n. stored (Get G () KEY_COLUMN_NAME n)) (\<lambda>n. stored (Delete G () KEY_COLUMN_NAME n))
    (stored (InfoStore.List G ())) (\<lambda>p. stored (ListByCondition G () PROVIDER_NAME_COLUMN p))"
  unfolding info_table_def viewed_def
  by (simp add: assms wp_stored table_save table_fetch table_remove table_list table_list_by)

lemma info_table_guarded:
  assumes "\<And>f v. get (upd f v) = f (get v)"
  shows "info_table (table_ok G V column get upd) (viewed V) get upd column (\<lambda>r. stored (Insert G () r))
    (\<lambda>n. if n = [] then throw e else stored (Get G () KEY_COLUMN_NAME n))
    (\<lambda>n. if n = [] then throw e' else stored (Delete G () KEY_COLUMN_NAME n))
    (stored (InfoStore.List G ())) (\<lambda>p. stored (ListByCondition G () PROVIDER_NAME_COLUMN p))"
proof -
  have t: "info_table (table_ok G V column get upd) (viewed V) get upd column (\<lambda>r. stored (Insert G () r))
    (\<lambda>n. stored (Get G () KEY_COLUMN_NAME n)) (\<lambda>n. stored (Delete G () KEY_COLUMN_NAME n))
    (stored (InfoStore.List G ())) (\<lambda>p. stored (ListByCondition G () PROVIDER_NAME_COLUMN p))"
    by (rule info_table_of_mapper) (rule assms)
  show ?thesis using t unfolding info_table_def by (simp add: wp_throw)
qed

interpretation drivers: info_table "table_ok (tb_drivers env) V drv_column v_drivers v_drivers_update" "viewed V"
    v_drivers v_drivers_update drv_column "\<lambda>r. stored (Insert (tb_drivers env) () r)" "dim_GetCloudDriver env"
    "UnRegisterCloudDriver env" "ListCloudDriver env"
    "\<lambda>p. stored (ListByCondition (tb_drivers env) () PROVIDER_NAME_COLUMN p)"
  for env :: "'d registry_env" and V :: "'d \<Rightarrow> views"
  unfolding dim_GetCloudDriver_def[abs_def] UnRegisterCloudDriver_def[abs_def] ListCloudDriver_def[abs_def]
  by (rule info_table_guarded) simp

interpretation credentials: info_table "table_ok (tb_credentials env) V crd_column v_credentials v_credentials_update" "viewed V"
    v_credentials v_credentials_update crd_column "\<lambda>r. stored (Insert (tb_credentials env) () r)"
    "\<lambda>n. stored (Get (tb_credentials env) () KEY_COLUMN_NAME n)" "UnRegisterCredential env"
    "stored (InfoStore.List (tb_credentials env) ())"
    "\<lambda>p. stored (ListByCondition (tb_credentials env) () PROVIDER_NAME_COLUMN p)"
  for env :: "'d registry_env" and V :: "'d \<Rightarrow> views"
  using info_table_of_mapper[of v_credentials v_credentials_update "tb_credentials env" V crd_column]
    info_table_guarded[of v_credentials v_credentials_update "tb_credentials env" V crd_column _ "''CredentialName is empty!''"]
  unfolding UnRegisterCredential_def[abs_def] info_table_def by simp

interpretation regions: info_table "table_ok (tb_regions env) V rgn_column v_regions v_regions_update" "viewed V"
    v_regions v_regions_update rgn_column "\<lambda>r. stored (Insert (tb_regions env) () r)" "GetRegion env"
    "UnRegisterRegion env" "ListRegion env"
    "\<lambda>p. stored (ListByCondition (tb_regions env) () PROVIDER_NAME_COLUMN p)"
  for env :: "'d registry_env" and V :: "'d \<Rightarrow> views"
  unfolding GetRegion_def[abs_def] UnRegisterRegion_def[abs_def] ListRegion_def[abs_def]
  by (rule info_table_guarded) simp

interpretation connections: info_table "table_ok (tb_connections env) V cfg_column v_connections v_connections_update" "viewed V"
    v_connections v_connections_update cfg_column "\<lambda>r. stored (Insert (tb_connections env) () r)" "GetConnectionConfig env"
    "DeleteConnectionConfig env" "ListConnectionConfig env"
    "\<lambda>p. stored (ListByCondition (tb_connections env) () PROVIDER_NAME_COLUMN p)"
  for env :: "'d registry_env" and V :: "'d \<Rightarrow> views"
  unfolding GetConnectionConfig_def[abs_def] DeleteConnectionConfig_def[abs_def] ListConnectionConfig_def[abs_def]
  by (rule info_table_guarded) simp


section \<open>What the operations do to the tables\<close>

lemma viewed_simps [simp]:
  "viewed V (s\<lparr>rg_metaInfo := m\<rparr>) = viewed V s" "viewed V (s\<lparr>rg_reads := n\<rparr>) = viewed V s"
  "viewed V (s\<lparr>rg_draws := n\<rparr>) = viewed V s"
  by (simp_all add: viewed_def)

lemma GetCloudOSMetaInfo_wp:
  assumes "\<And>m n. (\<And>m0. rg_metaInfo s = Some m0 \<Longrightarrow> m = m0) \<Longrightarrow>
      Q (meta_at m (ToUpper cloudOS)) (s\<lparr>rg_metaInfo := Some m, rg_reads := n\<rparr>)"
    and "\<And>e. E e s"
  shows "wp (GetCloudOSMetaInfo env cloudOS) Q E s"
proof (cases "rg_metaInfo s")
  case (Some m)
  then have s: "s\<lparr>rg_metaInfo := Some m, rg_reads := rg_reads s\<rparr> = s" by (cases s) simp
  have "Q (meta_at m (ToUpper cloudOS)) (s\<lparr>rg_metaInfo := Some m, rg_reads := rg_reads s\<rparr>)"
    by (rule assms(1)) (simp add: Some)
  then have "Q (meta_at m (ToUpper cloudOS)) s" unfolding s .
  then show ?thesis using Some by (simp add: wp_def GetCloudOSMetaInfo_def)
next
  case None
  have c: "s\<lparr>rg_reads := n, rg_metaInfo := m\<rparr> = s\<lparr>rg_metaInfo := m, rg_reads := n\<rparr>" for n m by simp
  show ?thesis
    using assms(1)[of _ "Suc (rg_reads s)"] assms(2) None
    by (simp add: c wp_def GetCloudOSMetaInfo_def readMetaYaml_def clearMetaInfo_def convertAndSetMetaInfo_def Let_def
        split: sum.split)
qed

lemma wp_stored_frame:
  assumes "wp (stored m) (\<lambda>x s'. rg_metaInfo s' = rg_metaInfo s \<longrightarrow> Q x s') E s"
  shows "wp (stored m) Q E s"
  using assms by (simp add: wp_stored)

lemma wp_ret_fun: "wp (ret x) Q E = Q x"
  by (rule ext) (rule wp_ret)

lemma wp_draw_random [wp_simps]:
  "wp (draw_random env) Q E s = Q (rand_Reader env (rg_draws s)) (s\<lparr>rg_draws := Suc (rg_draws s)\<rparr>)"
  by (simp add: wp_def draw_random_def)

text \<open>What is encrypted is decrypted, the keys are left as they are.\<close>

lemma encrypt_wp:
  assumes "\<And>encs n. decryptKeyValueList encs = Inr kvs \<Longrightarrow> map kv_Key encs = map kv_Key kvs \<Longrightarrow> Q encs (s\<lparr>rg_draws := n\<rparr>)"
    and "\<And>e n. E e (s\<lparr>rg_draws := n\<rparr>)"
  shows "wp (encryptKeyValueList env kvs) Q E s"
  using assms
proof (induction kvs arbitrary: s Q)
  case Nil
  then show ?case using Nil.prems(1)[of "[]" "rg_draws s"] by (simp add: wp_simps)
next
  case (Cons kv kvs)
  let ?s = "s\<lparr>rg_draws := Suc (rg_draws s)\<rparr>"
  show ?case
  proof (cases "Encrypt (rand_Reader env (rg_draws s)) SPIDER_KEY (kv_Value kv)")
    case (Inl e)
    then show ?thesis using Cons.prems(2) by (simp add: wp_simps)
  next
    case (Inr enc)
    then have d: "Decrypt SPIDER_KEY enc = Inr (kv_Value kv)"
      using decrypt_encrypted[of "rand_Reader env (rg_draws s)" "kv_Value kv"] by simp
    have "wp (encryptKeyValueList env kvs) (\<lambda>encs. Q (kv\<lparr>kv_Value := enc\<rparr> # encs)) E ?s"
    proof (rule Cons.IH)
      fix encs n
      assume "decryptKeyValueList encs = Inr kvs" "map kv_Key encs = map kv_Key kvs"
      then show "Q (kv\<lparr>kv_Value := enc\<rparr> # encs) (?s\<lparr>rg_draws := n\<rparr>)"
        using Cons.prems(1)[of "kv\<lparr>kv_Value := enc\<rparr> # encs" n] d by simp
    next
      fix e n show "E e (?s\<lparr>rg_draws := n\<rparr>)" using Cons.prems(2)[of e n] by simp
    qed
    then show ?thesis by (simp add: wp_simps Inr wp_ret_fun)
  qed
qed

text \<open>The row a credential is stored as, its values being encrypted as \<open>encs\<close>.\<close>

definition credential_row :: "CredentialInfo \<Rightarrow> KeyValue list \<Rightarrow> CredentialInfo" where
  "credential_row info encs =
     \<lparr>crd_CredentialName = TrimSpace (crd_CredentialName info), crd_ProviderName = ToUpper (TrimSpace (crd_ProviderName info)),
      crd_KeyValueInfoList = KVList_Value (Some encs)\<rparr>"

definition plain_values :: "(string \<Rightarrow> CloudOSMetaInfo option) \<Rightarrow> CredentialInfo \<Rightarrow> KeyValue list" where
  "plain_values m info = spider_keys (meta_at m (ToUpper (TrimSpace (crd_ProviderName info)))) (elems (crd_KeyValueInfoList info))"

definition region_row :: "rim_RegionInfo \<Rightarrow> rim_RegionInfo" where
  "region_row info =
     \<lparr>rgn_RegionName = TrimSpace (rgn_RegionName info), rgn_ProviderName = ToUpper (TrimSpace (rgn_ProviderName info)),
      rgn_KeyValueInfoList = KVList_Value (rgn_KeyValueInfoList info), rgn_AvailableZoneList = AZList_Value (rgn_AvailableZoneList info)\<rparr>"

definition connection_row :: "ConnectionConfigInfo \<Rightarrow> ConnectionConfigInfo" where
  "connection_row info =
     \<lparr>cfg_ConfigName = TrimSpace (cfg_ConfigName info), cfg_ProviderName = ToUpper (TrimSpace (cfg_ProviderName info)),
      cfg_DriverName = TrimSpace (cfg_DriverName info), cfg_CredentialName = TrimSpace (cfg_CredentialName info),
      cfg_RegionName = TrimSpace (cfg_RegionName info)\<rparr>"

definition driver_row :: "CloudDriverInfo \<Rightarrow> CloudDriverInfo" where
  "driver_row info =
     \<lparr>drv_DriverName = TrimSpace (drv_DriverName info), drv_ProviderName = ToUpper (TrimSpace (drv_ProviderName info)),
      drv_DriverLibFileName = TrimSpace (drv_DriverLibFileName info)\<rparr>"

lemma cim_checkParams_wp:
  assumes "\<And>m n. (\<And>m0. rg_metaInfo s = Some m0 \<Longrightarrow> m = m0) \<Longrightarrow> name \<noteq> [] \<Longrightarrow> provider \<noteq> [] \<Longrightarrow>
      ValidateKeyValueList (elems kvs) (meta_Credential (meta_at m (ToUpper provider))) = None \<Longrightarrow>
      Q () (s\<lparr>rg_metaInfo := Some m, rg_reads := n\<rparr>)"
    and "\<And>e s'. rg_store s' = rg_store s \<Longrightarrow> E e s'"
  shows "wp (cim_checkParams env name provider kvs) Q E s"
  unfolding cim_checkParams_def
  by (intro wp_ifI wp_throwI wp_bindPI GetCloudOSMetaInfo_wp wp_checkedI assms) simp_all

lemma rim_checkParams_wp:
  assumes "\<And>m n. (\<And>m0. rg_metaInfo s = Some m0 \<Longrightarrow> m = m0) \<Longrightarrow> name \<noteq> [] \<Longrightarrow> provider \<noteq> [] \<Longrightarrow> kvs \<noteq> None \<Longrightarrow>
      ValidateKeyValueList (elems kvs) (meta_Region (meta_at m (ToUpper provider))) = None \<Longrightarrow>
      Q () (s\<lparr>rg_metaInfo := Some m, rg_reads := n\<rparr>)"
    and "\<And>e s'. rg_store s' = rg_store s \<Longrightarrow> E e s'"
  shows "wp (rim_checkParams env name provider kvs) Q E s"
  unfolding rim_checkParams_def
  by (intro wp_ifI wp_throwI wp_bindPI GetCloudOSMetaInfo_wp wp_checkedI assms) simp_all

lemma RegisterCredentialInfo_wp:
  assumes "registry_ok env V"
    and "\<And>m encs s'. decryptKeyValueList encs = Inr (plain_values m info) \<Longrightarrow> rg_metaInfo s' = Some m \<Longrightarrow>
      (\<And>m0. rg_metaInfo s = Some m0 \<Longrightarrow> m = m0) \<Longrightarrow>
      viewed V s' = v_credentials_update (\<lambda>t. t(TrimSpace (crd_CredentialName info) \<mapsto> credential_row info encs)) (viewed V s) \<Longrightarrow>
      Q (credential_row info encs\<lparr>crd_KeyValueInfoList := Some encs\<rparr>) s'"
    and "\<And>e s'. viewed V s' = viewed V s \<Longrightarrow> E e s'"
  shows "wp (RegisterCredentialInfo env info) Q E s"
proof -
  have t: "table_ok (tb_credentials env) V crd_column v_credentials v_credentials_update" using assms(1) by (simp add: registry_ok_def)
  show ?thesis
    unfolding RegisterCredentialInfo_def mapCredentialsCSPKeyToSpiderKeys_def wp_bindP wp_ret
  proof (rule GetCloudOSMetaInfo_wp, goal_cases)
    case (1 m n)
    let ?kvs = "plain_values m info"
    have q: "wp (encryptKeyValueList env ?kvs) (\<lambda>encs. wp (stored (Insert (tb_credentials env) () (credential_row info encs)))
        (\<lambda>_. Q (credential_row info encs\<lparr>crd_KeyValueInfoList := Some encs\<rparr>)) E) E s0"
      if s0: "viewed V s0 = viewed V s" "rg_metaInfo s0 = Some m" for s0
    proof (rule encrypt_wp)
      fix encs n''
      assume d: "decryptKeyValueList encs = Inr ?kvs"
      have v: "viewed V (s0\<lparr>rg_draws := n''\<rparr>) = viewed V s" using s0 by simp
      show "wp (stored (Insert (tb_credentials env) () (credential_row info encs)))
          (\<lambda>_. Q (credential_row info encs\<lparr>crd_KeyValueInfoList := Some encs\<rparr>)) E (s0\<lparr>rg_draws := n''\<rparr>)"
      proof (rule wp_stored_frame, rule credentials.save_wp[OF t], rule impI)
        fix s' :: "'a cim_state"
        assume "viewed V s' = v_credentials_update (\<lambda>m. m(crd_column KEY_COLUMN_NAME (credential_row info encs) \<mapsto> credential_row info encs))
            (viewed V (s0\<lparr>rg_draws := n''\<rparr>))" and "rg_metaInfo s' = rg_metaInfo (s0\<lparr>rg_draws := n''\<rparr>)"
        then show "Q (credential_row info encs\<lparr>crd_KeyValueInfoList := Some encs\<rparr>) s'"
          unfolding v by (intro assms(2)[OF d]) (simp_all add: s0 1 credential_row_def)
      qed (simp add: assms(3) s0)
    qed (simp add: assms(3) s0)
    show ?case
      unfolding Let_def wp_bindP wp_ret_fun
    proof (rule cim_checkParams_wp, goal_cases)
      case (1 m' n')
      then have [simp]: "m' = m" by simp
      show ?case using q[of "s\<lparr>rg_metaInfo := Some m', rg_reads := n'\<rparr>"]
        by (cases info) (simp add: credential_row_def plain_values_def elems_def)
    qed (simp add: assms(3) viewed_def)
  qed (simp add: assms(3))
qed

lemma GetCredentialDecrypt_wp:
  assumes "registry_ok env V"
    and "\<And>row got s'. viewed V s' = viewed V s \<Longrightarrow> rg_metaInfo s' = rg_metaInfo s \<Longrightarrow> v_credentials (viewed V s) name = Some row \<Longrightarrow>
      decryptKeyValueList (elems (crd_KeyValueInfoList row)) = Inr (elems (crd_KeyValueInfoList got)) \<Longrightarrow>
      got = row\<lparr>crd_KeyValueInfoList := crd_KeyValueInfoList got\<rparr> \<Longrightarrow>
      (crd_KeyValueInfoList got = None \<longleftrightarrow> crd_KeyValueInfoList row = None) \<Longrightarrow> Q got s'"
    and "\<And>e s'. viewed V s' = viewed V s \<Longrightarrow> E e s'"
  shows "wp (GetCredentialDecrypt env name) Q E s"
proof -
  have t: "table_ok (tb_credentials env) V crd_column v_credentials v_credentials_update" using assms(1) by (simp add: registry_ok_def)
  have d: "wp (case crd_KeyValueInfoList row of
        None \<Rightarrow> ret row
      | Some kvs \<Rightarrow> bindP (lift_result (decryptKeyValueList kvs)) (\<lambda>kvs. ret (row\<lparr>crd_KeyValueInfoList := Some kvs\<rparr>))) Q E s'"
    if "viewed V s' = viewed V s" "rg_metaInfo s' = rg_metaInfo s" "v_credentials (viewed V s) name = Some row" for row s'
    using that by (intro wp_case_optionI wp_retI wp_bindPI wp_lift_resultI) (auto intro!: assms(2,3) simp: elems_def)
  show ?thesis
    unfolding GetCredentialDecrypt_def
  proof (intro wp_ifI wp_throwI wp_bindPI)
    show "wp (stored (Get (tb_credentials env) () KEY_COLUMN_NAME name)) (\<lambda>row. wp (case crd_KeyValueInfoList row of
        None \<Rightarrow> ret row
      | Some kvs \<Rightarrow> bindP (lift_result (decryptKeyValueList kvs)) (\<lambda>kvs. ret (row\<lparr>crd_KeyValueInfoList := Some kvs\<rparr>))) Q E) E s"
      by (rule wp_stored_frame, rule credentials.fetch_wp[OF t]) (auto intro!: d assms(3))
  qed (simp add: assms(3))
qed

lemma RegisterRegionInfo_wp:
  assumes "registry_ok env V"
    and "\<And>m s'. rg_metaInfo s' = Some m \<Longrightarrow> (\<And>m0. rg_metaInfo s = Some m0 \<Longrightarrow> m = m0) \<Longrightarrow>
      viewed V s' = v_regions_update (\<lambda>t. t(TrimSpace (rgn_RegionName info) \<mapsto> region_row info)) (viewed V s) \<Longrightarrow>
      Q (info\<lparr>rgn_RegionName := TrimSpace (rgn_RegionName info), rgn_ProviderName := ToUpper (TrimSpace (rgn_ProviderName info))\<rparr>) s'"
    and "\<And>e s'. viewed V s' = viewed V s \<Longrightarrow> E e s'"
  shows "wp (RegisterRegionInfo env info) Q E s"
proof -
  have t: "table_ok (tb_regions env) V rgn_column v_regions v_regions_update" using assms(1) by (simp add: registry_ok_def)
  have r: "rgn_KeyValueInfoList_update KVList_Value (rgn_AvailableZoneList_update AZList_Value
      (info\<lparr>rgn_RegionName := TrimSpace (rgn_RegionName info), rgn_ProviderName := ToUpper (TrimSpace (rgn_ProviderName info))\<rparr>)) = region_row info"
    by (cases info) (simp add: region_row_def)
  show ?thesis
    unfolding RegisterRegionInfo_def Let_def wp_bindP wp_ret_fun r
  proof (rule rim_checkParams_wp, goal_cases)
    case (1 m n)
    show ?case
    proof (rule wp_stored_frame, rule regions.save_wp[OF t], rule impI)
      fix s' :: "'a cim_state"
      assume "viewed V s' = v_regions_update (\<lambda>m. m(rgn_column KEY_COLUMN_NAME (region_row info) \<mapsto> region_row info))
          (viewed V (s\<lparr>rg_metaInfo := Some m, rg_reads := n\<rparr>))"
        and "rg_metaInfo s' = rg_metaInfo (s\<lparr>rg_metaInfo := Some m, rg_reads := n\<rparr>)"
      then show "Q (info\<lparr>rgn_RegionName := TrimSpace (rgn_RegionName info), rgn_ProviderName := ToUpper (TrimSpace (rgn_ProviderName info))\<rparr>) s'"
        using 1(1) by (intro assms(2)[of _ m]) (simp_all add: region_row_def)
    qed (simp add: assms(3))
  qed (simp add: assms(3) viewed_def)
qed

lemma row_keys:
  "cfg_ConfigName (connection_row info) = TrimSpace (cfg_ConfigName info)"
  "drv_DriverName (driver_row drv) = TrimSpace (drv_DriverName drv)"
  by (simp_all add: connection_row_def driver_row_def)

lemma CreateConnectionConfigInfo_wp:
  assumes "registry_ok env V"
    and "\<And>s'. rg_metaInfo s' = rg_metaInfo s \<Longrightarrow> cfg_CredentialName info \<noteq> [] \<Longrightarrow>
      viewed V s' = v_connections_update (\<lambda>t. t(TrimSpace (cfg_ConfigName info) \<mapsto> connection_row info)) (viewed V s) \<Longrightarrow>
      Q (connection_row info) s'"
    and "\<And>e s'. viewed V s' = viewed V s \<Longrightarrow> E e s'"
  shows "wp (CreateConnectionConfigInfo env info) Q E s"
proof -
  have t: "table_ok (tb_connections env) V cfg_column v_connections v_connections_update" using assms(1) by (simp add: registry_ok_def)
  show ?thesis
    unfolding CreateConnectionConfigInfo_def Let_def wp_bindP wp_ret_fun connection_row_def[symmetric]
  proof (rule wp_checkedI)
    assume "ccim_checkParams (cfg_ConfigName info) (cfg_ProviderName info) (cfg_DriverName info) (cfg_CredentialName info)
        (cfg_RegionName info) = None"
    then have c: "cfg_CredentialName info \<noteq> []" by (auto simp: ccim_checkParams_def split: if_splits)
    show "wp (stored (Insert (tb_connections env) () (connection_row info))) (\<lambda>x. Q (connection_row info)) E s"
    proof (rule wp_stored_frame, rule connections.save_wp[OF t], rule impI)
      fix s' :: "'a cim_state"
      assume "viewed V s' = v_connections_update (\<lambda>m. m(cfg_column KEY_COLUMN_NAME (connection_row info) \<mapsto> connection_row info)) (viewed V s)"
        and "rg_metaInfo s' = rg_metaInfo s"
      then show "Q (connection_row info) s'" by (intro assms(2)) (simp_all add: c row_keys)
    qed (rule assms(3))
  qed (simp add: assms(3))
qed

lemma RegisterCloudDriverInfo_wp:
  assumes "registry_ok env V"
    and "\<And>s'. rg_metaInfo s' = rg_metaInfo s \<Longrightarrow>
      viewed V s' = v_drivers_update (\<lambda>t. t(TrimSpace (drv_DriverName info) \<mapsto> driver_row info)) (viewed V s) \<Longrightarrow>
      Q (driver_row info) s'"
    and "\<And>e s'. viewed V s' = viewed V s \<Longrightarrow> E e s'"
  shows "wp (RegisterCloudDriverInfo env info) Q E s"
proof -
  have t: "table_ok (tb_drivers env) V drv_column v_drivers v_drivers_update" using assms(1) by (simp add: registry_ok_def)
  have r: "info\<lparr>drv_DriverName := TrimSpace (drv_DriverName info), drv_ProviderName := ToUpper (TrimSpace (drv_ProviderName info)),
      drv_DriverLibFileName := TrimSpace (drv_DriverLibFileName info)\<rparr> = driver_row info"
    by (cases info) (simp add: driver_row_def)
  show ?thesis
    unfolding RegisterCloudDriverInfo_def Let_def wp_bindP wp_ret_fun r
  proof (rule wp_checkedI, rule wp_checkedI, rule wp_stored_frame, rule drivers.save_wp[OF t], rule impI)
    fix s' :: "'a cim_state"
    assume "viewed V s' = v_drivers_update (\<lambda>m. m(drv_column KEY_COLUMN_NAME (driver_row info) \<mapsto> driver_row info)) (viewed V s)"
      and "rg_metaInfo s' = rg_metaInfo s"
    then show "Q (driver_row info) s'" by (intro assms(2)) (simp_all add: row_keys)
  qed (simp_all add: assms(3))
qed

text \<open>
  C24: A credential is stored so that its values can be read back: when \<open>RegisterCredentialInfo\<close> returns and then
  \<open>GetCredentialDecrypt\<close> for its name without spaces around returns, the latter gives the registered values in the clear,
  under the keys that the program uses in place of the provider's, and the provider in capitals. In between the store
  holds values that \<open>decryptKeyValueList\<close> turns into these.
\<close>

theorem registered_credential_is_read:
  assumes "registry_ok env V"
    and "RegisterCredentialInfo env info s = (Inr r, s1)"
    and "GetCredentialDecrypt env (TrimSpace (crd_CredentialName info)) s1 = (Inr got, s2)"
  shows "\<exists>m encs. rg_metaInfo s1 = Some m \<and> decryptKeyValueList encs = Inr (plain_values m info) \<and>
      v_credentials (viewed V s1) (TrimSpace (crd_CredentialName info)) = Some (credential_row info encs) \<and>
      got = credential_row info (plain_values m info)"
proof -
  let ?n = "TrimSpace (crd_CredentialName info)"
  have "wp (RegisterCredentialInfo env info) (\<lambda>_ s'. \<exists>m encs. decryptKeyValueList encs = Inr (plain_values m info) \<and>
      rg_metaInfo s' = Some m \<and> v_credentials (viewed V s') ?n = Some (credential_row info encs)) (\<lambda>_ _. True) s"
    by (rule RegisterCredentialInfo_wp[OF assms(1)]) auto
  from wp_okD[OF this assms(2)] obtain m encs where s1: "decryptKeyValueList encs = Inr (plain_values m info)"
    "rg_metaInfo s1 = Some m" "v_credentials (viewed V s1) ?n = Some (credential_row info encs)" by blast
  have "wp (GetCredentialDecrypt env ?n) (\<lambda>got _. got = credential_row info (plain_values m info)) (\<lambda>_ _. True) s1"
  proof (rule GetCredentialDecrypt_wp[OF assms(1)])
    fix row got
    assume "v_credentials (viewed V s1) ?n = Some row"
      and d: "decryptKeyValueList (elems (crd_KeyValueInfoList row)) = Inr (elems (crd_KeyValueInfoList got))"
      and g: "got = row\<lparr>crd_KeyValueInfoList := crd_KeyValueInfoList got\<rparr>"
      and n: "crd_KeyValueInfoList got = None \<longleftrightarrow> crd_KeyValueInfoList row = None"
    then have row: "row = credential_row info encs" using s1(3) by simp
    have "elems (crd_KeyValueInfoList got) = plain_values m info"
      using d s1(1) by (cases encs) (simp_all add: row credential_row_def KVList_Value_def elems_def)
    moreover have "encs = [] \<longleftrightarrow> plain_values m info = []"
      using s1(1) by (cases encs) (auto split: sum.split_asm)
    ultimately have "crd_KeyValueInfoList got = KVList_Value (Some (plain_values m info))"
      using n by (auto simp: row credential_row_def KVList_Value_def elems_def split: option.split_asm)
    then show "got = credential_row info (plain_values m info)"
      by (subst g) (simp add: row credential_row_def)
  qed simp
  from wp_okD[OF this assms(3)] s1 show ?thesis by blast
qed

end
