(* ===== verification/RegistryList.thy ===== *)
theory RegistryList
  imports RegistryTables
begin

text \<open>
  Registries over lists, on which the witnesses run, and runs that show where the checks of the registrations look at other
  values than those that are stored.
\<close>

section \<open>Tables that are lists\<close>

text \<open>
  An instance of the mapper for one table, over a list of rows in a database \<open>'d\<close>, and a registry made of four of them. Of
  two rows with the same name the first counts; one that is saved comes first.
\<close>

definition by_name :: "('r \<Rightarrow> string) \<Rightarrow> 'r list \<Rightarrow> string \<Rightarrow> 'r option" where
  "by_name key rs = map_of (map (\<lambda>r. (key r, r)) rs)"

definition current :: "('r \<Rightarrow> string) \<Rightarrow> 'r list \<Rightarrow> 'r list" where
  "current key rs = remdups (filter (\<lambda>r. by_name key rs (key r) = Some r) rs)"

fun holds :: "('k \<Rightarrow> 'r \<Rightarrow> string) \<Rightarrow> 'r \<Rightarrow> 'k cond \<Rightarrow> bool" where
  "holds column r (CEq c v) = (column c r = v)"
| "holds column r (CLike c v) = False"

definition list_table :: "(info_column \<Rightarrow> 'r \<Rightarrow> string) \<Rightarrow> ('d \<Rightarrow> 'r list) \<Rightarrow> (('r list \<Rightarrow> 'r list) \<Rightarrow> 'd \<Rightarrow> 'd) \<Rightarrow>
    ('d, unit, 'r, info_column) mapper" where
  "list_table column get upd =
     (let key = column KEY_COLUMN_NAME; select = (\<lambda>cs d. filter (\<lambda>r. list_all (holds column r) cs) (current key (get d))) in
     \<lparr>g_open = (\<lambda>d. (None, d)),
      g_save = (\<lambda>_ r d. (None, upd (\<lambda>rs. r # filter (\<lambda>x. key x \<noteq> key r) rs) d)),
      g_find = (\<lambda>_ cs d. (Inr (select cs d), d)),
      g_first = (\<lambda>_ cs d. (case select cs d of [] \<Rightarrow> Inl ErrRecordNotFound | r # _ \<Rightarrow> Inr r, d)),
      g_delete = (\<lambda>_ _ cs d. (None, upd (filter (\<lambda>r. \<not> list_all (holds column r) cs)) d)),
      g_count = (\<lambda>_ cs d. (Inr (length (select cs d)), d)),
      g_pluck = (\<lambda>_ c cs d. (Inr (map (column c) (select cs d)), d)),
      g_like = (\<lambda>_ _. False)\<rparr>)"

lemma by_name_key: "by_name key rs n = Some r \<Longrightarrow> key r = n \<and> r \<in> set rs"
  unfolding by_name_def by (drule map_of_SomeD) auto

lemma set_current: "set (current key rs) = ran (by_name key rs)"
  by (auto simp: current_def ran_def dest: by_name_key)

lemma by_name_save: "by_name key (r # filter (\<lambda>x. key x \<noteq> key r) rs) = (by_name key rs)(key r \<mapsto> r)"
proof -
  have "by_name key (filter (\<lambda>x. key x \<noteq> k) rs) n = by_name key rs n" if "n \<noteq> k" for n k
    using that by (induction rs) (auto simp: by_name_def)
  then show ?thesis by (auto simp: by_name_def fun_eq_iff)
qed

lemma by_name_delete: "by_name key (filter (\<lambda>x. key x \<noteq> n) rs) = (by_name key rs)(n := None)"
  by (induction rs) (auto simp: by_name_def fun_eq_iff)

lemma list_conds: "list_all (holds column r) (conds eqs) = (\<forall>(c, v) \<in> set eqs. column c r = v)"
  by (auto simp: list_all_iff conds_def)

lemma list_table_ok:
  assumes "\<And>f d. gt (up f d) = f (gt d)"
    and "\<And>d. get (V d) = by_name (column KEY_COLUMN_NAME) (gt d)"
    and "\<And>f g d. (\<And>rs. by_name (column KEY_COLUMN_NAME) (f rs) = g (by_name (column KEY_COLUMN_NAME) rs)) \<Longrightarrow> V (up f d) = upd g (V d)"
  shows "table_ok (list_table column gt up) V column get upd"
proof -
  let ?key = "column KEY_COLUMN_NAME"
  have sel: "set (filter (\<lambda>r. list_all (holds column r) (conds eqs)) (current ?key (gt d))) = rows_of column eqs (get (V d))" for eqs d
    by (auto simp: set_current list_conds rows_of_def assms(2))
  have dist: "distinct (filter P (current ?key (gt d)))" for P d by (simp add: current_def)
  have first: "get (V d) n = Some r" if "filter (\<lambda>r. ?key r = n) (current ?key (gt d)) = r # rs" for n r rs d
  proof -
    have "r \<in> set (filter (\<lambda>r. ?key r = n) (current ?key (gt d)))" using that by simp
    then show ?thesis by (auto simp: set_current assms(2) ran_def dest: by_name_key)
  qed
  have none: "get (V d) n = None" if "filter (\<lambda>r. ?key r = n) (current ?key (gt d)) = []" for n d
  proof (rule ccontr)
    assume "get (V d) n \<noteq> None"
    then obtain r where "by_name ?key (gt d) n = Some r" by (auto simp: assms(2))
    then have "r \<in> set (current ?key (gt d))" "?key r = n" by (auto simp: set_current ran_def dest: by_name_key)
    then show False using that by (auto simp: filter_empty_conv)
  qed
  have k: "?key r = n" if "get (V d) n = Some r" for d n r
    using by_name_key[of ?key "gt d" n r] that by (simp add: assms(2))
  have save: "V (up (\<lambda>rs. r # filter (\<lambda>x. ?key x \<noteq> ?key r) rs) d) = upd (\<lambda>m. m(?key r \<mapsto> r)) (V d)" for r d
    by (rule assms(3)) (rule by_name_save)
  have del: "V (up (filter (\<lambda>x. ?key x \<noteq> n)) d) = upd (\<lambda>m. m(n := None)) (V d)" for n d
    by (rule assms(3)) (rule by_name_delete)
  have card: "length (filter P (current ?key (gt d))) = card (set (filter P (current ?key (gt d))))" for P d
    by (rule distinct_card[symmetric, OF dist])
  show ?thesis
    unfolding table_ok_def
  proof (intro conjI allI impI)
    fix d n r assume "get (V d) n = Some r" then show "?key r = n" by (rule k)
  next
    fix d n r assume "fst (g_first (list_table column gt up) () [CEq KEY_COLUMN_NAME n] d) = Inr r"
    then show "get (V d) n = Some r"
      by (cases "filter (\<lambda>r. ?key r = n) (current ?key (gt d))") (auto simp: list_table_def Let_def intro: first)
  next
    fix d n assume "fst (g_first (list_table column gt up) () [CEq KEY_COLUMN_NAME n] d) = Inl ErrRecordNotFound"
    then show "get (V d) n = None"
      by (cases "filter (\<lambda>r. ?key r = n) (current ?key (gt d))") (auto simp: list_table_def Let_def intro: none)
  next
    fix eqs d rs assume "fst (g_find (list_table column gt up) () (conds eqs) d) = Inr rs"
    then have "rs = filter (\<lambda>r. list_all (holds column r) (conds eqs)) (current ?key (gt d))" by (simp add: list_table_def Let_def)
    then show "set rs = rows_of column eqs (get (V d))" and "distinct rs" using sel dist by blast+
  next
    fix eqs d k assume "fst (g_count (list_table column gt up) () (conds eqs) d) = Inr k"
    then have "k = length (filter (\<lambda>r. list_all (holds column r) (conds eqs)) (current ?key (gt d)))" by (simp add: list_table_def Let_def)
    then show "k = card (rows_of column eqs (get (V d)))" unfolding card sel .
  qed (simp_all add: list_table_def Let_def save del)
qed

record info_db =
  db_drivers :: "CloudDriverInfo list"
  db_credentials :: "CredentialInfo list"
  db_regions :: "rim_RegionInfo list"
  db_connections :: "ConnectionConfigInfo list"

definition db_views :: "info_db \<Rightarrow> views" where
  "db_views d =
     \<lparr>v_drivers = by_name drv_DriverName (db_drivers d), v_credentials = by_name crd_CredentialName (db_credentials d),
      v_regions = by_name rgn_RegionName (db_regions d), v_connections = by_name cfg_ConfigName (db_connections d)\<rparr>"

definition list_env :: "string \<Rightarrow> (nat \<Rightarrow> string \<Rightarrow> (string \<Rightarrow> YamlMetaInfo option) go_result) \<Rightarrow> (nat \<Rightarrow> go_error + (nat \<Rightarrow> byte)) \<Rightarrow>
    info_db registry_env" where
  "list_env root yaml random =
     \<lparr>CBSPIDER_ROOT = root, read_yaml = yaml, rand_Reader = random,
      tb_drivers = list_table drv_column db_drivers db_drivers_update,
      tb_credentials = list_table crd_column db_credentials db_credentials_update,
      tb_regions = list_table rgn_column db_regions db_regions_update,
      tb_connections = list_table cfg_column db_connections db_connections_update\<rparr>"

lemma list_env_ok: "registry_ok (list_env root yaml random) db_views"
  unfolding registry_ok_def list_env_def
  by (auto intro!: list_table_ok simp: db_views_def)

definition ex_registry :: "info_db cim_state" where
  "ex_registry =
     \<lparr>rg_store = \<lparr>dbConfigErr = None, st_open = None, st_db = \<lparr>db_drivers = [], db_credentials = [], db_regions = [], db_connections = []\<rparr>\<rparr>,
      rg_metaInfo = None, rg_reads = 0, rg_draws = 0\<rparr>"

definition ex_yaml :: "string \<Rightarrow> YamlMetaInfo option" where
  "ex_yaml k =
     (if k = ''MOCK'' then
        Some \<lparr>yaml_Region = ''Region'', yaml_Credential = ''MockName'', yaml_CredentialCSP = ''mock_name'', yaml_RootDiskType = [],
          yaml_RootDiskSize = [], yaml_DiskType = [], yaml_DiskSize = [], yaml_IdMaxLength = [], yaml_DefaultRegionToQuery = []\<rparr>
      else None)"

definition ex_reg_env :: "info_db registry_env" where
  "ex_reg_env = list_env ''/spider'' (\<lambda>_ _. Inr ex_yaml) (\<lambda>n. Inr (\<lambda>i. of_nat (n + i)))"

definition ex_credential :: CredentialInfo where
  "ex_credential =
     \<lparr>crd_CredentialName = '' c1 '', crd_ProviderName = ''mock'',
      crd_KeyValueInfoList = Some [\<lparr>kv_Key = ''mock_name'', kv_Value = ''secret''\<rparr>]\<rparr>"

text \<open>A run: encryption is left as it is, everything else is computed.\<close>

definition ex_enc :: string where
  "ex_enc = (case Encrypt (Inr (\<lambda>i. of_nat (0 + i))) SPIDER_KEY ''secret'' of Inr enc \<Rightarrow> enc | Inl e \<Rightarrow> e)"

lemma ex_enc_run: "Encrypt (Inr (\<lambda>i. of_nat (0 + i))) SPIDER_KEY ''secret'' = Inr ex_enc"
  by (simp add: ex_enc_def Encrypt_def NewCipher_def SPIDER_KEY_def bytes_def Let_def)

lemma ex_dec: "Decrypt SPIDER_KEY ex_enc = Inr ''secret''"
  by (rule decrypt_encrypted[OF ex_enc_run])

lemma ex_strings:
  "TrimSpace '' c1 '' = ''c1''" "TrimSpace ''mock'' = ''mock''" "ToUpper ''mock'' = ''MOCK''" "ToUpper ''MOCK'' = ''MOCK''"
  "splitAndTrim ''Region'' = [''Region'']" "splitAndTrim ''MockName'' = [''MockName'']" "splitAndTrim ''mock_name'' = [''mock_name'']"
  "ValidateKeyValueList [\<lparr>kv_Key = ''MockName'', kv_Value = ''secret''\<rparr>] [''MockName''] = None"
  by code_simp+

lemmas ex_run = RegisterCredentialInfo_def mapCredentialsCSPKeyToSpiderKeys_def cim_checkParams_def rim_checkParams_def GetCloudOSMetaInfo_def
  getConfigFileName_def readMetaYaml_def clearMetaInfo_def convertAndSetMetaInfo_def ex_registry_def ex_reg_env_def list_env_def
  ex_yaml_def ex_strings meta_at_def convertMetaInfo_def spider_keys_def cspToSpiderMap_def elems_def prog_simps
  checked_def draw_random_def stored_def Insert_def Open_def onDB_def list_table_def by_name_def current_def KVList_Value_def
  GetCredentialDecrypt_def Get_def first_or_def ex_enc_run[simplified] ex_dec

theorem registered_credential_is_read_witness:
  "\<exists>r s1 got s2. RegisterCredentialInfo ex_reg_env ex_credential ex_registry = (Inr r, s1) \<and>
     GetCredentialDecrypt ex_reg_env ''c1'' s1 = (Inr got, s2) \<and>
     crd_KeyValueInfoList got = Some [\<lparr>kv_Key = ''MockName'', kv_Value = ''secret''\<rparr>] \<and>
     (\<exists>m. got = credential_row ex_credential (plain_values m ex_credential))"
proof -
  have "\<exists>r s1 got s2. RegisterCredentialInfo ex_reg_env ex_credential ex_registry = (Inr r, s1) \<and>
     GetCredentialDecrypt ex_reg_env ''c1'' s1 = (Inr got, s2) \<and>
     crd_KeyValueInfoList got = Some [\<lparr>kv_Key = ''MockName'', kv_Value = ''secret''\<rparr>]"
    by (simp add: ex_run ex_credential_def)
  then obtain r s1 got s2 where run: "RegisterCredentialInfo ex_reg_env ex_credential ex_registry = (Inr r, s1)"
    "GetCredentialDecrypt ex_reg_env ''c1'' s1 = (Inr got, s2)" "crd_KeyValueInfoList got = Some [\<lparr>kv_Key = ''MockName'', kv_Value = ''secret''\<rparr>]"
    by blast
  have n: "TrimSpace (crd_CredentialName ex_credential) = ''c1''" by (simp add: ex_credential_def ex_strings)
  have "registry_ok ex_reg_env db_views" unfolding ex_reg_env_def by (rule list_env_ok)
  from registered_credential_is_read[OF this run(1)] run(2,3) show ?thesis
    unfolding n using run(1) by blast
qed

section \<open>Where the checks look at other values than those that are stored\<close>

text \<open>When the file cannot be read, nobody hears of it, and from then on no keys are asked for.\<close>

lemma meta_unreadable:
  assumes "rg_metaInfo s = None" and "getConfigFileName env = Inr conf" and "read_yaml env (rg_reads s) conf = Inl err"
  shows "fst (GetCloudOSMetaInfo env cloudOS s) = Inr no_meta"
    and "rg_metaInfo (snd (GetCloudOSMetaInfo env cloudOS s)) = Some (\<lambda>_. None)"
  using assms by (simp_all add: GetCloudOSMetaInfo_def readMetaYaml_def clearMetaInfo_def meta_at_def Let_def)

text \<open>A request that comes between the two sections of \<open>readMetaYaml\<close> finds no provider.\<close>

lemma meta_while_reading: "GetCloudOSMetaInfo env cloudOS (clearMetaInfo s) = (Inr no_meta, clearMetaInfo s)"
  by (simp add: GetCloudOSMetaInfo_def clearMetaInfo_def meta_at_def Let_def)

text \<open>
  The keys are checked against the provider as it was given, which is stored without the spaces around it: with a space
  before the provider, a credential without any key is registered for a provider that asks for one.
\<close>

definition ex_no_keys :: "string \<Rightarrow> CredentialInfo" where
  "ex_no_keys provider = \<lparr>crd_CredentialName = ''c1'', crd_ProviderName = provider, crd_KeyValueInfoList = Some []\<rparr>"

lemma ex_spaces:
  "TrimSpace '' mock'' = ''mock''" "ToUpper '' mock'' = '' MOCK''" "TrimSpace ''c1'' = ''c1''" "TrimSpace '' '' = []"
  "ValidateKeyValueList [] [] = None" "ValidateKeyValueList [] [''MockName''] \<noteq> None"
  by code_simp+

lemma ex_keys_refused: "\<exists>e s1. RegisterCredentialInfo ex_reg_env (ex_no_keys ''mock'') ex_registry = (Inl e, s1)"
  using ex_spaces(6) by (auto simp: ex_run ex_no_keys_def)

lemma ex_keys_not_asked_for:
  "\<exists>r s1. RegisterCredentialInfo ex_reg_env (ex_no_keys '' mock'') ex_registry = (Inr r, s1) \<and>
     v_credentials (viewed db_views s1) ''c1'' = Some \<lparr>crd_CredentialName = ''c1'', crd_ProviderName = ''MOCK'', crd_KeyValueInfoList = None\<rparr>"
  by (simp add: ex_run ex_no_keys_def ex_spaces no_meta_def viewed_def db_views_def)

text \<open>
  Likewise with the names: one of spaces passes the check and is stored as the empty name, under which nothing can be read
  or removed.
\<close>

lemma ex_blank_name:
  "\<exists>r s1. CreateConnectionConfigInfo ex_reg_env \<lparr>cfg_ConfigName = '' '', cfg_ProviderName = ''mock'', cfg_DriverName = ''d'',
       cfg_CredentialName = ''c1'', cfg_RegionName = ''r1''\<rparr> ex_registry = (Inr r, s1) \<and>
     v_connections (viewed db_views s1) [] \<noteq> None"
  by (simp add: CreateConnectionConfigInfo_def ccim_checkParams_def ex_run ex_spaces viewed_def db_views_def Let_def)

lemma empty_name_refused:
  "GetConnectionConfig env [] s = (Inl ''ConfigName is empty!'', s)" "DeleteConnectionConfig env [] s = (Inl ''ConfigName is empty!'', s)"
  by (simp_all add: GetConnectionConfig_def DeleteConnectionConfig_def prog_simps)

text \<open>A credential's list is never nil when it is checked, as the translation of the keys makes a list of it.\<close>

lemma nil_list_passes:
  "mapCredentialsCSPKeyToSpiderKeys env provider None s = (Inr l, s') \<Longrightarrow> l = Some []"
  by (auto simp: mapCredentialsCSPKeyToSpiderKeys_def spider_keys_def elems_def prog_simps split: prod.splits sum.splits)

section \<open>Listings hide the values\<close>

lemma hidden_values:
  "kv \<in> set (elems (crd_KeyValueInfoList (hidden info))) \<Longrightarrow> kv_Value kv = ''Hidden for security.''"
  by (auto simp: hidden_def elems_def)

end
