(* ===== verification/Connections.thy ===== *)
theory Connections
  imports RegistryList
begin

text \<open>
  How a request gets its connection to a cloud, \<open>CloudDriverHandler_common.go\<close> and, for the drivers that are linked in,
  \<open>CloudDriverHandler_static.go\<close>: the driver of a connection's name, what the driver is told about the credential and
  the region, and the connections that are kept for a while. What a driver does is a parameter.

  The main facts: a driver is told exactly what was registered, and a connection that is reused was made for an information
  that looks the same, less than fifty minutes ago.
\<close>

section \<open>What drivers are told\<close>

record idrv_CredentialInfo =
  ClientId :: string
  ClientSecret :: string
  StsToken :: string
  TenantId :: string
  SubscriptionId :: string
  IdentityEndpoint :: string
  Username :: string
  Password :: string
  DomainName :: string
  ProjectID :: string
  AuthToken :: string
  ClientEmail :: string
  PrivateKey :: string
  Host :: string
  APIVersion :: string
  MockName :: string
  ApiKey :: string
  ConnectionName :: string
  ClusterId :: string
  S3Endpoint :: string
  S3AccessKey :: string
  S3SecretKey :: string
  S3UseSSL :: bool
  S3RegionRequired :: bool
  RDSUserAccessKey :: string
  RDSSecretAccessKey :: string
  RDSMySQLAppKey :: string
  RDSMariaDBAppKey :: string
  CISInstanceCRN :: string

record idrv_RegionInfo =
  ri_Region :: string
  ri_Zone :: string
  ri_TargetZone :: string

record ConnectionInfo =
  ci_CredentialInfo :: idrv_CredentialInfo
  ci_RegionInfo :: idrv_RegionInfo

section \<open>The key of a kept connection\<close>

text \<open>\<open>%+v\<close> of the information: names and values of the fields, without quotes.\<close>

definition show_bool :: "bool \<Rightarrow> string" where
  "show_bool b = (if b then ''true'' else ''false'')"

definition show_fields :: "(string \<times> string) list \<Rightarrow> string" where
  "show_fields fs = ''{'' @ Join (map (\<lambda>(n, v). n @ '':'' @ v) fs) '' '' @ ''}''"

definition show_CredentialInfo :: "idrv_CredentialInfo \<Rightarrow> string" where
  "show_CredentialInfo c = show_fields
     [(''ClientId'', ClientId c), (''ClientSecret'', ClientSecret c), (''StsToken'', StsToken c), (''TenantId'', TenantId c),
      (''SubscriptionId'', SubscriptionId c), (''IdentityEndpoint'', IdentityEndpoint c), (''Username'', Username c),
      (''Password'', Password c), (''DomainName'', DomainName c), (''ProjectID'', ProjectID c), (''AuthToken'', AuthToken c),
      (''ClientEmail'', ClientEmail c), (''PrivateKey'', PrivateKey c), (''Host'', Host c), (''APIVersion'', APIVersion c),
      (''MockName'', MockName c), (''ApiKey'', ApiKey c), (''ConnectionName'', ConnectionName c), (''ClusterId'', ClusterId c),
      (''S3Endpoint'', S3Endpoint c), (''S3AccessKey'', S3AccessKey c), (''S3SecretKey'', S3SecretKey c),
      (''S3UseSSL'', show_bool (S3UseSSL c)), (''S3RegionRequired'', show_bool (S3RegionRequired c)),
      (''RDSUserAccessKey'', RDSUserAccessKey c), (''RDSSecretAccessKey'', RDSSecretAccessKey c),
      (''RDSMySQLAppKey'', RDSMySQLAppKey c), (''RDSMariaDBAppKey'', RDSMariaDBAppKey c), (''CISInstanceCRN'', CISInstanceCRN c)]"

definition show_ConnectionInfo :: "ConnectionInfo \<Rightarrow> string" where
  "show_ConnectionInfo ci = show_fields
     [(''CredentialInfo'', show_CredentialInfo (ci_CredentialInfo ci)),
      (''RegionInfo'', show_fields [(''Region'', ri_Region (ci_RegionInfo ci)), (''Zone'', ri_Zone (ci_RegionInfo ci)),
         (''TargetZone'', ri_TargetZone (ci_RegionInfo ci))])]"

text \<open>\<open>sha256.Sum256\<close>, over words of 32 bits.\<close>

type_synonym u32 = "32 word"

definition K256 :: "u32 list" where
  "K256 = [
     0x428a2f98, 0x71374491, 0xb5c0fbcf, 0xe9b5dba5, 0x3956c25b, 0x59f111f1, 0x923f82a4, 0xab1c5ed5,
     0xd807aa98, 0x12835b01, 0x243185be, 0x550c7dc3, 0x72be5d74, 0x80deb1fe, 0x9bdc06a7, 0xc19bf174,
     0xe49b69c1, 0xefbe4786, 0x0fc19dc6, 0x240ca1cc, 0x2de92c6f, 0x4a7484aa, 0x5cb0a9dc, 0x76f988da,
     0x983e5152, 0xa831c66d, 0xb00327c8, 0xbf597fc7, 0xc6e00bf3, 0xd5a79147, 0x06ca6351, 0x14292967,
     0x27b70a85, 0x2e1b2138, 0x4d2c6dfc, 0x53380d13, 0x650a7354, 0x766a0abb, 0x81c2c92e, 0x92722c85,
     0xa2bfe8a1, 0xa81a664b, 0xc24b8b70, 0xc76c51a3, 0xd192e819, 0xd6990624, 0xf40e3585, 0x106aa070,
     0x19a4c116, 0x1e376c08, 0x2748774c, 0x34b0bcb5, 0x391c0cb3, 0x4ed8aa4a, 0x5b9cca4f, 0x682e6ff3,
     0x748f82ee, 0x78a5636f, 0x84c87814, 0x8cc70208, 0x90befffa, 0xa4506ceb, 0xbef9a3f7, 0xc67178f2]"

definition H256 :: "u32 list" where
  "H256 = [0x6a09e667, 0xbb67ae85, 0x3c6ef372, 0xa54ff53a, 0x510e527f, 0x9b05688c, 0x1f83d9ab, 0x5be0cd19]"

definition pad_message :: "byte list \<Rightarrow> byte list" where
  "pad_message m =
     (let n = length m
      in m @ [0x80] @ replicate ((119 - n mod 64) mod 64) 0 @ map (\<lambda>i. of_nat (8 * n div 256 ^ i)) (rev [0..<8]))"

fun be_words :: "byte list \<Rightarrow> u32 list" where
  "be_words (a # b # c # d # bs) =
     of_nat (((unat a * 256 + unat b) * 256 + unat c) * 256 + unat d) # be_words bs"
| "be_words bs = []"

definition schedule_step :: "u32 list \<Rightarrow> u32 list" where
  "schedule_step w =
     (let t = length w; x = w ! (t - 15); y = w ! (t - 2);
          s0 = word_rotr 7 x XOR word_rotr 18 x XOR drop_bit 3 x;
          s1 = word_rotr 17 y XOR word_rotr 19 y XOR drop_bit 10 y
      in w @ [s1 + w ! (t - 7) + s0 + w ! (t - 16)])"

definition hash_round :: "u32 list \<Rightarrow> u32 \<times> u32 \<Rightarrow> u32 list" where
  "hash_round s kw =
     (let a = s ! 0; b = s ! 1; c = s ! 2; e = s ! 4; f = s ! 5; g = s ! 6;
          t1 = s ! 7 + (word_rotr 6 e XOR word_rotr 11 e XOR word_rotr 25 e) + ((e AND f) XOR (NOT e AND g)) + fst kw + snd kw;
          t2 = (word_rotr 2 a XOR word_rotr 13 a XOR word_rotr 22 a) + ((a AND b) XOR (a AND c) XOR (b AND c))
      in [t1 + t2, a, b, c, s ! 3 + t1, e, f, g])"

definition hash_block :: "u32 list \<Rightarrow> u32 list \<Rightarrow> u32 list" where
  "hash_block h w = map2 (+) h (foldl hash_round h (zip K256 ((schedule_step ^^ 48) w)))"

fun hash_blocks :: "nat \<Rightarrow> u32 list \<Rightarrow> u32 list \<Rightarrow> u32 list" where
  "hash_blocks 0 h ws = h"
| "hash_blocks (Suc n) h ws = hash_blocks n (hash_block h (take 16 ws)) (drop 16 ws)"

definition Sum256 :: "byte list \<Rightarrow> u32 list" where
  "Sum256 m = (let ws = be_words (pad_message m) in hash_blocks (length ws div 16) H256 ws)"

definition show_hex :: "u32 \<Rightarrow> string" where
  "show_hex x = map (\<lambda>i. ''0123456789abcdef'' ! (unat x div 16 ^ i mod 16)) (rev [0..<8])"

definition cacheKey :: "ConnectionInfo \<Rightarrow> string" where
  "cacheKey ci = concat (map show_hex (Sum256 (bytes (show_ConnectionInfo ci))))"

section \<open>Environment and state\<close>

datatype CloudDriver =
    AwsDriver | AzureDriver | GCPDriver | AlibabaDriver | OpenStackDriver | TencentDriver | IbmCloudDriver | OracleDriver
  | NcpVpcDriver | NhnCloudDriver | KtCloudDriver | KTCloudVpcDriver | MockDriver

text \<open>
  \<open>ValidateCredential\<close> may panic: then it gives what \<open>recover()\<close> returns, as \<open>Inl\<close>. The readings of the clock, in
  nanoseconds, are numbered.
\<close>

record ('d, 'c, 'conn) control_env =
  ce_registry :: "'d registry_env"
  CALL_COUNT :: string
  time_Now :: "nat \<Rightarrow> nat"
  ConnectCloud :: "CloudDriver \<Rightarrow> ConnectionInfo \<Rightarrow> ('c, 'conn) prog"
  ValidateCredential :: "CloudDriver \<Rightarrow> idrv_CredentialInfo \<Rightarrow> 'c \<Rightarrow> (string + go_error option) \<times> 'c"

record 'conn cachedConnection =
  cc_conn :: 'conn
  cc_expiresAt :: nat

record ('d, 'c, 'conn) control =
  ct_registry :: "'d cim_state"
  ct_cloud :: 'c
  ct_connectionCache :: "string \<Rightarrow> 'conn cachedConnection option"
  ct_ticks :: nat

definition connectionCacheTTL :: nat where
  "connectionCacheTTL = 50 * 60 * 1000000000"

definition registered :: "('d cim_state, 'a) prog \<Rightarrow> (('d, 'c, 'conn) control, 'a) prog" where
  "registered m s = (let (r, rg) = m (ct_registry s) in (r, s\<lparr>ct_registry := rg\<rparr>))"

definition at_cloud :: "('c, 'a) prog \<Rightarrow> (('d, 'c, 'conn) control, 'a) prog" where
  "at_cloud m s = (let (r, c) = m (ct_cloud s) in (r, s\<lparr>ct_cloud := c\<rparr>))"

definition Now :: "('d, 'c, 'conn) control_env \<Rightarrow> (('d, 'c, 'conn) control, nat) prog" where
  "Now env s = (Inr (time_Now env (ct_ticks s)), s\<lparr>ct_ticks := Suc (ct_ticks s)\<rparr>)"

section \<open>Drivers\<close>

definition getCloudDriver :: "CloudDriverInfo \<Rightarrow> CloudDriver go_result" where
  "getCloudDriver cldDrvInfo =
     (let p = drv_ProviderName cldDrvInfo in
      if p = ''AWS'' then Inr AwsDriver
      else if p = ''AZURE'' then Inr AzureDriver
      else if p = ''GCP'' then Inr GCPDriver
      else if p = ''ALIBABA'' then Inr AlibabaDriver
      else if p = ''OPENSTACK'' then Inr OpenStackDriver
      else if p = ''TENCENT'' then Inr TencentDriver
      else if p = ''IBM'' then Inr IbmCloudDriver
      else if p = ''ORACLE'' then Inr OracleDriver
      else if p = ''NCP'' then Inr NcpVpcDriver
      else if p = ''NHN'' then Inr NhnCloudDriver
      else if p = ''KTCLASSIC'' then Inr KtCloudDriver
      else if p = ''KT'' then Inr KTCloudVpcDriver
      else if p = ''MOCK'' then Inr MockDriver
      else Inl (p @ '' is not supported static Cloud Driver!!''))"

definition GetCloudDriver :: "'d registry_env \<Rightarrow> string \<Rightarrow> ('d cim_state, CloudDriver) prog" where
  "GetCloudDriver env cloudConnectName =
     bindP (GetConnectionConfig env cloudConnectName) (\<lambda>cccInfo.
     bindP (dim_GetCloudDriver env (cfg_DriverName cccInfo)) (\<lambda>cldDrvInfo.
     lift_result (getCloudDriver cldDrvInfo)))"

definition getCloudDriverByDriverName :: "'d registry_env \<Rightarrow> string \<Rightarrow> ('d cim_state, CloudDriver) prog" where
  "getCloudDriverByDriverName env driverName =
     bindP (dim_GetCloudDriver env driverName) (\<lambda>cldDrvInfo.
     lift_result (getCloudDriver cldDrvInfo))"

definition GetProviderNameByDriverName :: "'d registry_env \<Rightarrow> string \<Rightarrow> ('d cim_state, string) prog" where
  "GetProviderNameByDriverName env driverName =
     bindP (dim_GetCloudDriver env driverName) (\<lambda>cldDrvInfo.
     ret (drv_ProviderName cldDrvInfo))"

section \<open>The information a driver gets\<close>

definition KeyValueListGetValue :: "KVList \<Rightarrow> string \<Rightarrow> string" where
  "KeyValueListGetValue keyValueInfoList key =
     (case List.find (\<lambda>kv. EqualFold (kv_Key kv) key) (elems keyValueInfoList) of
        Some kv \<Rightarrow> kv_Value kv
      | None \<Rightarrow> ''Not set'')"

text \<open>\<open>createConnectionInfo\<close> has the same literal with the name of the connection in it; the other fields are left empty.\<close>

definition credentialInfoFromKVList :: "KVList \<Rightarrow> idrv_CredentialInfo" where
  "credentialInfoFromKVList kvList =
     \<lparr>ClientId = KeyValueListGetValue kvList ''ClientId'',
      ClientSecret = KeyValueListGetValue kvList ''ClientSecret'',
      StsToken = KeyValueListGetValue kvList ''StsToken'',
      TenantId = KeyValueListGetValue kvList ''TenantId'',
      SubscriptionId = KeyValueListGetValue kvList ''SubscriptionId'',
      IdentityEndpoint = KeyValueListGetValue kvList ''IdentityEndpoint'',
      Username = KeyValueListGetValue kvList ''Username'',
      Password = KeyValueListGetValue kvList ''Password'',
      DomainName = KeyValueListGetValue kvList ''DomainName'',
      ProjectID = KeyValueListGetValue kvList ''ProjectID'',
      AuthToken = KeyValueListGetValue kvList ''AuthToken'',
      ClientEmail = KeyValueListGetValue kvList ''ClientEmail'',
      PrivateKey = KeyValueListGetValue kvList ''PrivateKey'',
      Host = KeyValueListGetValue kvList ''Host'',
      APIVersion = KeyValueListGetValue kvList ''APIVersion'',
      MockName = KeyValueListGetValue kvList ''MockName'',
      ApiKey = KeyValueListGetValue kvList ''ApiKey'',
      ConnectionName = [],
      ClusterId = KeyValueListGetValue kvList ''ClusterId'',
      S3Endpoint = [], S3AccessKey = [], S3SecretKey = [], S3UseSSL = False, S3RegionRequired = False,
      RDSUserAccessKey = KeyValueListGetValue kvList ''User Access Key'',
      RDSSecretAccessKey = KeyValueListGetValue kvList ''Secret Access Key'',
      RDSMySQLAppKey = KeyValueListGetValue kvList ''mysqlAppKey'',
      RDSMariaDBAppKey = KeyValueListGetValue kvList ''mariadbAppKey'',
      CISInstanceCRN = []\<rparr>"

definition getRegionNameByRegionInfo :: "rim_RegionInfo \<Rightarrow> string \<times> string" where
  "getRegionNameByRegionInfo rgnInfo =
     (if ToUpper (rgn_ProviderName rgnInfo) \<in> {''CLOUDTWIN'', ''MOCK''}
      then (KeyValueListGetValue (rgn_KeyValueInfoList rgnInfo) ''Region'', [])
      else (KeyValueListGetValue (rgn_KeyValueInfoList rgnInfo) ''Region'',
            KeyValueListGetValue (rgn_KeyValueInfoList rgnInfo) ''Zone''))"

definition createConnectionInfo :: "'d registry_env \<Rightarrow> string \<Rightarrow> string \<Rightarrow> ('d cim_state, ConnectionInfo) prog" where
  "createConnectionInfo env cloudConnectName targetZoneName =
     bindP (GetConnectionConfig env cloudConnectName) (\<lambda>cccInfo.
     bindP (GetCredentialDecrypt env (cfg_CredentialName cccInfo)) (\<lambda>crdInfo.
     bindP (GetRegion env (cfg_RegionName cccInfo)) (\<lambda>rgnInfo.
     let (regionName, zoneName) = getRegionNameByRegionInfo rgnInfo in
     ret \<lparr>ci_CredentialInfo = credentialInfoFromKVList (crd_KeyValueInfoList crdInfo)\<lparr>ConnectionName := cloudConnectName\<rparr>,
          ci_RegionInfo = \<lparr>ri_Region = regionName, ri_Zone = zoneName, ri_TargetZone = targetZoneName\<rparr>\<rparr>)))"

definition GetCloudDriverAndConnectionInfo ::
    "'d registry_env \<Rightarrow> string \<Rightarrow> ('d cim_state, CloudDriverInfo \<times> ConnectionInfo) prog" where
  "GetCloudDriverAndConnectionInfo env connectName =
     bindP (GetConnectionConfig env connectName) (\<lambda>cccInfo.
     bindP (dim_GetCloudDriver env (cfg_DriverName cccInfo)) (\<lambda>cloudDriverInfo.
     bindP (createConnectionInfo env connectName []) (\<lambda>connectionInfo.
     ret (cloudDriverInfo, connectionInfo))))"

section \<open>Connections\<close>

definition load_cached :: "('d, 'c, 'conn) control_env \<Rightarrow> string \<Rightarrow> (('d, 'c, 'conn) control, 'conn option) prog" where
  "load_cached env key s =
     (if CALL_COUNT env \<noteq> [] then (Inr None, s)
      else
        (case ct_connectionCache s key of
           None \<Rightarrow> (Inr None, s)
         | Some v \<Rightarrow> bindP (Now env) (\<lambda>now. ret (if now < cc_expiresAt v then Some (cc_conn v) else None)) s))"

text \<open>Entries that have expired are dropped, then the new one is stored.\<close>

definition store_cached :: "string \<Rightarrow> 'conn \<Rightarrow> nat \<Rightarrow> (('d, 'c, 'conn) control, unit) prog" where
  "store_cached key conn now s =
     (let cache = (\<lambda>k. case ct_connectionCache s k of
                         Some v \<Rightarrow> if cc_expiresAt v < now then None else Some v | None \<Rightarrow> None)
      in (Inr (), s\<lparr>ct_connectionCache := cache(key \<mapsto> \<lparr>cc_conn = conn, cc_expiresAt = now + connectionCacheTTL\<rparr>)\<rparr>))"

definition commonGetCloudConnection ::
    "('d, 'c, 'conn) control_env \<Rightarrow> string \<Rightarrow> string \<Rightarrow> (('d, 'c, 'conn) control, 'conn) prog" where
  "commonGetCloudConnection env cloudConnectName targetZoneName =
     bindP (registered (GetCloudDriver (ce_registry env) cloudConnectName)) (\<lambda>cldDriver.
     bindP (registered (createConnectionInfo (ce_registry env) cloudConnectName targetZoneName)) (\<lambda>connectionInfo.
     bindP (load_cached env (cacheKey connectionInfo)) (\<lambda>cached.
     case cached of
       Some conn \<Rightarrow> ret conn
     | None \<Rightarrow>
         bindP (at_cloud (ConnectCloud env cldDriver connectionInfo)) (\<lambda>cldConnection.
         bindP (Now env) (\<lambda>now.
         bindP (store_cached (cacheKey connectionInfo) cldConnection now) (\<lambda>_.
         ret cldConnection))))))"

text \<open>\<open>for i := 0; i < 3; i++\<close>: another attempt only after an error of dialing.\<close>

primrec attempts :: "nat \<Rightarrow> ('s, 'a) prog \<Rightarrow> go_error \<Rightarrow> ('s, 'a) prog" where
  "attempts 0 get err = throw err"
| "attempts (Suc n) get err =
     catchP get (\<lambda>err. if \<not> Contains err ''dial'' then throw err else attempts n get err) ret"

definition GetCloudConnection :: "('d, 'c, 'conn) control_env \<Rightarrow> string \<Rightarrow> (('d, 'c, 'conn) control, 'conn) prog" where
  "GetCloudConnection env cloudConnectName = attempts 3 (commonGetCloudConnection env cloudConnectName []) []"

definition GetZoneLevelCloudConnection ::
    "('d, 'c, 'conn) control_env \<Rightarrow> string \<Rightarrow> string \<Rightarrow> (('d, 'c, 'conn) control, 'conn) prog" where
  "GetZoneLevelCloudConnection env cloudConnectName targetZoneName =
     attempts 3 (commonGetCloudConnection env cloudConnectName targetZoneName) []"

definition default_region :: "string list \<Rightarrow> idrv_RegionInfo" where
  "default_region l =
     (case l of
        [r] \<Rightarrow> \<lparr>ri_Region = r, ri_Zone = [], ri_TargetZone = []\<rparr>
      | [r, z] \<Rightarrow> \<lparr>ri_Region = r, ri_Zone = z, ri_TargetZone = []\<rparr>
      | _ \<Rightarrow> \<lparr>ri_Region = [], ri_Zone = [], ri_TargetZone = []\<rparr>)"

definition GetCloudConnectionByDriverNameAndCredentialName ::
    "('d, 'c, 'conn) control_env \<Rightarrow> string \<Rightarrow> string \<Rightarrow> (('d, 'c, 'conn) control, 'conn) prog" where
  "GetCloudConnectionByDriverNameAndCredentialName env driverName credentialName =
     bindP (registered (getCloudDriverByDriverName (ce_registry env) driverName)) (\<lambda>cldDriver.
     bindP (registered (GetCredentialDecrypt (ce_registry env) credentialName)) (\<lambda>crdInfo.
     bindP (registered (GetProviderNameByDriverName (ce_registry env) driverName)) (\<lambda>providerName.
     bindP (registered (GetCloudOSMetaInfo (ce_registry env) providerName)) (\<lambda>cloudOSMetaInfo.
     at_cloud (ConnectCloud env cldDriver
       \<lparr>ci_CredentialInfo = credentialInfoFromKVList (crd_KeyValueInfoList crdInfo),
        ci_RegionInfo = default_region (meta_DefaultRegionToQuery cloudOSMetaInfo)\<rparr>)))))"

definition recovered :: "('c \<Rightarrow> (string + go_error option) \<times> 'c) \<Rightarrow> (('d, 'c, 'conn) control, unit) prog" where
  "recovered f s =
     (let (r, c) = f (ct_cloud s); s = s\<lparr>ct_cloud := c\<rparr>
      in case r of
           Inl p \<Rightarrow> (Inl (''failed to validate credential: '' @ p), s)
         | Inr (Some err) \<Rightarrow> (Inl err, s)
         | Inr None \<Rightarrow> (Inr (), s))"

definition ValidateCredentialByProvider ::
    "('d, 'c, 'conn) control_env \<Rightarrow> string \<Rightarrow> KVList \<Rightarrow> (('d, 'c, 'conn) control, unit) prog" where
  "ValidateCredentialByProvider env providerName kvList =
     (let providerName = ToUpper (TrimSpace providerName);
          default = \<lparr>drv_DriverName = ToLower providerName @ ''-driver-v1.0'', drv_ProviderName = providerName,
                     drv_DriverLibFileName = ToLower providerName @ ''-driver-v1.0.so''\<rparr>
      in
     bindP (catchP (registered (ListCloudDriverByProvider (ce_registry env) providerName)) (\<lambda>_. ret default)
       (\<lambda>drvList. ret (if 0 < length drvList then hd drvList else default))) (\<lambda>cldDrvInfo.
     bindP (lift_result (getCloudDriver cldDrvInfo)) (\<lambda>cldDriver.
     recovered (ValidateCredential env cldDriver (credentialInfoFromKVList kvList)))))"

section \<open>Names\<close>

definition GetProviderNameByConnectionName :: "'d registry_env \<Rightarrow> string \<Rightarrow> ('d cim_state, string) prog" where
  "GetProviderNameByConnectionName env cloudConnectName =
     bindP (GetConnectionConfig env cloudConnectName) (\<lambda>cccInfo.
     bindP (GetRegion env (cfg_RegionName cccInfo)) (\<lambda>rgnInfo.
     ret (rgn_ProviderName rgnInfo)))"

definition GetRegionNameByConnectionName :: "'d registry_env \<Rightarrow> string \<Rightarrow> ('d cim_state, string \<times> string) prog" where
  "GetRegionNameByConnectionName env cloudConnectName =
     bindP (GetConnectionConfig env cloudConnectName) (\<lambda>cccInfo.
     bindP (GetRegion env (cfg_RegionName cccInfo)) (\<lambda>rgnInfo.
     ret (getRegionNameByRegionInfo rgnInfo)))"

fun names_in_region :: "'d registry_env \<Rightarrow> string \<Rightarrow> string \<Rightarrow> ConnectionConfigInfo list \<Rightarrow> ('d cim_state, string list) prog" where
  "names_in_region env provider region [] = ret []"
| "names_in_region env provider region (cfg # cfgs) =
     (if cfg_ProviderName cfg = provider then
        bindP (GetRegionNameByConnectionName env (cfg_ConfigName cfg)) (\<lambda>(targetRegion, _).
        bindP (names_in_region env provider region cfgs) (\<lambda>names.
        ret (if targetRegion = region then cfg_ConfigName cfg # names else names)))
      else names_in_region env provider region cfgs)"

definition ListConnectionNameByProviderAndRegion :: "'d registry_env \<Rightarrow> string \<Rightarrow> string \<Rightarrow> ('d cim_state, string list) prog" where
  "ListConnectionNameByProviderAndRegion env provider region =
     bindP (ListConnectionConfig env) (\<lambda>connectionConfigInfoList.
     names_in_region env provider region connectionConfigInfoList)"

section \<open>What the information says\<close>

lemma wp_registered [wp_simps]:
  "wp (registered m) Q E s = wp m (\<lambda>x rg. Q x (s\<lparr>ct_registry := rg\<rparr>)) (\<lambda>e rg. E e (s\<lparr>ct_registry := rg\<rparr>)) (ct_registry s)"
  by (simp add: wp_def registered_def split: prod.split sum.split)

lemma wp_at_cloud [wp_simps]:
  "wp (at_cloud m) Q E s = wp m (\<lambda>x c. Q x (s\<lparr>ct_cloud := c\<rparr>)) (\<lambda>e c. E e (s\<lparr>ct_cloud := c\<rparr>)) (ct_cloud s)"
  by (simp add: wp_def at_cloud_def split: prod.split sum.split)

lemma wp_Now [wp_simps]: "wp (Now env) Q E s = Q (time_Now env (ct_ticks s)) (s\<lparr>ct_ticks := Suc (ct_ticks s)\<rparr>)"
  by (simp add: wp_def Now_def)

text \<open>The information that the tables of the registry hold for a connection, a zone being asked for.\<close>

definition connection_info :: "string \<Rightarrow> string \<Rightarrow> KeyValue list \<Rightarrow> rim_RegionInfo \<Rightarrow> ConnectionInfo" where
  "connection_info name zone plain rgn =
     \<lparr>ci_CredentialInfo = credentialInfoFromKVList (Some plain)\<lparr>ConnectionName := name\<rparr>,
      ci_RegionInfo = \<lparr>ri_Region = fst (getRegionNameByRegionInfo rgn), ri_Zone = snd (getRegionNameByRegionInfo rgn), ri_TargetZone = zone\<rparr>\<rparr>"

definition described :: "views \<Rightarrow> string \<Rightarrow> string \<Rightarrow> ConnectionInfo \<Rightarrow> bool" where
  "described v name zone ci \<longleftrightarrow>
     (\<exists>cfg crd rgn plain.
        v_connections v name = Some cfg \<and> v_credentials v (cfg_CredentialName cfg) = Some crd \<and>
        v_regions v (cfg_RegionName cfg) = Some rgn \<and> decryptKeyValueList (elems (crd_KeyValueInfoList crd)) = Inr plain \<and>
        ci = connection_info name zone plain rgn)"

lemma elems_Some: "elems (Some (elems kvs)) = elems kvs"
  by (simp add: elems_def)

lemma credentialInfo_elems: "credentialInfoFromKVList kvs = credentialInfoFromKVList (Some (elems kvs))"
  by (simp add: credentialInfoFromKVList_def KeyValueListGetValue_def elems_Some)

lemma createConnectionInfo_wp:
  assumes ok: "registry_ok env V"
    and Q: "\<And>ci s'. described (viewed V s) name zone ci \<Longrightarrow> viewed V s' = viewed V s \<Longrightarrow> Q ci s'"
    and E: "\<And>e s'. viewed V s' = viewed V s \<Longrightarrow> E e s'"
  shows "wp (createConnectionInfo env name zone) Q E s"
proof -
  have t: "table_ok (tb_connections env) V cfg_column v_connections v_connections_update"
    "table_ok (tb_regions env) V rgn_column v_regions v_regions_update" using ok by (simp_all add: registry_ok_def)
  show ?thesis
    unfolding createConnectionInfo_def wp_bindP
  proof (rule connections.fetch_wp[OF t(1)], rule GetCredentialDecrypt_wp[OF ok], rule regions.fetch_wp[OF t(2)], goal_cases)
    case (1 cfg s1 row crd s2 rgn s3)
    have "described (viewed V s) name zone (connection_info name zone (elems (crd_KeyValueInfoList crd)) rgn)"
      unfolding described_def using 1 by metis
    then have "Q (connection_info name zone (elems (crd_KeyValueInfoList crd)) rgn) s3" by (rule Q) (use 1 in simp)
    moreover have "connection_info name zone (elems (crd_KeyValueInfoList crd)) rgn =
        \<lparr>ci_CredentialInfo = credentialInfoFromKVList (crd_KeyValueInfoList crd)\<lparr>ConnectionName := name\<rparr>,
         ci_RegionInfo = \<lparr>ri_Region = fst (getRegionNameByRegionInfo rgn), ri_Zone = snd (getRegionNameByRegionInfo rgn), ri_TargetZone = zone\<rparr>\<rparr>"
      unfolding connection_info_def by (subst (2) credentialInfo_elems) simp
    ultimately show ?case by (simp add: wp_ret split_beta)
  qed (simp_all add: E)
qed

lemma GetCloudDriver_wp:
  assumes ok: "registry_ok env V"
    and Q: "\<And>d s'. viewed V s' = viewed V s \<Longrightarrow> Q d s'" and E: "\<And>e s'. viewed V s' = viewed V s \<Longrightarrow> E e s'"
  shows "wp (GetCloudDriver env name) Q E s"
proof -
  have t: "table_ok (tb_connections env) V cfg_column v_connections v_connections_update"
    "table_ok (tb_drivers env) V drv_column v_drivers v_drivers_update" using ok by (simp_all add: registry_ok_def)
  show ?thesis
    unfolding GetCloudDriver_def wp_bindP
    by (rule connections.fetch_wp[OF t(1)], rule drivers.fetch_wp[OF t(2)], rule wp_lift_resultI) (simp_all add: Q E)
qed

text \<open>
  C25: A driver is told what was registered: when a credential, a region and a connection that names the two have been
  registered one after the other, the information made for the connection holds the values of the credential in the
  clear, looked up by the names that drivers know them by, and the region and the zone of the registered region, none
  for the mock.
\<close>

theorem connection_from_registration:
  assumes "registry_ok env V"
    and "RegisterCredentialInfo env crd s0 = (Inr r1, s1)"
    and "RegisterRegionInfo env rgn s1 = (Inr r2, s2)"
    and "CreateConnectionConfigInfo env cfg s2 = (Inr r3, s3)"
    and "TrimSpace (cfg_CredentialName cfg) = TrimSpace (crd_CredentialName crd)"
    and "TrimSpace (cfg_RegionName cfg) = TrimSpace (rgn_RegionName rgn)"
    and "createConnectionInfo env (TrimSpace (cfg_ConfigName cfg)) zone s3 = (Inr ci, s4)"
  shows "\<exists>m. rg_metaInfo s1 = Some m \<and> ci = connection_info (TrimSpace (cfg_ConfigName cfg)) zone (plain_values m crd) (region_row rgn)"
proof -
  let ?n = "TrimSpace (crd_CredentialName crd)"
  have "wp (RegisterCredentialInfo env crd) (\<lambda>_ s'. \<exists>m encs. decryptKeyValueList encs = Inr (plain_values m crd) \<and>
      rg_metaInfo s' = Some m \<and> v_credentials (viewed V s') ?n = Some (credential_row crd encs)) (\<lambda>_ _. True) s0"
    by (rule RegisterCredentialInfo_wp[OF assms(1)]) auto
  from wp_okD[OF this assms(2)] obtain m encs where s1: "decryptKeyValueList encs = Inr (plain_values m crd)"
    "rg_metaInfo s1 = Some m" "v_credentials (viewed V s1) ?n = Some (credential_row crd encs)" by blast
  have "wp (RegisterRegionInfo env rgn) (\<lambda>_ s'. v_credentials (viewed V s') = v_credentials (viewed V s1) \<and>
      v_regions (viewed V s') (TrimSpace (rgn_RegionName rgn)) = Some (region_row rgn)) (\<lambda>_ _. True) s1"
    by (rule RegisterRegionInfo_wp[OF assms(1)]) auto
  note s2 = wp_okD[OF this assms(3)]
  have "wp (CreateConnectionConfigInfo env cfg) (\<lambda>_ s'. v_credentials (viewed V s') = v_credentials (viewed V s2) \<and>
      v_regions (viewed V s') = v_regions (viewed V s2) \<and>
      v_connections (viewed V s') (TrimSpace (cfg_ConfigName cfg)) = Some (connection_row cfg)) (\<lambda>_ _. True) s2"
    by (rule CreateConnectionConfigInfo_wp[OF assms(1)]) auto
  note s3 = wp_okD[OF this assms(4)]
  have d: "decryptKeyValueList (elems (crd_KeyValueInfoList (credential_row crd encs))) = Inr (plain_values m crd)"
    using s1(1) by (auto simp: credential_row_def KVList_Value_def elems_def)
  have "wp (createConnectionInfo env (TrimSpace (cfg_ConfigName cfg)) zone)
      (\<lambda>ci _. described (viewed V s3) (TrimSpace (cfg_ConfigName cfg)) zone ci) (\<lambda>_ _. True) s3"
    by (rule createConnectionInfo_wp[OF assms(1)]) auto
  from wp_okD[OF this assms(7)] have "ci = connection_info (TrimSpace (cfg_ConfigName cfg)) zone (plain_values m crd) (region_row rgn)"
    unfolding described_def using s1(3) s2 s3 d assms(5,6) by (auto simp: connection_row_def)
  with s1(2) show ?thesis by blast
qed

definition ex_region :: rim_RegionInfo where
  "ex_region = \<lparr>rgn_RegionName = ''r1'', rgn_ProviderName = ''mock'',
     rgn_KeyValueInfoList = Some [\<lparr>kv_Key = ''region'', kv_Value = ''seoul''\<rparr>], rgn_AvailableZoneList = None\<rparr>"

definition ex_config :: "string \<Rightarrow> ConnectionConfigInfo" where
  "ex_config driver = \<lparr>cfg_ConfigName = ''conn'', cfg_ProviderName = ''mock'', cfg_DriverName = driver,
     cfg_CredentialName = ''c1'', cfg_RegionName = ''r1''\<rparr>"

lemma ex_strings':
  "TrimSpace ''r1'' = ''r1''" "TrimSpace ''conn'' = ''conn''" "TrimSpace ''c1'' = ''c1''"
  "ValidateKeyValueList [\<lparr>kv_Key = ''region'', kv_Value = ''seoul''\<rparr>] [''Region''] = None"
  "EqualFold ''region'' ''Region''" "EqualFold ''MockName'' ''MockName''"
  by code_simp+

lemmas ex_run' = ex_run ex_strings' ex_credential_def ex_region_def ex_config_def RegisterRegionInfo_def AZList_Value_def
  CreateConnectionConfigInfo_def ccim_checkParams_def createConnectionInfo_def GetConnectionConfig_def GetRegion_def Let_def case_prod_unfold

theorem connection_from_registration_witness:
  "\<exists>r1 s1 r2 s2 r3 s3 ci s4. RegisterCredentialInfo ex_reg_env ex_credential ex_registry = (Inr r1, s1) \<and>
     RegisterRegionInfo ex_reg_env ex_region s1 = (Inr r2, s2) \<and> CreateConnectionConfigInfo ex_reg_env (ex_config ''d'') s2 = (Inr r3, s3) \<and>
     createConnectionInfo ex_reg_env ''conn'' [] s3 = (Inr ci, s4) \<and>
     (\<exists>m. ci = connection_info ''conn'' [] (plain_values m ex_credential) (region_row ex_region))"
proof -
  have "\<exists>r1 s1 r2 s2 r3 s3 ci s4. RegisterCredentialInfo ex_reg_env ex_credential ex_registry = (Inr r1, s1) \<and>
     RegisterRegionInfo ex_reg_env ex_region s1 = (Inr r2, s2) \<and> CreateConnectionConfigInfo ex_reg_env (ex_config ''d'') s2 = (Inr r3, s3) \<and>
     createConnectionInfo ex_reg_env ''conn'' [] s3 = (Inr ci, s4)"
    by (simp add: ex_run')
  then obtain r1 s1 r2 s2 r3 s3 ci s4 where run: "RegisterCredentialInfo ex_reg_env ex_credential ex_registry = (Inr r1, s1)"
    "RegisterRegionInfo ex_reg_env ex_region s1 = (Inr r2, s2)" "CreateConnectionConfigInfo ex_reg_env (ex_config ''d'') s2 = (Inr r3, s3)"
    "createConnectionInfo ex_reg_env ''conn'' [] s3 = (Inr ci, s4)" by blast
  have n: "TrimSpace (cfg_ConfigName (ex_config ''d'')) = ''conn''" by (simp add: ex_config_def ex_strings')
  have ok: "registry_ok ex_reg_env db_views" unfolding ex_reg_env_def by (rule list_env_ok)
  have "\<exists>m. rg_metaInfo s1 = Some m \<and> ci = connection_info ''conn'' [] (plain_values m ex_credential) (region_row ex_region)"
    using connection_from_registration[OF ok run(1,2,3), of "[]" ci s4] run(4)
    by (simp add: n) (simp add: ex_config_def ex_credential_def ex_region_def ex_strings ex_strings')
  then show ?thesis using run by blast
qed

section \<open>Where a connection comes from\<close>

text \<open>
  Every kept connection is one that a driver gave for an information with its key, and expires fifty minutes after the
  reading of the clock that followed.
\<close>

definition cache_ok :: "('d, 'c, 'conn) control_env \<Rightarrow> ('d, 'c, 'conn) control \<Rightarrow> bool" where
  "cache_ok env s \<longleftrightarrow>
     (\<forall>k v. ct_connectionCache s k = Some v \<longrightarrow>
        (\<exists>drv ci c c' n. cacheKey ci = k \<and> ConnectCloud env drv ci c = (Inr (cc_conn v), c') \<and>
           n < ct_ticks s \<and> cc_expiresAt v = time_Now env n + connectionCacheTTL))"

text \<open>
  Where a connection for \<open>ci\<close> may come from, at the reading \<open>m\<close> of the clock: it is the entry that the cache had for the
  key of \<open>ci\<close>, and has not expired; or the driver has given it just now, and it is kept for fifty minutes.
\<close>

definition from_cache :: "('d, 'c, 'conn) control_env \<Rightarrow> ('d, 'c, 'conn) control \<Rightarrow> ConnectionInfo \<Rightarrow> 'conn \<Rightarrow> nat \<Rightarrow> bool" where
  "from_cache env s ci conn m \<longleftrightarrow>
     (\<exists>v. ct_connectionCache s (cacheKey ci) = Some v \<and> cc_conn v = conn \<and> time_Now env m < cc_expiresAt v)"

definition from_driver :: "('d, 'c, 'conn) control_env \<Rightarrow> ('d, 'c, 'conn) control \<Rightarrow> ConnectionInfo \<Rightarrow> 'conn \<Rightarrow> nat \<Rightarrow> bool" where
  "from_driver env s' ci conn m \<longleftrightarrow>
     (\<exists>drv c. ConnectCloud env drv ci c = (Inr conn, ct_cloud s')) \<and>
     ct_connectionCache s' (cacheKey ci) = Some \<lparr>cc_conn = conn, cc_expiresAt = time_Now env m + connectionCacheTTL\<rparr>"

text \<open>What a call leaves when it fails: the cache as it was, and a clock that has gone on.\<close>

definition same_cache :: "('d, 'c, 'conn) control \<Rightarrow> ('d, 'c, 'conn) control \<Rightarrow> bool" where
  "same_cache s s' \<longleftrightarrow> ct_connectionCache s' = ct_connectionCache s \<and> ct_ticks s \<le> ct_ticks s'"

lemma from_cache_same: "ct_connectionCache s' = ct_connectionCache s \<Longrightarrow> from_cache env s' = from_cache env s"
  by (simp add: from_cache_def fun_eq_iff)

lemma cache_ok_frame:
  assumes "cache_ok env s" and "ct_connectionCache s' = ct_connectionCache s" and "ct_ticks s \<le> ct_ticks s'"
  shows "cache_ok env s'"
  using assms unfolding cache_ok_def by (metis order_less_le_trans)

lemma cache_ok_empty: "ct_connectionCache s = (\<lambda>_. None) \<Longrightarrow> cache_ok env s"
  by (simp add: cache_ok_def)

lemma cache_ok_upd [simp]:
  "cache_ok env (s\<lparr>ct_registry := rg\<rparr>) = cache_ok env s" "cache_ok env (s\<lparr>ct_cloud := c\<rparr>) = cache_ok env s"
  by (simp_all add: cache_ok_def)

lemma load_cached_wp:
  assumes "Q None s" and "Q None (s\<lparr>ct_ticks := Suc (ct_ticks s)\<rparr>)"
    and "\<And>conn. from_cache env s ci conn (ct_ticks s) \<Longrightarrow> Q (Some conn) (s\<lparr>ct_ticks := Suc (ct_ticks s)\<rparr>)"
  shows "wp (load_cached env (cacheKey ci)) Q E s"
proof (cases "CALL_COUNT env = [] \<and> ct_connectionCache s (cacheKey ci) \<noteq> None")
  case False
  then show ?thesis using assms(1) by (auto simp: wp_def load_cached_def)
next
  case True
  then obtain v where v: "ct_connectionCache s (cacheKey ci) = Some v" by blast
  have run: "load_cached env (cacheKey ci) s =
      (Inr (if time_Now env (ct_ticks s) < cc_expiresAt v then Some (cc_conn v) else None), s\<lparr>ct_ticks := Suc (ct_ticks s)\<rparr>)"
    using True v by (simp add: load_cached_def prog_simps Now_def)
  then show ?thesis using assms(2,3) v by (simp add: wp_def run from_cache_def)
qed

lemma store_cached_ok:
  assumes "cache_ok env s" and "ConnectCloud env drv ci c = (Inr conn, c')" and "n < ct_ticks s"
  shows "cache_ok env (snd (store_cached (cacheKey ci) conn (time_Now env n) s))"
proof -
  let ?s = "snd (store_cached (cacheKey ci) conn (time_Now env n) s)"
  have t: "ct_ticks ?s = ct_ticks s" by (simp add: store_cached_def)
  have "\<exists>drv ci c c' n. cacheKey ci = k \<and> ConnectCloud env drv ci c = (Inr (cc_conn v), c') \<and> n < ct_ticks s \<and>
      cc_expiresAt v = time_Now env n + connectionCacheTTL" if v: "ct_connectionCache ?s k = Some v" for k v
  proof (cases "k = cacheKey ci")
    case True
    then have "v = \<lparr>cc_conn = conn, cc_expiresAt = time_Now env n + connectionCacheTTL\<rparr>" using v by (simp add: store_cached_def)
    then show ?thesis using True assms(2,3) by auto
  next
    case False
    then have "ct_connectionCache s k = Some v" using v by (auto simp: store_cached_def split: option.split_asm if_splits)
    then show ?thesis using assms(1) unfolding cache_ok_def by blast
  qed
  then show ?thesis unfolding cache_ok_def t by blast
qed

lemma common_wp:
  assumes ok: "registry_ok (ce_registry env) V" and c: "cache_ok env s"
    and Q: "\<And>ci conn m s'. described (viewed V (ct_registry s)) name zone ci \<Longrightarrow>
      from_cache env s ci conn m \<or> from_driver env s' ci conn m \<Longrightarrow> ct_ticks s \<le> m \<Longrightarrow> ct_ticks s' = Suc m \<Longrightarrow>
      cache_ok env s' \<Longrightarrow> viewed V (ct_registry s') = viewed V (ct_registry s) \<Longrightarrow> Q conn s'"
    and E: "\<And>e s'. same_cache s s' \<Longrightarrow> viewed V (ct_registry s') = viewed V (ct_registry s) \<Longrightarrow> E e s'"
  shows "wp (commonGetCloudConnection env name zone) Q E s"
  unfolding commonGetCloudConnection_def wp_bindP wp_registered
proof (rule GetCloudDriver_wp[OF ok], goal_cases)
  case (1 drv rg1)
  show ?case
  proof (rule createConnectionInfo_wp[OF ok], goal_cases)
    case (1 ci rg2)
    let ?s2 = "s\<lparr>ct_registry := rg1\<rparr>\<lparr>ct_registry := rg2\<rparr>"
    have v: "viewed V rg2 = viewed V (ct_registry s)" and d: "described (viewed V (ct_registry s)) name zone ci"
      using 1 \<open>viewed V rg1 = viewed V (ct_registry s)\<close> by simp_all
    have miss: "wp (bindP (at_cloud (ConnectCloud env drv ci)) (\<lambda>cldConnection.
         bindP (Now env) (\<lambda>now. bindP (store_cached (cacheKey ci) cldConnection now) (\<lambda>_. ret cldConnection)))) Q E s3"
      if s3: "same_cache s s3" "viewed V (ct_registry s3) = viewed V (ct_registry s)" for s3
      unfolding wp_bindP wp_at_cloud
    proof (rule wpI)
      fix conn c' assume conn: "ConnectCloud env drv ci (ct_cloud s3) = (Inr conn, c')"
      let ?s4 = "s3\<lparr>ct_cloud := c', ct_ticks := Suc (ct_ticks s3)\<rparr>" and ?now = "time_Now env (ct_ticks s3)"
      have "cache_ok env ?s4" using s3(1) by (intro cache_ok_frame[OF c]) (simp_all add: same_cache_def)
      then have "cache_ok env (snd (store_cached (cacheKey ci) conn ?now ?s4))" by (rule store_cached_ok[OF _ conn]) simp
      moreover have "from_driver env (snd (store_cached (cacheKey ci) conn ?now ?s4)) ci conn (ct_ticks s3)"
        unfolding from_driver_def store_cached_def using conn by auto
      ultimately show "wp (Now env) (\<lambda>now. wp (store_cached (cacheKey ci) conn now) (\<lambda>_. wp (ret conn) Q E) E) E (s3\<lparr>ct_cloud := c'\<rparr>)"
        using s3 d
        by (auto simp: wp_Now wp_ret wp_def[of "store_cached _ _ _"] store_cached_def Let_def same_cache_def intro!: Q[of ci conn "ct_ticks s3"])
    qed (use s3 in \<open>simp add: E same_cache_def\<close>)
    show ?case
    proof (rule load_cached_wp, goal_cases)
      case 1
      show ?case by (simp add: miss same_cache_def v)
    next
      case 2
      show ?case by (simp add: miss same_cache_def v)
    next
      case (3 conn)
      let ?s3 = "?s2\<lparr>ct_ticks := Suc (ct_ticks ?s2)\<rparr>"
      have "cache_ok env ?s3" by (rule cache_ok_frame[OF c]) simp_all
      moreover have "from_cache env s ci conn (ct_ticks s)" using 3 by (simp add: from_cache_def)
      ultimately have "Q conn ?s3" by (intro Q[OF d, of _ "ct_ticks s"]) (simp_all add: v)
      then show ?case by (simp add: wp_ret)
    qed
  qed (simp_all add: E 1 same_cache_def)
qed (simp add: E same_cache_def)

text \<open>What every attempt keeps holds after any number of them.\<close>

lemma attempts_wp:
  assumes "\<And>s. I s \<Longrightarrow> wp get Q (\<lambda>_. I) s" and "I s"
  shows "wp (attempts n get err) Q (\<lambda>_. I) s"
  using assms(2)
proof (induction n arbitrary: s err)
  case (Suc n)
  have "wp get Q (\<lambda>err. wp (if \<not> Contains err ''dial'' then throw err else attempts n get err) Q (\<lambda>_. I)) s"
    by (rule wp_mono[OF assms(1)[OF Suc.prems]]) (simp_all add: wp_throw Suc.IH)
  then show ?case by (simp add: wp_catchP wp_ret_fun)
qed (simp add: wp_throw)

text \<open>
  C23: A connection for a name, with or without a zone, was asked for with the information that the tables of the registry
  describe now. Either it is what the cache had, before the call, for the key of that information, and by the last reading
  of the clock, in this call, it has not expired; or a driver gave it for that very information, and it is now kept until
  fifty minutes after that reading. A cache whose entries were each given by a driver for an information with the entry's
  key, and expire fifty minutes after some earlier reading (\<open>cache_ok\<close>), stays one, and the registry is as it was.
\<close>

theorem GetZoneLevelCloudConnection_origin:
  assumes "registry_ok (ce_registry env) V" and "cache_ok env s"
    and "GetZoneLevelCloudConnection env name zone s = (Inr conn, s')"
  shows "cache_ok env s' \<and> viewed V (ct_registry s') = viewed V (ct_registry s) \<and>
    (\<exists>ci m. described (viewed V (ct_registry s)) name zone ci \<and> ct_ticks s \<le> m \<and> ct_ticks s' = Suc m \<and>
       (from_cache env s ci conn m \<or> from_driver env s' ci conn m))"
proof -
  let ?I = "\<lambda>s'. same_cache s s' \<and> viewed V (ct_registry s') = viewed V (ct_registry s)"
  let ?Q = "\<lambda>conn s'. cache_ok env s' \<and> viewed V (ct_registry s') = viewed V (ct_registry s) \<and>
    (\<exists>ci m. described (viewed V (ct_registry s)) name zone ci \<and> ct_ticks s \<le> m \<and> ct_ticks s' = Suc m \<and>
       (from_cache env s ci conn m \<or> from_driver env s' ci conn m))"
  have "wp (commonGetCloudConnection env name zone) ?Q (\<lambda>_. ?I) s0" if s0: "?I s0" for s0
  proof -
    from s0 have "cache_ok env s0" by (auto simp: same_cache_def intro: cache_ok_frame[OF assms(2)])
    from common_wp[OF assms(1) this, of name zone ?Q "\<lambda>_. ?I"] s0 show ?thesis
      by (auto simp: same_cache_def from_cache_same[of s0 s])
  qed
  then have "wp (GetZoneLevelCloudConnection env name zone) ?Q (\<lambda>_. ?I) s"
    unfolding GetZoneLevelCloudConnection_def by (rule attempts_wp) (simp_all add: same_cache_def)
  from wp_okD[OF this assms(3)] show ?thesis by blast
qed

lemma GetCloudConnection_zone: "GetCloudConnection env name = GetZoneLevelCloudConnection env name []"
  by (simp add: GetCloudConnection_def GetZoneLevelCloudConnection_def)

section \<open>Runs\<close>

text \<open>
  A cloud that counts the connections made to it, each of which is the driver it was made by. A connection is registered
  with one driver, used, registered again with another, and used again: the second use gets the first driver's connection.
\<close>

definition ex_control_env :: "(info_db, nat, CloudDriver) control_env" where
  "ex_control_env =
     \<lparr>ce_registry = ex_reg_env, CALL_COUNT = [], time_Now = (\<lambda>n. n), ConnectCloud = (\<lambda>drv ci c. (Inr drv, Suc c)),
      ValidateCredential = (\<lambda>_ _ c. (Inr None, c))\<rparr>"

definition ex_driver :: "string \<Rightarrow> string \<Rightarrow> CloudDriverInfo" where
  "ex_driver name provider = \<lparr>drv_DriverName = name, drv_ProviderName = provider, drv_DriverLibFileName = ''lib''\<rparr>"

definition ex_reg_meta :: "string \<Rightarrow> CloudOSMetaInfo option" where
  "ex_reg_meta k = map_option convertMetaInfo (ex_yaml k)"

definition ex_registered :: "string \<Rightarrow> info_db cim_state" where
  "ex_registered driver =
     \<lparr>rg_store = \<lparr>dbConfigErr = None, st_open = Some None,
        st_db = \<lparr>db_drivers = [ex_driver ''d2'' ''AWS'', ex_driver ''d1'' ''MOCK''],
          db_credentials = [\<lparr>crd_CredentialName = ''c1'', crd_ProviderName = ''MOCK'',
            crd_KeyValueInfoList = Some [\<lparr>kv_Key = ''MockName'', kv_Value = ex_enc\<rparr>]\<rparr>],
          db_regions = [ex_region\<lparr>rgn_ProviderName := ''MOCK''\<rparr>], db_connections = [(ex_config driver)\<lparr>cfg_ProviderName := ''MOCK''\<rparr>]\<rparr>\<rparr>,
      rg_metaInfo = Some ex_reg_meta, rg_reads = 1, rg_draws = 1\<rparr>"

lemma ex_strings'':
  "TrimSpace ''d1'' = ''d1''" "TrimSpace ''d2'' = ''d2''" "TrimSpace ''MOCK'' = ''MOCK''" "TrimSpace ''AWS'' = ''AWS''"
  "TrimSpace ''lib'' = ''lib''" "ToUpper ''AWS'' = ''AWS''"
  by code_simp+

lemma ex_reg_meta_fun: "(\<lambda>k. case ex_yaml k of None \<Rightarrow> None | Some v \<Rightarrow> Some (convertMetaInfo v)) = ex_reg_meta"
  by (auto simp: ex_reg_meta_def fun_eq_iff split: option.split)

lemma ex_reg_meta_mock: "meta_at ex_reg_meta ''MOCK'' = \<lparr>meta_Region = [''Region''], meta_Credential = [''MockName''], meta_CredentialCSP = [''mock_name''],
    meta_RootDiskType = splitAndTrim [], meta_RootDiskSize = splitAndTrim [], meta_DiskType = splitAndTrim [],
    meta_DiskSize = splitAndTrim [], meta_IdMaxLength = splitAndTrim [], meta_DefaultRegionToQuery = splitAndTrim []\<rparr>"
  by (simp add: meta_at_def ex_reg_meta_def ex_yaml_def convertMetaInfo_def ex_strings)

lemma ex_registration:
  "snd (bindP (RegisterCredentialInfo ex_reg_env ex_credential) (\<lambda>_.
        bindP (RegisterRegionInfo ex_reg_env ex_region) (\<lambda>_.
        bindP (RegisterCloudDriverInfo ex_reg_env (ex_driver ''d1'' ''MOCK'')) (\<lambda>_.
        bindP (RegisterCloudDriverInfo ex_reg_env (ex_driver ''d2'' ''AWS'')) (\<lambda>_.
        CreateConnectionConfigInfo ex_reg_env (ex_config ''d1''))))) ex_registry) = ex_registered ''d1''"
  by (simp add: bindP_def RegisterCredentialInfo_def mapCredentialsCSPKeyToSpiderKeys_def cim_checkParams_def rim_checkParams_def
      GetCloudOSMetaInfo_def getConfigFileName_def readMetaYaml_def clearMetaInfo_def convertAndSetMetaInfo_def ex_registry_def
      ex_reg_env_def list_env_def ex_reg_meta_fun ex_reg_meta_mock ex_strings ex_strings' ex_strings'' spider_keys_def cspToSpiderMap_def elems_def
      ret_def lift_result_def checked_def draw_random_def stored_def Insert_def Open_def onDB_def list_table_def KVList_Value_def
      AZList_Value_def ex_enc_run[simplified] RegisterRegionInfo_def RegisterCloudDriverInfo_def dim_checkParams_def checkDriverLibFile_def
      CreateConnectionConfigInfo_def ccim_checkParams_def ex_registered_def ex_credential_def ex_region_def ex_driver_def ex_config_def Let_def)

lemmas ex_read = ex_registered_def ex_reg_env_def list_env_def list_table_def stored_def Get_def first_or_def Open_def onDB_def prog_simps
  by_name_def current_def ex_config_def ex_driver_def ex_region_def elems_def ex_dec

lemma ex_lookups:
  "GetConnectionConfig ex_reg_env ''conn'' (ex_registered d) = (Inr ((ex_config d)\<lparr>cfg_ProviderName := ''MOCK''\<rparr>), ex_registered d)"
  "dim_GetCloudDriver ex_reg_env ''d1'' (ex_registered d) = (Inr (ex_driver ''d1'' ''MOCK''), ex_registered d)"
  "dim_GetCloudDriver ex_reg_env ''d2'' (ex_registered d) = (Inr (ex_driver ''d2'' ''AWS''), ex_registered d)"
  "GetRegion ex_reg_env ''r1'' (ex_registered d) = (Inr (ex_region\<lparr>rgn_ProviderName := ''MOCK''\<rparr>), ex_registered d)"
  "GetCredentialDecrypt ex_reg_env ''c1'' (ex_registered d) = (Inr \<lparr>crd_CredentialName = ''c1'', crd_ProviderName = ''MOCK'',
     crd_KeyValueInfoList = Some [\<lparr>kv_Key = ''MockName'', kv_Value = ''secret''\<rparr>]\<rparr>, ex_registered d)"
  unfolding GetConnectionConfig_def dim_GetCloudDriver_def GetRegion_def GetCredentialDecrypt_def by (simp_all add: ex_read)

definition ex_ci :: ConnectionInfo where
  "ex_ci = connection_info ''conn'' [] [\<lparr>kv_Key = ''MockName'', kv_Value = ''secret''\<rparr>] (ex_region\<lparr>rgn_ProviderName := ''MOCK''\<rparr>)"

lemma ex_reg_info: "createConnectionInfo ex_reg_env ''conn'' [] (ex_registered d) = (Inr ex_ci, ex_registered d)"
  by (simp add: createConnectionInfo_def bindP_def ret_def ex_lookups ex_config_def ex_ci_def connection_info_def split_beta)

lemma ex_drivers:
  "GetCloudDriver ex_reg_env ''conn'' (ex_registered ''d1'') = (Inr MockDriver, ex_registered ''d1'')"
  "GetCloudDriver ex_reg_env ''conn'' (ex_registered ''d2'') = (Inr AwsDriver, ex_registered ''d2'')"
  by (simp_all add: GetCloudDriver_def bindP_def lift_result_def ex_lookups ex_config_def ex_driver_def getCloudDriver_def Let_def)

lemma ex_config_again:
  "CreateConnectionConfigInfo ex_reg_env (ex_config ''d2'') (ex_registered ''d1'') = (Inr (connection_row (ex_config ''d2'')), ex_registered ''d2'')"
  by (simp add: CreateConnectionConfigInfo_def ccim_checkParams_def checked_def Insert_def ex_read connection_row_def ex_strings ex_strings' ex_strings'' Let_def)

definition ex_state :: "string \<Rightarrow> nat \<Rightarrow> (string \<Rightarrow> CloudDriver cachedConnection option) \<Rightarrow> nat \<Rightarrow> (info_db, nat, CloudDriver) control" where
  "ex_state driver n cache t = \<lparr>ct_registry = ex_registered driver, ct_cloud = n, ct_connectionCache = cache, ct_ticks = t\<rparr>"

definition ex_cache :: "string \<Rightarrow> CloudDriver cachedConnection option" where
  "ex_cache = [cacheKey ex_ci \<mapsto> \<lparr>cc_conn = MockDriver, cc_expiresAt = connectionCacheTTL\<rparr>]"

lemma ex_common:
  "commonGetCloudConnection ex_control_env ''conn'' [] (ex_state ''d1'' 0 (\<lambda>_. None) 0) = (Inr MockDriver, ex_state ''d1'' 1 ex_cache 1)"
  "commonGetCloudConnection ex_control_env ''conn'' [] (ex_state ''d2'' 1 ex_cache 1) = (Inr MockDriver, ex_state ''d2'' 1 ex_cache 2)"
  by (simp_all add: commonGetCloudConnection_def bindP_def ret_def registered_def at_cloud_def Now_def load_cached_def store_cached_def
      ex_state_def ex_control_env_def ex_drivers ex_reg_info ex_cache_def connectionCacheTTL_def Let_def)

lemma ex_two_drivers:
  "GetCloudConnection ex_control_env ''conn'' (ex_state ''d1'' 0 (\<lambda>_. None) 0) = (Inr MockDriver, ex_state ''d1'' 1 ex_cache 1)"
  "registered (CreateConnectionConfigInfo ex_reg_env (ex_config ''d2'')) (ex_state ''d1'' 1 ex_cache 1) =
     (Inr (connection_row (ex_config ''d2'')), ex_state ''d2'' 1 ex_cache 1)"
  "GetCloudDriver ex_reg_env ''conn'' (ex_registered ''d2'') = (Inr AwsDriver, ex_registered ''d2'')"
  "GetCloudConnection ex_control_env ''conn'' (ex_state ''d2'' 1 ex_cache 1) = (Inr MockDriver, ex_state ''d2'' 1 ex_cache 2)"
  subgoal using ex_common(1) by (simp add: GetCloudConnection_def numeral_3_eq_3 catchP_def ret_def)
  subgoal by (simp add: registered_def ex_state_def ex_config_again)
  subgoal by (rule ex_drivers)
  subgoal using ex_common(2) by (simp add: GetCloudConnection_def numeral_3_eq_3 catchP_def ret_def)
  done

theorem GetZoneLevelCloudConnection_origin_witness:
  "GetZoneLevelCloudConnection ex_control_env ''conn'' [] (ex_state ''d1'' 0 (\<lambda>_. None) 0) = (Inr MockDriver, ex_state ''d1'' 1 ex_cache 1) \<and>
   (\<exists>ci m. described (db_views (st_db (rg_store (ex_registered ''d1'')))) ''conn'' [] ci \<and> 
     from_driver ex_control_env (ex_state ''d1'' 1 ex_cache 1) ci MockDriver m \<and> m = 0)"
proof -
  have run: "GetZoneLevelCloudConnection ex_control_env ''conn'' [] (ex_state ''d1'' 0 (\<lambda>_. None) 0) = (Inr MockDriver, ex_state ''d1'' 1 ex_cache 1)"
    using ex_two_drivers(1) by (simp add: GetCloudConnection_zone)
  have ok: "registry_ok (ce_registry ex_control_env) db_views" by (simp add: ex_control_env_def ex_reg_env_def list_env_ok)
  have "cache_ok ex_control_env (ex_state ''d1'' 0 (\<lambda>_. None) 0)" by (rule cache_ok_empty) (simp add: ex_state_def)
  from GetZoneLevelCloudConnection_origin[OF ok this run] run show ?thesis by (auto simp: viewed_def ex_state_def from_cache_def)
qed

end
