(* ===== verification/Spec2Isabelle.thy ===== *)
theory Spec2Isabelle
  imports SPLock IIDManager Validator InfoStore Requests KeyRegistry MockAttach DiskAttach AllResources VMExamples NLBManager Connections
begin

text \<open>
  CB-Spider gives one interface to the resources of many clouds. A client names a \<^emph>\<open>connection\<close> (a cloud, a region and a
  credential) and a resource by a name of its own; the runtime keeps, in a meta database, the row that relates the name to
  the identifier at the cloud service provider (CSP), and calls the driver of the cloud. This library models that core,
  in Go under \<open>src/\<close>, and proves what it promises: who may touch a resource at a time, what names are made and how they are
  read back, which rows every operation leaves on every path, and that waiting ends.

  \<^bold>\<open>How the program's parts interact.\<close> A request reaches a function of \<open>api-runtime/common-runtime\<close>. It trims and checks its
  input (\<open>validator.go\<close>), asks for the connection's driver and a handler (\<open>cloud-driver/interfaces\<close>), takes the locks of the
  resource (\<open>sp-lock\<close>), reads rows (\<open>info-store\<close>), makes a name for the driver (\<open>iid-manager\<close>), calls the handler, writes a
  row, and gives the user's names back (\<open>CommonManager.go\<close>). The connection itself comes from the registries of drivers,
  credentials, regions and connections (\<open>cloud-info-manager\<close>), through \<open>CloudDriverHandler_common.go\<close>. The driver here is the mock driver of the repository; the
  theorems on managers hold for every driver, unless they say that they are about the mock.

  \<^bold>\<open>The theories, bottom up.\<close>
  \<^item> \<open>Prelude\<close>: Go's \<open>(value, error)\<close> as a sum \<open>error + value\<close>, programs \<open>('s, 'a) prog\<close> as functions of an explicit state,
    \<open>bindP\<close> for "return on error" and \<open>catchP\<close> where the code looks at the error; weakest preconditions \<open>wp m Q E s\<close> (what holds
    after a return and after an error) and the collections \<open>wp_simps\<close>, \<open>wp_rules\<close> that most proofs are made of.
  \<^item> \<open>GoStrings\<close>: the functions of package \<open>strings\<close> and \<open>strconv\<close> that the code calls, on lists of bytes.
  \<^item> \<open>SPLock\<close> (\<open>sp-lock/splock.go\<close>): the map of reference-counted read-write locks. Goroutines are a step relation; the
    sections under the global mutex are one step each, waiting for and releasing an entry are steps of their own.
    Mutual exclusion, absence of panics, exactness of the counts, no leak, progress.
  \<^item> \<open>IID\<close> (\<open>IId.go\<close>, \<open>ResourceType.go\<close>, helpers of \<open>CommonManager.go\<close>) and \<open>IIDManager\<close> (\<open>IIDManager.go\<close>): names. Every branch
    over providers is there; length bounds, and the exact condition under which a stored identifier is read back.
  \<^item> \<open>Validator\<close> (\<open>validator.go\<close>): reflected values as a datatype; the walk with its panics, those on unexported fields too.
  \<^item> \<open>InfoStore\<close> (\<open>InfoStore.go\<close>) over a record \<open>gorm\<close> of the mapper's calls, whose documented behaviour is \<open>gorm_ok\<close>; locale
    \<open>iid_store\<close> is the contract the managers use, interpreted for every mapper that is \<open>gorm_ok\<close>. \<open>GormList\<close> is such a
    mapper, over lists, with failures on demand, on which witnesses run.
  \<^item> \<open>DriverInterfaces\<close> (\<open>interfaces/resources\<close>): requests, infos, and the handlers as records of programs. \<open>DriverContract\<close>:
    the locale \<open>csp_resource\<close> of drivers that behave like finite maps, with \<open>MockDriver\<close> as its instance for key pairs,
    security groups and VPCs (there also: adding and removing rules). \<open>MockCompute\<close>: disks, images, specs, private images,
    VMs. \<open>MockNLB\<close>: load balancers. \<open>MockAttach\<close>: disks and VMs agree over every run of the mock's handlers
    that keeps to \<open>op_allowed\<close>, which is up to the caller, as the handlers do not check it.
  \<^item> \<open>Runtime\<close>: the state of a request (\<open>world\<close>: database, clouds, slices that driver and runtime share, drawn xids, held
    locks, the cache of Windows images) and what it is given (\<open>env\<close>). \<open>CommonManager\<close>: the look-ups that all managers share, in
    the plain and in the permission-based mode, and the common end of a deletion.
  \<^item> \<open>KeyPairManager\<close>, \<open>SecurityGroupManager\<close>, \<open>VPCSubnetManager\<close>, \<open>DiskManager\<close>, \<open>MyImageManager\<close>, \<open>NLBManager\<close>: the managers,
    each with one definition per operation and, per operation, what it does to rows, locks and answers. \<open>KeyRegistry\<close>: an
    abstract registry of names that the key pair manager refines, outside the permission-based mode. \<open>DiskAttach\<close>: the disk manager over the mock.
    \<open>AllResources\<close>: the operations of \<open>CommonManager.go\<close> on resources of any type.
  \<^item> \<open>Waiter\<close> (\<open>Waiter.go\<close>), \<open>VMManager\<close>, \<open>VMStart\<close> (\<open>VMManager.go\<close>), \<open>VMExamples\<close>: virtual machines. A loop that polls a
    driver may not end: such operations are partial programs, \<open>None\<close> being "does not return", defined by
    \<open>partial_function\<close>; there is no fuel. That they return is proved where they do (\<open>wpR\<close>), that they do not where they do not.
  \<^item> \<open>CredentialCrypt\<close> (\<open>Encrypt\<close> and \<open>Decrypt\<close> of \<open>CredentialInfoManager.go\<close>, with base64, AES and the counter mode as Go's library
    has them), \<open>Registry\<close> (the four managers of \<open>cloud-info-manager\<close>, \<open>CloudOSMetainfo.go\<close>, \<open>KeyValueListValidator.go\<close>),
    \<open>RegistryTables\<close> (locale \<open>info_table\<close>, interpreted for each of the four tables; what registrations do to them), \<open>RegistryList\<close>
    (an instance over lists, and runs), \<open>Connections\<close> (\<open>CloudDriverHandler_common.go\<close>, \<open>CloudDriverHandler_static.go\<close>): what is
    registered is what a driver is told, values are kept encrypted, a kept connection is used for the same information only
    and for less than fifty minutes. These theories have a state of their own; the managers above take the look-ups of
    connections as parameters.
  \<^item> \<open>Requests\<close>: a server of the first five managers; what holds in all worlds that requests lead to. \<open>Example\<close>: the concrete
    environment of the witnesses.

  \<^bold>\<open>What the lemmas show.\<close> For an operation \<open>Op\<close>, \<open>Op_rows\<close> says which rows it leaves on success and on error and that every
  lock is given back; \<open>Op_shows\<close> and \<open>Op_complete\<close> say what is read; \<open>Op_returns\<close> that it ends; lemmas named \<open>ex_\<close> and \<open>t_\<close>
  are runs on concrete worlds, some of which exhibit faults of the code.

  \<^bold>\<open>Bounds.\<close> The waiter of \<open>GetVMStatus\<close> sleeps 3 seconds and gives up after 60, so the driver is asked at most 21 times; that
  of \<open>DeleteVM\<close> sleeps 15 and gives up after 600. A connection is asked for at most three times. The clock is a parameter that advances by what is slept, at least. Bytes and the words of AES and SHA-256
  are machine words. Go's \<open>int\<close> is \<open>int\<close>: no arithmetic here comes near 64 bits but \<open>strconv.Atoi\<close>, whose range check is modelled. The lock's counter
  is an \<open>int\<close>, and is shown to equal a number of goroutines.

  \<^bold>\<open>How Go is read.\<close>
  \<^item> A panic is an error value (\<open>nil_panic\<close>, \<open>index_panic\<close>): it ends the function and runs the deferred unlocks, which is
    what the managers do; an unlock that is not deferred is written out where the code has it.
  \<^item> Slices are values, except the VMs of a load balancer, which driver and runtime share through a pointer: there they are
    cells of a heap. A nil slice and an empty one differ only where the code asks.
  \<^item> The goroutines of \<open>ListVPC\<close>, \<open>ListVM\<close>, \<open>ListVMStatus\<close> and of the naming of a VM only read, write to places of their own and are
    waited for: they run one after the other. A message that is never sent is a program that does not return.
  \<^item> \<open>fmt.Errorf\<close> of a text that holds no verb is that text. Where a function returns a status beside an error and the caller
    drops it, so does the model.
  \<^item> Requests run one after the other; that this is faithful for one resource is what \<open>SPLock\<close> is about. The mock's methods
    are atomic, as each holds the lock of its map (the order in which \<open>DeleteDisk\<close> and \<open>TerminateVM\<close> take two locks is not modelled).

  \<^bold>\<open>What is assumed.\<close> Of the mapper: \<open>gorm_ok\<close> and, for the registries, \<open>registry_ok\<close>, each with an instance. (A deletion
  that is handed a row, as \<open>UnregisterResource\<close> does, may or may not add the row's primary key to its conditions.)
  Many lemmas on deletions and readings hold outside the permission-based mode only, \<open>\<not> permission_mode env\<close>, and say so. Of xids: their documented form. Of drivers: nothing, but in the
  lemmas on the mock. Configuration and region look-ups, capabilities, SSH and the clock are parameters.

  \<^bold>\<open>What is not modelled.\<close> The drivers of the real clouds, which call the vendors' SDKs; the REST layer, the command line, the
  web console and \<open>spiderwatch\<close>, which translate and present; the managers of clusters, object storage, databases, file
  systems, DNS, NICs, public IPs, tags, monitoring, prices and quotas; connections through a local server and drivers loaded
  as plug-ins; of
  \<open>VMManager.go\<close> the settings kept for the console; of \<open>CommonManager.go\<close> the deletion and the JSON rendering of resources that
  are not in the meta database; of the mock the handlers without state; log output everywhere.
\<close>

end
